(* ===== verification/GoLib.thy ===== *)
theory GoLib
  imports Complex_Main "HOL-Library.Multiset" "HOL-Library.List_Lexorder" "HOL-Library.Char_ord"
    "HOL-Library.Sublist"
begin

text \<open>
  The part of Go and of its standard library that the components share: byte strings and the
  functions of package strings that the server calls, decimal printing as \<open>%d\<close> does it,
  \<open>sort.Strings\<close>, the \<open>seen\<close>-map idiom for removing duplicates, and errors as sums.

  A Go \<open>string\<close> and a \<open>[]byte\<close> are both sequences of bytes; both are the HOL type
  \<^typ>\<open>string\<close>, whose \<^typ>\<open>char\<close> has exactly the 256 byte values. Case mapping is the
  ASCII mapping: on letters outside ASCII, where Go consults the Unicode tables,
  \<open>toUpper\<close> and \<open>toLower\<close> leave the byte as it is.
\<close>

named_theorems contract \<open>facts by which one component's operations are used by another\<close>

subsection \<open>Errors as values\<close>

text \<open>A Go call that returns \<open>(value, error)\<close> is a sum: \<open>Inl\<close> the error's text, \<open>Inr\<close>
  the value. A call that returns only \<open>error\<close> is \<^typ>\<open>string option\<close>: \<open>None\<close> is nil.\<close>

type_synonym 'a result = "string + 'a"
type_synonym goerror = "string option"

lemma result_cases_iff [simp]:
  "(case r of Inl e \<Rightarrow> Inl e | Inr x \<Rightarrow> f x) = Inr y \<longleftrightarrow> (\<exists>x. r = Inr x \<and> f x = Inr y)"
  by (cases r) auto

subsection \<open>Package strings\<close>

definition isUpperByte :: "char \<Rightarrow> bool" where
  "isUpperByte c \<longleftrightarrow> 65 \<le> (of_char c :: nat) \<and> (of_char c :: nat) \<le> 90"

definition isLowerByte :: "char \<Rightarrow> bool" where
  "isLowerByte c \<longleftrightarrow> 97 \<le> (of_char c :: nat) \<and> (of_char c :: nat) \<le> 122"

definition upperByte :: "char \<Rightarrow> char" where
  "upperByte c = (if isLowerByte c then char_of ((of_char c :: nat) - 32) else c)"

definition lowerByte :: "char \<Rightarrow> char" where
  "lowerByte c = (if isUpperByte c then char_of ((of_char c :: nat) + 32) else c)"

definition toUpper :: "string \<Rightarrow> string" where
  "toUpper s = map upperByte s"

definition toLower :: "string \<Rightarrow> string" where
  "toLower s = map lowerByte s"

definition equalFold :: "string \<Rightarrow> string \<Rightarrow> bool" where
  "equalFold s t \<longleftrightarrow> toLower s = toLower t"

definition hasPrefix :: "string \<Rightarrow> string \<Rightarrow> bool" where
  "hasPrefix s p \<longleftrightarrow> prefix p s"

definition hasSuffix :: "string \<Rightarrow> string \<Rightarrow> bool" where
  "hasSuffix s p \<longleftrightarrow> suffix p s"

definition trimPrefix :: "string \<Rightarrow> string \<Rightarrow> string" where
  "trimPrefix s p = (if hasPrefix s p then drop (length p) s else s)"

fun contains :: "string \<Rightarrow> string \<Rightarrow> bool" where
  "contains [] n = (n = [])"
| "contains (c # s) n = (prefix n (c # s) \<or> contains s n)"

definition isSpace :: "char \<Rightarrow> bool" where
  "isSpace c \<longleftrightarrow> (of_char c :: nat) \<in> {9, 10, 11, 12, 13, 32}"

definition trimSpace :: "string \<Rightarrow> string" where
  "trimSpace s = rev (dropWhile isSpace (rev (dropWhile isSpace s)))"

text \<open>\<open>strings.Split\<close> for a separator of one byte: always at least one piece.\<close>

fun splitOn :: "char \<Rightarrow> string \<Rightarrow> string list" where
  "splitOn c [] = [[]]"
| "splitOn c (x # s) =
     (if x = c then [] # splitOn c s
      else (case splitOn c s of [] \<Rightarrow> [[x]] | p # ps \<Rightarrow> (x # p) # ps))"

fun joinWith :: "string \<Rightarrow> string list \<Rightarrow> string" where
  "joinWith sep [] = []"
| "joinWith sep [s] = s"
| "joinWith sep (s # t # ts) = s @ sep @ joinWith sep (t # ts)"

text \<open>\<open>strings.ReplaceAll\<close> for a pattern of one byte.\<close>

definition replaceByte :: "char \<Rightarrow> string \<Rightarrow> string \<Rightarrow> string" where
  "replaceByte c r s = concat (map (\<lambda>x. if x = c then r else [x]) s)"

text \<open>\<open>s[:strings.IndexByte(s, c)]\<close> when the byte occurs, the whole string otherwise.\<close>

definition uptoByte :: "char \<Rightarrow> string \<Rightarrow> string" where
  "uptoByte c s = takeWhile (\<lambda>x. x \<noteq> c) s"

text \<open>The text after the last occurrence of a byte, if it occurs.\<close>

definition afterLastByte :: "char \<Rightarrow> string \<Rightarrow> string option" where
  "afterLastByte c s =
     (if c \<in> set s then Some (rev (takeWhile (\<lambda>x. x \<noteq> c) (rev s))) else None)"

lemma toUpper_Nil [simp]: "toUpper [] = []"
  by (simp add: toUpper_def)

lemma contains_iff_sublist: "contains s n \<longleftrightarrow> sublist n s"
  by (induction s) (auto simp: sublist_Cons_right)

lemma splitOn_not_Nil [simp]: "splitOn c s \<noteq> []"
  by (induction s) (auto split: list.splits)

lemma joinWith_chars: "c \<in> set (joinWith sep ss) \<Longrightarrow> c \<in> set sep \<or> (\<exists>s \<in> set ss. c \<in> set s)"
  by (induction sep ss rule: joinWith.induct) auto

lemma join_splitOn: "joinWith [c] (splitOn c s) = s"
proof (induction s)
  case (Cons x s)
  obtain p ps where "splitOn c s = p # ps"
    by (cases "splitOn c s") auto
  with Cons show ?case
    by (cases ps) auto
qed simp

lemma splitOn_piece: "p \<in> set (splitOn c s) \<Longrightarrow> c \<notin> set p"
  by (induction s arbitrary: p) (auto split: if_splits list.splits)

lemma splitOn_free: "c \<notin> set p \<Longrightarrow> splitOn c p = [p]"
  by (induction p) auto

lemma splitOn_free_append: "c \<notin> set p \<Longrightarrow> splitOn c (p @ c # s) = p # splitOn c s"
  by (induction p) auto

lemma splitOn_join:
  assumes "ps \<noteq> []" and "\<forall>p \<in> set ps. c \<notin> set p"
  shows "splitOn c (joinWith [c] ps) = ps"
  using assms
proof (induction ps rule: list_nonempty_induct)
  case (cons p ps)
  then show ?case by (cases ps) (simp_all add: splitOn_free_append)
qed (simp add: splitOn_free)

lemma takeWhile_sep: "c \<notin> set x \<Longrightarrow> takeWhile (\<lambda>a. a \<noteq> c) (x @ c # s) = x"
  by (induction x) auto

lemma append_sep_inj:
  assumes "c \<notin> set x" and "c \<notin> set y"
  shows "x @ c # s = y @ c # t \<longleftrightarrow> x = y \<and> s = t"
proof
  assume eq: "x @ c # s = y @ c # t"
  have "takeWhile (\<lambda>a. a \<noteq> c) (x @ c # s) = x" and "takeWhile (\<lambda>a. a \<noteq> c) (y @ c # t) = y"
    using takeWhile_sep assms by fast+
  with eq show "x = y \<and> s = t" by auto
qed simp

lemma append_last_sep_inj:
  assumes "c \<notin> set s" and "c \<notin> set t"
  shows "x @ c # s = y @ c # t \<longleftrightarrow> x = y \<and> s = t"
proof -
  have "x @ c # s = y @ c # t \<longleftrightarrow> rev (x @ c # s) = rev (y @ c # t)" by (simp only: rev_is_rev_conv)
  also have "\<dots> \<longleftrightarrow> rev s = rev t \<and> rev x = rev y"
    using append_sep_inj [of c "rev s" "rev t" "rev x" "rev y"] assms by simp
  finally show ?thesis by auto
qed

lemma upperByte_fix: "\<not> isLowerByte c \<Longrightarrow> upperByte c = c"
  by (simp add: upperByte_def)

lemma upperByte_not_lower: "\<not> isLowerByte (upperByte c)"
proof (cases "isLowerByte c")
  case True
  then have "(of_char c :: nat) - 32 < 256" and "(of_char c :: nat) - 32 \<le> 90"
    by (auto simp: isLowerByte_def)
  with True show ?thesis
    by (simp add: upperByte_def isLowerByte_def)
qed (simp add: upperByte_def)

lemma toUpper_idem [simp]: "toUpper (toUpper s) = toUpper s"
  by (simp add: toUpper_def upperByte_fix upperByte_not_lower)

lemma isSpace_upperByte [simp]: "isSpace (upperByte c) = isSpace c"
proof (cases "isLowerByte c")
  case True
  then have le: "97 \<le> (of_char c :: nat)" "(of_char c :: nat) \<le> 122"
    by (auto simp: isLowerByte_def)
  then have "(of_char (upperByte c) :: nat) = of_char c - 32"
    using True by (simp add: upperByte_def)
  with le show ?thesis by (auto simp: isSpace_def)
qed (simp add: upperByte_def)

lemma trimSpace_map:
  assumes "\<And>c. isSpace (f c) = isSpace c"
  shows "trimSpace (map f s) = map f (trimSpace s)"
  using assms by (simp add: trimSpace_def dropWhile_map rev_map comp_def)

lemma dropWhile_hd_False: "xs = [] \<or> \<not> P (hd xs) \<Longrightarrow> dropWhile P xs = xs"
  by (cases xs) auto

lemma trimSpace_id:
  assumes "s = [] \<or> (\<not> isSpace (hd s) \<and> \<not> isSpace (last s))"
  shows "trimSpace s = s"
  using assms by (cases "s = []") (auto simp: trimSpace_def dropWhile_hd_False hd_rev)

lemma trimSpace_ends:
  "trimSpace s = [] \<or> (\<not> isSpace (hd (trimSpace s)) \<and> \<not> isSpace (last (trimSpace s)))"
proof (cases "trimSpace s = []")
  case False
  let ?d = "dropWhile isSpace s"
  let ?r = "dropWhile isSpace (rev ?d)"
  have r: "?r \<noteq> []" and ts: "trimSpace s = rev ?r"
    using False by (auto simp: trimSpace_def)
  have last: "\<not> isSpace (last (trimSpace s))"
    using r hd_dropWhile [of isSpace "rev ?d"] by (auto simp: ts last_rev)
  have "suffix ?r (rev ?d)"
    by (simp add: suffix_dropWhile)
  then have "prefix (trimSpace s) ?d"
    by (simp add: ts suffix_to_prefix)
  then have hd: "hd (trimSpace s) = hd ?d"
    using False by (auto elim!: prefixE)
  have "?d \<noteq> []"
    using False by (metis dropWhile.simps(1) rev.simps(1) trimSpace_def)
  then have "\<not> isSpace (hd ?d)"
    by (rule hd_dropWhile)
  with hd last show ?thesis by simp
qed simp

lemma trimSpace_idem [simp]: "trimSpace (trimSpace s) = trimSpace s"
  by (rule trimSpace_id) (rule trimSpace_ends)

subsection \<open>Decimal and hexadecimal text\<close>

definition digitChar :: "nat \<Rightarrow> char" where
  "digitChar n = char_of (48 + n)"

fun decNat :: "nat \<Rightarrow> string" where
  "decNat n = (if n < 10 then [digitChar n] else decNat (n div 10) @ [digitChar (n mod 10)])"

declare decNat.simps [simp del]

definition decInt :: "int \<Rightarrow> string" where
  "decInt i = (if i < 0 then CHR ''-'' # decNat (nat (- i)) else decNat (nat i))"

definition isDigit :: "char \<Rightarrow> bool" where
  "isDigit c \<longleftrightarrow> 48 \<le> (of_char c :: nat) \<and> (of_char c :: nat) \<le> 57"

definition digitVal :: "char \<Rightarrow> nat" where
  "digitVal c = (of_char c :: nat) - 48"

definition readDec :: "string \<Rightarrow> nat" where
  "readDec s = fold (\<lambda>c n. n * 10 + digitVal c) s 0"

lemma digitVal_digitChar [simp]: "n < 10 \<Longrightarrow> digitVal (digitChar n) = n"
  by (simp add: digitVal_def digitChar_def)

lemma isDigit_digitChar [simp]: "n < 10 \<Longrightarrow> isDigit (digitChar n)"
  by (simp add: isDigit_def digitChar_def)

lemma readDec_decNat [simp]: "readDec (decNat n) = n"
proof (induction n rule: decNat.induct)
  case (1 n)
  then show ?case
    by (cases "n < 10") (auto simp: decNat.simps [of n] readDec_def)
qed

lemma decNat_digits: "c \<in> set (decNat n) \<Longrightarrow> isDigit c"
proof (induction n rule: decNat.induct)
  case (1 n)
  then show ?case
    by (cases "n < 10") (auto simp: decNat.simps [of n])
qed

lemma decNat_inj [simp]: "decNat m = decNat n \<longleftrightarrow> m = n"
  by (metis readDec_decNat)

lemma decNat_not_Nil [simp]: "decNat n \<noteq> []"
  by (subst decNat.simps) simp

lemma minus_notin_decNat: "CHR ''-'' \<notin> set (decNat n)"
  by (auto dest!: decNat_digits simp: isDigit_def)

lemma decInt_inj [simp]: "decInt i = decInt j \<longleftrightarrow> i = j"
proof
  assume eq: "decInt i = decInt j"
  have hd_nat: "hd (decNat n) \<noteq> CHR ''-''" for n
    using minus_notin_decNat [of n] by (metis decNat_not_Nil hd_in_set)
  from eq hd_nat have "(i < 0) = (j < 0)"
    by (metis decInt_def list.sel(1))
  with eq show "i = j"
    by (auto simp: decInt_def split: if_splits)
qed simp

lemma decInt_chars: "c \<in> set (decInt i) \<Longrightarrow> isDigit c \<or> c = CHR ''-''"
  by (auto simp: decInt_def dest: decNat_digits split: if_splits)

text \<open>\<open>strconv.ParseInt(s, 10, 64)\<close>; \<open>None\<close> is a syntax or range error.\<close>

definition parseInt64 :: "string \<Rightarrow> int option" where
  "parseInt64 s =
     (let neg = (case s of c # _ \<Rightarrow> c = CHR ''-'' | [] \<Rightarrow> False);
          ds = (case s of c # r \<Rightarrow> if c = CHR ''-'' \<or> c = CHR ''+'' then r else s | [] \<Rightarrow> []);
          i = (if neg then - int (readDec ds) else int (readDec ds))
      in if ds = [] \<or> \<not> list_all isDigit ds \<or> i < - (2 ^ 63) \<or> 2 ^ 63 \<le> i then None else Some i)"

lemma parseInt64_range: "parseInt64 s = Some i \<Longrightarrow> - (2 ^ 63) \<le> i \<and> i < 2 ^ 63"
  by (auto simp: parseInt64_def Let_def split: if_splits)

definition hexDigit :: "nat \<Rightarrow> char" where
  "hexDigit n = (if n < 10 then char_of (48 + n) else char_of (87 + n))"

definition hexEncode :: "string \<Rightarrow> string" where
  "hexEncode s = concat (map (\<lambda>c. [hexDigit (of_char c div 16), hexDigit (of_char c mod 16)]) s)"

definition isHexDigit :: "char \<Rightarrow> bool" where
  "isHexDigit c \<longleftrightarrow> isDigit c \<or> (97 \<le> (of_char c :: nat) \<and> (of_char c :: nat) \<le> 102)"

lemma isHexDigit_hexDigit: "n < 16 \<Longrightarrow> isHexDigit (hexDigit n)"
  by (auto simp: hexDigit_def isHexDigit_def isDigit_def)

lemma hexEncode_chars: "c \<in> set (hexEncode s) \<Longrightarrow> isHexDigit c"
proof -
  have lt: "(of_char d :: nat) div 16 < 16" for d
    using of_char_mod_256 [of d, where ?'a = nat] by (simp add: less_mult_imp_div_less)
  show "c \<in> set (hexEncode s) \<Longrightarrow> isHexDigit c"
    by (auto simp: hexEncode_def lt intro: isHexDigit_hexDigit)
qed

subsection \<open>Lists built by loops\<close>

text \<open>The idiom of a loop that skips what a \<open>seen\<close> map holds: first occurrences in order.\<close>

fun firstSeen :: "'a list \<Rightarrow> 'a list \<Rightarrow> 'a list" where
  "firstSeen seen [] = []"
| "firstSeen seen (x # xs) =
     (if x \<in> set seen then firstSeen seen xs else x # firstSeen (x # seen) xs)"

lemma set_firstSeen [simp]: "set (firstSeen seen xs) = set xs - set seen"
  by (induction xs arbitrary: seen) auto

lemma distinct_firstSeen [simp]: "distinct (firstSeen seen xs)"
  by (induction xs arbitrary: seen) auto

lemma length_firstSeen: "length (firstSeen seen xs) = card (set xs - set seen)"
  by (metis distinct_card distinct_firstSeen set_firstSeen)

end
