(* ===== verification/Tables.thy ===== *)
theory Tables
  imports GoLib
begin

text \<open>
  What the server's SQL statements do to a table, for the statement shapes that
  \<^verbatim>\<open>server/internal/store/store.go\<close> uses: a table is the list of its rows in insertion
  order, \<open>key\<close> reads the primary (or conflict) key. The locale \<open>keyed_update\<close> is the contract
  every \<open>UPDATE ... WHERE key = $1\<close> of the store keeps: the statement leaves the key column
  alone. Its lemmas are proved once here and reach each table through an interpretation in the
  theory of the component that issues the statement.
\<close>

text \<open>\<open>INSERT ... ON CONFLICT (key) DO NOTHING\<close>.\<close>

definition tblInsert :: "('r \<Rightarrow> 'k) \<Rightarrow> 'r \<Rightarrow> 'r list \<Rightarrow> 'r list" where
  "tblInsert key r t = (if key r \<in> key ` set t then t else t @ [r])"

text \<open>\<open>UPDATE ... SET f WHERE key = k\<close>; also the \<open>DO UPDATE\<close> branch of an upsert.\<close>

definition tblUpdate :: "('r \<Rightarrow> 'k) \<Rightarrow> 'k \<Rightarrow> ('r \<Rightarrow> 'r) \<Rightarrow> 'r list \<Rightarrow> 'r list" where
  "tblUpdate key k f t = map (\<lambda>r. if key r = k then f r else r) t"

text \<open>\<open>INSERT ... ON CONFLICT (key) DO UPDATE SET\<close>, with the new row and the change to the old one.\<close>

definition tblUpsert :: "('r \<Rightarrow> 'k) \<Rightarrow> 'r \<Rightarrow> ('r \<Rightarrow> 'r) \<Rightarrow> 'r list \<Rightarrow> 'r list" where
  "tblUpsert key r f t =
     (if key r \<in> key ` set t then tblUpdate key (key r) f t else t @ [r])"

text \<open>\<open>DELETE ... WHERE key = k\<close>.\<close>

definition tblDelete :: "('r \<Rightarrow> 'k) \<Rightarrow> 'k \<Rightarrow> 'r list \<Rightarrow> 'r list" where
  "tblDelete key k t = filter (\<lambda>r. key r \<noteq> k) t"

text \<open>\<open>SELECT ... WHERE key = k\<close> read with \<open>QueryRow\<close>: \<open>None\<close> is \<open>pgx.ErrNoRows\<close>.\<close>

definition tblFind :: "('r \<Rightarrow> 'k) \<Rightarrow> 'k \<Rightarrow> 'r list \<Rightarrow> 'r option" where
  "tblFind key k t = find (\<lambda>r. key r = k) t"

text \<open>The primary-key constraint.\<close>

definition keyUnique :: "('r \<Rightarrow> 'k) \<Rightarrow> 'r list \<Rightarrow> bool" where
  "keyUnique key t \<longleftrightarrow> distinct (map key t)"

lemma keyUnique_Nil [simp]: "keyUnique key []"
  by (simp add: keyUnique_def)

lemma keyUnique_insert [simp]: "keyUnique key t \<Longrightarrow> keyUnique key (tblInsert key r t)"
  by (auto simp: keyUnique_def tblInsert_def)

lemma keyUnique_delete [simp]: "keyUnique key t \<Longrightarrow> keyUnique key (tblDelete key k t)"
  by (simp add: keyUnique_def tblDelete_def distinct_map_filter)

lemma set_tblInsert:
  "set (tblInsert key r t) = (if key r \<in> key ` set t then set t else insert r (set t))"
  by (simp add: tblInsert_def)

lemma set_tblDelete: "set (tblDelete key k t) = {r \<in> set t. key r \<noteq> k}"
  by (simp add: tblDelete_def)

lemma set_tblUpdate:
  "set (tblUpdate key k f t) = {r \<in> set t. key r \<noteq> k} \<union> f ` {r \<in> set t. key r = k}"
  by (auto simp: tblUpdate_def)

lemma keyUnique_eq: "keyUnique key t \<Longrightarrow> r \<in> set t \<Longrightarrow> r' \<in> set t \<Longrightarrow> key r = key r' \<Longrightarrow> r = r'"
  by (auto simp: keyUnique_def distinct_map dest: inj_onD)

lemma tblFind_Some: "tblFind key k t = Some r \<Longrightarrow> r \<in> set t \<and> key r = k"
  by (auto simp: tblFind_def find_Some_iff)

lemma tblFind_None [simp]: "tblFind key k t = None \<longleftrightarrow> k \<notin> key ` set t"
  by (auto simp: tblFind_def find_None_iff)

lemma tblFind_unique:
  assumes "keyUnique key t" and "r \<in> set t"
  shows "tblFind key (key r) t = Some r"
proof (cases "tblFind key (key r) t")
  case None
  with assms(2) show ?thesis by auto
next
  case (Some r')
  with tblFind_Some [OF Some] keyUnique_eq [OF assms(1)] assms(2) show ?thesis by auto
qed

locale keyed_update =
  fixes key :: "'r \<Rightarrow> 'k" and upd :: "'r \<Rightarrow> 'r"
  assumes key_upd: "key (upd r) = key r"
begin

lemma map_key: "map key (tblUpdate key k upd t) = map key t"
  by (auto simp: tblUpdate_def key_upd)

lemma unique: "keyUnique key (tblUpdate key k upd t) \<longleftrightarrow> keyUnique key t"
  by (simp add: keyUnique_def map_key)

lemma keys: "key ` set (tblUpdate key k upd t) = key ` set t"
  by (metis map_key set_map)

lemma find_same: "tblFind key k (tblUpdate key k upd t) = map_option upd (tblFind key k t)"
  by (induction t) (auto simp: tblUpdate_def tblFind_def key_upd)

lemma find_other: "k' \<noteq> k \<Longrightarrow> tblFind key k' (tblUpdate key k upd t) = tblFind key k' t"
  by (induction t) (auto simp: tblUpdate_def tblFind_def key_upd)

lemma find_upsert:
  "tblFind key k (tblUpsert key r upd t) =
     (if k = key r then Some (case tblFind key k t of None \<Rightarrow> r | Some old \<Rightarrow> upd old)
      else tblFind key k t)"
proof (cases "key r \<in> key ` set t")
  case True
  then obtain old where "tblFind key (key r) t = Some old"
    by (cases "tblFind key (key r) t") auto
  with True show ?thesis
    by (auto simp: tblUpsert_def find_same find_other)
next
  case False
  then have "tblFind key (key r) t = None" by simp
  with False show ?thesis
    by (auto simp: tblUpsert_def tblFind_def split: option.splits dest: sym)
      (induction t; auto)+
qed

lemma unique_upsert: "keyUnique key t \<Longrightarrow> keyUnique key (tblUpsert key r upd t)"
  by (simp add: tblUpsert_def unique) (auto simp: keyUnique_def)

end

end
