(* ===== verification/WaveGraph.thy ===== *)
theory WaveGraph
  imports Tables "HOL-Library.AList" "HOL-Library.Product_Lexorder"
begin

text \<open>
  The wave-plan dependency graph: \<^verbatim>\<open>server/internal/waveplan/graph.go\<close>, with the row type
  \<open>WavePlan\<close> of \<^verbatim>\<open>server/internal/store/store.go\<close>. \<open>BuildGraph\<close> is translated loop by
  loop: the edge loop with its \<open>seen\<close> map, the node loop, and Kahn's algorithm with its sorted
  queue. Go maps that the code iterates over are association lists (the code sorts what the
  iteration yields), so their unspecified order does not show.

  Times are instants as integers; \<open>float64\<close> hours are reals; \<open>int\<close> is unbounded.
\<close>

subsection \<open>Data\<close>

record WavePlan =
  PlanID :: string
  wpName :: string
  Description :: string
  WaveNumber :: int
  AssetIDs :: "string list"
  AlgorithmTargets :: "string list"
  StartDate :: "int option"
  TargetDate :: "int option"
  wpStatus :: string
  CreatedBy :: string
  CreatedAt :: int
  UpdatedAt :: int
  CanaryTargets :: "string list"
  MaintenanceWindow :: string
  ApprovalPolicy :: string
  BudgetHours :: real
  ActualHours :: real
  ComponentCount :: int
  DependsOn :: "string list"
  wpTenantID :: string

definition StatusPlanned :: string where "StatusPlanned = ''planned''"
definition StatusActive :: string where "StatusActive = ''active''"
definition StatusCompleted :: string where "StatusCompleted = ''completed''"
definition StatusCancelled :: string where "StatusCancelled = ''cancelled''"

lemmas status_defs = StatusPlanned_def StatusActive_def StatusCompleted_def StatusCancelled_def

lemma status_distinct [simp]:
  "StatusPlanned \<noteq> StatusActive" "StatusPlanned \<noteq> StatusCompleted" "StatusPlanned \<noteq> StatusCancelled"
  "StatusActive \<noteq> StatusPlanned" "StatusActive \<noteq> StatusCompleted" "StatusActive \<noteq> StatusCancelled"
  "StatusCompleted \<noteq> StatusPlanned" "StatusCompleted \<noteq> StatusActive" "StatusCompleted \<noteq> StatusCancelled"
  "StatusCancelled \<noteq> StatusPlanned" "StatusCancelled \<noteq> StatusActive" "StatusCancelled \<noteq> StatusCompleted"
  by (simp_all add: status_defs)

record GraphNode =
  gnPlanID :: string
  gnName :: string
  gnWaveNumber :: int
  gnStatus :: string
  gnDependsOn :: "string list"
  BlockedBy :: "string list"
  Activatable :: bool

text \<open>An edge \<open>(From, To)\<close>: From depends on To.\<close>

type_synonym GraphEdge = "string \<times> string"

record DependencyGraph =
  Nodes :: "GraphNode list"
  Edges :: "GraphEdge list"
  TopologicalOrder :: "string list"
  Cycles :: "string list list"
  UnknownRefs :: "GraphEdge list"

subsection \<open>Go maps with a zero value\<close>

type_synonym 'v gomap = "(string \<times> 'v) list"

definition mapGet :: "'v \<Rightarrow> 'v gomap \<Rightarrow> string \<Rightarrow> 'v" where
  "mapGet z m k = (case map_of m k of None \<Rightarrow> z | Some v \<Rightarrow> v)"

definition mapSet :: "string \<Rightarrow> 'v \<Rightarrow> 'v gomap \<Rightarrow> 'v gomap" where
  "mapSet k v m = AList.update k v m"

lemma mapGet_mapSet [simp]: "mapGet z (mapSet k v m) k' = (if k' = k then v else mapGet z m k')"
  by (simp add: mapGet_def mapSet_def update_conv')

lemma keys_mapSet [simp]: "fst ` set (mapSet k v m) = insert k (fst ` set m)"
  by (simp add: mapSet_def dom_update)

lemma distinct_mapSet [simp]: "distinct (map fst m) \<Longrightarrow> distinct (map fst (mapSet k v m))"
  by (simp add: mapSet_def distinct_update)

lemma mapGet_Nil [simp]: "mapGet z [] k = z"
  by (simp add: mapGet_def)

lemma in_gomap_iff:
  assumes "distinct (map fst m)"
  shows "(k, v) \<in> set m \<longleftrightarrow> k \<in> fst ` set m \<and> mapGet z m k = v"
proof (cases "map_of m k")
  case None
  then have "k \<notin> fst ` set m" by (simp add: map_of_eq_None_iff)
  then show ?thesis by force
next
  case (Some w)
  then have "k \<in> fst ` set m" by (metis domI dom_map_of_conv_image_fst)
  with assms Some show ?thesis
    by (metis (no_types, lifting) map_of_eq_Some_iff mapGet_def option.inject option.simps(5))
qed

lemma keys_where:
  assumes "distinct (map fst m)"
  shows "v \<in> set (map fst (filter (\<lambda>kv. P (snd kv)) m)) \<longleftrightarrow> v \<in> fst ` set m \<and> P (mapGet z m v)"
proof -
  have "v \<in> set (map fst (filter (\<lambda>kv. P (snd kv)) m)) \<longleftrightarrow> (\<exists>x. (v, x) \<in> set m \<and> P x)"
    by (auto intro: rev_image_eqI)
  with assms show ?thesis by (simp add: in_gomap_iff [of m v _ z])
qed

subsection \<open>The edge loop\<close>

record EdgeState =
  esEdges :: "GraphEdge list"
  esUnknown :: "GraphEdge list"
  esDependents :: "string list gomap"
  esIndegree :: "int gomap"

definition byID :: "WavePlan list \<Rightarrow> string \<Rightarrow> WavePlan option" where
  "byID plans = fold (\<lambda>p m. m(PlanID p \<mapsto> p)) plans Map.empty"

definition isKnown :: "WavePlan list \<Rightarrow> string \<Rightarrow> bool" where
  "isKnown plans d \<longleftrightarrow> byID plans d \<noteq> None"

fun initIndegree :: "WavePlan list \<Rightarrow> int gomap \<Rightarrow> int gomap" where
  "initIndegree [] m = m"
| "initIndegree (p # plans) m =
     initIndegree plans (if PlanID p \<in> fst ` set m then m else mapSet (PlanID p) 0 m)"

fun addDeps :: "(string \<Rightarrow> bool) \<Rightarrow> string \<Rightarrow> string list \<Rightarrow> string list \<Rightarrow> EdgeState \<Rightarrow> EdgeState" where
  "addDeps known pid seen [] s = s"
| "addDeps known pid seen (dep # deps) s =
     (if dep = pid \<or> dep \<in> set seen then addDeps known pid seen deps s
      else if \<not> known dep then
        addDeps known pid (dep # seen) deps (s\<lparr>esUnknown := esUnknown s @ [(pid, dep)]\<rparr>)
      else
        addDeps known pid (dep # seen) deps
          (s\<lparr>esEdges := esEdges s @ [(pid, dep)],
             esDependents := mapSet dep (mapGet [] (esDependents s) dep @ [pid]) (esDependents s),
             esIndegree := mapSet pid (mapGet 0 (esIndegree s) pid + 1) (esIndegree s)\<rparr>))"

definition linkPlans :: "WavePlan list \<Rightarrow> EdgeState" where
  "linkPlans plans =
     fold (\<lambda>p s. addDeps (isKnown plans) (PlanID p) [] (DependsOn p) s) plans
       \<lparr>esEdges = [], esUnknown = [], esDependents = [], esIndegree = initIndegree plans []\<rparr>"

subsection \<open>The node loop\<close>

definition blockedBy :: "WavePlan list \<Rightarrow> WavePlan \<Rightarrow> string list" where
  "blockedBy plans p =
     filter (\<lambda>dep. case byID plans dep of
                     None \<Rightarrow> False
                   | Some d \<Rightarrow> dep \<noteq> PlanID p \<and> wpStatus d \<noteq> StatusCompleted) (DependsOn p)"

definition buildNode :: "WavePlan list \<Rightarrow> WavePlan \<Rightarrow> GraphNode" where
  "buildNode plans p =
     \<lparr>gnPlanID = PlanID p, gnName = wpName p, gnWaveNumber = WaveNumber p,
      gnStatus = wpStatus p, gnDependsOn = DependsOn p, BlockedBy = blockedBy plans p,
      Activatable = (wpStatus p = StatusPlanned \<and> blockedBy plans p = [])\<rparr>"

subsection \<open>Kahn's algorithm\<close>

text \<open>The inner loop: decrement each dependent, enqueue the ones that reach zero.\<close>

fun relax :: "string list \<Rightarrow> int gomap \<Rightarrow> string list \<Rightarrow> int gomap \<times> string list" where
  "relax [] m q = (m, q)"
| "relax (d # ds) m q =
     (let m' = mapSet d (mapGet 0 m d - 1) m
      in relax ds m' (if mapGet 0 m' d = 0 then q @ [d] else q))"

definition pending :: "int gomap \<Rightarrow> nat" where
  "pending m = sum_list (map (nat \<circ> snd) m)"

lemma pending_mapSet:
  "pending (mapSet k v m) + nat (mapGet 0 m k) = pending m + nat v"
  by (induction m) (auto simp: pending_def mapSet_def mapGet_def)

lemma pending_decr:
  "pending (mapSet k (mapGet 0 m k - 1) m) + (if mapGet 0 m k = 1 then 1 else 0) \<le> pending m"
  using pending_mapSet [of k "mapGet 0 m k - 1" m] by auto

lemma relax_pending:
  "relax ds m q = (m', q') \<Longrightarrow> length q' + pending m' \<le> length q + pending m"
proof (induction ds arbitrary: m q)
  case (Cons d ds)
  from Cons.IH [OF Cons.prems [unfolded relax.simps Let_def]] pending_decr [of d m]
  show ?case by (auto split: if_splits)
qed simp

function kahn :: "string list gomap \<Rightarrow> string list \<Rightarrow> int gomap \<Rightarrow> string list
    \<Rightarrow> int gomap \<times> string list" where
  "kahn deps [] m order = (m, order)"
| "kahn deps (i # q) m order =
     (case relax (sort (mapGet [] deps i)) m q of
        (m', q') \<Rightarrow> kahn deps (sort q') m' (order @ [i]))"
  by pat_completeness auto
termination
  by (relation "measure (\<lambda>(deps, q, m, order). length q + pending m)")
    (auto dest!: relax_pending [OF sym])

definition BuildGraph :: "WavePlan list \<Rightarrow> DependencyGraph" where
  "BuildGraph plans =
     (let s = linkPlans plans;
          nodes = sort_key (\<lambda>n. (gnWaveNumber n, gnPlanID n)) (map (buildNode plans) plans);
          queue = sort (map fst (filter (\<lambda>kv. snd kv = 0) (esIndegree s)));
          (m, order) = kahn (esDependents s) queue (esIndegree s) [];
          cyclic = sort (map fst (filter (\<lambda>kv. 0 < snd kv) m))
      in if length order < length (esIndegree s)
         then \<lparr>Nodes = nodes, Edges = esEdges s, TopologicalOrder = [],
               Cycles = [cyclic], UnknownRefs = esUnknown s\<rparr>
         else \<lparr>Nodes = nodes, Edges = esEdges s, TopologicalOrder = order,
               Cycles = [], UnknownRefs = esUnknown s\<rparr>)"

definition HasCycle :: "DependencyGraph \<Rightarrow> bool" where
  "HasCycle g \<longleftrightarrow> Cycles g \<noteq> []"

subsection \<open>Budget roll-up\<close>

record BudgetSummary =
  TotalBudgetHours :: real
  TotalActualHours :: real
  VarianceHours :: real
  OverBudget :: bool
  TotalComponents :: int
  PlanCount :: nat
  StatusCounts :: "nat gomap"
  CompletionPercent :: real

definition addPlanBudget :: "WavePlan \<Rightarrow> BudgetSummary \<Rightarrow> BudgetSummary" where
  "addPlanBudget p s =
     s\<lparr>TotalBudgetHours := TotalBudgetHours s + BudgetHours p,
       TotalActualHours := TotalActualHours s + ActualHours p,
       TotalComponents := TotalComponents s + ComponentCount p,
       StatusCounts := mapSet (wpStatus p) (mapGet 0 (StatusCounts s) (wpStatus p) + 1)
                         (StatusCounts s)\<rparr>"

definition ComputeBudget :: "WavePlan list \<Rightarrow> BudgetSummary" where
  "ComputeBudget plans =
     (let s = fold addPlanBudget plans
                \<lparr>TotalBudgetHours = 0, TotalActualHours = 0, VarianceHours = 0,
                 OverBudget = False, TotalComponents = 0, PlanCount = 0, StatusCounts = [],
                 CompletionPercent = 0\<rparr>;
          n = length plans
      in s\<lparr>PlanCount := n,
           VarianceHours := TotalActualHours s - TotalBudgetHours s,
           OverBudget := (TotalBudgetHours s > 0 \<and> TotalActualHours s > TotalBudgetHours s),
           CompletionPercent :=
             (if n > 0 then real (mapGet 0 (StatusCounts s) StatusCompleted) / real n * 100
              else 0)\<rparr>)"

subsection \<open>The edge loop: what it leaves behind\<close>

lemma byID_find: "byID plans d = tblFind PlanID d (rev plans)"
  by (induction plans rule: rev_induct) (auto simp: byID_def tblFind_def)

lemma byID_Some: "byID plans d = Some p \<Longrightarrow> p \<in> set plans \<and> PlanID p = d"
  using tblFind_Some [of PlanID d "rev plans" p] by (simp add: byID_find)

lemma isKnown_iff: "isKnown plans d \<longleftrightarrow> d \<in> PlanID ` set plans"
  by (induction plans rule: rev_induct) (auto simp: byID_def isKnown_def)

lemma initIndegree_spec:
  "distinct (map fst m) \<Longrightarrow> (\<forall>v. mapGet 0 m v = 0) \<Longrightarrow>
   distinct (map fst (initIndegree plans m)) \<and> (\<forall>v. mapGet 0 (initIndegree plans m) v = 0) \<and>
   fst ` set (initIndegree plans m) = fst ` set m \<union> PlanID ` set plans"
  by (induction plans m rule: initIndegree.induct) auto

text \<open>The counters and adjacency lists agree with the edges recorded so far.\<close>

definition link_inv :: "string set \<Rightarrow> EdgeState \<Rightarrow> bool" where
  "link_inv K s \<longleftrightarrow>
     distinct (map fst (esIndegree s)) \<and> fst ` set (esIndegree s) = K \<and>
     (\<forall>v. mapGet 0 (esIndegree s) v = int (length (filter (\<lambda>e. fst e = v) (esEdges s)))) \<and>
     (\<forall>t. mapGet [] (esDependents s) t = map fst (filter (\<lambda>e. snd e = t) (esEdges s))) \<and>
     (\<forall>e \<in> set (esEdges s). fst e \<in> K \<and> snd e \<in> K)"

lemma addDeps_inv:
  assumes pid: "pid \<in> K" and known: "\<And>d. known d \<Longrightarrow> d \<in> K"
  shows "link_inv K s \<Longrightarrow> link_inv K (addDeps known pid seen deps s)"
proof (induction deps arbitrary: seen s)
  case (Cons dep deps)
  let ?s = "s\<lparr>esEdges := esEdges s @ [(pid, dep)],
         esDependents := mapSet dep (mapGet [] (esDependents s) dep @ [pid]) (esDependents s),
         esIndegree := mapSet pid (mapGet 0 (esIndegree s) pid + 1) (esIndegree s)\<rparr>"
  have "link_inv K ?s" if "known dep"
    using Cons.prems pid known [OF that] by (simp add: link_inv_def insert_absorb)
  moreover have "link_inv K (s\<lparr>esUnknown := u\<rparr>)" for u
    using Cons.prems by (simp add: link_inv_def)
  ultimately show ?case using Cons by simp
qed simp

lemma linkPlans_inv: "link_inv (PlanID ` set plans) (linkPlans plans)"
proof -
  let ?K = "PlanID ` set plans"
  have "set ps \<subseteq> set plans \<Longrightarrow> link_inv ?K s \<Longrightarrow>
      link_inv ?K (fold (\<lambda>p s. addDeps (isKnown plans) (PlanID p) [] (DependsOn p) s) ps s)"
    for ps s
  proof (induction ps arbitrary: s)
    case (Cons p ps)
    have "link_inv ?K (addDeps (isKnown plans) (PlanID p) [] (DependsOn p) s)"
      by (rule addDeps_inv) (use Cons.prems in \<open>auto simp: isKnown_iff\<close>)
    with Cons show ?case by simp
  qed simp
  moreover have "link_inv ?K \<lparr>esEdges = [], esUnknown = [], esDependents = [],
      esIndegree = initIndegree plans []\<rparr>"
    using initIndegree_spec [of "[]" plans] by (simp add: link_inv_def)
  ultimately show ?thesis by (simp add: linkPlans_def)
qed

text \<open>The edges are exactly the known, non-self dependencies that the plans declare.\<close>

definition plan_edges :: "WavePlan list \<Rightarrow> (string \<times> string) set" where
  "plan_edges plans = {(PlanID p, d) | p d. p \<in> set plans \<and> d \<in> set (DependsOn p) \<and>
                         d \<noteq> PlanID p \<and> d \<in> PlanID ` set plans}"

lemma addDeps_edges:
  "set (esEdges (addDeps known pid seen deps s)) =
     set (esEdges s) \<union> Pair pid ` {d \<in> set deps - set seen. d \<noteq> pid \<and> known d}"
proof (induction deps arbitrary: seen s)
  case (Cons dep deps)
  then show ?case by (cases "dep = pid"; cases "dep \<in> set seen"; cases "known dep") auto
qed simp

lemma addDeps_unknown:
  "set (esUnknown (addDeps known pid seen deps s)) =
     set (esUnknown s) \<union> Pair pid ` {d \<in> set deps - set seen. d \<noteq> pid \<and> \<not> known d}"
proof (induction deps arbitrary: seen s)
  case (Cons dep deps)
  then show ?case by (cases "dep = pid"; cases "dep \<in> set seen"; cases "known dep") auto
qed simp

lemma linkPlans_edges: "set (esEdges (linkPlans plans)) = plan_edges plans"
proof -
  have "set (esEdges (fold (\<lambda>p s. addDeps (isKnown plans) (PlanID p) [] (DependsOn p) s) ps s)) =
      set (esEdges s) \<union> (\<Union>p \<in> set ps. Pair (PlanID p) `
        {d \<in> set (DependsOn p). d \<noteq> PlanID p \<and> d \<in> PlanID ` set plans})" for ps s
    by (induction ps arbitrary: s) (simp_all add: addDeps_edges isKnown_iff Un_assoc)
  from this [of plans] show ?thesis
    by (auto simp: linkPlans_def plan_edges_def)
qed

lemma linkPlans_unknown:
  "set (esUnknown (linkPlans plans)) =
     {(PlanID p, d) | p d. p \<in> set plans \<and> d \<in> set (DependsOn p) \<and>
        d \<noteq> PlanID p \<and> d \<notin> PlanID ` set plans}"
proof -
  have "set (esUnknown (fold (\<lambda>p s. addDeps (isKnown plans) (PlanID p) [] (DependsOn p) s) ps s)) =
      set (esUnknown s) \<union> (\<Union>p \<in> set ps. Pair (PlanID p) `
        {d \<in> set (DependsOn p). d \<noteq> PlanID p \<and> d \<notin> PlanID ` set plans})" for ps s
    by (induction ps arbitrary: s) (simp_all add: addDeps_unknown isKnown_iff Un_assoc)
  from this [of plans] show ?thesis
    by (auto simp: linkPlans_def)
qed

subsection \<open>Kahn's loop: invariant\<close>

lemma relax_spec:
  assumes "relax ds m q = (m', q')" and "\<And>v. int (count (mset ds) v) \<le> mapGet 0 m v"
    and "distinct q" and "set ds \<inter> set q = {}"
    and "distinct (map fst m)" and "set ds \<subseteq> fst ` set m"
  shows "distinct (map fst m') \<and> fst ` set m' = fst ` set m \<and>
    (\<forall>v. mapGet 0 m' v = mapGet 0 m v - int (count (mset ds) v)) \<and> distinct q' \<and>
    set q' = set q \<union> {v \<in> set ds. mapGet 0 m v = int (count (mset ds) v)}"
  using assms
proof (induction ds arbitrary: m q)
  case (Cons d ds)
  let ?m = "mapSet d (mapGet 0 m d - 1) m"
  let ?q = "if mapGet 0 m d = 1 then q @ [d] else q"
  have le: "int (count (mset ds) v) \<le> mapGet 0 ?m v" for v
    using Cons.prems(2) [of v] by auto
  have fresh: "mapGet 0 m d = 1 \<Longrightarrow> d \<notin> set ds"
    using le [of d] by simp
  have r: "relax ds ?m ?q = (m', q')"
    using Cons.prems(1) by (simp add: Let_def split: if_splits)
  have "set ds \<inter> set ?q = {}" and "distinct ?q"
    using Cons.prems(3,4) fresh by (auto split: if_splits)
  from Cons.IH [OF r le this(2,1)] Cons.prems(5,6)
  have IH: "distinct (map fst m')" "fst ` set m' = fst ` set m" "distinct q'"
    "\<And>v. mapGet 0 m' v = mapGet 0 ?m v - int (count (mset ds) v)"
    "set q' = set ?q \<union> {v \<in> set ds. mapGet 0 ?m v = int (count (mset ds) v)}"
    by (auto simp: insert_absorb)
  have mem: "v \<in> set q' \<longleftrightarrow> v \<in> set q \<or> v \<in> set (d # ds) \<and> mapGet 0 m v = int (count (mset (d # ds)) v)"
    for v
    using fresh not_in_iff [of d "mset ds"] by (cases "v = d"; cases "v \<in> set ds") (auto simp: IH(5))
  have "set q' = set q \<union> {v \<in> set (d # ds). mapGet 0 m v = int (count (mset (d # ds)) v)}"
    using mem by blast
  with IH(1-4) show ?case by simp
qed auto

text \<open>How many edges of \<open>v\<close> still wait for a dependency outside \<open>S\<close>, and how many wait for \<open>i\<close>.\<close>

definition waiting :: "GraphEdge list \<Rightarrow> string set \<Rightarrow> string \<Rightarrow> nat" where
  "waiting E S v = length (filter (\<lambda>e. fst e = v \<and> snd e \<notin> S) E)"

definition waiting_on :: "GraphEdge list \<Rightarrow> string \<Rightarrow> string \<Rightarrow> nat" where
  "waiting_on E i v = length (filter (\<lambda>e. fst e = v \<and> snd e = i) E)"

lemma waiting_split: "i \<notin> S \<Longrightarrow> waiting E S v = waiting E (insert i S) v + waiting_on E i v"
  by (induction E) (auto simp: waiting_def waiting_on_def)

lemma waiting_zero: "waiting E S v = 0 \<longleftrightarrow> (\<forall>t. (v, t) \<in> set E \<longrightarrow> t \<in> S)"
  by (auto simp: waiting_def filter_empty_conv)

lemma waiting_empty: "waiting E {} v = length (filter (\<lambda>e. fst e = v) E)"
  by (simp add: waiting_def)

lemma count_dependents:
  "count (mset (map fst (filter (\<lambda>e. snd e = i) E))) v = waiting_on E i v"
  by (induction E) (auto simp: waiting_on_def)

definition deps_first :: "(string \<times> string) set \<Rightarrow> string list \<Rightarrow> bool" where
  "deps_first R ord \<longleftrightarrow> (\<forall>xs f ys t. ord = xs @ f # ys \<longrightarrow> (f, t) \<in> R \<longrightarrow> t \<in> set xs)"

lemma deps_first_snoc:
  assumes "deps_first R ord" and "\<And>t. (i, t) \<in> R \<Longrightarrow> t \<in> set ord"
  shows "deps_first R (ord @ [i])"
  unfolding deps_first_def
proof (intro allI impI)
  fix xs f ys t
  assume eq: "ord @ [i] = xs @ f # ys" and R: "(f, t) \<in> R"
  show "t \<in> set xs"
  proof (cases ys rule: rev_cases)
    case Nil
    with eq R assms(2) show ?thesis by auto
  next
    case (snoc zs z)
    with eq have "ord = xs @ f # zs" by auto
    with assms(1) R show ?thesis by (simp add: deps_first_def)
  qed
qed

definition kahn_inv :: "GraphEdge list \<Rightarrow> string set \<Rightarrow> string list \<Rightarrow> int gomap \<Rightarrow> string list \<Rightarrow> bool" where
  "kahn_inv E K q m ord \<longleftrightarrow>
     distinct (map fst m) \<and> fst ` set m = K \<and>
     (\<forall>v. mapGet 0 m v = int (waiting E (set ord) v)) \<and>
     distinct (ord @ q) \<and>
     (\<forall>v. v \<in> set ord \<union> set q \<longleftrightarrow> v \<in> K \<and> mapGet 0 m v = 0) \<and>
     deps_first (set E) ord"

lemma kahn_step_inv:
  assumes inv: "kahn_inv E K (i # q) m ord" and E: "\<forall>e \<in> set E. fst e \<in> K"
    and deps: "mapGet [] deps i = map fst (filter (\<lambda>e. snd e = i) E)"
    and relax: "relax (sort (mapGet [] deps i)) m q = (m', q')"
  shows "kahn_inv E K (sort q') m' (ord @ [i])"
proof -
  let ?ds = "sort (mapGet [] deps i)"
  have cnt: "count (mset ?ds) v = waiting_on E i v" for v
    by (simp only: mset_sort deps count_dependents)
  have i: "i \<notin> set ord" "i \<in> K" "mapGet 0 m i = 0"
    using inv by (auto simp: kahn_inv_def)
  have m: "mapGet 0 m v = int (waiting E (insert i (set ord)) v) + int (waiting_on E i v)" for v
    using inv waiting_split [OF i(1)] by (simp add: kahn_inv_def)
  have ds: "v \<in> set ?ds \<longleftrightarrow> 0 < waiting_on E i v" for v
    using cnt [of v] by (metis count_greater_zero_iff set_mset_mset)
  have ds_pos: "v \<in> set ?ds \<Longrightarrow> v \<in> K \<and> v \<notin> set ord \<union> set (i # q)" for v
  proof -
    assume v: "v \<in> set ?ds"
    then have "v \<in> K" using E by (auto simp: deps)
    moreover have "mapGet 0 m v \<noteq> 0" using v ds m [of v] by simp
    ultimately show ?thesis using inv by (metis kahn_inv_def)
  qed
  have spec: "distinct (map fst m') \<and> fst ` set m' = fst ` set m \<and>
      (\<forall>v. mapGet 0 m' v = mapGet 0 m v - int (count (mset ?ds) v)) \<and> distinct q' \<and>
      set q' = set q \<union> {v \<in> set ?ds. mapGet 0 m v = int (count (mset ?ds) v)}"
  proof (rule relax_spec [OF relax])
    show "int (count (mset ?ds) v) \<le> mapGet 0 m v" for v
      by (simp only: cnt m)
    show "set ?ds \<inter> set q = {}" using ds_pos by auto
    show "set ?ds \<subseteq> fst ` set m" using inv ds_pos by (auto simp: kahn_inv_def)
  qed (use inv in \<open>auto simp: kahn_inv_def\<close>)
  have m': "mapGet 0 m' v = int (waiting E (insert i (set ord)) v)" for v
    using spec by (simp add: cnt [unfolded mset_sort] m)
  have mem: "v \<in> set (ord @ [i]) \<union> set (sort q') \<longleftrightarrow> v \<in> K \<and> mapGet 0 m' v = 0" for v
  proof (cases "v \<in> set ?ds")
    case True
    with spec ds_pos [OF True] show ?thesis by auto
  next
    case False
    then have "waiting_on E i v = 0" using ds by simp
    with m m' have "mapGet 0 m' v = mapGet 0 m v" by simp
    with False spec inv show ?thesis by (auto simp: kahn_inv_def)
  qed
  have "set q' \<subseteq> set q \<union> set ?ds" and "set (ord @ [i]) \<inter> set q = {}"
    using spec inv by (auto simp: kahn_inv_def)
  with ds_pos have "set (ord @ [i]) \<inter> set q' = {}" by fastforce
  then have "distinct (ord @ [i] @ sort q')"
    using spec inv by (simp add: kahn_inv_def)
  moreover have "deps_first (set E) (ord @ [i])"
    using inv i(3) by (intro deps_first_snoc) (auto simp: kahn_inv_def waiting_zero)
  ultimately show ?thesis
    using spec inv m' mem by (simp add: kahn_inv_def)
qed

lemma kahn_inv_result:
  assumes "\<forall>e \<in> set E. fst e \<in> K"
  shows "kahn_inv E K q m ord \<Longrightarrow> (\<And>i. mapGet [] deps i = map fst (filter (\<lambda>e. snd e = i) E)) \<Longrightarrow>
    kahn deps q m ord = (m', ord') \<Longrightarrow> kahn_inv E K [] m' ord'"
proof (induction deps q m ord rule: kahn.induct)
  case (2 deps i q m ord)
  obtain m1 q1 where r: "relax (sort (mapGet [] deps i)) m q = (m1, q1)"
    by (cases "relax (sort (mapGet [] deps i)) m q")
  from kahn_step_inv [OF "2.prems"(1) assms "2.prems"(2) r]
  have "kahn_inv E K (sort q1) m1 (ord @ [i])" .
  moreover from "2.prems"(3) r have "kahn deps (sort q1) m1 (ord @ [i]) = (m', ord')" by simp
  ultimately show ?case
    using "2.IH" [OF r [symmetric]] "2.prems"(2) by blast
qed simp

subsection \<open>What the order and the cyclic set are\<close>

lemma deps_first_trancl:
  assumes first: "deps_first R ord" and ord: "ord = xs @ f # ys" and R: "(f, t) \<in> R\<^sup>+"
  shows "t \<in> set xs"
  using R
proof (induction rule: trancl_induct)
  case (base t)
  with first ord show ?case by (auto simp: deps_first_def)
next
  case (step t u)
  then obtain as bs where "xs = as @ t # bs" by (auto dest: split_list)
  with ord have "ord = as @ t # (bs @ f # ys)" by simp
  with first step.hyps(2) have "u \<in> set as" by (auto simp: deps_first_def)
  with \<open>xs = as @ t # bs\<close> show ?case by simp
qed

lemma deps_first_no_cycle:
  assumes "deps_first R ord" and "distinct ord" and "v \<in> set ord" and "(v, w) \<in> R\<^sup>*"
  shows "(w, w) \<notin> R\<^sup>+"
proof
  assume w: "(w, w) \<in> R\<^sup>+"
  have "(v, w) \<in> R\<^sup>+" using assms(4) w by (rule rtrancl_trancl_trancl)
  moreover obtain xs ys where "ord = xs @ v # ys" using assms(3) by (auto dest: split_list)
  ultimately have "w \<in> set ord" using deps_first_trancl [OF assms(1)] by fastforce
  then obtain as bs where "ord = as @ w # bs" by (auto dest: split_list)
  with deps_first_trancl [OF assms(1) _ w] assms(2) show False by auto
qed

lemma stuck_reaches_cycle:
  assumes fin: "finite R" and succ: "\<And>v. v \<in> R \<Longrightarrow> \<exists>t \<in> R. (v, t) \<in> E" and v: "v \<in> R"
  shows "\<exists>w. (v, w) \<in> E\<^sup>* \<and> (w, w) \<in> E\<^sup>+"
proof -
  let ?S = "{w \<in> R. (v, w) \<in> E\<^sup>*}"
  let ?F = "E \<inter> ?S \<times> ?S"
  have "finite ?F" using fin by (auto intro: finite_subset [of _ "?S \<times> ?S"])
  have "\<not> acyclic ?F"
  proof
    assume "acyclic ?F"
    with \<open>finite ?F\<close> have "wf (?F\<inverse>)" by (rule finite_acyclic_wf_converse)
    moreover have "v \<in> ?S" using v by simp
    ultimately obtain z where z: "z \<in> ?S" and min: "\<And>y. (y, z) \<in> ?F\<inverse> \<Longrightarrow> y \<notin> ?S"
      by (metis (no_types, lifting) wfE_min)
    from z succ obtain t where "t \<in> R" and "(z, t) \<in> E" by blast
    with z have "(z, t) \<in> ?F" and "t \<in> ?S" by (auto intro: rtrancl_into_rtrancl)
    with min show False by blast
  qed
  then obtain w where w: "(w, w) \<in> ?F\<^sup>+" by (auto simp: acyclic_def)
  then have "(w, w) \<in> E\<^sup>+" by (rule trancl_mono) simp
  moreover from w have "w \<in> ?S" by (auto dest!: tranclD)
  ultimately show ?thesis by blast
qed

lemma kahn_link_start:
  assumes "link_inv K s"
  shows "kahn_inv (esEdges s) K
    (sort (map fst (filter (\<lambda>kv. snd kv = 0) (esIndegree s)))) (esIndegree s) []"
proof -
  have "distinct (map fst (filter (\<lambda>kv. snd kv = 0) (esIndegree s)))"
    using assms by (simp add: link_inv_def distinct_map_filter)
  moreover have "v \<in> set (map fst (filter (\<lambda>kv. snd kv = 0) (esIndegree s))) \<longleftrightarrow>
      v \<in> K \<and> mapGet 0 (esIndegree s) v = 0" for v
    using assms keys_where [of "esIndegree s" v "\<lambda>x. x = 0" 0] by (simp add: link_inv_def)
  ultimately show ?thesis
    using assms by (simp add: kahn_inv_def link_inv_def waiting_empty deps_first_def)
qed

lemma build_kahn:
  assumes "kahn (esDependents (linkPlans plans))
      (sort (map fst (filter (\<lambda>kv. snd kv = 0) (esIndegree (linkPlans plans)))))
      (esIndegree (linkPlans plans)) [] = (m, ord)"
  shows "kahn_inv (esEdges (linkPlans plans)) (PlanID ` set plans) [] m ord"
  using kahn_inv_result [OF _ kahn_link_start [OF linkPlans_inv] _ assms] linkPlans_inv [of plans]
  by (auto simp: link_inv_def)

text \<open>The plans from which a dependency cycle can be reached.\<close>

definition stuck_plans :: "WavePlan list \<Rightarrow> string set" where
  "stuck_plans plans = {v \<in> PlanID ` set plans.
     \<exists>w. (v, w) \<in> (plan_edges plans)\<^sup>* \<and> (w, w) \<in> (plan_edges plans)\<^sup>+}"

lemma kahn_residual:
  assumes inv: "kahn_inv (esEdges (linkPlans plans)) (PlanID ` set plans) [] m ord"
  shows "PlanID ` set plans - set ord = stuck_plans plans"
proof -
  let ?K = "PlanID ` set plans" and ?E = "plan_edges plans"
  have E: "set (esEdges (linkPlans plans)) = ?E" by (rule linkPlans_edges)
  have wait: "v \<in> ?K - set ord \<Longrightarrow> \<exists>t \<in> ?K - set ord. (v, t) \<in> ?E" for v
  proof -
    assume v: "v \<in> ?K - set ord"
    with inv have "waiting (esEdges (linkPlans plans)) (set ord) v \<noteq> 0"
      by (auto simp: kahn_inv_def)
    then obtain t where "(v, t) \<in> ?E" and "t \<notin> set ord"
      by (auto simp: waiting_zero E)
    moreover from this have "t \<in> ?K" by (auto simp: plan_edges_def)
    ultimately show ?thesis by blast
  qed
  have "v \<in> stuck_plans plans" if "v \<in> ?K - set ord" for v
    using stuck_reaches_cycle [of "?K - set ord" ?E v, OF _ wait that] that
    by (auto simp: stuck_plans_def)
  moreover have "v \<notin> set ord" if "v \<in> stuck_plans plans" for v
    using deps_first_no_cycle [of ?E ord v] inv that
    by (auto simp: stuck_plans_def kahn_inv_def E)
  ultimately show ?thesis by (auto simp: stuck_plans_def)
qed

lemma stuck_plans_empty: "stuck_plans plans = {} \<longleftrightarrow> acyclic (plan_edges plans)"
proof
  assume none: "stuck_plans plans = {}"
  show "acyclic (plan_edges plans)"
  proof (rule acyclicI, intro allI notI)
    fix w assume w: "(w, w) \<in> (plan_edges plans)\<^sup>+"
    then have "w \<in> PlanID ` set plans"
      by (auto dest!: tranclD simp: plan_edges_def)
    with w have "w \<in> stuck_plans plans" by (auto simp: stuck_plans_def)
    with none show False by simp
  qed
qed (auto simp: stuck_plans_def acyclic_def)

lemma BuildGraph_shape:
  "\<exists>m ord. kahn_inv (esEdges (linkPlans plans)) (PlanID ` set plans) [] m ord \<and>
     TopologicalOrder (BuildGraph plans) = (if stuck_plans plans = {} then ord else []) \<and>
     Cycles (BuildGraph plans) =
       (if stuck_plans plans = {} then [] else [sort (map fst (filter (\<lambda>kv. 0 < snd kv) m))])"
proof -
  let ?s = "linkPlans plans"
  obtain m ord where k: "kahn (esDependents ?s)
      (sort (map fst (filter (\<lambda>kv. snd kv = 0) (esIndegree ?s)))) (esIndegree ?s) [] = (m, ord)"
    by (meson surj_pair)
  note inv = build_kahn [OF k]
  have "length (esIndegree ?s) = card (PlanID ` set plans)"
    using linkPlans_inv [of plans] distinct_card [of "map fst (esIndegree ?s)"]
    by (simp add: link_inv_def)
  moreover have "length ord = card (set ord)" and sub: "set ord \<subseteq> PlanID ` set plans"
    using inv distinct_card [of ord] by (auto simp: kahn_inv_def)
  moreover have "card (set ord) < card (PlanID ` set plans) \<longleftrightarrow> stuck_plans plans \<noteq> {}"
    using kahn_residual [OF inv] sub
    by (metis Diff_eq_empty_iff card_mono card_seteq finite_imageI finite_set linorder_not_less order_refl)
  ultimately have "length ord < length (esIndegree ?s) \<longleftrightarrow> stuck_plans plans \<noteq> {}" by simp
  with k inv show ?thesis
    by (intro exI [of _ m] exI [of _ ord]) (simp add: BuildGraph_def Let_def)
qed

subsection \<open>Properties\<close>

text \<open>
  C13: \<open>BuildGraph\<close> sorts exactly the acyclic plan sets. When the declared (known, non-self)
  dependencies have no cycle it reports none, and the order lists every plan once with all its
  dependencies before it; when they have one, a cycle is reported and no order is given.
\<close>

theorem BuildGraph_sorts:
  "if acyclic (plan_edges plans)
   then Cycles (BuildGraph plans) = [] \<and> distinct (TopologicalOrder (BuildGraph plans)) \<and>
        set (TopologicalOrder (BuildGraph plans)) = PlanID ` set plans \<and>
        deps_first (plan_edges plans) (TopologicalOrder (BuildGraph plans))
   else HasCycle (BuildGraph plans) \<and> TopologicalOrder (BuildGraph plans) = []"
proof -
  from BuildGraph_shape [of plans] obtain m ord where
    inv: "kahn_inv (esEdges (linkPlans plans)) (PlanID ` set plans) [] m ord"
    and shape: "TopologicalOrder (BuildGraph plans) = (if stuck_plans plans = {} then ord else [])"
      "Cycles (BuildGraph plans) =
         (if stuck_plans plans = {} then [] else [sort (map fst (filter (\<lambda>kv. 0 < snd kv) m))])"
    by blast
  from kahn_residual [OF inv] inv have "stuck_plans plans = {} \<Longrightarrow> set ord = PlanID ` set plans"
    by (auto simp: kahn_inv_def)
  with inv shape show ?thesis
    by (simp add: HasCycle_def kahn_inv_def linkPlans_edges flip: stuck_plans_empty)
qed

text \<open>
  The cyclic set that \<open>BuildGraph\<close> reports is, sorted and without repetition, the set of the
  plans from which a dependency cycle can be reached: the plans on a cycle and also every plan
  that waits, directly or not, for one of them.
\<close>

theorem BuildGraph_cyclic_set:
  "\<exists>c. Cycles (BuildGraph plans) = (if c = [] then [] else [c]) \<and> sorted c \<and> distinct c \<and>
       set c = {v \<in> PlanID ` set plans. \<exists>w. (v, w) \<in> (plan_edges plans)\<^sup>* \<and>
                                           (w, w) \<in> (plan_edges plans)\<^sup>+}"
proof -
  from BuildGraph_shape [of plans] obtain m ord where
    inv: "kahn_inv (esEdges (linkPlans plans)) (PlanID ` set plans) [] m ord"
    and shape: "Cycles (BuildGraph plans) = (if stuck_plans plans = {} then []
        else [sort (map fst (filter (\<lambda>kv. 0 < snd kv) m))])" by blast
  let ?c = "sort (map fst (filter (\<lambda>kv. 0 < snd kv) m))"
  have dist: "distinct (map fst m)" and keys: "fst ` set m = PlanID ` set plans"
    using inv by (auto simp: kahn_inv_def)
  have "set ?c = PlanID ` set plans - set ord"
    using keys_where [OF dist, of _ "\<lambda>x. 0 < x" 0] inv
    by (auto simp: keys kahn_inv_def set_eq_iff simp del: set_map)
  then have "set ?c = stuck_plans plans" by (simp only: kahn_residual [OF inv])
  moreover have "distinct ?c" using dist by (simp add: distinct_map_filter)
  ultimately show ?thesis
    using shape by (intro exI [of _ ?c]) (auto simp: stuck_plans_def simp flip: set_empty)
qed

text \<open>
  The reported set is not a cycle: a plan that merely depends on a cycle is in it although it
  lies on no cycle itself (three plans, the first two depend on each other, the third on the
  first).
\<close>

definition mk_plan :: "string \<Rightarrow> int \<Rightarrow> string list \<Rightarrow> WavePlan" where
  "mk_plan i n deps =
     \<lparr>PlanID = i, wpName = i, Description = [], WaveNumber = n, AssetIDs = [],
      AlgorithmTargets = [], StartDate = None, TargetDate = None, wpStatus = StatusPlanned,
      CreatedBy = [], CreatedAt = 0, UpdatedAt = 0, CanaryTargets = [], MaintenanceWindow = [],
      ApprovalPolicy = ''operator'', BudgetHours = 0, ActualHours = 0, ComponentCount = 0,
      DependsOn = deps, wpTenantID = ''default''\<rparr>"

theorem BuildGraph_reports_non_cycle:
  "Cycles (BuildGraph [mk_plan ''a'' 1 [''b''], mk_plan ''b'' 2 [''a''], mk_plan ''c'' 3 [''a'']])
     = [[''a'', ''b'', ''c'']] \<and>
   (''c'', ''c'') \<notin>
     (plan_edges [mk_plan ''a'' 1 [''b''], mk_plan ''b'' 2 [''a''], mk_plan ''c'' 3 [''a'']])\<^sup>+"
proof
  show "Cycles (BuildGraph [mk_plan ''a'' 1 [''b''], mk_plan ''b'' 2 [''a''], mk_plan ''c'' 3 [''a'']])
     = [[''a'', ''b'', ''c'']]"
    by code_simp
  have "(x, ''c'') \<notin> plan_edges [mk_plan ''a'' 1 [''b''], mk_plan ''b'' 2 [''a''], mk_plan ''c'' 3 [''a'']]"
    for x by (auto simp: plan_edges_def mk_plan_def)
  then show "(''c'', ''c'') \<notin>
     (plan_edges [mk_plan ''a'' 1 [''b''], mk_plan ''b'' 2 [''a''], mk_plan ''c'' 3 [''a'']])\<^sup>+"
    by (auto dest: tranclD2)
qed

end
