(* ===== verification/WavePlanner.thy ===== *)
theory WavePlanner
  imports WaveGraph
begin

text \<open>
  Wave-plan operations: \<^verbatim>\<open>server/internal/waveplan/planner.go\<close> over the table \<open>wave_plans\<close> of
  \<^verbatim>\<open>server/internal/store/store.go\<close>. The database state holds the rows and, for each kind of
  statement, the error the database would answer with (\<open>None\<close>: the statement is executed), so
  every \<open>if err != nil\<close> branch of the planner is a branch here. A planner is its tenant (empty:
  fleet-wide). The clock and the UUID generator are arguments.
\<close>

subsection \<open>The table\<close>

datatype wave_op = OpGet | OpCreate | OpUpdate | OpDelete

record WaveDB =
  wdbRows :: "WavePlan list"
  wdbFault :: "wave_op \<Rightarrow> goerror"

definition defaultApprovalPolicy :: "string \<Rightarrow> string" where
  "defaultApprovalPolicy p = (if p = [] then ''operator'' else p)"

definition CreateWavePlan :: "int \<Rightarrow> string \<Rightarrow> WavePlan \<Rightarrow> WaveDB \<Rightarrow> goerror \<times> WavePlan \<times> WaveDB" where
  "CreateWavePlan now uuid plan0 db =
     (let plan1 = (if PlanID plan0 = [] then plan0\<lparr>PlanID := uuid\<rparr> else plan0);
          plan2 = plan1\<lparr>ApprovalPolicy := defaultApprovalPolicy (ApprovalPolicy plan1)\<rparr>;
          plan = (if wpTenantID plan2 = [] then plan2\<lparr>wpTenantID := ''default''\<rparr> else plan2)
      in case wdbFault db OpCreate of
           Some e \<Rightarrow> (Some e, plan, db)
         | None \<Rightarrow> (None, plan, db\<lparr>wdbRows :=
             tblInsert PlanID (plan\<lparr>CreatedAt := now, UpdatedAt := now\<rparr>) (wdbRows db)\<rparr>))"

definition GetWavePlans :: "string \<Rightarrow> WaveDB \<Rightarrow> WavePlan list result" where
  "GetWavePlans tenant db =
     (case wdbFault db OpGet of
        Some e \<Rightarrow> Inl e
      | None \<Rightarrow> Inr (sort_key (\<lambda>p. (WaveNumber p, CreatedAt p))
                   (filter (\<lambda>p. tenant = [] \<or> wpTenantID p = tenant) (wdbRows db))))"

text \<open>The columns \<open>UPDATE wave_plans SET\<close> writes; \<open>created_by\<close>, \<open>created_at\<close> and
  \<open>tenant_id\<close> keep the row's values.\<close>

definition setWaveColumns :: "int \<Rightarrow> WavePlan \<Rightarrow> WavePlan \<Rightarrow> WavePlan" where
  "setWaveColumns now plan r =
     r\<lparr>wpName := wpName plan, Description := Description plan, WaveNumber := WaveNumber plan,
       AssetIDs := AssetIDs plan, AlgorithmTargets := AlgorithmTargets plan,
       StartDate := StartDate plan, TargetDate := TargetDate plan, wpStatus := wpStatus plan,
       CanaryTargets := CanaryTargets plan, MaintenanceWindow := MaintenanceWindow plan,
       ApprovalPolicy := defaultApprovalPolicy (ApprovalPolicy plan),
       BudgetHours := BudgetHours plan, ActualHours := ActualHours plan,
       ComponentCount := ComponentCount plan, DependsOn := DependsOn plan, UpdatedAt := now\<rparr>"

definition UpdateWavePlan :: "int \<Rightarrow> WavePlan \<Rightarrow> WaveDB \<Rightarrow> goerror \<times> WaveDB" where
  "UpdateWavePlan now plan db =
     (case wdbFault db OpUpdate of
        Some e \<Rightarrow> (Some e, db)
      | None \<Rightarrow> (None, db\<lparr>wdbRows :=
                   tblUpdate PlanID (PlanID plan) (setWaveColumns now plan) (wdbRows db)\<rparr>))"

definition DeleteWavePlan :: "string \<Rightarrow> WaveDB \<Rightarrow> goerror \<times> WaveDB" where
  "DeleteWavePlan planID db =
     (case wdbFault db OpDelete of
        Some e \<Rightarrow> (Some e, db)
      | None \<Rightarrow> (None, db\<lparr>wdbRows := tblDelete PlanID planID (wdbRows db)\<rparr>))"

interpretation wave_row: keyed_update PlanID "setWaveColumns now plan" for now plan
  by unfold_locales (simp add: setWaveColumns_def)

subsection \<open>The planner\<close>

datatype wave_error =
    StoreErr string
  | NameRequired
  | WaveNumberLow
  | TargetBeforeStart
  | BadApprovalPolicy string
  | BudgetNegative
  | ActualNegative
  | UnknownDependency string
  | InvalidStatus string
  | PlanNotFound
  | BadTransition string string
  | CannotActivate "string list"
  | CannotDelete string
  | PlanRequired
  | BadCanaryPercent int
  | NoAssets

definition ValidStatuses :: "string list" where
  "ValidStatuses = [StatusPlanned, StatusActive, StatusCompleted, StatusCancelled]"

definition validApprovalPolicies :: "string list" where
  "validApprovalPolicies = [[], ''auto'', ''operator'', ''admin'']"

definition validate :: "WavePlan \<Rightarrow> wave_error option" where
  "validate plan =
     (if wpName plan = [] then Some NameRequired
      else if WaveNumber plan < 1 then Some WaveNumberLow
      else if (case (TargetDate plan, StartDate plan) of
                 (Some t, Some s) \<Rightarrow> t < s | _ \<Rightarrow> False) then Some TargetBeforeStart
      else if ApprovalPolicy plan \<notin> set validApprovalPolicies
        then Some (BadApprovalPolicy (ApprovalPolicy plan))
      else if BudgetHours plan < 0 then Some BudgetNegative
      else if ActualHours plan < 0 then Some ActualNegative
      else None)"

definition allowedTransitions :: "string \<Rightarrow> string list" where
  "allowedTransitions st =
     (if st = StatusPlanned then [StatusActive, StatusCancelled]
      else if st = StatusActive then [StatusCompleted, StatusCancelled]
      else [])"

definition checkTransition :: "string \<Rightarrow> string \<Rightarrow> wave_error option" where
  "checkTransition st to = (if to \<in> set (allowedTransitions st) then None else Some (BadTransition st to))"

definition statusMap :: "WavePlan list \<Rightarrow> string \<Rightarrow> string option" where
  "statusMap all = fold (\<lambda>p m. m(PlanID p \<mapsto> wpStatus p)) all Map.empty"

definition incompleteDependencies :: "WavePlan \<Rightarrow> WavePlan list \<Rightarrow> string list" where
  "incompleteDependencies plan all =
     filter (\<lambda>dep. dep \<noteq> PlanID plan \<and>
               (case statusMap all dep of None \<Rightarrow> False | Some st \<Rightarrow> st \<noteq> StatusCompleted))
       (DependsOn plan)"

text \<open>\<open>Create\<close> mutates the plan it is given; the result holds the error, the plan and the database.\<close>

definition knownDeps :: "string \<Rightarrow> WavePlan \<Rightarrow> WaveDB \<Rightarrow> wave_error option" where
  "knownDeps tenant plan db =
     (if DependsOn plan = [] then None
      else case GetWavePlans tenant db of
             Inl e \<Rightarrow> Some (StoreErr e)
           | Inr existing \<Rightarrow>
               map_option UnknownDependency
                 (find (\<lambda>dep. dep \<notin> PlanID ` set existing) (DependsOn plan)))"

definition Create :: "string \<Rightarrow> int \<Rightarrow> string \<Rightarrow> WavePlan \<Rightarrow> string \<Rightarrow> WaveDB
    \<Rightarrow> wave_error option \<times> WavePlan \<times> WaveDB" where
  "Create tenant now uuid plan createdBy db =
     (case validate plan of
        Some e \<Rightarrow> (Some e, plan, db)
      | None \<Rightarrow>
          (case knownDeps tenant plan db of
             Some e \<Rightarrow> (Some e, plan, db)
           | None \<Rightarrow>
               (let plan' = plan\<lparr>PlanID := uuid, wpStatus := StatusPlanned, CreatedBy := createdBy,
                                 CreatedAt := now, UpdatedAt := now, wpTenantID := tenant\<rparr>
                in map_prod (map_option StoreErr) id (CreateWavePlan now uuid plan' db))))"

definition UpdateStatus :: "string \<Rightarrow> int \<Rightarrow> string \<Rightarrow> string \<Rightarrow> WaveDB \<Rightarrow> wave_error option \<times> WaveDB" where
  "UpdateStatus tenant now planID newStatus db =
     (if newStatus \<notin> set ValidStatuses then (Some (InvalidStatus newStatus), db)
      else case GetWavePlans tenant db of
             Inl e \<Rightarrow> (Some (StoreErr e), db)
           | Inr plans \<Rightarrow>
               (case tblFind PlanID planID plans of
                  None \<Rightarrow> (Some PlanNotFound, db)
                | Some plan \<Rightarrow>
                    (case checkTransition (wpStatus plan) newStatus of
                       Some e \<Rightarrow> (Some e, db)
                     | None \<Rightarrow>
                         (let blockers = incompleteDependencies plan plans
                          in if newStatus = StatusActive \<and> blockers \<noteq> []
                             then (Some (CannotActivate blockers), db)
                             else map_prod (map_option StoreErr) id
                                    (UpdateWavePlan now (plan\<lparr>wpStatus := newStatus\<rparr>) db)))))"

definition Delete :: "string \<Rightarrow> string \<Rightarrow> WaveDB \<Rightarrow> wave_error option \<times> WaveDB" where
  "Delete tenant planID db =
     (case GetWavePlans tenant db of
        Inl e \<Rightarrow> (Some (StoreErr e), db)
      | Inr plans \<Rightarrow>
          (case tblFind PlanID planID plans of
             None \<Rightarrow> (Some PlanNotFound, db)
           | Some wp \<Rightarrow>
               if wpStatus wp = StatusActive \<or> wpStatus wp = StatusCompleted
               then (Some (CannotDelete (wpStatus wp)), db)
               else map_prod (map_option StoreErr) id (DeleteWavePlan planID db)))"

definition Graph :: "string \<Rightarrow> WaveDB \<Rightarrow> DependencyGraph result" where
  "Graph tenant db = map_sum id BuildGraph (GetWavePlans tenant db)"

definition Budget :: "string \<Rightarrow> WaveDB \<Rightarrow> BudgetSummary result" where
  "Budget tenant db = map_sum id ComputeBudget (GetWavePlans tenant db)"

definition SuggestCanaryCohort :: "WavePlan option \<Rightarrow> int \<Rightarrow> wave_error + string list" where
  "SuggestCanaryCohort plan percent =
     (case plan of
        None \<Rightarrow> Inl PlanRequired
      | Some p \<Rightarrow>
          if percent < 1 \<or> 100 < percent then Inl (BadCanaryPercent percent)
          else let hosts = firstSeen [] (filter (\<lambda>a. a \<noteq> []) (AssetIDs p))
               in if hosts = [] then Inl NoAssets
                  else let len = int (length hosts);
                           n = (len * percent + 99) div 100;
                           n' = (if n < 1 then 1 else n);
                           n'' = (if len < n' then len else n')
                       in Inr (take (nat n'') (sort hosts)))"

subsection \<open>What the operations read and write\<close>

lemma GetWavePlans_set:
  "GetWavePlans tenant db = Inr plans \<Longrightarrow>
   set plans = {p \<in> set (wdbRows db). tenant = [] \<or> wpTenantID p = tenant}"
  by (auto simp: GetWavePlans_def split: option.splits)

lemma GetWavePlans_unique:
  "GetWavePlans tenant db = Inr plans \<Longrightarrow> keyUnique PlanID (wdbRows db) \<Longrightarrow> keyUnique PlanID plans"
  by (auto simp: GetWavePlans_def keyUnique_def distinct_map inj_on_def split: option.splits)

lemma statusMap_byID: "statusMap all i = map_option wpStatus (byID all i)"
  by (induction all rule: rev_induct) (auto simp: statusMap_def byID_def)

lemma byID_unique:
  assumes "keyUnique PlanID plans" and "p \<in> set plans"
  shows "byID plans (PlanID p) = Some p"
  using tblFind_unique [of PlanID "rev plans" p] assms by (simp add: byID_find keyUnique_def flip: rev_map)

lemma incompleteDependencies_blockedBy: "incompleteDependencies p plans = blockedBy plans p"
  unfolding incompleteDependencies_def blockedBy_def
  by (rule filter_cong) (auto simp: statusMap_byID split: option.splits)

lemma no_blockers:
  assumes "incompleteDependencies p plans = []" and "keyUnique PlanID plans" and "d \<in> set plans"
    and "PlanID d \<in> set (DependsOn p)" and "PlanID d \<noteq> PlanID p"
  shows "wpStatus d = StatusCompleted"
  using assms byID_unique [OF assms(2,3)]
  by (auto simp: incompleteDependencies_blockedBy blockedBy_def filter_empty_conv)

lemma UpdateStatus_ok:
  assumes "UpdateStatus tenant now i st db = (None, db')"
  obtains plans p where "GetWavePlans tenant db = Inr plans" and "p \<in> set (wdbRows db)"
    and "tenant = [] \<or> wpTenantID p = tenant" and "PlanID p = i"
    and "st \<in> set (allowedTransitions (wpStatus p))"
    and "st = StatusActive \<Longrightarrow> incompleteDependencies p plans = []"
    and "db' = db\<lparr>wdbRows := tblUpdate PlanID i (setWaveColumns now (p\<lparr>wpStatus := st\<rparr>)) (wdbRows db)\<rparr>"
proof -
  from assms obtain plans where plans: "GetWavePlans tenant db = Inr plans"
    by (auto simp: UpdateStatus_def split: if_splits sum.splits)
  with assms obtain p where p: "tblFind PlanID i plans = Some p"
    by (auto simp: UpdateStatus_def split: if_splits option.splits)
  note mem = tblFind_Some [OF p] GetWavePlans_set [OF plans]
  from assms plans p have "st \<in> set (allowedTransitions (wpStatus p))"
    by (auto simp: UpdateStatus_def checkTransition_def split: if_splits)
  moreover from assms plans p have "st = StatusActive \<Longrightarrow> incompleteDependencies p plans = []"
    by (auto simp: UpdateStatus_def Let_def split: if_splits option.splits)
  moreover from assms plans p mem have "db' = db\<lparr>wdbRows := tblUpdate PlanID i
      (setWaveColumns now (p\<lparr>wpStatus := st\<rparr>)) (wdbRows db)\<rparr>"
    by (auto simp: UpdateStatus_def Let_def UpdateWavePlan_def split: if_splits option.splits)
  ultimately show thesis using that plans mem by blast
qed

lemma Delete_ok:
  assumes "Delete tenant i db = (None, db')"
  obtains p where "p \<in> set (wdbRows db)" and "PlanID p = i"
    and "wpStatus p \<noteq> StatusActive" and "wpStatus p \<noteq> StatusCompleted"
    and "db' = db\<lparr>wdbRows := tblDelete PlanID i (wdbRows db)\<rparr>"
proof -
  from assms obtain plans where plans: "GetWavePlans tenant db = Inr plans"
    by (auto simp: Delete_def split: sum.splits)
  with assms obtain p where p: "tblFind PlanID i plans = Some p"
    by (auto simp: Delete_def split: option.splits)
  with tblFind_Some [OF p] GetWavePlans_set [OF plans] assms plans that show thesis
    by (auto simp: Delete_def DeleteWavePlan_def split: if_splits option.splits)
qed

lemma Create_ok:
  assumes "Create tenant now uuid plan who db = (None, plan', db')" and "uuid \<noteq> []"
  shows "plan' = plan\<lparr>PlanID := uuid, wpStatus := StatusPlanned, CreatedBy := who, CreatedAt := now,
           UpdatedAt := now, wpTenantID := (if tenant = [] then ''default'' else tenant),
           ApprovalPolicy := defaultApprovalPolicy (ApprovalPolicy plan)\<rparr> \<and>
         db' = db\<lparr>wdbRows := tblInsert PlanID plan' (wdbRows db)\<rparr>"
  using assms
  by (cases "wdbFault db OpCreate"; cases plan)
    (auto simp: Create_def CreateWavePlan_def Let_def split: option.splits if_splits)

subsection \<open>Runs of the planner\<close>

text \<open>
  Any number of planners, of any tenants, run over one table, and the database may start or stop
  rejecting statements at any time. A UUID is fresh: no row has it as its id or names it as a
  dependency.
\<close>

inductive wave_step :: "WaveDB \<Rightarrow> WaveDB \<Rightarrow> bool" where
  ws_create: "Create tenant now uuid plan who db = (None, plan', db') \<Longrightarrow> uuid \<noteq> [] \<Longrightarrow>
    uuid \<notin> PlanID ` set (wdbRows db) \<Longrightarrow> uuid \<notin> \<Union> (set ` DependsOn ` set (wdbRows db)) \<Longrightarrow>
    wave_step db db'"
| ws_update: "UpdateStatus tenant now i st db = (None, db') \<Longrightarrow> wave_step db db'"
| ws_delete: "Delete tenant i db = (None, db') \<Longrightarrow> wave_step db db'"
| ws_fault: "wave_step db (db\<lparr>wdbFault := f\<rparr>)"

inductive wave_reachable :: "WaveDB \<Rightarrow> bool" where
  wr_init: "wave_reachable \<lparr>wdbRows = [], wdbFault = \<lambda>_. None\<rparr>"
| wr_step: "wave_reachable db \<Longrightarrow> wave_step db db' \<Longrightarrow> wave_reachable db'"

definition deps_completed :: "WavePlan list \<Rightarrow> bool" where
  "deps_completed rows \<longleftrightarrow>
     (\<forall>p \<in> set rows. \<forall>d \<in> set rows.
        (wpStatus p = StatusActive \<or> wpStatus p = StatusCompleted) \<longrightarrow>
        PlanID d \<in> set (DependsOn p) \<longrightarrow> PlanID d \<noteq> PlanID p \<longrightarrow>
        wpTenantID d = wpTenantID p \<longrightarrow> wpStatus d = StatusCompleted)"

lemma deps_completedD:
  "deps_completed rows \<Longrightarrow> p \<in> set rows \<Longrightarrow> d \<in> set rows \<Longrightarrow>
   wpStatus p = StatusActive \<or> wpStatus p = StatusCompleted \<Longrightarrow> PlanID d \<in> set (DependsOn p) \<Longrightarrow>
   PlanID d \<noteq> PlanID p \<Longrightarrow> wpTenantID d = wpTenantID p \<Longrightarrow> wpStatus d = StatusCompleted"
  unfolding deps_completed_def by blast

lemma setWaveColumns_fields [simp]:
  "PlanID (setWaveColumns now p r) = PlanID r" "wpStatus (setWaveColumns now p r) = wpStatus p"
  "DependsOn (setWaveColumns now p r) = DependsOn p"
  "wpTenantID (setWaveColumns now p r) = wpTenantID r"
  by (simp_all add: setWaveColumns_def)

lemma create_deps_completed:
  assumes "Create tenant now uuid plan who db = (None, plan', db')" and "uuid \<noteq> []"
    and "uuid \<notin> \<Union> (set ` DependsOn ` set (wdbRows db))" and "deps_completed (wdbRows db)"
  shows "deps_completed (wdbRows db')"
proof -
  from Create_ok [OF assms(1,2)] have plan': "PlanID plan' = uuid" "wpStatus plan' = StatusPlanned"
    and db': "wdbRows db' = tblInsert PlanID plan' (wdbRows db)"
    by auto
  show ?thesis unfolding deps_completed_def
  proof (intro ballI impI)
    fix q d assume q: "q \<in> set (wdbRows db')" and d: "d \<in> set (wdbRows db')"
      and st: "wpStatus q = StatusActive \<or> wpStatus q = StatusCompleted"
      and dep: "PlanID d \<in> set (DependsOn q)" "PlanID d \<noteq> PlanID q" "wpTenantID d = wpTenantID q"
    from st plan' have "q \<noteq> plan'" by auto
    with q have q': "q \<in> set (wdbRows db)" by (auto simp: db' set_tblInsert split: if_splits)
    with dep(1) assms(3) plan' have "d \<noteq> plan'" by auto
    with d have "d \<in> set (wdbRows db)" by (auto simp: db' set_tblInsert split: if_splits)
    with deps_completedD [OF assms(4) q' _ st dep] show "wpStatus d = StatusCompleted" by blast
  qed
qed

lemma update_deps_completed:
  assumes upd: "UpdateStatus tenant now i st db = (None, db')"
    and uniq: "keyUnique PlanID (wdbRows db)" and inv: "deps_completed (wdbRows db)"
  shows "deps_completed (wdbRows db')"
proof -
  from upd obtain plans p where plans: "GetWavePlans tenant db = Inr plans"
    and p: "p \<in> set (wdbRows db)" "tenant = [] \<or> wpTenantID p = tenant" "PlanID p = i"
    and allowed: "st \<in> set (allowedTransitions (wpStatus p))"
    and blockers: "st = StatusActive \<Longrightarrow> incompleteDependencies p plans = []"
    and db': "db' = db\<lparr>wdbRows := tblUpdate PlanID i (setWaveColumns now (p\<lparr>wpStatus := st\<rparr>)) (wdbRows db)\<rparr>"
    by (erule UpdateStatus_ok)
  let ?p = "setWaveColumns now (p\<lparr>wpStatus := st\<rparr>) p"
  have rows: "x \<in> set (wdbRows db') \<longleftrightarrow> x \<in> set (wdbRows db) \<and> PlanID x \<noteq> i \<or> x = ?p" for x
    using p keyUnique_eq [OF uniq] by (auto simp: db' set_tblUpdate)
  show ?thesis unfolding deps_completed_def
  proof (intro ballI impI)
    fix q d assume q: "q \<in> set (wdbRows db')" and d: "d \<in> set (wdbRows db')"
      and st: "wpStatus q = StatusActive \<or> wpStatus q = StatusCompleted"
      and dep: "PlanID d \<in> set (DependsOn q)" and ne: "PlanID d \<noteq> PlanID q"
      and ten: "wpTenantID d = wpTenantID q"
    show "wpStatus d = StatusCompleted"
    proof (cases "PlanID q = i")
      case True
      with q rows have q': "q = ?p" by auto
      with d rows ne p(3) have d': "d \<in> set (wdbRows db)" by auto
      show ?thesis
      proof (cases "st = StatusActive")
        case True
        have "d \<in> set plans"
          using GetWavePlans_set [OF plans] d' ten p(2) q' by auto
        then show ?thesis
          using no_blockers [OF blockers [OF True] GetWavePlans_unique [OF plans uniq]] dep ne q' p(3)
          by auto
      next
        case False
        with st q' allowed have "wpStatus p = StatusActive"
          by (auto simp: allowedTransitions_def split: if_splits)
        with q' dep ne ten show ?thesis
          using deps_completedD [OF inv p(1) d'] by simp
      qed
    next
      case False
      with q rows p(3) have q': "q \<in> set (wdbRows db)" by auto
      show ?thesis
      proof (cases "PlanID d = i")
        case True
        with d rows have "d = ?p" by auto
        with p(3) dep ne ten have "wpStatus p = StatusCompleted"
          using deps_completedD [OF inv q' p(1) st] by simp
        with allowed show ?thesis by (simp add: allowedTransitions_def)
      next
        case False
        with d rows p(3) have "d \<in> set (wdbRows db)" by auto
        with deps_completedD [OF inv q' _ st dep ne ten] show ?thesis by blast
      qed
    qed
  qed
qed

lemma deps_completed_subset:
  "deps_completed rows \<Longrightarrow> set rows' \<subseteq> set rows \<Longrightarrow> deps_completed rows'"
  unfolding deps_completed_def by blast

lemma wave_step_inv:
  "wave_step db db' \<Longrightarrow> keyUnique PlanID (wdbRows db) \<and> deps_completed (wdbRows db) \<Longrightarrow>
   keyUnique PlanID (wdbRows db') \<and> deps_completed (wdbRows db')"
proof (induction rule: wave_step.induct)
  case (ws_create tenant now uuid plan who db plan' db')
  have "wdbRows db' = tblInsert PlanID plan' (wdbRows db)"
    using Create_ok [OF ws_create(1,2)] by simp
  with ws_create show ?case
    using create_deps_completed [OF ws_create(1,2,4)] by simp
next
  case (ws_update tenant now i st db db')
  from ws_update(1) obtain p
    where "db' = db\<lparr>wdbRows := tblUpdate PlanID i (setWaveColumns now (p\<lparr>wpStatus := st\<rparr>)) (wdbRows db)\<rparr>"
    by (rule UpdateStatus_ok)
  with ws_update update_deps_completed [OF ws_update(1)] show ?case
    by (simp add: wave_row.unique)
next
  case (ws_delete tenant i db db')
  from ws_delete(1) have "db' = db\<lparr>wdbRows := tblDelete PlanID i (wdbRows db)\<rparr>"
    by (rule Delete_ok)
  with ws_delete show ?case
    by (auto simp: set_tblDelete intro: deps_completed_subset)
qed simp

lemma wave_reachable_inv:
  "wave_reachable db \<Longrightarrow> keyUnique PlanID (wdbRows db) \<and> deps_completed (wdbRows db)"
  by (induction rule: wave_reachable.induct) (simp_all add: deps_completed_def [of "[]"] wave_step_inv)

lemma wave_step_row:
  assumes "wave_step db db'" and "keyUnique PlanID (wdbRows db)" and "p \<in> set (wdbRows db)"
  shows "(\<exists>p' \<in> set (wdbRows db'). PlanID p' = PlanID p \<and> wpTenantID p' = wpTenantID p \<and>
            DependsOn p' = DependsOn p \<and>
            (wpStatus p' = wpStatus p \<or> wpStatus p' \<in> set (allowedTransitions (wpStatus p)))) \<or>
         wpStatus p \<noteq> StatusActive \<and> wpStatus p \<noteq> StatusCompleted"
  using assms
proof (cases rule: wave_step.cases)
  case (ws_create tenant now uuid plan who plan')
  have "wdbRows db' = tblInsert PlanID plan' (wdbRows db)"
    using Create_ok [OF ws_create(1,2)] by simp
  with assms(3) show ?thesis by (auto simp: set_tblInsert)
next
  case (ws_update tenant now i st)
  then obtain q where q: "q \<in> set (wdbRows db)" "PlanID q = i"
    "st \<in> set (allowedTransitions (wpStatus q))"
    and db': "db' = db\<lparr>wdbRows := tblUpdate PlanID i (setWaveColumns now (q\<lparr>wpStatus := st\<rparr>)) (wdbRows db)\<rparr>"
    by (blast elim: UpdateStatus_ok)
  show ?thesis
  proof (cases "PlanID p = i")
    case True
    with q keyUnique_eq [OF assms(2) q(1) assms(3)] have "q = p" by simp
    with True q assms(3) show ?thesis
      by (intro disjI1 bexI [of _ "setWaveColumns now (p\<lparr>wpStatus := st\<rparr>) p"])
        (auto simp: db' set_tblUpdate)
  next
    case False
    with assms(3) show ?thesis by (auto simp: db' set_tblUpdate)
  qed
next
  case (ws_delete tenant i)
  then obtain q where q: "q \<in> set (wdbRows db)" "PlanID q = i"
    "wpStatus q \<noteq> StatusActive" "wpStatus q \<noteq> StatusCompleted"
    and db': "db' = db\<lparr>wdbRows := tblDelete PlanID i (wdbRows db)\<rparr>"
    by (blast elim: Delete_ok)
  show ?thesis
  proof (cases "PlanID p = i")
    case True
    with q keyUnique_eq [OF assms(2) q(1) assms(3)] show ?thesis by auto
  next
    case False
    with assms(3) show ?thesis by (auto simp: db' set_tblDelete)
  qed
qed auto

lemma allowed_from_completed [simp]: "allowedTransitions StatusCompleted = []"
  by (simp add: allowedTransitions_def)

lemma Nodes_set: "set (Nodes (BuildGraph plans)) = buildNode plans ` set plans"
  by (auto simp: BuildGraph_def Let_def split: prod.splits)

lemma ceil_percent:
  assumes "1 \<le> percent" and "percent \<le> 100" and "0 < (len :: int)"
  shows "1 \<le> (len * percent + 99) div 100" and "(len * percent + 99) div 100 \<le> len"
proof -
  have "1 * 1 \<le> len * percent" and "len * percent \<le> len * 100"
    using assms by (intro mult_mono; simp)+
  then show "1 \<le> (len * percent + 99) div 100" and "(len * percent + 99) div 100 \<le> len"
    by linarith+
qed

text \<open>Runs written with the operations themselves.\<close>

lemma run_create:
  "wave_reachable db \<Longrightarrow> fst (Create t now u p who db) = None \<Longrightarrow> u \<noteq> [] \<Longrightarrow>
   u \<notin> PlanID ` set (wdbRows db) \<Longrightarrow> u \<notin> \<Union> (set ` DependsOn ` set (wdbRows db)) \<Longrightarrow>
   wave_reachable (snd (snd (Create t now u p who db)))"
  by (metis prod.collapse wr_step ws_create)

lemma run_update:
  "wave_reachable db \<Longrightarrow> fst (UpdateStatus t now i st db) = None \<Longrightarrow>
   wave_reachable (snd (UpdateStatus t now i st db))"
  by (metis prod.collapse wr_step ws_update)

definition demo_created :: WaveDB where
  "demo_created =
     snd (snd (Create ''t'' 2 ''b'' (mk_plan [] 2 [''a'']\<lparr>wpName := ''B''\<rparr>) ''op''
       (snd (snd (Create ''t'' 1 ''a'' (mk_plan [] 1 []\<lparr>wpName := ''A''\<rparr>) ''op''
         \<lparr>wdbRows = [], wdbFault = \<lambda>_. None\<rparr>)))))"

definition demo_completed :: WaveDB where
  "demo_completed =
     snd (UpdateStatus ''t'' 4 ''a'' StatusCompleted
       (snd (UpdateStatus ''t'' 3 ''a'' StatusActive demo_created)))"

definition demo_active :: WaveDB where
  "demo_active = snd (UpdateStatus ''t'' 5 ''b'' StatusActive demo_completed)"

lemma demo_completed_reachable: "wave_reachable demo_completed"
proof -
  let ?db0 = "\<lparr>wdbRows = [], wdbFault = \<lambda>_. None\<rparr>"
  let ?a = "mk_plan [] 1 []\<lparr>wpName := ''A''\<rparr>" and ?b = "mk_plan [] 2 [''a'']\<lparr>wpName := ''B''\<rparr>"
  have a: "wave_reachable (snd (snd (Create ''t'' 1 ''a'' ?a ''op'' ?db0)))" (is "wave_reachable ?db1")
    by (rule run_create [OF wr_init]) (code_simp+)
  have "wave_reachable demo_created"
    unfolding demo_created_def by (rule run_create [OF a]) (code_simp+)
  then have "wave_reachable (snd (UpdateStatus ''t'' 3 ''a'' StatusActive demo_created))"
    by (rule run_update) code_simp
  then show ?thesis
    unfolding demo_completed_def by (rule run_update) code_simp
qed

lemma demo_active_reachable: "wave_reachable demo_active"
  unfolding demo_active_def by (rule run_update [OF demo_completed_reachable]; code_simp)

subsection \<open>Properties\<close>

text \<open>
  C7: Dependency-safe activation. In every reachable state of the table, a wave that is active or
  completed has every wave of its tenant that it depends on completed, whatever creations,
  transitions and deletions of any tenant came before.
\<close>

theorem wave_activation_safe:
  assumes "wave_reachable db" and "p \<in> set (wdbRows db)" and "d \<in> set (wdbRows db)"
    and "wpStatus p = StatusActive \<or> wpStatus p = StatusCompleted"
    and "PlanID d \<in> set (DependsOn p)" and "PlanID d \<noteq> PlanID p" and "wpTenantID d = wpTenantID p"
  shows "wpStatus d = StatusCompleted"
  using wave_reachable_inv [OF assms(1)] deps_completedD [OF _ assms(2-)] by blast


theorem wave_activation_safe_witness:
  "length (wdbRows demo_active) = 2 \<and> wpStatus (wdbRows demo_active ! 1) = StatusActive \<and>
   wpStatus (wdbRows demo_active ! 0) = StatusCompleted"
proof -
  have len: "length (wdbRows demo_active) = 2" by code_simp
  have st: "wpStatus (wdbRows demo_active ! 1) = StatusActive" by code_simp
  have rel: "PlanID (wdbRows demo_active ! 0) \<in> set (DependsOn (wdbRows demo_active ! 1))"
    "PlanID (wdbRows demo_active ! 0) \<noteq> PlanID (wdbRows demo_active ! 1)"
    "wpTenantID (wdbRows demo_active ! 0) = wpTenantID (wdbRows demo_active ! 1)"
    by code_simp+
  have "wpStatus (wdbRows demo_active ! 0) = StatusCompleted"
    by (rule wave_activation_safe [OF demo_active_reachable, of "wdbRows demo_active ! 1"])
      (use len st rel in simp_all)
  with len st show ?thesis by simp
qed

text \<open>
  A completed wave stays. However the run goes on, the row of a wave once completed is still
  in the table, completed, with the same tenant and the same dependencies: no transition leaves
  \<open>completed\<close> and no planner deletes it.
\<close>

theorem wave_completed_forever:
  assumes "wave_step\<^sup>*\<^sup>* db db'" and "wave_reachable db" and "p \<in> set (wdbRows db)"
    and "wpStatus p = StatusCompleted"
  shows "\<exists>p' \<in> set (wdbRows db'). PlanID p' = PlanID p \<and> wpStatus p' = StatusCompleted \<and>
           wpTenantID p' = wpTenantID p \<and> DependsOn p' = DependsOn p"
proof -
  from assms(1,2) have "wave_reachable db' \<and> (\<exists>p' \<in> set (wdbRows db'). PlanID p' = PlanID p \<and>
      wpStatus p' = StatusCompleted \<and> wpTenantID p' = wpTenantID p \<and> DependsOn p' = DependsOn p)"
  proof (induction rule: rtranclp_induct)
    case base
    with assms(3,4) show ?case by blast
  next
    case (step db1 db2)
    then obtain q where q: "wave_reachable db1" "q \<in> set (wdbRows db1)" "PlanID q = PlanID p"
      "wpStatus q = StatusCompleted" "wpTenantID q = wpTenantID p" "DependsOn q = DependsOn p"
      by blast
    from wave_step_row [OF step.hyps(2) _ q(2)] wave_reachable_inv [OF q(1)] q(4)
    obtain q' where "q' \<in> set (wdbRows db2)" "PlanID q' = PlanID q" "wpTenantID q' = wpTenantID q"
      "DependsOn q' = DependsOn q" "wpStatus q' = StatusCompleted"
      by auto
    with q step.hyps(2) show ?case by (metis wr_step)
  qed
  then show ?thesis by blast
qed

theorem wave_completed_forever_witness:
  "\<exists>p' \<in> set (wdbRows demo_active). PlanID p' = ''a'' \<and> wpStatus p' = StatusCompleted"
proof -
  have "fst (UpdateStatus ''t'' 5 ''b'' StatusActive demo_completed) = None" by code_simp
  then have "wave_step demo_completed demo_active"
    unfolding demo_active_def by (metis prod.collapse ws_update)
  then have run: "wave_step\<^sup>*\<^sup>* demo_completed demo_active" by blast
  have "0 < length (wdbRows demo_completed)" by code_simp
  then have mem: "wdbRows demo_completed ! 0 \<in> set (wdbRows demo_completed)" by (rule nth_mem)
  have "wpStatus (wdbRows demo_completed ! 0) = StatusCompleted" by code_simp
  moreover have "PlanID (wdbRows demo_completed ! 0) = ''a''" by code_simp
  ultimately show ?thesis
    using wave_completed_forever [OF run demo_completed_reachable mem] by metis
qed

text \<open>
  The graph endpoint and the transition endpoint agree: a plan's node is marked activatable
  exactly when the planner, asked to activate it, would (provided the database executes the
  update).
\<close>

theorem graph_agrees_with_activation:
  assumes plans: "GetWavePlans tenant db = Inr plans" and uniq: "keyUnique PlanID (wdbRows db)"
    and p: "p \<in> set plans" and "wdbFault db OpUpdate = None"
  shows "(\<exists>n \<in> set (Nodes (BuildGraph plans)). gnPlanID n = PlanID p \<and> Activatable n) \<longleftrightarrow>
         fst (UpdateStatus tenant now (PlanID p) StatusActive db) = None"
proof -
  note uniq' = GetWavePlans_unique [OF plans uniq]
  have "(\<exists>n \<in> set (Nodes (BuildGraph plans)). gnPlanID n = PlanID p \<and> Activatable n) \<longleftrightarrow>
      wpStatus p = StatusPlanned \<and> incompleteDependencies p plans = []"
    using p keyUnique_eq [OF uniq' _ p]
    by (auto simp: Nodes_set buildNode_def incompleteDependencies_blockedBy)
  also have "\<dots> \<longleftrightarrow> fst (UpdateStatus tenant now (PlanID p) StatusActive db) = None"
    using plans tblFind_unique [OF uniq' p] assms(4)
    by (auto simp: UpdateStatus_def ValidStatuses_def checkTransition_def allowedTransitions_def
        Let_def UpdateWavePlan_def)
  finally show ?thesis .
qed

theorem graph_agrees_with_activation_witness:
  "fst (UpdateStatus ''t'' 9 ''b'' StatusActive demo_created) \<noteq> None"
proof -
  obtain plans where plans: "GetWavePlans ''t'' demo_created = Inr plans"
    and eq: "plans = (case GetWavePlans ''t'' demo_created of Inr ps \<Rightarrow> ps | Inl _ \<Rightarrow> [])"
    by (cases "GetWavePlans ''t'' demo_created") (auto simp: demo_created_def GetWavePlans_def
        Create_def CreateWavePlan_def Let_def split: option.splits)
  have len: "length plans = 2" and id: "PlanID (plans ! 1) = ''b''"
    unfolding eq by code_simp+
  have nodes: "\<not> (\<exists>n \<in> set (Nodes (BuildGraph plans)). gnPlanID n = ''b'' \<and> Activatable n)"
    unfolding eq by code_simp
  have uniq: "keyUnique PlanID (wdbRows demo_created)" unfolding keyUnique_def by code_simp
  have "plans ! 1 \<in> set plans" using len by simp
  moreover have "wdbFault demo_created OpUpdate = None" by code_simp
  ultimately have "(\<exists>n \<in> set (Nodes (BuildGraph plans)). gnPlanID n = PlanID (plans ! 1) \<and> Activatable n)
      \<longleftrightarrow> fst (UpdateStatus ''t'' 9 (PlanID (plans ! 1)) StatusActive demo_created) = None"
    by (rule graph_agrees_with_activation [OF plans uniq])
  with nodes show ?thesis unfolding id by blast
qed

lemma Create_refused: "fst (Create tenant now uuid plan who db) = Some e \<Longrightarrow>
    snd (snd (Create tenant now uuid plan who db)) = db"
  by (auto simp: Create_def CreateWavePlan_def Let_def split: option.splits sum.splits if_splits)

lemma UpdateStatus_refused: "fst (UpdateStatus tenant now i st db) = Some e \<Longrightarrow>
    snd (UpdateStatus tenant now i st db) = db"
  by (auto simp: UpdateStatus_def UpdateWavePlan_def Let_def dest: tblFind_Some split: option.splits sum.splits if_splits)

lemma Delete_refused: "fst (Delete tenant i db) = Some e \<Longrightarrow> snd (Delete tenant i db) = db"
  by (auto simp: Delete_def DeleteWavePlan_def Let_def dest: tblFind_Some split: option.splits sum.splits if_splits)

text \<open>
  A refused operation changes nothing: when creation, transition or deletion answers with an
  error (of its own or of the database), the table is the one before.
\<close>

theorem planner_refusal_keeps_table:
  assumes "db' = snd (snd (Create tenant now uuid plan who db)) \<and>
      fst (Create tenant now uuid plan who db) = Some e \<or>
    db' = snd (UpdateStatus tenant now i st db) \<and> fst (UpdateStatus tenant now i st db) = Some e \<or>
    db' = snd (Delete tenant i db) \<and> fst (Delete tenant i db) = Some e"
  shows "db' = db"
  using assms by (elim disjE conjE) (simp_all only: Create_refused UpdateStatus_refused Delete_refused)

theorem planner_refusal_keeps_table_witness:
  "snd (UpdateStatus ''t'' 9 ''b'' StatusActive demo_created) = demo_created"
proof -
  have "fst (UpdateStatus ''t'' 9 ''b'' StatusActive demo_created) \<noteq> None" by code_simp
  then obtain e where "fst (UpdateStatus ''t'' 9 ''b'' StatusActive demo_created) = Some e" by blast
  then show ?thesis
    by (intro planner_refusal_keeps_table [where tenant = "''t''" and now = 9 and i = "''b''" and st = StatusActive and e = e]) blast
qed

text \<open>
  The canary cohort. The suggestion refuses a percentage outside 1..100 and a plan without
  assets, and otherwise yields the first \<open>ceil(len * percent / 100)\<close> of the plan's distinct
  non-empty host ids in sorted order: at least one, at most all of them.
\<close>

theorem canary_cohort:
  "case SuggestCanaryCohort (Some plan) percent of
     Inl e \<Rightarrow> percent < 1 \<or> 100 < percent \<or> set (AssetIDs plan) \<subseteq> {[]}
   | Inr cohort \<Rightarrow>
       1 \<le> percent \<and> percent \<le> 100 \<and>
       cohort = take (length cohort) (sorted_list_of_set (set (AssetIDs plan) - {[]})) \<and>
       int (length cohort) = (int (card (set (AssetIDs plan) - {[]})) * percent + 99) div 100 \<and>
       1 \<le> length cohort \<and> length cohort \<le> card (set (AssetIDs plan) - {[]})"
proof (cases "percent < 1 \<or> 100 < percent")
  case True
  then show ?thesis by (auto simp: SuggestCanaryCohort_def)
next
  case False
  let ?h = "firstSeen [] (filter (\<lambda>a. a \<noteq> []) (AssetIDs plan))"
  let ?H = "set (AssetIDs plan) - {[]}"
  have H: "set ?h = ?H" and dist: "distinct ?h" by auto
  then have len: "length ?h = card ?H" by (metis distinct_card)
  show ?thesis
  proof (cases "?h = []")
    case True
    with H False show ?thesis by (auto simp: SuggestCanaryCohort_def simp flip: set_empty)
  next
    case False
    then have pos: "0 < int (length ?h)" by simp
    let ?n = "(int (length ?h) * percent + 99) div 100"
    have n: "1 \<le> ?n" "?n \<le> int (length ?h)"
      using ceil_percent [OF _ _ pos] \<open>\<not> (percent < 1 \<or> 100 < percent)\<close> by auto
    have "SuggestCanaryCohort (Some plan) percent = Inr (take (nat ?n) (sort ?h))"
      using n False \<open>\<not> (percent < 1 \<or> 100 < percent)\<close> by (simp add: SuggestCanaryCohort_def Let_def)
    moreover have "sort ?h = sorted_list_of_set ?H"
      using dist H by (metis sorted_list_of_set_sort_remdups distinct_remdups_id)
    moreover have "length (take (nat ?n) (sort ?h)) = nat ?n" using n by simp
    ultimately show ?thesis
      using n \<open>\<not> (percent < 1 \<or> 100 < percent)\<close> by (simp add: len nat_le_iff le_nat_iff)
  qed
qed


end
