(* ===== verification/PolicyTypes.thy ===== *)
theory PolicyTypes
  imports GoLib
begin

text \<open>
  The messages of \<^verbatim>\<open>server/internal/pb/types.go\<close> that the policy engine reads and writes, with
  the numeric constants of the wire enums. \<open>int32\<close> severities and roles are only compared and
  shifted by at most 2, so they are \<^typ>\<open>int\<close>; \<open>uint32\<close> key sizes are only compared and printed,
  so they are \<^typ>\<open>nat\<close>; a \<open>float64\<close> confidence is a \<^typ>\<open>real\<close>. Pointers to messages are the
  messages: a decoded payload shares none of them.
\<close>

subsection \<open>Enumerations\<close>

abbreviation (input) CryptoRoleKEM :: int where "CryptoRoleKEM \<equiv> 1"
abbreviation (input) CryptoRoleKeyExchange :: int where "CryptoRoleKeyExchange \<equiv> 2"
abbreviation (input) CryptoRoleSignature :: int where "CryptoRoleSignature \<equiv> 3"
abbreviation (input) CryptoRoleCertPublicKey :: int where "CryptoRoleCertPublicKey \<equiv> 4"
abbreviation (input) CryptoRoleCertSignature :: int where "CryptoRoleCertSignature \<equiv> 5"
abbreviation (input) CryptoRoleSymmetric :: int where "CryptoRoleSymmetric \<equiv> 6"
abbreviation (input) CryptoRoleHash :: int where "CryptoRoleHash \<equiv> 7"

abbreviation (input) RiskSeverityInfo :: int where "RiskSeverityInfo \<equiv> 1"
abbreviation (input) RiskSeverityLow :: int where "RiskSeverityLow \<equiv> 2"
abbreviation (input) RiskSeverityMedium :: int where "RiskSeverityMedium \<equiv> 3"
abbreviation (input) RiskSeverityHigh :: int where "RiskSeverityHigh \<equiv> 4"
abbreviation (input) RiskSeverityCritical :: int where "RiskSeverityCritical \<equiv> 5"

subsection \<open>Messages\<close>

record CryptoAlgorithm =
  algName :: string
  algFamily :: string
  algRole :: int
  algStatus :: string
  KeyBits :: nat
  Curve :: string
  ImplementationLibrary :: string
  SourceFile :: string
  SourceLine :: nat
  SourceColumn :: nat
  Symbol :: string
  algConfidence :: real
  QuantumVulnerable :: bool
  ContextSnippet :: string

record CbomComponent =
  BomRef :: string
  cmpName :: string
  cmpVersion :: string
  ComponentType :: string
  Purl :: string
  FilePath :: string
  Language :: string
  Algorithms :: "CryptoAlgorithm list"
  Dependencies :: "string list"
  Reachable :: bool

record CryptoFinding =
  FindingId :: string
  Severity :: int
  Title :: string
  fnDescription :: string
  AssetRef :: string
  fnAlgorithm :: string
  PolicyRuleId :: string
  EvidenceIds :: "string list"
  MigrationProfile :: string

record NetworkObservation =
  Endpoint :: string
  Protocol :: string
  TlsVersion :: string
  CipherSuite :: string
  NamedGroup :: string
  SignatureAlgorithm :: string
  CertificateSubject :: string
  CertificateIssuer :: string
  CertificateNotAfterUnix :: int
  PqcHybrid :: bool
  Cleartext :: bool

record Evidence =
  EvidenceId :: string
  SourceType :: string
  SourceTool :: string
  evTarget :: string
  CollectionTimeUnix :: int
  RawArtifactSha256 :: string
  evConfidence :: real
  SensitivityClass :: string

record CbomTelemetryPayload =
  TelemetryId :: string
  plHostUuid :: string
  ScanStartedUnix :: int
  ScanFinishedUnix :: int
  Components :: "CbomComponent list"
  Findings :: "CryptoFinding list"
  NetworkObservations :: "NetworkObservation list"
  plEvidence :: "Evidence list"
  CycloneDxJson :: string

end
