(* ===== verification/OSV.thy ===== *)
theory OSV
  imports GoLib
begin

text \<open>
  The OSV.dev client: \<^verbatim>\<open>server/internal/policy/osv.go\<close>. The HTTP round trip is a parameter
  \<open>post\<close>: for the n-th request of a client and the query it carries, the decoded answer, or
  \<open>None\<close> for every way the round trip can fail (transport, status, body, JSON), which the code
  treats alike. \<open>strconv.ParseFloat\<close> is the parameter \<open>parseFloat\<close>. The cache is the client's
  state.
\<close>

subsection \<open>Data\<close>

record OSVSeverity =
  sevType :: string
  sevScore :: string

record OSVPackage =
  pkgName :: string
  pkgEcosystem :: string
  pkgPurl :: string

record OSVEvent =
  Introduced :: string
  Fixed :: string

record OSVRange =
  rangeType :: string
  Events :: "OSVEvent list"

record OSVAffected =
  affPackage :: OSVPackage
  Ranges :: "OSVRange list"

record OSVVulnerability =
  osvID :: string
  Summary :: string
  Details :: string
  osvSeverity :: "OSVSeverity list"
  Affected :: "OSVAffected list"

record osvQuery =
  qName :: string
  qEcosystem :: string
  qVersion :: string

record OSVClient =
  osvCache :: "string \<rightharpoonup> OSVVulnerability list"
  osvEnabled :: bool
  osvCalls :: nat

type_synonym osv_net = "nat \<Rightarrow> osvQuery \<Rightarrow> OSVVulnerability list option"

subsection \<open>Operations\<close>

definition NewOSVClient :: "bool \<Rightarrow> OSVClient" where
  "NewOSVClient enabled = \<lparr>osvCache = Map.empty, osvEnabled = enabled, osvCalls = 0\<rparr>"

definition mapEcosystem :: "string \<Rightarrow> string" where
  "mapEcosystem ecosystem =
     (let e = toLower ecosystem in
      if e \<in> set [''go'', ''golang''] then ''Go''
      else if e \<in> set [''npm'', ''node''] then ''npm''
      else if e \<in> set [''pypi'', ''python''] then ''PyPI''
      else if e \<in> set [''maven'', ''jvm'', ''java''] then ''Maven''
      else if e \<in> set [''nuget'', ''.net'', ''csharp''] then ''NuGet''
      else if e \<in> set [''crates.io'', ''rust''] then ''crates.io''
      else if e \<in> set [''rubygems'', ''ruby''] then ''RubyGems''
      else if e \<in> set [''packagist'', ''php''] then ''Packagist''
      else [])"

text \<open>\<open>fmt.Sprintf("%s/%s@%s", ecosystem, name, version)\<close>.\<close>

definition cacheKey :: "string \<Rightarrow> string \<Rightarrow> string \<Rightarrow> string" where
  "cacheKey ecosystem name version = ecosystem @ ''/'' @ name @ ''@'' @ version"

text \<open>Every path returns a nil error, so the result is the list alone.\<close>

definition QueryPackage :: "osv_net \<Rightarrow> string \<Rightarrow> string \<Rightarrow> string \<Rightarrow> OSVClient
    \<Rightarrow> OSVVulnerability list \<times> OSVClient" where
  "QueryPackage post ecosystem name version c =
     (if \<not> osvEnabled c then ([], c)
      else case osvCache c (cacheKey ecosystem name version) of
             Some cached \<Rightarrow> (cached, c)
           | None \<Rightarrow>
               (if mapEcosystem ecosystem = [] then ([], c)
                else
                  (let c' = c\<lparr>osvCalls := osvCalls c + 1\<rparr> in
                   case post (osvCalls c) \<lparr>qName = name, qEcosystem = mapEcosystem ecosystem,
                                           qVersion = version\<rparr> of
                     None \<Rightarrow> ([], c')
                   | Some vulns \<Rightarrow>
                       (vulns, c'\<lparr>osvCache := (osvCache c')(cacheKey ecosystem name version \<mapsto> vulns)\<rparr>))))"

definition cryptoKeywords :: "string list" where
  "cryptoKeywords =
     [''crypto'', ''tls'', ''ssl'', ''certificate'', ''cipher'', ''encrypt'',
      ''decrypt'', ''hash'', ''sign'', ''key'', ''rsa'', ''ecdsa'', ''aes'',
      ''pkcs'', ''x509'', ''handshake'', ''padding'', ''oracle'', ''timing'',
      ''rng'', ''random'', ''nonce'', ''iv'', ''salt'']"

definition FilterCryptoRelevant :: "OSVVulnerability list \<Rightarrow> OSVVulnerability list" where
  "FilterCryptoRelevant vulns =
     filter (\<lambda>v. let t = toLower (Summary v @ '' '' @ Details v @ '' '' @ osvID v)
                 in list_ex (contains t) cryptoKeywords) vulns"

definition cvssScoreToJanus :: "real \<Rightarrow> int" where
  "cvssScoreToJanus score =
     (if 9 \<le> score then 5 else if 7 \<le> score then 4 else if 4 \<le> score then 3 else 2)"

fun OSVSeverityToJanus :: "(string \<Rightarrow> real option) \<Rightarrow> OSVSeverity list \<Rightarrow> int" where
  "OSVSeverityToJanus parseFloat [] = 3"
| "OSVSeverityToJanus parseFloat (s # ss) =
     (if (sevType s = ''CVSS_V3'' \<or> sevType s = ''CVSS_V4'') \<and> sevScore s \<noteq> []
      then (case parseFloat (sevScore s) of
              Some score \<Rightarrow> cvssScoreToJanus score
            | None \<Rightarrow> OSVSeverityToJanus parseFloat ss)
      else OSVSeverityToJanus parseFloat ss)"

text \<open>The three nested loops return the first non-empty \<open>Fixed\<close> in reading order.\<close>

definition GetFixedVersion :: "OSVVulnerability \<Rightarrow> string" where
  "GetFixedVersion vuln =
     (case find (\<lambda>ev. Fixed ev \<noteq> [])
             (concat (map (\<lambda>aff. concat (map Events (Ranges aff))) (Affected vuln))) of
        Some ev \<Rightarrow> Fixed ev
      | None \<Rightarrow> ''unknown'')"

subsection \<open>The cache\<close>

lemma cvssScoreToJanus_range: "2 \<le> cvssScoreToJanus x \<and> cvssScoreToJanus x \<le> 5"
  by (simp add: cvssScoreToJanus_def)

lemma OSVSeverityToJanus_range:
  "2 \<le> OSVSeverityToJanus pf ss \<and> OSVSeverityToJanus pf ss \<le> 5"
  by (induction ss) (auto simp: cvssScoreToJanus_range split: option.splits)

text \<open>A slash-free ecosystem and an \<open>@\<close>-free version make the key injective.\<close>

lemma cacheKey_inj:
  assumes "CHR ''/'' \<notin> set e" and "CHR ''/'' \<notin> set e'"
    and "CHR ''@'' \<notin> set v" and "CHR ''@'' \<notin> set v'"
  shows "cacheKey e n v = cacheKey e' n' v' \<longleftrightarrow> e = e' \<and> n = n' \<and> v = v'"
  using append_sep_inj [OF assms(1,2), of "n @ CHR ''@'' # v" "n' @ CHR ''@'' # v'"]
    append_last_sep_inj [OF assms(3,4), of n n']
  by (simp add: cacheKey_def)

lemma mapEcosystem_no_slash: "mapEcosystem e \<noteq> [] \<Longrightarrow> CHR ''/'' \<notin> set e"
proof -
  have slash: "lowerByte (CHR ''/'') = CHR ''/''" by code_simp
  have "CHR ''/'' \<in> set e \<Longrightarrow> CHR ''/'' \<in> set (toLower e)"
    unfolding toLower_def set_map using slash by (metis imageI)
  moreover have "mapEcosystem e \<noteq> [] \<Longrightarrow> CHR ''/'' \<notin> set (toLower e)"
    by (auto simp: mapEcosystem_def Let_def split: if_splits)
  ultimately show "mapEcosystem e \<noteq> [] \<Longrightarrow> CHR ''/'' \<notin> set e" by blast
qed

text \<open>Every cached answer was given to a request for the package and version it is filed under.\<close>

definition cache_sound :: "osv_net \<Rightarrow> OSVClient \<Rightarrow> bool" where
  "cache_sound post c \<longleftrightarrow>
     (\<forall>e n v vs. mapEcosystem e \<noteq> [] \<and> CHR ''@'' \<notin> set v \<and>
        osvCache c (cacheKey e n v) = Some vs \<longrightarrow>
        (\<exists>k < osvCalls c. post k \<lparr>qName = n, qEcosystem = mapEcosystem e, qVersion = v\<rparr> = Some vs))"

lemma cache_sound_New: "cache_sound post (NewOSVClient b)"
  by (simp add: cache_sound_def NewOSVClient_def)

lemma cache_soundD:
  "cache_sound post c \<Longrightarrow> mapEcosystem e \<noteq> [] \<Longrightarrow> CHR ''@'' \<notin> set v \<Longrightarrow>
   osvCache c (cacheKey e n v) = Some vs \<Longrightarrow>
   \<exists>k < osvCalls c. post k \<lparr>qName = n, qEcosystem = mapEcosystem e, qVersion = v\<rparr> = Some vs"
  by (simp add: cache_sound_def)

lemma cache_sound_calls: "cache_sound post c \<Longrightarrow> cache_sound post (c\<lparr>osvCalls := osvCalls c + 1\<rparr>)"
  by (auto simp: cache_sound_def) (metis less_SucI)

lemma cache_sound_store:
  assumes "cache_sound post c" and "mapEcosystem e \<noteq> []" and "CHR ''@'' \<notin> set v"
    and "post (osvCalls c) \<lparr>qName = n, qEcosystem = mapEcosystem e, qVersion = v\<rparr> = Some vs"
  shows "cache_sound post (c\<lparr>osvCalls := osvCalls c + 1,
    osvCache := (osvCache c)(cacheKey e n v \<mapsto> vs)\<rparr>)"
  unfolding cache_sound_def
proof (intro allI impI, elim conjE)
  fix e' n' v' vs'
  assume new: "mapEcosystem e' \<noteq> []" "CHR ''@'' \<notin> set v'"
    "osvCache (c\<lparr>osvCalls := osvCalls c + 1, osvCache := (osvCache c)(cacheKey e n v \<mapsto> vs)\<rparr>)
       (cacheKey e' n' v') = Some vs'"
  have key: "cacheKey e n v = cacheKey e' n' v' \<longleftrightarrow> e = e' \<and> n = n' \<and> v = v'"
    by (rule cacheKey_inj) (use assms new mapEcosystem_no_slash in auto)
  show "\<exists>k < osvCalls (c\<lparr>osvCalls := osvCalls c + 1, osvCache := (osvCache c)(cacheKey e n v \<mapsto> vs)\<rparr>).
      post k \<lparr>qName = n', qEcosystem = mapEcosystem e', qVersion = v'\<rparr> = Some vs'"
  proof (cases "cacheKey e n v = cacheKey e' n' v'")
    case True
    with key new assms(4) show ?thesis by auto
  next
    case False
    with new have "osvCache c (cacheKey e' n' v') = Some vs'" by (auto split: if_splits)
    from cache_soundD [OF assms(1) new(1,2) this] show ?thesis by (auto intro: less_SucI)
  qed
qed

lemma QueryPackage_sound:
  assumes "cache_sound post c" and "CHR ''@'' \<notin> set version"
  shows "cache_sound post (snd (QueryPackage post ecosystem name version c))"
  using assms cache_sound_calls [OF assms(1)] cache_sound_store [OF assms(1) _ assms(2)]
  by (auto simp: QueryPackage_def Let_def split: option.splits)

lemma QueryPackage_answer:
  assumes "cache_sound post c" and "CHR ''@'' \<notin> set version" and "mapEcosystem ecosystem \<noteq> []"
    and "fst (QueryPackage post ecosystem name version c) = vulns" and "vulns \<noteq> []"
  shows "\<exists>k \<le> osvCalls c.
    post k \<lparr>qName = name, qEcosystem = mapEcosystem ecosystem, qVersion = version\<rparr> = Some vulns"
proof (cases "osvCache c (cacheKey ecosystem name version)")
  case None
  with assms show ?thesis
    by (auto simp: QueryPackage_def Let_def split: option.splits if_splits)
next
  case (Some vs)
  with assms have "vs = vulns" by (auto simp: QueryPackage_def split: if_splits)
  with cache_soundD [OF assms(1,3,2) Some] show ?thesis by (blast intro: less_imp_le)
qed

end
