(* ===== verification/PolicyEngine.thy ===== *)
theory PolicyEngine
  imports PolicyTypes OSV
begin

text \<open>
  The policy engine: \<^verbatim>\<open>server/internal/policy/engine.go\<close>. \<open>assessWithProfile\<close> is translated loop
  by loop; the payload is the state every step returns updated, \<open>newID\<close> yields the UUID of the
  finding that becomes the n-th of the payload, \<open>quote\<close> is \<open>strconv.Quote\<close> (the verb
  \<open>%q\<close>). The only fields that the assessment writes are \<open>Findings\<close> and an algorithm's
  \<open>QuantumVulnerable\<close>.
\<close>

subsection \<open>Profiles and the engine\<close>

record Profile =
  Version :: string
  MinimumRSAKeyBits :: nat
  MinimumDHSafePrimeBits :: nat
  RequireTLS13 :: bool
  RequireHybridPQTLS13 :: bool
  PreferredKEM :: string
  PreferredSignature :: string
  MinimumConfidence :: real
  prEffectiveDate :: string
  FrameworkMappings :: "string list"

record Engine =
  active :: string
  profiles :: "string \<rightharpoonup> Profile"
  osvClient :: "OSVClient option"

text \<open>The zero value a Go map yields for a missing key.\<close>

definition zeroProfile :: Profile where
  "zeroProfile =
     \<lparr>Version = [], MinimumRSAKeyBits = 0, MinimumDHSafePrimeBits = 0, RequireTLS13 = False,
      RequireHybridPQTLS13 = False, PreferredKEM = [], PreferredSignature = [],
      MinimumConfidence = 0, prEffectiveDate = [], FrameworkMappings = []\<rparr>"

definition NIST2026Profile :: Profile where
  "NIST2026Profile =
     \<lparr>Version = ''nist-pqc-2026.1'', MinimumRSAKeyBits = 3072, MinimumDHSafePrimeBits = 3072,
      RequireTLS13 = True, RequireHybridPQTLS13 = True, PreferredKEM = ''X25519MLKEM768'',
      PreferredSignature = ''ML-DSA-65'', MinimumConfidence = 0, prEffectiveDate = ''2025-08-13'',
      FrameworkMappings = [''NIST.FIPS.203'', ''NIST.FIPS.204'', ''NIST.FIPS.205'']\<rparr>"

definition NewEngine :: "Profile \<Rightarrow> Engine" where
  "NewEngine profile =
     \<lparr>active = Version profile, profiles = [Version profile \<mapsto> profile],
      osvClient = Some (NewOSVClient True)\<rparr>"

text \<open>The loop over the policy files: each is its path and, if it could be read and parsed, the
  profile.\<close>

fun loadProfiles :: "(string \<times> Profile option) list \<Rightarrow> Engine \<Rightarrow> Engine" where
  "loadProfiles [] e = e"
| "loadProfiles ((file, parsed) # fs) e =
     loadProfiles fs
       (case parsed of
          None \<Rightarrow> e
        | Some p \<Rightarrow>
            if Version p \<noteq> []
            then (let e' = e\<lparr>profiles := (profiles e)(Version p \<mapsto> p)\<rparr>
                  in if contains file ''nist-pqc-2026'' then e'\<lparr>active := Version p\<rparr> else e')
            else e)"

definition LoadEngine :: "(string \<times> Profile option) list option \<Rightarrow> Engine" where
  "LoadEngine files =
     (let e = \<lparr>active = ''nist-pqc-2026.1'',
               profiles = [Version NIST2026Profile \<mapsto> NIST2026Profile],
               osvClient = Some (NewOSVClient True)\<rparr>
      in case files of None \<Rightarrow> e | Some fs \<Rightarrow> loadProfiles fs e)"

definition GetActiveProfile :: "Engine \<Rightarrow> Profile" where
  "GetActiveProfile e = (case profiles e (active e) of Some p \<Rightarrow> p | None \<Rightarrow> zeroProfile)"

definition SetActiveProfile :: "string \<Rightarrow> Engine \<Rightarrow> goerror \<times> Engine" where
  "SetActiveProfile version e =
     (case profiles e version of
        None \<Rightarrow> (Some (''profile '' @ version @ '' not found''), e)
      | Some _ \<Rightarrow> (None, e\<lparr>active := version\<rparr>))"

definition AddProfile :: "Profile \<Rightarrow> Engine \<Rightarrow> Engine" where
  "AddProfile p e = e\<lparr>profiles := (profiles e)(Version p \<mapsto> p)\<rparr>"

definition GetProfile :: "string \<Rightarrow> Engine \<Rightarrow> Profile \<times> bool" where
  "GetProfile version e =
     (case profiles e version of Some p \<Rightarrow> (p, True) | None \<Rightarrow> (zeroProfile, False))"

definition RemoveProfile :: "string \<Rightarrow> Engine \<Rightarrow> goerror \<times> Engine" where
  "RemoveProfile version e =
     (case profiles e version of
        None \<Rightarrow> (Some (''profile '' @ version @ '' not found''), e)
      | Some _ \<Rightarrow>
          if version = active e
          then (Some (''cannot delete the active profile '' @ version @
                      ''; switch the active profile first''), e)
          else (None, e\<lparr>profiles := (profiles e)(version := None)\<rparr>))"

subsection \<open>Findings\<close>

definition hasFinding :: "CbomTelemetryPayload \<Rightarrow> string \<Rightarrow> string \<Rightarrow> string \<Rightarrow> bool" where
  "hasFinding payload assetRef algorithm rule \<longleftrightarrow>
     list_ex (\<lambda>f. AssetRef f = assetRef \<and> fnAlgorithm f = algorithm \<and> PolicyRuleId f = rule)
       (Findings payload)"

definition mkFinding :: "int \<Rightarrow> string \<Rightarrow> string \<Rightarrow> string \<Rightarrow> string \<Rightarrow> string \<Rightarrow> string
    \<Rightarrow> string list \<Rightarrow> CryptoFinding" where
  "mkFinding severity title description assetRef algorithm rule profile evidenceIDs =
     \<lparr>FindingId = [], Severity = severity, Title = title, fnDescription = description,
      AssetRef = assetRef, fnAlgorithm = algorithm, PolicyRuleId = rule,
      EvidenceIds = evidenceIDs, MigrationProfile = profile\<rparr>"

definition appendFinding :: "(nat \<Rightarrow> string) \<Rightarrow> CryptoFinding \<Rightarrow> CbomTelemetryPayload
    \<Rightarrow> CbomTelemetryPayload" where
  "appendFinding newID f payload =
     (if hasFinding payload (AssetRef f) (fnAlgorithm f) (PolicyRuleId f) then payload
      else payload\<lparr>Findings :=
             Findings payload @ [f\<lparr>FindingId := newID (length (Findings payload))\<rparr>]\<rparr>)"

definition containsAny :: "string \<Rightarrow> string list \<Rightarrow> bool" where
  "containsAny s needles \<longleftrightarrow> list_ex (contains s) needles"

definition isPublicKeyRole :: "int \<Rightarrow> bool" where
  "isPublicKeyRole role \<longleftrightarrow>
     role \<in> set [CryptoRoleKEM, CryptoRoleKeyExchange, CryptoRoleSignature,
                 CryptoRoleCertPublicKey, CryptoRoleCertSignature]"

definition roleName :: "int \<Rightarrow> string" where
  "roleName role =
     (if role = CryptoRoleKEM then ''KEM''
      else if role = CryptoRoleKeyExchange then ''key exchange''
      else if role = CryptoRoleSignature then ''signature''
      else if role = CryptoRoleCertPublicKey then ''certificate public key''
      else if role = CryptoRoleCertSignature then ''certificate signature''
      else ''cryptographic operation'')"

definition toBackslash :: "string \<Rightarrow> string" where
  "toBackslash s = replaceByte (CHR ''/'') [CHR 0x5C] s"

definition findEvidenceIDs :: "CbomTelemetryPayload \<Rightarrow> string \<Rightarrow> string list" where
  "findEvidenceIDs payload assetRef =
     (let afterColon = (if CHR '':'' \<in> set assetRef
                        then tl (dropWhile (\<lambda>c. c \<noteq> CHR '':'') assetRef) else assetRef);
          cleanRef = toBackslash afterColon
      in map EvidenceId
           (filter (\<lambda>ev. let target = toBackslash (evTarget ev) in
              evTarget ev = assetRef \<or> target = cleanRef \<or>
              4 < length cleanRef \<and> contains target cleanRef \<or>
              4 < length target \<and> contains cleanRef target) (plEvidence payload)))"

subsection \<open>The assessment of an algorithm\<close>

definition adjustSeverityForIntent :: "int \<Rightarrow> CryptoAlgorithm \<Rightarrow> int" where
  "adjustSeverityForIntent baseSeverity alg =
     (let status = toLower (algStatus alg) in
      if status = ''verify'' \<or> status = ''parse''
      then (if 2 \<le> baseSeverity then baseSeverity - 2 else RiskSeverityInfo)
      else if status = ''negotiate''
      then (if 1 \<le> baseSeverity then baseSeverity - 1 else RiskSeverityInfo)
      else baseSeverity)"

definition isLowRiskIntent :: "CryptoAlgorithm \<Rightarrow> bool" where
  "isLowRiskIntent alg \<longleftrightarrow>
     (let s = toLower (algStatus alg) in s = ''verify'' \<or> s = ''parse'' \<or> s = ''negotiate'')"

text \<open>The dash of the annotation is U+2014, three bytes in UTF-8.\<close>

definition intentNote :: "CryptoAlgorithm \<Rightarrow> string" where
  "intentNote alg =
     (if isLowRiskIntent alg
      then '' [Usage context: '' @ algStatus alg @ '' '' @ [CHR 0xE2, CHR 0x80, CHR 0x94] @
           '' severity adjusted from original assessment]''
      else [])"

definition isSignatureRole :: "int \<Rightarrow> bool" where
  "isSignatureRole role \<longleftrightarrow>
     role = CryptoRoleCertSignature \<or> role = CryptoRoleSignature \<or> role = CryptoRoleCertPublicKey"

definition classicalPublicKey :: "CryptoAlgorithm \<Rightarrow> bool" where
  "classicalPublicKey alg \<longleftrightarrow>
     containsAny (toUpper (algName alg)) [''RSA'', ''ECDSA'', ''ECDH'', ''ECDHE'', ''DH'', ''DSA''] \<or>
     containsAny (toUpper (algFamily alg)) [''RSA'', ''ECC'', ''ECDH'', ''DIFFIE'', ''DSA'']"

text \<open>The finding for a classical public-key algorithm.\<close>

definition publicKeyFinding :: "CbomTelemetryPayload \<Rightarrow> CbomComponent \<Rightarrow> Profile
    \<Rightarrow> CryptoAlgorithm \<Rightarrow> CryptoFinding" where
  "publicKeyFinding payload component profile alg =
     (let evidenceIDs = findEvidenceIDs payload (BomRef component);
          severity = adjustSeverityForIntent RiskSeverityHigh alg
      in if isSignatureRole (algRole alg) then
           (if contains (toUpper (algName alg)) ''RSA'' \<and> 0 < KeyBits alg \<and>
               KeyBits alg < MinimumRSAKeyBits profile
            then mkFinding (adjustSeverityForIntent RiskSeverityCritical alg)
                   ''RSA key size below 2026 transition threshold''
                   (BomRef component @ '' uses RSA-'' @ decNat (KeyBits alg) @
                    ''; minimum transitional threshold is RSA-'' @ decNat (MinimumRSAKeyBits profile) @
                    ''. Migrate to signature standard '' @ PreferredSignature profile @ '' (ML-DSA).'' @
                    intentNote alg)
                   (BomRef component) (algName alg) ''JANUS-PQC-002''
                   ''certificate-signature-modernization'' evidenceIDs
            else mkFinding severity
                   ''Classical public-key signature cryptography is quantum-vulnerable''
                   (BomRef component @ '' uses '' @ algName alg @ '' for '' @ roleName (algRole alg) @
                    ''. Migrate to PQC signature standard '' @ PreferredSignature profile @
                    '' (ML-DSA) or SLH-DSA.'' @ intentNote alg)
                   (BomRef component) (algName alg) ''JANUS-PQC-001''
                   ''certificate-signature-modernization'' evidenceIDs)
         else mkFinding severity
                ''Classical key exchange / KEM cryptography is quantum-vulnerable''
                (BomRef component @ '' uses '' @ algName alg @ '' for '' @ roleName (algRole alg) @
                 ''. Migrate to hybrid/PQC key establishment standard '' @ PreferredKEM profile @
                 '' (ML-KEM).'' @ intentNote alg)
                (BomRef component) (algName alg) ''JANUS-PQC-007''
                ''hybrid-tls13-key-exchange'' evidenceIDs)"

definition hashFinding :: "CbomTelemetryPayload \<Rightarrow> CbomComponent \<Rightarrow> CryptoAlgorithm \<Rightarrow> CryptoFinding" where
  "hashFinding payload component alg =
     mkFinding (adjustSeverityForIntent RiskSeverityHigh alg) ''Deprecated hash detected''
       (BomRef component @ '' references '' @ algName alg @
        ''. Replace with SHA-384/SHA-512/SHA-3 according to the calling protocol.'')
       (BomRef component) (algName alg) ''JANUS-CLASSICAL-003'' ''hash-modernization''
       (findEvidenceIDs payload (BomRef component))"

definition aes128Finding :: "CbomTelemetryPayload \<Rightarrow> CbomComponent \<Rightarrow> CryptoAlgorithm \<Rightarrow> CryptoFinding" where
  "aes128Finding payload component alg =
     mkFinding (adjustSeverityForIntent RiskSeverityMedium alg)
       ''AES-128 used where long-term confidentiality may require AES-256''
       (BomRef component @ '' references AES-128. Review data lifetime and upgrade crown-jewel or long-retention data paths to AES-256.'')
       (BomRef component) (algName alg) ''JANUS-PQC-004'' ''symmetric-margin-upgrade''
       (findEvidenceIDs payload (BomRef component))"

definition skipAlgorithm :: "Profile \<Rightarrow> CryptoAlgorithm \<Rightarrow> bool" where
  "skipAlgorithm profile alg \<longleftrightarrow>
     (let minConf = (if MinimumConfidence profile \<le> 0 then 4 / 10 else MinimumConfidence profile)
      in 0 < algConfidence alg \<and> algConfidence alg < minConf \<or> algStatus alg = ''test-only'')"

definition assessAlgorithm :: "(nat \<Rightarrow> string) \<Rightarrow> CbomComponent \<Rightarrow> Profile \<Rightarrow> CryptoAlgorithm
    \<Rightarrow> CbomTelemetryPayload \<Rightarrow> CryptoAlgorithm \<times> CbomTelemetryPayload" where
  "assessAlgorithm newID component profile alg payload =
     (if skipAlgorithm profile alg then (alg, payload)
      else
        (let name = toUpper (algName alg) in
         if isPublicKeyRole (algRole alg) \<and> classicalPublicKey alg
         then (alg\<lparr>QuantumVulnerable := True\<rparr>,
               appendFinding newID (publicKeyFinding payload component profile alg) payload)
         else
           (let p1 = (if contains name ''MD5'' \<or> contains name ''SHA1'' \<or> contains name ''SHA-1''
                      then appendFinding newID (hashFinding payload component alg) payload
                      else payload);
                p2 = (if contains name ''AES-128'' \<and> algRole alg = CryptoRoleSymmetric
                      then appendFinding newID (aes128Finding p1 component alg) p1
                      else p1)
            in (alg, p2))))"

subsection \<open>The assessment of a network observation\<close>

definition reportTLS12 :: "NetworkObservation \<Rightarrow> bool" where
  "reportTLS12 obs \<longleftrightarrow>
     (let version = toUpper (TlsVersion obs)
      in hasPrefix version ''TLS1.0'' \<or> hasPrefix version ''TLS1.1'' \<or>
         hasPrefix version ''TLS1.2'' \<or> version = [])"

definition reportClassicalGroup :: "Profile \<Rightarrow> NetworkObservation \<Rightarrow> bool" where
  "reportClassicalGroup profile obs \<longleftrightarrow>
     (let group = toUpper (NamedGroup obs)
      in RequireHybridPQTLS13 profile \<and> \<not> PqcHybrid obs \<and> \<not> contains group ''MLKEM'' \<and>
         \<not> contains group ''ML-KEM'')"

definition reportClassicalSignature :: "NetworkObservation \<Rightarrow> bool" where
  "reportClassicalSignature obs \<longleftrightarrow>
     containsAny (toUpper (SignatureAlgorithm obs)) [''RSA'', ''ECDSA'']"

definition cleartextFinding :: "NetworkObservation \<Rightarrow> string list \<Rightarrow> CryptoFinding" where
  "cleartextFinding obs evidenceIDs =
     mkFinding RiskSeverityCritical ''Cleartext service observed''
       (Endpoint obs @ '' exposes '' @ Protocol obs @ '' without cryptographic protection.'')
       (Endpoint obs) ''cleartext'' ''JANUS-NET-001'' ''enable-tls13-hybrid'' evidenceIDs"

definition tls12Finding :: "(string \<Rightarrow> string) \<Rightarrow> NetworkObservation \<Rightarrow> string list \<Rightarrow> CryptoFinding" where
  "tls12Finding quote obs evidenceIDs =
     mkFinding RiskSeverityHigh ''TLS 1.3 is not enabled (blocks hybrid PQC key exchange)''
       (Endpoint obs @ '' negotiated or reported '' @ quote (TlsVersion obs) @
        ''. Hybrid post-quantum key agreement (ML-KEM) requires TLS 1.3. Enable TLS 1.3 first.'')
       (Endpoint obs) (CipherSuite obs) ''JANUS-NET-002'' ''enable-tls13-first'' evidenceIDs"

definition groupFinding :: "(string \<Rightarrow> string) \<Rightarrow> NetworkObservation \<Rightarrow> string list \<Rightarrow> CryptoFinding" where
  "groupFinding quote obs evidenceIDs =
     mkFinding RiskSeverityCritical ''TLS key exchange is classical-only''
       (Endpoint obs @ '' did not prove hybrid ML-KEM key agreement. Observed group='' @
        quote (NamedGroup obs) @ '' cipher='' @ quote (CipherSuite obs) @ ''.'')
       (Endpoint obs) (NamedGroup obs) ''JANUS-PQC-005'' ''X25519MLKEM768'' evidenceIDs"

definition signatureFinding :: "NetworkObservation \<Rightarrow> string list \<Rightarrow> CryptoFinding" where
  "signatureFinding obs evidenceIDs =
     mkFinding RiskSeverityHigh ''Certificate signature remains classical''
       (Endpoint obs @ '' certificate uses '' @ SignatureAlgorithm obs @
        ''. Pilot ML-DSA or SLH-DSA in private trust domains and track public PKI readiness.'')
       (Endpoint obs) (SignatureAlgorithm obs) ''JANUS-PQC-006''
       ''certificate-signature-modernization'' evidenceIDs"

definition assessNetwork :: "(nat \<Rightarrow> string) \<Rightarrow> (string \<Rightarrow> string) \<Rightarrow> NetworkObservation \<Rightarrow> Profile
    \<Rightarrow> CbomTelemetryPayload \<Rightarrow> CbomTelemetryPayload" where
  "assessNetwork newID quote obs profile payload =
     (let evidenceIDs = findEvidenceIDs payload (Endpoint obs) in
      if Cleartext obs then appendFinding newID (cleartextFinding obs evidenceIDs) payload
      else
        (let p1 = (if reportTLS12 obs
                   then appendFinding newID (tls12Finding quote obs evidenceIDs) payload else payload);
             p2 = (if reportClassicalGroup profile obs
                   then appendFinding newID (groupFinding quote obs evidenceIDs) p1 else p1)
         in if reportClassicalSignature obs
            then appendFinding newID (signatureFinding obs evidenceIDs) p2 else p2))"

subsection \<open>The CNSA 2.0 rules\<close>

definition weakCurve :: "CryptoAlgorithm \<Rightarrow> bool" where
  "weakCurve alg \<longleftrightarrow>
     Curve alg \<noteq> [] \<and>
     (let curve = toLower (replaceByte (CHR ''-'') [] (Curve alg))
      in contains curve ''p256'' \<or> contains curve ''secp256r1'' \<or> contains curve ''prime256v1'')"

definition cnsaCurveFinding :: "CbomTelemetryPayload \<Rightarrow> CbomComponent \<Rightarrow> CryptoAlgorithm \<Rightarrow> CryptoFinding" where
  "cnsaCurveFinding payload component alg =
     mkFinding RiskSeverityHigh ''CNSA 2.0 requires ECDSA with P-384 or stronger''
       (BomRef component @ '' uses '' @ Curve alg @
        '' curve which is below CNSA 2.0 minimum (P-384). Migrate to ECDSA-P384 or ML-DSA-87.'')
       (BomRef component) (algName alg) ''JANUS-CNSA-001'' ''cnsa-curve-upgrade''
       (findEvidenceIDs payload (BomRef component))"

definition cnsaHashFinding :: "CbomTelemetryPayload \<Rightarrow> CbomComponent \<Rightarrow> CryptoAlgorithm \<Rightarrow> CryptoFinding" where
  "cnsaHashFinding payload component alg =
     mkFinding RiskSeverityMedium ''CNSA 2.0 requires SHA-384 or SHA-512 for hash operations''
       (BomRef component @
        '' uses SHA-256 which is below CNSA 2.0 minimum for hashing. Upgrade to SHA-384 or SHA-512.'')
       (BomRef component) (algName alg) ''JANUS-CNSA-002'' ''cnsa-hash-upgrade''
       (findEvidenceIDs payload (BomRef component))"

definition cnsaSymmetricFinding :: "CbomTelemetryPayload \<Rightarrow> CbomComponent \<Rightarrow> CryptoAlgorithm \<Rightarrow> CryptoFinding" where
  "cnsaSymmetricFinding payload component alg =
     mkFinding RiskSeverityHigh ''CNSA 2.0 requires AES-256 for all symmetric encryption''
       (BomRef component @ '' uses AES-128 which is prohibited under CNSA 2.0. Upgrade to AES-256.'')
       (BomRef component) (algName alg) ''JANUS-CNSA-003'' ''cnsa-symmetric-upgrade''
       (findEvidenceIDs payload (BomRef component))"

definition assessCNSAAlgorithm :: "(nat \<Rightarrow> string) \<Rightarrow> CbomComponent \<Rightarrow> CryptoAlgorithm
    \<Rightarrow> CbomTelemetryPayload \<Rightarrow> CbomTelemetryPayload" where
  "assessCNSAAlgorithm newID component alg payload =
     (let name = toUpper (algName alg);
          p1 = (if (contains name ''ECDSA'' \<or> contains name ''ECC'') \<and> weakCurve alg
                then appendFinding newID (cnsaCurveFinding payload component alg) payload
                else payload);
          p2 = (if (contains name ''SHA-256'' \<or> contains name ''SHA256'') \<and> algRole alg = CryptoRoleHash
                then appendFinding newID (cnsaHashFinding p1 component alg) p1
                else p1)
      in if contains name ''AES-128'' \<and> algRole alg = CryptoRoleSymmetric
         then appendFinding newID (cnsaSymmetricFinding p2 component alg) p2
         else p2)"

definition assessCNSA :: "(nat \<Rightarrow> string) \<Rightarrow> CbomTelemetryPayload \<Rightarrow> CbomTelemetryPayload" where
  "assessCNSA newID payload =
     fold (\<lambda>component p. fold (assessCNSAAlgorithm newID component) (Algorithms component) p)
       (Components payload) payload"

subsection \<open>Versions\<close>

text \<open>
  \<open>fmt.Sscanf(s, "%d", &v)\<close> into a zero \<open>int\<close>: blanks other than a newline are skipped, an
  optional sign and the longest run of digits are read, and a value outside 64 bits, like any
  failure, leaves the zero.
\<close>

definition scanInt :: "string \<Rightarrow> int" where
  "scanInt s =
     (let t = dropWhile (\<lambda>c. isSpace c \<and> c \<noteq> CHR 0x0A) s;
          neg = (case t of c # _ \<Rightarrow> c = CHR ''-'' | [] \<Rightarrow> False);
          u = (case t of c # r \<Rightarrow> if c = CHR ''-'' \<or> c = CHR ''+'' then r else t | [] \<Rightarrow> []);
          ds = takeWhile isDigit u;
          i = (if neg then - int (readDec ds) else int (readDec ds))
      in if ds = [] \<or> i < - (2 ^ 63) \<or> 2 ^ 63 \<le> i then 0 else i)"

text \<open>The array \<open>[3]int\<close> that the loop fills, the missing parts zero.\<close>

definition parseVersion :: "string \<Rightarrow> int \<times> int \<times> int" where
  "parseVersion v =
     (case map scanInt (splitOn (CHR ''.'') (trimPrefix v ''v'')) of
        [] \<Rightarrow> (0, 0, 0)
      | [a] \<Rightarrow> (a, 0, 0)
      | [a, b] \<Rightarrow> (a, b, 0)
      | a # b # c # _ \<Rightarrow> (a, b, c))"

definition compareVersions :: "string \<Rightarrow> string \<Rightarrow> int" where
  "compareVersions v1 v2 =
     (case (parseVersion v1, parseVersion v2) of
        ((a1, b1, c1), (a2, b2, c2)) \<Rightarrow>
          if a1 < a2 then -1 else if a2 < a1 then 1
          else if b1 < b2 then -1 else if b2 < b1 then 1
          else if c1 < c2 then -1 else if c2 < c1 then 1 else 0)"

subsection \<open>Vulnerable packages\<close>

record localVulnerability =
  lvID :: string
  lvPackage :: string
  lvEcosystem :: string
  Vulnerable :: string
  lvTitle :: string
  lvDescription :: string
  lvSeverity :: int
  FixedIn :: string

definition localAdvisories :: "localVulnerability list" where
  "localAdvisories =
     [\<lparr>lvID = ''CVE-2023-48795'', lvPackage = ''golang.org/x/crypto'', lvEcosystem = ''Go'',
       Vulnerable = ''0.17.0'', lvTitle = ''SSH Terrapin attack vulnerability'',
       lvDescription = ''Prefix truncation attack in SSH handshake protocol allows MITM attacker to degrade security parameters.'',
       lvSeverity = 4, FixedIn = ''0.17.0''\<rparr>,
      \<lparr>lvID = ''CVE-2024-24789'', lvPackage = ''golang.org/x/crypto'', lvEcosystem = ''Go'',
       Vulnerable = ''0.21.0'', lvTitle = ''golang.org/x/crypto/x509 Certificate verification bypass'',
       lvDescription = ''Panic during cert verification on specific key usages allows denial of service.'',
       lvSeverity = 3, FixedIn = ''0.21.0''\<rparr>,
      \<lparr>lvID = ''CVE-2023-3446'', lvPackage = ''openssl'', lvEcosystem = ''native'',
       Vulnerable = ''3.0.10'', lvTitle = ''OpenSSL DH_check() excessive time complexity'',
       lvDescription = ''DH_check() performs excessive computation, causing denial of service.'',
       lvSeverity = 3, FixedIn = ''3.0.10''\<rparr>,
      \<lparr>lvID = ''CVE-2024-22369'', lvPackage = ''node-forge'', lvEcosystem = ''npm'',
       Vulnerable = ''1.3.1'', lvTitle = ''node-forge RSA signature verification bypass'',
       lvDescription = ''Verification fails to validate correct padding, allowing signature spoofing.'',
       lvSeverity = 5, FixedIn = ''1.3.1''\<rparr>]"

definition advisoryFinding :: "CbomComponent \<Rightarrow> string list \<Rightarrow> localVulnerability \<Rightarrow> CryptoFinding" where
  "advisoryFinding component evidenceIDs adv =
     mkFinding (lvSeverity adv) (lvTitle adv)
       (lvDescription adv @ ''. Affected version: '' @ cmpVersion component @
        ''. Upgrade package to version '' @ FixedIn adv @ '' or newer.'')
       (BomRef component) (lvID adv) (lvID adv) ''third-party-package-upgrade'' evidenceIDs"

definition osvFinding :: "(string \<Rightarrow> real option) \<Rightarrow> CbomComponent \<Rightarrow> string list \<Rightarrow> OSVVulnerability
    \<Rightarrow> CryptoFinding" where
  "osvFinding parseFloat component evidenceIDs v =
     mkFinding (OSVSeverityToJanus parseFloat (osvSeverity v)) (Summary v)
       (Details v @ '' [OSV: '' @ osvID v @ '']. Fix: upgrade to '' @ GetFixedVersion v @ ''.'')
       (BomRef component) (osvID v) (osvID v) ''third-party-package-upgrade'' evidenceIDs"

definition localAdvisoryHits :: "CbomComponent \<Rightarrow> localVulnerability list" where
  "localAdvisoryHits component =
     filter (\<lambda>adv. equalFold (cmpName component) (lvPackage adv) \<and>
                   compareVersions (cmpVersion component) (Vulnerable adv) < 0) localAdvisories"

definition assessLocalAdvisories :: "(nat \<Rightarrow> string) \<Rightarrow> CbomComponent \<Rightarrow> CbomTelemetryPayload
    \<Rightarrow> CbomTelemetryPayload" where
  "assessLocalAdvisories newID component payload =
     fold (\<lambda>adv p. appendFinding newID (advisoryFinding component (findEvidenceIDs p (BomRef component)) adv) p)
       (localAdvisoryHits component) payload"

definition assessOSV :: "(string \<Rightarrow> real option) \<Rightarrow> (nat \<Rightarrow> string) \<Rightarrow> CbomComponent
    \<Rightarrow> OSVVulnerability list \<Rightarrow> CbomTelemetryPayload \<Rightarrow> CbomTelemetryPayload" where
  "assessOSV parseFloat newID component vulns payload =
     fold (\<lambda>v p. appendFinding newID (osvFinding parseFloat component (findEvidenceIDs p (BomRef component)) v) p)
       (FilterCryptoRelevant vulns) payload"

definition assessComponentVulnerabilities :: "osv_net \<Rightarrow> (string \<Rightarrow> real option) \<Rightarrow> (nat \<Rightarrow> string)
    \<Rightarrow> CbomComponent \<Rightarrow> OSVClient option \<Rightarrow> CbomTelemetryPayload
    \<Rightarrow> OSVClient option \<times> CbomTelemetryPayload" where
  "assessComponentVulnerabilities post parseFloat newID component osv payload =
     (if cmpVersion component = [] then (osv, payload)
      else
        (let p1 = assessLocalAdvisories newID component payload in
         case osv of
           None \<Rightarrow> (osv, p1)
         | Some c \<Rightarrow>
             if Language component = [] then (osv, p1)
             else
               (let (vulns, c') = QueryPackage post (Language component) (cmpName component)
                                    (cmpVersion component) c
                in (Some c', assessOSV parseFloat newID component vulns p1))))"

subsection \<open>The whole assessment\<close>

fun assessAlgorithms :: "(nat \<Rightarrow> string) \<Rightarrow> CbomComponent \<Rightarrow> Profile \<Rightarrow> CryptoAlgorithm list
    \<Rightarrow> CbomTelemetryPayload \<Rightarrow> CryptoAlgorithm list \<times> CbomTelemetryPayload" where
  "assessAlgorithms newID component profile [] payload = ([], payload)"
| "assessAlgorithms newID component profile (alg # algs) payload =
     (let (alg', p1) = assessAlgorithm newID component profile alg payload;
          (algs', p2) = assessAlgorithms newID component profile algs p1
      in (alg' # algs', p2))"

fun assessComponents :: "osv_net \<Rightarrow> (string \<Rightarrow> real option) \<Rightarrow> (nat \<Rightarrow> string) \<Rightarrow> Profile
    \<Rightarrow> CbomComponent list \<Rightarrow> OSVClient option \<Rightarrow> CbomTelemetryPayload
    \<Rightarrow> CbomComponent list \<times> OSVClient option \<times> CbomTelemetryPayload" where
  "assessComponents post parseFloat newID profile [] osv payload = ([], osv, payload)"
| "assessComponents post parseFloat newID profile (c # cs) osv payload =
     (let (algs', p1) = assessAlgorithms newID c profile (Algorithms c) payload;
          (osv1, p2) = assessComponentVulnerabilities post parseFloat newID c osv p1;
          (cs', osv2, p3) = assessComponents post parseFloat newID profile cs osv1 p2
      in (c\<lparr>Algorithms := algs'\<rparr> # cs', osv2, p3))"

definition assessWithProfile :: "osv_net \<Rightarrow> (string \<Rightarrow> real option) \<Rightarrow> (string \<Rightarrow> string)
    \<Rightarrow> (nat \<Rightarrow> string) \<Rightarrow> Profile \<Rightarrow> CbomTelemetryPayload \<times> OSVClient option
    \<Rightarrow> CbomTelemetryPayload \<times> OSVClient option" where
  "assessWithProfile post parseFloat quote newID profile = (\<lambda>(payload, osv).
     (let (cs', osv', p1) = assessComponents post parseFloat newID profile (Components payload) osv payload;
          p2 = p1\<lparr>Components := cs'\<rparr>;
          p3 = fold (\<lambda>obs p. assessNetwork newID quote obs profile p) (NetworkObservations p2) p2
      in (if contains (toLower (Version profile)) ''cnsa'' then assessCNSA newID p3 else p3, osv')))"

definition Assess :: "osv_net \<Rightarrow> (string \<Rightarrow> real option) \<Rightarrow> (string \<Rightarrow> string) \<Rightarrow> (nat \<Rightarrow> string)
    \<Rightarrow> Engine \<Rightarrow> CbomTelemetryPayload \<Rightarrow> CbomTelemetryPayload \<times> Engine" where
  "Assess post parseFloat quote newID e payload =
     (let (p', osv') = assessWithProfile post parseFloat quote newID (GetActiveProfile e)
                         (payload, osvClient e)
      in (p', e\<lparr>osvClient := osv'\<rparr>))"

definition AssessWithVersion :: "osv_net \<Rightarrow> (string \<Rightarrow> real option) \<Rightarrow> (string \<Rightarrow> string)
    \<Rightarrow> (nat \<Rightarrow> string) \<Rightarrow> string \<Rightarrow> Engine \<Rightarrow> CbomTelemetryPayload
    \<Rightarrow> CbomTelemetryPayload \<times> Engine" where
  "AssessWithVersion post parseFloat quote newID version e payload =
     (let profile = (case profiles e version of Some p \<Rightarrow> p | None \<Rightarrow> GetActiveProfile e);
          (p', osv') = assessWithProfile post parseFloat quote newID profile (payload, osvClient e)
      in (p', e\<lparr>osvClient := osv'\<rparr>))"

end
