(* ===== verification/Codes.thy ===== *)
theory Codes
  imports GoLib "HOL-Library.Word"
begin

text \<open>
  Encodings of the standard library that several components use: \<open>encoding/hex\<close>,
  \<open>encoding/base64\<close> (\<open>StdEncoding\<close> and \<open>RawURLEncoding\<close>), and \<open>encoding/json\<close> for a
  list of strings. The JSON encoder escapes bytes below 0x20, the quote, the backslash and the HTML
  characters; bytes from 0x80 on are copied, which is what the encoder does for valid UTF-8 other
  than the line separators U+2028 and U+2029. The locale \<open>tag_scheme\<close> is the contract of a
  keyed tag and its check (HMAC with a constant-time comparison).
\<close>

subsection \<open>Hexadecimal\<close>

lemma char_nat_less [simp]: "(of_char c :: nat) < 256"
  using of_char_mod_256 [of c, where ?'a = nat] by (metis mod_less_divisor zero_less_numeral)

lemma of_char_eq [simp]: "(of_char c :: nat) = of_char d \<longleftrightarrow> c = d"
  by (metis char_of_char)

lemma hexDigit_inj: "m < 16 \<Longrightarrow> n < 16 \<Longrightarrow> hexDigit m = hexDigit n \<longleftrightarrow> m = n"
proof -
  assume lt: "m < 16" "n < 16"
  have code: "(of_char (hexDigit k) :: nat) = (if k < 10 then 48 + k else 87 + k)" if "k < 16" for k
    using that by (simp add: hexDigit_def)
  have "hexDigit m = hexDigit n \<longleftrightarrow> (of_char (hexDigit m) :: nat) = of_char (hexDigit n)" by simp
  also have "\<dots> \<longleftrightarrow> m = n" by (auto simp: code lt split: if_splits)
  finally show ?thesis .
qed

lemma hexEncode_Cons [simp]:
  "hexEncode (c # s) = hexDigit (of_char c div 16) # hexDigit (of_char c mod 16) # hexEncode s"
  "hexEncode [] = []"
  by (simp_all add: hexEncode_def)

lemma hexEncode_inj [simp]: "hexEncode s = hexEncode t \<longleftrightarrow> s = t"
proof
  have byte: "(of_char c :: nat) div 16 < 16" for c :: char
    by (simp add: less_mult_imp_div_less)
  show "hexEncode s = hexEncode t \<Longrightarrow> s = t"
  proof (induction s arbitrary: t)
    case Nil
    then show ?case by (cases t) auto
  next
    case (Cons c s)
    then obtain d u where t: "t = d # u" by (cases t) auto
    with Cons.prems have "(of_char c :: nat) div 16 = of_char d div 16"
      "(of_char c :: nat) mod 16 = of_char d mod 16"
      by (auto simp: hexDigit_inj byte)
    then have "(of_char c :: nat) = of_char d" by (metis mult_div_mod_eq)
    with Cons t show ?case by simp
  qed
qed simp

lemma hexEncode_free: "\<not> isHexDigit c \<Longrightarrow> c \<notin> set (hexEncode s)"
  by (blast dest: hexEncode_chars)

subsection \<open>Base64\<close>

text \<open>\<open>url\<close> selects the URL alphabet, \<open>pad\<close> the padding of \<open>StdEncoding\<close>.\<close>

definition b64Char :: "bool \<Rightarrow> nat \<Rightarrow> char" where
  "b64Char url n =
     (if n < 26 then char_of (65 + n) else if n < 52 then char_of (71 + n)
      else if n < 62 then char_of (n - 4)
      else if n = 62 then (if url then CHR ''-'' else CHR ''+'')
      else (if url then CHR ''_'' else CHR ''/''))"

fun b64Encode :: "bool \<Rightarrow> bool \<Rightarrow> string \<Rightarrow> string" where
  "b64Encode url pad [] = []"
| "b64Encode url pad [a] =
     [b64Char url (of_char a div 4), b64Char url (of_char a mod 4 * 16)] @
     (if pad then ''=='' else [])"
| "b64Encode url pad [a, b] =
     [b64Char url (of_char a div 4), b64Char url (of_char a mod 4 * 16 + of_char b div 16),
      b64Char url (of_char b mod 16 * 4)] @ (if pad then ''='' else [])"
| "b64Encode url pad (a # b # c # s) =
     [b64Char url (of_char a div 4), b64Char url (of_char a mod 4 * 16 + of_char b div 16),
      b64Char url (of_char b mod 16 * 4 + of_char c div 64), b64Char url (of_char c mod 64)] @
     b64Encode url pad s"

abbreviation stdBase64 :: "string \<Rightarrow> string" where
  "stdBase64 \<equiv> b64Encode False True"

abbreviation rawURLBase64 :: "string \<Rightarrow> string" where
  "rawURLBase64 \<equiv> b64Encode True False"

definition b64Val :: "bool \<Rightarrow> char \<Rightarrow> nat option" where
  "b64Val url c = find (\<lambda>n. b64Char url n = c) [0..<64]"

text \<open>\<open>RawURLEncoding.DecodeString\<close> after the values of the letters: trailing bits are ignored.\<close>

fun b64Bytes :: "nat list \<Rightarrow> string option" where
  "b64Bytes [] = Some []"
| "b64Bytes [w] = None"
| "b64Bytes [w, x] = Some [char_of (w * 4 + x div 16)]"
| "b64Bytes [w, x, y] = Some [char_of (w * 4 + x div 16), char_of (x mod 16 * 16 + y div 4)]"
| "b64Bytes (w # x # y # z # ws) =
     map_option (\<lambda>s. char_of (w * 4 + x div 16) # char_of (x mod 16 * 16 + y div 4) #
                     char_of (y mod 4 * 64 + z) # s) (b64Bytes ws)"

text \<open>The decoder skips line ends and fails at any other letter outside the alphabet.\<close>

definition rawURLDecode :: "string \<Rightarrow> string option" where
  "rawURLDecode s =
     (let vs = map (b64Val True) (filter (\<lambda>c. c \<noteq> CHR 0x0A \<and> c \<noteq> CHR 0x0D) s)
      in if None \<in> set vs then None else b64Bytes (map the vs))"

definition isB64Char :: "char \<Rightarrow> bool" where
  "isB64Char c \<longleftrightarrow>
     48 \<le> (of_char c :: nat) \<and> of_char c \<le> (57 :: nat) \<or>
     65 \<le> (of_char c :: nat) \<and> of_char c \<le> (90 :: nat) \<or>
     97 \<le> (of_char c :: nat) \<and> of_char c \<le> (122 :: nat) \<or> c \<in> set ''+/-_=''"

lemma isB64Char_b64Char: "n < 64 \<Longrightarrow> isB64Char (b64Char url n)"
  by (auto simp: isB64Char_def b64Char_def)

lemma sextets [simp]:
  "(of_char a :: nat) div 4 < 64" "(of_char a :: nat) mod 4 * 16 < 64"
  "(of_char a :: nat) mod 4 * 16 + of_char b div 16 < 64"
  "(of_char b :: nat) mod 16 * 4 < 64"
  "(of_char b :: nat) mod 16 * 4 + of_char c div 64 < 64"
proof -
  have a: "(of_char a :: nat) < 256" and b: "(of_char b :: nat) < 256" and c: "(of_char c :: nat) < 256"
    by simp_all
  have "(of_char b :: nat) div 16 < 16" "(of_char c :: nat) div 64 < 4"
    using b c by (simp_all add: less_mult_imp_div_less)
  moreover have "(of_char a :: nat) mod 4 < 4" "(of_char b :: nat) mod 16 < 16" by simp_all
  ultimately show "(of_char a :: nat) mod 4 * 16 < 64"
    "(of_char a :: nat) mod 4 * 16 + of_char b div 16 < 64" "(of_char b :: nat) mod 16 * 4 < 64"
    "(of_char b :: nat) mod 16 * 4 + of_char c div 64 < 64" by linarith+
  show "(of_char a :: nat) div 4 < 64" using a by (simp add: less_mult_imp_div_less)
qed

lemma b64Encode_chars: "c \<in> set (b64Encode url pad s) \<Longrightarrow> isB64Char c"
proof (induction url pad s rule: b64Encode.induct)
  case (2 url pad a)
  then show ?case by (auto simp: isB64Char_b64Char) (auto simp: isB64Char_def split: if_splits)
next
  case (3 url pad a b)
  then show ?case by (auto simp: isB64Char_b64Char) (auto simp: isB64Char_def split: if_splits)
next
  case (4 url pad a b c s)
  then show ?case by (auto simp: isB64Char_b64Char)
qed simp

lemma b64Encode_free: "\<not> isB64Char c \<Longrightarrow> c \<notin> set (b64Encode url pad s)"
  by (blast dest: b64Encode_chars)

lemma b64Val_b64Char [simp]: "n < 64 \<Longrightarrow> b64Val url (b64Char url n) = Some n"
proof -
  have inj: "n < 64 \<Longrightarrow> m < 64 \<Longrightarrow> b64Char url n = b64Char url m \<Longrightarrow> n = m" for n m
  proof -
    assume lt: "n < 64" "m < 64" and eq: "b64Char url n = b64Char url m"
    have code: "(of_char (b64Char url k) :: nat) =
        (if k < 26 then 65 + k else if k < 52 then 71 + k else if k < 62 then k - 4
         else if k = 62 then (if url then 45 else 43) else (if url then 95 else 47))" if "k < 64" for k
      using that by (simp add: b64Char_def)
    have "(of_char (b64Char url n) :: nat) = of_char (b64Char url m)" by (simp add: eq)
    then show "n = m" using lt by (auto simp: code split: if_splits)
  qed
  assume n: "n < 64"
  then obtain m where m: "b64Val url (b64Char url n) = Some m"
    by (cases "b64Val url (b64Char url n)") (auto simp: b64Val_def find_None_iff)
  then have "b64Char url m = b64Char url n" "m < 64"
    by (auto simp: b64Val_def find_Some_iff)
  with inj [of m n] n m show ?thesis by simp
qed


lemma b64Char_not_eol [simp]:
  "n < 64 \<Longrightarrow> b64Char url n \<noteq> CHR 0x0A" "n < 64 \<Longrightarrow> b64Char url n \<noteq> CHR 0x0D"
  using isB64Char_b64Char [of n url] by (auto simp: isB64Char_def)

lemma byte_of_sextets [simp]:
  "char_of ((of_char a :: nat) div 4 * 4 + (of_char a mod 4 * 16 + r) div 16) = a" if "r < 16"
proof -
  have "((of_char a :: nat) mod 4 * 16 + r) div 16 = of_char a mod 4" using that by simp
  then show ?thesis by simp
qed

lemma byte_of_sextets' [simp]:
  "char_of ((of_char a :: nat) div 4 * 4 + of_char a mod 4 * 16 div 16) = a"
  by simp

lemma second_byte [simp]:
  assumes "q < 4"
  shows "char_of (((of_char a :: nat) mod 4 * 16 + of_char b div 16) mod 16 * 16 +
           (of_char b mod 16 * 4 + q) div 4) = (b :: char)"
proof -
  have d: "(of_char b :: nat) div 16 < 16" by (simp add: less_mult_imp_div_less)
  have "((of_char a :: nat) mod 4 * 16 + of_char b div 16) mod 16 = of_char b div 16"
    using d by (simp add: mod_mult_self4)
  moreover have "((of_char b :: nat) mod 16 * 4 + q) div 4 = of_char b mod 16"
    using assms by simp
  ultimately show ?thesis by simp
qed

lemma third_byte [simp]:
  "char_of (((of_char b :: nat) mod 16 * 4 + of_char c div 64) mod 4 * 64 + of_char c mod 64) = (c :: char)"
proof -
  have d: "(of_char c :: nat) div 64 < 4" by (simp add: less_mult_imp_div_less)
  have "((of_char b :: nat) mod 16 * 4 + of_char c div 64) mod 4 = of_char c div 64"
    using d by (simp add: mod_mult_self4)
  then show ?thesis by simp
qed

fun sextetsOf :: "string \<Rightarrow> nat list" where
  "sextetsOf [] = []"
| "sextetsOf [a] = [of_char a div 4, of_char a mod 4 * 16]"
| "sextetsOf [a, b] =
     [of_char a div 4, of_char a mod 4 * 16 + of_char b div 16, of_char b mod 16 * 4]"
| "sextetsOf (a # b # c # s) =
     [of_char a div 4, of_char a mod 4 * 16 + of_char b div 16,
      of_char b mod 16 * 4 + of_char c div 64, of_char c mod 64] @ sextetsOf s"

lemma sextetsOf_less: "n \<in> set (sextetsOf s) \<Longrightarrow> n < 64"
  by (induction s rule: sextetsOf.induct) auto

lemma rawURLBase64_sextets: "rawURLBase64 s = map (b64Char True) (sextetsOf s)"
  by (induction s rule: sextetsOf.induct) auto

lemma b64Bytes_sextets: "b64Bytes (sextetsOf s) = Some s"
proof -
  have d: "(of_char b :: nat) div 16 < 16" "(of_char b :: nat) div 64 < 4" for b :: char
    by (simp_all add: less_mult_imp_div_less)
  show ?thesis
  proof (induction s rule: sextetsOf.induct)
    case (3 a b)
    then show ?case using second_byte [of 0 a b] d by simp
  next
    case (4 a b c s)
    then show ?case using d by simp
  qed simp_all
qed

lemma rawURLDecode_encode [simp]: "rawURLDecode (rawURLBase64 s) = Some s"
proof -
  let ?ns = "sextetsOf s"
  have "filter (\<lambda>c. c \<noteq> CHR 0x0A \<and> c \<noteq> CHR 0x0D) (map (b64Char True) ?ns) = map (b64Char True) ?ns"
    by (rule filter_True) (auto dest: sextetsOf_less)
  moreover have "map (b64Val True) (map (b64Char True) ?ns) = map Some ?ns"
    by (auto dest: sextetsOf_less)
  moreover have "map (\<lambda>x. the (b64Val True (b64Char True x))) ?ns = ?ns"
    by (rule map_idI) (simp add: sextetsOf_less)
  ultimately show ?thesis
    by (simp add: rawURLDecode_def rawURLBase64_sextets b64Bytes_sextets comp_def)
qed

subsection \<open>JSON strings\<close>

text \<open>The letter of a two-byte escape.\<close>

definition shortEscape :: "char \<Rightarrow> char option" where
  "shortEscape c =
     (if c = CHR 0x22 \<or> c = CHR 0x5C then Some c
      else if c = CHR 0x08 then Some (CHR ''b'')
      else if c = CHR 0x0C then Some (CHR ''f'')
      else if c = CHR 0x0A then Some (CHR ''n'')
      else if c = CHR 0x0D then Some (CHR ''r'')
      else if c = CHR 0x09 then Some (CHR ''t'')
      else None)"

definition longEscape :: "char \<Rightarrow> bool" where
  "longEscape c \<longleftrightarrow> (of_char c :: nat) < 32 \<or> c \<in> set ''<>&''"

definition jsonChar :: "char \<Rightarrow> string" where
  "jsonChar c =
     (case shortEscape c of
        Some e \<Rightarrow> [CHR 0x5C, e]
      | None \<Rightarrow>
          if longEscape c
          then CHR 0x5C # ''u00'' @ [hexDigit (of_char c div 16), hexDigit (of_char c mod 16)]
          else [c])"

definition jsonString :: "string \<Rightarrow> string" where
  "jsonString s = CHR 0x22 # concat (map jsonChar s) @ [CHR 0x22]"

text \<open>\<open>json.Marshal\<close> of a non-nil \<open>[]string\<close>.\<close>

definition jsonStrings :: "string list \<Rightarrow> string" where
  "jsonStrings ss = CHR ''['' # joinWith '','' (map jsonString ss) @ '']''"

lemma jsonChar_no_eol: "CHR 0x0A \<notin> set (jsonChar c)"
proof -
  have "(of_char c :: nat) div 16 < 16" by (simp add: less_mult_imp_div_less)
  then have "isHexDigit (hexDigit (of_char c div 16))" "isHexDigit (hexDigit (of_char c mod 16))"
    by (simp_all add: isHexDigit_hexDigit)
  moreover have "\<not> isHexDigit (CHR 0x0A)" by code_simp
  ultimately have "hexDigit (of_char c div 16) \<noteq> CHR 0x0A" "hexDigit (of_char c mod 16) \<noteq> CHR 0x0A"
    by metis+
  moreover have "shortEscape c = Some e \<Longrightarrow> e \<noteq> CHR 0x0A" for e
    by (auto simp: shortEscape_def split: if_splits)
  moreover have "shortEscape (CHR 0x0A) \<noteq> None" by code_simp
  ultimately show ?thesis by (auto simp: jsonChar_def split: option.split)
qed

lemma jsonStrings_no_eol: "CHR 0x0A \<notin> set (jsonStrings ss)"
  by (auto simp: jsonStrings_def jsonString_def jsonChar_no_eol dest!: joinWith_chars)

lemma jsonChar_prefix_free: "jsonChar c @ s = jsonChar d @ t \<Longrightarrow> c = d \<and> s = t"
proof -
  assume eq: "jsonChar c @ s = jsonChar d @ t"
  have "(of_char c :: nat) div 16 < 16" "(of_char d :: nat) div 16 < 16"
    by (simp_all add: less_mult_imp_div_less)
  then have hex: "hexDigit (of_char c div 16) = hexDigit (of_char d div 16) \<Longrightarrow>
      hexDigit (of_char c mod 16) = hexDigit (of_char d mod 16) \<Longrightarrow> c = d"
    by (simp add: hexDigit_inj) (metis mult_div_mod_eq of_char_eq)
  have inj: "shortEscape c = Some e \<Longrightarrow> shortEscape d = Some e \<Longrightarrow> c = d" for e
    by (auto simp: shortEscape_def split: if_splits)
  have u: "shortEscape a = Some e \<Longrightarrow> e \<noteq> CHR ''u''" for a e
    by (auto simp: shortEscape_def split: if_splits)
  have plain: "shortEscape a = None \<Longrightarrow> a \<noteq> CHR 0x5C" for a
    by (auto simp: shortEscape_def)
  show ?thesis
  proof (cases "shortEscape c")
    case c: None
    show ?thesis
    proof (cases "shortEscape d")
      case None
      have "longEscape c = longEscape d \<and> (longEscape c \<or> c = d) \<and> s = t \<and>
          (longEscape c \<longrightarrow> hexDigit (of_char c div 16) = hexDigit (of_char d div 16) \<and>
             hexDigit (of_char c mod 16) = hexDigit (of_char d mod 16))"
        using eq plain [OF c] plain [OF None] unfolding jsonChar_def c None option.case
        by (cases "longEscape c"; cases "longEscape d") simp_all
      with hex show ?thesis by blast
    next
      case (Some e)
      then show ?thesis using eq c plain [OF c] u [OF Some]
        by (auto simp: jsonChar_def split: if_splits)
    qed
  next
    case c: (Some e)
    show ?thesis
    proof (cases "shortEscape d")
      case None
      then show ?thesis using eq c plain [OF None] u [OF c]
        by (auto simp: jsonChar_def split: if_splits)
    next
      case (Some e')
      then show ?thesis using eq c inj by (auto simp: jsonChar_def)
    qed
  qed
qed

lemma jsonChar_not_quote: "jsonChar c @ s \<noteq> CHR 0x22 # t"
proof -
  have "shortEscape (CHR 0x22) \<noteq> None" by code_simp
  then show ?thesis by (auto simp: jsonChar_def split: option.split)
qed

lemma jsonString_prefix_free: "jsonString a @ s = jsonString b @ t \<Longrightarrow> a = b \<and> s = t"
proof -
  have "concat (map jsonChar a) @ CHR 0x22 # s = concat (map jsonChar b) @ CHR 0x22 # t \<Longrightarrow>
      a = b \<and> s = t"
  proof (induction a arbitrary: b)
    case Nil
    then show ?case using jsonChar_not_quote [symmetric] by (cases b) auto
  next
    case (Cons c a)
    then show ?case
    proof (cases b)
      case Nil
      with Cons.prems jsonChar_not_quote show ?thesis by auto
    next
      case (Cons d b')
      with Cons.prems jsonChar_prefix_free Cons.IH [of b'] show ?thesis by auto
    qed
  qed
  then show "jsonString a @ s = jsonString b @ t \<Longrightarrow> a = b \<and> s = t"
    by (simp add: jsonString_def)
qed

lemma jsonStrings_inj: "jsonStrings xs = jsonStrings ys \<longleftrightarrow> xs = ys"
proof
  have nq: "jsonString a @ s \<noteq> '']'' @ t" "'']'' @ t \<noteq> jsonString a @ s" for a s t
    by (auto simp: jsonString_def)
  have tail: "joinWith '','' (map jsonString (x # xs)) @ '']'' =
      jsonString x @ (if xs = [] then '']'' else '','' @ joinWith '','' (map jsonString xs) @ '']'')"
    for x xs by (cases xs) auto
  have "joinWith '','' (map jsonString xs) @ '']'' = joinWith '','' (map jsonString ys) @ '']'' \<Longrightarrow> xs = ys"
  proof (induction xs arbitrary: ys)
    case Nil
    then show ?case
    proof (cases ys)
      case (Cons y ys')
      with Nil nq(2) [of "[]"] show ?thesis by (simp only: tail) auto
    qed simp
  next
    case (Cons x xs)
    show ?case
    proof (cases ys)
      case Nil
      with Cons.prems nq(1) [of _ _ "[]"] show ?thesis by (simp only: tail) auto
    next
      case (Cons y ys')
      from Cons.prems have "jsonString x @ (if xs = [] then '']'' else '','' @ joinWith '','' (map jsonString xs) @ '']'') =
          jsonString y @ (if ys' = [] then '']'' else '','' @ joinWith '','' (map jsonString ys') @ '']'')"
        unfolding Cons tail .
      from jsonString_prefix_free [OF this] Cons.IH [of ys'] Cons show ?thesis
        by (auto split: if_splits)
    qed
  qed
  then show "jsonStrings xs = jsonStrings ys \<Longrightarrow> xs = ys" by (simp add: jsonStrings_def)
qed simp

subsection \<open>Keyed tags\<close>

text \<open>
  A tag function with its check, as \<open>hmac.Equal\<close> against the recomputed tag: the check accepts
  the tag and nothing else. What is accepted for another message is a collision of the tag function.
\<close>

locale tag_scheme =
  fixes tag :: "'k \<Rightarrow> 'm \<Rightarrow> 't" and check :: "'k \<Rightarrow> 'm \<Rightarrow> 't \<Rightarrow> bool"
  assumes check_iff: "check k m t \<longleftrightarrow> t = tag k m"
begin

lemma accepts: "check k m (tag k m)"
  by (simp add: check_iff)

lemma unique: "check k m t \<Longrightarrow> check k m u \<Longrightarrow> t = u"
  by (simp add: check_iff)

lemma forgery: "check k m (tag k' m') \<Longrightarrow> tag k m = tag k' m'"
  by (simp add: check_iff)

end

end
