(* ===== verification/ControlPack.thy ===== *)
theory ControlPack
  imports Codes
begin

text \<open>
  The built-in control pack: \<^verbatim>\<open>server/internal/policy/control_pack.go\<close>, its rules in the order
  and with the texts of the source (a dash outside ASCII is its UTF-8 bytes), the rule index, and
  the attestation over the pack's JSON. \<open>json.Marshal\<close> of a pack and HMAC-SHA256 are
  parameters.
\<close>

subsection \<open>Data\<close>

record ControlRule =
  RuleID :: string
  crTitle :: string
  crDescription :: string
  Rationale :: string
  FrameworkRefs :: "string list"
  crEffectiveDate :: string
  ExpiryDate :: string
  crSeverity :: int
  EvidenceType :: string
  RemediationHint :: string

record ControlPack =
  PackID :: string
  cpName :: string
  cpVersion :: string
  cpEffectiveDate :: string
  Rules :: "ControlRule list"

definition rule_PQC_001 :: ControlRule where
  "rule_PQC_001 =
     \<lparr>RuleID = ''JANUS-PQC-001'',
       crTitle = ''Classical public-key signature cryptography is quantum-vulnerable'',
       crDescription = ''Detects RSA, ECDSA, DSA, or Ed25519 algorithms used in signature or certificate roles. These algorithms are broken by Grover/Shor attacks on a cryptographically relevant quantum computer (CRQC).'',
       Rationale = ''Harvest-Now-Decrypt-Later (HNDL) adversaries capture today's signatures for replay after a CRQC becomes available. NIST FIPS 204 (ML-DSA) and FIPS 205 (SLH-DSA) are the mandated replacements effective 2025-08-13.'',
       FrameworkRefs = [''NIST.FIPS.204'', ''NIST.FIPS.205'', ''NIST.SP.800-208'', ''NSA-CISA-PQC-2022''],
       crEffectiveDate = ''2025-08-13'', ExpiryDate = [], crSeverity = 4,
       EvidenceType = [],
       RemediationHint = ''Migrate to ML-DSA-65 (FIPS 204) or SLH-DSA. Pilot in private trust domains first; track public PKI readiness for ECDSA.''\<rparr>"

definition rule_PQC_002 :: ControlRule where
  "rule_PQC_002 =
     \<lparr>RuleID = ''JANUS-PQC-002'',
       crTitle = ''RSA key size below 2026 transition threshold'',
       crDescription = ''RSA key is below the minimum transitional size defined by the active policy profile (default 3072 bits). Sub-threshold RSA is both classically weak today and quantum-vulnerable.'',
       Rationale = ''NIST SP 800-131A Rev.2 disallows RSA < 2048 for new use and recommends 3072 for 2031+ security. Under CNSA 2.0 and PQC transition guidance, anything below 3072 is high-risk.'',
       FrameworkRefs = [''NIST.SP.800-131A'', ''NIST.FIPS.204'', ''CNSA-2.0''],
       crEffectiveDate = ''2025-08-13'', ExpiryDate = [], crSeverity = 5,
       EvidenceType = [],
       RemediationHint = ''Replace RSA with ML-DSA-65 for signatures, or at minimum upgrade to RSA-3072 as a stopgap.''\<rparr>"

definition rule_PQC_004 :: ControlRule where
  "rule_PQC_004 =
     \<lparr>RuleID = ''JANUS-PQC-004'',
       crTitle = ''AES-128 used where long-term confidentiality may require AES-256'',
       crDescription = ''Detects AES-128 in symmetric encryption roles. Grover's algorithm halves the effective key strength, leaving AES-128 with approximately 64-bit post-quantum security.'',
       Rationale = ''NIST and NSA recommend AES-256 for data requiring long-term confidentiality. AES-128 is insufficient for any secret that may be exposed to a CRQC. CNSA 2.0 mandates AES-256 exclusively.'',
       FrameworkRefs = [''NIST.FIPS.197'', ''CNSA-2.0'', ''NSA-CISA-PQC-2022''],
       crEffectiveDate = ''2025-08-13'', ExpiryDate = [], crSeverity = 3,
       EvidenceType = [],
       RemediationHint = ''Upgrade crown-jewel and long-retention data paths to AES-256. AES-128 may be acceptable for ephemeral, low-sensitivity data.''\<rparr>"

definition rule_PQC_005 :: ControlRule where
  "rule_PQC_005 =
     \<lparr>RuleID = ''JANUS-PQC-005'',
       crTitle = ''TLS key exchange is classical-only'',
       crDescription = ''The TLS connection did not use a hybrid ML-KEM key agreement group (e.g. X25519MLKEM768). Classical-only key exchange (X25519, P-256) is vulnerable to retrospective decryption by a CRQC.'',
       Rationale = ''HNDL adversaries record TLS sessions today for decryption post-CRQC. ML-KEM (FIPS 203) in hybrid mode provides quantum-safe forward secrecy. CNSA 2.0 mandates ML-KEM-1024.'',
       FrameworkRefs = [''NIST.FIPS.203'', ''CNSA-2.0'', ''NSA-CISA-PQC-2022''],
       crEffectiveDate = ''2025-08-13'', ExpiryDate = [], crSeverity = 5,
       EvidenceType = [],
       RemediationHint = ''Enable X25519MLKEM768 (NIST profile) or ML-KEM-1024 (CNSA 2.0) in your TLS library configuration. TLS 1.3 is a prerequisite.''\<rparr>"

definition rule_PQC_006 :: ControlRule where
  "rule_PQC_006 =
     \<lparr>RuleID = ''JANUS-PQC-006'',
       crTitle = ''Certificate signature remains classical'',
       crDescription = ''The server certificate uses a classical signature algorithm (RSA or ECDSA). While TLS 1.3 protects forward secrecy, a signed certificate with a weak algorithm can be forged post-CRQC.'',
       Rationale = ''NIST FIPS 204 (ML-DSA) and FIPS 205 (SLH-DSA) are now standardised. CA/Browser Forum and public PKI readiness is tracked; deployment should start in private trust domains.'',
       FrameworkRefs = [''NIST.FIPS.204'', ''NIST.FIPS.205'', ''CNSA-2.0''],
       crEffectiveDate = ''2025-08-13'', ExpiryDate = [], crSeverity = 4,
       EvidenceType = [],
       RemediationHint = ''Pilot ML-DSA or SLH-DSA certificates in private PKI. Monitor CA/Browser Forum timelines for public trust inclusion.''\<rparr>"

definition rule_PQC_007 :: ControlRule where
  "rule_PQC_007 =
     \<lparr>RuleID = ''JANUS-PQC-007'',
       crTitle = ''Classical key exchange / KEM cryptography is quantum-vulnerable'',
       crDescription = ''Detects classical key exchange or KEM algorithms (DH, ECDH, ECDHE) in non-signature roles. These are broken by Shor's algorithm on a CRQC.'',
       Rationale = ''Key establishment is the highest-priority migration target under HNDL threat. NIST FIPS 203 (ML-KEM) is the standardised post-quantum KEM. Hybrid operation with classical algorithms is recommended during transition.'',
       FrameworkRefs = [''NIST.FIPS.203'', ''NIST.SP.800-227'', ''NSA-CISA-PQC-2022''],
       crEffectiveDate = ''2025-08-13'', ExpiryDate = [], crSeverity = 4,
       EvidenceType = [],
       RemediationHint = ''Migrate to hybrid ML-KEM (X25519MLKEM768 for NIST profile, ML-KEM-1024 for CNSA 2.0). Prioritise long-lived key material.''\<rparr>"

definition rule_CLASSICAL_003 :: ControlRule where
  "rule_CLASSICAL_003 =
     \<lparr>RuleID = ''JANUS-CLASSICAL-003'',
       crTitle = ''Deprecated hash algorithm detected'',
       crDescription = ''Detects MD5 or SHA-1 usage. Both algorithms are cryptographically broken: MD5 since 1996, SHA-1 since 2017 (SHAttered collision). Neither should appear in any security-relevant context.'',
       Rationale = ''NIST SP 800-131A Rev.2 disallows MD5 and SHA-1 for all security functions. Collision attacks are practical with consumer hardware.'',
       FrameworkRefs = [''NIST.SP.800-131A'', ''NIST.FIPS.180-4'', ''CNSA-2.0''],
       crEffectiveDate = ''2025-08-13'', ExpiryDate = [], crSeverity = 4,
       EvidenceType = [],
       RemediationHint = ''Replace MD5/SHA-1 with SHA-384 or SHA-512 (general use), or SHA-3 where protocol permits. Check the calling protocol '' @ [CHR 0xE2] @ [CHR 0x80] @ [CHR 0x94] @ '' some legacy protocols specify SHA-1 in headers/wire format and require protocol-level migration.''\<rparr>"

definition rule_NET_001 :: ControlRule where
  "rule_NET_001 =
     \<lparr>RuleID = ''JANUS-NET-001'',
       crTitle = ''Cleartext service observed'',
       crDescription = ''A network service is transmitting data without cryptographic protection (no TLS/DTLS). All data, including credentials, is exposed to passive eavesdropping and active tampering.'',
       Rationale = ''Unencrypted services violate basic transport security baselines required by NIST SP 800-52 Rev.2, PCI DSS, and virtually all compliance frameworks. TLS is a prerequisite for any PQC migration.'',
       FrameworkRefs = [''NIST.SP.800-52'', ''NIST.SP.800-131A'', ''CNSA-2.0''],
       crEffectiveDate = ''2025-08-13'', ExpiryDate = [], crSeverity = 5,
       EvidenceType = [],
       RemediationHint = ''Enable TLS 1.3 with an ML-KEM hybrid key exchange group. Cleartext services block all downstream PQC improvements.''\<rparr>"

definition rule_NET_002 :: ControlRule where
  "rule_NET_002 =
     \<lparr>RuleID = ''JANUS-NET-002'',
       crTitle = ''TLS 1.3 is not enabled'',
       crDescription = ''The endpoint negotiated TLS 1.0, 1.1, or 1.2. Hybrid post-quantum key agreement (ML-KEM via X25519MLKEM768 or equivalent) requires TLS 1.3.'',
       Rationale = ''TLS 1.2 and below cannot carry the ECDHE+ML-KEM hybrid groups defined in IETF draft-ietf-tls-hybrid-design. TLS 1.3 is required as a foundation for PQC. NIST SP 800-52 Rev.2 mandates TLS 1.3.'',
       FrameworkRefs = [''NIST.SP.800-52'', ''IETF-TLS-HYBRID'', ''CNSA-2.0''],
       crEffectiveDate = ''2025-08-13'', ExpiryDate = [], crSeverity = 4,
       EvidenceType = [],
       RemediationHint = ''Enable TLS 1.3 in the server configuration. Disable TLS 1.0 and 1.1. TLS 1.2 may be retained for legacy client compatibility but hybrid PQC requires TLS 1.3.''\<rparr>"

definition rule_CNSA_001 :: ControlRule where
  "rule_CNSA_001 =
     \<lparr>RuleID = ''JANUS-CNSA-001'',
       crTitle = ''CNSA 2.0: ECDSA curve below P-384 minimum'',
       crDescription = ''Detects ECDSA or ECC usage with P-256 (secp256r1/prime256v1). CNSA 2.0 sets P-384 as the minimum acceptable classical elliptic curve for national security systems.'',
       Rationale = ''NSA CNSA 2.0 (September 2022) mandates ECDSA P-384 as the minimum for NSS/DoD systems and requires migration to ML-DSA-87 for new deployments. P-256 is explicitly prohibited.'',
       FrameworkRefs = [''CNSA-2.0'', ''NSA-CISA-PQC-2022'', ''NIST.FIPS.204''],
       crEffectiveDate = ''2022-09-07'', ExpiryDate = [], crSeverity = 4,
       EvidenceType = [],
       RemediationHint = ''Upgrade to ECDSA P-384 as a transitional measure, then migrate to ML-DSA-87 per CNSA 2.0 schedule.''\<rparr>"

definition rule_CNSA_002 :: ControlRule where
  "rule_CNSA_002 =
     \<lparr>RuleID = ''JANUS-CNSA-002'',
       crTitle = ''CNSA 2.0: SHA-256 is below hash minimum'',
       crDescription = ''Detects SHA-256 used in hash roles on systems under CNSA 2.0. CNSA 2.0 sets SHA-384 as the minimum hash strength for national security systems.'',
       Rationale = ''NSA CNSA 2.0 (September 2022) mandates SHA-384 or SHA-512 for all hashing in NSS environments. SHA-256 is insufficient.'',
       FrameworkRefs = [''CNSA-2.0'', ''NSA-CISA-PQC-2022'', ''NIST.FIPS.180-4''],
       crEffectiveDate = ''2022-09-07'', ExpiryDate = [], crSeverity = 3,
       EvidenceType = [],
       RemediationHint = ''Upgrade hash operations to SHA-384 or SHA-512 where CNSA 2.0 compliance is required.''\<rparr>"

definition rule_CNSA_003 :: ControlRule where
  "rule_CNSA_003 =
     \<lparr>RuleID = ''JANUS-CNSA-003'',
       crTitle = ''CNSA 2.0: AES-128 is prohibited'',
       crDescription = ''Detects AES-128 in symmetric encryption roles on systems under CNSA 2.0. CNSA 2.0 mandates AES-256 exclusively for symmetric encryption in national security systems.'',
       Rationale = ''NSA CNSA 2.0 (September 2022) explicitly prohibits AES-128 for NSS environments. AES-256 is the only approved symmetric cipher.'',
       FrameworkRefs = [''CNSA-2.0'', ''NSA-CISA-PQC-2022'', ''NIST.FIPS.197''],
       crEffectiveDate = ''2022-09-07'', ExpiryDate = [], crSeverity = 4,
       EvidenceType = [],
       RemediationHint = ''Replace all AES-128 usage with AES-256. This is a hard requirement under CNSA 2.0 '' @ [CHR 0xE2] @ [CHR 0x80] @ [CHR 0x94] @ '' no exceptions.''\<rparr>"

definition builtinRules :: "ControlRule list" where
  "builtinRules =
     [rule_PQC_001, rule_PQC_002, rule_PQC_004, rule_PQC_005, rule_PQC_006, rule_PQC_007, rule_CLASSICAL_003, rule_NET_001, rule_NET_002, rule_CNSA_001, rule_CNSA_002, rule_CNSA_003]"

lemmas rule_defs =
  rule_PQC_001_def rule_PQC_002_def rule_PQC_004_def rule_PQC_005_def rule_PQC_006_def rule_PQC_007_def rule_CLASSICAL_003_def rule_NET_001_def rule_NET_002_def rule_CNSA_001_def rule_CNSA_002_def rule_CNSA_003_def

subsection \<open>Operations\<close>

definition ruleIndex :: "string \<rightharpoonup> ControlRule" where
  "ruleIndex = fold (\<lambda>r m. m(RuleID r \<mapsto> r)) builtinRules Map.empty"

definition GetRule :: "string \<Rightarrow> ControlRule option" where
  "GetRule ruleID = ruleIndex ruleID"

definition evidenceTypeFor :: "string \<Rightarrow> string" where
  "evidenceTypeFor ruleID =
     (if ruleID \<in> set [''JANUS-PQC-005'', ''JANUS-PQC-006'', ''JANUS-NET-002'']
      then ''network-tls-probe''
      else if ruleID = ''JANUS-NET-001'' then ''network-probe''
      else ''source-binary-or-config-detection'')"

definition BuiltinControlPack :: ControlPack where
  "BuiltinControlPack =
     \<lparr>PackID = ''janus-builtin-v1'', cpName = ''Janus Built-in PQC Compliance Rules'',
      cpVersion = ''1.0.0'', cpEffectiveDate = ''2025-08-13'',
      Rules = map (\<lambda>r. if EvidenceType r = [] then r\<lparr>EvidenceType := evidenceTypeFor (RuleID r)\<rparr> else r)
                builtinRules\<rparr>"

definition Attestation :: "(string \<Rightarrow> string \<Rightarrow> string) \<Rightarrow> (ControlPack \<Rightarrow> string) \<Rightarrow> string
    \<Rightarrow> ControlPack \<Rightarrow> string" where
  "Attestation hmac marshal key p = hexEncode (hmac key (marshal p))"

definition VerifyAttestation :: "(string \<Rightarrow> string \<Rightarrow> string) \<Rightarrow> (ControlPack \<Rightarrow> string) \<Rightarrow> string
    \<Rightarrow> ControlPack \<Rightarrow> string \<Rightarrow> bool" where
  "VerifyAttestation hmac marshal key p attestation \<longleftrightarrow> Attestation hmac marshal key p = attestation"

interpretation attestation: tag_scheme "\<lambda>key p. Attestation hmac marshal key p"
    "\<lambda>key p t. VerifyAttestation hmac marshal key p t" for hmac marshal
  by unfold_locales (auto simp: VerifyAttestation_def)

subsection \<open>The index\<close>

lemma builtinRules_ids:
  "map RuleID builtinRules =
     [''JANUS-PQC-001'', ''JANUS-PQC-002'', ''JANUS-PQC-004'', ''JANUS-PQC-005'', ''JANUS-PQC-006'',
      ''JANUS-PQC-007'', ''JANUS-CLASSICAL-003'', ''JANUS-NET-001'', ''JANUS-NET-002'',
      ''JANUS-CNSA-001'', ''JANUS-CNSA-002'', ''JANUS-CNSA-003'']"
  by (simp add: builtinRules_def rule_defs)

lemma index_fold:
  "distinct (map key rs) \<Longrightarrow> fold (\<lambda>r m. m(key r \<mapsto> r)) rs m k =
     (case find (\<lambda>r. key r = k) rs of Some r \<Rightarrow> Some r | None \<Rightarrow> m k)"
proof (induction rs arbitrary: m)
  case (Cons r rs)
  have "key r = k \<Longrightarrow> find (\<lambda>r. key r = k) rs = None"
    using Cons.prems by (simp add: find_None_iff) (metis image_eqI)
  with Cons show ?case by (auto split: option.split)
qed simp

lemma ruleIndex_find: "ruleIndex k = find (\<lambda>r. RuleID r = k) builtinRules"
proof -
  have "distinct (map RuleID builtinRules)" by (simp add: builtinRules_ids)
  then show ?thesis unfolding ruleIndex_def by (simp add: index_fold split: option.split)
qed

lemma GetRule_iff: "GetRule k = Some r \<longleftrightarrow> r \<in> set builtinRules \<and> RuleID r = k"
proof -
  have d: "distinct (map RuleID builtinRules)" by (simp add: builtinRules_ids)
  show ?thesis
  proof
    assume "GetRule k = Some r"
    then show "r \<in> set builtinRules \<and> RuleID r = k"
      by (auto simp: GetRule_def ruleIndex_find find_Some_iff)
  next
    assume r: "r \<in> set builtinRules \<and> RuleID r = k"
    then obtain r' where "find (\<lambda>r. RuleID r = k) builtinRules = Some r'"
      by (cases "find (\<lambda>r. RuleID r = k) builtinRules") (auto simp: find_None_iff)
    then show "GetRule k = Some r"
      using r d by (auto simp: GetRule_def ruleIndex_find find_Some_iff distinct_map inj_on_def)
  qed
qed

lemma GetRule_known: "(\<exists>r. GetRule k = Some r) \<longleftrightarrow> k \<in> set (map RuleID builtinRules)"
  by (auto simp: GetRule_iff)

end
