(* ===== verification/PolicyProofs.thy ===== *)
theory PolicyProofs
  imports PolicyEngine ControlPack "HOL-Library.Product_Lexorder"
begin

text \<open>
  What the policy engine guarantees. Every part of the assessment is a \<open>finding_pass\<close>: it emits a
  list of candidate findings that does not depend on the findings already present, and appends
  those whose key (asset, algorithm, rule) is new. The locale proves once what follows from that
  (old findings kept as a prefix, keys unique, running twice adds nothing, where a new finding
  comes from); the passes of the engine are its interpretations, and the passes compose.
\<close>

subsection \<open>Appending by key\<close>

definition fkey :: "CryptoFinding \<Rightarrow> string \<times> string \<times> string" where
  "fkey f = (AssetRef f, fnAlgorithm f, PolicyRuleId f)"

definition addNew :: "(nat \<Rightarrow> string) \<Rightarrow> CryptoFinding \<Rightarrow> CryptoFinding list \<Rightarrow> CryptoFinding list" where
  "addNew newID f fs =
     (if fkey f \<in> fkey ` set fs then fs else fs @ [f\<lparr>FindingId := newID (length fs)\<rparr>])"

lemma appendFinding_addNew:
  "appendFinding newID f p = p\<lparr>Findings := addNew newID f (Findings p)\<rparr>"
proof -
  have "hasFinding p (AssetRef f) (fnAlgorithm f) (PolicyRuleId f) \<longleftrightarrow> fkey f \<in> fkey ` set (Findings p)"
    unfolding hasFinding_def fkey_def list_ex_iff image_iff by (simp add: eq_commute)
  then show ?thesis by (simp add: appendFinding_def addNew_def)
qed

lemma fkey_id [simp]: "fkey (f\<lparr>FindingId := i\<rparr>) = fkey f"
  by (simp add: fkey_def)

lemma keys_addNew: "fkey ` set (fold (addNew newID) cs fs) = fkey ` set fs \<union> fkey ` set cs"
  by (induction cs arbitrary: fs) (auto simp: addNew_def)

lemma addNew_known: "fkey f \<in> fkey ` set fs \<Longrightarrow> addNew newID f fs = fs"
  by (simp add: addNew_def)

lemma fold_addNew_known: "fkey ` set cs \<subseteq> fkey ` set fs \<Longrightarrow> fold (addNew newID) cs fs = fs"
  by (induction cs) (simp_all add: addNew_known)

lemma addNew_extends: "\<exists>new. fold (addNew newID) cs fs = fs @ new"
proof (induction cs arbitrary: fs)
  case (Cons c cs)
  then obtain new where "fold (addNew newID) cs (addNew newID c fs) = addNew newID c fs @ new"
    by blast
  moreover have "\<exists>n. addNew newID c fs = fs @ n" by (simp add: addNew_def)
  ultimately show ?case by auto
qed simp

lemma addNew_distinct:
  "distinct (map fkey fs) \<Longrightarrow> distinct (map fkey (fold (addNew newID) cs fs))"
proof (induction cs arbitrary: fs)
  case (Cons c cs)
  have "distinct (map fkey (addNew newID c fs))"
    using Cons.prems by (auto simp: addNew_def)
  with Cons.IH show ?case by simp
qed simp

lemma addNew_from:
  "f \<in> set (fold (addNew newID) cs fs) \<Longrightarrow>
   f \<in> set fs \<or> (\<exists>c \<in> set cs. f = c\<lparr>FindingId := FindingId f\<rparr>)"
proof (induction cs arbitrary: fs)
  case (Cons c cs)
  then consider "f \<in> set (addNew newID c fs)" | "\<exists>c \<in> set cs. f = c\<lparr>FindingId := FindingId f\<rparr>"
    by fastforce
  then show ?case
  proof cases
    case 1
    then show ?thesis by (auto simp: addNew_def split: if_splits)
  qed auto
qed simp

subsection \<open>The contract of a pass\<close>

locale finding_pass =
  fixes newID :: "nat \<Rightarrow> string"
    and pass :: "CbomTelemetryPayload \<Rightarrow> CbomTelemetryPayload"
    and cands :: "CbomTelemetryPayload \<Rightarrow> CryptoFinding list"
  assumes emits: "pass p = p\<lparr>Findings := fold (addNew newID) (cands p) (Findings p)\<rparr>"
    and cands_frame: "cands (p\<lparr>Findings := fs\<rparr>) = cands p"
begin

lemma findings: "Findings (pass p) = fold (addNew newID) (cands p) (Findings p)"
  by (simp add: emits)

lemma frame:
  "Components (pass p) = Components p" "NetworkObservations (pass p) = NetworkObservations p"
  "plEvidence (pass p) = plEvidence p"
  by (simp_all add: emits)

lemma keeps: "\<exists>new. Findings (pass p) = Findings p @ new"
  by (simp add: findings addNew_extends)

lemma unique: "distinct (map fkey (Findings p)) \<Longrightarrow> distinct (map fkey (Findings (pass p)))"
  by (simp add: findings addNew_distinct)

lemma idem: "pass (pass p) = pass p"
proof -
  have "cands (pass p) = cands p" by (simp add: emits cands_frame)
  then show ?thesis
    by (simp add: emits fold_addNew_known keys_addNew)
qed

lemma reported: "c \<in> set (cands p) \<Longrightarrow> \<exists>f \<in> set (Findings (pass p)). fkey f = fkey c"
proof -
  assume "c \<in> set (cands p)"
  then have "fkey c \<in> fkey ` set (Findings (pass p))"
    by (simp add: findings keys_addNew)
  then show ?thesis by (metis imageE)
qed

end

lemma finding_pass_id: "finding_pass newID (\<lambda>p. p) (\<lambda>p. [])"
  by unfold_locales simp_all

lemma finding_pass_append:
  assumes "\<And>p fs. c (p\<lparr>Findings := fs\<rparr>) = c p"
  shows "finding_pass newID (\<lambda>p. appendFinding newID (c p) p) (\<lambda>p. [c p])"
  by unfold_locales (simp_all add: appendFinding_addNew assms)

lemma finding_pass_if:
  assumes "finding_pass newID f c"
  shows "finding_pass newID (\<lambda>p. if b then f p else p) (\<lambda>p. if b then c p else [])"
  using assms finding_pass_id by (cases b) simp_all

lemma finding_pass_comp:
  assumes f: "finding_pass newID f c" and g: "finding_pass newID g d"
  shows "finding_pass newID (\<lambda>p. g (f p)) (\<lambda>p. c p @ d p)"
proof
  fix p fs
  show "g (f p) = p\<lparr>Findings := fold (addNew newID) (c p @ d p) (Findings p)\<rparr>"
    by (simp add: finding_pass.emits [OF f] finding_pass.emits [OF g] finding_pass.cands_frame [OF g])
  show "c (p\<lparr>Findings := fs\<rparr>) @ d (p\<lparr>Findings := fs\<rparr>) = c p @ d p"
    by (simp add: finding_pass.cands_frame [OF f] finding_pass.cands_frame [OF g])
qed

lemma finding_pass_fold:
  assumes "\<And>x. finding_pass newID (h x) (c x)"
  shows "finding_pass newID (fold h xs) (\<lambda>p. concat (map (\<lambda>x. c x p) xs))"
proof (induction xs)
  case Nil
  show ?case by (simp add: finding_pass_id id_def)
next
  case (Cons x xs)
  from finding_pass_comp [OF assms [of x] Cons.IH] show ?case by (simp add: comp_def)
qed

subsection \<open>What the finding builders read\<close>

lemma findEvidenceIDs_frame [simp]:
  "findEvidenceIDs (p\<lparr>Findings := fs\<rparr>) a = findEvidenceIDs p a"
  "findEvidenceIDs (p\<lparr>Components := cs\<rparr>) a = findEvidenceIDs p a"
  by (simp_all add: findEvidenceIDs_def)

lemma builders_frame [simp]:
  "publicKeyFinding (p\<lparr>Findings := fs\<rparr>) c pr a = publicKeyFinding p c pr a"
  "hashFinding (p\<lparr>Findings := fs\<rparr>) c a = hashFinding p c a"
  "aes128Finding (p\<lparr>Findings := fs\<rparr>) c a = aes128Finding p c a"
  "cnsaCurveFinding (p\<lparr>Findings := fs\<rparr>) c a = cnsaCurveFinding p c a"
  "cnsaHashFinding (p\<lparr>Findings := fs\<rparr>) c a = cnsaHashFinding p c a"
  "cnsaSymmetricFinding (p\<lparr>Findings := fs\<rparr>) c a = cnsaSymmetricFinding p c a"
  by (simp_all add: publicKeyFinding_def hashFinding_def aes128Finding_def cnsaCurveFinding_def
      cnsaHashFinding_def cnsaSymmetricFinding_def Let_def)

lemma appendFinding_frame [simp]:
  "publicKeyFinding (appendFinding newID f p) c pr a = publicKeyFinding p c pr a"
  "hashFinding (appendFinding newID f p) c a = hashFinding p c a"
  "aes128Finding (appendFinding newID f p) c a = aes128Finding p c a"
  "findEvidenceIDs (appendFinding newID f p) r = findEvidenceIDs p r"
  by (simp_all add: appendFinding_addNew)

subsection \<open>The candidates of each pass\<close>

definition reported :: "Profile \<Rightarrow> CryptoAlgorithm \<Rightarrow> bool" where
  "reported profile alg \<longleftrightarrow>
     \<not> skipAlgorithm profile alg \<and> isPublicKeyRole (algRole alg) \<and> classicalPublicKey alg"

definition weakHash :: "CryptoAlgorithm \<Rightarrow> bool" where
  "weakHash alg \<longleftrightarrow> (let name = toUpper (algName alg)
     in contains name ''MD5'' \<or> contains name ''SHA1'' \<or> contains name ''SHA-1'')"

definition aes128 :: "CryptoAlgorithm \<Rightarrow> bool" where
  "aes128 alg \<longleftrightarrow> contains (toUpper (algName alg)) ''AES-128'' \<and> algRole alg = CryptoRoleSymmetric"

definition algCands :: "CbomComponent \<Rightarrow> Profile \<Rightarrow> CryptoAlgorithm \<Rightarrow> CbomTelemetryPayload
    \<Rightarrow> CryptoFinding list" where
  "algCands c profile alg p =
     (if reported profile alg then [publicKeyFinding p c profile alg]
      else if skipAlgorithm profile alg then []
      else (if weakHash alg then [hashFinding p c alg] else []) @
           (if aes128 alg then [aes128Finding p c alg] else []))"

definition markAlg :: "Profile \<Rightarrow> CryptoAlgorithm \<Rightarrow> CryptoAlgorithm" where
  "markAlg profile alg = (if reported profile alg then alg\<lparr>QuantumVulnerable := True\<rparr> else alg)"

definition netCands :: "(string \<Rightarrow> string) \<Rightarrow> Profile \<Rightarrow> NetworkObservation \<Rightarrow> CbomTelemetryPayload
    \<Rightarrow> CryptoFinding list" where
  "netCands quote profile obs p =
     (let ids = findEvidenceIDs p (Endpoint obs) in
      if Cleartext obs then [cleartextFinding obs ids]
      else (if reportTLS12 obs then [tls12Finding quote obs ids] else []) @
           (if reportClassicalGroup profile obs then [groupFinding quote obs ids] else []) @
           (if reportClassicalSignature obs then [signatureFinding obs ids] else []))"

lemma fst_assessAlgorithm: "fst (assessAlgorithm newID c profile alg p) = markAlg profile alg"
  by (simp add: assessAlgorithm_def markAlg_def reported_def Let_def)

lemma fold_addNew_Findings [simp]: "p\<lparr>Findings := Findings p\<rparr> = p"
  by simp

lemma assessAlgorithm_findings:
  "snd (assessAlgorithm newID c profile alg p) =
     p\<lparr>Findings := fold (addNew newID) (algCands c profile alg p) (Findings p)\<rparr>"
proof (cases "skipAlgorithm profile alg \<or> isPublicKeyRole (algRole alg) \<and> classicalPublicKey alg")
  case True
  then show ?thesis
    by (auto simp: assessAlgorithm_def algCands_def reported_def appendFinding_addNew)
next
  case False
  then have "snd (assessAlgorithm newID c profile alg p) =
      (let p1 = (if weakHash alg then appendFinding newID (hashFinding p c alg) p else p)
       in if aes128 alg then appendFinding newID (aes128Finding p1 c alg) p1 else p1)"
    by (auto simp: assessAlgorithm_def weakHash_def aes128_def Let_def)
  also have "\<dots> = p\<lparr>Findings := fold (addNew newID) (algCands c profile alg p) (Findings p)\<rparr>"
    using False unfolding algCands_def
    by (subst if_not_P) (auto simp: reported_def appendFinding_addNew Let_def)
  finally show ?thesis .
qed

lemma algCands_frame [simp]:
  "algCands c profile alg (p\<lparr>Findings := fs\<rparr>) = algCands c profile alg p"
  by (simp add: algCands_def)

interpretation alg_pass: finding_pass newID "\<lambda>p. snd (assessAlgorithm newID c profile alg p)"
    "algCands c profile alg" for newID c profile alg
  by unfold_locales (simp_all add: assessAlgorithm_findings)

interpretation net_pass: finding_pass newID "assessNetwork newID quote obs profile"
    "netCands quote profile obs" for newID quote obs profile
  by unfold_locales
    (simp_all add: assessNetwork_def netCands_def Let_def appendFinding_addNew)


definition cnsaCands :: "CbomComponent \<Rightarrow> CryptoAlgorithm \<Rightarrow> CbomTelemetryPayload \<Rightarrow> CryptoFinding list" where
  "cnsaCands c alg p =
     (let name = toUpper (algName alg) in
      (if (contains name ''ECDSA'' \<or> contains name ''ECC'') \<and> weakCurve alg
       then [cnsaCurveFinding p c alg] else []) @
      (if (contains name ''SHA-256'' \<or> contains name ''SHA256'') \<and> algRole alg = CryptoRoleHash
       then [cnsaHashFinding p c alg] else []) @
      (if contains name ''AES-128'' \<and> algRole alg = CryptoRoleSymmetric
       then [cnsaSymmetricFinding p c alg] else []))"

definition vulnCands :: "(string \<Rightarrow> real option) \<Rightarrow> CbomComponent \<Rightarrow> OSVVulnerability list
    \<Rightarrow> CbomTelemetryPayload \<Rightarrow> CryptoFinding list" where
  "vulnCands parseFloat c vulns p =
     map (advisoryFinding c (findEvidenceIDs p (BomRef c))) (localAdvisoryHits c) @
     map (osvFinding parseFloat c (findEvidenceIDs p (BomRef c))) (FilterCryptoRelevant vulns)"

lemma fold_addNew_map:
  "finding_pass newID (fold (\<lambda>x p. appendFinding newID (b (findEvidenceIDs p r) x) p) xs)
     (\<lambda>p. map (b (findEvidenceIDs p r)) xs)"
proof -
  have "finding_pass newID (\<lambda>p. appendFinding newID (b (findEvidenceIDs p r) x) p)
      (\<lambda>p. [b (findEvidenceIDs p r) x])" for x
    by (rule finding_pass_append) simp
  from finding_pass_fold [OF this] show ?thesis by (simp add: map_concat comp_def)
qed

interpretation cnsa_alg_pass: finding_pass newID "assessCNSAAlgorithm newID c alg"
    "cnsaCands c alg" for newID c alg
  by unfold_locales (simp_all add: assessCNSAAlgorithm_def cnsaCands_def Let_def appendFinding_addNew)

lemma vuln_pass:
  "finding_pass newID
     (\<lambda>p. assessOSV parseFloat newID c vulns (assessLocalAdvisories newID c p))
     (vulnCands parseFloat c vulns)"
  unfolding assessOSV_def assessLocalAdvisories_def vulnCands_def
  by (rule finding_pass_comp [OF fold_addNew_map fold_addNew_map])

subsection \<open>The candidates of the whole assessment\<close>

text \<open>The answers the components get from the OSV client, which no finding influences.\<close>

definition osvAnswer :: "osv_net \<Rightarrow> CbomComponent \<Rightarrow> OSVClient option
    \<Rightarrow> OSVVulnerability list \<times> OSVClient option" where
  "osvAnswer post c osv =
     (case osv of
        None \<Rightarrow> ([], None)
      | Some client \<Rightarrow>
          if cmpVersion c = [] \<or> Language c = [] then ([], osv)
          else map_prod id Some (QueryPackage post (Language c) (cmpName c) (cmpVersion c) client))"

definition compVulnCands :: "(string \<Rightarrow> real option) \<Rightarrow> CbomComponent \<Rightarrow> OSVVulnerability list
    \<Rightarrow> CbomTelemetryPayload \<Rightarrow> CryptoFinding list" where
  "compVulnCands parseFloat c vulns p = (if cmpVersion c = [] then [] else vulnCands parseFloat c vulns p)"

fun compCands :: "osv_net \<Rightarrow> (string \<Rightarrow> real option) \<Rightarrow> Profile \<Rightarrow> CbomComponent list
    \<Rightarrow> OSVClient option \<Rightarrow> CbomTelemetryPayload \<Rightarrow> CryptoFinding list" where
  "compCands post parseFloat profile [] osv p = []"
| "compCands post parseFloat profile (c # cs) osv p =
     concat (map (\<lambda>alg. algCands c profile alg p) (Algorithms c)) @
     compVulnCands parseFloat c (fst (osvAnswer post c osv)) p @
     compCands post parseFloat profile cs (snd (osvAnswer post c osv)) p"

definition markComponent :: "Profile \<Rightarrow> CbomComponent \<Rightarrow> CbomComponent" where
  "markComponent profile c = c\<lparr>Algorithms := map (markAlg profile) (Algorithms c)\<rparr>"

definition isCNSA :: "Profile \<Rightarrow> bool" where
  "isCNSA profile \<longleftrightarrow> contains (toLower (Version profile)) ''cnsa''"

definition assessCands :: "osv_net \<Rightarrow> (string \<Rightarrow> real option) \<Rightarrow> (string \<Rightarrow> string) \<Rightarrow> Profile
    \<Rightarrow> OSVClient option \<Rightarrow> CbomTelemetryPayload \<Rightarrow> CryptoFinding list" where
  "assessCands post parseFloat quote profile osv p =
     compCands post parseFloat profile (Components p) osv p @
     concat (map (\<lambda>obs. netCands quote profile obs p) (NetworkObservations p)) @
     (if isCNSA profile
      then concat (map (\<lambda>c. concat (map (\<lambda>alg. cnsaCands c alg p) (Algorithms c))) (Components p))
      else [])"

lemma vuln_component:
  "assessComponentVulnerabilities post parseFloat newID c osv p =
     (snd (osvAnswer post c osv),
      if cmpVersion c = [] then p
      else assessOSV parseFloat newID c (fst (osvAnswer post c osv)) (assessLocalAdvisories newID c p))"
proof -
  have "assessOSV parseFloat newID c [] q = q" for q
    by (simp add: assessOSV_def FilterCryptoRelevant_def)
  then show ?thesis
    by (auto simp: assessComponentVulnerabilities_def osvAnswer_def Let_def
        split: option.splits prod.splits)
qed

interpretation comp_vuln_pass: finding_pass newID
    "\<lambda>p. snd (assessComponentVulnerabilities post parseFloat newID c osv p)"
    "compVulnCands parseFloat c (fst (osvAnswer post c osv))" for newID post parseFloat c osv
  using finding_pass_id [of newID] vuln_pass [of newID]
  by (cases "cmpVersion c = []") (simp_all add: vuln_component compVulnCands_def [abs_def])

lemma assessAlgorithms_pass:
  "fst (assessAlgorithms newID c profile algs p) = map (markAlg profile) algs"
  "snd (assessAlgorithms newID c profile algs p) =
     fold (\<lambda>alg p. snd (assessAlgorithm newID c profile alg p)) algs p"
  by (induction algs arbitrary: p) (simp_all add: case_prod_unfold Let_def fst_assessAlgorithm)


lemma algorithms_pass:
  "finding_pass newID (\<lambda>p. snd (assessAlgorithms newID c profile algs p))
     (\<lambda>p. concat (map (\<lambda>alg. algCands c profile alg p) algs))"
  unfolding assessAlgorithms_pass(2)
  by (rule finding_pass_fold) (rule alg_pass.finding_pass_axioms)

lemma assessComponents_eq:
  "fst (assessComponents post pf newID profile cs osv p) = map (markComponent profile) cs"
  "fst (snd (assessComponents post pf newID profile cs osv p)) =
     fold (\<lambda>c osv. snd (osvAnswer post c osv)) cs osv"
  by (induction cs arbitrary: osv p)
    (simp_all add: case_prod_unfold Let_def markComponent_def assessAlgorithms_pass(1) vuln_component)

lemma components_pass:
  "finding_pass newID (\<lambda>p. snd (snd (assessComponents post pf newID profile cs osv p)))
     (compCands post pf profile cs osv)"
proof (induction cs arbitrary: osv)
  case Nil
  show ?case using finding_pass_id [of newID] by (simp add: compCands.simps(1) [abs_def])
next
  case (Cons c cs)
  let ?o = "snd (osvAnswer post c osv)"
  have step: "snd (snd (assessComponents post pf newID profile (c # cs) osv p)) =
      snd (snd (assessComponents post pf newID profile cs ?o
        (snd (assessComponentVulnerabilities post pf newID c osv
          (snd (assessAlgorithms newID c profile (Algorithms c) p))))))" for p
    by (simp add: case_prod_unfold Let_def vuln_component)
  show ?case
    unfolding step compCands.simps append_assoc [symmetric]
    by (rule finding_pass_comp [OF finding_pass_comp, OF algorithms_pass _ Cons.IH])
      (rule comp_vuln_pass.finding_pass_axioms)
qed

lemma network_pass:
  "finding_pass newID (fold (\<lambda>obs p. assessNetwork newID quote obs profile p) obss)
     (\<lambda>p. concat (map (\<lambda>obs. netCands quote profile obs p) obss))"
  by (rule finding_pass_fold) (rule net_pass.finding_pass_axioms)

lemma cnsa_pass:
  "finding_pass newID
     (fold (\<lambda>c p. fold (assessCNSAAlgorithm newID c) (Algorithms c) p) cs)
     (\<lambda>p. concat (map (\<lambda>c. concat (map (\<lambda>alg. cnsaCands c alg p) (Algorithms c))) cs))"
  by (rule finding_pass_fold [OF finding_pass_fold]) (rule cnsa_alg_pass.finding_pass_axioms)

subsection \<open>Marking an algorithm changes no candidate\<close>

lemma markAlg_fields [simp]:
  "algName (markAlg pr a) = algName a" "algFamily (markAlg pr a) = algFamily a"
  "algRole (markAlg pr a) = algRole a" "algStatus (markAlg pr a) = algStatus a"
  "KeyBits (markAlg pr a) = KeyBits a" "Curve (markAlg pr a) = Curve a"
  "algConfidence (markAlg pr a) = algConfidence a"
  by (simp_all add: markAlg_def)

lemma mark_reads [simp]:
  "skipAlgorithm pr (markAlg pr a) = skipAlgorithm pr a"
  "classicalPublicKey (markAlg pr a) = classicalPublicKey a"
  "weakHash (markAlg pr a) = weakHash a" "aes128 (markAlg pr a) = aes128 a"
  "weakCurve (markAlg pr a) = weakCurve a" "intentNote (markAlg pr a) = intentNote a"
  "adjustSeverityForIntent s (markAlg pr a) = adjustSeverityForIntent s a"
  by (simp_all add: skipAlgorithm_def classicalPublicKey_def weakHash_def aes128_def weakCurve_def
      intentNote_def isLowRiskIntent_def adjustSeverityForIntent_def)

lemma reported_mark [simp]: "reported pr (markAlg pr a) = reported pr a"
  by (simp add: reported_def)

lemma markAlg_idem [simp]: "markAlg pr (markAlg pr a) = markAlg pr a"
  unfolding markAlg_def [of pr "markAlg pr a"] by (simp add: markAlg_def)

lemma markComponent_fields [simp]:
  "BomRef (markComponent pr c) = BomRef c" "cmpName (markComponent pr c) = cmpName c"
  "cmpVersion (markComponent pr c) = cmpVersion c" "Language (markComponent pr c) = Language c"
  "Algorithms (markComponent pr c) = map (markAlg pr) (Algorithms c)"
  by (simp_all add: markComponent_def)

lemma builders_component [simp]:
  "publicKeyFinding p (markComponent pr' c) pr a = publicKeyFinding p c pr a"
  "hashFinding p (markComponent pr' c) a = hashFinding p c a"
  "aes128Finding p (markComponent pr' c) a = aes128Finding p c a"
  "cnsaCurveFinding p (markComponent pr' c) a = cnsaCurveFinding p c a"
  "cnsaHashFinding p (markComponent pr' c) a = cnsaHashFinding p c a"
  "cnsaSymmetricFinding p (markComponent pr' c) a = cnsaSymmetricFinding p c a"
  by (simp_all add: publicKeyFinding_def hashFinding_def aes128Finding_def
      cnsaCurveFinding_def cnsaHashFinding_def cnsaSymmetricFinding_def Let_def cong: if_cong)

lemma builders_mark [simp]:
  "publicKeyFinding p c pr (markAlg pr a) = publicKeyFinding p c pr a"
  "hashFinding p c (markAlg pr a) = hashFinding p c a"
  "aes128Finding p c (markAlg pr a) = aes128Finding p c a"
  "cnsaCurveFinding p c (markAlg pr a) = cnsaCurveFinding p c a"
  "cnsaHashFinding p c (markAlg pr a) = cnsaHashFinding p c a"
  "cnsaSymmetricFinding p c (markAlg pr a) = cnsaSymmetricFinding p c a"
  by (simp_all add: publicKeyFinding_def hashFinding_def aes128Finding_def
      cnsaCurveFinding_def cnsaHashFinding_def cnsaSymmetricFinding_def Let_def cong: if_cong)

lemma cands_mark [simp]:
  "algCands (markComponent pr c) pr (markAlg pr a) p = algCands c pr a p"
  "cnsaCands (markComponent pr c) (markAlg pr a) p = cnsaCands c a p"
  by (simp_all add: algCands_def cnsaCands_def Let_def cong: if_cong)


lemma osvAnswer_mark [simp]: "osvAnswer post (markComponent pr c) osv = osvAnswer post c osv"
  by (simp add: osvAnswer_def split: option.split)

lemma compVulnCands_mark [simp]:
  "compVulnCands pf (markComponent pr c) vulns p = compVulnCands pf c vulns p"
  by (simp add: compVulnCands_def vulnCands_def localAdvisoryHits_def advisoryFinding_def [abs_def]
      osvFinding_def [abs_def] cong: if_cong)

lemma compCands_mark [simp]:
  "compCands post pf pr (map (markComponent pr) cs) osv p = compCands post pf pr cs osv p"
  by (induction cs arbitrary: osv) (simp_all add: comp_def del: markComponent_fields(1-4))

lemma cands_components_frame [simp]:
  "algCands c pr a (p\<lparr>Components := x\<rparr>) = algCands c pr a p"
  "cnsaCands c a (p\<lparr>Components := x\<rparr>) = cnsaCands c a p"
  "netCands quote pr obs (p\<lparr>Components := x\<rparr>) = netCands quote pr obs p"
  "compVulnCands pf c vulns (p\<lparr>Components := x\<rparr>) = compVulnCands pf c vulns p"
  by (simp_all add: algCands_def cnsaCands_def netCands_def compVulnCands_def vulnCands_def Let_def
      publicKeyFinding_def hashFinding_def aes128Finding_def cnsaCurveFinding_def
      cnsaHashFinding_def cnsaSymmetricFinding_def cong: if_cong)

lemma compCands_components_frame [simp]:
  "compCands post pf pr cs osv (p\<lparr>Components := x\<rparr>) = compCands post pf pr cs osv p"
  by (induction cs arbitrary: osv) simp_all

subsection \<open>The assessment as one append of candidates\<close>

lemma assessWithProfile_eq:
  "assessWithProfile post pf quote newID profile (p, osv) =
     (p\<lparr>Components := map (markComponent profile) (Components p),
        Findings := fold (addNew newID) (assessCands post pf quote profile osv p) (Findings p)\<rparr>,
      fold (\<lambda>c osv. snd (osvAnswer post c osv)) (Components p) osv)"
proof -
  let ?cs = "map (markComponent profile) (Components p)"
  let ?c1 = "compCands post pf profile (Components p) osv p"
  let ?c2 = "concat (map (\<lambda>obs. netCands quote profile obs p) (NetworkObservations p))"
  let ?c3 = "concat (map (\<lambda>c. concat (map (\<lambda>alg. cnsaCands c alg p) (Algorithms c))) (Components p))"
  let ?p1 = "p\<lparr>Findings := fold (addNew newID) ?c1 (Findings p)\<rparr>"
  let ?p2 = "?p1\<lparr>Components := ?cs\<rparr>"
  let ?p3 = "?p2\<lparr>Findings := fold (addNew newID) ?c2 (Findings ?p2)\<rparr>"
  have comps: "assessComponents post pf newID profile (Components p) osv p =
      (?cs, fold (\<lambda>c osv. snd (osvAnswer post c osv)) (Components p) osv, ?p1)"
    by (intro prod_eqI)
      (simp_all add: assessComponents_eq finding_pass.emits [OF components_pass])
  have net: "fold (\<lambda>obs q. assessNetwork newID quote obs profile q) (NetworkObservations ?p2) ?p2 = ?p3"
    by (subst finding_pass.emits [OF network_pass]) (simp add: net_pass.cands_frame)
  have cnsa: "assessCNSA newID ?p3 = ?p3\<lparr>Findings := fold (addNew newID) ?c3 (Findings ?p3)\<rparr>"
    unfolding assessCNSA_def
    by (subst finding_pass.emits [OF cnsa_pass]) (simp add: cnsa_alg_pass.cands_frame comp_def)
  show ?thesis
    unfolding assessWithProfile_def case_prod_conv Let_def comps net
    using cnsa by (simp add: isCNSA_def assessCands_def)
qed


lemma Assess_eq:
  "fst (Assess post pf quote newID e p) =
     p\<lparr>Components := map (markComponent (GetActiveProfile e)) (Components p),
       Findings := fold (addNew newID)
         (assessCands post pf quote (GetActiveProfile e) (osvClient e) p) (Findings p)\<rparr>"
  by (simp add: Assess_def assessWithProfile_eq)

lemma Assess_reported:
  assumes "f \<in> set (assessCands post pf quote (GetActiveProfile e) (osvClient e) p)"
  shows "\<exists>f' \<in> set (Findings (fst (Assess post pf quote newID e p))). fkey f' = fkey f"
proof -
  have "fkey f \<in> fkey ` set (Findings (fst (Assess post pf quote newID e p)))"
    using assms by (simp add: Assess_eq keys_addNew)
  then show ?thesis by force
qed

lemma compCands_alg:
  assumes "c \<in> set cs" and "alg \<in> set (Algorithms c)" and "f \<in> set (algCands c pr alg p)"
  shows "f \<in> set (compCands post pf pr cs osv p)"
  using assms by (induction cs arbitrary: osv) auto

lemma compCands_advisory:
  assumes "c \<in> set cs" and "cmpVersion c \<noteq> []" and "adv \<in> set (localAdvisoryHits c)"
  shows "advisoryFinding c (findEvidenceIDs p (BomRef c)) adv \<in> set (compCands post pf pr cs osv p)"
  using assms by (induction cs arbitrary: osv) (auto simp: compVulnCands_def vulnCands_def)

lemma publicKeyFinding_fields:
  "AssetRef (publicKeyFinding p c pr a) = BomRef c" "fnAlgorithm (publicKeyFinding p c pr a) = algName a"
  "PolicyRuleId (publicKeyFinding p c pr a) =
     (if isSignatureRole (algRole a)
      then if contains (toUpper (algName a)) ''RSA'' \<and> 0 < KeyBits a \<and> KeyBits a < MinimumRSAKeyBits pr
           then ''JANUS-PQC-002'' else ''JANUS-PQC-001''
      else ''JANUS-PQC-007'')"
  by (simp_all add: publicKeyFinding_def mkFinding_def Let_def)

subsection \<open>Severities and rules of the candidates\<close>

definition cand_ok :: "CryptoFinding \<Rightarrow> bool" where
  "cand_ok f \<longleftrightarrow> 1 \<le> Severity f \<and> Severity f \<le> 5"

definition rule_ok :: "CryptoFinding \<Rightarrow> bool" where
  "rule_ok f \<longleftrightarrow> (\<exists>r. GetRule (PolicyRuleId f) = Some r) \<or> PolicyRuleId f = fnAlgorithm f"

lemma adjust_range:
  assumes "3 \<le> b"
  shows "1 \<le> adjustSeverityForIntent b a" and "adjustSeverityForIntent b a \<le> b"
  using assms by (simp_all add: adjustSeverityForIntent_def Let_def)

lemma advisory_severity: "adv \<in> set localAdvisories \<Longrightarrow> 3 \<le> lvSeverity adv \<and> lvSeverity adv \<le> 5"
  by (auto simp: localAdvisories_def)

lemma builders_ok:
  "cand_ok (publicKeyFinding p c pr a)" "cand_ok (hashFinding p c a)" "cand_ok (aes128Finding p c a)"
  "cand_ok (cnsaCurveFinding p c a)" "cand_ok (cnsaHashFinding p c a)"
  "cand_ok (cnsaSymmetricFinding p c a)" "cand_ok (cleartextFinding obs ids)"
  "cand_ok (tls12Finding quote obs ids)" "cand_ok (groupFinding quote obs ids)"
  "cand_ok (signatureFinding obs ids)" "cand_ok (osvFinding pf c ids v)"
  using adjust_range [of 3 a] adjust_range [of 4 a] adjust_range [of 5 a]
    OSVSeverityToJanus_range [of pf "osvSeverity v"]
  by (auto simp: cand_ok_def publicKeyFinding_def hashFinding_def aes128Finding_def cnsaCurveFinding_def
      cnsaHashFinding_def cnsaSymmetricFinding_def cleartextFinding_def tls12Finding_def
      groupFinding_def signatureFinding_def osvFinding_def mkFinding_def Let_def intro: order_trans)

lemma builders_rule:
  "rule_ok (publicKeyFinding p c pr a)" "rule_ok (hashFinding p c a)" "rule_ok (aes128Finding p c a)"
  "rule_ok (cnsaCurveFinding p c a)" "rule_ok (cnsaHashFinding p c a)"
  "rule_ok (cnsaSymmetricFinding p c a)" "rule_ok (cleartextFinding obs ids)"
  "rule_ok (tls12Finding quote obs ids)" "rule_ok (groupFinding quote obs ids)"
  "rule_ok (signatureFinding obs ids)" "rule_ok (osvFinding pf c ids v)"
  "rule_ok (advisoryFinding c ids adv)"
  by (simp_all add: rule_ok_def publicKeyFinding_def hashFinding_def aes128Finding_def
      cnsaCurveFinding_def cnsaHashFinding_def cnsaSymmetricFinding_def cleartextFinding_def
      tls12Finding_def groupFinding_def signatureFinding_def osvFinding_def advisoryFinding_def
      mkFinding_def Let_def GetRule_known builtinRules_ids)

lemma advisory_ok: "adv \<in> set (localAdvisoryHits c) \<Longrightarrow> cand_ok (advisoryFinding c ids adv)"
  using advisory_severity [of adv]
  by (auto simp: localAdvisoryHits_def advisoryFinding_def cand_ok_def mkFinding_def)

lemma compCands_from:
  "f \<in> set (compCands post pf pr cs osv p) \<Longrightarrow>
   (\<exists>c \<in> set cs. (\<exists>alg \<in> set (Algorithms c). f \<in> set (algCands c pr alg p)) \<or>
      (\<exists>vulns. f \<in> set (vulnCands pf c vulns p)))"
proof (induction cs arbitrary: osv)
  case (Cons c cs)
  then consider "\<exists>alg \<in> set (Algorithms c). f \<in> set (algCands c pr alg p)"
    | "f \<in> set (compVulnCands pf c (fst (osvAnswer post c osv)) p)"
    | "f \<in> set (compCands post pf pr cs (snd (osvAnswer post c osv)) p)" by auto
  then show ?case
  proof cases
    case 2
    then show ?thesis by (auto simp: compVulnCands_def split: if_splits)
  next
    case 3
    from Cons.IH [OF this] show ?thesis by auto
  qed auto
qed simp

lemma assessCands_ok:
  assumes "f \<in> set (assessCands post pf quote pr osv p)"
  shows "cand_ok f \<and> rule_ok f"
proof -
  have alg: "g \<in> set (algCands c pr alg p) \<Longrightarrow> cand_ok g \<and> rule_ok g" for g c alg
    by (auto simp: algCands_def builders_ok builders_rule split: if_splits)
  have vuln: "g \<in> set (vulnCands pf c vulns p) \<Longrightarrow> cand_ok g \<and> rule_ok g" for g c vulns
    by (auto simp: vulnCands_def builders_ok builders_rule advisory_ok)
  have net: "g \<in> set (netCands quote pr obs p) \<Longrightarrow> cand_ok g \<and> rule_ok g" for g obs
    by (auto simp: netCands_def Let_def builders_ok builders_rule split: if_splits)
  have cnsa: "g \<in> set (cnsaCands c alg p) \<Longrightarrow> cand_ok g \<and> rule_ok g" for g c alg
    by (auto simp: cnsaCands_def Let_def builders_ok builders_rule split: if_splits)
  from assms consider "f \<in> set (compCands post pf pr (Components p) osv p)"
    | "\<exists>obs. f \<in> set (netCands quote pr obs p)" | "\<exists>c alg. f \<in> set (cnsaCands c alg p)"
    by (auto simp: assessCands_def split: if_splits)
  then show ?thesis
  proof cases
    case 1
    from compCands_from [OF this] alg vuln show ?thesis by blast
  qed (use net cnsa in blast)+
qed


subsection \<open>The engine's profiles\<close>

text \<open>Every engine the server can hold: made by a constructor, then changed by its operations.\<close>

inductive engine_reachable :: "Engine \<Rightarrow> bool" where
  er_new: "engine_reachable (NewEngine profile)"
| er_load: "engine_reachable (LoadEngine files)"
| er_set: "engine_reachable e \<Longrightarrow> engine_reachable (snd (SetActiveProfile v e))"
| er_add: "engine_reachable e \<Longrightarrow> engine_reachable (AddProfile p e)"
| er_remove: "engine_reachable e \<Longrightarrow> engine_reachable (snd (RemoveProfile v e))"
| er_assess: "engine_reachable e \<Longrightarrow> engine_reachable (snd (Assess post pf quote newID e payload))"
| er_assess_version: "engine_reachable e \<Longrightarrow>
    engine_reachable (snd (AssessWithVersion post pf quote newID v e payload))"

definition engine_inv :: "Engine \<Rightarrow> bool" where
  "engine_inv e \<longleftrightarrow> profiles e (active e) \<noteq> None \<and>
     (\<forall>v p. profiles e v = Some p \<longrightarrow> Version p = v)"

lemma loadProfiles_inv: "engine_inv e \<Longrightarrow> engine_inv (loadProfiles fs e)"
proof (induction fs e rule: loadProfiles.induct)
  case (2 path parsed fs e)
  have "engine_inv (case parsed of None \<Rightarrow> e | Some p \<Rightarrow>
      if Version p \<noteq> []
      then (let e' = e\<lparr>profiles := (profiles e)(Version p \<mapsto> p)\<rparr>
            in if contains path ''nist-pqc-2026'' then e'\<lparr>active := Version p\<rparr> else e')
      else e)"
    using 2(2) by (auto simp: engine_inv_def Let_def split: option.splits)
  with 2(1) show ?case by simp
qed simp

lemma Assess_engine:
  "active (snd (Assess post pf quote newID e p)) = active e"
  "profiles (snd (Assess post pf quote newID e p)) = profiles e"
  "active (snd (AssessWithVersion post pf quote newID v e p)) = active e"
  "profiles (snd (AssessWithVersion post pf quote newID v e p)) = profiles e"
  by (simp_all add: Assess_def AssessWithVersion_def case_prod_unfold Let_def)

lemma engine_reachable_inv: "engine_reachable e \<Longrightarrow> engine_inv e"
proof (induction rule: engine_reachable.induct)
  case (er_load files)
  have "engine_inv \<lparr>active = ''nist-pqc-2026.1'',
      profiles = [Version NIST2026Profile \<mapsto> NIST2026Profile], osvClient = Some (NewOSVClient True)\<rparr>"
    by (simp add: engine_inv_def NIST2026Profile_def)
  then show ?case
    by (auto simp: LoadEngine_def Let_def loadProfiles_inv split: option.split)
qed (auto simp: engine_inv_def NewEngine_def SetActiveProfile_def AddProfile_def RemoveProfile_def
    Assess_engine split: option.splits)

subsection \<open>A concrete payload\<close>

definition demo_alg :: "string \<Rightarrow> string \<Rightarrow> int \<Rightarrow> nat \<Rightarrow> CryptoAlgorithm" where
  "demo_alg name family role bits =
     \<lparr>algName = name, algFamily = family, algRole = role, algStatus = [], KeyBits = bits,
      Curve = [], ImplementationLibrary = [], SourceFile = [], SourceLine = 0, SourceColumn = 0,
      Symbol = [], algConfidence = 1, QuantumVulnerable = False, ContextSnippet = []\<rparr>"

definition demo_component :: "string \<Rightarrow> string \<Rightarrow> string \<Rightarrow> CryptoAlgorithm list \<Rightarrow> CbomComponent" where
  "demo_component ref name version algs =
     \<lparr>BomRef = ref, cmpName = name, cmpVersion = version, ComponentType = [], Purl = [],
      FilePath = [], Language = [], Algorithms = algs, Dependencies = [], Reachable = True\<rparr>"

definition demo_obs :: "string \<Rightarrow> string \<Rightarrow> string \<Rightarrow> bool \<Rightarrow> NetworkObservation" where
  "demo_obs endpoint tls grp clear =
     \<lparr>Endpoint = endpoint, Protocol = ''tls'', TlsVersion = tls, CipherSuite = [],
      NamedGroup = grp, SignatureAlgorithm = ''ML-DSA-65'', CertificateSubject = [],
      CertificateIssuer = [], CertificateNotAfterUnix = 0, PqcHybrid = False, Cleartext = clear\<rparr>"

definition demo_payload :: "CbomComponent list \<Rightarrow> NetworkObservation list \<Rightarrow> CbomTelemetryPayload" where
  "demo_payload cs obss =
     \<lparr>TelemetryId = [], plHostUuid = ''h'', ScanStartedUnix = 0, ScanFinishedUnix = 0,
      Components = cs, Findings = [], NetworkObservations = obss, plEvidence = [],
      CycloneDxJson = []\<rparr>"

definition demo_engine :: Engine where
  "demo_engine = (NewEngine NIST2026Profile)\<lparr>osvClient := None\<rparr>"

definition demo_assess :: "CbomTelemetryPayload \<Rightarrow> CbomTelemetryPayload" where
  "demo_assess p = fst (Assess (\<lambda>_ _. None) (\<lambda>_. None) (\<lambda>s. s) (\<lambda>_. ''id'') demo_engine p)"

definition demo_p :: CbomTelemetryPayload where
  "demo_p = demo_payload [demo_component ''a.go'' ''openssl'' ''3.0.9'' [demo_alg ''RSA'' ''RSA'' 3 2048]]
              [demo_obs ''e:80'' [] [] True]"

definition demo_q :: CbomTelemetryPayload where
  "demo_q = demo_payload [] [demo_obs ''e:80'' [] [] True]"

lemma demo_q_findings: "length (Findings (demo_assess demo_q)) = 1"
  by code_simp

subsection \<open>Properties\<close>

text \<open>
  The assessment only appends. Whatever the payload, the profile and the answers of OSV.dev,
  the assessed payload is the given one with quantum-vulnerable algorithms marked and with new
  findings after the old ones; the findings' keys are the old keys and those of the candidates the
  rules yield, and no key is added twice.
\<close>

theorem assess_appends:
  "let p' = fst (Assess post pf quote newID e p);
       pr = GetActiveProfile e
   in p' = p\<lparr>Components := map (markComponent pr) (Components p), Findings := Findings p'\<rparr> \<and>
      (\<exists>new. Findings p' = Findings p @ new) \<and>
      fkey ` set (Findings p') =
        fkey ` set (Findings p) \<union> fkey ` set (assessCands post pf quote pr (osvClient e) p) \<and>
      distinct (map fkey (Findings p')) = distinct (map fkey (Findings p))"
proof -
  let ?c = "assessCands post pf quote (GetActiveProfile e) (osvClient e) p"
  obtain new where new: "fold (addNew newID) ?c (Findings p) = Findings p @ new"
    using addNew_extends by blast
  have "distinct (map fkey (Findings p @ new)) = distinct (map fkey (Findings p))"
    using addNew_distinct [of "Findings p" newID ?c] unfolding new by auto
  then show ?thesis
    using keys_addNew [of newID ?c "Findings p"] by (simp add: Assess_eq Let_def new)
qed

text \<open>
  C14: Assessing twice is assessing once. Without live lookups (no client, or a disabled one) a
  second assessment, even with other identifiers, leaves the payload and the engine as the first
  one left them.
\<close>

theorem assess_idempotent:
  assumes "case osvClient e of None \<Rightarrow> True | Some c \<Rightarrow> \<not> osvEnabled c"
  shows "Assess post pf quote newID' e (fst (Assess post pf quote newID e p)) =
           (fst (Assess post pf quote newID e p), e)"
proof -
  let ?pr = "GetActiveProfile e"
  let ?p' = "fst (Assess post pf quote newID e p)"
  have osv: "osvAnswer post c (osvClient e) = ([], osvClient e)" for c
    using assms by (auto simp: osvAnswer_def QueryPackage_def split: option.splits)
  have "fold (\<lambda>c osv. snd (osvAnswer post c osv)) cs (osvClient e) = osvClient e" for cs
    by (induction cs) (simp_all add: osv)
  then have e: "snd (Assess post pf quote newID' e ?p') = e"
    by (simp add: Assess_def assessWithProfile_eq)
  have frame: "compCands post pf ?pr cs os (p\<lparr>Components := x, Findings := y\<rparr>) =
      compCands post pf ?pr cs os p" for cs os x y
    by (subst finding_pass.cands_frame [OF components_pass]) simp
  have frames: "netCands quote ?pr obs (p\<lparr>Components := x, Findings := y\<rparr>) = netCands quote ?pr obs p"
    "cnsaCands c alg (p\<lparr>Components := x, Findings := y\<rparr>) = cnsaCands c alg p" for obs c alg x y
    by (subst net_pass.cands_frame cnsa_alg_pass.cands_frame, simp)+
  have cands: "assessCands post pf quote ?pr (osvClient e) ?p' =
      assessCands post pf quote ?pr (osvClient e) p"
    by (simp add: assessCands_def Assess_eq frame frames comp_def
        cong: if_cong)
  have "fst (Assess post pf quote newID' e ?p') = ?p'"
    unfolding Assess_eq [of post pf quote newID' e ?p'] cands
    by (simp add: Assess_eq fold_addNew_known keys_addNew markComponent_def comp_def)
  with e show ?thesis by (metis prod.collapse)
qed


theorem assess_idempotent_witness:
  "Assess (\<lambda>_ _. None) (\<lambda>_. None) (\<lambda>s. s) (\<lambda>_. ''other'') demo_engine (demo_assess demo_q) =
     (demo_assess demo_q, demo_engine) \<and> length (Findings (demo_assess demo_q)) = 1"
proof
  show "Assess (\<lambda>_ _. None) (\<lambda>_. None) (\<lambda>s. s) (\<lambda>_. ''other'') demo_engine (demo_assess demo_q) =
      (demo_assess demo_q, demo_engine)"
    unfolding demo_assess_def by (rule assess_idempotent) (simp add: demo_engine_def)
  show "length (Findings (demo_assess demo_q)) = 1" by (rule demo_q_findings)
qed

text \<open>
  No classical public key goes unreported. Every algorithm of the payload that is used in a
  public-key role, is named (or filed) as a classical public-key algorithm and is not skipped for
  low confidence or test-only use, is marked quantum-vulnerable and has a finding of its component
  under the rule of its role: undersized RSA signature, other signature, or key establishment.
\<close>

theorem classical_key_reported:
  assumes "c \<in> set (Components p)" and "alg \<in> set (Algorithms c)"
    and "\<not> skipAlgorithm (GetActiveProfile e) alg" and "isPublicKeyRole (algRole alg)"
    and "classicalPublicKey alg"
  shows "(\<exists>f \<in> set (Findings (fst (Assess post pf quote newID e p))).
            AssetRef f = BomRef c \<and> fnAlgorithm f = algName alg \<and>
            PolicyRuleId f =
              (if isSignatureRole (algRole alg)
               then if contains (toUpper (algName alg)) ''RSA'' \<and> 0 < KeyBits alg \<and>
                       KeyBits alg < MinimumRSAKeyBits (GetActiveProfile e)
                    then ''JANUS-PQC-002'' else ''JANUS-PQC-001''
               else ''JANUS-PQC-007'')) \<and>
         (\<exists>c' \<in> set (Components (fst (Assess post pf quote newID e p))). BomRef c' = BomRef c \<and>
            alg\<lparr>QuantumVulnerable := True\<rparr> \<in> set (Algorithms c'))"
proof
  let ?pr = "GetActiveProfile e"
  have rep: "reported ?pr alg" using assms(3-5) by (simp add: reported_def)
  then have "publicKeyFinding p c ?pr alg \<in> set (algCands c ?pr alg p)" by (simp add: algCands_def)
  then have "publicKeyFinding p c ?pr alg \<in> set (assessCands post pf quote ?pr (osvClient e) p)"
    unfolding assessCands_def using compCands_alg [OF assms(1,2)] by simp
  from Assess_reported [OF this, of newID]
  obtain f where "f \<in> set (Findings (fst (Assess post pf quote newID e p)))"
    "fkey f = fkey (publicKeyFinding p c ?pr alg)" by blast
  then show "\<exists>f \<in> set (Findings (fst (Assess post pf quote newID e p))).
      AssetRef f = BomRef c \<and> fnAlgorithm f = algName alg \<and>
      PolicyRuleId f =
        (if isSignatureRole (algRole alg)
         then if contains (toUpper (algName alg)) ''RSA'' \<and> 0 < KeyBits alg \<and>
                 KeyBits alg < MinimumRSAKeyBits ?pr
              then ''JANUS-PQC-002'' else ''JANUS-PQC-001''
         else ''JANUS-PQC-007'')"
    unfolding fkey_def publicKeyFinding_fields prod.inject by blast
  have "alg\<lparr>QuantumVulnerable := True\<rparr> \<in> set (Algorithms (markComponent ?pr c))"
    using assms(2) rep by (force simp: markAlg_def)
  then show "\<exists>c' \<in> set (Components (fst (Assess post pf quote newID e p))). BomRef c' = BomRef c \<and>
      alg\<lparr>QuantumVulnerable := True\<rparr> \<in> set (Algorithms c')"
    using assms(1) by (force simp: Assess_eq)
qed

theorem classical_key_reported_witness:
  "\<exists>f \<in> set (Findings (demo_assess demo_p)). AssetRef f = ''a.go'' \<and> fnAlgorithm f = ''RSA'' \<and>
     PolicyRuleId f = ''JANUS-PQC-002''"
proof -
  let ?alg = "demo_alg ''RSA'' ''RSA'' 3 2048"
  let ?c = "demo_component ''a.go'' ''openssl'' ''3.0.9'' [?alg]"
  have "?c \<in> set (Components demo_p)" "?alg \<in> set (Algorithms ?c)"
    by (simp_all add: demo_p_def demo_payload_def demo_component_def)
  moreover have "\<not> skipAlgorithm (GetActiveProfile demo_engine) ?alg" by code_simp
  moreover have "isPublicKeyRole (algRole ?alg)" by code_simp
  moreover have "classicalPublicKey ?alg" by code_simp
  ultimately have "\<exists>f \<in> set (Findings (demo_assess demo_p)). AssetRef f = BomRef ?c \<and>
      fnAlgorithm f = algName ?alg \<and> PolicyRuleId f =
        (if isSignatureRole (algRole ?alg)
         then if contains (toUpper (algName ?alg)) ''RSA'' \<and> 0 < KeyBits ?alg \<and>
                 KeyBits ?alg < MinimumRSAKeyBits (GetActiveProfile demo_engine)
              then ''JANUS-PQC-002'' else ''JANUS-PQC-001''
         else ''JANUS-PQC-007'')"
    unfolding demo_assess_def by (rule conjunct1 [OF classical_key_reported])
  moreover have "isSignatureRole (algRole ?alg) \<and> contains (toUpper (algName ?alg)) ''RSA'' \<and>
      0 < KeyBits ?alg \<and> KeyBits ?alg < MinimumRSAKeyBits (GetActiveProfile demo_engine)"
    by code_simp
  ultimately show ?thesis by (simp add: demo_component_def demo_alg_def)
qed

text \<open>
  Every finding the assessment adds has a severity between Info and Critical, however the
  usage intent lowered it, and names either a rule of the built-in control pack or the identifier
  of a vulnerability.
\<close>

theorem assess_new_findings:
  assumes "f \<in> set (Findings (fst (Assess post pf quote newID e p)))" and "f \<notin> set (Findings p)"
  shows "RiskSeverityInfo \<le> Severity f \<and> Severity f \<le> RiskSeverityCritical \<and>
    ((\<exists>r. GetRule (PolicyRuleId f) = Some r) \<or> PolicyRuleId f = fnAlgorithm f)"
proof -
  let ?cs = "assessCands post pf quote (GetActiveProfile e) (osvClient e) p"
  have "f \<in> set (fold (addNew newID) ?cs (Findings p))" using assms(1) by (simp add: Assess_eq)
  from addNew_from [OF this] assms(2)
  obtain c where "c \<in> set ?cs" and f: "f = c\<lparr>FindingId := FindingId f\<rparr>" by blast
  have "cand_ok c \<and> rule_ok c" by (rule assessCands_ok) fact
  moreover have "Severity f = Severity c" "PolicyRuleId f = PolicyRuleId c" "fnAlgorithm f = fnAlgorithm c"
    using arg_cong [OF f, of Severity] arg_cong [OF f, of PolicyRuleId] arg_cong [OF f, of fnAlgorithm]
    by simp_all
  ultimately show ?thesis by (simp add: cand_ok_def rule_ok_def)
qed

theorem assess_new_findings_witness:
  "1 \<le> Severity (Findings (demo_assess demo_q) ! 0)"
proof -
  have "0 < length (Findings (demo_assess demo_q))" by (simp add: demo_q_findings)
  then have "Findings (demo_assess demo_q) ! 0 \<in> set (Findings (demo_assess demo_q))" by (rule nth_mem)
  moreover have "Findings (demo_assess demo_q) ! 0 \<notin> set (Findings demo_q)"
    by (simp add: demo_q_def demo_payload_def)
  ultimately show ?thesis
    unfolding demo_assess_def using assess_new_findings by blast
qed

text \<open>
  The local advisories. A component under an advisory's package name, in any letter case, whose
  version is lexicographically below the advisory's (up to three numeric parts) has, after the
  assessment, a finding under that advisory's identifier.
\<close>

theorem vulnerable_package_reported:
  assumes "c \<in> set (Components p)" and "cmpVersion c \<noteq> []" and "adv \<in> set localAdvisories"
    and "equalFold (cmpName c) (lvPackage adv)"
    and "parseVersion (cmpVersion c) < parseVersion (Vulnerable adv)"
  shows "\<exists>f \<in> set (Findings (fst (Assess post pf quote newID e p))).
    AssetRef f = BomRef c \<and> PolicyRuleId f = lvID adv"
proof -
  have "compareVersions (cmpVersion c) (Vulnerable adv) < 0"
    using assms(5) by (auto simp: compareVersions_def less_prod_def' split: prod.splits)
  with assms(3,4) have "adv \<in> set (localAdvisoryHits c)" by (simp add: localAdvisoryHits_def)
  from compCands_advisory [OF assms(1,2) this]
  have "advisoryFinding c (findEvidenceIDs p (BomRef c)) adv \<in>
      set (assessCands post pf quote (GetActiveProfile e) (osvClient e) p)"
    by (simp add: assessCands_def)
  from Assess_reported [OF this, of newID] show ?thesis
    by (auto simp: fkey_def advisoryFinding_def mkFinding_def)
qed

theorem vulnerable_package_reported_witness:
  "\<exists>f \<in> set (Findings (demo_assess demo_p)). PolicyRuleId f = ''CVE-2023-3446''"
proof -
  let ?c = "Components demo_p ! 0" and ?adv = "localAdvisories ! 2"
  have "?c \<in> set (Components demo_p)" by (rule nth_mem) code_simp
  moreover have "?adv \<in> set localAdvisories" by (rule nth_mem) code_simp
  moreover have "cmpVersion ?c \<noteq> []" by code_simp
  moreover have "equalFold (cmpName ?c) (lvPackage ?adv)" by code_simp
  moreover have "parseVersion (cmpVersion ?c) < parseVersion (Vulnerable ?adv)" by code_simp
  ultimately have "\<exists>f \<in> set (Findings (demo_assess demo_p)).
      AssetRef f = BomRef ?c \<and> PolicyRuleId f = lvID ?adv"
    unfolding demo_assess_def by (intro vulnerable_package_reported)
  moreover have "lvID ?adv = ''CVE-2023-3446''" by code_simp
  ultimately show ?thesis by auto
qed

text \<open>
  The engine always has its active profile: in every reachable engine the active version is a
  loaded profile with that version, so an assessment never runs with the zero profile, and the
  active profile cannot be removed.
\<close>

theorem active_profile_loaded:
  assumes "engine_reachable e"
  shows "profiles e (active e) = Some (GetActiveProfile e) \<and>
    Version (GetActiveProfile e) = active e \<and> fst (RemoveProfile (active e) e) \<noteq> None"
  using engine_reachable_inv [OF assms]
  by (auto simp: engine_inv_def GetActiveProfile_def RemoveProfile_def)

theorem active_profile_loaded_witness:
  "Version (GetActiveProfile (snd (SetActiveProfile ''x''
     (AddProfile (zeroProfile\<lparr>Version := ''x''\<rparr>) (LoadEngine None))))) = ''x''"
proof -
  let ?e = "snd (SetActiveProfile ''x'' (AddProfile (zeroProfile\<lparr>Version := ''x''\<rparr>) (LoadEngine None)))"
  have "engine_reachable ?e" by (intro er_set er_add er_load)
  then have "Version (GetActiveProfile ?e) = active ?e" using active_profile_loaded by blast
  also have "active ?e = ''x''" by code_simp
  finally show ?thesis .
qed

text \<open>
  A post-quantum signature is reported as classical. An algorithm named ML-DSA-65 in a signature
  role contains the text DSA, so the assessment marks it quantum-vulnerable and asks to migrate it
  to ML-DSA.
\<close>

theorem mldsa_reported_as_classical:
  "map PolicyRuleId (Findings (demo_assess (demo_payload
       [demo_component ''a.go'' [] [] [demo_alg ''ML-DSA-65'' ''ML-DSA'' CryptoRoleSignature 0]] []))) =
     [''JANUS-PQC-001''] \<and>
   map (map QuantumVulnerable \<circ> Algorithms) (Components (demo_assess (demo_payload
       [demo_component ''a.go'' [] [] [demo_alg ''ML-DSA-65'' ''ML-DSA'' CryptoRoleSignature 0]] []))) =
     [[True]]"
  by code_simp

text \<open>
  TLS 1.2 is not recognised under the name the agent reports. An endpoint observed as
  \<open>TLS1.2\<close> gets the TLS 1.3 finding, the same endpoint observed as \<open>TLSv1.2\<close> or
  \<open>TLSv1_2\<close> gets none.
\<close>

theorem tls12_spelling_missed:
  "map PolicyRuleId (Findings (demo_assess (demo_payload [] [demo_obs ''e'' ''TLS1.2'' ''MLKEM'' False]))) =
     [''JANUS-NET-002''] \<and>
   Findings (demo_assess (demo_payload [] [demo_obs ''e'' ''TLSv1.2'' ''MLKEM'' False])) = [] \<and>
   Findings (demo_assess (demo_payload [] [demo_obs ''e'' ''TLSv1_2'' ''MLKEM'' False])) = []"
  by code_simp

text \<open>
  The vulnerability cache answers for the right package. However a client was used, with
  versions free of the separator, a non-empty answer for a package is one that OSV.dev gave to a
  request for this package, ecosystem and version.
\<close>

theorem osv_answer_is_for_package:
  assumes "mapEcosystem ecosystem \<noteq> []" and "CHR ''@'' \<notin> set version" and "vulns \<noteq> []"
    and "\<forall>(e, n, v) \<in> set earlier. CHR ''@'' \<notin> set v"
    and "fst (QueryPackage post ecosystem name version
           (fold (\<lambda>(e, n, v) c. snd (QueryPackage post e n v c)) earlier (NewOSVClient True))) = vulns"
  shows "\<exists>k. post k \<lparr>qName = name, qEcosystem = mapEcosystem ecosystem, qVersion = version\<rparr> = Some vulns"
proof -
  have "cache_sound post c \<Longrightarrow> \<forall>(e, n, v) \<in> set xs. CHR ''@'' \<notin> set v \<Longrightarrow>
      cache_sound post (fold (\<lambda>(e, n, v) c. snd (QueryPackage post e n v c)) xs c)" for xs c
    by (induction xs arbitrary: c) (auto intro: QueryPackage_sound)
  from this [OF cache_sound_New assms(4)] have
    "cache_sound post (fold (\<lambda>(e, n, v) c. snd (QueryPackage post e n v c)) earlier (NewOSVClient True))" .
  from QueryPackage_answer [OF this assms(2,1,5,3)] show ?thesis by blast
qed

definition demo_vuln :: OSVVulnerability where
  "demo_vuln = \<lparr>osvID = ''V'', Summary = [], Details = [], osvSeverity = [], Affected = []\<rparr>"

theorem osv_answer_is_for_package_witness:
  "\<exists>k. (\<lambda>k q. if qName q = ''n'' then Some [demo_vuln] else Some []) (k :: nat)
     \<lparr>qName = ''n'', qEcosystem = mapEcosystem ''go'', qVersion = ''1''\<rparr> = Some [demo_vuln]"
  by (rule osv_answer_is_for_package [of _ _ _ "[(''go'', ''n'', ''1'')]"]) code_simp+

end
