(* ===== verification/Orchestrator.thy ===== *)
theory Orchestrator
  imports Codes
begin

text \<open>
  Migration commands: \<^verbatim>\<open>server/internal/orchestrator/orchestrator.go\<close>. The state is the
  per-host queue and the signing material; an HSM-resident MAC and an ML-DSA signer are functions
  that may fail, HMAC-SHA256 is the parameter \<open>hmac\<close>. A nil Go slice of a checklist is \<open>None\<close>
  (it marshals to \<open>null\<close>). The clock and the UUID generator are arguments.
\<close>

subsection \<open>Data\<close>

record MigrationCommand =
  CommandId :: string
  mcHostUuid :: string
  TargetService :: string
  mcMigrationProfile :: string
  TargetKem :: string
  TargetSignature :: string
  ConfigPath :: string
  ValidationChecklist :: "string list option"
  RollbackWindowSeconds :: nat
  PatchUnifiedDiff :: string
  SignedDirective :: string
  IssuedAtUnix :: int
  DryRun :: bool

record Orchestrator =
  queues :: "string \<rightharpoonup> MigrationCommand list"
  signingKey :: string
  hsmMAC :: "(string \<Rightarrow> string \<Rightarrow> string result) option"
  macLabel :: string
  mldsaSign :: "(string \<Rightarrow> string result) option"
  mldsaPub :: string
  mldsaCertDER :: "string option"

definition commandSigEnvelopeV1 :: string where
  "commandSigEnvelopeV1 = ''janus-sig-v1''"

definition commandSigEnvelopeV2 :: string where
  "commandSigEnvelopeV2 = ''janus-sig-v2''"

abbreviation nl :: char where "nl \<equiv> CHR 0x0A"

subsection \<open>Construction\<close>

definition newOrchestrator :: "string \<Rightarrow> Orchestrator" where
  "newOrchestrator key =
     \<lparr>queues = Map.empty, signingKey = key, hsmMAC = None, macLabel = [], mldsaSign = None,
      mldsaPub = [], mldsaCertDER = None\<rparr>"

definition UseHSMSigner :: "(string \<Rightarrow> string \<Rightarrow> string result) \<Rightarrow> string \<Rightarrow> Orchestrator \<Rightarrow> Orchestrator" where
  "UseHSMSigner mac label o' = o'\<lparr>hsmMAC := Some mac, macLabel := label, signingKey := []\<rparr>"

definition AddMLDSASigner :: "(string \<Rightarrow> string result) \<Rightarrow> string \<Rightarrow> Orchestrator \<Rightarrow> Orchestrator" where
  "AddMLDSASigner sign pub o' = o'\<lparr>mldsaSign := Some sign, mldsaPub := pub\<rparr>"

definition SetMLDSACommandCert :: "string option \<Rightarrow> Orchestrator \<Rightarrow> Orchestrator" where
  "SetMLDSACommandCert certDER o' = o'\<lparr>mldsaCertDER := certDER\<rparr>"

subsection \<open>Signing\<close>

definition marshalChecklist :: "string list option \<Rightarrow> string" where
  "marshalChecklist cl = (case cl of None \<Rightarrow> ''null'' | Some xs \<Rightarrow> jsonStrings xs)"

definition formatBool :: "bool \<Rightarrow> string" where
  "formatBool b = (if b then ''true'' else ''false'')"

definition canonicalCommand :: "MigrationCommand \<Rightarrow> string" where
  "canonicalCommand cmd =
     CommandId cmd @ nl # mcHostUuid cmd @ nl # TargetService cmd @ nl # mcMigrationProfile cmd @
     nl # TargetKem cmd @ nl # TargetSignature cmd @ nl # ConfigPath cmd @ nl #
     marshalChecklist (ValidationChecklist cmd) @ nl # decNat (RollbackWindowSeconds cmd) @ nl #
     PatchUnifiedDiff cmd @ nl # decInt (IssuedAtUnix cmd) @ nl # formatBool (DryRun cmd)"

definition hmacHex :: "(string \<Rightarrow> string \<Rightarrow> string) \<Rightarrow> Orchestrator \<Rightarrow> string \<Rightarrow> string result" where
  "hmacHex hmac o' canonical =
     (case hsmMAC o' of
        Some mac \<Rightarrow>
          (case mac (macLabel o') canonical of Inl e \<Rightarrow> Inl e | Inr raw \<Rightarrow> Inr (hexEncode raw))
      | None \<Rightarrow> Inr (hexEncode (hmac (signingKey o') canonical)))"

definition Sign :: "(string \<Rightarrow> string \<Rightarrow> string) \<Rightarrow> Orchestrator \<Rightarrow> MigrationCommand \<Rightarrow> string" where
  "Sign hmac o' cmd =
     (let canonical = canonicalCommand cmd in
      case hmacHex hmac o' canonical of
        Inl e \<Rightarrow> []
      | Inr hex \<Rightarrow>
          (case mldsaSign o' of
             None \<Rightarrow> hex
           | Some sign \<Rightarrow>
               (case sign canonical of
                  Inl e \<Rightarrow> []
                | Inr sig \<Rightarrow>
                    (case mldsaCertDER o' of
                       Some der \<Rightarrow>
                         joinWith [nl] [commandSigEnvelopeV2, hex, stdBase64 sig, stdBase64 der]
                     | None \<Rightarrow>
                         joinWith [nl] [commandSigEnvelopeV1, hex, stdBase64 sig, stdBase64 (mldsaPub o')]))))"

definition Verify :: "(string \<Rightarrow> string \<Rightarrow> string) \<Rightarrow> Orchestrator \<Rightarrow> MigrationCommand \<Rightarrow> bool" where
  "Verify hmac o' cmd =
     (case hmacHex hmac o' (canonicalCommand cmd) of
        Inl e \<Rightarrow> False
      | Inr expected \<Rightarrow>
          (let got = SignedDirective cmd in
           if hasPrefix got (commandSigEnvelopeV1 @ [nl]) \<or> hasPrefix got (commandSigEnvelopeV2 @ [nl])
           then (let parts = splitOn nl got
                 in if length parts < 2 then False else expected = parts ! 1)
           else expected = got))"

definition BuildCommand :: "(string \<Rightarrow> string \<Rightarrow> string) \<Rightarrow> string \<Rightarrow> int \<Rightarrow> Orchestrator \<Rightarrow> string
    \<Rightarrow> string \<Rightarrow> string \<Rightarrow> string \<Rightarrow> string \<Rightarrow> string \<Rightarrow> bool \<Rightarrow> string \<Rightarrow> string \<Rightarrow> MigrationCommand" where
  "BuildCommand hmac uuid now o' hostUUID service profile configPath patch checksum dryRun
     preferredKEM preferredSignature =
     (let kem = (if preferredKEM = [] then ''X25519MLKEM768'' else preferredKEM);
          sig = (if preferredSignature = [] then ''ML-DSA-65'' else preferredSignature);
          checklist = [''config-syntax'', ''daemon-reload'', ''tls13-handshake'', ''hybrid-mlkem-observed''];
          checklist' = (if checksum \<noteq> [] then checklist @ [''checksum='' @ checksum] else checklist);
          cmd = \<lparr>CommandId = uuid, mcHostUuid = hostUUID, TargetService = service,
                 mcMigrationProfile = profile, TargetKem = kem, TargetSignature = sig,
                 ConfigPath = configPath, ValidationChecklist = Some checklist',
                 RollbackWindowSeconds = 300, PatchUnifiedDiff = patch, SignedDirective = [],
                 IssuedAtUnix = now, DryRun = dryRun\<rparr>
      in cmd\<lparr>SignedDirective := Sign hmac o' cmd\<rparr>)"

subsection \<open>The queues\<close>

definition queueOf :: "Orchestrator \<Rightarrow> string \<Rightarrow> MigrationCommand list" where
  "queueOf o' host = (case queues o' host of None \<Rightarrow> [] | Some q \<Rightarrow> q)"

definition Enqueue :: "MigrationCommand \<Rightarrow> Orchestrator \<Rightarrow> Orchestrator" where
  "Enqueue cmd o' =
     o'\<lparr>queues := (queues o')(mcHostUuid cmd \<mapsto> queueOf o' (mcHostUuid cmd) @ [cmd])\<rparr>"

definition Drain :: "string \<Rightarrow> Orchestrator \<Rightarrow> MigrationCommand list \<times> Orchestrator" where
  "Drain hostUUID o' = (queueOf o' hostUUID, o'\<lparr>queues := (queues o')(hostUUID := None)\<rparr>)"

text \<open>
  A run of a mailbox: \<open>Inl m\<close> puts a message, \<open>Inr h\<close> takes the box of a host. The result is
  what every take returned, in order, and the state.
\<close>

fun mailRun :: "('m \<Rightarrow> 's \<Rightarrow> 's) \<Rightarrow> ('h \<Rightarrow> 's \<Rightarrow> 'm list \<times> 's) \<Rightarrow> ('m + 'h) list \<Rightarrow> 's
    \<Rightarrow> ('h \<times> 'm list) list \<times> 's" where
  "mailRun put tak [] s = ([], s)"
| "mailRun put tak (Inl m # es) s = mailRun put tak es (put m s)"
| "mailRun put tak (Inr h # es) s =
     map_prod (Cons (h, fst (tak h s))) id (mailRun put tak es (snd (tak h s)))"

definition sentTo :: "('m \<Rightarrow> 'h) \<Rightarrow> ('m + 'h) list \<Rightarrow> 'h \<Rightarrow> 'm list" where
  "sentTo owner es h =
     concat (map (\<lambda>e. case e of Inl m \<Rightarrow> if owner m = h then [m] else [] | Inr _ \<Rightarrow> []) es)"

definition receivedBy :: "('h \<times> 'm list) list \<Rightarrow> 'h \<Rightarrow> 'm list" where
  "receivedBy ds h = concat (map snd (filter (\<lambda>d. fst d = h) ds))"

text \<open>
  The contract of a mailbox: \<open>put\<close> appends to the owner's box, \<open>tak\<close> empties one box and
  returns what it held, other boxes keep their contents.
\<close>

locale mailbox =
  fixes put :: "'m \<Rightarrow> 's \<Rightarrow> 's" and tak :: "'h \<Rightarrow> 's \<Rightarrow> 'm list \<times> 's"
    and box :: "'s \<Rightarrow> 'h \<Rightarrow> 'm list" and owner :: "'m \<Rightarrow> 'h"
  assumes box_put: "box (put m s) h = box s h @ (if owner m = h then [m] else [])"
    and tak_fst: "fst (tak h s) = box s h"
    and box_tak: "box (snd (tak h s)) h' = (if h' = h then [] else box s h')"
begin

lemma fifo_once:
  "receivedBy (fst (mailRun put tak es s)) h @ box (snd (mailRun put tak es s)) h =
     box s h @ sentTo owner es h"
proof (induction es arbitrary: s)
  case (Cons e es)
  show ?case
  proof (cases e)
    case (Inl m)
    with Cons [of "put m s"] show ?thesis by (simp add: box_put sentTo_def)
  next
    case (Inr h')
    with Cons [of "snd (tak h' s)"] show ?thesis
      by (auto simp: tak_fst box_tak sentTo_def receivedBy_def split: if_splits)
  qed
qed (simp add: sentTo_def receivedBy_def)

end

interpretation orch_box: mailbox Enqueue Drain queueOf mcHostUuid
  by unfold_locales (auto simp: Enqueue_def Drain_def queueOf_def)

subsection \<open>What is signed\<close>

lemma canonical_frame [simp]:
  "canonicalCommand (cmd\<lparr>SignedDirective := d\<rparr>) = canonicalCommand cmd"
  by (simp add: canonicalCommand_def)



lemma marshalChecklist_inj [simp]: "marshalChecklist a = marshalChecklist b \<longleftrightarrow> a = b"
  by (cases a; cases b; auto simp: marshalChecklist_def jsonStrings_inj) (auto simp: jsonStrings_def)


lemma formatBool_inj [simp]: "formatBool a = formatBool b \<longleftrightarrow> a = b"
  by (simp add: formatBool_def)



subsection \<open>What verification reads\<close>

lemma hmacHex_line: "hmacHex hmac o' m = Inr h \<Longrightarrow> nl \<notin> set h \<and> (\<exists>raw. h = hexEncode raw)"
proof -
  have "\<not> isHexDigit nl" by code_simp
  then show "hmacHex hmac o' m = Inr h \<Longrightarrow> nl \<notin> set h \<and> (\<exists>raw. h = hexEncode raw)"
    by (auto simp: hmacHex_def hexEncode_free split: option.splits sum.splits)
qed

text \<open>The tag that \<open>Verify\<close> compares with.\<close>

definition presentedTag :: "string \<Rightarrow> string" where
  "presentedTag got =
     (if hasPrefix got (commandSigEnvelopeV1 @ [nl]) \<or> hasPrefix got (commandSigEnvelopeV2 @ [nl])
      then splitOn nl got ! 1 else got)"

lemma splitOn_two: "c \<in> set s \<Longrightarrow> 2 \<le> length (splitOn c s)"
  by (induction s) (auto split: list.splits)

lemma Verify_tag:
  "Verify hmac o' cmd \<longleftrightarrow> hmacHex hmac o' (canonicalCommand cmd) = Inr (presentedTag (SignedDirective cmd))"
proof -
  have "hasPrefix got (p @ [nl]) \<Longrightarrow> \<not> length (splitOn nl got) < 2" for got p
    using splitOn_two [of nl got] by (auto simp: hasPrefix_def prefix_def)
  then show ?thesis
    by (auto simp: Verify_def presentedTag_def Let_def split: sum.split)
qed

lemma presentedTag_hex: "presentedTag (hexEncode raw) = hexEncode raw"
proof -
  have "\<not> isHexDigit (CHR ''j'')" by code_simp
  then have "\<not> hasPrefix (hexEncode raw) (CHR ''j'' # p)" for p
    using hexEncode_free [of "CHR ''j''" raw] by (auto simp: hasPrefix_def prefix_def)
  then show ?thesis
    by (simp add: presentedTag_def commandSigEnvelopeV1_def commandSigEnvelopeV2_def)
qed

lemma presentedTag_envelope:
  assumes "v = commandSigEnvelopeV1 \<or> v = commandSigEnvelopeV2" and "nl \<notin> set h"
  shows "presentedTag (joinWith [nl] [v, h, x, y]) = h"
proof -
  have v: "nl \<notin> set v" using assms(1) by (auto simp: commandSigEnvelopeV1_def commandSigEnvelopeV2_def)
  have "hasPrefix (joinWith [nl] [v, h, x, y]) (v @ [nl])" by (simp add: hasPrefix_def)
  moreover have "splitOn nl (joinWith [nl] [v, h, x, y]) ! 1 = h"
    by (simp add: splitOn_free_append v assms(2))
  ultimately show ?thesis using assms(1) by (auto simp: presentedTag_def)
qed

text \<open>A directive that was signed carries the tag of the command.\<close>

definition signersOk :: "(string \<Rightarrow> string \<Rightarrow> string) \<Rightarrow> Orchestrator \<Rightarrow> MigrationCommand \<Rightarrow> bool" where
  "signersOk hmac o' cmd \<longleftrightarrow>
     (\<exists>h. hmacHex hmac o' (canonicalCommand cmd) = Inr h) \<and>
     (case mldsaSign o' of None \<Rightarrow> True | Some sign \<Rightarrow> \<exists>sig. sign (canonicalCommand cmd) = Inr sig)"

lemma Sign_tag:
  "signersOk hmac o' cmd \<Longrightarrow> hmacHex hmac o' (canonicalCommand cmd) = Inr (presentedTag (Sign hmac o' cmd))"
proof -
  assume ok: "signersOk hmac o' cmd"
  then obtain h where h: "hmacHex hmac o' (canonicalCommand cmd) = Inr h"
    by (auto simp: signersOk_def)
  from hmacHex_line [OF h] have "nl \<notin> set h" and "presentedTag h = h"
    by (auto simp: presentedTag_hex)
  with ok h show ?thesis
    by (auto simp: signersOk_def Sign_def presentedTag_envelope simp del: joinWith.simps
        split: option.splits)
qed

lemma Sign_fails: "\<not> signersOk hmac o' cmd \<Longrightarrow> Sign hmac o' cmd = []"
  by (auto simp: signersOk_def Sign_def Let_def split: option.splits sum.splits)


lemma presentedTag_Nil: "presentedTag [] = []"
  by (simp add: presentedTag_def hasPrefix_def)

subsection \<open>Properties\<close>

definition demo_command :: "string \<Rightarrow> MigrationCommand" where
  "demo_command path =
     \<lparr>CommandId = ''c'', mcHostUuid = ''h'', TargetService = ''nginx'', mcMigrationProfile = ''p'',
      TargetKem = ''k'', TargetSignature = ''s'', ConfigPath = path,
      ValidationChecklist = Some [''x''], RollbackWindowSeconds = 300, PatchUnifiedDiff = [],
      SignedDirective = [], IssuedAtUnix = 7, DryRun = False\<rparr>"

text \<open>
  C16: Signed commands verify, unsigned ones do not. For every signing set-up (in-process or HSM
  key, with or without ML-DSA, either envelope), provided a MAC is never empty, a command carrying
  the directive that \<open>Sign\<close> produced is accepted by \<open>Verify\<close> exactly when every configured
  signer answered; when one fails the directive is empty and is refused.
\<close>

theorem sign_then_verify:
  assumes "\<forall>k m. hmac k m \<noteq> []" and "\<forall>mac l m. hsmMAC o' = Some mac \<longrightarrow> mac l m \<noteq> Inr []"
  shows "Verify hmac o' (cmd\<lparr>SignedDirective := Sign hmac o' cmd\<rparr>) \<longleftrightarrow>
    (\<exists>h. hmacHex hmac o' (canonicalCommand cmd) = Inr h) \<and>
    (case mldsaSign o' of None \<Rightarrow> True | Some sign \<Rightarrow> \<exists>sig. sign (canonicalCommand cmd) = Inr sig)"
proof (cases "signersOk hmac o' cmd")
  case True
  with Sign_tag [OF True] show ?thesis by (simp add: Verify_tag signersOk_def)
next
  case False
  have "hexEncode raw = [] \<longleftrightarrow> raw = []" for raw by (cases raw) simp_all
  then have "hmacHex hmac o' m \<noteq> Inr []" for m
    using assms by (auto simp: hmacHex_def split: option.splits sum.splits)
  with False show ?thesis
    by (simp add: Verify_tag Sign_fails presentedTag_Nil) (simp add: signersOk_def)
qed

theorem sign_then_verify_witness:
  "Verify (\<lambda>k m. ''t'') (newOrchestrator ''k'')
     ((demo_command ''f'')\<lparr>SignedDirective := Sign (\<lambda>k m. ''t'') (newOrchestrator ''k'') (demo_command ''f'')\<rparr>)"
  by (subst sign_then_verify) (simp_all add: newOrchestrator_def hmacHex_def)



text \<open>
  The joined text does not separate fields that contain line breaks: two commands for different
  hosts can have the same signed text, so one directive is accepted for both.
\<close>

theorem directive_shared_across_hosts:
  "let a = (demo_command ''f'')\<lparr>CommandId := [CHR ''c'', nl, CHR ''i''], mcHostUuid := ''h''\<rparr>;
       b = (demo_command ''f'')\<lparr>CommandId := ''c'', mcHostUuid := [CHR ''i'', nl, CHR ''h'']\<rparr>
   in mcHostUuid a \<noteq> mcHostUuid b \<and> canonicalCommand a = canonicalCommand b \<and>
      Sign hmac o' a = Sign hmac o' b"
proof -
  let ?a = "(demo_command ''f'')\<lparr>CommandId := [CHR ''c'', nl, CHR ''i''], mcHostUuid := ''h''\<rparr>"
  let ?b = "(demo_command ''f'')\<lparr>CommandId := ''c'', mcHostUuid := [CHR ''i'', nl, CHR ''h'']\<rparr>"
  have eq: "canonicalCommand ?a = canonicalCommand ?b"
    by (simp add: demo_command_def canonicalCommand_def)
  have "Sign hmac o' ?a = Sign hmac o' ?b" unfolding Sign_def eq ..
  with eq show ?thesis by (simp add: Let_def)
qed

text \<open>
  C6: Every command is delivered once and in order. Over any sequence of enqueues and drains, what
  a host received followed by what still waits for it is exactly what waited before followed by
  what was enqueued for it.
\<close>

theorem commands_delivered_once:
  "receivedBy (fst (mailRun Enqueue Drain es o')) host @ queueOf (snd (mailRun Enqueue Drain es o')) host =
     queueOf o' host @ sentTo mcHostUuid es host"
  by (rule orch_box.fifo_once)

end
