(* ===== verification/AgentAuth.thy ===== *)
theory AgentAuth
  imports Codes Tables
begin

text \<open>
  Per-agent authentication: \<^verbatim>\<open>server/internal/agentauth/agentauth.go\<close>, the request and metadata
  verifiers of \<^verbatim>\<open>httpapi/auth.go\<close> and \<^verbatim>\<open>grpcserver/agent_auth.go\<close>, and the table
  \<open>agent_credentials\<close> of \<^verbatim>\<open>store/store.go\<close>. HMAC-SHA256 and the HKDF reader are parameters
  (\<open>hkdf\<close> yields \<open>None\<close> when the reader fails). Times are Unix seconds as 64-bit words, as the
  subtraction of the freshness check wraps.
\<close>

subsection \<open>Tokens\<close>

definition DeriveKey :: "(string \<Rightarrow> string \<Rightarrow> string option) \<Rightarrow> string \<Rightarrow> string \<Rightarrow> string result" where
  "DeriveKey hkdf master agentID =
     (if master = [] \<or> agentID = [] then Inl ''agentauth: master key and agent id are required''
      else case hkdf master (''janus-agent-key:'' @ agentID) of
             None \<Rightarrow> Inl ''hkdf''
           | Some key \<Rightarrow> Inr key)"

definition tokenText :: "string \<Rightarrow> string \<Rightarrow> string \<Rightarrow> 64 word \<Rightarrow> string" where
  "tokenText agentID method path ts =
     agentID @ CHR 0x0A # method @ CHR 0x0A # path @ CHR 0x0A # decInt (sint ts)"

definition Token :: "(string \<Rightarrow> string \<Rightarrow> string) \<Rightarrow> string \<Rightarrow> string \<Rightarrow> string \<Rightarrow> string \<Rightarrow> 64 word
    \<Rightarrow> string" where
  "Token hmac key agentID method path ts = hexEncode (hmac key (tokenText agentID method path ts))"

definition VerifyAgentToken :: "(string \<Rightarrow> string \<Rightarrow> string) \<Rightarrow> string \<Rightarrow> string \<Rightarrow> string \<Rightarrow> string
    \<Rightarrow> 64 word \<Rightarrow> 64 word \<Rightarrow> 64 word \<Rightarrow> string \<Rightarrow> bool" where
  "VerifyAgentToken hmac key agentID method path ts now window token =
     (if 0 <s window \<and> (window <s now - ts \<or> now - ts <s - window) then False
      else Token hmac key agentID method path ts = token)"

interpretation agent_token: tag_scheme
    "\<lambda>key (agentID, method, path, ts). Token hmac key agentID method path ts"
    "\<lambda>key (agentID, method, path, ts) t. VerifyAgentToken hmac key agentID method path ts now 0 t"
    for hmac now
  by unfold_locales (auto simp: VerifyAgentToken_def)

text \<open>The freshness test does not overflow for a present clock and a sane window.\<close>

lemma fresh_iff:
  fixes ts now window :: "64 word"
  assumes "0 \<le> sint now" and "sint now < 2 ^ 62" and "0 < sint window" and "sint window < 2 ^ 62"
  shows "\<not> (window <s now - ts \<or> now - ts <s - window) \<longleftrightarrow> \<bar>sint now - sint ts\<bar> \<le> sint window"
proof -
  define d where "d = sint now - sint ts"
  have ts: "- (2 ^ 63) \<le> sint ts" "sint ts < 2 ^ 63"
    using sint_range_size [of ts] by (simp_all add: word_size)
  have wrap: "sint (x - y) = (sint x - sint y + 2 ^ 63) mod 2 ^ 64 - 2 ^ 63" for x y :: "64 word"
    by (simp add: sint_word_ariths signed_take_bit_eq_take_bit_shift take_bit_eq_mod)
  have "sint (- window) = - sint window"
    using wrap [of 0 window] assms(3,4) by (simp add: mod_pos_pos_trivial)
  moreover have "sint (now - ts) = (d + 2 ^ 63) mod 2 ^ 64 - 2 ^ 63"
    by (simp only: wrap d_def)
  moreover have "(d + 2 ^ 63) mod 2 ^ 64 = (if d < 2 ^ 63 then d + 2 ^ 63 else d - 2 ^ 63)"
  proof (cases "d < 2 ^ 63")
    case True
    then show ?thesis using ts assms(1) by (simp add: d_def mod_pos_pos_trivial)
  next
    case False
    have "(d + 2 ^ 63) mod 2 ^ 64 = (d - 2 ^ 63) mod 2 ^ 64"
      using mod_add_self2 [of "d - 2 ^ 63" "2 ^ 64 :: int"] by (simp add: add.commute)
    also have "\<dots> = d - 2 ^ 63" using False ts assms(2) by (simp add: d_def mod_pos_pos_trivial)
    finally show ?thesis using False by simp
  qed
  moreover have "d < 2 ^ 62 + 2 ^ 63" using ts assms(2) by (simp add: d_def)
  ultimately show ?thesis
    using ts assms by (auto simp: word_sless_alt d_def [symmetric] split: if_splits)
qed

subsection \<open>Credentials\<close>

record AgentCredential =
  acAgentID :: string
  acHostUUID :: string
  KeyMode :: string
  KeyEnc :: string
  acStatus :: string
  acLabel :: string
  acTenantID :: string
  EnrolledBy :: string
  EnrolledAt :: int
  LastAuthAt :: "int option"
  RevokedAt :: "int option"
  RevokedReason :: string

text \<open>The table and the error a statement would meet.\<close>

record CredDB =
  credRows :: "AgentCredential list"
  credFault :: goerror

definition GetAgentCredential :: "string \<Rightarrow> CredDB \<Rightarrow> AgentCredential result" where
  "GetAgentCredential agentID db =
     (case credFault db of
        Some e \<Rightarrow> Inl e
      | None \<Rightarrow> (case tblFind acAgentID agentID (credRows db) of
                   None \<Rightarrow> Inl ''no rows in result set''
                 | Some c \<Rightarrow> Inr c))"

definition defaultTo :: "string \<Rightarrow> string \<Rightarrow> string" where
  "defaultTo d s = (if s = [] then d else s)"

definition enrollColumns :: "AgentCredential \<Rightarrow> AgentCredential \<Rightarrow> AgentCredential" where
  "enrollColumns c r =
     r\<lparr>acHostUUID := acHostUUID c, KeyMode := KeyMode c, KeyEnc := KeyEnc c, acStatus := acStatus c,
       acLabel := acLabel c, acTenantID := acTenantID c, EnrolledBy := EnrolledBy c\<rparr>"

definition UpsertAgentCredential :: "int \<Rightarrow> AgentCredential \<Rightarrow> CredDB \<Rightarrow> goerror \<times> CredDB" where
  "UpsertAgentCredential now c0 db =
     (if acAgentID c0 = [] then (Some ''agent_id is required'', db)
      else
        (let c = c0\<lparr>KeyMode := defaultTo ''derived'' (KeyMode c0),
                    acStatus := defaultTo ''active'' (acStatus c0),
                    acTenantID := defaultTo ''default'' (acTenantID c0)\<rparr>
         in case credFault db of
              Some e \<Rightarrow> (Some e, db)
            | None \<Rightarrow> (None, db\<lparr>credRows :=
                tblUpsert acAgentID (c\<lparr>EnrolledAt := now, LastAuthAt := None, RevokedAt := None,
                                       RevokedReason := []\<rparr>) (enrollColumns c) (credRows db)\<rparr>)))"

definition statusColumns :: "int \<Rightarrow> string \<Rightarrow> string \<Rightarrow> AgentCredential \<Rightarrow> AgentCredential" where
  "statusColumns now status reason r =
     r\<lparr>acStatus := status, RevokedAt := (if status = ''revoked'' then Some now else None),
       RevokedReason := (if status = ''revoked'' then reason else [])\<rparr>"

definition SetAgentCredentialStatus :: "int \<Rightarrow> string \<Rightarrow> string \<Rightarrow> string \<Rightarrow> CredDB \<Rightarrow> goerror \<times> CredDB" where
  "SetAgentCredentialStatus now agentID status reason db =
     (case credFault db of
        Some e \<Rightarrow> (Some e, db)
      | None \<Rightarrow> (None, db\<lparr>credRows :=
                   tblUpdate acAgentID agentID (statusColumns now status reason) (credRows db)\<rparr>))"

definition TouchAgentCredential :: "int \<Rightarrow> string \<Rightarrow> CredDB \<Rightarrow> goerror \<times> CredDB" where
  "TouchAgentCredential now agentID db =
     (case credFault db of
        Some e \<Rightarrow> (Some e, db)
      | None \<Rightarrow> (None, db\<lparr>credRows :=
                   tblUpdate acAgentID agentID (\<lambda>r. r\<lparr>LastAuthAt := Some now\<rparr>) (credRows db)\<rparr>))"

interpretation cred_status: keyed_update acAgentID "statusColumns now status reason"
    for now status reason
  by unfold_locales (simp add: statusColumns_def)

interpretation cred_enroll: keyed_update acAgentID "enrollColumns c" for c
  by unfold_locales (simp add: enrollColumns_def)

interpretation cred_touch: keyed_update acAgentID "\<lambda>r. r\<lparr>LastAuthAt := Some now\<rparr>" for now
  by unfold_locales simp

subsection \<open>Verifying requests\<close>

text \<open>What the verifiers read of a request: the three headers, method, path and the
  \<open>host_uuid\<close> of the query.\<close>

record AgentRequest =
  hdrAgentId :: string
  hdrAgentTs :: string
  hdrAgentAuth :: string
  rqMethod :: string
  rqPath :: string
  rqHostUuid :: string

definition agentKey :: "(string \<Rightarrow> string \<Rightarrow> string option) \<Rightarrow> string \<Rightarrow> string \<Rightarrow> CredDB
    \<Rightarrow> string option" where
  "agentKey hkdf master agentID db =
     (case GetAgentCredential agentID db of
        Inl e \<Rightarrow> None
      | Inr cred \<Rightarrow>
          if acStatus cred \<noteq> ''active'' then None
          else if KeyMode cred \<noteq> ''derived'' \<and> KeyMode cred \<noteq> [] then None
          else (case DeriveKey hkdf master agentID of Inl e \<Rightarrow> None | Inr key \<Rightarrow> Some key))"

definition verifyAgentToken :: "(string \<Rightarrow> string \<Rightarrow> string) \<Rightarrow> (string \<Rightarrow> string \<Rightarrow> string option)
    \<Rightarrow> string \<Rightarrow> 64 word \<Rightarrow> 64 word \<Rightarrow> string \<Rightarrow> string \<Rightarrow> AgentRequest \<Rightarrow> CredDB \<Rightarrow> bool \<times> CredDB" where
  "verifyAgentToken hmac hkdf master window now method path r db =
     (if hdrAgentId r = [] \<or> hdrAgentTs r = [] \<or> hdrAgentAuth r = [] then (False, db)
      else case parseInt64 (hdrAgentTs r) of
             None \<Rightarrow> (False, db)
           | Some ts \<Rightarrow>
               (case agentKey hkdf master (hdrAgentId r) db of
                  None \<Rightarrow> (False, db)
                | Some key \<Rightarrow>
                    if \<not> VerifyAgentToken hmac key (hdrAgentId r) method path (word_of_int ts) now window
                           (hdrAgentAuth r)
                    then (False, db)
                    else (True, snd (TouchAgentCredential (sint now) (hdrAgentId r) db))))"

definition verifyAgentRequest :: "(string \<Rightarrow> string \<Rightarrow> string) \<Rightarrow> (string \<Rightarrow> string \<Rightarrow> string option)
    \<Rightarrow> string \<Rightarrow> 64 word \<Rightarrow> 64 word \<Rightarrow> AgentRequest \<Rightarrow> CredDB \<Rightarrow> bool \<times> CredDB" where
  "verifyAgentRequest hmac hkdf master window now r db =
     verifyAgentToken hmac hkdf master window now (rqMethod r) (rqPath r) r db"

definition GRPCMethod :: string where "GRPCMethod = ''GRPC''"
definition GRPCPath :: string where "GRPCPath = ''janus.telemetry''"

text \<open>\<open>None\<close>: no metadata in the call.\<close>

definition verifyAgentMD :: "(string \<Rightarrow> string \<Rightarrow> string) \<Rightarrow> (string \<Rightarrow> string \<Rightarrow> string option)
    \<Rightarrow> string \<Rightarrow> 64 word \<Rightarrow> 64 word \<Rightarrow> AgentRequest option \<Rightarrow> CredDB \<Rightarrow> bool \<times> CredDB" where
  "verifyAgentMD hmac hkdf master window now md db =
     (case md of
        None \<Rightarrow> (False, db)
      | Some r \<Rightarrow> verifyAgentToken hmac hkdf master window now GRPCMethod GRPCPath r db)"

lemma sint_parsed: "parseInt64 s = Some i \<Longrightarrow> sint (word_of_int i :: 64 word) = i"
  using parseInt64_range [of s i]
  by (simp add: sint_uint unsigned_of_int signed_take_bit_eq_take_bit_shift take_bit_eq_mod
      mod_simps mod_pos_pos_trivial)

lemma agentKey_Some:
  "agentKey hkdf master agentID db = Some key \<Longrightarrow>
   (\<exists>c \<in> set (credRows db). acAgentID c = agentID \<and> acStatus c = ''active'') \<and>
   DeriveKey hkdf master agentID = Inr key"
  by (auto simp: agentKey_def GetAgentCredential_def dest!: tblFind_Some
      split: sum.splits option.splits if_splits)

lemma agentKey_inactive:
  assumes "tblFind acAgentID agentID (credRows db) = Some c" and "acStatus c \<noteq> ''active''"
  shows "agentKey hkdf master agentID db = None"
  using assms by (simp add: agentKey_def GetAgentCredential_def split: option.split)

lemma verifyAgentToken_accepts:
  "fst (verifyAgentToken hmac hkdf master window now method path r db) \<longleftrightarrow>
     hdrAgentId r \<noteq> [] \<and> hdrAgentTs r \<noteq> [] \<and> hdrAgentAuth r \<noteq> [] \<and>
     (\<exists>ts key. parseInt64 (hdrAgentTs r) = Some ts \<and>
        agentKey hkdf master (hdrAgentId r) db = Some key \<and>
        VerifyAgentToken hmac key (hdrAgentId r) method path (word_of_int ts) now window (hdrAgentAuth r))"
  by (auto simp: verifyAgentToken_def split: option.splits)

subsection \<open>Properties\<close>

definition demo_credential :: AgentCredential where
  "demo_credential =
     \<lparr>acAgentID = ''a'', acHostUUID = ''h'', KeyMode = ''derived'', KeyEnc = [], acStatus = ''active'',
      acLabel = [], acTenantID = ''default'', EnrolledBy = [], EnrolledAt = 0, LastAuthAt = None,
      RevokedAt = None, RevokedReason = []\<rparr>"

definition demo_hmac :: "string \<Rightarrow> string \<Rightarrow> string" where
  "demo_hmac k m = k @ m"

definition demo_hkdf :: "string \<Rightarrow> string \<Rightarrow> string option" where
  "demo_hkdf master info = Some (master @ info)"

definition demo_request :: "string \<Rightarrow> AgentRequest" where
  "demo_request host =
     \<lparr>hdrAgentId = ''a'', hdrAgentTs = ''95'',
      hdrAgentAuth = Token demo_hmac ''mjanus-agent-key:a'' ''a'' ''GET'' ''/c'' 95,
      rqMethod = ''GET'', rqPath = ''/c'', rqHostUuid = host\<rparr>"

definition demo_creds :: CredDB where
  "demo_creds = \<lparr>credRows = [demo_credential], credFault = None\<rparr>"

text \<open>
  C15: An accepted agent request is authentic and fresh. For a present clock and a window below
  \<open>2 ^ 62\<close> seconds, a request that the HTTP verifier accepts names an agent with an active
  credential, carries the token of that agent's derived key for this method, path and timestamp,
  and its timestamp is within the window of the clock, without wrap-around.
\<close>

theorem agent_request_authentic:
  assumes "fst (verifyAgentRequest hmac hkdf master window now r db)"
    and "0 \<le> sint now" and "sint now < 2 ^ 62" and "0 < sint window" and "sint window < 2 ^ 62"
  shows "\<exists>ts key. parseInt64 (hdrAgentTs r) = Some ts \<and> \<bar>sint now - ts\<bar> \<le> sint window \<and>
    DeriveKey hkdf master (hdrAgentId r) = Inr key \<and>
    hdrAgentAuth r = Token hmac key (hdrAgentId r) (rqMethod r) (rqPath r) (word_of_int ts) \<and>
    (\<exists>c \<in> set (credRows db). acAgentID c = hdrAgentId r \<and> acStatus c = ''active'')"
proof -
  from assms(1) obtain ts key where ts: "parseInt64 (hdrAgentTs r) = Some ts"
    and key: "agentKey hkdf master (hdrAgentId r) db = Some key"
    and tok: "VerifyAgentToken hmac key (hdrAgentId r) (rqMethod r) (rqPath r) (word_of_int ts)
        now window (hdrAgentAuth r)"
    by (auto simp: verifyAgentRequest_def verifyAgentToken_accepts)
  from tok assms(4) have "\<not> (window <s now - word_of_int ts \<or> now - word_of_int ts <s - window)"
    and eq: "hdrAgentAuth r = Token hmac key (hdrAgentId r) (rqMethod r) (rqPath r) (word_of_int ts)"
    by (auto simp: VerifyAgentToken_def word_sless_alt split: if_splits)
  then have "\<bar>sint now - ts\<bar> \<le> sint window"
    using fresh_iff [OF assms(2-5), of "word_of_int ts"] by (simp add: sint_parsed [OF ts])
  with ts eq agentKey_Some [OF key] show ?thesis by blast
qed

theorem agent_request_authentic_witness:
  "\<exists>c \<in> set (credRows demo_creds). acAgentID c = ''a'' \<and> acStatus c = ''active''"
proof -
  have "fst (verifyAgentRequest demo_hmac demo_hkdf ''m'' 10 100 (demo_request ''h'') demo_creds)"
    by code_simp
  moreover have "0 \<le> sint (100 :: 64 word)" "sint (100 :: 64 word) < 2 ^ 62"
    "0 < sint (10 :: 64 word)" "sint (10 :: 64 word) < 2 ^ 62" by simp_all
  ultimately show ?thesis
    using agent_request_authentic [of demo_hmac demo_hkdf "''m''" 10 100 "demo_request ''h''" demo_creds]
    by (auto simp: demo_request_def)
qed

text \<open>
  C5: Revocation takes effect at once. After the status of an agent's credential is set to anything
  but active, no request and no call of that agent is accepted, whatever token it carries.
\<close>

theorem revoked_agent_refused:
  assumes "keyUnique acAgentID (credRows db)" and "status \<noteq> ''active''"
    and "SetAgentCredentialStatus t agentID status reason db = (None, db')" and "hdrAgentId r = agentID"
  shows "\<not> fst (verifyAgentRequest hmac hkdf master window now r db') \<and>
         \<not> fst (verifyAgentMD hmac hkdf master window now (Some r) db')"
proof -
  have db': "db' = db\<lparr>credRows := tblUpdate acAgentID agentID (statusColumns t status reason) (credRows db)\<rparr>"
    using assms(3) by (auto simp: SetAgentCredentialStatus_def split: option.splits)
  have "agentKey hkdf master agentID db' = None"
  proof (cases "tblFind acAgentID agentID (credRows db)")
    case None
    then have "tblFind acAgentID agentID (credRows db') = None"
      unfolding db' by (simp add: cred_status.keys)
    then show ?thesis
      by (cases "credFault db'") (auto simp: agentKey_def GetAgentCredential_def simp del: tblFind_None)
  next
    case (Some c)
    then have "tblFind acAgentID agentID (credRows db') = Some (statusColumns t status reason c)"
      unfolding db' by (simp add: cred_status.find_same)
    then show ?thesis by (rule agentKey_inactive) (simp add: statusColumns_def assms(2))
  qed
  then show ?thesis
    by (simp add: verifyAgentRequest_def verifyAgentMD_def verifyAgentToken_accepts assms(4))
qed

theorem revoked_agent_refused_witness:
  "\<not> fst (verifyAgentRequest demo_hmac demo_hkdf ''m'' 10 100 (demo_request ''h'')
      (snd (SetAgentCredentialStatus 1 ''a'' ''revoked'' ''lost'' demo_creds)))"
proof -
  have "keyUnique acAgentID (credRows demo_creds)" by (simp add: demo_creds_def keyUnique_def)
  moreover have "SetAgentCredentialStatus 1 ''a'' ''revoked'' ''lost'' demo_creds =
      (None, snd (SetAgentCredentialStatus 1 ''a'' ''revoked'' ''lost'' demo_creds))"
    by (simp add: SetAgentCredentialStatus_def demo_creds_def)
  moreover have "hdrAgentId (demo_request ''h'') = ''a''" by (simp add: demo_request_def)
  ultimately show ?thesis by (intro conjunct1 [OF revoked_agent_refused]) simp_all
qed

text \<open>
  The token does not bind the host. The HTTP verifier does not read the \<open>host_uuid\<close> of the
  query: a token accepted for one host is accepted with any other host's identifier.
\<close>

theorem agent_token_ignores_host:
  "verifyAgentRequest hmac hkdf master window now (r\<lparr>rqHostUuid := host\<rparr>) db =
   verifyAgentRequest hmac hkdf master window now r db"
  by (cases r) (simp add: verifyAgentRequest_def verifyAgentToken_def cong: option.case_cong if_cong)

text \<open>
  Enrolling again over a revoked credential reactivates it and leaves the revocation stamp, so
  the row says both active and revoked.
\<close>

theorem reenroll_keeps_revocation_stamp:
  "let db1 = snd (SetAgentCredentialStatus 5 ''a'' ''revoked'' ''lost'' demo_creds);
       db2 = snd (UpsertAgentCredential 6 (demo_credential\<lparr>acStatus := []\<rparr>) db1)
   in map (\<lambda>c. (acStatus c, RevokedAt c, RevokedReason c)) (credRows db2) =
        [(''active'', Some 5, ''lost'')]"
  by code_simp

end
