(* ===== verification/PatchGuard.thy ===== *)
theory PatchGuard
  imports GoLib
begin

text \<open>
  The deterministic checks on a candidate patch: \<^verbatim>\<open>server/internal/llm/remediation_validate.go\<close>
  and \<^verbatim>\<open>patch_target.go\<close>. \<open>None\<close> is a nil error. The error texts that quote a path carry the
  path itself.
\<close>

subsection \<open>Validation\<close>

definition maxPatchBytes :: nat where "maxPatchBytes = 4096"

definition patchHeaderPath :: "string \<Rightarrow> string" where
  "patchHeaderPath body = uptoByte (CHR 0x09) (trimSpace body)"

definition checkPatchPath :: "string \<Rightarrow> goerror" where
  "checkPatchPath p0 =
     (if p0 = ''/dev/null'' then None
      else
        (let p = trimPrefix (trimPrefix p0 ''a/'') ''b/'' in
         if p = [] then Some ''candidate_patch has an empty file path''
         else if hasPrefix p ''/'' \<or> hasPrefix p ''~''
         then Some (''candidate_patch targets a non-relative path '' @ p)
         else if list_ex (\<lambda>seg. seg = ''..'') (splitOn (CHR ''/'') p)
         then Some (''candidate_patch path '' @ p @ '' escapes the working tree'')
         else None))"

text \<open>The loop over the lines: the flag is \<open>hasHunk\<close>.\<close>

fun checkLines :: "bool \<Rightarrow> string list \<Rightarrow> goerror" where
  "checkLines hasHunk [] =
     (if hasHunk then None
      else Some ''candidate_patch is not a valid unified diff (no @@ hunk header)'')"
| "checkLines hasHunk (line # ls) =
     (if hasPrefix line ''@@'' then checkLines True ls
      else if hasPrefix line ''--- '' \<or> hasPrefix line ''+++ ''
      then (case checkPatchPath (patchHeaderPath (drop 4 line)) of
              Some e \<Rightarrow> Some e
            | None \<Rightarrow> checkLines hasHunk ls)
      else checkLines hasHunk ls)"

definition ValidatePatch :: "string \<Rightarrow> goerror" where
  "ValidatePatch patch =
     (if patch = [] then None
      else if maxPatchBytes < length patch then Some ''candidate_patch exceeds 4096 byte limit''
      else if CHR 0x00 \<in> set patch then Some ''candidate_patch contains NUL bytes''
      else checkLines False (splitOn (CHR 0x0A) patch))"

subsection \<open>The target\<close>

definition agentAllowedExtensions :: "string list" where
  "agentAllowedExtensions =
     [''conf'', ''config'', ''cnf'', ''json'', ''toml'', ''yaml'', ''yml'', ''xml'', ''ini'', ''properties'']"

definition agentAllowedNoExtNames :: "string list" where
  "agentAllowedNoExtNames = [''sshd_config'', ''ssh_config'']"

fun targetOf :: "string list \<Rightarrow> string" where
  "targetOf [] = []"
| "targetOf (line # ls) =
     (if \<not> hasPrefix line ''+++ '' then targetOf ls
      else (let p = trimPrefix (uptoByte (CHR 0x09) (trimSpace (drop 4 line))) ''b/''
            in if p = ''/dev/null'' then targetOf ls else p))"

definition PatchTargetPath :: "string \<Rightarrow> string" where
  "PatchTargetPath patch = targetOf (splitOn (CHR 0x0A) patch)"

text \<open>\<open>path.Base\<close>.\<close>

definition pathBase :: "string \<Rightarrow> string" where
  "pathBase p =
     (if p = [] then ''.''
      else (let q = rev (dropWhile (\<lambda>c. c = CHR ''/'') (rev p));
                b = rev (takeWhile (\<lambda>c. c \<noteq> CHR ''/'') (rev q))
            in if b = [] then ''/'' else b))"

text \<open>The extension after the last dot, if the dot is not the last byte.\<close>

definition fileExt :: "string \<Rightarrow> string option" where
  "fileExt base =
     (case afterLastByte (CHR ''.'') base of
        Some ext \<Rightarrow> if ext = [] then None else Some (toLower ext)
      | None \<Rightarrow> None)"

text \<open>The target and, when the agent would not apply the patch, the reason.\<close>

definition AgentWillApplyPatch :: "string \<Rightarrow> string \<times> goerror" where
  "AgentWillApplyPatch patch =
     (let target = PatchTargetPath patch; base = pathBase target in
      if target = [] then ([], Some ''candidate patch has no resolvable target file'')
      else case fileExt base of
             Some ext \<Rightarrow>
               if ext \<in> set agentAllowedExtensions then (target, None)
               else (target, Some (''agent will not apply file type .'' @ ext @
                 '' (only config file types are mutable); use manual remediation for source files''))
           | None \<Rightarrow>
               if base \<in> set agentAllowedNoExtNames then (target, None)
               else (target, Some (''agent will not apply extensionless file '' @ base @
                 '' (not a known config file)'')))"

subsection \<open>What a validated patch targets\<close>

lemma checkLines_header:
  assumes "checkLines b ls = None" and "line \<in> set ls" and "hasPrefix line ''+++ ''"
  shows "checkPatchPath (patchHeaderPath (drop 4 line)) = None"
proof -
  have "\<not> hasPrefix line ''@@''" using assms(3) by (auto simp: hasPrefix_def prefix_def)
  with assms show ?thesis
    by (induction ls arbitrary: b) (auto split: if_splits option.splits)
qed

lemma targetOf_header:
  assumes "targetOf ls = t" and "t \<noteq> []"
  shows "\<exists>line \<in> set ls. hasPrefix line ''+++ '' \<and>
    t = trimPrefix (patchHeaderPath (drop 4 line)) ''b/'' \<and> t \<noteq> ''/dev/null''"
  using assms by (induction ls) (auto simp: patchHeaderPath_def Let_def split: if_splits)

definition safeRelative :: "string \<Rightarrow> bool" where
  "safeRelative t \<longleftrightarrow> t \<noteq> [] \<and> \<not> hasPrefix t ''/'' \<and> \<not> hasPrefix t ''~'' \<and>
     ''..'' \<notin> set (splitOn (CHR ''/'') t)"

lemma trimPrefix_cases:
  "trimPrefix s p = s \<and> \<not> hasPrefix s p \<or> s = p @ trimPrefix s p"
  by (auto simp: trimPrefix_def hasPrefix_def prefix_def)

lemma checked_target_safe:
  assumes "checkPatchPath raw = None" and "trimPrefix raw ''b/'' \<noteq> ''/dev/null''"
  shows "safeRelative (trimPrefix raw ''b/'')"
proof -
  have "\<not> hasPrefix ''/dev/null'' ''b/''" by (simp add: hasPrefix_def)
  then have "raw \<noteq> ''/dev/null''" using assms(2) by (auto simp: trimPrefix_def)
  then have checked: "safeRelative (trimPrefix (trimPrefix raw ''a/'') ''b/'')"
    using assms(1) by (auto simp: checkPatchPath_def safeRelative_def Let_def list_ex_iff split: if_splits)
  have cons: "safeRelative t \<Longrightarrow> safeRelative (''a/'' @ t)" "safeRelative t \<Longrightarrow> safeRelative (''a/b/'' @ t)" for t
    by (auto simp: safeRelative_def hasPrefix_def)
  show ?thesis
  proof (cases "hasPrefix raw ''b/''")
    case True
    then obtain t where "raw = ''b/'' @ t" by (auto simp: hasPrefix_def prefix_def)
    with checked show ?thesis by (simp add: trimPrefix_def hasPrefix_def)
  next
    case False
    then have raw: "trimPrefix raw ''b/'' = raw" by (simp add: trimPrefix_def)
    show ?thesis
    proof (cases "hasPrefix raw ''a/''")
      case True
      then obtain t where t: "raw = ''a/'' @ t" by (auto simp: hasPrefix_def prefix_def)
      then have "safeRelative (trimPrefix t ''b/'')" using checked by (simp add: trimPrefix_def hasPrefix_def)
      with trimPrefix_cases [of t "''b/''"] t cons raw show ?thesis
        by (metis append_Cons append_Nil)
    next
      case False
      with checked raw show ?thesis by (simp add: trimPrefix_def)
    qed
  qed
qed

lemma validated_target:
  assumes "ValidatePatch patch = None" and "PatchTargetPath patch = t" and "t \<noteq> []"
  shows "safeRelative t"
proof -
  have "patch \<noteq> []" using assms(2,3) by (auto simp: PatchTargetPath_def hasPrefix_def)
  with assms(1) have lines: "checkLines False (splitOn (CHR 0x0A) patch) = None"
    by (auto simp: ValidatePatch_def split: if_splits)
  from targetOf_header [of "splitOn (CHR 0x0A) patch" t] assms(2,3)
  obtain line where l: "line \<in> set (splitOn (CHR 0x0A) patch)" "hasPrefix line ''+++ ''"
    "t = trimPrefix (patchHeaderPath (drop 4 line)) ''b/''" "t \<noteq> ''/dev/null''"
    by (auto simp: PatchTargetPath_def)
  from checkLines_header [OF lines l(1,2)] l(3,4) show ?thesis by (simp add: checked_target_safe)
qed

end
