(* ===== verification/Governor.thy ===== *)
theory Governor
  imports PatchGuard
begin

text \<open>
  The request budget and the governor of autonomous remediation: \<^verbatim>\<open>server/internal/llm/budget.go\<close>
  and \<^verbatim>\<open>autoremediation.go\<close>. Times are integers; \<open>allow\<close> reads the clock twice, so it takes
  both readings. Environment variables are a function (unset and empty are the same to the code);
  \<open>strconv.ParseFloat\<close> is a parameter.
\<close>

subsection \<open>The sliding window\<close>

record rateLimiter =
  limit :: int
  window :: int
  events :: "int list"

definition newRateLimiter :: "int \<Rightarrow> int \<Rightarrow> rateLimiter" where
  "newRateLimiter l w = \<lparr>limit = l, window = w, events = []\<rparr>"

text \<open>The receiver may be nil.\<close>

definition allow :: "int \<Rightarrow> int \<Rightarrow> rateLimiter option \<Rightarrow> bool \<times> rateLimiter option" where
  "allow now1 now2 limiter =
     (case limiter of
        None \<Rightarrow> (True, None)
      | Some r \<Rightarrow>
          if limit r \<le> 0 then (True, Some r)
          else (let cutoff = now1 - window r;
                    kept = filter (\<lambda>t. cutoff < t) (events r)
                in if limit r \<le> int (length kept) then (False, Some (r\<lparr>events := kept\<rparr>))
                   else (True, Some (r\<lparr>events := kept @ [now2]\<rparr>))))"

text \<open>A run of calls, each with its two clock readings: the times at which calls were allowed.\<close>

fun allowRun :: "(int \<times> int) list \<Rightarrow> rateLimiter option \<Rightarrow> int list" where
  "allowRun [] r = []"
| "allowRun ((n1, n2) # ns) r =
     (let (ok, r') = allow n1 n2 r in (if ok then [n2] else []) @ allowRun ns r')"

text \<open>The clock never goes back.\<close>

fun clockFrom :: "int \<Rightarrow> (int \<times> int) list \<Rightarrow> bool" where
  "clockFrom c [] = True"
| "clockFrom c ((n1, n2) # ns) = (c \<le> n1 \<and> n1 \<le> n2 \<and> clockFrom n2 ns)"

definition inWindow :: "int \<Rightarrow> int \<Rightarrow> int list \<Rightarrow> nat" where
  "inWindow w t gs = length (filter (\<lambda>g. t - w < g \<and> g \<le> t) gs)"

text \<open>What the limiter holds of the grants \<open>G\<close> so far, at clock \<open>c\<close>.\<close>

definition limiter_inv :: "int \<Rightarrow> int list \<Rightarrow> rateLimiter \<Rightarrow> bool" where
  "limiter_inv c G r \<longleftrightarrow>
     (\<forall>g \<in> set G. g \<le> c) \<and>
     filter (\<lambda>g. c - window r < g) (events r) = filter (\<lambda>g. c - window r < g) G \<and>
     (\<forall>t. int (inWindow (window r) t G) \<le> limit r)"

lemma filter_later:
  assumes "c \<le> n" and "filter (\<lambda>g. c - w < g) xs = filter (\<lambda>g. c - w < g) ys"
  shows "filter (\<lambda>g. n - w < g) xs = filter (\<lambda>g. n - w < g) (ys :: int list)"
proof -
  have "filter (\<lambda>g. n - w < g) zs = filter (\<lambda>g. n - w < g) (filter (\<lambda>g. c - w < g) zs)" for zs
    using assms(1) by (auto simp: intro!: filter_cong)
  then show ?thesis using assms(2) by metis
qed

lemma inWindow_le:
  "n \<le> t \<Longrightarrow> inWindow w t G \<le> length (filter (\<lambda>g. n - w < g) G)"
  unfolding inWindow_def by (induction G) auto

lemma limiter_step:
  assumes inv: "limiter_inv c G r" and pos: "0 < limit r" and n: "c \<le> n1" "n1 \<le> n2"
    and step: "allow n1 n2 (Some r) = (ok, r')"
  shows "\<exists>r1. r' = Some r1 \<and> limit r1 = limit r \<and> window r1 = window r \<and>
    limiter_inv n2 (if ok then G @ [n2] else G) r1"
proof -
  let ?kept = "filter (\<lambda>t. n1 - window r < t) (events r)"
  have kept: "?kept = filter (\<lambda>g. n1 - window r < g) G"
    by (rule filter_later [OF n(1)]) (use inv in \<open>simp add: limiter_inv_def\<close>)
  have keep2: "filter (\<lambda>g. n2 - window r < g) ?kept = filter (\<lambda>g. n2 - window r < g) G"
    unfolding kept using n by (auto intro!: filter_cong)
  have old: "\<forall>g \<in> set G. g \<le> n2" "int (inWindow (window r) t G) \<le> limit r" for t
    using inv n by (auto simp: limiter_inv_def)
  show ?thesis
  proof (cases "limit r \<le> int (length ?kept)")
    case True
    then have "ok = False" "r' = Some (r\<lparr>events := ?kept\<rparr>)"
      using step pos by (simp_all add: allow_def Let_def)
    then show ?thesis using old keep2 by (simp add: limiter_inv_def)
  next
    case False
    then have r': "ok = True" "r' = Some (r\<lparr>events := ?kept @ [n2]\<rparr>)"
      using step pos by (simp_all add: allow_def Let_def)
    have bound: "int (inWindow (window r) t (G @ [n2])) \<le> limit r" for t
    proof (cases "t < n2")
      case True
      then have "inWindow (window r) t (G @ [n2]) = inWindow (window r) t G" by (simp add: inWindow_def)
      then show ?thesis using old by simp
    next
      case False
      then have "inWindow (window r) t G \<le> length ?kept"
        unfolding kept by (intro inWindow_le) (use n in simp)
      then show ?thesis using \<open>\<not> limit r \<le> int (length ?kept)\<close> by (simp add: inWindow_def)
    qed
    then show ?thesis using r' old keep2 by (auto simp: limiter_inv_def)
  qed
qed

lemma allowRun_bound:
  "limiter_inv c G r \<Longrightarrow> 0 < limit r \<Longrightarrow> clockFrom c ns \<Longrightarrow>
   int (inWindow (window r) t (G @ allowRun ns (Some r))) \<le> limit r"
proof (induction ns arbitrary: c G r)
  case Nil
  then show ?case by (simp add: limiter_inv_def)
next
  case (Cons n ns)
  obtain n1 n2 where n: "n = (n1, n2)" by (cases n)
  obtain ok r' where step: "allow n1 n2 (Some r) = (ok, r')" by (cases "allow n1 n2 (Some r)")
  from limiter_step [OF Cons.prems(1,2) _ _ step] Cons.prems(3) n
  obtain r1 where r1: "r' = Some r1" "limit r1 = limit r" "window r1 = window r"
    "limiter_inv n2 (if ok then G @ [n2] else G) r1" by auto
  from Cons.IH [OF r1(4)] r1(2,3) Cons.prems(2,3) n
  have "int (inWindow (window r) t ((if ok then G @ [n2] else G) @ allowRun ns (Some r1))) \<le> limit r"
    by simp
  then show ?case by (simp add: n step r1(1) split: if_splits)
qed

lemma clockFrom_mono: "clockFrom c ns \<Longrightarrow> c' \<le> c \<Longrightarrow> clockFrom c' ns"
  by (cases ns) auto

lemma limiter_inv_new: "0 \<le> l \<Longrightarrow> limiter_inv c [] (newRateLimiter l w)"
  by (simp add: limiter_inv_def newRateLimiter_def inWindow_def)

subsection \<open>The governor\<close>

record LLMSuggestion =
  SuggestionID :: string
  sgJobID :: string
  sgFindingID :: string
  RecommendationType :: string
  TargetAlgorithm :: string
  CandidatePatch :: string
  Assumptions :: "string list"
  CompatibilityNotes :: string
  ValidationRequired :: "string list"
  ValidationStatus :: string
  ValidationDetail :: string
  HumanApprovalRequired :: bool
  sgConfidence :: real
  sgModel :: string
  sgPromptVersion :: string
  sgCreatedAt :: int
  sgReviewDecision :: string
  sgReviewedBy :: string
  sgReviewedAt :: "int option"
  sgReviewNote :: string

record hourRange =
  lo :: int
  hi :: int

record GovernorConfig =
  Enabled :: bool
  DryRunOnly :: bool
  MinConfidence :: real
  AllowedTypes :: "string list"
  MaxPerHour :: int
  AllowedHours :: "hourRange list"

record RemediationGovernor =
  gcfg :: GovernorConfig
  gbudget :: "rateLimiter option"

text \<open>\<open>time.Hour\<close> in nanoseconds, the unit of the limiter's clock.\<close>

definition hourNs :: int where "hourNs = 3600 * 1000000000"

definition NewGovernor :: "GovernorConfig \<Rightarrow> RemediationGovernor" where
  "NewGovernor cfg = \<lparr>gcfg = cfg, gbudget = Some (newRateLimiter (MaxPerHour cfg) hourNs)\<rparr>"

text \<open>\<open>hour\<close> is \<open>g.now().UTC().Hour()\<close>.\<close>

definition withinWindow :: "GovernorConfig \<Rightarrow> int \<Rightarrow> bool" where
  "withinWindow cfg hour \<longleftrightarrow>
     AllowedHours cfg = [] \<or> list_ex (\<lambda>r. lo r \<le> hour \<and> hour \<le> hi r) (AllowedHours cfg)"

type_synonym clock = "int \<times> int \<times> int"

text \<open>The refusals before the budget; \<open>None\<close> when every control passes.\<close>

definition controlRefusal :: "GovernorConfig \<Rightarrow> int \<Rightarrow> LLMSuggestion \<Rightarrow> string option" where
  "controlRefusal cfg hour s =
     (if \<not> Enabled cfg then Some ''autonomous remediation disabled''
      else if ValidationStatus s \<noteq> ''passed'' \<or> CandidatePatch s = []
      then Some ''no deterministically-validated patch''
      else if RecommendationType s \<notin> set (AllowedTypes cfg)
      then Some (''recommendation type '' @ RecommendationType s @ '' not in autonomous allowlist'')
      else if sgConfidence s < MinConfidence cfg then Some ''confidence below autonomous floor''
      else case snd (AgentWillApplyPatch (CandidatePatch s)) of
             Some why \<Rightarrow> Some why
           | None \<Rightarrow>
               if \<not> withinWindow cfg hour then Some ''outside the autonomous change window'' else None)"

text \<open>The governor may be nil; the result is (allow, dry run, reason) and the governor.\<close>

definition Authorize :: "clock \<Rightarrow> LLMSuggestion \<Rightarrow> RemediationGovernor option
    \<Rightarrow> (bool \<times> bool \<times> string) \<times> RemediationGovernor option" where
  "Authorize clk s governor =
     (case governor of
        None \<Rightarrow> ((False, False, ''autonomous remediation disabled''), None)
      | Some g \<Rightarrow>
          (case clk of (hour, now1, now2) \<Rightarrow>
            (case controlRefusal (gcfg g) hour s of
               Some reason \<Rightarrow> ((False, False, reason), governor)
             | None \<Rightarrow>
                 (let (ok, b) = allow now1 now2 (gbudget g); g' = g\<lparr>gbudget := b\<rparr>
                  in if \<not> ok
                     then ((False, False, ''autonomous remediation budget exhausted for this hour''), Some g')
                     else ((True, DryRunOnly (gcfg g), []), Some g')))))"

subsection \<open>Configuration from the environment\<close>

definition envOr :: "(string \<Rightarrow> string) \<Rightarrow> string \<Rightarrow> string \<Rightarrow> string" where
  "envOr env key def = (if env key \<noteq> [] then env key else def)"

text \<open>\<open>strconv.ParseBool\<close>.\<close>

definition parseBool :: "string \<Rightarrow> bool option" where
  "parseBool v =
     (if v \<in> set [''1'', ''t'', ''T'', ''TRUE'', ''true'', ''True''] then Some True
      else if v \<in> set [''0'', ''f'', ''F'', ''FALSE'', ''false'', ''False''] then Some False
      else None)"

definition boolEnv :: "(string \<Rightarrow> string) \<Rightarrow> string \<Rightarrow> bool \<Rightarrow> bool" where
  "boolEnv env key def =
     (if env key \<noteq> [] then (case parseBool (env key) of Some b \<Rightarrow> b | None \<Rightarrow> def) else def)"

definition intEnv :: "(string \<Rightarrow> string) \<Rightarrow> string \<Rightarrow> int \<Rightarrow> int" where
  "intEnv env key def =
     (if env key \<noteq> [] then (case parseInt64 (env key) of Some n \<Rightarrow> n | None \<Rightarrow> def) else def)"

definition floatEnv :: "(string \<Rightarrow> real option) \<Rightarrow> (string \<Rightarrow> string) \<Rightarrow> string \<Rightarrow> real \<Rightarrow> real" where
  "floatEnv parseFloat env key def =
     (if env key \<noteq> [] then (case parseFloat (env key) of Some f \<Rightarrow> f | None \<Rightarrow> def) else def)"

text \<open>The set as the list of its keys.\<close>

definition csvSet :: "string \<Rightarrow> string list" where
  "csvSet s = filter (\<lambda>p. p \<noteq> []) (map trimSpace (splitOn (CHR '','') s))"

definition parseHourRange :: "string \<Rightarrow> hourRange option" where
  "parseHourRange part =
     (let t = trimSpace part in
      if CHR ''-'' \<notin> set t then None
      else (let a = trimSpace (takeWhile (\<lambda>c. c \<noteq> CHR ''-'') t);
                b = trimSpace (tl (dropWhile (\<lambda>c. c \<noteq> CHR ''-'') t))
            in case (parseInt64 a, parseInt64 b) of
                 (Some l, Some h) \<Rightarrow>
                   if l < 0 \<or> 23 < h \<or> h < l then None else Some \<lparr>lo = l, hi = h\<rparr>
               | _ \<Rightarrow> None))"

definition parseHourRanges :: "string \<Rightarrow> hourRange list" where
  "parseHourRanges s =
     (let t = trimSpace s in
      if t = [] then [] else List.map_filter parseHourRange (splitOn (CHR '','') t))"

definition LoadGovernorFromEnv :: "(string \<Rightarrow> real option) \<Rightarrow> (string \<Rightarrow> string) \<Rightarrow> RemediationGovernor" where
  "LoadGovernorFromEnv parseFloat env =
     NewGovernor
       \<lparr>Enabled = boolEnv env ''JANUS_LLM_AUTOREMEDIATE_ENABLED'' False,
        DryRunOnly = boolEnv env ''JANUS_LLM_AUTOREMEDIATE_DRYRUN'' True,
        MinConfidence = floatEnv parseFloat env ''JANUS_LLM_AUTOREMEDIATE_MIN_CONFIDENCE'' (9 / 10),
        AllowedTypes = csvSet (envOr env ''JANUS_LLM_AUTOREMEDIATE_TYPES'' ''config_change''),
        MaxPerHour = intEnv env ''JANUS_LLM_AUTOREMEDIATE_MAX_PER_HOUR'' 3,
        AllowedHours = parseHourRanges (env ''JANUS_LLM_AUTOREMEDIATE_WINDOW'')\<rparr>"

text \<open>A run of decisions with a governor: the times of those that were allowed.\<close>

fun governorRun :: "(clock \<times> LLMSuggestion) list \<Rightarrow> RemediationGovernor option \<Rightarrow> int list" where
  "governorRun [] g = []"
| "governorRun ((clk, s) # rs) g =
     (let ((ok, _, _), g') = Authorize clk s g
      in (if ok then [snd (snd clk)] else []) @ governorRun rs g')"

text \<open>The calls that reach the budget see the limiter, the others leave it alone.\<close>

lemma Authorize_budget:
  "Authorize (h, n1, n2) s (Some g) =
     (if controlRefusal (gcfg g) h s = None
      then ((fst (allow n1 n2 (gbudget g)),
             fst (allow n1 n2 (gbudget g)) \<and> DryRunOnly (gcfg g),
             if fst (allow n1 n2 (gbudget g)) then [] else ''autonomous remediation budget exhausted for this hour''),
            Some (g\<lparr>gbudget := snd (allow n1 n2 (gbudget g))\<rparr>))
      else ((False, False, the (controlRefusal (gcfg g) h s)), Some g))"
  by (auto simp: Authorize_def Let_def split: option.splits prod.splits)

lemma governorRun_allowRun:
  "\<exists>ns. governorRun rs (Some g) = allowRun ns (gbudget g) \<and>
     (\<forall>c. clockFrom c (map (snd \<circ> fst) rs) \<longrightarrow> clockFrom c ns)"
proof (induction rs arbitrary: g)
  case (Cons r rs)
  obtain h n1 n2 s where r: "r = ((h, n1, n2), s)" by (metis prod.collapse)
  show ?case
  proof (cases "controlRefusal (gcfg g) h s")
    case None
    let ?a = "allow n1 n2 (gbudget g)"
    from Cons.IH [of "g\<lparr>gbudget := snd ?a\<rparr>"] obtain ns where
      "governorRun rs (Some (g\<lparr>gbudget := snd ?a\<rparr>)) =
        allowRun ns (gbudget (g\<lparr>gbudget := snd ?a\<rparr>))"
      "\<forall>c. clockFrom c (map (snd \<circ> fst) rs) \<longrightarrow> clockFrom c ns" by blast
    with None r show ?thesis
      by (intro exI [of _ "(n1, n2) # ns"]) (simp add: Authorize_budget case_prod_unfold Let_def comp_def)
  next
    case (Some e)
    from Cons.IH [of g] obtain ns where "governorRun rs (Some g) = allowRun ns (gbudget g)"
      "\<forall>c. clockFrom c (map (snd \<circ> fst) rs) \<longrightarrow> clockFrom c ns" by blast
    moreover have "clockFrom c (map (snd \<circ> fst) (r # rs)) \<Longrightarrow> clockFrom c (map (snd \<circ> fst) rs)" for c
      using clockFrom_mono r by fastforce
    ultimately show ?thesis using Some r
      by (intro exI [of _ ns]) (auto simp: Authorize_budget case_prod_unfold Let_def comp_def)
  qed
qed (auto intro: exI [of _ "[]"])

subsection \<open>Properties\<close>

definition demo_patch :: string where
  "demo_patch = ''--- a/etc/app.conf'' @ [CHR 0x0A] @ ''+++ b/etc/app.conf'' @ [CHR 0x0A] @
     ''@@ -1 +1 @@'' @ [CHR 0x0A] @ ''-x'' @ [CHR 0x0A] @ ''+y''"

definition demo_suggestion :: LLMSuggestion where
  "demo_suggestion =
     \<lparr>SuggestionID = ''s'', sgJobID = ''j'', sgFindingID = ''f'', RecommendationType = ''config_change'',
      TargetAlgorithm = [], CandidatePatch = demo_patch, Assumptions = [], CompatibilityNotes = [],
      ValidationRequired = [], ValidationStatus = ''passed'', ValidationDetail = [],
      HumanApprovalRequired = True, sgConfidence = 1, sgModel = [], sgPromptVersion = [],
      sgCreatedAt = 0, sgReviewDecision = [], sgReviewedBy = [], sgReviewedAt = None,
      sgReviewNote = []\<rparr>"

definition demo_env :: "string \<Rightarrow> string \<Rightarrow> string" where
  "demo_env extra key =
     (if key = ''JANUS_LLM_AUTOREMEDIATE_ENABLED'' then ''true''
      else if key = ''JANUS_LLM_AUTOREMEDIATE_WINDOW'' then extra else [])"

text \<open>
  A validated patch stays in the tree. When \<open>ValidatePatch\<close> accepts a patch and it has a target,
  the target that will be enqueued is a non-empty relative path without a parent segment.
\<close>

theorem validated_patch_target:
  assumes "ValidatePatch patch = None" and "PatchTargetPath patch \<noteq> []"
  shows "\<not> hasPrefix (PatchTargetPath patch) ''/'' \<and> \<not> hasPrefix (PatchTargetPath patch) ''~'' \<and>
    ''..'' \<notin> set (splitOn (CHR ''/'') (PatchTargetPath patch))"
  using validated_target [OF assms(1) refl assms(2)] by (simp add: safeRelative_def)

theorem validated_patch_target_witness:
  "\<not> hasPrefix (PatchTargetPath demo_patch) ''/'' \<and> PatchTargetPath demo_patch = ''etc/app.conf''"
proof -
  have t: "PatchTargetPath demo_patch = ''etc/app.conf''" by code_simp
  moreover have "ValidatePatch demo_patch = None" by code_simp
  ultimately show ?thesis using validated_patch_target [of demo_patch] by simp
qed

text \<open>
  The path check knows only the slash. A patch whose target is an absolute Windows path, or leaves
  the tree by backslashes, is accepted by the validation and by the agent's file-type gate.
\<close>

theorem windows_paths_accepted:
  "let p = (\<lambda>path. ''+++ b/'' @ path @ [CHR 0x0A] @ ''@@'');
       absolute = ''C:'' @ [CHR 0x5C] @ ''app.conf'';
       parent = ''..'' @ [CHR 0x5C] @ ''..'' @ [CHR 0x5C] @ ''app.conf''
   in ValidatePatch (p absolute) = None \<and> AgentWillApplyPatch (p absolute) = (absolute, None) \<and>
      ValidatePatch (p parent) = None \<and> AgentWillApplyPatch (p parent) = (parent, None)"
  by code_simp

text \<open>
  Authorisation means every control passed: the governor is enabled, the patch was validated and
  is not empty, its type is on the allowlist, the confidence reaches the floor, the agent takes the
  file, and the hour is in the change window; the dry-run flag is the configured one. A refusal by
  one of these leaves the budget as it was.
\<close>

theorem authorize_controls:
  assumes "Authorize (hour, n1, n2) s (Some g) = ((ok, dry, reason), g')"
  shows "(if ok
     then Enabled (gcfg g) \<and> ValidationStatus s = ''passed'' \<and> CandidatePatch s \<noteq> [] \<and>
       RecommendationType s \<in> set (AllowedTypes (gcfg g)) \<and> MinConfidence (gcfg g) \<le> sgConfidence s \<and>
       snd (AgentWillApplyPatch (CandidatePatch s)) = None \<and> withinWindow (gcfg g) hour \<and>
       dry = DryRunOnly (gcfg g)
     else reason \<noteq> [] \<and> \<not> dry \<and> (controlRefusal (gcfg g) hour s \<noteq> None \<longrightarrow> g' = Some g))"
proof -
  have "controlRefusal (gcfg g) hour s \<noteq> Some []"
    by (auto simp: controlRefusal_def AgentWillApplyPatch_def Let_def split: option.splits if_splits)
  then show ?thesis
    using assms by (auto simp: Authorize_budget controlRefusal_def split: if_splits option.splits)
qed

theorem authorize_controls_witness:
  "fst (Authorize (3, 0, 0) demo_suggestion (Some (LoadGovernorFromEnv (\<lambda>_. None) (demo_env ''0-6'')))) =
     (True, True, []) \<and> withinWindow (gcfg (LoadGovernorFromEnv (\<lambda>_. None) (demo_env ''0-6''))) 3"
proof -
  let ?g = "LoadGovernorFromEnv (\<lambda>_. None) (demo_env ''0-6'')"
  have ok: "fst (Authorize (3, 0, 0) demo_suggestion (Some ?g)) = (True, True, [])" by code_simp
  then obtain g' where "Authorize (3, 0, 0) demo_suggestion (Some ?g) = ((True, True, []), g')"
    by (metis prod.collapse)
  from authorize_controls [OF this] have "withinWindow (gcfg ?g) 3" unfolding if_True by blast
  with ok show ?thesis by blast
qed

text \<open>
  C8: The hourly budget holds. Whatever suggestions arrive and whenever they are refused, with a
  positive cap and a clock that never goes back, no time interval of one hour contains more
  autonomous remediations than the cap.
\<close>

theorem hourly_budget:
  assumes "0 < MaxPerHour cfg" and "clockFrom c (map (snd \<circ> fst) rs)"
  shows "int (inWindow hourNs t (governorRun rs (Some (NewGovernor cfg)))) \<le> MaxPerHour cfg"
proof -
  let ?r = "newRateLimiter (MaxPerHour cfg) hourNs"
  have b: "gbudget (NewGovernor cfg) = Some ?r" by (simp add: NewGovernor_def)
  obtain ns where "governorRun rs (Some (NewGovernor cfg)) = allowRun ns (Some ?r)" "clockFrom c ns"
    using governorRun_allowRun [of rs "NewGovernor cfg"] assms(2) unfolding b by blast
  moreover have "limiter_inv c [] ?r" by (rule limiter_inv_new) (use assms(1) in simp)
  ultimately show ?thesis
    using allowRun_bound [of c "[]" ?r ns t] assms(1) by (simp add: newRateLimiter_def)
qed

theorem hourly_budget_witness:
  "inWindow hourNs 9 (governorRun [((3, 1, 1), demo_suggestion), ((3, 2, 2), demo_suggestion)]
     (Some (NewGovernor \<lparr>Enabled = True, DryRunOnly = True, MinConfidence = 0,
        AllowedTypes = [''config_change''], MaxPerHour = 1, AllowedHours = []\<rparr>))) \<le> 1"
proof -
  have "clockFrom 0 (map (snd \<circ> fst) [((3, 1, 1), demo_suggestion), ((3, 2, 2), demo_suggestion)])"
    by simp
  from hourly_budget [OF _ this, of "\<lparr>Enabled = True, DryRunOnly = True, MinConfidence = 0,
      AllowedTypes = [''config_change''], MaxPerHour = 1, AllowedHours = []\<rparr>" 9]
  show ?thesis by simp
qed

text \<open>
  Two settings fail open. A change window that does not parse gives no ranges, which means any
  hour, and a cap of zero or less means no cap: with both, the governor authorises at any time and
  every time.
\<close>

theorem garbled_window_fails_open:
  "withinWindow (gcfg (LoadGovernorFromEnv parseFloat (demo_env ''9h-11h''))) hour \<and>
   fst (allow n1 n2 (gbudget (NewGovernor (cfg\<lparr>MaxPerHour := 0\<rparr>))))"
proof
  have "parseHourRanges ''9h-11h'' = []" by code_simp
  then have "AllowedHours (gcfg (LoadGovernorFromEnv parseFloat (demo_env ''9h-11h''))) = []"
    by (simp add: LoadGovernorFromEnv_def NewGovernor_def demo_env_def)
  then show "withinWindow (gcfg (LoadGovernorFromEnv parseFloat (demo_env ''9h-11h''))) hour"
    by (simp add: withinWindow_def)
  show "fst (allow n1 n2 (gbudget (NewGovernor (cfg\<lparr>MaxPerHour := 0\<rparr>))))"
    by (simp add: allow_def NewGovernor_def newRateLimiter_def)
qed

end
