(* ===== verification/LLMProofs.thy ===== *)
theory LLMProofs
  imports LLMService
begin

text \<open>
  What holds of the LLM pipeline in every state a run can reach. The locale \<open>llm_statement\<close> is the
  contract of a database statement: under its precondition it keeps the invariant of the tables and
  never removes provenance; it is interpreted for every statement of \<^verbatim>\<open>LLMService\<close>.
\<close>

subsection \<open>The invariant\<close>

definition backed :: "LLMProvenance list \<Rightarrow> string \<Rightarrow> string \<Rightarrow> string \<Rightarrow> bool" where
  "backed ps job finding model \<longleftrightarrow>
     (\<exists>p \<in> set ps. pvJobID p = job \<and> pvFindingID p = finding \<and> pvModel p = model)"

definition verdictOk :: "LLMProvenance list \<Rightarrow> LLMVerdict \<Rightarrow> bool" where
  "verdictOk ps v \<longleftrightarrow>
     ValidateVerdict (vdVerdict v) (AbstentionReason v) (AdjustedSeverity v) (vdConfidence v)
       (EvidenceCitations v) = None \<and>
     length (Reasoning v) \<le> 1000 \<and> backed ps (vdJobID v) (vdFindingID v) (vdModel v)"

definition suggestionOk :: "LLMProvenance list \<Rightarrow> LLMSuggestion \<Rightarrow> bool" where
  "suggestionOk ps s \<longleftrightarrow>
     ValidateSuggestion (RecommendationType s) (CandidatePatch s) (sgConfidence s)
       (HumanApprovalRequired s) = None \<and>
     (if ValidationStatus s = ''passed'' then ValidatePatch (CandidatePatch s) = None
      else ValidationStatus s = ''failed'' \<and> CandidatePatch s = []) \<and>
     backed ps (sgJobID s) (sgFindingID s) (sgModel s)"

definition storeInv :: "LLMStore \<Rightarrow> bool" where
  "storeInv db \<longleftrightarrow>
     (\<forall>v \<in> set (lsVerdicts db). verdictOk (lsProvs db) v) \<and>
     (\<forall>s \<in> set (lsSuggestions db). suggestionOk (lsProvs db) s)"

definition passedControls :: "RemediationGovernor option \<Rightarrow> LLMSuggestion \<Rightarrow> bool \<Rightarrow> bool" where
  "passedControls gov s dry \<longleftrightarrow>
     (\<exists>g. gov = Some g \<and> Enabled (gcfg g) \<and> RecommendationType s \<in> set (AllowedTypes (gcfg g)) \<and>
       MinConfidence (gcfg g) \<le> sgConfidence s \<and> dry = DryRunOnly (gcfg g))"

definition queuedOk :: "LLMProvenance list \<Rightarrow> RemediationGovernor option \<Rightarrow> LLMSuggestion \<times> bool \<Rightarrow> bool" where
  "queuedOk ps gov q \<longleftrightarrow>
     suggestionOk ps (fst q) \<and> ValidationStatus (fst q) = ''passed'' \<and>
     snd (AgentWillApplyPatch (CandidatePatch (fst q))) = None \<and>
     passedControls gov (fst q) (snd q)"

definition serviceInv :: "LLMService \<Rightarrow> bool" where
  "serviceInv s \<longleftrightarrow>
     storeInv (svstore s) \<and> list_all (queuedOk (lsProvs (svstore s)) (svgovernor s)) (svenqueued s)"

lemma backed_mono: "set ps \<subseteq> set qs \<Longrightarrow> backed ps j f m \<Longrightarrow> backed qs j f m"
  by (auto simp: backed_def)

lemma verdictOk_mono: "set ps \<subseteq> set qs \<Longrightarrow> verdictOk ps v \<Longrightarrow> verdictOk qs v"
  by (auto simp: verdictOk_def intro: backed_mono)

lemma suggestionOk_mono: "set ps \<subseteq> set qs \<Longrightarrow> suggestionOk ps s \<Longrightarrow> suggestionOk qs s"
  by (auto simp: suggestionOk_def intro: backed_mono)

lemma queuedOk_mono: "set ps \<subseteq> set qs \<Longrightarrow> queuedOk ps g q \<Longrightarrow> queuedOk qs g q"
  by (auto simp: queuedOk_def intro: suggestionOk_mono)

lemma review_keeps [simp]:
  "verdictOk ps (verdictReview decision who remark now v) = verdictOk ps v"
  "suggestionOk ps (suggestionReview decision who remark now s) = suggestionOk ps s"
  by (simp_all add: verdictOk_def verdictReview_def suggestionOk_def suggestionReview_def)

lemma storeInv_more:
  assumes "storeInv db" and "set (lsProvs db) \<subseteq> set (lsProvs db')"
    and "\<And>v. v \<in> set (lsVerdicts db') \<Longrightarrow> v \<notin> set (lsVerdicts db) \<Longrightarrow> verdictOk (lsProvs db') v"
    and "\<And>s. s \<in> set (lsSuggestions db') \<Longrightarrow> s \<notin> set (lsSuggestions db) \<Longrightarrow> suggestionOk (lsProvs db') s"
  shows "storeInv db'"
  using assms unfolding storeInv_def by (blast intro: verdictOk_mono suggestionOk_mono)

lemma exec_elim:
  obtains fs e where "exec act db = (Some e, db\<lparr>lsFaults := fs\<rparr>)"
  | fs where "exec act db = act (db\<lparr>lsFaults := fs\<rparr>)"
proof (cases "lsFaults db")
  case Nil
  then have "db\<lparr>lsFaults := []\<rparr> = db" by (cases db) simp
  then have "exec act db = act (db\<lparr>lsFaults := []\<rparr>)" by (simp only: exec_def Nil list.case)
  then show thesis using that by blast
next
  case (Cons f fs)
  then show thesis using that by (cases f) (auto simp: exec_def)
qed

subsection \<open>The contract of a statement\<close>

locale llm_statement =
  fixes pre :: "LLMProvenance list \<Rightarrow> bool" and act :: "LLMStore \<Rightarrow> 'a \<times> LLMStore"
  assumes keeps: "pre (lsProvs db) \<Longrightarrow> storeInv db \<Longrightarrow> storeInv (snd (act db))"
    and grows: "set (lsProvs db) \<subseteq> set (lsProvs (snd (act db)))"
begin

lemma service:
  assumes "pre (lsProvs (svstore s))" and "serviceInv s"
  shows "serviceInv (snd (onStore act s))"
  using keeps [OF assms(1)] grows [of "svstore s"] assms(2)
  by (auto simp: serviceInv_def onStore_def case_prod_unfold Let_def list_all_iff intro: queuedOk_mono)

lemma provs: "set (lsProvs (svstore s)) \<subseteq> set (lsProvs (svstore (snd (onStore act s))))"
  using grows [of "svstore s"] by (simp add: onStore_def case_prod_unfold Let_def)

lemma after:
  "onStore act s = (r, s') \<Longrightarrow> pre (lsProvs (svstore s)) \<Longrightarrow> serviceInv s \<Longrightarrow> serviceInv s'"
  using service [of s] by simp

end

lemma exec_statement:
  assumes act: "\<And>db. pre (lsProvs db) \<Longrightarrow> storeInv db \<Longrightarrow> storeInv (snd (act db))"
    and grow: "\<And>db. set (lsProvs db) \<subseteq> set (lsProvs (snd (act db)))"
  shows "llm_statement pre (exec act)"
proof
  fix db
  have inv: "storeInv (db\<lparr>lsFaults := fs\<rparr>) = storeInv db" for fs by (simp add: storeInv_def)
  show "set (lsProvs db) \<subseteq> set (lsProvs (snd (exec act db)))"
    by (rule exec_elim [of act db]) (use grow in force)+
  assume "pre (lsProvs db)" "storeInv db"
  then show "storeInv (snd (exec act db))"
    by (cases rule: exec_elim [of act db]) (use act inv in force)+
qed

text \<open>A reading statement after which the row is looked up.\<close>

lemma row_statement:
  assumes "llm_statement pre a"
    and "\<And>db. snd (f db) = snd (a db)"
  shows "llm_statement pre f"
  using assms unfolding llm_statement_def by simp

interpretation create_job: llm_statement "\<lambda>_. True" "CreateAnalysisJob fresh now job"
    for fresh now job
  unfolding CreateAnalysisJob_def Let_def by (rule exec_statement) (simp_all add: storeInv_def)

interpretation update_job: llm_statement "\<lambda>_. True" "UpdateAnalysisJob job" for job
  unfolding UpdateAnalysisJob_def by (rule exec_statement) (simp_all add: storeInv_def)

interpretation read_only: llm_statement "\<lambda>_. True" "exec (\<lambda>d. (None, d))"
  by (rule exec_statement) simp_all

interpretation get_job: llm_statement "\<lambda>_. True" "GetAnalysisJob jobID" for jobID
  by (rule row_statement [OF read_only.llm_statement_axioms])
    (auto simp: GetAnalysisJob_def split: prod.splits option.splits)

interpretation get_verdict: llm_statement "\<lambda>_. True" "GetVerdictByJob jobID" for jobID
  by (rule row_statement [OF read_only.llm_statement_axioms])
    (auto simp: GetVerdictByJob_def split: prod.splits option.splits)

interpretation review_verdict: llm_statement "\<lambda>_. True" "SetVerdictReview vid decision who remark now"
    for vid decision who remark now
proof (rule row_statement)
  show "llm_statement (\<lambda>_. True) (exec (\<lambda>d. (None, d\<lparr>lsVerdicts :=
    tblUpdate VerdictID vid (verdictReview decision who remark now) (lsVerdicts d)\<rparr>)))"
    by (rule exec_statement)
      (auto simp: storeInv_def set_tblUpdate)
qed (auto simp: SetVerdictReview_def split: prod.splits option.splits)

interpretation review_suggestion: llm_statement "\<lambda>_. True"
    "SetSuggestionReview sid decision who remark now" for sid decision who remark now
proof (rule row_statement)
  show "llm_statement (\<lambda>_. True) (exec (\<lambda>d. (None, d\<lparr>lsSuggestions :=
    tblUpdate SuggestionID sid (suggestionReview decision who remark now) (lsSuggestions d)\<rparr>)))"
    by (rule exec_statement)
      (auto simp: storeInv_def set_tblUpdate)
qed (auto simp: SetSuggestionReview_def split: prod.splits option.splits)

interpretation record_prov: llm_statement "\<lambda>_. True" "RecordProvenance fresh p" for fresh p
  unfolding RecordProvenance_def Let_def
  by (rule exec_statement) (auto intro: storeInv_more simp: storeInv_def verdictOk_def suggestionOk_def backed_def)

interpretation create_verdict: llm_statement "\<lambda>ps. verdictOk ps v" "CreateVerdict fresh now v"
    for fresh now v
  unfolding CreateVerdict_def Let_def
  by (rule exec_statement) (auto simp: storeInv_def verdictOk_def)

interpretation create_suggestion: llm_statement "\<lambda>ps. suggestionOk ps s" "CreateSuggestion fresh now s"
    for fresh now s
  unfolding CreateSuggestion_def Let_def
  by (rule exec_statement) (auto simp: storeInv_def suggestionOk_def)

lemma exec_done:
  assumes "exec act db = (None, d)"
  shows "\<exists>fs. act (db\<lparr>lsFaults := fs\<rparr>) = (None, d)"
proof (cases rule: exec_elim [of act db])
  case (1 fs e)
  with assms show ?thesis by simp
next
  case (2 fs)
  with assms show ?thesis by auto
qed

lemma onStore_done: "onStore act s = (r, s') \<Longrightarrow> act (svstore s) = (r, svstore s') \<and> s' = s\<lparr>svstore := svstore s'\<rparr>"
  by (auto simp: onStore_def split: prod.splits)

lemma recorded:
  assumes "onStore (RecordProvenance fresh p) s = (None, s')"
  shows "backed (lsProvs (svstore s')) (pvJobID p) (pvFindingID p) (pvModel p)"
  using exec_done [OF onStore_done [OF assms, unfolded RecordProvenance_def Let_def, THEN conjunct1]]
  by (auto simp: backed_def dest!: sym [of _ "svstore s'"] split: if_splits)

subsection \<open>The pipelines keep the invariant\<close>

lemma serviceInv_fields [simp]:
  "serviceInv (s\<lparr>svlimiter := l\<rparr>) = serviceInv s"
  "serviceInv (s\<lparr>svuuid := n\<rparr>) = serviceInv s"
  by (simp_all add: serviceInv_def)

lemma callProvider_inv: "callProvider env clk m sys ev s = (r, s') \<Longrightarrow> serviceInv s' = serviceInv s"
  by (auto simp: callProvider_def Let_def split: prod.splits if_splits)

lemma callLLMForVerdict_inv:
  "callLLMForVerdict env clk job ev s = (r, s') \<Longrightarrow> serviceInv s' = serviceInv s"
  by (auto simp: callLLMForVerdict_def uuid_def Let_def dest: callProvider_inv
      split: prod.splits sum.splits)

lemma callLLMForRemediation_inv:
  "callLLMForRemediation env clk job ev s = (r, s') \<Longrightarrow> serviceInv s' = serviceInv s"
  by (auto simp: callLLMForRemediation_def uuid_def Let_def dest: callProvider_inv
      split: prod.splits sum.splits)

lemma callLLMForVerdict_prov:
  "callLLMForVerdict env clk job ev s = (Inr (v, p), s') \<Longrightarrow>
   pvJobID p = vdJobID v \<and> pvFindingID p = vdFindingID v \<and> pvModel p = vdModel v"
  by (auto simp: callLLMForVerdict_def provenanceOf_def uuid_def Let_def split: prod.splits sum.splits)

lemma callLLMForRemediation_prov:
  "callLLMForRemediation env clk job ev s = (Inr (g, p), s') \<Longrightarrow>
   pvJobID p = sgJobID g \<and> pvFindingID p = sgFindingID g \<and> pvModel p = sgModel g \<and>
   HumanApprovalRequired g"
  by (auto simp: callLLMForRemediation_def provenanceOf_def uuid_def Let_def split: prod.splits sum.splits)

lemma startJob_inv: "startJob clk jobID s = (r, s') \<Longrightarrow> serviceInv s \<Longrightarrow> serviceInv s'"
  unfolding startJob_def Let_def
  by (auto split: prod.splits sum.splits option.splits dest: get_job.after update_job.after)

lemma failJob_inv [intro]: "serviceInv s \<Longrightarrow> serviceInv (failJob clk job msg s)"
  by (simp add: failJob_def update_job.service)

lemma completeJob_inv [intro]: "serviceInv s \<Longrightarrow> serviceInv (completeJob clk job s)"
  by (simp add: completeJob_def update_job.service)

lemma cut_verdictOk:
  "ValidateVerdict (vdVerdict v) (AbstentionReason v) (AdjustedSeverity v) (vdConfidence v)
     (EvidenceCitations v) = None \<Longrightarrow> backed ps (vdJobID v) (vdFindingID v) (vdModel v) \<Longrightarrow>
   verdictOk ps (v\<lparr>Reasoning := take 1000 (Reasoning v)\<rparr>)"
  by (simp add: verdictOk_def)

lemma persistVerdict_inv:
  assumes "persistVerdict clk job v p s = (r, s')" and "serviceInv s"
    and "pvJobID p = vdJobID v" "pvFindingID p = vdFindingID v" "pvModel p = vdModel v"
  shows "serviceInv s'"
proof -
  obtain e s1 where rec: "onStore (RecordProvenance [] p) s = (e, s1)" by fastforce
  have s1: "serviceInv s1" using record_prov.after [OF rec] assms(2) by simp
  show ?thesis
  proof (cases e)
    case None
    have "backed (lsProvs (svstore s1)) (vdJobID v) (vdFindingID v) (vdModel v)"
      using recorded rec None assms(3-5) by metis
    with assms(1) rec None s1 show ?thesis
      by (auto simp: persistVerdict_def Let_def split: option.splits prod.splits
          dest: cut_verdictOk create_verdict.after)
  qed (use assms(1) rec s1 in \<open>simp add: persistVerdict_def\<close>)
qed

lemma checked_suggestionOk:
  assumes "ValidateSuggestion (RecommendationType g) (CandidatePatch g) (sgConfidence g) True = None"
    and "HumanApprovalRequired g" and "backed ps (sgJobID g) (sgFindingID g) (sgModel g)"
  shows "suggestionOk ps (checkedSuggestion g)"
  using assms
  by (auto simp: suggestionOk_def checkedSuggestion_def ValidateSuggestion_def
      split: option.splits if_splits)

lemma Authorize_config:
  "Authorize clk s (Some g) = (r, g') \<Longrightarrow> \<exists>g1. g' = Some g1 \<and> gcfg g1 = gcfg g"
  by (cases clk) (auto simp: Authorize_budget split: if_splits)

lemma Authorize_ok:
  assumes "Authorize clk s gov = ((True, dry, reason), gov')"
  shows "ValidationStatus s = ''passed'' \<and> snd (AgentWillApplyPatch (CandidatePatch s)) = None \<and>
    passedControls gov s dry"
proof (cases gov)
  case None
  with assms show ?thesis by (simp add: Authorize_def)
next
  case (Some g)
  with assms show ?thesis
    by (cases clk) (auto simp: Authorize_budget passedControls_def controlRefusal_def
      split: if_splits option.splits)
qed

lemma passedControls_config:
  "gcfg g = gcfg g' \<Longrightarrow> passedControls (Some g) = passedControls (Some g')"
  by (intro ext) (simp add: passedControls_def)

lemma queuedOk_config:
  "Authorize clk s gov = (r, gov') \<Longrightarrow> queuedOk ps gov = queuedOk ps gov'"
proof (cases gov)
  case None
  then show "Authorize clk s gov = (r, gov') \<Longrightarrow> ?thesis" by (simp add: Authorize_def)
next
  case (Some g)
  assume "Authorize clk s gov = (r, gov')"
  with Some obtain g1 where "gov' = Some g1" "gcfg g1 = gcfg g"
    using Authorize_config by blast
  with Some passedControls_config [of g1 g] show ?thesis
    by (intro ext) (simp add: queuedOk_def)
qed

lemma maybeAutoApply_inv:
  assumes "serviceInv s" and "suggestionOk (lsProvs (svstore s)) g"
  shows "serviceInv (maybeAutoApply clk g s)"
proof -
  obtain ok dry reason gov where a: "Authorize (ckGovernor clk) g (svgovernor s) = ((ok, dry, reason), gov)"
    by (metis prod.collapse)
  have "queuedOk ps gov = queuedOk ps (svgovernor s)" for ps
    using queuedOk_config [OF a] by simp
  moreover have "ok \<Longrightarrow> queuedOk (lsProvs (svstore s)) (svgovernor s) (g, dry)"
    using Authorize_ok [of "ckGovernor clk" g "svgovernor s" dry reason gov] a assms(2)
    by (simp add: queuedOk_def)
  ultimately show ?thesis
    using assms(1) a by (auto simp: maybeAutoApply_def serviceInv_def Let_def)
qed

lemma completeJob_provs:
  "set (lsProvs (svstore s)) \<subseteq> set (lsProvs (svstore (completeJob clk job s)))"
  by (simp only: completeJob_def update_job.provs)

lemma persistSuggestion_inv:
  assumes "persistSuggestion clk job g p s = (r, s')" and "serviceInv s"
    and "pvJobID p = sgJobID g" "pvFindingID p = sgFindingID g" "pvModel p = sgModel g"
    and "HumanApprovalRequired g"
  shows "serviceInv s'"
proof -
  obtain e s1 where rec: "onStore (RecordProvenance [] p) s = (e, s1)" by fastforce
  have s1: "serviceInv s1" using record_prov.after [OF rec] assms(2) by simp
  let ?V = "ValidateSuggestion (RecommendationType g) (CandidatePatch g) (sgConfidence g) True"
  show ?thesis
  proof (cases "e = None \<and> ?V = None")
    case True
    then have "backed (lsProvs (svstore s1)) (sgJobID g) (sgFindingID g) (sgModel g)"
      using recorded rec assms(3-5) by metis
    then have ok: "suggestionOk (lsProvs (svstore s1)) (checkedSuggestion g)"
      using checked_suggestionOk True assms(6) by blast
    obtain e2 s2 where cr: "onStore (CreateSuggestion [] (ckDB clk) (checkedSuggestion g)) s1 = (e2, s2)"
      by fastforce
    have s2: "serviceInv s2" using create_suggestion.after [OF cr] ok s1 by simp
    have "set (lsProvs (svstore s1)) \<subseteq> set (lsProvs (svstore s2))"
      using create_suggestion.provs [of s1 "[]" "ckDB clk" "checkedSuggestion g"] cr by simp
    then have "suggestionOk (lsProvs (svstore (completeJob clk job s2))) (checkedSuggestion g)"
      using ok completeJob_provs suggestionOk_mono by blast
    then have "serviceInv (maybeAutoApply clk (checkedSuggestion g) (completeJob clk job s2))"
      using maybeAutoApply_inv completeJob_inv s2 by blast
    with assms(1) rec True cr s2 show ?thesis
      by (auto simp: persistSuggestion_def Let_def split: option.splits)
  qed (use assms(1) rec s1 in \<open>auto simp: persistSuggestion_def split: option.splits\<close>)
qed

lemmas persist_inv = persistVerdict_inv [OF surjective_pairing] persistSuggestion_inv [OF surjective_pairing]

lemma AnalyzeFinding_inv: "serviceInv s \<Longrightarrow> serviceInv (snd (AnalyzeFinding env clk jobID ev s))"
  unfolding AnalyzeFinding_def
  by (auto split: prod.splits sum.splits
      dest: startJob_inv callLLMForVerdict_inv callLLMForVerdict_prov intro!: persist_inv)

lemma GenerateRemediation_inv:
  "serviceInv s \<Longrightarrow> serviceInv (snd (GenerateRemediation env clk jobID ev s))"
  unfolding GenerateRemediation_def
  by (auto split: prod.splits sum.splits
      dest: startJob_inv callLLMForRemediation_inv callLLMForRemediation_prov intro!: persist_inv)

lemma SubmitAnalysisJob_inv:
  "serviceInv s \<Longrightarrow> serviceInv (snd (SubmitAnalysisJob env now f j c s))"
  unfolding SubmitAnalysisJob_def uuid_def Let_def
  by (auto split: prod.splits option.splits dest: create_job.after)

lemma llm_step_inv: "llm_step env s s' \<Longrightarrow> serviceInv s \<Longrightarrow> serviceInv s'"
  by (induction rule: llm_step.induct)
    (simp_all add: SubmitAnalysisJob_inv AnalyzeFinding_inv GenerateRemediation_inv
      review_verdict.service review_suggestion.service, simp add: serviceInv_def storeInv_def)

lemma reachable_inv: "llm_reachable env s \<Longrightarrow> serviceInv s"
proof (induction rule: llm_reachable.induct)
  case (started g enq cfg)
  show ?case
    by (simp add: serviceInv_def storeInv_def EnableAutonomousRemediation_def NewService_def emptyStore_def)
qed (rule llm_step_inv)

subsection \<open>A concrete provider\<close>

definition demo_verdict :: rawVerdict where
  "demo_verdict = \<lparr>rvVerdict = ''confirmed'', rvAdjusted = None, rvConfidence = 1, rvReasoning = [],
     rvCitations = [''f''], rvAbstention = []\<rparr>"

definition demo_raw :: rawSuggestion where
  "demo_raw = \<lparr>rsType = ''config_change'', rsTarget = [], rsPatch = demo_patch, rsAssumptions = [],
     rsNotes = [], rsRequired = [], rsConfidence = 1\<rparr>"

text \<open>A provider that always answers; the decoders report \<open>err\<close> over what they filled in.\<close>

definition demo_llm :: "goerror \<Rightarrow> LLMEnv" where
  "demo_llm err =
     \<lparr>envMarshal = (\<lambda>_ _ _ _. []), envPost = (\<lambda>_ _ _. Responded 200 []),
      envResponse = (\<lambda>_. Inr \<lparr>arContents = [[]], arPromptTokens = 0, arCompletionTokens = 0, arModel = ''m''\<rparr>),
      envVerdict = (\<lambda>_. (err, demo_verdict)), envSuggestion = (\<lambda>_. (err, demo_raw)),
      envSha256 = (\<lambda>_. []), envInjection = (\<lambda>_. []), envUUID = (\<lambda>n. replicate (Suc n) (CHR ''u'')),
      envAPIKey = ''k'', envLatency = 0\<rparr>"

definition demo_clock :: LLMClock where
  "demo_clock = \<lparr>ckStart = 0, ckLimit1 = 0, ckLimit2 = 0, ckDone = 0, ckDB = 0, ckGovernor = (0, 0, 0)\<rparr>"

definition demo_governor :: RemediationGovernor where
  "demo_governor = NewGovernor \<lparr>Enabled = True, DryRunOnly = True, MinConfidence = 0,
     AllowedTypes = [''config_change'', ''compensating_control''], MaxPerHour = 3, AllowedHours = []\<rparr>"

definition demo_service :: "LLMEnv \<Rightarrow> LLMService" where
  "demo_service env = EnableAutonomousRemediation (Some demo_governor) True (NewService env emptyStore
     \<lparr>BaseURL = ''b'', ModelAnalysis = ''a'', ModelRemediation = ''r'',
      CapabilityMode = ''suggest_remediation'', MaxTokensPerRequest = 0, MaxRequestsPerMinute = 0\<rparr>)"

definition demo_submitted :: "LLMEnv \<Rightarrow> LLMService" where
  "demo_submitted env = snd (SubmitAnalysisJob env 0 ''f'' ''remediation_suggestion'' [] (demo_service env))"

definition demo_analyzed :: "goerror \<Rightarrow> LLMService" where
  "demo_analyzed err = snd (AnalyzeFinding (demo_llm err) demo_clock ''u'' [] (demo_submitted (demo_llm err)))"

definition demo_generated :: "goerror \<Rightarrow> LLMService" where
  "demo_generated err = snd (GenerateRemediation (demo_llm err) demo_clock ''u'' [] (demo_submitted (demo_llm err)))"

lemma demo_reachable:
  "llm_reachable env (demo_submitted env)"
  unfolding demo_submitted_def demo_service_def
  by (rule llm_reachable.step [OF llm_reachable.started llm_step.submit])

lemma demo_analyzed_reachable: "llm_reachable (demo_llm err) (demo_analyzed err)"
  unfolding demo_analyzed_def by (rule llm_reachable.step [OF demo_reachable llm_step.analyze])


definition demo_response :: apiResponse where
  "demo_response = \<lparr>arContents = [[]], arPromptTokens = 0, arCompletionTokens = 0, arModel = ''m''\<rparr>"

lemma demo_provider:
  "svlimiter s = Some (newRateLimiter 0 w) \<Longrightarrow>
   callProvider (demo_llm err) demo_clock m sys ev s = (Inr ([], demo_response, [], []), s)"
  by (simp add: callProvider_def demo_llm_def allow_def newRateLimiter_def demo_clock_def
      stripFences_def trimSpace_def HashString_def hexEncode_def demo_response_def hasPrefix_def)

lemmas demo_defs = demo_submitted_def demo_service_def EnableAutonomousRemediation_def NewService_def
  SubmitAnalysisJob_def uuid_def onStore_def CreateAnalysisJob_def exec_def emptyStore_def
  CanSuggestRemediation_def tblInsert_def

lemma demo_submitted_state:
  "demo_submitted (demo_llm err) = (demo_service (demo_llm err))
     \<lparr>svuuid := 1, svstore := emptyStore\<lparr>lsJobs :=
       [\<lparr>jbJobID = ''u'', jbFindingID = ''f'', JobType = ''remediation_suggestion'', jbStatus = ''queued'',
         jbErrorMsg = [], jbCreatedBy = [], jbCreatedAt = 0, jbStartedAt = None, jbCompletedAt = None\<rparr>]\<rparr>\<rparr>"
  by (simp add: demo_defs demo_llm_def)

lemma demo_service_fields [simp]:
  "svmode (demo_service (demo_llm err)) = ''suggest_remediation''"
  "svlimiter (demo_service (demo_llm err)) = Some (newRateLimiter 0 60000000000)"
  "svgovernor (demo_service (demo_llm err)) = Some demo_governor"
  "svhasEnqueuer (demo_service (demo_llm err))"
  "svenqueued (demo_service (demo_llm err)) = []"
  by (simp_all add: demo_service_def EnableAutonomousRemediation_def NewService_def demo_llm_def)

lemma demo_started:
  "startJob demo_clock ''u'' (demo_submitted (demo_llm err)) =
     (let job = \<lparr>jbJobID = ''u'', jbFindingID = ''f'', JobType = ''remediation_suggestion'',
         jbStatus = ''running'', jbErrorMsg = [], jbCreatedBy = [], jbCreatedAt = 0,
         jbStartedAt = Some 0, jbCompletedAt = None\<rparr>
      in (Inr job, (demo_submitted (demo_llm err))\<lparr>svstore := emptyStore\<lparr>lsJobs := [job]\<rparr>\<rparr>))"
  by (simp add: demo_submitted_state startJob_def onStore_def GetAnalysisJob_def exec_def tblFind_def
      UpdateAnalysisJob_def tblUpdate_def jobColumns_def demo_clock_def emptyStore_def)

lemma demo_uuid: "envUUID (demo_llm err) n = replicate (Suc n) (CHR ''u'')"
  by (simp add: demo_llm_def)

lemma demo_verdict_call:
  "decodedVerdict (demo_llm None) [] = demo_verdict"
  "decodedSuggestion (demo_llm None) [] = demo_raw"
  by (simp_all add: decodedVerdict_def decodedSuggestion_def demo_llm_def)

lemma demo_mode: "svmode (demo_submitted (demo_llm err)) = ''suggest_remediation''"
  by (simp add: demo_submitted_state)

lemmas demo_pipeline = Let_def demo_submitted_state demo_provider uuid_def demo_uuid demo_verdict_call
  onStore_def RecordProvenance_def provenanceOf_def exec_def emptyStore_def demo_response_def
  completeJob_def UpdateAnalysisJob_def

lemma demo_analyzed_value: "map vdVerdict (lsVerdicts (svstore (demo_analyzed None))) = [''confirmed'']"
  unfolding demo_analyzed_def AnalyzeFinding_def demo_mode demo_started
  by (simp add: demo_pipeline callLLMForVerdict_def persistVerdict_def ValidateVerdict_def
      demo_verdict_def verdictValues_def CreateVerdict_def)

lemma demo_analyzed_result:
  "\<exists>v. fst (AnalyzeFinding (demo_llm None) demo_clock ''u'' [] (demo_submitted (demo_llm None))) = Inr v \<and>
     vdVerdict v = ''confirmed''"
  unfolding AnalyzeFinding_def demo_mode demo_started
  by (simp add: demo_pipeline callLLMForVerdict_def persistVerdict_def ValidateVerdict_def
      demo_verdict_def verdictValues_def CreateVerdict_def)

lemma demo_governed:
  "CandidatePatch g = demo_patch \<Longrightarrow> ValidationStatus g = ''passed'' \<Longrightarrow>
   RecommendationType g \<in> {''config_change'', ''compensating_control''} \<Longrightarrow> 0 \<le> sgConfidence g \<Longrightarrow>
   \<exists>gov. Authorize (0, 0, 0) g (Some demo_governor) = ((True, True, []), gov)"
proof -
  assume a: "CandidatePatch g = demo_patch" "ValidationStatus g = ''passed''"
    "RecommendationType g \<in> {''config_change'', ''compensating_control''}" "0 \<le> sgConfidence g"
  have p: "AgentWillApplyPatch demo_patch = (''etc/app.conf'', None)" "demo_patch \<noteq> []"
    by code_simp+
  have "controlRefusal (gcfg demo_governor) 0 g = None"
    using a p by (auto simp: controlRefusal_def demo_governor_def NewGovernor_def withinWindow_def)
  moreover have "fst (allow 0 0 (gbudget demo_governor))" "DryRunOnly (gcfg demo_governor)"
    by (simp_all add: demo_governor_def NewGovernor_def allow_def newRateLimiter_def)
  ultimately show ?thesis by (simp add: Authorize_budget)
qed

lemma demo_patch_valid: "ValidatePatch demo_patch = None" "length demo_patch \<le> 4096"
  by code_simp+

subsection \<open>Properties\<close>

text \<open>
  C1: No unchecked verdict is ever stored. In every reachable state each row of \<open>llm_verdicts\<close> has one
  of the five values, a confidence in [0, 1], citations (or, when abstaining, a reason), an adjusted
  severity in [1, 5] exactly when it adjusts the severity, at most 1000 bytes of reasoning, and a
  provenance record of the same job, finding and model.
\<close>

theorem stored_verdicts_valid:
  assumes "llm_reachable env s" and "v \<in> set (lsVerdicts (svstore s))"
  shows "vdVerdict v \<in> set verdictValues \<and> 0 \<le> vdConfidence v \<and> vdConfidence v \<le> 1 \<and>
    (if vdVerdict v = ''abstain'' then trimSpace (AbstentionReason v) \<noteq> [] else EvidenceCitations v \<noteq> []) \<and>
    (case AdjustedSeverity v of None \<Rightarrow> vdVerdict v \<noteq> ''severity_adjusted''
     | Some n \<Rightarrow> vdVerdict v = ''severity_adjusted'' \<and> 1 \<le> n \<and> n \<le> 5) \<and>
    length (Reasoning v) \<le> 1000 \<and>
    (\<exists>p. p \<in> set (lsProvs (svstore s)) \<and> pvJobID p = vdJobID v \<and> pvFindingID p = vdFindingID v \<and>
      pvModel p = vdModel v)"
proof -
  have "verdictOk (lsProvs (svstore s)) v"
    using reachable_inv [OF assms(1)] assms(2) by (auto simp: serviceInv_def storeInv_def)
  then show ?thesis
    by (auto simp: verdictOk_def backed_def ValidateVerdict_def split: if_splits option.splits)
qed

theorem stored_verdicts_valid_witness:
  "\<exists>v. lsVerdicts (svstore (demo_analyzed None)) = [v] \<and> length (Reasoning v) \<le> 1000"
proof -
  obtain v where v: "lsVerdicts (svstore (demo_analyzed None)) = [v]"
    using demo_analyzed_value by (auto simp: Cons_eq_map_conv)
  with stored_verdicts_valid [OF demo_analyzed_reachable, of v None] show ?thesis by simp
qed


text \<open>A suggestion that the pipeline takes all the way, on a store without the job's suggestion.\<close>

lemma maybeAutoApply_demo:
  assumes "svgovernor s = Some demo_governor" and "svhasEnqueuer s" and "CandidatePatch g = demo_patch"
    and "ValidationStatus g = ''passed''" and "0 \<le> sgConfidence g"
    and "RecommendationType g \<in> {''config_change'', ''compensating_control''}"
  shows "svenqueued (maybeAutoApply demo_clock g s) = svenqueued s @ [(g, True)]"
proof -
  obtain gov where "Authorize (0, 0, 0) g (Some demo_governor) = ((True, True, []), gov)"
    using demo_governed assms(3-6) by blast
  with assms(1,2) show ?thesis by (simp add: maybeAutoApply_def demo_clock_def)
qed

lemma completeJob_fields [simp]:
  "svgovernor (completeJob clk job s) = svgovernor s"
  "svhasEnqueuer (completeJob clk job s) = svhasEnqueuer s"
  "svenqueued (completeJob clk job s) = svenqueued s"
  by (simp_all add: completeJob_def onStore_def case_prod_unfold Let_def)

lemma persistSuggestion_demo:
  assumes "svgovernor s = Some demo_governor" and "svhasEnqueuer s" and "CandidatePatch g = demo_patch"
    and "0 \<le> sgConfidence g" and "sgConfidence g \<le> 1"
    and "RecommendationType g \<in> {''config_change'', ''compensating_control''}"
    and "fst (onStore (RecordProvenance [] p) s) = None"
    and "fst (onStore (CreateSuggestion [] 0 (g\<lparr>ValidationStatus := ''passed''\<rparr>))
      (snd (onStore (RecordProvenance [] p) s))) = None"
  shows "svenqueued (snd (persistSuggestion demo_clock job g p s)) =
    svenqueued s @ [(g\<lparr>ValidationStatus := ''passed''\<rparr>, True)]"
proof -
  obtain s1 where s1: "onStore (RecordProvenance [] p) s = (None, s1)"
    using assms(7) by (metis prod.collapse)
  obtain s2 where s2: "onStore (CreateSuggestion [] 0 (g\<lparr>ValidationStatus := ''passed''\<rparr>)) s1 = (None, s2)"
    using assms(8) s1 by (metis prod.collapse snd_conv)
  have fields: "svgovernor s2 = svgovernor s" "svhasEnqueuer s2 = svhasEnqueuer s" "svenqueued s2 = svenqueued s"
    using s1 s2 by (auto simp: onStore_def split: prod.splits)
  have "ValidateSuggestion (RecommendationType g) (CandidatePatch g) (sgConfidence g) True = None"
    using assms demo_patch_valid by (auto simp: ValidateSuggestion_def recommendationTypes_def)
  moreover have "checkedSuggestion g = g\<lparr>ValidationStatus := ''passed''\<rparr>"
    using assms(3) demo_patch_valid by (simp add: checkedSuggestion_def)
  moreover have "ckDB demo_clock = 0" by (simp add: demo_clock_def)
  ultimately show ?thesis
    using s1 s2 maybeAutoApply_demo [of "completeJob demo_clock job s2" "g\<lparr>ValidationStatus := ''passed''\<rparr>"]
      fields assms(1-6)
    by (simp add: persistSuggestion_def Let_def)
qed

lemma demo_generated_value:
  assumes "sg = decodedSuggestion (demo_llm err) []" and "rsPatch sg = demo_patch"
    and "0 \<le> rsConfidence sg" and "rsConfidence sg \<le> 1"
    and "rsType sg \<in> {''config_change'', ''compensating_control''}"
  shows "\<exists>g. svenqueued (demo_generated err) = [(g, True)] \<and> CandidatePatch g = demo_patch \<and>
    RecommendationType g = rsType sg"
proof -
  have m: "CanSuggestRemediation (demo_submitted (demo_llm err))"
    by (simp add: CanSuggestRemediation_def demo_mode)
  show ?thesis
    unfolding demo_generated_def GenerateRemediation_def demo_mode demo_started
    using m assms(2-5)
    by (simp add: callLLMForRemediation_def demo_provider Let_def demo_submitted_state uuid_def
        demo_uuid demo_response_def assms(1) [symmetric])
      (subst persistSuggestion_demo;
       simp add: onStore_def RecordProvenance_def CreateSuggestion_def exec_def emptyStore_def
         provenanceOf_def Let_def)
qed



text \<open>
  An unreadable suggestion is not always patch-free. When decoding fails, the code resets type,
  notes, confidence and lists but not the patch: whatever patch was decoded before the error stays,
  is validated, and can be enqueued as a compensating control with confidence zero.
\<close>

theorem degraded_suggestion_keeps_patch:
  "rsPatch (decodedSuggestion env content) = rsPatch (snd (envSuggestion env content)) \<and>
   (\<exists>g. svenqueued (demo_generated (Some ''cannot unmarshal string into field assumptions'')) = [(g, True)] \<and>
     RecommendationType g = ''compensating_control'' \<and> CandidatePatch g = demo_patch)"
proof
  show "rsPatch (decodedSuggestion env content) = rsPatch (snd (envSuggestion env content))"
    by (simp add: decodedSuggestion_def split: prod.splits option.splits)
  let ?err = "Some ''cannot unmarshal string into field assumptions''"
  have "rsPatch (decodedSuggestion (demo_llm ?err) []) = demo_patch"
    "rsConfidence (decodedSuggestion (demo_llm ?err) []) = 0"
    "rsType (decodedSuggestion (demo_llm ?err) []) = ''compensating_control''"
    by (simp_all add: decodedSuggestion_def demo_llm_def demo_raw_def)
  then show "\<exists>g. svenqueued (demo_generated ?err) = [(g, True)] \<and>
      RecommendationType g = ''compensating_control'' \<and> CandidatePatch g = demo_patch"
    using demo_generated_value [OF refl, of ?err] by auto
qed

subsection \<open>Reading a verdict back\<close>

lemma exec_clean: "lsFaults db = [] \<Longrightarrow> exec act db = act db"
  by (simp add: exec_def)

lemma startJob_clean:
  assumes "startJob clk jobID s = (Inr job, s')" and "lsFaults (svstore s) = []"
  shows "jbJobID job = jobID \<and> map jbJobID (lsJobs (svstore s')) = map jbJobID (lsJobs (svstore s)) \<and>
    jobID \<in> jbJobID ` set (lsJobs (svstore s)) \<and> lsFaults (svstore s') = [] \<and>
    lsVerdicts (svstore s') = lsVerdicts (svstore s) \<and> svuuid s' = svuuid s"
  using assms
  by (auto simp: startJob_def onStore_def GetAnalysisJob_def UpdateAnalysisJob_def exec_clean Let_def
      job_update.map_key dest!: tblFind_Some split: prod.splits option.splits sum.splits if_splits)

lemma callLLMForVerdict_row:
  "callLLMForVerdict env clk job ev s = (Inr (v, p), s') \<Longrightarrow>
   vdJobID v = jbJobID job \<and> VerdictID v = envUUID env (svuuid s) \<and> svstore s' = svstore s \<and>
   vdReviewDecision v = [] \<and> vdReviewedBy v = [] \<and> vdReviewedAt v = None \<and> vdReviewNote v = []"
  by (auto simp: callLLMForVerdict_def callProvider_def uuid_def Let_def split: prod.splits sum.splits if_splits)

lemma find_appended: "x \<notin> key ` set t \<Longrightarrow> key r = x \<Longrightarrow> tblFind key x (t @ [r]) = Some r"
  by (induction t) (auto simp: tblFind_def)

lemma jobs_completed:
  assumes "jbJobID job \<in> jbJobID ` set t" and "jbStatus job = ''completed''"
  shows "\<exists>j. tblFind jbJobID (jbJobID job) (tblUpdate jbJobID (jbJobID job) (jobColumns job) t) = Some j \<and>
    jbStatus j = ''completed''"
proof -
  obtain j where "tblFind jbJobID (jbJobID job) t = Some j"
    using assms(1) by (cases "tblFind jbJobID (jbJobID job) t") auto
  then show ?thesis using assms(2) by (simp add: job_update.find_same) (simp add: jobColumns_def)
qed

lemma persistVerdict_clean:
  assumes "persistVerdict clk job v0 p s = (Inr v, s')" and "lsFaults (svstore s) = []"
    and "VerdictID v0 \<notin> VerdictID ` set (lsVerdicts (svstore s))" and "VerdictID v0 \<noteq> []"
    and "vdJobID v0 = jbJobID job"
    and "vdReviewDecision v0 = []" "vdReviewedBy v0 = []" "vdReviewedAt v0 = None" "vdReviewNote v0 = []"
  shows "lsVerdicts (svstore s') = lsVerdicts (svstore s) @ [v\<lparr>vdCreatedAt := ckDB clk\<rparr>] \<and>
    vdJobID v = jbJobID job \<and> jbJobID job \<notin> vdJobID ` set (lsVerdicts (svstore s)) \<and>
    lsFaults (svstore s') = [] \<and>
    lsJobs (svstore s') = tblUpdate jbJobID (jbJobID job)
      (jobColumns (job\<lparr>jbStatus := ''completed'', jbCompletedAt := Some (ckDone clk)\<rparr>)) (lsJobs (svstore s)) \<and>
    jbJobID job \<in> jbJobID ` set (lsJobs (svstore s))"
  using assms
  by (auto simp: persistVerdict_def completeJob_def onStore_def RecordProvenance_def CreateVerdict_def
      UpdateAnalysisJob_def exec_clean Let_def split: prod.splits option.splits if_splits)

text \<open>
  A verdict that was returned can be read back. With no database fault and a fresh UUID, when
  \<open>AnalyzeFinding\<close> returns a verdict the job is completed and \<open>GetJobResult\<close> returns that verdict, with
  the database's creation time.
\<close>

theorem analyzed_verdict_readable:
  assumes "AnalyzeFinding env clk jobID evidence s = (Inr v, s')" and "lsFaults (svstore s) = []"
    and "envUUID env (svuuid s) \<noteq> []"
    and "envUUID env (svuuid s) \<notin> VerdictID ` set (lsVerdicts (svstore s))"
  shows "fst (GetJobResult jobID s') = Inr (Some (v\<lparr>vdCreatedAt := ckDB clk\<rparr>))"
proof -
  from assms(1) obtain job s1 v0 p s2 where
    start: "startJob clk jobID s = (Inr job, s1)" and
    call: "callLLMForVerdict env clk job evidence s1 = (Inr (v0, p), s2)" and
    persist: "persistVerdict clk job v0 p s2 = (Inr v, s')"
    by (auto simp: AnalyzeFinding_def split: if_splits prod.splits sum.splits)
  note st = startJob_clean [OF start assms(2)] and row = callLLMForVerdict_row [OF call]
  have fin: "lsVerdicts (svstore s') = lsVerdicts (svstore s2) @ [v\<lparr>vdCreatedAt := ckDB clk\<rparr>]"
    "vdJobID v = jbJobID job" "jbJobID job \<notin> vdJobID ` set (lsVerdicts (svstore s2))"
    "lsFaults (svstore s') = []"
    "lsJobs (svstore s') = tblUpdate jbJobID (jbJobID job)
      (jobColumns (job\<lparr>jbStatus := ''completed'', jbCompletedAt := Some (ckDone clk)\<rparr>)) (lsJobs (svstore s2))"
    "jbJobID job \<in> jbJobID ` set (lsJobs (svstore s2))"
    using persistVerdict_clean [OF persist] st row assms(3,4) by simp_all
  obtain j where "tblFind jbJobID jobID (lsJobs (svstore s')) = Some j" "jbStatus j = ''completed''"
    using jobs_completed [of "job\<lparr>jbStatus := ''completed'', jbCompletedAt := Some (ckDone clk)\<rparr>"
      "lsJobs (svstore s2)"] fin(5,6) st by auto
  moreover have "tblFind vdJobID jobID (lsVerdicts (svstore s')) = Some (v\<lparr>vdCreatedAt := ckDB clk\<rparr>)"
    unfolding fin(1) by (rule find_appended) (use fin(2,3) st in auto)
  ultimately show ?thesis
    using fin(4) by (simp add: GetJobResult_def GetAnalysisJob_def GetVerdictByJob_def onStore_def exec_clean)
qed

theorem analyzed_verdict_readable_witness:
  "\<exists>v. fst (GetJobResult ''u'' (demo_analyzed None)) = Inr (Some v) \<and> vdVerdict v = ''confirmed''"
proof -
  let ?r = "AnalyzeFinding (demo_llm None) demo_clock ''u'' [] (demo_submitted (demo_llm None))"
  obtain v where v: "fst ?r = Inr v" "vdVerdict v = ''confirmed''" using demo_analyzed_result by blast
  then have "?r = (Inr v, demo_analyzed None)" by (simp add: demo_analyzed_def prod_eq_iff)
  from analyzed_verdict_readable [OF this] v(2) show ?thesis
    by (simp add: demo_submitted_state emptyStore_def demo_uuid)
qed

text \<open>
  A fault between the provider call and the verdict leaves the job running for good: the error is
  returned but the row keeps its status, as no later call resumes a running job.
\<close>

theorem provenance_fault_leaves_running:
  fixes s defines "s \<equiv> demo_submitted (demo_llm None)"
  defines "r \<equiv> AnalyzeFinding (demo_llm None) demo_clock ''u'' []
    (s\<lparr>svstore := (svstore s)\<lparr>lsFaults := [None, None, Some ''timeout'']\<rparr>\<rparr>)"
  shows "fst r = Inl ''record provenance: timeout'' \<and>
    map jbStatus (lsJobs (svstore (snd r))) = [''running'']"
  unfolding r_def s_def AnalyzeFinding_def
  by (simp add: demo_pipeline startJob_def GetAnalysisJob_def tblFind_def tblUpdate_def jobColumns_def
      callLLMForVerdict_def persistVerdict_def)

end
