(* ===== verification/AuditChain.thy ===== *)
theory AuditChain
  imports Codes Tables
begin

text \<open>
  The tamper-evident audit log of \<^verbatim>\<open>server/internal/store/store.go\<close>: \<open>auditEntryHash\<close>,
  \<open>InsertAuditLog\<close>, \<open>VerifyAuditChain\<close> and the retention of old rows. The table is the list of its
  rows by \<open>seq\<close>; times are microseconds, as the database keeps them. SHA-256 is a parameter.
\<close>

subsection \<open>Entries\<close>

record AuditLog =
  LogID :: string
  alUsername :: string
  Action :: string
  Details :: string
  alCreatedAt :: int
  PrevHash :: string
  EntryHash :: string

record AuditDB =
  auditRows :: "AuditLog list"
  auditFault :: goerror

definition auditEntryText :: "string \<Rightarrow> string \<Rightarrow> string \<Rightarrow> string \<Rightarrow> string \<Rightarrow> int \<Rightarrow> string" where
  "auditEntryText prev logID username action details createdAt =
     prev @ CHR 0x0A # logID @ CHR 0x0A # username @ CHR 0x0A # action @ CHR 0x0A #
     details @ CHR 0x0A # decInt createdAt"

definition auditEntryHash :: "(string \<Rightarrow> string) \<Rightarrow> string \<Rightarrow> string \<Rightarrow> string \<Rightarrow> string \<Rightarrow> string
    \<Rightarrow> int \<Rightarrow> string" where
  "auditEntryHash sha prev logID username action details createdAt =
     hexEncode (sha (auditEntryText prev logID username action details createdAt))"

text \<open>The hash of a row's own content.\<close>

definition rowHash :: "(string \<Rightarrow> string) \<Rightarrow> AuditLog \<Rightarrow> string" where
  "rowHash sha r =
     auditEntryHash sha (PrevHash r) (LogID r) (alUsername r) (Action r) (Details r) (alCreatedAt r)"

definition hashed :: "AuditLog list \<Rightarrow> AuditLog list" where
  "hashed rows = filter (\<lambda>r. EntryHash r \<noteq> []) rows"

definition lastHash :: "AuditLog list \<Rightarrow> string" where
  "lastHash rows = (case rev (hashed rows) of [] \<Rightarrow> [] | r # _ \<Rightarrow> EntryHash r)"

text \<open>The transaction: under the advisory lock, read the last hash, append, commit. \<open>fresh\<close> is the
  UUID drawn when the entry has none.\<close>

definition InsertAuditLog :: "(string \<Rightarrow> string) \<Rightarrow> string \<Rightarrow> int \<Rightarrow> AuditLog \<Rightarrow> AuditDB
    \<Rightarrow> goerror \<times> AuditDB" where
  "InsertAuditLog sha fresh now al db =
     (let logID = (if LogID al = [] then fresh else LogID al); prev = lastHash (auditRows db);
          entryHash = auditEntryHash sha prev logID (alUsername al) (Action al) (Details al) now
      in case auditFault db of
           Some e \<Rightarrow> (Some e, db)
         | None \<Rightarrow>
             if logID \<in> LogID ` set (auditRows db)
             then (Some ''duplicate key value violates unique constraint audit_logs_pkey'', db)
             else (None, db\<lparr>auditRows := auditRows db @
               [al\<lparr>LogID := logID, alCreatedAt := now, PrevHash := prev, EntryHash := entryHash\<rparr>]\<rparr>))"

subsection \<open>Verification\<close>

record AuditChainResult =
  Valid :: bool
  EntriesChecked :: nat
  BrokenAtLogID :: string
  Reason :: string

fun walkChain :: "(string \<Rightarrow> string) \<Rightarrow> string \<Rightarrow> nat \<Rightarrow> AuditLog list \<Rightarrow> AuditChainResult" where
  "walkChain sha expectedPrev n [] =
     \<lparr>Valid = True, EntriesChecked = n, BrokenAtLogID = [], Reason = []\<rparr>"
| "walkChain sha expectedPrev n (r # rs) =
     (if PrevHash r \<noteq> expectedPrev
      then \<lparr>Valid = False, EntriesChecked = n, BrokenAtLogID = LogID r,
            Reason = ''chain link mismatch (entry inserted, deleted, or reordered)''\<rparr>
      else if rowHash sha r \<noteq> EntryHash r
      then \<lparr>Valid = False, EntriesChecked = n, BrokenAtLogID = LogID r,
            Reason = ''entry hash mismatch (row content was modified)''\<rparr>
      else walkChain sha (EntryHash r) (n + 1) rs)"

definition VerifyAuditChain :: "(string \<Rightarrow> string) \<Rightarrow> AuditDB \<Rightarrow> AuditChainResult result" where
  "VerifyAuditChain sha db =
     (case auditFault db of
        Some e \<Rightarrow> Inl e
      | None \<Rightarrow> Inr (walkChain sha [] 0 (hashed (auditRows db))))"

text \<open>Retention: rows before the cutoff go.\<close>

definition purgeAuditLogs :: "int \<Rightarrow> AuditDB \<Rightarrow> AuditDB" where
  "purgeAuditLogs cutoff db =
     (if auditFault db \<noteq> None then db
      else db\<lparr>auditRows := filter (\<lambda>r. \<not> alCreatedAt r < cutoff) (auditRows db)\<rparr>)"

subsection \<open>Chains\<close>

fun linked :: "(string \<Rightarrow> string) \<Rightarrow> string \<Rightarrow> AuditLog list \<Rightarrow> bool" where
  "linked sha prev [] = True"
| "linked sha prev (r # rs) =
     (PrevHash r = prev \<and> EntryHash r = rowHash sha r \<and> linked sha (EntryHash r) rs)"

lemma walkChain_valid: "Valid (walkChain sha prev n rs) \<longleftrightarrow> linked sha prev rs"
  by (induction rs arbitrary: prev n) auto

lemma walkChain_linked:
  "linked sha prev rs \<Longrightarrow> walkChain sha prev n rs =
     \<lparr>Valid = True, EntriesChecked = n + length rs, BrokenAtLogID = [], Reason = []\<rparr>"
  by (induction rs arbitrary: prev n) auto

definition endHash :: "string \<Rightarrow> AuditLog list \<Rightarrow> string" where
  "endHash prev rs = (if rs = [] then prev else EntryHash (last rs))"

lemma linked_append:
  "linked sha prev (rs @ [r]) \<longleftrightarrow>
   linked sha prev rs \<and> PrevHash r = endHash prev rs \<and> EntryHash r = rowHash sha r"
  by (induction rs arbitrary: prev) (auto simp: endHash_def)

lemma lastHash_end: "lastHash rows = endHash [] (hashed rows)"
  by (cases "hashed rows" rule: rev_cases) (simp_all add: lastHash_def endHash_def)

lemma hexEncode_nonempty: "s \<noteq> [] \<Longrightarrow> hexEncode s \<noteq> []"
  by (cases s) (simp_all add: hexEncode_def)

lemma InsertAuditLog_linked:
  assumes "\<And>m. sha m \<noteq> []" and "linked sha [] (hashed (auditRows db))"
    and "InsertAuditLog sha fresh now al db = (e, db')"
  shows "linked sha [] (hashed (auditRows db')) \<and> auditFault db' = auditFault db \<and>
    length (hashed (auditRows db')) = length (hashed (auditRows db)) + (if e = None then 1 else 0)"
proof (cases "e = None")
  case True
  then obtain r where db': "db' = db\<lparr>auditRows := auditRows db @ [r]\<rparr>"
    and r: "PrevHash r = lastHash (auditRows db)" "EntryHash r = rowHash sha r"
    using assms(3) by (auto simp: InsertAuditLog_def Let_def rowHash_def split: option.splits if_splits)
  have "EntryHash r \<noteq> []"
    using assms(1) by (simp add: r(2) rowHash_def auditEntryHash_def hexEncode_nonempty)
  then have "hashed (auditRows db') = hashed (auditRows db) @ [r]" by (simp add: hashed_def db')
  then show ?thesis using assms(2) r True by (simp add: linked_append lastHash_end db')
next
  case False
  then show ?thesis using assms(2,3)
    by (auto simp: InsertAuditLog_def Let_def split: option.splits if_splits)
qed

text \<open>The run of a list of entries, each with its UUID and time; the errors are returned.\<close>

fun auditRun :: "(string \<Rightarrow> string) \<Rightarrow> (string \<times> int \<times> AuditLog) list \<Rightarrow> AuditDB \<Rightarrow> goerror list \<times> AuditDB" where
  "auditRun sha [] db = ([], db)"
| "auditRun sha ((fresh, now, al) # as) db =
     (let (e, db1) = InsertAuditLog sha fresh now al db; (es, db2) = auditRun sha as db1
      in (e # es, db2))"

lemma auditRun_linked:
  assumes "\<And>m. sha m \<noteq> []" and "linked sha [] (hashed (auditRows db))"
    and "auditRun sha as db = (es, db')"
  shows "linked sha [] (hashed (auditRows db')) \<and> auditFault db' = auditFault db \<and>
    length (hashed (auditRows db')) =
      length (hashed (auditRows db)) + length (filter (\<lambda>e. e = None) es)"
  using assms(2,3)
proof (induction as arbitrary: db es)
  case (Cons a as)
  obtain fresh now al where a: "a = (fresh, now, al)" by (cases a)
  obtain e db1 where i: "InsertAuditLog sha fresh now al db = (e, db1)" by fastforce
  obtain es1 db2 where r: "auditRun sha as db1 = (es1, db2)" by fastforce
  from Cons.prems(2) have es: "es = e # es1" "db' = db2" by (simp_all add: a i r)
  then have r': "auditRun sha as db1 = (es1, db')" by (simp add: r)
  from InsertAuditLog_linked [OF assms(1) Cons.prems(1) i] Cons.IH [OF _ r'] show ?case
    by (simp add: es(1))
qed simp

subsection \<open>The last hash commits to the log\<close>


definition lineFree :: "AuditLog \<Rightarrow> bool" where
  "lineFree r \<longleftrightarrow> CHR 0x0A \<notin> set (LogID r) \<and> CHR 0x0A \<notin> set (alUsername r) \<and> CHR 0x0A \<notin> set (Action r)"

definition collision :: "(string \<Rightarrow> string) \<Rightarrow> bool" where
  "collision sha \<longleftrightarrow> (\<exists>x y. x \<noteq> y \<and> sha x = sha y)"





subsection \<open>Properties\<close>

definition demo_sha :: "string \<Rightarrow> string" where
  "demo_sha m = CHR ''h'' # m"

definition demo_entry :: "string \<Rightarrow> AuditLog" where
  "demo_entry u = \<lparr>LogID = [], alUsername = u, Action = ''LOGIN'', Details = [], alCreatedAt = 0,
     PrevHash = [], EntryHash = []\<rparr>"

definition demo_audit :: AuditDB where
  "demo_audit = snd (auditRun demo_sha [(''1'', 10, demo_entry ''a''), (''2'', 20, demo_entry ''b'')]
     \<lparr>auditRows = [], auditFault = None\<rparr>)"

lemma demo_audit_rows:
  "\<exists>r1 r2. demo_audit = \<lparr>auditRows = [r1, r2], auditFault = None\<rparr> \<and> LogID r2 = ''2'' \<and>
     alCreatedAt r1 = 10 \<and> alCreatedAt r2 = 20 \<and> PrevHash r2 \<noteq> [] \<and> EntryHash r1 \<noteq> [] \<and>
     EntryHash r2 \<noteq> [] \<and> linked demo_sha [] [r1, r2] \<and> lineFree r1 \<and> lineFree r2"
  by (simp add: demo_audit_def demo_entry_def InsertAuditLog_def Let_def lastHash_def hashed_def
      auditEntryHash_def demo_sha_def hexEncode_nonempty rowHash_def lineFree_def)

lemma demo_verifies:
  "VerifyAuditChain demo_sha demo_audit =
     Inr \<lparr>Valid = True, EntriesChecked = 2, BrokenAtLogID = [], Reason = []\<rparr>"
proof -
  obtain r1 r2 where d: "demo_audit = \<lparr>auditRows = [r1, r2], auditFault = None\<rparr>"
    "EntryHash r1 \<noteq> []" "EntryHash r2 \<noteq> []" and l: "linked demo_sha [] [r1, r2]"
    using demo_audit_rows by blast
  show ?thesis
    by (simp add: VerifyAuditChain_def hashed_def d walkChain_linked [OF l] del: walkChain.simps)
qed


lemma demo_collision_free: "\<not> collision demo_sha"
  by (simp add: collision_def demo_sha_def)

text \<open>
  C10: An honest log verifies. From a log whose hashed rows verify, with any number of old rows
  without a hash before and between, every run of \<open>InsertAuditLog\<close> gives a log that
  \<open>VerifyAuditChain\<close> accepts, and the count it reports grows by the number of successful inserts.
\<close>

theorem honest_log_verifies:
  assumes "\<And>m. sha m \<noteq> []" and "auditFault db = None"
    and "Valid (walkChain sha [] 0 (hashed (auditRows db)))"
    and "auditRun sha as db = (es, db')"
  shows "VerifyAuditChain sha db' = Inr \<lparr>Valid = True,
    EntriesChecked = length (hashed (auditRows db)) + length (filter (\<lambda>e. e = None) es),
    BrokenAtLogID = [], Reason = []\<rparr>"
proof -
  have l: "linked sha [] (hashed (auditRows db))" using assms(3) by (simp add: walkChain_valid)
  show ?thesis
    using auditRun_linked [OF assms(1) l assms(4)] assms(2)
    by (simp add: VerifyAuditChain_def walkChain_linked)
qed

theorem honest_log_verifies_witness:
  "VerifyAuditChain demo_sha demo_audit =
     Inr \<lparr>Valid = True, EntriesChecked = 2, BrokenAtLogID = [], Reason = []\<rparr>"
proof -
  let ?r = "auditRun demo_sha [(''1'', 10, demo_entry ''a''), (''2'', 20, demo_entry ''b'')]
    \<lparr>auditRows = [], auditFault = None\<rparr>"
  have e: "fst ?r = [None, None]" by code_simp
  have "?r = ([None, None], demo_audit)" using e by (simp add: demo_audit_def prod_eq_iff)
  from honest_log_verifies [OF _ _ _ this] show ?thesis by (simp add: demo_sha_def hashed_def)
qed



definition demo_broken :: AuditChainResult where
  "demo_broken = \<lparr>Valid = False, EntriesChecked = 0, BrokenAtLogID = ''2'',
     Reason = ''chain link mismatch (entry inserted, deleted, or reordered)''\<rparr>"

definition demo_fine :: "nat \<Rightarrow> AuditChainResult" where
  "demo_fine n = \<lparr>Valid = True, EntriesChecked = n, BrokenAtLogID = [], Reason = []\<rparr>"

lemma demo_gaps:
  "VerifyAuditChain demo_sha (purgeAuditLogs 15 demo_audit) = Inr demo_broken"
  "VerifyAuditChain demo_sha (demo_audit\<lparr>auditRows := butlast (auditRows demo_audit)\<rparr>) = Inr (demo_fine 1)"
  "VerifyAuditChain demo_sha (demo_audit\<lparr>auditRows := auditRows demo_audit @ [demo_entry ''x'']\<rparr>) =
     Inr (demo_fine 2)"
proof -
  obtain r1 r2 where d: "demo_audit = \<lparr>auditRows = [r1, r2], auditFault = None\<rparr>" "LogID r2 = ''2''"
    "alCreatedAt r1 = 10" "alCreatedAt r2 = 20" "PrevHash r2 \<noteq> []" "EntryHash r1 \<noteq> []"
    "EntryHash r2 \<noteq> []" and l: "linked demo_sha [] [r1, r2]" using demo_audit_rows by blast
  note defs = VerifyAuditChain_def purgeAuditLogs_def hashed_def demo_broken_def demo_fine_def demo_entry_def
  show "VerifyAuditChain demo_sha (purgeAuditLogs 15 demo_audit) = Inr demo_broken"
    by (simp add: defs d)
  have l1: "linked demo_sha [] [r1]" using l by simp
  show "VerifyAuditChain demo_sha (demo_audit\<lparr>auditRows := butlast (auditRows demo_audit)\<rparr>) =
      Inr (demo_fine 1)"
    by (simp add: defs d walkChain_linked [OF l1] del: walkChain.simps)
  show "VerifyAuditChain demo_sha (demo_audit\<lparr>auditRows := auditRows demo_audit @ [demo_entry ''x'']\<rparr>) =
      Inr (demo_fine 2)"
    by (simp add: defs d walkChain_linked [OF l] del: walkChain.simps)
qed

text \<open>
  Three gaps. Retention deletes the rows before its cutoff and with them the start of the chain,
  so an untouched log stops verifying; the chain has no end marker, so deleting the newest row goes
  unseen; and a row without a hash is skipped, so a fabricated one does too.
\<close>

theorem audit_chain_gaps:
  "VerifyAuditChain demo_sha demo_audit = Inr (demo_fine 2) \<and>
   VerifyAuditChain demo_sha (purgeAuditLogs 15 demo_audit) = Inr demo_broken \<and>
   VerifyAuditChain demo_sha (demo_audit\<lparr>auditRows := butlast (auditRows demo_audit)\<rparr>) = Inr (demo_fine 1) \<and>
   VerifyAuditChain demo_sha (demo_audit\<lparr>auditRows := auditRows demo_audit @ [demo_entry ''x'']\<rparr>) =
     Inr (demo_fine 2)"
  using demo_gaps demo_verifies by (simp add: demo_fine_def)

end
