(* ===== verification/Sessions.thy ===== *)
theory Sessions
  imports AuditChain
begin

text \<open>
  Dashboard sessions: \<^verbatim>\<open>server/internal/httpapi/auth.go\<close>, \<^verbatim>\<open>auth_password.go\<close>,
  \<^verbatim>\<open>ws_ticket.go\<close> and the table \<open>credential_overrides\<close> of \<^verbatim>\<open>store/store.go\<close>. Times are
  nanoseconds; \<open>unixSec\<close> is \<open>Unix()\<close>. HMAC-SHA256, bcrypt, \<open>time.ParseDuration\<close> and the decoder of
  the token's payload are parameters.
\<close>

definition unixSec :: "int \<Rightarrow> int" where
  "unixSec t = t div 1000000000"

definition DefaultTenant :: string where
  "DefaultTenant = ''default''"

subsection \<open>Tokens\<close>

record JWTPayload =
  Sub :: string
  Role :: string
  Tenant :: string
  Iat :: int
  Exp :: int

text \<open>\<open>json.Marshal\<close>; the tenant is omitted when empty.\<close>

definition payloadJSON :: "JWTPayload \<Rightarrow> string" where
  "payloadJSON p =
     CHR ''{'' # jsonString ''sub'' @ '':'' @ jsonString (Sub p) @ '','' @ jsonString ''role'' @ '':'' @
     jsonString (Role p) @
     (if Tenant p = [] then [] else '','' @ jsonString ''tenant'' @ '':'' @ jsonString (Tenant p)) @
     '','' @ jsonString ''iat'' @ '':'' @ decInt (Iat p) @ '','' @ jsonString ''exp'' @ '':'' @
     decInt (Exp p) @ ''}''"

definition headerJSON :: string where
  "headerJSON = CHR ''{'' # jsonString ''alg'' @ '':'' @ jsonString ''HS256'' @ '','' @ jsonString ''typ'' @
     '':'' @ jsonString ''JWT'' @ ''}''"

definition minuteNs :: int where "minuteNs = 60 * 1000000000"

text \<open>\<open>v\<close> is the environment variable, empty when unset.\<close>

definition jwtTTL :: "(string \<Rightarrow> int option) \<Rightarrow> string \<Rightarrow> int" where
  "jwtTTL parseDuration v =
     (let ttl0 = 1440 * minuteNs;
          ttl1 = (if v \<noteq> [] then (case parseDuration v of Some d \<Rightarrow> d | None \<Rightarrow> ttl0) else ttl0);
          ttl2 = (if ttl1 < 5 * minuteNs then 5 * minuteNs else ttl1)
      in if 43200 * minuteNs < ttl2 then 43200 * minuteNs else ttl2)"

definition tokenPayload :: "int \<Rightarrow> int \<Rightarrow> string \<Rightarrow> string \<Rightarrow> string \<Rightarrow> JWTPayload" where
  "tokenPayload ttl now username role tenant =
     \<lparr>Sub = username, Role = role, Tenant = (if tenant = [] then DefaultTenant else tenant),
      Iat = unixSec now, Exp = unixSec (now + ttl)\<rparr>"

definition signToken :: "(string \<Rightarrow> string \<Rightarrow> string) \<Rightarrow> string \<Rightarrow> string \<Rightarrow> string" where
  "signToken hmac secret signingInput =
     signingInput @ CHR ''.'' # rawURLBase64 (hmac secret signingInput)"

definition GenerateToken :: "(string \<Rightarrow> string \<Rightarrow> string) \<Rightarrow> int \<Rightarrow> int \<Rightarrow> string \<Rightarrow> string \<Rightarrow> string
    \<Rightarrow> string \<Rightarrow> string" where
  "GenerateToken hmac ttl now username role tenant secret =
     signToken hmac secret (rawURLBase64 headerJSON @ CHR ''.'' #
       rawURLBase64 (payloadJSON (tokenPayload ttl now username role tenant)))"

text \<open>Subject, role, tenant and issue time.\<close>

definition VerifyToken :: "(string \<Rightarrow> string \<Rightarrow> string) \<Rightarrow> (string \<Rightarrow> JWTPayload result) \<Rightarrow> int \<Rightarrow> string
    \<Rightarrow> string \<Rightarrow> (string \<times> string \<times> string \<times> int) result" where
  "VerifyToken hmac unmarshal now tokenStr secret =
     (case splitOn (CHR ''.'') tokenStr of
        [headerB64, payloadB64, signatureB64] \<Rightarrow>
          (if signatureB64 \<noteq> rawURLBase64 (hmac secret (headerB64 @ CHR ''.'' # payloadB64))
           then Inl ''invalid signature''
           else case rawURLDecode payloadB64 of
                  None \<Rightarrow> Inl ''illegal base64 data''
                | Some bytes \<Rightarrow>
                    (case unmarshal bytes of
                       Inl e \<Rightarrow> Inl e
                     | Inr p \<Rightarrow>
                         if Exp p < unixSec now then Inl ''token expired''
                         else Inr (Sub p, Role p, if Tenant p = [] then DefaultTenant else Tenant p, Iat p)))
      | _ \<Rightarrow> Inl ''invalid token format'')"

subsection \<open>Requests\<close>

record HttpRequest =
  rPath :: string
  rAuthorization :: string
  rHostUUID :: string
  rAgentToken :: string

text \<open>The answer of the middleware: a status and a text, or the next handler with the identity put
  into the context, if any.\<close>

datatype outcome = Reject int string | Pass "(string \<times> string \<times> string) option"

definition publicPaths :: "string list" where
  "publicPaths = [''/api/agent/heartbeat'', ''/api/health'', ''/api/auth/login'', ''/metrics'', ''/api/ws'']"

text \<open>\<open>revokedBefore\<close> and \<open>agentVerify\<close> may be nil; the latter stands for its answer to this request.\<close>

definition AuthMiddleware :: "(string \<Rightarrow> string \<Rightarrow> string) \<Rightarrow> (string \<Rightarrow> JWTPayload result) \<Rightarrow> int
    \<Rightarrow> string \<Rightarrow> string \<Rightarrow> bool \<Rightarrow> (string \<Rightarrow> int) option \<Rightarrow> bool option \<Rightarrow> HttpRequest \<Rightarrow> outcome" where
  "AuthMiddleware hmac unmarshal now secret agentSecret disableAuth revokedBefore agentVerify r =
     (if disableAuth then Pass (Some (''dev-admin'', ''admin'', DefaultTenant))
      else if rPath r = ''/api/agent/config'' \<or> rPath r = ''/api/agent/scan-command''
      then (case agentVerify of
              Some ok \<Rightarrow> if \<not> ok then Reject 401 ''invalid agent authentication'' else Pass None
            | None \<Rightarrow>
                if rHostUUID r = [] \<or> hexEncode (hmac agentSecret (rHostUUID r)) \<noteq> rAgentToken r
                then Reject 401 ''invalid agent authentication'' else Pass None)
      else if rPath r \<in> set publicPaths then Pass None
      else if rAuthorization r = [] then Reject 401 ''missing authorization header''
      else (case splitOn (CHR '' '') (rAuthorization r) of
              [scheme, token] \<Rightarrow>
                if toLower scheme \<noteq> ''bearer'' then Reject 401 ''invalid authorization format''
                else (case VerifyToken hmac unmarshal now token secret of
                        Inl e \<Rightarrow> Reject 401 (''unauthorized: '' @ e)
                      | Inr (username, role, tenant, iat) \<Rightarrow>
                          if (case revokedBefore of None \<Rightarrow> False
                              | Some before \<Rightarrow> 0 < before username \<and> iat < before username)
                          then Reject 401 ''unauthorized: session invalidated by a password change, please log in again''
                          else Pass (Some (username, role, tenant)))
            | _ \<Rightarrow> Reject 401 ''invalid authorization format''))"

text \<open>The gates behind the middleware; the argument is the role of the context, if any.\<close>

definition requireWriteRole :: "string option \<Rightarrow> bool" where
  "requireWriteRole role \<longleftrightarrow> role = Some ''operator'' \<or> role = Some ''admin''"

definition RequireRole :: "string list \<Rightarrow> string option \<Rightarrow> goerror" where
  "RequireRole allowedRoles role =
     (case role of
        None \<Rightarrow> Some ''forbidden: user context missing''
      | Some userRole \<Rightarrow>
          if userRole \<in> set allowedRoles \<or> userRole = ''admin'' then None
          else Some ''forbidden: insufficient permissions'')"

definition TenantFromContext :: "(string \<times> string \<times> string) option \<Rightarrow> string" where
  "TenantFromContext c =
     (case c of Some (u, r, t) \<Rightarrow> if t \<noteq> [] then t else DefaultTenant | None \<Rightarrow> DefaultTenant)"

subsection \<open>Passwords\<close>

record Credential =
  crUsername :: string
  crRole :: string
  crHash :: string
  crTenantID :: string

record CredentialOverride =
  ovUsername :: string
  ovHash :: string
  ovUpdatedAt :: int

text \<open>The override table, the revocation cache and the audit log. \<open>ovReadFault\<close> and
  \<open>ovWriteFault\<close> are the errors a reading or writing statement would meet.\<close>

record AuthState =
  overrides :: "CredentialOverride list"
  ovReadFault :: goerror
  ovWriteFault :: goerror
  revoked :: "string \<Rightarrow> int"
  auditDB :: AuditDB

definition GetCredentialOverride :: "string \<Rightarrow> AuthState \<Rightarrow> (string \<times> int) option result" where
  "GetCredentialOverride username st =
     (case ovReadFault st of
        Some e \<Rightarrow> Inl e
      | None \<Rightarrow> Inr (map_option (\<lambda>o'. (ovHash o', ovUpdatedAt o'))
                   (tblFind ovUsername username (overrides st))))"

definition overrideColumns :: "string \<Rightarrow> int \<Rightarrow> CredentialOverride \<Rightarrow> CredentialOverride" where
  "overrideColumns h now r = r\<lparr>ovHash := h, ovUpdatedAt := now\<rparr>"

definition SetCredentialOverride :: "int \<Rightarrow> string \<Rightarrow> string \<Rightarrow> AuthState \<Rightarrow> int result \<times> AuthState" where
  "SetCredentialOverride now username h st =
     (case ovWriteFault st of
        Some e \<Rightarrow> (Inl e, st)
      | None \<Rightarrow> (Inr now, st\<lparr>overrides :=
          tblUpsert ovUsername \<lparr>ovUsername = username, ovHash = h, ovUpdatedAt = now\<rparr>
            (overrideColumns h now) (overrides st)\<rparr>))"

interpretation override_update: keyed_update ovUsername "overrideColumns h now" for h now
  by unfold_locales (simp add: overrideColumns_def)

text \<open>\<open>ListCredentialOverrides\<close> followed by \<open>seedFromTimes\<close>, as at start-up.\<close>

definition seedRevocations :: "AuthState \<Rightarrow> AuthState" where
  "seedRevocations st =
     (if ovReadFault st \<noteq> None then st
      else st\<lparr>revoked := fold (\<lambda>o' m. m(ovUsername o' := unixSec (ovUpdatedAt o')))
             (overrides st) (revoked st)\<rparr>)"

definition minPasswordLength :: nat where "minPasswordLength = 12"

definition validateNewPassword :: "string \<Rightarrow> string \<Rightarrow> goerror" where
  "validateNewPassword newPassword currentPassword =
     (if length newPassword < minPasswordLength then Some ''new password must be at least 12 characters''
      else if newPassword = currentPassword then Some ''new password must differ from the current password''
      else None)"

definition findCredential :: "string \<Rightarrow> Credential list \<Rightarrow> Credential option" where
  "findCredential username creds = find (\<lambda>c. crUsername c = username) creds"

text \<open>A prior override supersedes the configured hash, if it can be read.\<close>

definition currentHash :: "string \<Rightarrow> string option \<Rightarrow> AuthState \<Rightarrow> string option" where
  "currentHash username configured st =
     (case GetCredentialOverride username st of Inr (Some (h, t)) \<Rightarrow> Some h | _ \<Rightarrow> configured)"

definition passwordAudit :: "string \<Rightarrow> AuditLog" where
  "passwordAudit username =
     \<lparr>LogID = [], alUsername = username, Action = ''PASSWORD_CHANGE'',
      Details = ''password changed; prior sessions invalidated'', alCreatedAt = 0, PrevHash = [],
      EntryHash = []\<rparr>"

text \<open>The handler after the method check: the context's user, the decoded body (\<open>None\<close>: it does not
  decode), bcrypt's comparison and hashing, the database's clock, and for the audit entry a UUID, a
  time and SHA-256. The result is the status and the text.\<close>

definition changePassword :: "(string \<Rightarrow> string \<Rightarrow> bool) \<Rightarrow> (string \<Rightarrow> string option) \<Rightarrow> (string \<Rightarrow> string)
    \<Rightarrow> string \<Rightarrow> int \<Rightarrow> int \<Rightarrow> Credential list \<Rightarrow> string \<Rightarrow> (string \<times> string) option \<Rightarrow> AuthState
    \<Rightarrow> (int \<times> string) \<times> AuthState" where
  "changePassword compare hashPw sha fresh dbNow micros creds username body st =
     (if username = [] then ((401, ''unauthorized''), st)
      else case body of
        None \<Rightarrow> ((400, ''invalid request body''), st)
      | Some (current, new) \<Rightarrow>
          (case currentHash username (map_option crHash (findCredential username creds)) st of
             None \<Rightarrow> ((400, ''password change is not available for this account''), st)
           | Some h \<Rightarrow>
               if \<not> compare h current then ((401, ''current password is incorrect''), st)
               else (case validateNewPassword new current of
                       Some e \<Rightarrow> ((400, e), st)
                     | None \<Rightarrow>
                         (case hashPw new of
                            None \<Rightarrow> ((500, ''could not process password''), st)
                          | Some newHash \<Rightarrow>
                              (case SetCredentialOverride dbNow username newHash st of
                                 (Inl e, st1) \<Rightarrow> ((500, ''could not save new password''), st1)
                               | (Inr updated, st1) \<Rightarrow>
                                   ((204, []),
                                    st1\<lparr>revoked := (revoked st1)(username := unixSec updated),
                                        auditDB := snd (InsertAuditLog sha fresh micros
                                          (passwordAudit username) (auditDB st1))\<rparr>))))))"

definition dummyBcryptHash :: string where
  "dummyBcryptHash = ''$2a$10$N9qo8uLOickgx2ZMRZoMy.Mrq4kZpaX3y0kF1cV1q1qFp9q1q1q1q''"

text \<open>\<open>st\<close> may be nil; the result is the status and, when it is 200, token and role.\<close>

definition LoginHandler :: "(string \<Rightarrow> string \<Rightarrow> string) \<Rightarrow> (string \<Rightarrow> string \<Rightarrow> bool) \<Rightarrow> int \<Rightarrow> int
    \<Rightarrow> string \<Rightarrow> bool \<Rightarrow> Credential list \<Rightarrow> AuthState option \<Rightarrow> string \<Rightarrow> string
    \<Rightarrow> int \<times> (string \<times> string) option" where
  "LoginHandler hmac compare ttl now secret disableAuth creds st username password =
     (let grant = (\<lambda>user role tenant. (200, Some (GenerateToken hmac ttl now user role tenant secret, role))) in
      if disableAuth
      then grant (if username = [] then ''dev-admin'' else username) ''admin'' DefaultTenant
      else
        (let matched = findCredential username creds;
             h = (case matched of
                    None \<Rightarrow> dummyBcryptHash
                  | Some c \<Rightarrow>
                      (case st of
                         None \<Rightarrow> crHash c
                       | Some s \<Rightarrow> the (currentHash (crUsername c) (Some (crHash c)) s)))
         in if \<not> compare h password \<or> matched = None then (401, None)
            else grant username (crRole (the matched))
              (if crTenantID (the matched) \<noteq> [] then crTenantID (the matched) else DefaultTenant)))"

subsection \<open>WebSocket tickets\<close>

definition wsTicketTTL :: int where "wsTicketTTL = 30 * 1000000000"

record wsTicket =
  tkUser :: string
  tkRole :: string
  tkTenant :: string
  tkExpires :: int

type_synonym wsTickets = "string \<Rightarrow> wsTicket option"

definition sweep :: "int \<Rightarrow> wsTickets \<Rightarrow> wsTickets" where
  "sweep now m = (\<lambda>id. case m id of Some t \<Rightarrow> if tkExpires t < now then None else Some t | None \<Rightarrow> None)"

text \<open>\<open>random\<close> are the 32 random bytes, \<open>None\<close> when the reader fails.\<close>

definition issue :: "string option \<Rightarrow> string \<Rightarrow> string \<Rightarrow> string \<Rightarrow> int \<Rightarrow> wsTickets \<Rightarrow> string result \<times> wsTickets" where
  "issue random user role tenant now m =
     (case random of
        None \<Rightarrow> (Inl ''rand'', m)
      | Some buf \<Rightarrow> (Inr (hexEncode buf), (sweep now m)(hexEncode buf \<mapsto>
          \<lparr>tkUser = user, tkRole = role, tkTenant = tenant, tkExpires = now + wsTicketTTL\<rparr>)))"

definition consume :: "string \<Rightarrow> int \<Rightarrow> wsTickets \<Rightarrow> (string \<times> string \<times> string) option \<times> wsTickets" where
  "consume tid now m =
     (if tid = [] then (None, m)
      else case m tid of
             None \<Rightarrow> (None, m)
           | Some t \<Rightarrow> (if tkExpires t < now then None else Some (tkUser t, tkRole t, tkTenant t),
                        m(tid := None)))"

subsection \<open>Tokens are read back\<close>

lemma dot_free: "CHR ''.'' \<notin> set (rawURLBase64 s)"
  by (rule b64Encode_free) code_simp

lemma VerifyToken_signed:
  assumes "CHR ''.'' \<notin> set h"
  shows "VerifyToken hmac unmarshal now (signToken hmac secret (h @ CHR ''.'' # rawURLBase64 body)) secret =
    (case unmarshal body of
       Inl e \<Rightarrow> Inl e
     | Inr p \<Rightarrow> if Exp p < unixSec now then Inl ''token expired''
               else Inr (Sub p, Role p, if Tenant p = [] then DefaultTenant else Tenant p, Iat p))"
  using assms dot_free [of body] dot_free [of "hmac secret (h @ CHR ''.'' # rawURLBase64 body)"]
  by (simp add: VerifyToken_def signToken_def splitOn_free_append splitOn_free)

lemma VerifyToken_generated:
  assumes "unmarshal (payloadJSON p) = Inr p" and "p = tokenPayload ttl now0 username role tenant"
  shows "VerifyToken hmac unmarshal now (GenerateToken hmac ttl now0 username role tenant secret) secret =
    (if unixSec (now0 + ttl) < unixSec now then Inl ''token expired''
     else Inr (username, role, if tenant = [] then DefaultTenant else tenant, unixSec now0))"
  using assms dot_free
  by (simp add: GenerateToken_def VerifyToken_signed) (simp add: tokenPayload_def DefaultTenant_def)

lemma token_no_space: "CHR '' '' \<notin> set (GenerateToken hmac ttl now username role tenant secret)"
proof -
  have "CHR '' '' \<notin> set (rawURLBase64 s)" for s by (rule b64Encode_free) code_simp
  then show ?thesis by (simp add: GenerateToken_def signToken_def)
qed

lemma AuthMiddleware_bearer:
  assumes "rAuthorization r = ''Bearer '' @ token" and "CHR '' '' \<notin> set token"
    and "rPath r \<notin> set publicPaths" "rPath r \<noteq> ''/api/agent/config''" "rPath r \<noteq> ''/api/agent/scan-command''"
  shows "AuthMiddleware hmac unmarshal now secret ak False rb av r =
    (case VerifyToken hmac unmarshal now token secret of
       Inl e \<Rightarrow> Reject 401 (''unauthorized: '' @ e)
     | Inr (username, role, tenant, iat) \<Rightarrow>
         if (case rb of None \<Rightarrow> False | Some before \<Rightarrow> 0 < before username \<and> iat < before username)
         then Reject 401 ''unauthorized: session invalidated by a password change, please log in again''
         else Pass (Some (username, role, tenant)))"
proof -
  have "splitOn (CHR '' '') (''Bearer'' @ CHR '' '' # token) = [''Bearer'', token]"
    using assms(2) by (subst splitOn_free_append) (auto simp: splitOn_free)
  moreover have "toLower ''Bearer'' = ''bearer''" by code_simp
  ultimately show ?thesis using assms by (simp add: AuthMiddleware_def)
qed

lemma jwtTTL_bounds: "5 * minuteNs \<le> jwtTTL pd v \<and> jwtTTL pd v \<le> 43200 * minuteNs"
  by (simp add: jwtTTL_def Let_def minuteNs_def)

lemma findCredential_Some: "findCredential u creds = Some c \<Longrightarrow> c \<in> set creds \<and> crUsername c = u"
  by (auto simp: findCredential_def find_Some_iff)

lemma LoginHandler_ok:
  assumes "LoginHandler hmac compare ttl t0 secret False creds (Some st) user pw = (200, Some (token, role))"
    and "findCredential user creds = Some c"
  shows "compare (the (currentHash user (Some (crHash c)) st)) pw \<and> role = crRole c \<and>
    token = GenerateToken hmac ttl t0 user role (crTenantID c) secret"
  using assms findCredential_Some [OF assms(2)]
  by (auto simp: LoginHandler_def Let_def GenerateToken_def tokenPayload_def split: if_splits)

lemma currentHash_after:
  assumes "SetCredentialOverride now username h st = (Inr t, st')" and "ovReadFault st = None"
  shows "currentHash username configured st' = Some h \<and> t = now \<and> ovReadFault st' = None"
proof -
  let ?r = "\<lparr>ovUsername = username, ovHash = h, ovUpdatedAt = now\<rparr>"
  have st': "t = now" "st' = st\<lparr>overrides := tblUpsert ovUsername ?r (overrideColumns h now) (overrides st)\<rparr>"
    using assms(1) by (auto simp: SetCredentialOverride_def split: option.splits)
  have "\<exists>x. tblFind ovUsername username (tblUpsert ovUsername ?r (overrideColumns h now) (overrides st)) = Some x
      \<and> ovHash x = h"
    by (cases "tblFind ovUsername username (overrides st)")
      (simp_all add: override_update.find_upsert overrideColumns_def del: tblFind_None)
  with st' assms(2) show ?thesis by (auto simp: currentHash_def GetCredentialOverride_def)
qed

lemma currentHash_cong:
  "overrides s = overrides s' \<Longrightarrow> ovReadFault s = ovReadFault s' \<Longrightarrow> currentHash u c s = currentHash u c s'"
  by (simp add: currentHash_def GetCredentialOverride_def cong: option.case_cong)

lemma changePassword_done:
  assumes "changePassword compare hashPw sha fresh dbNow micros creds username (Some (current, new)) st =
    ((204, msg), st')"
  shows "\<exists>h0 h st1. currentHash username (map_option crHash (findCredential username creds)) st = Some h0 \<and>
    compare h0 current \<and> validateNewPassword new current = None \<and> hashPw new = Some h \<and>
    SetCredentialOverride dbNow username h st = (Inr dbNow, st1) \<and>
    overrides st' = overrides st1 \<and> ovReadFault st' = ovReadFault st1 \<and>
    revoked st' username = unixSec dbNow"
  using assms
  by (auto simp: changePassword_def SetCredentialOverride_def Let_def split: if_splits option.splits prod.splits sum.splits)

subsection \<open>Runs of tickets\<close>

datatype wsOp = IssueOp "string option" string string string int | ConsumeOp string int

text \<open>The tickets redeemed in a run: identifier, identity and time.\<close>

fun ticketRun :: "wsOp list \<Rightarrow> wsTickets \<Rightarrow> (string \<times> (string \<times> string \<times> string) \<times> int) list" where
  "ticketRun [] m = []"
| "ticketRun (IssueOp random u r t now # ops) m = ticketRun ops (snd (issue random u r t now m))"
| "ticketRun (ConsumeOp tid now # ops) m =
     (case consume tid now m of (who, m') \<Rightarrow>
        (case who of None \<Rightarrow> [] | Some w \<Rightarrow> [(tid, w, now)]) @ ticketRun ops m')"

definition issuedUnder :: "string \<Rightarrow> wsOp list \<Rightarrow> nat" where
  "issuedUnder tid ops =
     length (filter (\<lambda>op. case op of IssueOp (Some buf) _ _ _ _ \<Rightarrow> hexEncode buf = tid | _ \<Rightarrow> False) ops)"

definition redeemed :: "string \<Rightarrow> (string \<times> (string \<times> string \<times> string) \<times> int) list \<Rightarrow> nat" where
  "redeemed tid rs = length (filter (\<lambda>r. fst r = tid) rs)"

lemma redeemed_bound:
  "redeemed tid (ticketRun ops m) \<le> issuedUnder tid ops + (if m tid = None then 0 else 1)"
proof (induction ops m rule: ticketRun.induct)
  case (2 random u r t now ops m)
  let ?m = "snd (issue random u r t now m)"
  have "(if ?m tid = None then 0 else 1) + issuedUnder tid ops \<le>
      issuedUnder tid (IssueOp random u r t now # ops) + (if m tid = None then 0 else (1::nat))"
    by (cases random) (auto simp: issue_def sweep_def issuedUnder_def split: option.splits)
  with 2 show ?case by simp
next
  case (3 x now ops m)
  obtain who m' where c: "consume x now m = (who, m')" by fastforce
  have "(if m' tid = None then 0 else 1) + (if who \<noteq> None \<and> x = tid then 1 else 0)
      \<le> (if m tid = None then 0 else 1 :: nat)"
    using c by (auto simp: consume_def split: if_splits option.splits)
  moreover have "redeemed tid (ticketRun ops m') \<le> issuedUnder tid ops + (if m' tid = None then 0 else 1)"
    using 3 c by simp
  ultimately show ?case
    by (auto simp: c redeemed_def issuedUnder_def split: option.splits)
qed (simp add: redeemed_def)

lemma redeemed_issued:
  "(tid, w, now) \<in> set (ticketRun ops m) \<Longrightarrow>
   (\<exists>t. m tid = Some t \<and> w = (tkUser t, tkRole t, tkTenant t) \<and> now \<le> tkExpires t) \<or>
   (\<exists>buf u r t now0. IssueOp (Some buf) u r t now0 \<in> set ops \<and> hexEncode buf = tid \<and> w = (u, r, t) \<and>
      now \<le> now0 + wsTicketTTL)"
proof (induction ops m rule: ticketRun.induct)
  case (2 random u r t now0 ops m)
  from 2(1) [OF 2(2) [unfolded ticketRun.simps]] show ?case
    by (cases random) (fastforce simp: issue_def sweep_def split: if_splits option.splits)+
next
  case (3 x n ops m)
  obtain who m' where c: "consume x n m = (who, m')" by fastforce
  have m': "m' tid = Some t \<Longrightarrow> m tid = Some t" for t
    using c by (auto simp: consume_def split: if_splits option.splits)
  have who: "who = Some w' \<Longrightarrow> \<exists>t. m x = Some t \<and> w' = (tkUser t, tkRole t, tkTenant t) \<and> n \<le> tkExpires t" for w'
    using c by (auto simp: consume_def split: if_splits option.splits)
  from 3(2) consider "who = Some w" "x = tid" "n = now" | "(tid, w, now) \<in> set (ticketRun ops m')"
    by (auto simp: c split: option.splits)
  then show ?case
  proof cases
    case 1
    with who show ?thesis by blast
  next
    case 2
    from 3(1) [OF c [symmetric] this] m' show ?thesis by auto
  qed
qed simp

subsection \<open>Properties\<close>

definition demo_compare :: "string \<Rightarrow> string \<Rightarrow> bool" where
  "demo_compare h p \<longleftrightarrow> h = CHR ''$'' # p"

definition demo_mac :: "string \<Rightarrow> string \<Rightarrow> string" where
  "demo_mac k m = k"

definition demo_cred :: Credential where
  "demo_cred = \<lparr>crUsername = ''u'', crRole = ''viewer'', crHash = ''$old'', crTenantID = []\<rparr>"

definition demo_auth :: AuthState where
  "demo_auth = \<lparr>overrides = [], ovReadFault = None, ovWriteFault = None, revoked = (\<lambda>_. 0),
     auditDB = \<lparr>auditRows = [], auditFault = None\<rparr>\<rparr>"

text \<open>One second in nanoseconds.\<close>

abbreviation (input) sec :: "int \<Rightarrow> int" where
  "sec n \<equiv> n * 1000000000"

definition demo_changed :: AuthState where
  "demo_changed = snd (changePassword demo_compare (\<lambda>p. Some (CHR ''$'' # p)) demo_sha ''1'' (sec 9) 0 [demo_cred]
     ''u'' (Some (''old'', ''new password'')) demo_auth)"

lemma demo_changed_ok:
  "fst (changePassword demo_compare (\<lambda>p. Some (CHR ''$'' # p)) demo_sha ''1'' (sec 9) 0 [demo_cred]
     ''u'' (Some (''old'', ''new password'')) demo_auth) = (204, [])"
  by (simp add: changePassword_def currentHash_def GetCredentialOverride_def demo_auth_def tblFind_def
      findCredential_def demo_cred_def demo_compare_def validateNewPassword_def minPasswordLength_def
      SetCredentialOverride_def)

definition demo_get :: "string \<Rightarrow> HttpRequest" where
  "demo_get token = \<lparr>rPath = ''/api/findings'', rAuthorization = ''Bearer '' @ token, rHostUUID = [], rAgentToken = []\<rparr>"

text \<open>
  A login opens a session until it expires. When \<open>LoginHandler\<close> answers 200, the password matched
  the effective hash of a configured user, the role is that user's, and the token, presented as a
  bearer token to any protected path, passes the middleware as this user, role and tenant until its
  expiry, and is refused afterwards, unless the user's password has changed in a later second. The
  hypothesis on the decoder is that it reads back the payload that was encoded.
\<close>

theorem login_grants_session:
  assumes "LoginHandler hmac compare ttl t0 secret False creds (Some st) user pw = (200, Some (token, role))"
    and "findCredential user creds = Some c"
    and "unmarshal (payloadJSON (tokenPayload ttl t0 user role (crTenantID c))) =
      Inr (tokenPayload ttl t0 user role (crTenantID c))"
    and "rPath r \<notin> set publicPaths" "rPath r \<noteq> ''/api/agent/config''" "rPath r \<noteq> ''/api/agent/scan-command''"
    and "rAuthorization r = ''Bearer '' @ token" and "revoked st' user \<le> unixSec t0"
  shows "compare (the (currentHash user (Some (crHash c)) st)) pw \<and> role = crRole c \<and>
    AuthMiddleware hmac unmarshal now secret agentKey False (Some (revoked st')) agentVerify r =
      (if unixSec (t0 + ttl) < unixSec now then Reject 401 ''unauthorized: token expired''
       else Pass (Some (user, role, if crTenantID c = [] then DefaultTenant else crTenantID c)))"
proof -
  note ok = LoginHandler_ok [OF assms(1,2)]
  then have tok: "token = GenerateToken hmac ttl t0 user role (crTenantID c) secret" by simp
  show ?thesis
    using ok assms(8) AuthMiddleware_bearer [OF assms(7) _ assms(4-6)] token_no_space
      VerifyToken_generated [of unmarshal _ ttl t0 user role "crTenantID c"] assms(3)
    by (simp add: tok)
qed

theorem login_grants_session_witness:
  "AuthMiddleware demo_mac (\<lambda>_. Inr (tokenPayload (sec 300) (sec 5) ''u'' ''viewer'' [])) (sec 7) ''k'' ''a'' False
     (Some (\<lambda>_. 0)) None (demo_get (GenerateToken demo_mac (sec 300) (sec 5) ''u'' ''viewer'' [] ''k'')) =
   Pass (Some (''u'', ''viewer'', ''default''))"
proof -
  let ?tok = "GenerateToken demo_mac (sec 300) (sec 5) ''u'' ''viewer'' [] ''k''"
  have l: "LoginHandler demo_mac demo_compare (sec 300) (sec 5) ''k'' False [demo_cred] (Some demo_auth) ''u'' ''old'' =
      (200, Some (?tok, ''viewer''))"
    by (simp add: LoginHandler_def findCredential_def demo_cred_def currentHash_def GetCredentialOverride_def
        demo_auth_def tblFind_def demo_compare_def GenerateToken_def tokenPayload_def DefaultTenant_def)
  have c: "findCredential ''u'' [demo_cred] = Some demo_cred" by (simp add: findCredential_def demo_cred_def)
  have t: "crTenantID demo_cred = []" by (simp add: demo_cred_def)
  have q: "rPath (demo_get ?tok) \<notin> set publicPaths" "rPath (demo_get ?tok) \<noteq> ''/api/agent/config''"
    "rPath (demo_get ?tok) \<noteq> ''/api/agent/scan-command''" "rAuthorization (demo_get ?tok) = ''Bearer '' @ ?tok"
    by (simp_all add: demo_get_def publicPaths_def)
  from login_grants_session [OF l c _ q, where unmarshal = "\<lambda>_. Inr (tokenPayload (sec 300) (sec 5) ''u'' ''viewer'' [])"
      and st' = demo_auth and now = "sec 7" and agentKey = "''a''" and agentVerify = None]
  show ?thesis by (simp add: t unixSec_def demo_auth_def DefaultTenant_def demo_cred_def)
qed

text \<open>
  A password change takes effect at once. When \<open>changePassword\<close> answers 204 with a readable
  override table, the current password was presented, the new one is different and has at least 12
  bytes, and from then on a configured user logs in exactly with passwords that match the new hash.
\<close>

theorem password_change_effective:
  assumes "changePassword compare hashPw sha fresh dbNow micros creds username (Some (current, new)) st =
      ((204, msg), st')"
    and "ovReadFault st = None"
  shows "12 \<le> length new \<and> new \<noteq> current \<and>
    (\<exists>h. compare h current \<and> currentHash username (map_option crHash (findCredential username creds)) st = Some h) \<and>
    (\<exists>h. hashPw new = Some h \<and>
      (\<forall>q. fst (LoginHandler hmac compare ttl t0 secret False creds (Some st') username q) = 200 \<longleftrightarrow>
        findCredential username creds \<noteq> None \<and> compare h q))"
proof -
  obtain h0 h st1 where c: "currentHash username (map_option crHash (findCredential username creds)) st = Some h0"
    "compare h0 current" "validateNewPassword new current = None" "hashPw new = Some h"
    "SetCredentialOverride dbNow username h st = (Inr dbNow, st1)"
    "overrides st' = overrides st1" "ovReadFault st' = ovReadFault st1"
    using changePassword_done [OF assms(1)] by blast
  have new: "currentHash username configured st' = Some h" for configured
    using currentHash_after [OF c(5) assms(2)] currentHash_cong [OF c(6,7)] by simp
  have login: "fst (LoginHandler hmac compare ttl t0 secret False creds (Some st') username q) = 200 \<longleftrightarrow>
      findCredential username creds \<noteq> None \<and> compare h q" for q
    using new findCredential_Some [of username creds]
    by (cases "findCredential username creds") (auto simp: LoginHandler_def Let_def)
  have pw: "12 \<le> length new" "new \<noteq> current"
    using c(3) by (auto simp: validateNewPassword_def minPasswordLength_def split: if_splits)
  show ?thesis using c(1,2,4) pw login by blast
qed

theorem password_change_effective_witness:
  "fst (LoginHandler demo_mac demo_compare 0 0 ''k'' False [demo_cred] (Some demo_changed) ''u'' ''new password'') = 200 \<and>
   fst (LoginHandler demo_mac demo_compare 0 0 ''k'' False [demo_cred] (Some demo_changed) ''u'' ''old'') = 401"
proof -
  let ?r = "changePassword demo_compare (\<lambda>p. Some (CHR ''$'' # p)) demo_sha ''1'' (sec 9) 0 [demo_cred]
     ''u'' (Some (''old'', ''new password'')) demo_auth"
  have "?r = ((204, []), demo_changed)" using demo_changed_ok by (simp add: demo_changed_def prod_eq_iff)
  moreover have "ovReadFault demo_auth = None" by (simp add: demo_auth_def)
  ultimately obtain h where "Some (CHR ''$'' # ''new password'') = Some h"
    and l: "\<And>q. fst (LoginHandler demo_mac demo_compare 0 0 ''k'' False [demo_cred] (Some demo_changed) ''u'' q) = 200
      \<longleftrightarrow> findCredential ''u'' [demo_cred] \<noteq> None \<and> demo_compare h q"
    using password_change_effective [THEN conjunct2, THEN conjunct2, THEN conjunct2,
      of demo_compare "\<lambda>p. Some (CHR ''$'' # p)" demo_sha "''1''" "sec 9" 0 "[demo_cred]" "''u''"
        "''old''" "''new password''" demo_auth "[]" demo_changed demo_mac 0 0 "''k''"] by blast
  then have login: "fst (LoginHandler demo_mac demo_compare 0 0 ''k'' False [demo_cred] (Some demo_changed) ''u'' q) = 200
      \<longleftrightarrow> q = ''new password''" for q
    by (auto simp: findCredential_def demo_cred_def demo_compare_def)
  have "fst (LoginHandler demo_mac demo_compare 0 0 ''k'' False [demo_cred] (Some demo_changed) ''u'' ''old'') \<in> {200, 401}"
    by (simp add: LoginHandler_def Let_def)
  with login [of "''new password''"] login [of "''old''"] show ?thesis by auto
qed

text \<open>
  C9: A password change ends the older sessions. After a change that answered 204, a token of this
  user that is otherwise valid but was issued in an earlier second is refused on every protected path.
\<close>

theorem password_change_ends_sessions:
  assumes "changePassword compare hashPw sha fresh dbNow micros creds username body st = ((204, msg), st')"
    and "VerifyToken hmac unmarshal now token secret = Inr (username, role, tenant, iat)"
    and "iat < unixSec dbNow" and "0 < unixSec dbNow"
    and "rPath r \<notin> set publicPaths" "rPath r \<noteq> ''/api/agent/config''" "rPath r \<noteq> ''/api/agent/scan-command''"
    and "rAuthorization r = ''Bearer '' @ token" and "CHR '' '' \<notin> set token"
  shows "AuthMiddleware hmac unmarshal now secret agentKey False (Some (revoked st')) agentVerify r =
    Reject 401 ''unauthorized: session invalidated by a password change, please log in again''"
proof -
  obtain current new where "body = Some (current, new)"
    using assms(1) by (cases body) (auto simp: changePassword_def split: if_splits)
  then have "revoked st' username = unixSec dbNow"
    using changePassword_done [of compare hashPw sha fresh dbNow micros creds username] assms(1) by blast
  with assms(2-4) show ?thesis using AuthMiddleware_bearer [OF assms(8,9,5-7)] by simp
qed

theorem password_change_ends_sessions_witness:
  "AuthMiddleware demo_mac (\<lambda>_. Inr (tokenPayload (sec 300) (sec 5) ''u'' ''viewer'' [])) (sec 10) ''k'' ''a'' False
     (Some (revoked demo_changed)) None
     (demo_get (GenerateToken demo_mac (sec 300) (sec 5) ''u'' ''viewer'' [] ''k'')) =
   Reject 401 ''unauthorized: session invalidated by a password change, please log in again''"
proof -
  let ?r = "changePassword demo_compare (\<lambda>p. Some (CHR ''$'' # p)) demo_sha ''1'' (sec 9) 0 [demo_cred]
     ''u'' (Some (''old'', ''new password'')) demo_auth"
  let ?tok = "GenerateToken demo_mac (sec 300) (sec 5) ''u'' ''viewer'' [] ''k''"
  have c: "?r = ((204, []), demo_changed)" using demo_changed_ok by (simp add: demo_changed_def prod_eq_iff)
  have v: "VerifyToken demo_mac (\<lambda>_. Inr (tokenPayload (sec 300) (sec 5) ''u'' ''viewer'' [])) (sec 10) ?tok ''k'' =
      Inr (''u'', ''viewer'', ''default'', 5)"
    by (subst VerifyToken_generated) (auto simp: unixSec_def DefaultTenant_def)
  show ?thesis
    by (rule password_change_ends_sessions [OF c v])
      (simp_all add: unixSec_def demo_get_def publicPaths_def token_no_space)
qed

text \<open>
  C17: A WebSocket ticket works once. In every run of issues and redemptions, an identifier is redeemed
  at most as often as it was drawn, and each redemption is for the identity it was issued to, at most
  30 seconds after its issue.
\<close>

theorem ticket_single_use:
  "redeemed tid (ticketRun ops (\<lambda>_. None)) \<le> issuedUnder tid ops \<and>
   set (ticketRun ops (\<lambda>_. None)) \<subseteq>
     {(tid, w, now). \<exists>buf u r t now0. IssueOp (Some buf) u r t now0 \<in> set ops \<and> hexEncode buf = tid \<and>
        w = (u, r, t) \<and> now \<le> now0 + wsTicketTTL}"
  using redeemed_bound [of tid ops "\<lambda>_. None"] redeemed_issued [of _ _ _ ops "\<lambda>_. None"] by fastforce

subsection \<open>Two gaps\<close>

text \<open>The cutoff has the resolution of a second and the comparison is strict: a token minted earlier in
  the very second of the change stays valid.\<close>

theorem same_second_session_survives:
  "AuthMiddleware demo_mac (\<lambda>_. Inr (tokenPayload (sec 300) (sec 9) ''u'' ''viewer'' [])) (sec 10) ''k'' ''a'' False
     (Some (revoked demo_changed)) None
     (demo_get (GenerateToken demo_mac (sec 300) (sec 9) ''u'' ''viewer'' [] ''k'')) =
   Pass (Some (''u'', ''viewer'', ''default''))"
proof -
  let ?r = "changePassword demo_compare (\<lambda>p. Some (CHR ''$'' # p)) demo_sha ''1'' (sec 9) 0 [demo_cred]
     ''u'' (Some (''old'', ''new password'')) demo_auth"
  have "?r = ((204, []), demo_changed)" using demo_changed_ok by (simp add: demo_changed_def prod_eq_iff)
  from changePassword_done [OF this] have "revoked demo_changed ''u'' = 9" by (auto simp: unixSec_def)
  then show ?thesis
    using token_no_space
    by (subst AuthMiddleware_bearer)
      (auto simp: demo_get_def publicPaths_def VerifyToken_generated unixSec_def DefaultTenant_def)
qed

text \<open>When the override table cannot be read, the old password works again.\<close>

theorem old_password_on_read_fault:
  "fst (LoginHandler demo_mac demo_compare 0 0 ''k'' False [demo_cred]
     (Some (demo_changed\<lparr>ovReadFault := Some ''timeout''\<rparr>)) ''u'' ''old'') = 200"
  by (simp add: LoginHandler_def findCredential_def demo_cred_def currentHash_def GetCredentialOverride_def
      demo_compare_def)

end
