(* ===== verification/Ingest.thy ===== *)
theory Ingest
  imports PolicyTypes Codes Tables
begin

text \<open>
  The ingestion of telemetry into the database: \<open>InsertTelemetry\<close>, \<open>UpdateFindingStatus\<close> and
  \<open>PurgeOldTelemetry\<close> of \<^verbatim>\<open>server/internal/store/store.go\<close>. A table is the list of its rows with
  the constraints of the schema; a transaction either changes the database or leaves it alone and
  returns an error. \<open>igFault\<close> is an error that some statement of the transaction would meet beyond
  the constraints (also when the code drops the error: the transaction is then aborted and its
  commit fails). The JSON of a payload is kept as the payload. SHA-256 and the UUIDs are parameters; \<open>now\<close> is the database's clock.
\<close>

subsection \<open>Tables\<close>

record AssetRow =
  asHostUUID :: string
  asTenantID :: string
  asHostname :: string
  asOsName :: string
  asOsVersion :: string
  asArch :: string
  asExecutionMode :: int
  asCapabilities :: "string list"
  asDnsName :: string
  asAgentVersion :: string
  asObservedIP :: string
  asManaged :: bool
  asFirstRegistered :: int
  asLastRegistered :: int
  asLastSeen :: int

record TelemetryRow =
  tmID :: string
  tmHost :: string
  tmReceivedAt :: int
  tmPayload :: CbomTelemetryPayload

record ScanRun =
  srScanID :: string
  srHost :: string
  srAgentVersion :: string
  srOsName :: string
  srOsVersion :: string
  srObservedIP :: string
  srStarted :: int
  srFinished :: int
  srReceivedAt :: int
  srStatus :: string
  srComponentCount :: nat
  srFindingCount :: nat
  srCriticalCount :: nat
  srHighCount :: nat
  srMaxSeverity :: int
  srNetworkCount :: nat

record FindingRow =
  frFindingID :: string
  frTelemetryID :: string
  frHost :: string
  frSeverity :: int
  frTitle :: string
  frDescription :: string
  frAssetRef :: string
  frAlgorithm :: string
  frRule :: string
  frProfile :: string
  frEvidence :: "string list"
  frStatus :: string
  frUpdatedBy :: string
  frUpdatedAt :: int
  frCreatedAt :: int
  frConfidence :: real
  frReopenCount :: nat
  frReopenedAt :: "int option"

record Occurrence =
  ocID :: string
  ocScanID :: string
  ocFindingID :: string
  ocHost :: string
  ocFinding :: CryptoFinding
  ocConfidence :: real
  ocCreatedAt :: int

record LifecycleEvent =
  evEventID :: string
  evFindingID :: string
  evHost :: string
  evType :: string
  evFrom :: string
  evTo :: string
  evActor :: string
  evReason :: string
  evAt :: int

record AgentCommandRow =
  agCommandID :: string
  agHost :: string
  agPayload :: string
  agStatus :: string
  agQueuedAt :: int
  agDeliveredAt :: "int option"
  agCompletedAt :: "int option"

record ScanComponent =
  scScanID :: string
  scBomRef :: string
  scHost :: string
  scName :: string
  scVersion :: string
  scType :: string
  scFilePath :: string
  scLanguage :: string
  scAlgorithms :: "string list"
  scDependencies :: "string list"
  scReachable :: bool
  scFinished :: int

record CertificateRow =
  ctID :: string
  ctHost :: string
  ctTarget :: string
  ctVersion :: string
  ctCipher :: string
  ctSubject :: string
  ctIssuer :: string
  ctNotAfter :: int
  ctSeenAt :: int
  ctScanID :: string

record IngestDB =
  igAssets :: "AssetRow list"
  igTelemetry :: "TelemetryRow list"
  igScans :: "ScanRun list"
  igFindings :: "FindingRow list"
  igOccurrences :: "Occurrence list"
  igEvents :: "LifecycleEvent list"
  igCommands :: "AgentCommandRow list"
  igComponents :: "ScanComponent list"
  igCerts :: "CertificateRow list"
  igUUID :: nat
  igFault :: goerror

text \<open>The conflict key of a finding; the host is not part of it.\<close>

type_synonym finding_key = "string \<times> string \<times> string"

definition findingKey :: "FindingRow \<Rightarrow> finding_key" where
  "findingKey r = (frAssetRef r, frAlgorithm r, frRule r)"

definition keyOf :: "CryptoFinding \<Rightarrow> finding_key" where
  "keyOf f = (AssetRef f, fnAlgorithm f, PolicyRuleId f)"

subsection \<open>One finding\<close>

text \<open>The confidence of the finding's algorithm in its component: the last matching component
  decides, in it the first algorithm.\<close>

definition findingConfidence :: "CbomTelemetryPayload \<Rightarrow> CryptoFinding \<Rightarrow> real" where
  "findingConfidence payload f =
     fold (\<lambda>comp c. if BomRef comp = AssetRef f
                     then (case find (\<lambda>a. algName a = fnAlgorithm f) (Algorithms comp) of
                             Some a \<Rightarrow> algConfidence a | None \<Rightarrow> c)
                     else c) (Components payload) (82 / 100)"

definition newFindingRow :: "CbomTelemetryPayload \<Rightarrow> int \<Rightarrow> CryptoFinding \<Rightarrow> FindingRow" where
  "newFindingRow payload now f =
     \<lparr>frFindingID = FindingId f, frTelemetryID = TelemetryId payload, frHost = plHostUuid payload,
      frSeverity = Severity f, frTitle = Title f, frDescription = fnDescription f,
      frAssetRef = AssetRef f, frAlgorithm = fnAlgorithm f, frRule = PolicyRuleId f,
      frProfile = MigrationProfile f, frEvidence = EvidenceIds f, frStatus = ''open'',
      frUpdatedBy = [], frUpdatedAt = now, frCreatedAt = now,
      frConfidence = findingConfidence payload f, frReopenCount = 0, frReopenedAt = None\<rparr>"

text \<open>The conflict branch changes open findings only.\<close>

definition seenAgain :: "FindingRow \<Rightarrow> FindingRow \<Rightarrow> FindingRow" where
  "seenAgain n r =
     (if frStatus r = ''open''
      then r\<lparr>frSeverity := frSeverity n, frTitle := frTitle n, frDescription := frDescription n,
             frTelemetryID := frTelemetryID n, frConfidence := frConfidence n,
             frUpdatedAt := frUpdatedAt n\<rparr>
      else r)"

definition upsertFinding :: "FindingRow \<Rightarrow> IngestDB \<Rightarrow> IngestDB result" where
  "upsertFinding n db =
     (if findingKey n \<notin> findingKey ` set (igFindings db) \<and>
         frFindingID n \<in> frFindingID ` set (igFindings db)
      then Inl ''duplicate key value violates unique constraint crypto_findings_pkey''
      else if findingKey n \<notin> findingKey ` set (igFindings db) \<and>
              frHost n \<notin> asHostUUID ` set (igAssets db)
      then Inl ''insert on crypto_findings violates foreign key constraint''
      else Inr (db\<lparr>igFindings := tblUpsert findingKey n (seenAgain n) (igFindings db)\<rparr>))"

definition recordOccurrence :: "int \<Rightarrow> CbomTelemetryPayload \<Rightarrow> CryptoFinding \<Rightarrow> IngestDB \<Rightarrow> IngestDB result" where
  "recordOccurrence now payload f db =
     (let oc = \<lparr>ocID = TelemetryId payload @ '':'' @ FindingId f, ocScanID = TelemetryId payload,
                ocFindingID = FindingId f, ocHost = plHostUuid payload, ocFinding = f,
                ocConfidence = findingConfidence payload f, ocCreatedAt = now\<rparr>
      in if ocID oc \<in> ocID ` set (igOccurrences db) then Inr db
         else if ocScanID oc \<notin> srScanID ` set (igScans db) \<or> ocHost oc \<notin> asHostUUID ` set (igAssets db)
         then Inl ''insert on finding_occurrences violates foreign key constraint''
         else Inr (db\<lparr>igOccurrences := igOccurrences db @ [oc]\<rparr>))"

definition reopenRow :: "int \<Rightarrow> FindingRow \<Rightarrow> FindingRow" where
  "reopenRow now r =
     r\<lparr>frStatus := ''open'', frReopenCount := frReopenCount r + 1, frReopenedAt := Some now,
       frUpdatedAt := now, frUpdatedBy := ''system''\<rparr>"

definition addEvent :: "LifecycleEvent \<Rightarrow> IngestDB \<Rightarrow> IngestDB" where
  "addEvent e db = db\<lparr>igEvents := tblInsert evEventID e (igEvents db)\<rparr>"

definition autoReopen :: "(nat \<Rightarrow> string) \<Rightarrow> int \<Rightarrow> CryptoFinding \<Rightarrow> IngestDB \<Rightarrow> IngestDB" where
  "autoReopen uuid now f db =
     (case tblFind findingKey (keyOf f) (igFindings db) of
        None \<Rightarrow> db
      | Some r \<Rightarrow>
          if frStatus r = ''remediated'' \<or> frStatus r = ''accepted_risk''
          then addEvent \<lparr>evEventID = uuid (igUUID db), evFindingID = frFindingID r, evHost = frHost r,
                  evType = ''reopened'', evFrom = frStatus r, evTo = ''open'', evActor = ''system'',
                  evReason = ''finding recurred in scan'', evAt = now\<rparr>
                (db\<lparr>igFindings := tblUpdate frFindingID (frFindingID r) (reopenRow now) (igFindings db),
                    igUUID := igUUID db + 1\<rparr>)
          else db)"

definition storeFinding :: "(nat \<Rightarrow> string) \<Rightarrow> int \<Rightarrow> CbomTelemetryPayload \<Rightarrow> CryptoFinding
    \<Rightarrow> IngestDB \<Rightarrow> IngestDB result" where
  "storeFinding uuid now payload f db =
     (case upsertFinding (newFindingRow payload now f) db of
        Inl e \<Rightarrow> Inl e
      | Inr db1 \<Rightarrow>
          (case recordOccurrence now payload f db1 of
             Inl e \<Rightarrow> Inl e
           | Inr db2 \<Rightarrow> Inr (autoReopen uuid now f db2)))"

fun storeFindings :: "(nat \<Rightarrow> string) \<Rightarrow> int \<Rightarrow> CbomTelemetryPayload \<Rightarrow> CryptoFinding list
    \<Rightarrow> IngestDB \<Rightarrow> IngestDB result" where
  "storeFindings uuid now payload [] db = Inr db"
| "storeFindings uuid now payload (f # fs) db =
     (case storeFinding uuid now payload f db of
        Inl e \<Rightarrow> Inl e
      | Inr db1 \<Rightarrow> storeFindings uuid now payload fs db1)"

subsection \<open>The other statements\<close>

definition insertPayload :: "int \<Rightarrow> CbomTelemetryPayload \<Rightarrow> IngestDB \<Rightarrow> IngestDB result" where
  "insertPayload now payload db =
     (if TelemetryId payload \<in> tmID ` set (igTelemetry db) then Inr db
      else if plHostUuid payload \<notin> asHostUUID ` set (igAssets db)
      then Inl ''insert on telemetry_payloads violates foreign key constraint''
      else Inr (db\<lparr>igTelemetry := igTelemetry db @
        [\<lparr>tmID = TelemetryId payload, tmHost = plHostUuid payload, tmReceivedAt = now,
          tmPayload = payload\<rparr>]\<rparr>))"

definition completeCommands :: "int \<Rightarrow> string \<Rightarrow> IngestDB \<Rightarrow> IngestDB" where
  "completeCommands now host db =
     db\<lparr>igCommands := map (\<lambda>c. if agHost c = host \<and> agStatus c = ''executing''
                               then c\<lparr>agStatus := ''completed'', agCompletedAt := Some now\<rparr> else c)
          (igCommands db)\<rparr>"

text \<open>The counts of the loop over the findings: critical, high, maximum.\<close>

fun severityCounts :: "CryptoFinding list \<Rightarrow> nat \<times> nat \<times> int \<Rightarrow> nat \<times> nat \<times> int" where
  "severityCounts [] acc = acc"
| "severityCounts (f # fs) (criticalCount, highCount, maxSeverity) =
     severityCounts fs
       (if RiskSeverityCritical \<le> Severity f then criticalCount + 1 else criticalCount,
        if \<not> RiskSeverityCritical \<le> Severity f \<and> Severity f = RiskSeverityHigh then highCount + 1 else highCount,
        if maxSeverity < Severity f then Severity f else maxSeverity)"

definition insertScanRun :: "int \<Rightarrow> CbomTelemetryPayload \<Rightarrow> IngestDB \<Rightarrow> IngestDB" where
  "insertScanRun now payload db =
     (case tblFind asHostUUID (plHostUuid payload) (igAssets db) of
        None \<Rightarrow> db
      | Some a \<Rightarrow>
          (case severityCounts (Findings payload) (0, 0, 0) of (critical, high, worst) \<Rightarrow>
             db\<lparr>igScans := tblInsert srScanID
               \<lparr>srScanID = TelemetryId payload, srHost = asHostUUID a, srAgentVersion = asAgentVersion a,
                srOsName = asOsName a, srOsVersion = asOsVersion a, srObservedIP = asObservedIP a,
                srStarted = ScanStartedUnix payload, srFinished = ScanFinishedUnix payload, srReceivedAt = now,
                srStatus = ''completed'',
                srComponentCount = length (Components payload), srFindingCount = length (Findings payload),
                srCriticalCount = critical, srHighCount = high, srMaxSeverity = worst,
                srNetworkCount = length (NetworkObservations payload)\<rparr> (igScans db)\<rparr>))"

fun storeComponents :: "CbomTelemetryPayload \<Rightarrow> CbomComponent list \<Rightarrow> IngestDB \<Rightarrow> IngestDB result" where
  "storeComponents payload [] db = Inr db"
| "storeComponents payload (c # cs) db =
     (let row = \<lparr>scScanID = TelemetryId payload, scBomRef = BomRef c, scHost = plHostUuid payload,
                 scName = cmpName c, scVersion = cmpVersion c, scType = ComponentType c, scFilePath = FilePath c,
                 scLanguage = Language c, scAlgorithms = filter (\<lambda>a. a \<noteq> []) (map algName (Algorithms c)),
                 scDependencies = Dependencies c, scReachable = Reachable c, scFinished = ScanFinishedUnix payload\<rparr>
      in if (scScanID row, scBomRef row) \<in> (\<lambda>r. (scScanID r, scBomRef r)) ` set (igComponents db)
         then storeComponents payload cs db
         else if scScanID row \<notin> srScanID ` set (igScans db) \<or> scHost row \<notin> asHostUUID ` set (igAssets db)
         then Inl ''insert on scan_components violates foreign key constraint''
         else storeComponents payload cs (db\<lparr>igComponents := igComponents db @ [row]\<rparr>))"

definition certID :: "(string \<Rightarrow> string) \<Rightarrow> string \<Rightarrow> NetworkObservation \<Rightarrow> string" where
  "certID sha host obs =
     hexEncode (take 8 (sha (host @ '':'' @ Endpoint obs @ '':'' @ CertificateSubject obs)))"

fun storeCerts :: "(string \<Rightarrow> string) \<Rightarrow> int \<Rightarrow> CbomTelemetryPayload \<Rightarrow> NetworkObservation list
    \<Rightarrow> IngestDB \<Rightarrow> IngestDB result" where
  "storeCerts sha now payload [] db = Inr db"
| "storeCerts sha now payload (obs # rest) db =
     (if CertificateNotAfterUnix obs = 0 then storeCerts sha now payload rest db
      else if plHostUuid payload \<notin> asHostUUID ` set (igAssets db)
      then Inl ''commit unexpectedly resulted in rollback''
      else (let row = \<lparr>ctID = certID sha (plHostUuid payload) obs, ctHost = plHostUuid payload,
                       ctTarget = Endpoint obs, ctVersion = TlsVersion obs, ctCipher = CipherSuite obs,
                       ctSubject = CertificateSubject obs, ctIssuer = CertificateIssuer obs,
                       ctNotAfter = CertificateNotAfterUnix obs, ctSeenAt = now,
                       ctScanID = TelemetryId payload\<rparr>
            in storeCerts sha now payload rest
                 (db\<lparr>igCerts := tblUpsert ctID row
                    (\<lambda>r. r\<lparr>ctVersion := ctVersion row, ctCipher := ctCipher row, ctSubject := ctSubject row,
                          ctIssuer := ctIssuer row, ctNotAfter := ctNotAfter row, ctSeenAt := now,
                          ctScanID := ctScanID row\<rparr>) (igCerts db)\<rparr>)))"

subsection \<open>The transactions\<close>

definition ingest :: "(string \<Rightarrow> string) \<Rightarrow> (nat \<Rightarrow> string) \<Rightarrow> int \<Rightarrow> CbomTelemetryPayload
    \<Rightarrow> IngestDB \<Rightarrow> IngestDB result" where
  "ingest sha uuid now payload db =
     (case insertPayload now payload db of
        Inl e \<Rightarrow> Inl e
      | Inr db1 \<Rightarrow>
          (case storeFindings uuid now payload (Findings payload)
                  (insertScanRun now payload (completeCommands now (plHostUuid payload) db1)) of
             Inl e \<Rightarrow> Inl e
           | Inr db2 \<Rightarrow>
               (case storeComponents payload (Components payload) db2 of
                  Inl e \<Rightarrow> Inl e
                | Inr db3 \<Rightarrow> storeCerts sha now payload (NetworkObservations payload) db3)))"

definition InsertTelemetry :: "(string \<Rightarrow> string) \<Rightarrow> (nat \<Rightarrow> string) \<Rightarrow> int \<Rightarrow> CbomTelemetryPayload
    \<Rightarrow> IngestDB \<Rightarrow> goerror \<times> IngestDB" where
  "InsertTelemetry sha uuid now payload db =
     (case igFault db of
        Some e \<Rightarrow> (Some e, db)
      | None \<Rightarrow> (case ingest sha uuid now payload db of Inl e \<Rightarrow> (Some e, db) | Inr db' \<Rightarrow> (None, db')))"

definition findingStatuses :: "string list" where
  "findingStatuses = [''open'', ''accepted_risk'', ''false_positive'', ''remediated'']"

definition UpdateFindingStatus :: "(nat \<Rightarrow> string) \<Rightarrow> int \<Rightarrow> string \<Rightarrow> string \<Rightarrow> string
    \<Rightarrow> IngestDB \<Rightarrow> goerror \<times> IngestDB" where
  "UpdateFindingStatus uuid now findingID status updatedBy db =
     (if status \<notin> set findingStatuses then (Some ''invalid status value'', db)
      else case igFault db of
        Some e \<Rightarrow> (Some e, db)
      | None \<Rightarrow>
          (case tblFind frFindingID findingID (igFindings db) of
             None \<Rightarrow> (Some ''finding not found'', db)
           | Some r \<Rightarrow>
               (None, addEvent \<lparr>evEventID = uuid (igUUID db), evFindingID = findingID, evHost = frHost r,
                  evType = ''status_change'', evFrom = frStatus r, evTo = status, evActor = updatedBy,
                  evReason = [], evAt = now\<rparr>
                (db\<lparr>igFindings := tblUpdate frFindingID findingID
                      (\<lambda>x. x\<lparr>frStatus := status, frUpdatedBy := updatedBy, frUpdatedAt := now\<rparr>)
                      (igFindings db),
                    igUUID := igUUID db + 1\<rparr>))))"

text \<open>The retention: the findings of a deleted payload go with it (\<open>ON DELETE CASCADE\<close>).\<close>

definition PurgeOldTelemetry :: "int \<Rightarrow> IngestDB \<Rightarrow> nat result \<times> IngestDB" where
  "PurgeOldTelemetry cutoff db =
     (case igFault db of
        Some e \<Rightarrow> (Inl e, db)
      | None \<Rightarrow>
          (let old = filter (\<lambda>t. tmReceivedAt t < cutoff) (igTelemetry db);
               kept = filter (\<lambda>t. \<not> tmReceivedAt t < cutoff) (igTelemetry db)
           in (Inr (length old),
               db\<lparr>igTelemetry := kept,
                  igFindings := filter (\<lambda>r. frTelemetryID r \<notin> tmID ` set old \<and> \<not> frUpdatedAt r < cutoff)
                    (igFindings db)\<rparr>)))"

end
