(* ===== verification/IngestProofs.thy ===== *)
theory IngestProofs
  imports Ingest
begin

text \<open>
  What holds of the findings table in every state that ingestion and reviews can reach: the two
  keys are unique, and the lifecycle log replays to the current status of every finding. The
  invariant speaks of the findings, the events and the number of UUIDs drawn.
\<close>

subsection \<open>The lifecycle log\<close>

fun replay :: "string \<Rightarrow> LifecycleEvent list \<Rightarrow> string option" where
  "replay s [] = Some s"
| "replay s (e # es) = (if evFrom e = s then replay (evTo e) es else None)"

definition eventsOf :: "string \<Rightarrow> LifecycleEvent list \<Rightarrow> LifecycleEvent list" where
  "eventsOf fid es = filter (\<lambda>e. evFindingID e = fid) es"

definition logInv :: "(nat \<Rightarrow> string) \<Rightarrow> FindingRow list \<Rightarrow> LifecycleEvent list \<Rightarrow> nat \<Rightarrow> bool" where
  "logInv uuid F E n \<longleftrightarrow>
     keyUnique findingKey F \<and> keyUnique frFindingID F \<and>
     (\<forall>r \<in> set F. replay ''open'' (eventsOf (frFindingID r) E) = Some (frStatus r) \<and>
        frStatus r \<in> set findingStatuses) \<and>
     (\<forall>e \<in> set E. evFindingID e \<in> frFindingID ` set F \<and> evEventID e \<in> uuid ` {..<n})"

lemma replay_append: "replay s es = Some t \<Longrightarrow> replay s (es @ [e]) = (if evFrom e = t then Some (evTo e) else None)"
  by (induction es arbitrary: s) (auto split: if_splits)

lemma keyUnique_tblUpdate:
  "(\<And>r. key (f r) = key r) \<Longrightarrow> keyUnique key (tblUpdate key' k f t) = keyUnique key t"
  by (simp add: keyUnique_def tblUpdate_def comp_def if_distrib cong: if_cong)

lemma keys_tblUpdate:
  assumes "\<And>r. key (f r) = key r"
  shows "key ` set (tblUpdate key' k f t) = key ` set t"
proof -
  have "map key (tblUpdate key' k f t) = map key t"
    using assms by (simp add: tblUpdate_def comp_def if_distrib cong: if_cong)
  then show ?thesis by (metis set_map)
qed

interpretation finding_seen: keyed_update findingKey "seenAgain n" for n
  by unfold_locales (simp add: findingKey_def seenAgain_def)

lemma seenAgain_fields [simp]:
  "frFindingID (seenAgain n r) = frFindingID r" "frStatus (seenAgain n r) = frStatus r"
  "findingKey (seenAgain n r) = findingKey r"
  by (simp_all add: seenAgain_def findingKey_def)

text \<open>An upsert of an open finding.\<close>

lemma logInv_upsert:
  assumes "logInv uuid F E m" and "frStatus n = ''open''"
    and "findingKey n \<in> findingKey ` set F \<or> frFindingID n \<notin> frFindingID ` set F"
  shows "logInv uuid (tblUpsert findingKey n (seenAgain n) F) E m"
proof (cases "findingKey n \<in> findingKey ` set F")
  case True
  have "frFindingID ` set (tblUpdate findingKey (findingKey n) (seenAgain n) F) = frFindingID ` set F"
    by (rule keys_tblUpdate) simp
  with assms(1) True show ?thesis
    by (auto simp: logInv_def tblUpsert_def finding_seen.unique keyUnique_tblUpdate set_tblUpdate)
next
  case False
  then have new: "frFindingID n \<notin> frFindingID ` set F" using assms(3) by simp
  have "evFindingID e \<noteq> frFindingID n" if "e \<in> set E" for e
  proof -
    from assms(1) that have "evFindingID e \<in> frFindingID ` set F" by (simp add: logInv_def)
    with new show ?thesis by metis
  qed
  then have "eventsOf (frFindingID n) E = []" by (simp add: eventsOf_def filter_empty_conv)
  with assms False new show ?thesis
    by (auto simp: logInv_def tblUpsert_def keyUnique_def findingStatuses_def)
qed

text \<open>A recorded change of status.\<close>

lemma logInv_change:
  assumes inv: "logInv uuid F E n" and r: "r \<in> set F" and inj: "inj uuid"
    and g: "\<And>x. frFindingID (g x) = frFindingID x" "\<And>x. findingKey (g x) = findingKey x"
      "\<And>x. frStatus (g x) = evTo e"
    and e: "evFindingID e = frFindingID r" "evFrom e = frStatus r" "evEventID e = uuid n"
      "evTo e \<in> set findingStatuses"
  shows "logInv uuid (tblUpdate frFindingID (frFindingID r) g F) (tblInsert evEventID e E) (Suc n)"
proof -
  have fresh: "evEventID e \<notin> evEventID ` set E"
    using inv inj e(3) by (fastforce simp: logInv_def dest: injD)
  then have E: "tblInsert evEventID e E = E @ [e]" by (simp add: tblInsert_def)
  have rows: "replay ''open'' (eventsOf (frFindingID x) (E @ [e])) = Some (frStatus x) \<and>
      frStatus x \<in> set findingStatuses" if "x \<in> set (tblUpdate frFindingID (frFindingID r) g F)" for x
  proof -
    from that consider "x \<in> set F" "frFindingID x \<noteq> frFindingID r"
      | y where "y \<in> set F" "frFindingID y = frFindingID r" "x = g y"
      by (auto simp: set_tblUpdate)
    then show ?thesis
    proof cases
      case 1
      then show ?thesis using inv e(1) by (auto simp: logInv_def eventsOf_def)
    next
      case (2 y)
      then have "y = r" using keyUnique_eq [of frFindingID F y r] inv r by (simp add: logInv_def)
      then have "replay ''open'' (eventsOf (frFindingID r) E) = Some (frStatus r)"
        using inv r by (simp add: logInv_def)
      from replay_append [OF this, of e] 2 \<open>y = r\<close> e g show ?thesis by (simp add: eventsOf_def)
    qed
  qed
  have ids: "frFindingID ` set (tblUpdate frFindingID (frFindingID r) g F) = frFindingID ` set F"
    by (rule keys_tblUpdate) (rule g(1))
  have u: "keyUnique frFindingID (tblUpdate frFindingID (frFindingID r) g F)"
    "keyUnique findingKey (tblUpdate frFindingID (frFindingID r) g F)"
    using inv by (simp_all add: logInv_def keyUnique_tblUpdate g)
  have ev: "evFindingID x \<in> frFindingID ` set F \<and> evEventID x \<in> uuid ` {..<Suc n}" if "x \<in> set (E @ [e])" for x
    using that inv e r by (auto simp: logInv_def less_Suc_eq)
  show ?thesis unfolding logInv_def E using u by (simp add: rows ev ids del: set_append)
qed

subsection \<open>The transactions keep it\<close>

definition dbInv :: "(nat \<Rightarrow> string) \<Rightarrow> IngestDB \<Rightarrow> bool" where
  "dbInv uuid db \<longleftrightarrow> logInv uuid (igFindings db) (igEvents db) (igUUID db)"

lemma upsertFinding_inv:
  "upsertFinding n db = Inr db' \<Longrightarrow> frStatus n = ''open'' \<Longrightarrow> dbInv uuid db \<Longrightarrow> dbInv uuid db'"
  unfolding upsertFinding_def dbInv_def by (auto simp: logInv_upsert split: if_splits)

lemma recordOccurrence_inv: "recordOccurrence now p f db = Inr db' \<Longrightarrow> dbInv uuid db' = dbInv uuid db"
  by (auto simp: recordOccurrence_def dbInv_def Let_def split: if_splits)

lemma reopenRow_fields [simp]:
  "frFindingID (reopenRow now r) = frFindingID r" "findingKey (reopenRow now r) = findingKey r"
  "frStatus (reopenRow now r) = ''open''"
  by (simp_all add: reopenRow_def findingKey_def)

lemma autoReopen_inv:
  assumes "dbInv uuid db" and "inj uuid"
  shows "dbInv uuid (autoReopen uuid now f db)"
proof (cases "tblFind findingKey (keyOf f) (igFindings db)")
  case None
  then show ?thesis using assms(1) by (simp add: autoReopen_def del: tblFind_None)
next
  case (Some r)
  from tblFind_Some [OF this] have "r \<in> set (igFindings db)" by simp
  from logInv_change [OF assms(1) [unfolded dbInv_def] this assms(2)] Some assms(1) show ?thesis
    by (auto simp: autoReopen_def addEvent_def dbInv_def findingStatuses_def)
qed

lemma storeFinding_inv:
  "storeFinding uuid now p f db = Inr db' \<Longrightarrow> inj uuid \<Longrightarrow> dbInv uuid db \<Longrightarrow> dbInv uuid db'"
  unfolding storeFinding_def
  by (auto split: sum.splits intro!: autoReopen_inv dest!: upsertFinding_inv [where uuid = uuid]
      dest: recordOccurrence_inv simp: newFindingRow_def)

lemma storeFindings_inv:
  "storeFindings uuid now p fs db = Inr db' \<Longrightarrow> inj uuid \<Longrightarrow> dbInv uuid db \<Longrightarrow> dbInv uuid db'"
  by (induction fs arbitrary: db) (auto split: sum.splits dest: storeFinding_inv)

lemma storeComponents_findings:
  "storeComponents p cs db = Inr db' \<Longrightarrow> igFindings db' = igFindings db \<and> igEvents db' = igEvents db \<and>
    igUUID db' = igUUID db"
  by (induction cs arbitrary: db) (auto simp: Let_def split: if_splits)

lemma storeCerts_findings:
  "storeCerts sha now p os db = Inr db' \<Longrightarrow> igFindings db' = igFindings db \<and> igEvents db' = igEvents db \<and>
    igUUID db' = igUUID db"
  by (induction os arbitrary: db) (auto simp: Let_def split: if_splits)

lemma insertScanRun_fields [simp]:
  "igFindings (insertScanRun now p db) = igFindings db" "igEvents (insertScanRun now p db) = igEvents db"
  "igUUID (insertScanRun now p db) = igUUID db" "igCommands (insertScanRun now p db) = igCommands db"
  by (simp_all add: insertScanRun_def split: prod.split option.split)

lemma before_findings:
  assumes "insertPayload now p db = Inr db1"
  shows "let db' = insertScanRun now p (completeCommands now h db1) in
    igFindings db' = igFindings db \<and> igEvents db' = igEvents db \<and> igUUID db' = igUUID db"
  using assms
  by (auto simp: insertPayload_def completeCommands_def Let_def split: if_splits)

lemma ingest_findings:
  assumes "ingest sha uuid now p db = Inr db'"
  shows "\<exists>db0 db1. igFindings db0 = igFindings db \<and> igEvents db0 = igEvents db \<and> igUUID db0 = igUUID db \<and>
    storeFindings uuid now p (Findings p) db0 = Inr db1 \<and> igFindings db' = igFindings db1 \<and>
    igEvents db' = igEvents db1 \<and> igUUID db' = igUUID db1"
proof -
  from assms obtain d1 d2 d3 where d: "insertPayload now p db = Inr d1"
    "storeFindings uuid now p (Findings p) (insertScanRun now p (completeCommands now (plHostUuid p) d1)) = Inr d2"
    "storeComponents p (Components p) d2 = Inr d3" "storeCerts sha now p (NetworkObservations p) d3 = Inr db'"
    by (auto simp: ingest_def split: sum.splits)
  from before_findings [OF d(1), of "plHostUuid p"] storeComponents_findings [OF d(3)]
    storeCerts_findings [OF d(4)] d(2) show ?thesis
    by (intro exI [of _ "insertScanRun now p (completeCommands now (plHostUuid p) d1)"] exI [of _ d2])
      (simp add: Let_def)
qed

lemma InsertTelemetry_inv:
  assumes "inj uuid" and "dbInv uuid db"
  shows "dbInv uuid (snd (InsertTelemetry sha uuid now p db))"
proof (cases "ingest sha uuid now p db")
  case (Inr db')
  from ingest_findings [OF this] obtain db0 db1 where i:
    "igFindings db0 = igFindings db" "igEvents db0 = igEvents db" "igUUID db0 = igUUID db"
    "storeFindings uuid now p (Findings p) db0 = Inr db1" "igFindings db' = igFindings db1"
    "igEvents db' = igEvents db1" "igUUID db' = igUUID db1" by blast
  then have "dbInv uuid db0" using assms(2) by (simp add: dbInv_def)
  from storeFindings_inv [OF i(4) assms(1) this] i Inr assms(2) show ?thesis
    by (auto simp: InsertTelemetry_def dbInv_def split: option.splits)
qed (use assms(2) in \<open>auto simp: InsertTelemetry_def split: option.splits\<close>)

lemma UpdateFindingStatus_inv:
  assumes "inj uuid" and "dbInv uuid db"
  shows "dbInv uuid (snd (UpdateFindingStatus uuid now fid status who db))"
proof (cases "tblFind frFindingID fid (igFindings db)")
  case None
  then show ?thesis using assms(2)
    by (auto simp: UpdateFindingStatus_def split: option.splits simp del: tblFind_None)
next
  case (Some r)
  from tblFind_Some [OF this] have r: "r \<in> set (igFindings db)" "frFindingID r = fid" by simp_all
  from logInv_change [OF assms(2) [unfolded dbInv_def] r(1) assms(1),
    of "\<lambda>x. x\<lparr>frStatus := status, frUpdatedBy := who, frUpdatedAt := now\<rparr>"
       "\<lparr>evEventID = uuid (igUUID db), evFindingID = fid, evHost = frHost r, evType = ''status_change'',
         evFrom = frStatus r, evTo = status, evActor = who, evReason = [], evAt = now\<rparr>"]
    Some assms(2) r show ?thesis
    by (auto simp: UpdateFindingStatus_def addEvent_def dbInv_def findingKey_def split: option.splits)
qed


subsection \<open>Reachable states\<close>

text \<open>Ingestion and reviews, in any order and with any error; what the other statements of the
  store change is left to \<open>elsewhere\<close>.\<close>

inductive ledger :: "(string \<Rightarrow> string) \<Rightarrow> (nat \<Rightarrow> string) \<Rightarrow> IngestDB \<Rightarrow> bool"
  for sha uuid where
  start: "igFindings db = [] \<Longrightarrow> igEvents db = [] \<Longrightarrow> ledger sha uuid db"
| telemetry: "ledger sha uuid db \<Longrightarrow> ledger sha uuid (snd (InsertTelemetry sha uuid now p db))"
| review: "ledger sha uuid db \<Longrightarrow> ledger sha uuid (snd (UpdateFindingStatus uuid now fid status who db))"
| elsewhere: "ledger sha uuid db \<Longrightarrow> igFindings db' = igFindings db \<Longrightarrow> igEvents db' = igEvents db \<Longrightarrow>
    igUUID db \<le> igUUID db' \<Longrightarrow> ledger sha uuid db'"

lemma dbInv_elsewhere:
  assumes "dbInv uuid db" and "igFindings db' = igFindings db" and "igEvents db' = igEvents db"
    and "igUUID db \<le> igUUID db'"
  shows "dbInv uuid db'"
  using assms unfolding dbInv_def logInv_def by (auto dest!: bspec intro: less_le_trans)

lemma ledger_inv: "ledger sha uuid db \<Longrightarrow> inj uuid \<Longrightarrow> dbInv uuid db"
proof (induction rule: ledger.induct)
  case (start db)
  then show ?case by (simp add: dbInv_def logInv_def)
next
  case (elsewhere db db')
  then show ?case by (blast intro: dbInv_elsewhere)
qed (simp_all add: InsertTelemetry_inv UpdateFindingStatus_inv)

subsection \<open>The findings table implements a map from keys to statuses\<close>

text \<open>The abstract ledger: a report opens its key unless the key was declared a false positive; a
  review sets the status of a known key.\<close>

definition observe :: "finding_key \<Rightarrow> (finding_key \<Rightarrow> string option) \<Rightarrow> finding_key \<Rightarrow> string option" where
  "observe k m = m(k \<mapsto> (if m k = Some ''false_positive'' then ''false_positive'' else ''open''))"

definition statusOf :: "IngestDB \<Rightarrow> finding_key \<Rightarrow> string option" where
  "statusOf db k = map_option frStatus (tblFind findingKey k (igFindings db))"

lemma tblUpdate_by_id:
  assumes "keyUnique frFindingID F" and "keyUnique findingKey F" and "r \<in> set F"
  shows "tblUpdate frFindingID (frFindingID r) f F = tblUpdate findingKey (findingKey r) f F"
  unfolding tblUpdate_def
proof (rule map_cong [OF refl])
  fix x assume "x \<in> set F"
  then have "frFindingID x = frFindingID r \<longleftrightarrow> findingKey x = findingKey r"
    using assms keyUnique_eq by metis
  then show "(if frFindingID x = frFindingID r then f x else x) =
      (if findingKey x = findingKey r then f x else x)" by simp
qed

lemma find_update_by_id:
  assumes "keyUnique frFindingID F" and "keyUnique findingKey F" and "tblFind key j F = Some r"
    and "\<And>x. findingKey (f x) = findingKey x"
  shows "tblFind findingKey k (tblUpdate frFindingID (frFindingID r) f F) =
    (if k = findingKey r then Some (f r) else tblFind findingKey k F)"
proof -
  have u: "keyed_update findingKey f" by unfold_locales (rule assms(4))
  have r: "r \<in> set F" using tblFind_Some [OF assms(3)] by simp
  show ?thesis
    using keyed_update.find_same [OF u, of "findingKey r" F] keyed_update.find_other [OF u, of k "findingKey r" F] tblFind_unique [OF assms(2) r]
    by (simp add: tblUpdate_by_id [OF assms(1,2) r])
qed

lemma upsertFinding_status:
  assumes "upsertFinding n db = Inr db'"
  shows "statusOf db' = (statusOf db)(findingKey n \<mapsto>
    (case statusOf db (findingKey n) of None \<Rightarrow> frStatus n | Some s \<Rightarrow> s))"
proof -
  from assms have F: "igFindings db' = tblUpsert findingKey n (seenAgain n) (igFindings db)"
    by (auto simp: upsertFinding_def split: if_splits)
  show ?thesis
    by (rule ext) (simp add: statusOf_def F finding_seen.find_upsert split: option.splits del: tblFind_None)
qed

lemma recordOccurrence_status: "recordOccurrence now p f db = Inr db' \<Longrightarrow> statusOf db' = statusOf db"
  by (auto simp: recordOccurrence_def statusOf_def Let_def fun_eq_iff split: if_splits)

lemma autoReopen_status:
  assumes "dbInv uuid db"
  shows "statusOf (autoReopen uuid now f db) =
    (case statusOf db (keyOf f) of
       Some s \<Rightarrow> if s = ''remediated'' \<or> s = ''accepted_risk'' then (statusOf db)(keyOf f \<mapsto> ''open'') else statusOf db
     | None \<Rightarrow> statusOf db)"
proof (cases "tblFind findingKey (keyOf f) (igFindings db)")
  case None
  then show ?thesis by (simp add: autoReopen_def statusOf_def del: tblFind_None)
next
  case (Some r)
  have k: "findingKey r = keyOf f" using tblFind_Some [OF Some] by simp
  have "statusOf (autoReopen uuid now f db) = (statusOf db)(keyOf f \<mapsto> ''open'')"
    if "frStatus r = ''remediated'' \<or> frStatus r = ''accepted_risk''"
  proof (rule ext)
    fix k' show "statusOf (autoReopen uuid now f db) k' = ((statusOf db)(keyOf f \<mapsto> ''open'')) k'"
      using assms find_update_by_id [OF _ _ Some, of "reopenRow now" k'] that
      by (auto simp: autoReopen_def addEvent_def statusOf_def Some k dbInv_def logInv_def)
  qed
  then show ?thesis by (auto simp: statusOf_def Some autoReopen_def)
qed

lemma statusOf_legal: "dbInv uuid db \<Longrightarrow> statusOf db k = Some s \<Longrightarrow> s \<in> set findingStatuses"
  by (auto simp: statusOf_def dbInv_def logInv_def dest: tblFind_Some)

lemma newFindingRow_key [simp]:
  "findingKey (newFindingRow p now f) = keyOf f" "frStatus (newFindingRow p now f) = ''open''"
  by (simp_all add: newFindingRow_def findingKey_def keyOf_def)

lemma storeFinding_status:
  assumes "storeFinding uuid now p f db = Inr db'" and "dbInv uuid db"
  shows "statusOf db' = observe (keyOf f) (statusOf db)"
proof -
  from assms(1) obtain d1 d2 where d: "upsertFinding (newFindingRow p now f) db = Inr d1"
    "recordOccurrence now p f d1 = Inr d2" "db' = autoReopen uuid now f d2"
    by (auto simp: storeFinding_def split: sum.splits)
  have "dbInv uuid d2"
    using upsertFinding_inv [OF d(1) _ assms(2)] recordOccurrence_inv [OF d(2)] by simp
  then have "statusOf db' = (case statusOf d2 (keyOf f) of
       Some s \<Rightarrow> if s = ''remediated'' \<or> s = ''accepted_risk'' then (statusOf d2)(keyOf f \<mapsto> ''open'') else statusOf d2
     | None \<Rightarrow> statusOf d2)" unfolding d(3) by (rule autoReopen_status)
  moreover have "statusOf d2 = (statusOf db)(keyOf f \<mapsto>
      (case statusOf db (keyOf f) of None \<Rightarrow> ''open'' | Some s \<Rightarrow> s))"
    using upsertFinding_status [OF d(1)] recordOccurrence_status [OF d(2)]
    by (simp cong: option.case_cong)
  ultimately show ?thesis
    using statusOf_legal [OF assms(2), of "keyOf f"]
    by (cases "statusOf db (keyOf f)") (auto simp: observe_def findingStatuses_def)
qed

lemma storeFindings_status:
  "storeFindings uuid now p fs db = Inr db' \<Longrightarrow> inj uuid \<Longrightarrow> dbInv uuid db \<Longrightarrow>
    statusOf db' = fold observe (map keyOf fs) (statusOf db)"
proof (induction fs arbitrary: db)
  case (Cons f fs)
  then obtain d where d: "storeFinding uuid now p f db = Inr d" "storeFindings uuid now p fs d = Inr db'"
    by (auto split: sum.splits)
  show ?case
    using Cons.IH [OF d(2) Cons.prems(2) storeFinding_inv [OF d(1) Cons.prems(2,3)]]
    by (simp add: storeFinding_status [OF d(1) Cons.prems(3)])
qed simp

lemma statusOf_findings: "igFindings db = igFindings db' \<Longrightarrow> statusOf db = statusOf db'"
  by (simp add: statusOf_def fun_eq_iff)

lemma InsertTelemetry_status:
  assumes "InsertTelemetry sha uuid now p db = (e, db')" and "inj uuid" and "dbInv uuid db"
  shows "statusOf db' = (if e = None then fold observe (map keyOf (Findings p)) (statusOf db) else statusOf db)"
proof (cases "igFault db = None \<and> (\<exists>d. ingest sha uuid now p db = Inr d)")
  case True
  with assms(1) have i: "ingest sha uuid now p db = Inr db'" "e = None"
    by (auto simp: InsertTelemetry_def split: sum.splits)
  from ingest_findings [OF i(1)] obtain d0 d1 where d: "igFindings d0 = igFindings db"
    "igEvents d0 = igEvents db" "igUUID d0 = igUUID db"
    "storeFindings uuid now p (Findings p) d0 = Inr d1" "igFindings db' = igFindings d1" by blast
  from assms(3) d have "dbInv uuid d0" by (simp add: dbInv_def)
  from storeFindings_status [OF d(4) assms(2) this] i(2) d show ?thesis
    using statusOf_findings [of db' d1] statusOf_findings [of d0 db] by simp
qed (use assms(1) in \<open>auto simp: InsertTelemetry_def split: option.splits sum.splits\<close>)

lemma UpdateFindingStatus_status:
  assumes "UpdateFindingStatus uuid now fid s who db = (e, db')" and "dbInv uuid db"
  shows "statusOf db' = (case (e, tblFind frFindingID fid (igFindings db)) of
    (None, Some r) \<Rightarrow> (statusOf db)(findingKey r \<mapsto> s) | _ \<Rightarrow> statusOf db)"
proof (cases "e = None")
  case True
  with assms(1) obtain r where r: "tblFind frFindingID fid (igFindings db) = Some r"
    and F: "igFindings db' = tblUpdate frFindingID fid
      (\<lambda>x. x\<lparr>frStatus := s, frUpdatedBy := who, frUpdatedAt := now\<rparr>) (igFindings db)"
    by (auto simp: UpdateFindingStatus_def addEvent_def split: if_splits option.splits simp del: tblFind_None)
  have m: "r \<in> set (igFindings db)" "frFindingID r = fid" using tblFind_Some [OF r] by simp_all
  have u: "keyUnique frFindingID (igFindings db)" "keyUnique findingKey (igFindings db)"
    using assms(2) by (simp_all add: dbInv_def logInv_def)
  show ?thesis
    by (rule ext) (simp add: statusOf_def F True r
        find_update_by_id [OF u tblFind_unique [OF u(2) m(1)], unfolded m(2)] findingKey_def)
next
  case False
  with assms(1) have "db' = db"
    by (auto simp: UpdateFindingStatus_def split: if_splits option.splits simp del: tblFind_None)
  with False show ?thesis by (auto split: option.split)
qed

subsection \<open>What becomes of a row\<close>

definition sameFinding :: "FindingRow \<Rightarrow> FindingRow \<Rightarrow> bool" where
  "sameFinding r r' \<longleftrightarrow> frFindingID r' = frFindingID r \<and> frHost r' = frHost r \<and>
     findingKey r' = findingKey r \<and> (frStatus r = ''false_positive'' \<longrightarrow> r' = r)"

lemma sameFinding_refl [simp]: "sameFinding r r"
  by (simp add: sameFinding_def)

lemma sameFinding_trans: "sameFinding a b \<Longrightarrow> sameFinding b c \<Longrightarrow> sameFinding a c"
  by (auto simp: sameFinding_def)

lemma sameFinding_updates:
  "sameFinding r (seenAgain n r)"
  "frStatus r = ''remediated'' \<or> frStatus r = ''accepted_risk'' \<Longrightarrow> sameFinding r (reopenRow now r)"
  by (auto simp: sameFinding_def seenAgain_def findingKey_def reopenRow_def)

lemma tblUpsert_row:
  "r \<in> set t \<Longrightarrow> r \<in> set (tblUpsert key n f t) \<or> f r \<in> set (tblUpsert key n f t)"
  by (auto simp: tblUpsert_def set_tblUpdate)

lemma storeFinding_row:
  assumes "storeFinding uuid now p f db = Inr db'" and "dbInv uuid db" and "r \<in> set (igFindings db)"
  shows "\<exists>r' \<in> set (igFindings db'). sameFinding r r'"
proof -
  from assms(1) obtain d1 d2 where d: "upsertFinding (newFindingRow p now f) db = Inr d1"
    "recordOccurrence now p f d1 = Inr d2" "db' = autoReopen uuid now f d2"
    by (auto simp: storeFinding_def split: sum.splits)
  from d(1) assms(3) obtain r1 where r1: "r1 \<in> set (igFindings d1)" "sameFinding r r1"
    using tblUpsert_row [where key = findingKey and f = "seenAgain (newFindingRow p now f)"]
    by (fastforce simp: upsertFinding_def sameFinding_updates split: if_splits)
  have F2: "igFindings d2 = igFindings d1"
    using d(2) by (auto simp: recordOccurrence_def Let_def split: if_splits)
  have inv: "dbInv uuid d2"
    using upsertFinding_inv [OF d(1) _ assms(2)] recordOccurrence_inv [OF d(2)] by simp
  show ?thesis
  proof (cases "tblFind findingKey (keyOf f) (igFindings d2)")
    case None
    then show ?thesis using r1 d(3) F2 by (auto simp: autoReopen_def simp del: tblFind_None)
  next
    case (Some q)
    have q: "q \<in> set (igFindings d2)" using tblFind_Some [OF Some] by simp
    have "\<exists>r' \<in> set (igFindings db'). sameFinding r1 r'"
    proof (cases "frFindingID r1 = frFindingID q")
      case True
      then have "r1 = q"
        using inv r1(1) q F2 keyUnique_eq [of frFindingID "igFindings d2" r1 q] by (simp add: dbInv_def logInv_def)
      then show ?thesis using q d(3) Some sameFinding_updates(2) [of q now]
        by (auto simp: autoReopen_def addEvent_def set_tblUpdate intro: sameFinding_refl)
    next
      case False
      then show ?thesis using r1(1) d(3) Some F2
        by (auto simp: autoReopen_def addEvent_def set_tblUpdate intro!: bexI [of _ r1])
    qed
    then show ?thesis using r1(2) by (blast intro: sameFinding_trans)
  qed
qed

lemma storeFindings_row:
  "storeFindings uuid now p fs db = Inr db' \<Longrightarrow> inj uuid \<Longrightarrow> dbInv uuid db \<Longrightarrow> r \<in> set (igFindings db) \<Longrightarrow>
    \<exists>r' \<in> set (igFindings db'). sameFinding r r'"
proof (induction fs arbitrary: db r)
  case (Cons f fs)
  then obtain d where d: "storeFinding uuid now p f db = Inr d" "storeFindings uuid now p fs d = Inr db'"
    by (auto split: sum.splits)
  from storeFinding_row [OF d(1) Cons.prems(3,4)] obtain r1 where
    "r1 \<in> set (igFindings d)" "sameFinding r r1" by blast
  with Cons.IH [OF d(2) Cons.prems(2) storeFinding_inv [OF d(1) Cons.prems(2,3)]] show ?case
    by (blast intro: sameFinding_trans)
qed (auto intro: sameFinding_refl)

lemma InsertTelemetry_row:
  assumes "inj uuid" and "dbInv uuid db" and "r \<in> set (igFindings db)"
  shows "\<exists>r' \<in> set (igFindings (snd (InsertTelemetry sha uuid now p db))). sameFinding r r'"
proof (cases "ingest sha uuid now p db")
  case (Inr db')
  from ingest_findings [OF this] obtain d0 d1 where d: "igFindings d0 = igFindings db"
    "igEvents d0 = igEvents db" "igUUID d0 = igUUID db"
    "storeFindings uuid now p (Findings p) d0 = Inr d1" "igFindings db' = igFindings d1" by blast
  from assms(2) d have "dbInv uuid d0" by (simp add: dbInv_def)
  from storeFindings_row [OF d(4) assms(1) this] assms(3) d Inr show ?thesis
    by (auto simp: InsertTelemetry_def split: option.split intro!: bexI [of _ r])
qed (use assms(3) in \<open>auto simp: InsertTelemetry_def split: option.splits intro!: bexI [of _ r]\<close>)

subsection \<open>The properties\<close>


text \<open>C3: Ingestion implements the abstract ledger: seen as a map from (asset, algorithm, rule) to
  statuses, a successful insert of a payload observes its findings in order, a failed one changes
  nothing, a review sets the status of its finding's key and a failed one changes nothing.\<close>

theorem ledger_refines_status_map:
  assumes "ledger sha uuid db" and "inj uuid"
    and "InsertTelemetry sha uuid now p db = (e1, db1)"
    and "UpdateFindingStatus uuid now fid s who db = (e2, db2)"
  shows "statusOf db1 = (if e1 = None then fold observe (map keyOf (Findings p)) (statusOf db) else statusOf db) \<and>
    statusOf db2 = (case (e2, tblFind frFindingID fid (igFindings db)) of
      (None, Some r) \<Rightarrow> (statusOf db)(findingKey r \<mapsto> s) | _ \<Rightarrow> statusOf db)"
  using InsertTelemetry_status [OF assms(3,2)] UpdateFindingStatus_status [OF assms(4)]
    ledger_inv [OF assms(1,2)] by simp

text \<open>A finding belongs to the host that reported it first and has one row for the whole fleet:
  whichever host of whichever tenant reports the same asset path, algorithm and rule, the only row of
  that key keeps its id and its host.\<close>

theorem finding_keeps_first_host:
  assumes "ledger sha uuid db" and "inj uuid" and "r \<in> set (igFindings db)"
    and "InsertTelemetry sha uuid now p db = (e, db1)"
  shows "map_option (\<lambda>q. (frFindingID q, frHost q)) (tblFind findingKey (findingKey r) (igFindings db1)) =
    Some (frFindingID r, frHost r)"
proof -
  have inv: "dbInv uuid db" using ledger_inv [OF assms(1,2)] .
  have u: "keyUnique findingKey (igFindings db1)"
    using InsertTelemetry_inv [OF assms(2) inv, of sha now p] assms(4) by (simp add: dbInv_def logInv_def)
  from InsertTelemetry_row [OF assms(2) inv assms(3), of sha now p] assms(4) obtain q where
    "q \<in> set (igFindings db1)" "sameFinding r q" by auto
  with tblFind_unique [OF u, of q] show ?thesis by (simp add: sameFinding_def)
qed

text \<open>A finding declared a false positive is left exactly as it is by later reports, its payload
  id included. When the retention deletes that payload, the row goes with it, whatever the time of the
  review, and the next report opens the finding again.\<close>

theorem suppression_forgotten:
  assumes "ledger sha uuid db" and "inj uuid" and "r \<in> set (igFindings db)"
    and "InsertTelemetry sha uuid now p db = (None, db1)" and "keyOf f = findingKey r"
    and "igFault db1 = None" and "t \<in> set (igTelemetry db1)" and "tmID t = frTelemetryID r"
    and "tmReceivedAt t < cutoff" and "frStatus r = ''false_positive''"
  shows "tblFind findingKey (keyOf f) (igFindings db1) = Some r \<and>
    statusOf (snd (PurgeOldTelemetry cutoff db1)) (keyOf f) = None \<and>
    observe (keyOf f) (statusOf (snd (PurgeOldTelemetry cutoff db1))) (keyOf f) = Some ''open''"
proof -
  have inv: "dbInv uuid db" using ledger_inv [OF assms(1,2)] .
  have inv1: "dbInv uuid db1" using InsertTelemetry_inv [OF assms(2) inv] assms(4) by (metis snd_conv)
  have r1: "r \<in> set (igFindings db1)"
    using InsertTelemetry_row [OF assms(2) inv assms(3), of sha now p] assms(4,10) by (auto simp: sameFinding_def)
  have u: "keyUnique findingKey (igFindings db1)" using inv1 by (simp add: dbInv_def logInv_def)
  have gone: "keyOf f \<notin> findingKey ` set (igFindings (snd (PurgeOldTelemetry cutoff db1)))"
  proof
    assume "keyOf f \<in> findingKey ` set (igFindings (snd (PurgeOldTelemetry cutoff db1)))"
    then obtain q where q: "q \<in> set (igFindings db1)" "findingKey q = findingKey r"
      "frTelemetryID q \<notin> tmID ` {x \<in> set (igTelemetry db1). tmReceivedAt x < cutoff}"
      using assms(5,6) by (auto simp: PurgeOldTelemetry_def Let_def)
    with keyUnique_eq [OF u r1, of q] have "q = r" by simp
    with q(3) assms(7-9) show False by (auto intro: rev_image_eqI)
  qed
  then have "statusOf (snd (PurgeOldTelemetry cutoff db1)) (keyOf f) = None" by (simp add: statusOf_def)
  then show ?thesis
    using tblFind_unique [OF u r1] assms(5) by (simp add: observe_def)
qed

subsection \<open>A run\<close>

text \<open>A payload with one finding from the first of two hosts, a review, and the payload again.\<close>

definition demo_uuid :: "nat \<Rightarrow> string" where
  "demo_uuid n = replicate n CHR ''u''"

lemma demo_uuid_inj: "inj demo_uuid"
  by (rule injI) (metis demo_uuid_def length_replicate)

definition demo_finding :: CryptoFinding where
  "demo_finding = \<lparr>FindingId = ''f1'', Severity = 4, Title = [], fnDescription = [], AssetRef = ''a'',
     fnAlgorithm = ''RSA'', PolicyRuleId = ''R'', EvidenceIds = [], MigrationProfile = []\<rparr>"

definition demo_payload :: "string \<Rightarrow> string \<Rightarrow> CbomTelemetryPayload" where
  "demo_payload tid host = \<lparr>TelemetryId = tid, plHostUuid = host, ScanStartedUnix = 0, ScanFinishedUnix = 0,
     Components = [], Findings = [demo_finding], NetworkObservations = [], plEvidence = [], CycloneDxJson = []\<rparr>"

definition demo_asset :: "string \<Rightarrow> string \<Rightarrow> AssetRow" where
  "demo_asset host tenant = \<lparr>asHostUUID = host, asTenantID = tenant, asHostname = host, asOsName = [],
     asOsVersion = [], asArch = [], asExecutionMode = 0, asCapabilities = [], asDnsName = [], asAgentVersion = [],
     asObservedIP = [], asManaged = True, asFirstRegistered = 0, asLastRegistered = 0, asLastSeen = 0\<rparr>"

definition demo_empty :: IngestDB where
  "demo_empty = \<lparr>igAssets = [demo_asset ''h1'' ''t1'', demo_asset ''h2'' ''t2''],
     igTelemetry = [], igScans = [], igFindings = [], igOccurrences = [], igEvents = [], igCommands = [],
     igComponents = [], igCerts = [], igUUID = 0, igFault = None\<rparr>"

definition demo_row :: "string \<Rightarrow> string \<Rightarrow> int \<Rightarrow> FindingRow" where
  "demo_row status who t = \<lparr>frFindingID = ''f1'', frTelemetryID = ''p1'', frHost = ''h1'', frSeverity = 4,
     frTitle = [], frDescription = [], frAssetRef = ''a'', frAlgorithm = ''RSA'', frRule = ''R'', frProfile = [],
     frEvidence = [], frStatus = status, frUpdatedBy = who, frUpdatedAt = t, frCreatedAt = 5,
     frConfidence = 82 / 100, frReopenCount = 0, frReopenedAt = None\<rparr>"

definition demo_reported :: IngestDB where
  "demo_reported = snd (InsertTelemetry (\<lambda>x. x) demo_uuid 5 (demo_payload ''p1'' ''h1'') demo_empty)"

definition demo_reviewed :: "string \<Rightarrow> IngestDB" where
  "demo_reviewed s = snd (UpdateFindingStatus demo_uuid 7 ''f1'' s ''bob'' demo_reported)"

lemma demo_ledger: "ledger (\<lambda>x. x) demo_uuid demo_reported" "ledger (\<lambda>x. x) demo_uuid (demo_reviewed s)"
proof -
  show l: "ledger (\<lambda>x. x) demo_uuid demo_reported" unfolding demo_reported_def
    by (rule ledger.telemetry, rule ledger.start) (simp_all add: demo_empty_def)
  show "ledger (\<lambda>x. x) demo_uuid (demo_reviewed s)" unfolding demo_reviewed_def
    by (rule ledger.review [OF l])
qed

lemmas demo_ingest_defs = InsertTelemetry_def ingest_def insertPayload_def completeCommands_def
  insertScanRun_def storeFinding_def upsertFinding_def recordOccurrence_def newFindingRow_def
  findingKey_def keyOf_def findingConfidence_def demo_payload_def demo_finding_def tblUpsert_def
  tblUpdate_def tblInsert_def tblFind_def autoReopen_def seenAgain_def Let_def

lemma demo_reported_rows:
  "igFindings demo_reported = [demo_row ''open'' [] 5]"
  "igTelemetry demo_reported = [\<lparr>tmID = ''p1'', tmHost = ''h1'', tmReceivedAt = 5,
      tmPayload = demo_payload ''p1'' ''h1''\<rparr>]"
  "igFault demo_reported = None" "igAssets demo_reported = igAssets demo_empty"
  "srScanID ` set (igScans demo_reported) = {''p1''}" "ocID ` set (igOccurrences demo_reported) = {''p1:f1''}"
  by (simp_all add: demo_reported_def demo_ingest_defs demo_empty_def demo_row_def demo_asset_def)

lemma demo_reviewed_rows:
  assumes "s \<in> set findingStatuses"
  shows "igFindings (demo_reviewed s) = [demo_row s ''bob'' 7]"
    "igTelemetry (demo_reviewed s) = igTelemetry demo_reported" "igFault (demo_reviewed s) = None"
    "igAssets (demo_reviewed s) = igAssets demo_empty" "igScans (demo_reviewed s) = igScans demo_reported"
    "igOccurrences (demo_reviewed s) = igOccurrences demo_reported"
  using assms demo_reported_rows
  by (simp_all add: demo_reviewed_def UpdateFindingStatus_def addEvent_def tblFind_def tblUpdate_def demo_row_def)

lemma demo_second:
  assumes "s \<in> set findingStatuses"
  shows "fst (InsertTelemetry (\<lambda>x. x) demo_uuid 9 (demo_payload ''p2'' ''h2'') (demo_reviewed s)) = None"
    "igFault (snd (InsertTelemetry (\<lambda>x. x) demo_uuid 9 (demo_payload ''p2'' ''h2'') (demo_reviewed s))) = None"
    "igTelemetry (snd (InsertTelemetry (\<lambda>x. x) demo_uuid 9 (demo_payload ''p2'' ''h2'') (demo_reviewed s))) =
      [\<lparr>tmID = ''p1'', tmHost = ''h1'', tmReceivedAt = 5,
      tmPayload = demo_payload ''p1'' ''h1''\<rparr>, \<lparr>tmID = ''p2'', tmHost = ''h2'', tmReceivedAt = 9,
      tmPayload = demo_payload ''p2'' ''h2''\<rparr>]"
  by (auto simp: demo_ingest_defs demo_reviewed_rows [OF assms] demo_reported_rows demo_empty_def demo_row_def demo_asset_def
      addEvent_def image_iff demo_reported_rows(6) [unfolded set_eq_iff image_iff])

lemma demo_legal: "''accepted_risk'' \<in> set findingStatuses" "''false_positive'' \<in> set findingStatuses"
  by (simp_all add: findingStatuses_def)


theorem ledger_refines_status_map_witness:
  "statusOf (snd (InsertTelemetry (\<lambda>x. x) demo_uuid 9 (demo_payload ''p2'' ''h2'') (demo_reviewed ''accepted_risk'')))
     (''a'', ''RSA'', ''R'') = Some ''open''"
  using ledger_refines_status_map [where now = 9 and p = "demo_payload ''p2'' ''h2''" and s = "''open''"
      and fid = "[]" and who = "[]", OF demo_ledger(2) [of "''accepted_risk''"] demo_uuid_inj surjective_pairing surjective_pairing]
    demo_second(1) [OF demo_legal(1)]
  by (simp add: demo_payload_def demo_finding_def keyOf_def observe_def statusOf_def demo_reviewed_rows demo_legal
      tblFind_def findingKey_def demo_row_def)

theorem finding_keeps_first_host_witness:
  "map_option frHost (tblFind findingKey (''a'', ''RSA'', ''R'')
     (igFindings (snd (InsertTelemetry (\<lambda>x. x) demo_uuid 9 (demo_payload ''p2'' ''h2'') (demo_reviewed ''accepted_risk''))))) =
   Some ''h1''"
  using finding_keeps_first_host [where now = 9 and p = "demo_payload ''p2'' ''h2''" and r = "demo_row ''accepted_risk'' ''bob'' 7",
      OF demo_ledger(2) [of "''accepted_risk''"] demo_uuid_inj _ surjective_pairing]
  by (auto simp: demo_reviewed_rows demo_legal demo_row_def findingKey_def)

theorem suppression_forgotten_witness:
  "statusOf (snd (PurgeOldTelemetry 6
     (snd (InsertTelemetry (\<lambda>x. x) demo_uuid 9 (demo_payload ''p2'' ''h2'') (demo_reviewed ''false_positive'')))))
     (''a'', ''RSA'', ''R'') = None"
proof -
  have k: "keyOf demo_finding = findingKey (demo_row ''false_positive'' ''bob'' 7)"
    by (simp add: keyOf_def demo_finding_def findingKey_def demo_row_def)
  have i: "InsertTelemetry (\<lambda>x. x) demo_uuid 9 (demo_payload ''p2'' ''h2'') (demo_reviewed ''false_positive'') =
      (None, snd (InsertTelemetry (\<lambda>x. x) demo_uuid 9 (demo_payload ''p2'' ''h2'') (demo_reviewed ''false_positive'')))"
    using demo_second(1) [OF demo_legal(2)] by (metis prod.collapse)
  show ?thesis
    using suppression_forgotten [OF demo_ledger(2) demo_uuid_inj _ i k demo_second(2) [OF demo_legal(2)],
        of "\<lparr>tmID = ''p1'', tmHost = ''h1'', tmReceivedAt = 5,
      tmPayload = demo_payload ''p1'' ''h1''\<rparr>" 6]
    by (simp add: demo_second demo_reviewed_rows demo_legal) (simp add: demo_row_def keyOf_def demo_finding_def)
qed

end
