(* ===== verification/Hub.thy ===== *)
theory Hub
  imports GoLib "HOL-Library.Word"
begin

unbundle bit_operations_syntax

text \<open>
  The WebSocket hub: \<^verbatim>\<open>server/internal/ws/hub.go\<close>. Frames are lists of bytes of type
  \<^typ>\<open>8 word\<close>; a reader is the list of the bytes that will arrive before the connection ends. A
  connection keeps what was written to it, and whether a write to it fails. The hub's channels are
  queues, which the goroutine \<open>run\<close> empties one at a time. \<open>marshal\<close> is the JSON encoding of an event.
\<close>

subsection \<open>Frames\<close>

type_synonym byte = "8 word"

definition opText :: byte where "opText = 1"

definition opClose :: byte where "opClose = 8"

definition opPing :: byte where "opPing = 9"

definition opPong :: byte where "opPong = 10"

text \<open>\<open>encoding/binary\<close>, big endian.\<close>

definition putUint16 :: "16 word \<Rightarrow> byte list" where
  "putUint16 v = [ucast (drop_bit 8 v), ucast v]"

definition putUint64 :: "64 word \<Rightarrow> byte list" where
  "putUint64 v = [ucast (drop_bit 56 v), ucast (drop_bit 48 v), ucast (drop_bit 40 v), ucast (drop_bit 32 v),
     ucast (drop_bit 24 v), ucast (drop_bit 16 v), ucast (drop_bit 8 v), ucast v]"

definition uint16 :: "byte list \<Rightarrow> 16 word" where
  "uint16 b = ucast (b ! 1) OR push_bit 8 (ucast (b ! 0))"

definition uint64 :: "byte list \<Rightarrow> 64 word" where
  "uint64 b = ucast (b ! 7) OR push_bit 8 (ucast (b ! 6)) OR push_bit 16 (ucast (b ! 5)) OR
     push_bit 24 (ucast (b ! 4)) OR push_bit 32 (ucast (b ! 3)) OR push_bit 40 (ucast (b ! 2)) OR
     push_bit 48 (ucast (b ! 1)) OR push_bit 56 (ucast (b ! 0))"

definition writeFrame :: "byte \<Rightarrow> byte list \<Rightarrow> byte list" where
  "writeFrame opcode payload =
     (let len = length payload;
          first = 0x80 OR opcode
      in if len \<le> 125 then [first, word_of_nat len] @ payload
         else if len \<le> 65535 then [first, 126] @ putUint16 (word_of_nat len) @ payload
         else [first, 127] @ putUint64 (word_of_nat len) @ payload)"

text \<open>\<open>io.ReadFull\<close>.\<close>

definition readFull :: "nat \<Rightarrow> byte list \<Rightarrow> (byte list \<times> byte list) result" where
  "readFull n r = (if length r < n then Inl (if r = [] then ''EOF'' else ''unexpected EOF'')
                   else Inr (take n r, drop n r))"

definition readLength :: "byte \<Rightarrow> byte list \<Rightarrow> (64 word \<times> byte list) result" where
  "readLength b r =
     (let short = ucast (b AND 0x7F)
      in if short = 126
         then (case readFull 2 r of Inl e \<Rightarrow> Inl e | Inr (ext, r') \<Rightarrow> Inr (ucast (uint16 ext), r'))
         else if short = 127
         then (case readFull 8 r of Inl e \<Rightarrow> Inl e | Inr (ext, r') \<Rightarrow> Inr (uint64 ext, r'))
         else Inr (short, r))"

definition xorMask :: "byte list \<Rightarrow> byte list \<Rightarrow> byte list" where
  "xorMask maskKey payload = map (\<lambda>i. payload ! i XOR maskKey ! (i mod 4)) [0..<length payload]"

definition maxFrame :: "64 word" where
  "maxFrame = 10 * 1024 * 1024"

definition readFrame :: "byte list \<Rightarrow> (byte \<times> byte list \<times> byte list) result" where
  "readFrame r =
     (case readFull 2 r of
        Inl e \<Rightarrow> Inl e
      | Inr (header, r1) \<Rightarrow>
          (let opcode = header ! 0 AND 0x0F;
               masked = (header ! 1 AND 0x80 \<noteq> 0)
           in case readLength (header ! 1) r1 of
                Inl e \<Rightarrow> Inl e
              | Inr (len, r2) \<Rightarrow>
                  (case (if masked then readFull 4 r2 else Inr ([0, 0, 0, 0], r2)) of
                     Inl e \<Rightarrow> Inl e
                   | Inr (maskKey, r3) \<Rightarrow>
                       if maxFrame < len then Inl ''frame too large''
                       else (case readFull (unat len) r3 of
                               Inl e \<Rightarrow> Inl e
                             | Inr (payload, r4) \<Rightarrow>
                                 Inr (opcode, if masked then xorMask maskKey payload else payload, r4)))))"

subsection \<open>Connections\<close>

record wsConn =
  wcTenant :: string
  wcWritten :: "byte list"
  wcFails :: bool
  wcOpen :: bool

type_synonym conn_id = nat

record Hub =
  clients :: "conn_id set"
  registerCh :: "conn_id list"
  unregisterCh :: "conn_id list"
  conns :: "conn_id \<rightharpoonup> wsConn"

definition newHub :: Hub where
  "newHub = \<lparr>clients = {}, registerCh = [], unregisterCh = [], conns = Map.empty\<rparr>"

text \<open>A write to a connection that fails or is closed changes nothing but the returned error, which
  every caller only logs.\<close>

definition connWrite :: "byte \<Rightarrow> byte list \<Rightarrow> wsConn \<Rightarrow> wsConn" where
  "connWrite opcode data c =
     (if wcFails c \<or> \<not> wcOpen c then c else c\<lparr>wcWritten := wcWritten c @ writeFrame opcode data\<rparr>)"

definition writeTo :: "(conn_id \<Rightarrow> wsConn \<Rightarrow> bool) \<Rightarrow> byte \<Rightarrow> byte list \<Rightarrow> Hub \<Rightarrow> Hub" where
  "writeTo sel opcode data h =
     h\<lparr>conns := (\<lambda>i. map_option (\<lambda>c. if sel i c then connWrite opcode data c else c) (conns h i))\<rparr>"

definition Broadcast :: "(string \<Rightarrow> 'd \<Rightarrow> byte list result) \<Rightarrow> string \<Rightarrow> 'd \<Rightarrow> Hub \<Rightarrow> Hub" where
  "Broadcast marshal typ data h =
     (case marshal typ data of
        Inl e \<Rightarrow> h
      | Inr payload \<Rightarrow> writeTo (\<lambda>i c. i \<in> clients h) opText payload h)"

definition BroadcastTenant :: "(string \<Rightarrow> 'd \<Rightarrow> byte list result) \<Rightarrow> string \<Rightarrow> string \<Rightarrow> 'd \<Rightarrow> Hub \<Rightarrow> Hub" where
  "BroadcastTenant marshal tenant typ data h =
     (if tenant = [] then Broadcast marshal typ data h
      else case marshal typ data of
        Inl e \<Rightarrow> h
      | Inr payload \<Rightarrow>
          writeTo (\<lambda>i c. i \<in> clients h \<and> \<not> (wcTenant c \<noteq> [] \<and> wcTenant c \<noteq> tenant)) opText payload h)"

definition ClientCount :: "Hub \<Rightarrow> nat" where
  "ClientCount h = card (clients h)"

subsection \<open>Serving a connection\<close>

definition wsGUID :: string where
  "wsGUID = ''258EAFA5-E914-47DA-95CA-C5AB0DC85B11''"

text \<open>The upgrade: the status of a refusal, or the text sent to the client.\<close>

definition upgradeResponse :: "(string \<Rightarrow> string) \<Rightarrow> (string \<Rightarrow> string) \<Rightarrow> string \<Rightarrow> string \<Rightarrow> (nat \<times> string) + string" where
  "upgradeResponse sha1 base64 upgrade key =
     (if \<not> equalFold upgrade ''websocket'' then Inl (400, ''not a websocket request'')
      else if key = [] then Inl (400, ''missing Sec-WebSocket-Key'')
      else Inr (concat (map (\<lambda>l. l @ [CHR 0x0D, CHR 0x0A])
        [''HTTP/1.1 101 Switching Protocols'', ''Upgrade: websocket'', ''Connection: Upgrade'',
         ''Sec-WebSocket-Accept: '' @ base64 (sha1 (key @ wsGUID)), []])))"

definition ServeWS :: "conn_id \<Rightarrow> string \<Rightarrow> bool \<Rightarrow> Hub \<Rightarrow> Hub" where
  "ServeWS i tenant fails h =
     h\<lparr>conns := (conns h)(i \<mapsto> \<lparr>wcTenant = tenant, wcWritten = [], wcFails = fails, wcOpen = True\<rparr>),
       registerCh := registerCh h @ [i]\<rparr>"

text \<open>One round of the read loop on the bytes still to come: \<open>None\<close> ends it.\<close>

definition serveRound :: "conn_id \<Rightarrow> byte list \<Rightarrow> Hub \<Rightarrow> byte list option \<times> Hub" where
  "serveRound i r h =
     (case readFrame r of
        Inl e \<Rightarrow> (None, h\<lparr>unregisterCh := unregisterCh h @ [i]\<rparr>)
      | Inr (opcode, payload, r') \<Rightarrow>
          if opcode = opPing then (Some r', writeTo (\<lambda>j c. j = i) opText [] h)
          else if opcode = opClose then (None, h\<lparr>unregisterCh := unregisterCh h @ [i]\<rparr>)
          else (Some r', h))"

subsection \<open>The goroutine of the hub\<close>

definition runRegister :: "Hub \<Rightarrow> Hub" where
  "runRegister h = (case registerCh h of
       [] \<Rightarrow> h
     | i # rest \<Rightarrow> h\<lparr>clients := insert i (clients h), registerCh := rest\<rparr>)"

definition runUnregister :: "Hub \<Rightarrow> Hub" where
  "runUnregister h = (case unregisterCh h of
       [] \<Rightarrow> h
     | i # rest \<Rightarrow> h\<lparr>clients := clients h - {i}, unregisterCh := rest,
         conns := (conns h)(i := map_option (\<lambda>c. c\<lparr>wcOpen := False\<rparr>) (conns h i))\<rparr>)"

definition runTick :: "Hub \<Rightarrow> Hub" where
  "runTick h = writeTo (\<lambda>i c. i \<in> clients h) opPing [] h"

end
