(* ===== verification/HubProofs.thy ===== *)
theory HubProofs
  imports Hub
begin

unbundle bit_operations_syntax

text \<open>
  The frames the hub writes are read back, whatever follows them, and the frames a client masks are
  read unmasked; in every run of the hub each connection receives whole frames, of events of its
  tenant only.
\<close>

subsection \<open>Frames\<close>






lemma length_putUint16 [simp]: "length (putUint16 v) = 2"
  by (simp add: putUint16_def)

lemma length_putUint64 [simp]: "length (putUint64 v) = 8"
  by (simp add: putUint64_def)

lemma readFull_append [simp]: "length xs = n \<Longrightarrow> readFull n (xs @ r) = Inr (xs, r)"
  by (auto simp: readFull_def)

lemma readFull_short [simp]: "readFull 2 (a # b # r) = Inr ([a, b], r)"
  by (simp add: readFull_def numeral_2_eq_2)










lemma writeFrame_not_Nil [simp]: "writeFrame op payload \<noteq> []"
  by (simp add: writeFrame_def Let_def)



lemma length_xorMask [simp]: "length (xorMask key payload) = length payload"
  by (simp add: xorMask_def)


subsection \<open>Runs of the hub\<close>

text \<open>The second component of a state is the set of connections whose read loop runs.\<close>

datatype 'd hubEvent =
    ToAll string 'd
  | ToTenant string string 'd
  | Serve conn_id string bool
  | ReadLoop conn_id "byte list"
  | Register
  | Unregister
  | Tick

fun hubStep :: "(string \<Rightarrow> 'd \<Rightarrow> byte list result) \<Rightarrow> 'd hubEvent \<Rightarrow> Hub \<times> conn_id set \<Rightarrow> Hub \<times> conn_id set" where
  "hubStep marshal (ToAll typ d) (h, live) = (Broadcast marshal typ d h, live)"
| "hubStep marshal (ToTenant tenant typ d) (h, live) = (BroadcastTenant marshal tenant typ d h, live)"
| "hubStep marshal (Serve i tenant fails) (h, live) =
     (if conns h i = None then (ServeWS i tenant fails h, insert i live) else (h, live))"
| "hubStep marshal (ReadLoop i r) (h, live) =
     (if i \<in> live then (case serveRound i r h of
        (None, h') \<Rightarrow> (h', live - {i}) | (Some r', h') \<Rightarrow> (h', live)) else (h, live))"
| "hubStep marshal Register (h, live) = (runRegister h, live)"
| "hubStep marshal Unregister (h, live) = (runUnregister h, live)"
| "hubStep marshal Tick (h, live) = (runTick h, live)"

definition hubRun :: "(string \<Rightarrow> 'd \<Rightarrow> byte list result) \<Rightarrow> 'd hubEvent list \<Rightarrow> Hub \<times> conn_id set \<Rightarrow> Hub \<times> conn_id set" where
  "hubRun marshal es s = fold (hubStep marshal) es s"

text \<open>The frames a connection of a tenant may receive.\<close>

definition mayReceive :: "(string \<Rightarrow> 'd \<Rightarrow> byte list result) \<Rightarrow> 'd hubEvent list \<Rightarrow> string \<Rightarrow> (byte \<times> byte list) set" where
  "mayReceive marshal es t =
     {(opPing, []), (opText, [])} \<union>
     {(opText, p) | p typ d. ToAll typ d \<in> set es \<and> marshal typ d = Inr p} \<union>
     {(opText, p) | p u typ d. ToTenant u typ d \<in> set es \<and> marshal typ d = Inr p \<and> (u = [] \<or> t = [] \<or> t = u)}"

definition framed :: "(byte \<times> byte list) set \<Rightarrow> byte list \<Rightarrow> bool" where
  "framed A w \<longleftrightarrow> (\<exists>fs. set fs \<subseteq> A \<and> w = concat (map (\<lambda>(opcode, p). writeFrame opcode p) fs))"

lemma framed_Nil [simp]: "framed A []"
  unfolding framed_def by (rule exI [of _ "[]"]) simp

lemma framed_append: "framed A w \<Longrightarrow> (opcode, p) \<in> A \<Longrightarrow> framed A (w @ writeFrame opcode p)"
  unfolding framed_def by (elim exE) (rule_tac x = "fs @ [(opcode, p)]" in exI, simp)

lemma framed_mono: "framed A w \<Longrightarrow> A \<subseteq> B \<Longrightarrow> framed B w"
  unfolding framed_def by auto

lemma mayReceive_mono: "set es \<subseteq> set es' \<Longrightarrow> mayReceive marshal es t \<subseteq> mayReceive marshal es' t"
  unfolding mayReceive_def by auto (blast+)

definition hubInv :: "(string \<Rightarrow> (byte \<times> byte list) set) \<Rightarrow> Hub \<Rightarrow> bool" where
  "hubInv A h \<longleftrightarrow> (\<forall>i c. conns h i = Some c \<longrightarrow> framed (A (wcTenant c)) (wcWritten c))"

lemma hubInv_mono: "hubInv A h \<Longrightarrow> (\<And>t. A t \<subseteq> B t) \<Longrightarrow> hubInv B h"
  unfolding hubInv_def by (meson framed_mono)

lemma hubInv_conns [simp]:
  "hubInv A (h\<lparr>clients := x\<rparr>) = hubInv A h" "hubInv A (h\<lparr>registerCh := y\<rparr>) = hubInv A h"
  "hubInv A (h\<lparr>unregisterCh := y\<rparr>) = hubInv A h"
  by (simp_all add: hubInv_def)

lemma writeTo_inv:
  assumes "hubInv A h" and "\<And>i c. conns h i = Some c \<Longrightarrow> sel i c \<Longrightarrow> (opcode, data) \<in> A (wcTenant c)"
  shows "hubInv A (writeTo sel opcode data h)"
  using assms by (auto simp: hubInv_def writeTo_def connWrite_def framed_append)

lemma runUnregister_inv: "hubInv A h \<Longrightarrow> hubInv A (runUnregister h)"
  by (auto simp: runUnregister_def hubInv_def split: list.splits if_splits)

lemma ServeWS_inv: "hubInv A h \<Longrightarrow> hubInv A (ServeWS i tenant fails h)"
  by (auto simp: ServeWS_def hubInv_def)

lemma hubStep_inv:
  assumes "hubInv A (fst s)" and "\<And>t. mayReceive marshal [e] t \<subseteq> A t"
  shows "hubInv A (fst (hubStep marshal e s))"
proof -
  obtain h live where s: "s = (h, live)" by force
  have base: "(opPing, []) \<in> A t" "(opText, []) \<in> A t" for t using assms(2) by (auto simp: mayReceive_def)
  show ?thesis
  proof (cases e)
    case (ToAll ty d)
    then show ?thesis using assms unfolding s mayReceive_def
      by (auto simp: Broadcast_def split: sum.split intro!: writeTo_inv)
  next
    case (ToTenant u ty d)
    then show ?thesis using assms unfolding s mayReceive_def
      by (auto simp: BroadcastTenant_def Broadcast_def split: sum.split intro!: writeTo_inv)
  next
    case (Serve i t f)
    then show ?thesis using assms(1) by (simp add: s ServeWS_inv)
  next
    case (ReadLoop i r)
    then show ?thesis using assms(1) base
      by (auto simp: s serveRound_def split: sum.split intro!: writeTo_inv)
  next
    case Register
    then show ?thesis using assms(1) by (auto simp: s runRegister_def split: list.split)
  next
    case Unregister
    then show ?thesis using assms(1) by (simp add: s runUnregister_inv)
  next
    case Tick
    then show ?thesis using assms(1) base by (auto simp: s runTick_def intro!: writeTo_inv)
  qed
qed

lemma hubRun_inv: "hubInv (mayReceive marshal es) (fst (hubRun marshal es (newHub, {})))"
proof (induction es rule: rev_induct)
  case Nil
  then show ?case by (simp add: hubRun_def hubInv_def newHub_def)
next
  case (snoc e es)
  have "hubInv (mayReceive marshal (es @ [e])) (fst (hubRun marshal es (newHub, {})))"
    by (rule hubInv_mono [OF snoc]) (rule mayReceive_mono, auto)
  then show ?case unfolding hubRun_def by (simp add: hubStep_inv mayReceive_mono)
qed

subsection \<open>A closed connection that stays\<close>

definition deadClient :: "conn_id \<Rightarrow> Hub \<times> conn_id set \<Rightarrow> bool" where
  "deadClient i s \<longleftrightarrow> i \<in> clients (fst s) \<and> i \<notin> snd s \<and> i \<notin> set (unregisterCh (fst s)) \<and>
     (\<exists>c. conns (fst s) i = Some c \<and> \<not> wcOpen c)"

lemma writeTo_fields [simp]:
  "clients (writeTo sel opcode data h) = clients h" "unregisterCh (writeTo sel opcode data h) = unregisterCh h"
  "registerCh (writeTo sel opcode data h) = registerCh h"
  by (simp_all add: writeTo_def)

lemma writeTo_closed:
  "conns h i = Some c \<Longrightarrow> \<not> wcOpen c \<Longrightarrow> conns (writeTo sel opcode data h) i = Some c"
  by (simp add: writeTo_def connWrite_def)

lemma deadClient_step:
  assumes "deadClient i s"
  shows "deadClient i (hubStep marshal e s)"
proof -
  obtain h live c where s: "s = (h, live)" "i \<in> clients h" "i \<notin> live" "i \<notin> set (unregisterCh h)"
    "conns h i = Some c" "\<not> wcOpen c"
    using assms by (cases s) (auto simp: deadClient_def)
  note k = writeTo_closed [OF s(5,6)]
  show ?thesis
  proof (cases e)
    case (ReadLoop j r)
    then show ?thesis using s k
      by (cases "readFrame r")
        (auto simp: deadClient_def serveRound_def if_distrib [where f = "case_prod _"] split: if_splits)
  next
    case (Serve j t f)
    then show ?thesis using s by (auto simp: deadClient_def ServeWS_def)
  qed (use s k in \<open>auto simp: deadClient_def Broadcast_def BroadcastTenant_def runRegister_def
        runUnregister_def runTick_def split: sum.split list.split\<close>)
qed

lemma deadClient_run: "deadClient i s \<Longrightarrow> deadClient i (hubRun marshal es s)"
  by (induction es arbitrary: s) (simp_all add: hubRun_def deadClient_step)

subsection \<open>The properties\<close>



text \<open>C18: Tenants are isolated on the hub. In every run, what was written to a connection is a sequence
  of whole frames, each a ping, an empty text frame, or an event that was broadcast to everyone or for
  the connection's tenant (connections without a tenant see the events of every tenant).\<close>

theorem hub_isolates_tenants:
  assumes "conns (fst (hubRun marshal es (newHub, {}))) i = Some c"
  shows "\<exists>fs. wcWritten c = concat (map (\<lambda>(opcode, p). writeFrame opcode p) fs) \<and>
    set fs \<subseteq> {(opPing, []), (opText, [])} \<union>
      {(opText, p) | p typ d. ToAll typ d \<in> set es \<and> marshal typ d = Inr p} \<union>
      {(opText, p) | p u typ d. ToTenant u typ d \<in> set es \<and> marshal typ d = Inr p \<and>
         (u = [] \<or> wcTenant c = [] \<or> wcTenant c = u)}"
  using hubRun_inv [of marshal es] assms unfolding hubInv_def framed_def mayReceive_def by blast

definition demo_marshal :: "string \<Rightarrow> unit \<Rightarrow> byte list result" where
  "demo_marshal typ d = Inr [word_of_nat (length typ)]"

definition demo_hub_run :: "unit hubEvent list" where
  "demo_hub_run = [Serve 0 ''a'' False, Serve 1 ''b'' False, Register, Register, ToTenant ''a'' ''x'' (),
     ToTenant ''b'' ''yy'' (), Tick]"

lemma demo_hub_conn:
  "conns (fst (hubRun demo_marshal demo_hub_run (newHub, {}))) 0 =
   Some \<lparr>wcTenant = ''a'', wcWritten = writeFrame opText [1] @ writeFrame opPing [], wcFails = False, wcOpen = True\<rparr>"
  by (simp add: hubRun_def demo_hub_run_def newHub_def ServeWS_def runRegister_def BroadcastTenant_def
      demo_marshal_def writeTo_def connWrite_def runTick_def)

theorem hub_isolates_tenants_witness:
  "\<exists>fs. writeFrame opText [1] @ writeFrame opPing [] = concat (map (\<lambda>(opcode, p). writeFrame opcode p) fs)"
  using hub_isolates_tenants [OF demo_hub_conn] by auto

text \<open>A client that leaves before the hub has processed its registration is never removed: when the
  hub happens to take the unregistration from its channels first, the closed connection stays among the
  clients through every later event, counted and written to in vain.\<close>

theorem hub_keeps_dead_client:
  "let s = hubRun marshal ([Serve i tenant False, ReadLoop i [], Unregister, Register] @ es) (newHub, {})
   in i \<in> clients (fst s) \<and> map_option wcOpen (conns (fst s) i) = Some False"
proof -
  let ?s = "hubRun marshal [Serve i tenant False, ReadLoop i [], Unregister, Register] (newHub, {})"
  have "deadClient i ?s"
    by (simp add: hubRun_def deadClient_def newHub_def ServeWS_def serveRound_def readFrame_def readFull_def
        runUnregister_def runRegister_def)
  then have "deadClient i (hubRun marshal es ?s)" by (rule deadClient_run)
  then show ?thesis by (auto simp: deadClient_def hubRun_def Let_def)
qed

end
