(* ===== verification/UrlGuard.thy ===== *)
theory UrlGuard
  imports GoLib
begin

text \<open>
  The two checks of operator-supplied addresses: \<open>validateLLMBaseURL\<close> of
  \<^verbatim>\<open>server/internal/config/config.go\<close> and \<open>validateWebhookURL\<close> of
  \<^verbatim>\<open>server/internal/httpapi/webhook_validate.go\<close>. \<open>url.Parse\<close> is the parameter \<open>parse\<close> (scheme
  and host name of a URL), \<open>net.ParseIP\<close> with the predicates on its result the parameter \<open>ip\<close>.
\<close>

record ipClass =
  IsPrivate :: bool
  IsLoopback :: bool
  IsLinkLocalUnicast :: bool
  IsUnspecified :: bool

record parsedURL =
  Scheme :: string
  Hostname :: string

definition metadataHosts :: "string list" where
  "metadataHosts = [''metadata.google.internal'', ''169.254.169.254'', ''fd00:ec2::254'']"

definition isLocalhost :: "string \<Rightarrow> bool" where
  "isLocalhost host \<longleftrightarrow> toLower host = ''localhost'' \<or> hasPrefix host ''127.''"

definition validateLLMBaseURL :: "(string \<Rightarrow> parsedURL result) \<Rightarrow> (string \<Rightarrow> ipClass option) \<Rightarrow> string \<Rightarrow> goerror" where
  "validateLLMBaseURL parse ip rawURL =
     (if rawURL = [] then Some ''JANUS_LLM_BASE_URL must not be empty''
      else case parse rawURL of
        Inl e \<Rightarrow> Some (''JANUS_LLM_BASE_URL is not a valid URL: '' @ e)
      | Inr u \<Rightarrow>
          (let host = Hostname u
           in if toLower host \<in> set metadataHosts
              then Some ''JANUS_LLM_BASE_URL: metadata endpoint is not allowed''
              else if Scheme u = ''https''
              then (case ip host of
                      Some c \<Rightarrow>
                        if \<not> isLocalhost host \<and> (IsPrivate c \<or> IsLoopback c \<or> IsLinkLocalUnicast c)
                        then Some ''JANUS_LLM_BASE_URL: private/link-local IP is not allowed; use a public HTTPS endpoint''
                        else None
                    | None \<Rightarrow> None)
              else if Scheme u = ''http''
              then (if isLocalhost host then None
                    else Some ''JANUS_LLM_BASE_URL: http scheme is only allowed for localhost; use https for remote providers'')
              else Some ''JANUS_LLM_BASE_URL: unsupported scheme; use https''))"

definition validateWebhookURL :: "(string \<Rightarrow> parsedURL result) \<Rightarrow> (string \<Rightarrow> ipClass option) \<Rightarrow> string \<Rightarrow> goerror" where
  "validateWebhookURL parse ip rawURL =
     (case parse rawURL of
        Inl e \<Rightarrow> Some (''invalid webhook URL: '' @ e)
      | Inr u \<Rightarrow>
          (let host = Hostname u
           in if Scheme u \<noteq> ''http'' \<and> Scheme u \<noteq> ''https'' then Some ''unsupported webhook scheme; use https''
              else if host = [] then Some ''webhook URL must include a host''
              else if toLower host \<in> set metadataHosts then Some ''metadata endpoint is not allowed''
              else if (case ip host of None \<Rightarrow> False
                       | Some c \<Rightarrow> \<not> isLocalhost host \<and>
                           (IsPrivate c \<or> IsLoopback c \<or> IsLinkLocalUnicast c \<or> IsUnspecified c))
              then Some ''private/link-local IP is not allowed; use a public endpoint''
              else if Scheme u = ''http'' \<and> \<not> isLocalhost host
              then Some ''http is only allowed for localhost; use https for remote webhooks''
              else None))"

text \<open>What an address guard promises: an accepted address has a web scheme, no metadata host, no
  private, loopback or link-local address unless it counts as local, and plain http only then.\<close>

locale url_guard =
  fixes accepts :: "string \<Rightarrow> bool" and parse :: "string \<Rightarrow> parsedURL result" and ip :: "string \<Rightarrow> ipClass option"
  assumes accepted: "accepts raw \<Longrightarrow> \<exists>u. parse raw = Inr u \<and> toLower (Hostname u) \<notin> set metadataHosts \<and>
    (Scheme u = ''https'' \<or> Scheme u = ''http'' \<and> isLocalhost (Hostname u)) \<and>
    (\<forall>c. Scheme u = ''https'' \<longrightarrow> ip (Hostname u) = Some c \<longrightarrow> \<not> isLocalhost (Hostname u) \<longrightarrow>
       \<not> IsPrivate c \<and> \<not> IsLoopback c \<and> \<not> IsLinkLocalUnicast c)"
begin

lemma remote_is_https: "accepts raw \<Longrightarrow> parse raw = Inr u \<Longrightarrow> \<not> isLocalhost (Hostname u) \<Longrightarrow> Scheme u = ''https''"
  using accepted by fastforce

lemma remote_not_internal:
  "accepts raw \<Longrightarrow> parse raw = Inr u \<Longrightarrow> \<not> isLocalhost (Hostname u) \<Longrightarrow> ip (Hostname u) = Some c \<Longrightarrow>
    \<not> IsPrivate c \<and> \<not> IsLoopback c \<and> \<not> IsLinkLocalUnicast c"
  using accepted remote_is_https by fastforce

lemma not_metadata: "accepts raw \<Longrightarrow> parse raw = Inr u \<Longrightarrow> toLower (Hostname u) \<notin> set metadataHosts"
  using accepted by fastforce

end

interpretation llm_guard: url_guard "\<lambda>raw. validateLLMBaseURL parse ip raw = None" parse ip for parse ip
  by unfold_locales (auto simp: validateLLMBaseURL_def Let_def split: if_splits sum.splits option.splits)

interpretation webhook_guard: url_guard "\<lambda>raw. validateWebhookURL parse ip raw = None" parse ip for parse ip
  by unfold_locales (auto simp: validateWebhookURL_def Let_def split: if_splits sum.splits option.splits)

text \<open>Neither address check lets the server be pointed at an internal address by name or number:
  an accepted address is no metadata endpoint, and a host that does not count as local is reached by
  https only and is no private, loopback or link-local address.\<close>

theorem accepted_address_public:
  assumes "validateLLMBaseURL parse ip raw = None \<or> validateWebhookURL parse ip raw = None"
    and "parse raw = Inr u" and "\<not> isLocalhost (Hostname u)"
  shows "toLower (Hostname u) \<notin> set metadataHosts \<and> Scheme u = ''https'' \<and>
    (case ip (Hostname u) of None \<Rightarrow> True | Some c \<Rightarrow> \<not> IsPrivate c \<and> \<not> IsLoopback c \<and> \<not> IsLinkLocalUnicast c)"
  using assms(1)
proof
  assume "validateLLMBaseURL parse ip raw = None"
  note g = llm_guard.not_metadata [OF this assms(2)] llm_guard.remote_is_https [OF this assms(2,3)]
    llm_guard.remote_not_internal [OF this assms(2,3)]
  then show ?thesis by (simp split: option.split)
next
  assume "validateWebhookURL parse ip raw = None"
  note g = webhook_guard.not_metadata [OF this assms(2)] webhook_guard.remote_is_https [OF this assms(2,3)]
    webhook_guard.remote_not_internal [OF this assms(2,3)]
  then show ?thesis by (simp split: option.split)
qed

definition demo_parse :: "string \<Rightarrow> parsedURL result" where
  "demo_parse raw = (if hasPrefix raw ''https://'' then Inr \<lparr>Scheme = ''https'', Hostname = drop 8 raw\<rparr>
     else if hasPrefix raw ''http://'' then Inr \<lparr>Scheme = ''http'', Hostname = drop 7 raw\<rparr> else Inl ''scheme'')"

theorem accepted_address_public_witness:
  "Scheme (\<lparr>Scheme = ''https'', Hostname = ''hook''\<rparr> :: parsedURL) = ''https''"
  using accepted_address_public [of demo_parse "\<lambda>h. None" "''https://hook''" "\<lparr>Scheme = ''https'', Hostname = ''hook''\<rparr>"]
  by (simp add: validateLLMBaseURL_def validateWebhookURL_def demo_parse_def hasPrefix_def isLocalhost_def
      metadataHosts_def toLower_def lowerByte_def isUpperByte_def)

text \<open>A host name that merely starts with \<^verbatim>\<open>127.\<close> counts as local: both checks accept plain
  http to a remote name of that form.\<close>

theorem local_by_prefix:
  assumes "parse raw = Inr \<lparr>Scheme = ''http'', Hostname = ''127.0.0.1.example.com''\<rparr>" and "raw \<noteq> []"
  shows "validateLLMBaseURL parse ip raw = None \<and> validateWebhookURL parse ip raw = None"
  using assms by (simp add: validateLLMBaseURL_def validateWebhookURL_def isLocalhost_def metadataHosts_def
      hasPrefix_def toLower_def lowerByte_def isUpperByte_def Let_def split: option.split)

theorem local_by_prefix_witness:
  "validateWebhookURL demo_parse (\<lambda>h. None) ''http://127.0.0.1.example.com'' = None"
  using local_by_prefix [of demo_parse "''http://127.0.0.1.example.com''" "\<lambda>h. None"]
  by (simp add: demo_parse_def hasPrefix_def)

end
