(* ===== verification/Webhooks.thy ===== *)
theory Webhooks
  imports PolicyEngine ControlPack Tables
begin

text \<open>
  Outgoing alerts: the SIEM webhooks of \<^verbatim>\<open>server/internal/grpcserver/server.go\<close> with their
  circuit breaker, the table \<open>fleet_webhooks\<close>, and the operator channels of
  \<^verbatim>\<open>server/internal/notify/notify.go\<close>. Times are nanoseconds; a request is answered by the world's
  next answer, which says how long it took. HMAC, JSON and the formatting of times are parameters.
\<close>

subsection \<open>The circuit breaker\<close>

record webhookCircuit =
  failures :: "string \<rightharpoonup> nat"
  cooldownUntil :: "string \<rightharpoonup> int"

definition second :: int where
  "second = 1000000000"

definition newCircuit :: webhookCircuit where
  "newCircuit = \<lparr>failures = Map.empty, cooldownUntil = Map.empty\<rparr>"

definition failureCount :: "webhookCircuit \<Rightarrow> string \<Rightarrow> nat" where
  "failureCount wc url = (case failures wc url of None \<Rightarrow> 0 | Some n \<Rightarrow> n)"

definition recordFailure :: "int \<Rightarrow> string \<Rightarrow> webhookCircuit \<Rightarrow> webhookCircuit" where
  "recordFailure now url wc =
     (let n = failureCount wc url + 1; wc1 = wc\<lparr>failures := (failures wc)(url \<mapsto> n)\<rparr>
      in if 5 \<le> n then wc1\<lparr>cooldownUntil := (cooldownUntil wc1)(url \<mapsto> now + 60 * second)\<rparr> else wc1)"

definition recordSuccess :: "string \<Rightarrow> webhookCircuit \<Rightarrow> webhookCircuit" where
  "recordSuccess url wc =
     wc\<lparr>failures := (failures wc)(url := None), cooldownUntil := (cooldownUntil wc)(url := None)\<rparr>"

definition isOpen :: "int \<Rightarrow> string \<Rightarrow> webhookCircuit \<Rightarrow> bool" where
  "isOpen now url wc = (case cooldownUntil wc url of Some t \<Rightarrow> now < t | None \<Rightarrow> False)"

subsection \<open>Webhooks and events\<close>

record Webhook =
  WebhookID :: string
  whURL :: string
  SecretToken :: string
  whActive :: bool
  whCreatedAt :: int

definition GetWebhooks :: "Webhook list \<Rightarrow> Webhook list" where
  "GetWebhooks t = rev (sort_key whCreatedAt t)"

definition InsertWebhook :: "string \<Rightarrow> Webhook \<Rightarrow> Webhook list \<Rightarrow> goerror \<times> Webhook list" where
  "InsertWebhook uuid wh t =
     (let w = (if WebhookID wh = [] then wh\<lparr>WebhookID := uuid\<rparr> else wh)
      in if WebhookID w \<in> WebhookID ` set t
         then (Some ''duplicate key value violates unique constraint'', t) else (None, t @ [w]))"

definition DeleteWebhook :: "string \<Rightarrow> Webhook list \<Rightarrow> Webhook list" where
  "DeleteWebhook webhookID t = tblDelete WebhookID webhookID t"

definition severityLabel :: "int \<Rightarrow> string" where
  "severityLabel sev =
     (if 5 \<le> sev then ''critical'' else if sev = 4 then ''high'' else if sev = 3 then ''medium''
      else if sev = 2 then ''low'' else ''info'')"

record SIEMEvent =
  seEventType :: string
  seEventVersion :: string
  seTimestamp :: string
  seHostUUID :: string
  seFindingID :: string
  seRuleID :: string
  seTitle :: string
  seSeverity :: int
  seSeverityLabel :: string
  seAlgorithm :: string
  seAssetRef :: string
  seStatus :: string
  seEvidenceContext :: string
  seRuleHint :: string
  seTargetKEM :: string
  seTargetSig :: string

definition buildSIEMEvent :: "string \<Rightarrow> CbomTelemetryPayload \<Rightarrow> CryptoFinding \<Rightarrow> Profile \<Rightarrow> SIEMEvent" where
  "buildSIEMEvent timestamp payload f prof =
     \<lparr>seEventType = ''janus.finding.critical'', seEventVersion = ''1.0'', seTimestamp = timestamp,
      seHostUUID = plHostUuid payload, seFindingID = FindingId f, seRuleID = PolicyRuleId f, seTitle = Title f,
      seSeverity = Severity f, seSeverityLabel = severityLabel (Severity f), seAlgorithm = fnAlgorithm f,
      seAssetRef = AssetRef f, seStatus = ''open'',
      seEvidenceContext = (case EvidenceIds f of [] \<Rightarrow> [] | e # _ \<Rightarrow> e),
      seRuleHint = (case GetRule (PolicyRuleId f) of None \<Rightarrow> [] | Some r \<Rightarrow> RemediationHint r),
      seTargetKEM = PreferredKEM prof, seTargetSig = PreferredSignature prof\<rparr>"

definition signWebhookBody :: "(string \<Rightarrow> string \<Rightarrow> string) \<Rightarrow> string \<Rightarrow> string \<Rightarrow> string" where
  "signWebhookBody hmac secret body =
     (if secret = [] then [] else ''sha256='' @ hexEncode (hmac secret body))"

definition criticalFindings :: "CbomTelemetryPayload \<Rightarrow> CryptoFinding list" where
  "criticalFindings payload = filter (\<lambda>f. \<not> Severity f < 5) (Findings payload)"

text \<open>The bodies: a finding whose event does not encode is left out.\<close>

definition eventBodies :: "(SIEMEvent \<Rightarrow> string result) \<Rightarrow> string \<Rightarrow> Profile \<Rightarrow> CbomTelemetryPayload \<Rightarrow> string list" where
  "eventBodies marshal timestamp prof payload =
     concat (map (\<lambda>f. case marshal (buildSIEMEvent timestamp payload f prof) of Inl e \<Rightarrow> [] | Inr b \<Rightarrow> [b])
       (criticalFindings payload))"

subsection \<open>Dispatch\<close>

datatype answer = BadRequest | NoResponse int | Status int int

record request =
  rqURL :: string
  rqBody :: string
  rqToken :: string
  rqSignature :: string

record World =
  wNow :: int
  wAnswers :: "nat \<Rightarrow> answer"
  wSent :: "request list"
  wCircuit :: webhookCircuit
  wOutcomes :: "(string \<times> string) list"

definition requestOf :: "(string \<Rightarrow> string \<Rightarrow> string) \<Rightarrow> Webhook \<Rightarrow> string \<Rightarrow> request" where
  "requestOf hmac wh body =
     \<lparr>rqURL = whURL wh, rqBody = body, rqToken = SecretToken wh,
      rqSignature = signWebhookBody hmac (SecretToken wh) body\<rparr>"

text \<open>One request: whether the status was 2xx. \<open>BadRequest\<close> is a URL that does not parse, for which
  nothing is sent.\<close>

definition post :: "request \<Rightarrow> World \<Rightarrow> bool \<times> World" where
  "post r w =
     (case wAnswers w 0 of
        BadRequest \<Rightarrow> (False, w\<lparr>wAnswers := (\<lambda>n. wAnswers w (n + 1))\<rparr>)
      | NoResponse d \<Rightarrow> (False, w\<lparr>wNow := wNow w + d, wAnswers := (\<lambda>n. wAnswers w (n + 1)), wSent := wSent w @ [r]\<rparr>)
      | Status d code \<Rightarrow> (200 \<le> code \<and> code < 300,
          w\<lparr>wNow := wNow w + d, wAnswers := (\<lambda>n. wAnswers w (n + 1)), wSent := wSent w @ [r]\<rparr>))"

text \<open>The attempts, with a pause of 1, 2, ... seconds before each but the first.\<close>

fun attempts :: "request \<Rightarrow> nat list \<Rightarrow> World \<Rightarrow> bool \<times> World" where
  "attempts r [] w = (False, w)"
| "attempts r (k # ks) w =
     (let w1 = (if 0 < k then w\<lparr>wNow := wNow w + 2 ^ (k - 1) * second\<rparr> else w)
      in case post r w1 of (True, w2) \<Rightarrow> (True, w2) | (False, w2) \<Rightarrow> attempts r ks w2)"

definition dispatchEvent :: "(string \<Rightarrow> string \<Rightarrow> string) \<Rightarrow> Webhook \<Rightarrow> string \<Rightarrow> World \<Rightarrow> World" where
  "dispatchEvent hmac wh body w =
     (case attempts (requestOf hmac wh body) [0, 1, 2] w of
        (True, w1) \<Rightarrow> w1\<lparr>wCircuit := recordSuccess (whURL wh) (wCircuit w1),
                        wOutcomes := wOutcomes w1 @ [(whURL wh, ''success'')]\<rparr>
      | (False, w1) \<Rightarrow> w1\<lparr>wCircuit := recordFailure (wNow w1) (whURL wh) (wCircuit w1),
                        wOutcomes := wOutcomes w1 @ [(whURL wh, ''failed'')]\<rparr>)"

definition dispatchWebhook :: "(string \<Rightarrow> string \<Rightarrow> string) \<Rightarrow> string list \<Rightarrow> Webhook \<Rightarrow> World \<Rightarrow> World" where
  "dispatchWebhook hmac events wh w =
     (if \<not> whActive wh then w
      else if isOpen (wNow w) (whURL wh) (wCircuit w)
      then w\<lparr>wOutcomes := wOutcomes w @ [(whURL wh, ''skipped'')]\<rparr>
      else fold (dispatchEvent hmac wh) events w)"

definition dispatchWebhooks :: "(string \<Rightarrow> string \<Rightarrow> string) \<Rightarrow> (SIEMEvent \<Rightarrow> string result) \<Rightarrow> string \<Rightarrow> Profile
    \<Rightarrow> Webhook list result \<Rightarrow> CbomTelemetryPayload \<Rightarrow> World \<Rightarrow> World" where
  "dispatchWebhooks hmac marshal timestamp prof webhooks payload w =
     (case webhooks of
        Inl e \<Rightarrow> w
      | Inr whs \<Rightarrow>
          (let events = eventBodies marshal timestamp prof payload
           in if whs = [] \<or> events = [] then w else fold (dispatchWebhook hmac events) whs w))"

subsection \<open>What the breaker remembers\<close>











subsection \<open>Dispatches\<close>

lemma post_fields [simp]: "wCircuit (snd (post r w)) = wCircuit w" "wOutcomes (snd (post r w)) = wOutcomes w"
  by (simp_all add: post_def split: answer.split)

lemma post_sent: "wSent (snd (post r w)) = wSent w \<or> wSent (snd (post r w)) = wSent w @ [r]"
  by (simp add: post_def split: answer.split)

lemma attempts_sent:
  "\<exists>n \<le> length ks. wSent (snd (attempts r ks w)) = wSent w @ replicate n r"
proof (induction ks arbitrary: w)
  case (Cons k ks)
  define w1 where "w1 = (if 0 < k then w\<lparr>wNow := wNow w + 2 ^ (k - 1) * second\<rparr> else w)"
  have s1: "wSent w1 = wSent w" by (simp add: w1_def)
  obtain ok w2 where p: "post r w1 = (ok, w2)" by (cases "post r w1")
  have s2: "wSent w2 = wSent w \<or> wSent w2 = wSent w @ [r]" using post_sent [of r w1] p s1 by simp
  have a: "attempts r (k # ks) w = (if ok then (True, w2) else attempts r ks w2)"
    by (simp add: p flip: w1_def)
  obtain n where n: "n \<le> length ks" "wSent (snd (attempts r ks w2)) = wSent w2 @ replicate n r"
    using Cons.IH [of w2] by blast
  show ?case
  proof (cases ok)
    case True
    then show ?thesis using a s2 by (auto intro: exI [of _ 0] exI [of _ 1])
  next
    case False
    with a n s2 show ?thesis by (auto intro: exI [of _ n] exI [of _ "Suc n"])
  qed
qed simp

lemma dispatchEvent_sent:
  "\<exists>n \<le> 3. wSent (dispatchEvent hmac wh body w) = wSent w @ replicate n (requestOf hmac wh body)"
proof -
  obtain n where "n \<le> length [0, 1, 2 :: nat]"
    "wSent (snd (attempts (requestOf hmac wh body) [0, 1, 2] w)) = wSent w @ replicate n (requestOf hmac wh body)"
    using attempts_sent by blast
  then show ?thesis
    by (auto simp: dispatchEvent_def split: prod.split bool.split intro!: exI [of _ n])
qed

lemma dispatchEvents_sent:
  "length (wSent (fold (dispatchEvent hmac wh) events w)) \<le> length (wSent w) + 3 * length events"
proof (induction events arbitrary: w)
  case (Cons b bs)
  from dispatchEvent_sent [of hmac wh b w] have "length (wSent (dispatchEvent hmac wh b w)) \<le> length (wSent w) + 3"
    by auto
  with Cons [of "dispatchEvent hmac wh b w"] show ?case by simp
qed simp



lemma dispatchEvents_fail:
  assumes "\<And>n. wAnswers w n = NoResponse d"
  shows "length (wSent (fold (dispatchEvent hmac wh) events w)) = length (wSent w) + 3 * length events \<and>
    (\<forall>n. wAnswers (fold (dispatchEvent hmac wh) events w) n = NoResponse d)"
  using assms
proof (induction events arbitrary: w)
  case (Cons b bs)
  have "length (wSent (dispatchEvent hmac wh b w)) = length (wSent w) + 3 \<and>
      (\<forall>n. wAnswers (dispatchEvent hmac wh b w) n = NoResponse d)"
    by (simp add: dispatchEvent_def post_def Cons.prems)
  with Cons.IH [of "dispatchEvent hmac wh b w"] show ?case by simp
qed simp





text \<open>A webhook costs at most three requests per critical finding. The breaker is looked at once per
  webhook and not between the events: a receiver that never answers gets all three requests for each of
  them, however many dispatches have failed by then.\<close>

theorem dispatch_requests:
  "length (wSent (dispatchWebhook hmac events wh w)) \<le> length (wSent w) + 3 * length events \<and>
   length (wSent (dispatchWebhook hmac events wh
     (w\<lparr>wAnswers := (\<lambda>n. NoResponse d), wCircuit := newCircuit\<rparr>))) =
     length (wSent w) + (if whActive wh then 3 * length events else 0)"
  using dispatchEvents_sent [of hmac wh events w]
    dispatchEvents_fail [of "w\<lparr>wAnswers := (\<lambda>n. NoResponse d), wCircuit := newCircuit\<rparr>" d hmac wh events]
  by (simp add: dispatchWebhook_def isOpen_def newCircuit_def)

end
