(* ===== verification/Notify.thy ===== *)
theory Notify
  imports GoLib Config Webhooks
begin

text \<open>
  Operator alerts: \<^verbatim>\<open>server/internal/notify/notify.go\<close> and the call from
  \<^verbatim>\<open>grpcserver/server.go\<close>. A channel sends to the outside world, which is the parameter
  \<open>deliver\<close>: what it answers to a message. The channels of one alert run at the same time; the model
  lists what each was given in the order of the channels.
\<close>

subsection \<open>Alerts\<close>

record Alert =
  alTitle :: string
  alSeverity :: int
  alHostname :: string
  alHostUUID :: string
  alAlgorithm :: string
  alFindingID :: string
  alDescription :: string
  alPolicyRule :: string

abbreviation crlf :: string where "crlf \<equiv> [CHR 0x0D, CHR 0x0A]"

definition dedupKey :: "Alert \<Rightarrow> string" where
  "dedupKey a = (if alFindingID a \<noteq> [] then ''janus-'' @ alFindingID a
                 else ''janus-'' @ alHostUUID a @ ''-'' @ alAlgorithm a)"

definition alertHost :: "Alert \<Rightarrow> string" where
  "alertHost a = (if alHostname a = [] then alHostUUID a else alHostname a)"

definition summary :: "Alert \<Rightarrow> string" where
  "summary a = ''[Janus][sev'' @ decInt (alSeverity a) @ ''] '' @ alAlgorithm a @ '' on '' @ alertHost a @
     '' ('' @ alTitle a @ '')''"

fun firstNonEmpty :: "string list \<Rightarrow> string" where
  "firstNonEmpty [] = []"
| "firstNonEmpty (v # vs) = (if v \<noteq> [] then v else firstNonEmpty vs)"

subsection \<open>Channels\<close>

datatype Channel =
    slackChannel string
  | pagerDutyChannel string
  | emailChannel string string "string list" string string

fun channelName :: "Channel \<Rightarrow> string" where
  "channelName (slackChannel url) = ''slack''"
| "channelName (pagerDutyChannel key) = ''pagerduty''"
| "channelName (emailChannel addr sender rcpts user pw) = ''email''"

record PagerDutyEvent =
  pdRoutingKey :: string
  pdDedupKey :: string
  pdSummary :: string
  pdSource :: string
  pdComponent :: string
  pdGroup :: string
  pdFindingID :: string
  pdDescription :: string

text \<open>What leaves the process: a JSON text to a URL, an event, or a mail with its envelope and the host
  whose password check is used.\<close>

datatype message =
    SlackText string string
  | PagerDuty PagerDutyEvent
  | Mail string "(string \<times> string \<times> string) option" string "string list" string

definition slackText :: "Alert \<Rightarrow> string" where
  "slackText a = '':rotating_light: *'' @ alTitle a @ ''*'' @ [CHR 0x0A] @ ''*Host:* '' @ alertHost a @ [CHR 0x0A] @
     ''*Algorithm:* '' @ alAlgorithm a @ [CHR 0x0A] @ ''*Rule:* '' @ alPolicyRule a @ [CHR 0x0A] @
     ''*Finding:* '' @ [CHR 0x60] @ alFindingID a @ [CHR 0x60, CHR 0x0A] @ alDescription a"

definition pagerDutyEvent :: "string \<Rightarrow> Alert \<Rightarrow> PagerDutyEvent" where
  "pagerDutyEvent key a =
     \<lparr>pdRoutingKey = key, pdDedupKey = dedupKey a, pdSummary = summary a,
      pdSource = firstNonEmpty [alHostname a, alHostUUID a, ''janus''], pdComponent = alAlgorithm a,
      pdGroup = alPolicyRule a, pdFindingID = alFindingID a, pdDescription = alDescription a\<rparr>"

definition buildEmail :: "string \<Rightarrow> string list \<Rightarrow> Alert \<Rightarrow> string" where
  "buildEmail sender rcpts a =
     concat (map (\<lambda>l. l @ crlf)
       [''From: '' @ sender, ''To: '' @ joinWith '', '' rcpts, ''Subject: '' @ summary a,
        ''Content-Type: text/plain; charset=utf-8'', [],
        ''Critical cryptographic finding detected by Janus CryptoBOM.'', [],
        ''Title:       '' @ alTitle a, ''Severity:    '' @ decInt (alSeverity a), ''Host:        '' @ alertHost a,
        ''Algorithm:   '' @ alAlgorithm a, ''Policy rule: '' @ alPolicyRule a, ''Finding ID:  '' @ alFindingID a,
        [], alDescription a])"

text \<open>The host part of an address: up to the last colon, unless that is the first byte.\<close>

definition smtpHost :: "string \<Rightarrow> string" where
  "smtpHost addr =
     (case afterLastByte (CHR '':'') addr of
        None \<Rightarrow> addr
      | Some port \<Rightarrow> let i = length addr - length port - 1 in if 0 < i then take i addr else addr)"

fun channelMessage :: "Channel \<Rightarrow> Alert \<Rightarrow> message" where
  "channelMessage (slackChannel url) a = SlackText url (slackText a)"
| "channelMessage (pagerDutyChannel key) a = PagerDuty (pagerDutyEvent key a)"
| "channelMessage (emailChannel addr sender rcpts user pw) a =
     Mail addr (if user \<noteq> [] then Some (user, pw, smtpHost addr) else None) sender rcpts (buildEmail sender rcpts a)"

subsection \<open>The dispatcher\<close>

record Dispatcher =
  channels :: "Channel list"
  minSeverity :: int

definition newDispatcher :: "(string \<Rightarrow> goerror) option \<Rightarrow> NotifyConfig \<Rightarrow> Dispatcher result" where
  "newDispatcher validate cfg =
     (let least = (if MinSeverity cfg \<le> 0 then 5 else MinSeverity cfg);
          refusal = (if SlackWebhookURL cfg = [] then None
                     else case validate of None \<Rightarrow> None | Some v \<Rightarrow> v (SlackWebhookURL cfg))
      in case refusal of Some e \<Rightarrow> Inl (''slack webhook URL: '' @ e) | None \<Rightarrow>
        Inr \<lparr>channels =
               (if SlackWebhookURL cfg \<noteq> [] then [slackChannel (SlackWebhookURL cfg)] else []) @
               (if PagerDutyKey cfg \<noteq> [] then [pagerDutyChannel (PagerDutyKey cfg)] else []) @
               (if SMTPAddr cfg \<noteq> [] \<and> SMTPFrom cfg \<noteq> [] \<and> SMTPTo cfg \<noteq> []
                then [emailChannel (SMTPAddr cfg) (SMTPFrom cfg) (SMTPTo cfg) (SMTPUsername cfg) (SMTPPassword cfg)] else []),
             minSeverity = least\<rparr>)"

definition enabled :: "Dispatcher option \<Rightarrow> bool" where
  "enabled d = (case d of None \<Rightarrow> False | Some d' \<Rightarrow> channels d' \<noteq> [])"

definition channelNames :: "Dispatcher option \<Rightarrow> string list" where
  "channelNames d = (case d of None \<Rightarrow> [] | Some d' \<Rightarrow> map channelName (channels d'))"

text \<open>Each channel's message with the world's answer; an error is logged and stops no other channel.\<close>

definition notifyAll :: "(message \<Rightarrow> goerror) \<Rightarrow> Dispatcher option \<Rightarrow> Alert \<Rightarrow> (message \<times> goerror) list" where
  "notifyAll deliver d a =
     (case d of None \<Rightarrow> []
      | Some d' \<Rightarrow> if \<not> enabled d \<or> alSeverity a < minSeverity d' then []
                  else map (\<lambda>c. (channelMessage c a, deliver (channelMessage c a))) (channels d'))"

definition alertOf :: "CbomTelemetryPayload \<Rightarrow> CryptoFinding \<Rightarrow> Alert" where
  "alertOf payload f =
     \<lparr>alTitle = Title f, alSeverity = Severity f, alHostname = [], alHostUUID = plHostUuid payload,
      alAlgorithm = fnAlgorithm f, alFindingID = FindingId f, alDescription = fnDescription f,
      alPolicyRule = PolicyRuleId f\<rparr>"

definition dispatchNotifications :: "(message \<Rightarrow> goerror) \<Rightarrow> Dispatcher option \<Rightarrow> CbomTelemetryPayload
    \<Rightarrow> (message \<times> goerror) list" where
  "dispatchNotifications deliver d payload =
     concat (map (\<lambda>f. notifyAll deliver d (alertOf payload f)) (criticalFindings payload))"

subsection \<open>The properties\<close>

lemma newDispatcher_ok:
  assumes "newDispatcher validate cfg = Inr d"
  shows "minSeverity d = (if MinSeverity cfg \<le> 0 then 5 else MinSeverity cfg) \<and>
    (slackChannel url \<in> set (channels d) \<longleftrightarrow> url = SlackWebhookURL cfg \<and> url \<noteq> []) \<and>
    (pagerDutyChannel key \<in> set (channels d) \<longleftrightarrow> key = PagerDutyKey cfg \<and> key \<noteq> [])"
  using assms by (auto simp: newDispatcher_def Let_def split: option.splits if_splits)

lemma notifyAll_messages:
  "map fst (notifyAll deliver (Some d) a) =
     (if minSeverity d \<le> alSeverity a then map (\<lambda>c. channelMessage c a) (channels d) else [])"
  by (simp add: notifyAll_def enabled_def comp_def)

text \<open>Every critical finding of a payload is reported on every channel that is configured, in order,
  whatever the channels answer. Critical findings only: a lower configured threshold changes nothing, and
  a higher one drops them.\<close>

theorem alerts_reach_channels:
  "map fst (dispatchNotifications deliver (Some d) payload) =
     concat (map (\<lambda>f. map (\<lambda>c. channelMessage c (alertOf payload f)) (channels d))
       (filter (\<lambda>f. max 5 (minSeverity d) \<le> Severity f) (Findings payload)))"
proof -
  have "concat (map (\<lambda>f. map fst (notifyAll deliver (Some d) (alertOf payload f))) (filter (\<lambda>f. \<not> Severity f < 5) fs)) =
     concat (map (\<lambda>f. map (\<lambda>c. channelMessage c (alertOf payload f)) (channels d))
       (filter (\<lambda>f. max 5 (minSeverity d) \<le> Severity f) fs))" for fs
    by (induction fs) (auto simp: notifyAll_messages alertOf_def)
  then show ?thesis by (simp add: dispatchNotifications_def criticalFindings_def map_concat comp_def)
qed

definition mailLines :: "string \<Rightarrow> string list" where
  "mailLines m = takeWhile (\<lambda>l. l \<noteq> [CHR 0x0D]) (splitOn (CHR 0x0A) m)"

lemma decInt_no_newline [simp]: "CHR 0x0A \<notin> set (decInt i)"
  using decInt_chars by (force simp: isDigit_def)

text \<open>The name of an algorithm, which an agent reports, goes into the header of the mail as it is: a
  name with a line break in it adds a header line of its own to the alert, such as another recipient.\<close>

theorem mail_header_injection:
  assumes "\<forall>s \<in> set (x # h # sender # rcpts). CHR 0x0A \<notin> set s" and "h \<noteq> []"
    and "alAlgorithm a = x @ crlf @ h @ crlf @ y"
  shows "h @ [CHR 0x0D] \<in> set (mailLines (buildEmail sender rcpts a))"
proof -
  have to: "CHR 0x0A \<notin> set (joinWith '', '' rcpts)" using assms(1) by (auto dest: joinWith_chars)
  have s: "CHR 0x0A \<notin> set s" if "s \<in> {x, h, sender}" for s using assms(1) that by auto
  obtain rest where m: "buildEmail sender rcpts a = (''From: '' @ sender @ [CHR 0x0D]) @ CHR 0x0A #
      (''To: '' @ joinWith '', '' rcpts @ [CHR 0x0D]) @ CHR 0x0A #
      (''Subject: [Janus][sev'' @ decInt (alSeverity a) @ ''] '' @ x @ [CHR 0x0D]) @ CHR 0x0A #
      (h @ [CHR 0x0D]) @ CHR 0x0A # rest"
    by (simp add: buildEmail_def summary_def assms(3))
  show ?thesis unfolding mailLines_def m
    using assms(2) to s by (subst splitOn_free_append, simp)+ simp
qed

theorem mail_header_injection_witness:
  "''Bcc: m@example.com'' @ [CHR 0x0D] \<in> set (mailLines (buildEmail ''janus'' [''ops'']
     \<lparr>alTitle = [], alSeverity = 5, alHostname = [], alHostUUID = ''h'',
      alAlgorithm = ''RSA'' @ crlf @ ''Bcc: m@example.com'' @ crlf, alFindingID = [], alDescription = [],
      alPolicyRule = []\<rparr>))"
  using mail_header_injection [of "''RSA''" "''Bcc: m@example.com''" "''janus''" "[''ops'']" _ "[]"] by simp

end
