(* ===== verification/AgentStore.thy ===== *)
theory AgentStore
  imports Ingest Orchestrator
begin

text \<open>
  The agent-facing tables of \<^verbatim>\<open>server/internal/store/store.go\<close>: registration with its connection
  sessions, the durable command queue \<open>agent_commands\<close>, the migration transactions and the status
  reports on them. Every operation takes the error each of its statements would meet (\<open>None\<close>: it
  succeeds); JSON is a pair of parameters. \<open>now\<close> is the database's clock, the same for all
  statements of one operation.
\<close>

subsection \<open>Tables\<close>

record ConnSession =
  cnSessionID :: string
  cnHost :: string
  cnConnectedAt :: int
  cnDisconnectedAt :: "int option"
  cnLastSeen :: int
  cnObservedIP :: string
  cnAgentVersion :: string
  cnStatus :: string

record MigrationRow =
  mgCommandID :: string
  mgHost :: string
  mgService :: string
  mgProfile :: string
  mgKem :: string
  mgSig :: string
  mgConfigPath :: string
  mgState :: int
  mgDryRun :: bool
  mgIssuedAt :: int
  mgUpdatedAt :: int
  mgLastError :: string
  mgOutput :: string
  mgObservedTLS :: "NetworkObservation option"

record AgentRegistration =
  rgHostUuid :: string
  rgHostname :: string
  HardwareSignatures :: "string list"
  OsName :: string
  OsVersion :: string
  Arch :: string
  ExecutionMode :: int
  AgentVersion :: string
  Capabilities :: "string list"

record MigrationStatusReport =
  rpCommandId :: string
  rpHostUuid :: string
  rpState :: int
  rpSuccess :: bool
  ErrorVector :: string
  Output :: string
  ObservedTls :: "NetworkObservation option"
  ReportedAtUnix :: int

record AgentDB =
  adMain :: IngestDB
  adSessions :: "ConnSession list"
  adMigrations :: "MigrationRow list"

definition MigrationStatePending :: int where "MigrationStatePending = 1"

definition MigrationStateApplying :: int where "MigrationStateApplying = 3"

definition MigrationStateSucceeded :: int where "MigrationStateSucceeded = 6"

definition MigrationStateFailed :: int where "MigrationStateFailed = 7"

definition hostKnown :: "string \<Rightarrow> AgentDB \<Rightarrow> bool" where
  "hostKnown host db \<longleftrightarrow> host \<in> asHostUUID ` set (igAssets (adMain db))"

definition updAssets :: "(AssetRow list \<Rightarrow> AssetRow list) \<Rightarrow> AgentDB \<Rightarrow> AgentDB" where
  "updAssets f db = db\<lparr>adMain := (adMain db)\<lparr>igAssets := f (igAssets (adMain db))\<rparr>\<rparr>"

definition updCommands :: "(AgentCommandRow list \<Rightarrow> AgentCommandRow list) \<Rightarrow> AgentDB \<Rightarrow> AgentDB" where
  "updCommands f db = db\<lparr>adMain := (adMain db)\<lparr>igCommands := f (igCommands (adMain db))\<rparr>\<rparr>"

abbreviation commandsOf :: "AgentDB \<Rightarrow> AgentCommandRow list" where
  "commandsOf db \<equiv> igCommands (adMain db)"

subsection \<open>Registration\<close>

text \<open>The newest row among those that satisfy a predicate (\<open>ORDER BY ... DESC LIMIT 1\<close>).\<close>

definition newest :: "('r \<Rightarrow> int) \<Rightarrow> ('r \<Rightarrow> bool) \<Rightarrow> 'r list \<Rightarrow> 'r option" where
  "newest col P t = (case filter P t of [] \<Rightarrow> None | rows \<Rightarrow> Some (last (sort_key col rows)))"

definition registeredAsset :: "AgentRegistration \<Rightarrow> string \<Rightarrow> string \<Rightarrow> int \<Rightarrow> AssetRow" where
  "registeredAsset reg observedIP tenant now =
     \<lparr>asHostUUID = rgHostUuid reg, asTenantID = tenant, asHostname = rgHostname reg,
      asOsName = OsName reg, asOsVersion = OsVersion reg, asArch = Arch reg, asExecutionMode = ExecutionMode reg,
      asCapabilities = Capabilities reg, asDnsName = rgHostname reg,
      asAgentVersion = AgentVersion reg, asObservedIP = observedIP, asManaged = True,
      asFirstRegistered = now, asLastRegistered = now, asLastSeen = now\<rparr>"

definition reregister :: "AssetRow \<Rightarrow> AssetRow \<Rightarrow> AssetRow" where
  "reregister n r =
     r\<lparr>asHostname := asHostname n, asOsName := asOsName n, asOsVersion := asOsVersion n, asArch := asArch n,
       asExecutionMode := asExecutionMode n, asCapabilities := asCapabilities n, asDnsName := asDnsName n,
       asAgentVersion := asAgentVersion n, asObservedIP := asObservedIP n,
       asManaged := True, asLastRegistered := asLastRegistered n, asLastSeen := asLastSeen n\<rparr>"

definition UpsertAgent :: "string \<Rightarrow> int \<Rightarrow> goerror \<times> goerror \<times> goerror \<times> goerror \<Rightarrow> AgentRegistration \<Rightarrow> string
    \<Rightarrow> string \<Rightarrow> AgentDB \<Rightarrow> goerror \<times> AgentDB" where
  "UpsertAgent uuid now faults reg observedIP tenantID db =
     (case faults of (f1, f2, f3, f4) \<Rightarrow>
       let tenant = (if tenantID = [] then ''default'' else tenantID);
           row = registeredAsset reg observedIP tenant now
       in case f1 of Some e \<Rightarrow> (Some e, db) | None \<Rightarrow>
       let db1 = updAssets (\<lambda>t. tblUpsert asHostUUID row (reregister row) t) db
       in case f2 of Some e \<Rightarrow> (Some e, db1) | None \<Rightarrow>
       (case newest cnConnectedAt (\<lambda>s. cnHost s = rgHostUuid reg \<and> cnDisconnectedAt s = None \<and>
               now - 30 \<le> cnLastSeen s) (adSessions db1) of
          Some s \<Rightarrow>
            (None, db1\<lparr>adSessions := tblUpdate cnSessionID (cnSessionID s)
               (\<lambda>r. r\<lparr>cnLastSeen := now, cnObservedIP := observedIP, cnAgentVersion := AgentVersion reg\<rparr>)
               (adSessions db1)\<rparr>)
        | None \<Rightarrow>
            (case f3 of Some e \<Rightarrow> (Some e, db1) | None \<Rightarrow>
             let db2 = db1\<lparr>adSessions := map (\<lambda>r. if cnHost r = rgHostUuid reg \<and> cnDisconnectedAt r = None
                   then r\<lparr>cnDisconnectedAt := Some (cnLastSeen r), cnStatus := ''disconnected''\<rparr> else r)
                   (adSessions db1)\<rparr>
             in case f4 of Some e \<Rightarrow> (Some e, db2) | None \<Rightarrow>
               if uuid \<in> cnSessionID ` set (adSessions db2)
               then (Some ''duplicate key value violates unique constraint'', db2)
               else (None, db2\<lparr>adSessions := adSessions db2 @
                 [\<lparr>cnSessionID = uuid, cnHost = rgHostUuid reg, cnConnectedAt = now, cnDisconnectedAt = None,
                   cnLastSeen = now, cnObservedIP = observedIP, cnAgentVersion = AgentVersion reg,
                   cnStatus = ''online''\<rparr>]\<rparr>))))"

definition AssetTenant :: "goerror \<Rightarrow> string \<Rightarrow> AgentDB \<Rightarrow> string result" where
  "AssetTenant fault host db =
     (case fault of Some e \<Rightarrow> Inl e | None \<Rightarrow>
       (case tblFind asHostUUID host (igAssets (adMain db)) of
          None \<Rightarrow> Inl ''no rows in result set''
        | Some a \<Rightarrow> Inr (asTenantID a)))"

subsection \<open>The durable command queue\<close>

definition EnqueueAgentCommand :: "(MigrationCommand \<Rightarrow> string result) \<Rightarrow> int \<Rightarrow> goerror \<Rightarrow> MigrationCommand
    \<Rightarrow> AgentDB \<Rightarrow> goerror \<times> AgentDB" where
  "EnqueueAgentCommand marshal now fault cmd db =
     (case marshal cmd of Inl e \<Rightarrow> (Some e, db) | Inr raw \<Rightarrow>
      case fault of Some e \<Rightarrow> (Some e, db) | None \<Rightarrow>
        if CommandId cmd \<in> agCommandID ` set (commandsOf db) then (None, db)
        else if \<not> hostKnown (mcHostUuid cmd) db
        then (Some ''insert on agent_commands violates foreign key constraint'', db)
        else (None, updCommands (\<lambda>t. t @ [\<lparr>agCommandID = CommandId cmd, agHost = mcHostUuid cmd,
               agPayload = raw, agStatus = ''queued'', agQueuedAt = now, agDeliveredAt = None,
               agCompletedAt = None\<rparr>]) db))"

text \<open>The first error ends the reading of the rows.\<close>

fun scanCommands :: "(string \<Rightarrow> MigrationCommand result) \<Rightarrow> AgentCommandRow list \<Rightarrow> MigrationCommand list result" where
  "scanCommands unmarshal [] = Inr []"
| "scanCommands unmarshal (r # rs) =
     (case unmarshal (agPayload r) of Inl e \<Rightarrow> Inl e | Inr c \<Rightarrow>
      case scanCommands unmarshal rs of Inl e \<Rightarrow> Inl e | Inr cs \<Rightarrow> Inr (c # cs))"

definition queuedFor :: "string \<Rightarrow> AgentDB \<Rightarrow> AgentCommandRow list" where
  "queuedFor host db =
     sort_key agQueuedAt (filter (\<lambda>r. agHost r = host \<and> agStatus r = ''queued'') (commandsOf db))"

definition DrainAgentCommands :: "(string \<Rightarrow> MigrationCommand result) \<Rightarrow> goerror \<Rightarrow> string \<Rightarrow> AgentDB
    \<Rightarrow> MigrationCommand list result" where
  "DrainAgentCommands unmarshal fault host db =
     (case fault of Some e \<Rightarrow> Inl e | None \<Rightarrow> scanCommands unmarshal (queuedFor host db))"

definition MarkAgentCommandDelivered :: "int \<Rightarrow> goerror \<Rightarrow> string \<Rightarrow> AgentDB \<Rightarrow> goerror \<times> AgentDB" where
  "MarkAgentCommandDelivered now fault commandID db =
     (case fault of Some e \<Rightarrow> (Some e, db) | None \<Rightarrow>
       (None, updCommands (tblUpdate agCommandID commandID
         (\<lambda>r. r\<lparr>agStatus := ''delivered'', agDeliveredAt := Some now\<rparr>)) db))"

definition MarkAgentCommandExecuting :: "int \<Rightarrow> goerror \<Rightarrow> string \<Rightarrow> AgentDB \<Rightarrow> goerror \<times> AgentDB" where
  "MarkAgentCommandExecuting now fault commandID db =
     (case fault of Some e \<Rightarrow> (Some e, db) | None \<Rightarrow>
       (None, updCommands (tblUpdate agCommandID commandID
         (\<lambda>r. r\<lparr>agStatus := ''executing'',
              agDeliveredAt := Some (case agDeliveredAt r of None \<Rightarrow> now | Some t \<Rightarrow> t)\<rparr>)) db))"

subsection \<open>Migration transactions\<close>

definition InsertMigrationCommand :: "int \<Rightarrow> goerror \<Rightarrow> MigrationCommand \<Rightarrow> AgentDB \<Rightarrow> goerror \<times> AgentDB" where
  "InsertMigrationCommand now fault cmd db =
     (case fault of Some e \<Rightarrow> (Some e, db) | None \<Rightarrow>
        if CommandId cmd \<in> mgCommandID ` set (adMigrations db) then (None, db)
        else if \<not> hostKnown (mcHostUuid cmd) db
        then (Some ''insert on migration_transactions violates foreign key constraint'', db)
        else (None, db\<lparr>adMigrations := adMigrations db @
          [\<lparr>mgCommandID = CommandId cmd, mgHost = mcHostUuid cmd, mgService = TargetService cmd,
            mgProfile = mcMigrationProfile cmd, mgKem = TargetKem cmd, mgSig = TargetSignature cmd,
            mgConfigPath = ConfigPath cmd, mgState = MigrationStatePending, mgDryRun = DryRun cmd,
            mgIssuedAt = IssuedAtUnix cmd, mgUpdatedAt = now, mgLastError = [], mgOutput = [],
            mgObservedTLS = None\<rparr>]\<rparr>))"

definition commandStatusOf :: "int \<Rightarrow> string" where
  "commandStatusOf state =
     (if state = MigrationStateApplying then ''executing''
      else if state = MigrationStateSucceeded then ''completed''
      else if state = MigrationStateFailed then ''failed'' else [])"

definition reportedState :: "MigrationStatusReport \<Rightarrow> MigrationRow \<Rightarrow> MigrationRow" where
  "reportedState report r =
     r\<lparr>mgState := rpState report, mgUpdatedAt := ReportedAtUnix report, mgLastError := ErrorVector report,
       mgOutput := Output report, mgObservedTLS := ObservedTls report\<rparr>"

text \<open>The error of the second statement is dropped.\<close>

definition UpdateMigrationStatus :: "int \<Rightarrow> goerror \<times> goerror \<Rightarrow> MigrationStatusReport \<Rightarrow> AgentDB
    \<Rightarrow> goerror \<times> AgentDB" where
  "UpdateMigrationStatus now faults report db =
     (case fst faults of Some e \<Rightarrow> (Some e, db) | None \<Rightarrow>
       let db1 = db\<lparr>adMigrations := tblUpdate mgCommandID (rpCommandId report) (reportedState report) (adMigrations db)\<rparr>;
           status = commandStatusOf (rpState report)
       in (None, if status \<noteq> [] \<and> snd faults = None
                 then updCommands (tblUpdate agCommandID (rpCommandId report)
                        (\<lambda>r. r\<lparr>agStatus := status,
                               agCompletedAt := (if status = ''completed'' \<or> status = ''failed'' then Some now
                                                 else agCompletedAt r)\<rparr>)) db1
                 else db1))"

definition GetLatestConfigHash :: "goerror \<Rightarrow> string \<Rightarrow> string \<Rightarrow> AgentDB \<Rightarrow> string" where
  "GetLatestConfigHash fault host configPath db =
     (case fault of Some e \<Rightarrow> [] | None \<Rightarrow>
      case newest tmReceivedAt (\<lambda>t. tmHost t = host) (igTelemetry (adMain db)) of
        None \<Rightarrow> []
      | Some t \<Rightarrow> (case find (\<lambda>ev. evTarget ev = configPath \<and> RawArtifactSha256 ev \<noteq> [])
                              (plEvidence (tmPayload t)) of
                     None \<Rightarrow> [] | Some ev \<Rightarrow> RawArtifactSha256 ev))"

end
