(* ===== verification/TelemetryServer.thy ===== *)
theory TelemetryServer
  imports AgentStore PolicyEngine AgentAuth Hub
begin

text \<open>
  The gRPC server: \<^verbatim>\<open>server/internal/grpcserver/server.go\<close>. A server's state holds the
  database, the policy engine, the orchestrator's queues and the hub; the calls it makes succeed or
  fail as its lists of outcomes say, \<open>ssFaults\<close> for the statements of the store and \<open>ssSends\<close> for
  sends on the stream. The webhook dispatcher is modelled apart, as it runs on its own goroutine: a
  request is given the list of the answers the receiver will give.
\<close>

subsection \<open>State\<close>

record ServerState =
  ssDB :: AgentDB
  ssCreds :: CredDB
  ssScanConfig :: "string \<Rightarrow> string option"
  ssEngine :: Engine
  ssOrch :: Orchestrator
  ssHub :: Hub
  ssFaults :: "goerror list"
  ssSends :: "goerror list"
  ssSent :: "(string \<times> MigrationCommand) list"
  ssDispatched :: "CbomTelemetryPayload list"

definition pop :: "goerror list \<Rightarrow> goerror \<times> goerror list" where
  "pop fs = (case fs of [] \<Rightarrow> (None, []) | f # fs' \<Rightarrow> (f, fs'))"

definition nextFault :: "ServerState \<Rightarrow> goerror \<times> ServerState" where
  "nextFault s = (fst (pop (ssFaults s)), s\<lparr>ssFaults := snd (pop (ssFaults s))\<rparr>)"

text \<open>\<open>stream.Send\<close> on the stream of a host.\<close>

definition sendCommand :: "string \<Rightarrow> MigrationCommand \<Rightarrow> ServerState \<Rightarrow> goerror \<times> ServerState" where
  "sendCommand host cmd s =
     (let (f, rest) = pop (ssSends s); s1 = s\<lparr>ssSends := rest\<rparr>
      in case f of Some e \<Rightarrow> (Some e, s1) | None \<Rightarrow> (None, s1\<lparr>ssSent := ssSent s1 @ [(host, cmd)]\<rparr>))"

text \<open>The parameters: clock, JSON of events and commands, hash, UUIDs, and what the policy engine
  needs.\<close>

record ServerEnv =
  snNow :: int
  snEvent :: "string \<Rightarrow> string \<times> string \<Rightarrow> byte list result"
  snMarshal :: "MigrationCommand \<Rightarrow> string result"
  snUnmarshal :: "string \<Rightarrow> MigrationCommand result"
  snSha :: "string \<Rightarrow> string"
  snUuid :: "nat \<Rightarrow> string"
  snPost :: osv_net
  snParseFloat :: "string \<Rightarrow> real option"
  snQuote :: "string \<Rightarrow> string"
  snNewID :: "nat \<Rightarrow> string"

subsection \<open>Registration and tenants\<close>

text \<open>\<open>agentIDs\<close> is the metadata of the call, \<open>None\<close> when it carries none.\<close>

definition resolveAgentTenant :: "string list option \<Rightarrow> CredDB \<Rightarrow> string" where
  "resolveAgentTenant agentIDs creds =
     (case agentIDs of
        None \<Rightarrow> ''default''
      | Some [] \<Rightarrow> ''default''
      | Some (i # is) \<Rightarrow>
          if i = [] then ''default''
          else (case GetAgentCredential i creds of
                  Inl e \<Rightarrow> ''default''
                | Inr c \<Rightarrow> if acTenantID c = [] then ''default'' else acTenantID c))"

definition hostTenant :: "string \<Rightarrow> ServerState \<Rightarrow> string \<times> ServerState" where
  "hostTenant host s =
     (let (f, s1) = nextFault s
      in (case AssetTenant f host (ssDB s1) of Inl e \<Rightarrow> [] | Inr t \<Rightarrow> t, s1))"

definition broadcastHost :: "ServerEnv \<Rightarrow> string \<Rightarrow> string \<Rightarrow> ServerState \<Rightarrow> ServerState" where
  "broadcastHost env host typ s =
     (let (t, s1) = hostTenant host s
      in s1\<lparr>ssHub := BroadcastTenant (snEvent env) t typ (host, typ) (ssHub s1)\<rparr>)"

definition RegisterAgent :: "ServerEnv \<Rightarrow> string list option \<Rightarrow> string \<Rightarrow> string \<Rightarrow> AgentRegistration
    \<Rightarrow> ServerState \<Rightarrow> string result \<times> ServerState" where
  "RegisterAgent env agentIDs observedIP session reg s =
     (if rgHostUuid reg = [] \<or> rgHostname reg = [] then (Inl ''host_uuid and hostname are required'', s)
      else if rgHostUuid reg = ''ci-cd-runner''
      then (Inl ''ci-cd-runner is a reserved scan identity and cannot register as a managed agent'', s)
      else
        (let tenant = resolveAgentTenant agentIDs (ssCreds s);
             (f1, s1) = nextFault s; (f2, s2) = nextFault s1; (f3, s3) = nextFault s2; (f4, s4) = nextFault s3;
             (err, db) = UpsertAgent session (snNow env) (f1, f2, f3, f4) reg observedIP tenant (ssDB s4);
             s5 = s4\<lparr>ssDB := db\<rparr>
         in case err of
              Some e \<Rightarrow> (Inl e, s5)
            | None \<Rightarrow> (Inr (Version (GetActiveProfile (ssEngine s5))),
                       s5\<lparr>ssHub := BroadcastTenant (snEvent env) tenant ''agent_registered''
                             (rgHostUuid reg, ''agent_registered'') (ssHub s5)\<rparr>)))"

subsection \<open>The telemetry stream\<close>

definition hasCriticalFindings :: "CbomTelemetryPayload \<Rightarrow> bool" where
  "hasCriticalFindings payload \<longleftrightarrow> list_ex (\<lambda>f. 5 \<le> Severity f) (Findings payload)"

definition assessPayload :: "ServerEnv \<Rightarrow> CbomTelemetryPayload \<Rightarrow> ServerState \<Rightarrow> CbomTelemetryPayload \<times> ServerState" where
  "assessPayload env payload s =
     (let (p, e) = (case ssScanConfig s (plHostUuid payload) of
             None \<Rightarrow> Assess (snPost env) (snParseFloat env) (snQuote env) (snNewID env) (ssEngine s) payload
           | Some v \<Rightarrow>
               if v = [] then Assess (snPost env) (snParseFloat env) (snQuote env) (snNewID env) (ssEngine s) payload
               else AssessWithVersion (snPost env) (snParseFloat env) (snQuote env) (snNewID env) v (ssEngine s) payload)
      in (p, s\<lparr>ssEngine := e\<rparr>))"

definition storeTelemetry :: "ServerEnv \<Rightarrow> CbomTelemetryPayload \<Rightarrow> ServerState \<Rightarrow> goerror \<times> ServerState" where
  "storeTelemetry env payload s =
     (let (f, s1) = nextFault s; db = ssDB s1;
          (err, m) = InsertTelemetry (snSha env) (snUuid env) (snNow env) payload ((adMain db)\<lparr>igFault := f\<rparr>)
      in (err, s1\<lparr>ssDB := db\<lparr>adMain := m\<rparr>\<rparr>))"

text \<open>The commands drained from the orchestrator: each is recorded, then sent; the first error ends the
  stream, and the commands after it are in no queue any more.\<close>

fun deliverQueue :: "ServerEnv \<Rightarrow> string \<Rightarrow> MigrationCommand list \<Rightarrow> ServerState \<Rightarrow> goerror \<times> ServerState" where
  "deliverQueue env host [] s = (None, s)"
| "deliverQueue env host (cmd # cmds) s =
     (let (f, s1) = nextFault s;
          (err, db) = InsertMigrationCommand (snNow env) f cmd (ssDB s1);
          s2 = s1\<lparr>ssDB := db\<rparr>
      in case err of
           Some e \<Rightarrow> (Some e, s2)
         | None \<Rightarrow> (case sendCommand host cmd s2 of
                      (Some e, s3) \<Rightarrow> (Some e, s3)
                    | (None, s3) \<Rightarrow> deliverQueue env host cmds s3))"

text \<open>The commands of the durable queue: each is sent, then marked.\<close>

fun deliverDurable :: "ServerEnv \<Rightarrow> string \<Rightarrow> MigrationCommand list \<Rightarrow> ServerState \<Rightarrow> goerror \<times> ServerState" where
  "deliverDurable env host [] s = (None, s)"
| "deliverDurable env host (cmd # cmds) s =
     (case sendCommand host cmd s of
        (Some e, s1) \<Rightarrow> (Some e, s1)
      | (None, s1) \<Rightarrow>
          (let (f, s2) = nextFault s1;
               (err, db) = MarkAgentCommandDelivered (snNow env) f (CommandId cmd) (ssDB s2);
               s3 = s2\<lparr>ssDB := db\<rparr>
           in case err of Some e \<Rightarrow> (Some e, s3) | None \<Rightarrow> deliverDurable env host cmds s3))"

definition deliverCommands :: "ServerEnv \<Rightarrow> string \<Rightarrow> ServerState \<Rightarrow> goerror \<times> ServerState" where
  "deliverCommands env host s =
     (let (cmds, o') = Drain host (ssOrch s)
      in case deliverQueue env host cmds (s\<lparr>ssOrch := o'\<rparr>) of
           (Some e, s1) \<Rightarrow> (Some e, s1)
         | (None, s1) \<Rightarrow>
             (let (f, s2) = nextFault s1
              in case DrainAgentCommands (snUnmarshal env) f host (ssDB s2) of
                   Inl e \<Rightarrow> (Some e, s2)
                 | Inr durable \<Rightarrow> deliverDurable env host durable s2))"

text \<open>One payload of the stream.\<close>

definition receivePayload :: "ServerEnv \<Rightarrow> CbomTelemetryPayload \<Rightarrow> ServerState \<Rightarrow> goerror \<times> ServerState" where
  "receivePayload env payload s =
     (if plHostUuid payload = [] then (Some ''payload host_uuid is required'', s)
      else (case assessPayload env payload s of
        (p, s1) \<Rightarrow>
          (case storeTelemetry env p s1 of
             (Some e, s2) \<Rightarrow> (Some e, s2)
           | (None, s2) \<Rightarrow>
               (let s3 = (if hasCriticalFindings p then s2\<lparr>ssDispatched := ssDispatched s2 @ [p]\<rparr> else s2);
                    s4 = broadcastHost env (plHostUuid p) ''telemetry_update'' s3
                in deliverCommands env (plHostUuid payload) s4))))"

text \<open>The stream: the payloads that arrive before its end.\<close>

fun StreamTelemetry :: "ServerEnv \<Rightarrow> CbomTelemetryPayload list \<Rightarrow> ServerState \<Rightarrow> goerror \<times> ServerState" where
  "StreamTelemetry env [] s = (None, s)"
| "StreamTelemetry env (p # ps) s =
     (case receivePayload env p s of (Some e, s1) \<Rightarrow> (Some e, s1) | (None, s1) \<Rightarrow> StreamTelemetry env ps s1)"

text \<open>Status reports: the answer names the last command.\<close>

fun reportLoop :: "ServerEnv \<Rightarrow> string \<Rightarrow> MigrationStatusReport list \<Rightarrow> ServerState \<Rightarrow> string result \<times> ServerState" where
  "reportLoop env lastCommandID [] s = (Inr lastCommandID, s)"
| "reportLoop env lastCommandID (r # rs) s =
     (let (f1, s1) = nextFault s; (f2, s2) = nextFault s1;
          (err, db) = UpdateMigrationStatus (snNow env) (f1, f2) r (ssDB s2);
          s3 = s2\<lparr>ssDB := db\<rparr>
      in case err of
           Some e \<Rightarrow> (Inl e, s3)
         | None \<Rightarrow> reportLoop env (rpCommandId r) rs (broadcastHost env (rpHostUuid r) ''migration_status'' s3))"

definition ReportMigrationStatus :: "ServerEnv \<Rightarrow> MigrationStatusReport list \<Rightarrow> ServerState \<Rightarrow> string result \<times> ServerState" where
  "ReportMigrationStatus env reports s = reportLoop env [] reports s"

end
