(* ===== verification/TelemetryProofs.thy ===== *)
theory TelemetryProofs
  imports TelemetryServer IngestProofs
begin

text \<open>
  The telemetry stream composed with the tables: ingestion through the stream keeps the findings
  ledger, a payload that goes through delivers every waiting command of its host, and what errors on
  the way lose.
\<close>

declare Let_def [simp]

subsection \<open>What the steps leave alone\<close>

lemma nextFault_fields [simp]:
  "ssDB (snd (nextFault s)) = ssDB s" "ssSent (snd (nextFault s)) = ssSent s"
  "ssOrch (snd (nextFault s)) = ssOrch s" "ssHub (snd (nextFault s)) = ssHub s"
  "ssEngine (snd (nextFault s)) = ssEngine s" "ssSends (snd (nextFault s)) = ssSends s"
  by (simp_all add: nextFault_def)

lemma nextFault_eq: "nextFault s = (f, s1) \<Longrightarrow> s1 = s\<lparr>ssFaults := ssFaults s1\<rparr>"
  by (auto simp: nextFault_def)

lemma sendCommand_fields [simp]:
  "ssDB (snd (sendCommand host cmd s)) = ssDB s" "ssOrch (snd (sendCommand host cmd s)) = ssOrch s"
  by (simp_all add: sendCommand_def split: prod.split option.split)

lemma sendCommand_ok: "sendCommand host cmd s = (None, s1) \<Longrightarrow> ssSent s1 = ssSent s @ [(host, cmd)]"
  by (auto simp: sendCommand_def split: prod.splits option.splits)

lemma sendCommand_eq: "sendCommand host cmd s = (e, s1) \<Longrightarrow> ssDB s1 = ssDB s \<and> ssOrch s1 = ssOrch s"
  by (metis sendCommand_fields snd_conv)

lemma hostTenant_fields [simp]:
  "ssDB (snd (hostTenant host s)) = ssDB s" "ssSent (snd (hostTenant host s)) = ssSent s"
  "ssOrch (snd (hostTenant host s)) = ssOrch s" "ssSends (snd (hostTenant host s)) = ssSends s"
  by (simp_all add: hostTenant_def nextFault_def)

lemma broadcastHost_fields [simp]:
  "ssDB (broadcastHost env host typ s) = ssDB s" "ssSent (broadcastHost env host typ s) = ssSent s"
  "ssOrch (broadcastHost env host typ s) = ssOrch s" "ssSends (broadcastHost env host typ s) = ssSends s"
  by (simp_all add: broadcastHost_def split: prod.split)
    (metis hostTenant_fields snd_conv)+

lemma InsertMigrationCommand_main: "adMain (snd (InsertMigrationCommand now f cmd db)) = adMain db"
  by (simp add: InsertMigrationCommand_def split: option.split)

subsection \<open>Delivery from the orchestrator's queue\<close>

lemma deliverQueue_ok:
  "deliverQueue env host cmds s = (None, s') \<Longrightarrow>
    ssSent s' = ssSent s @ map (Pair host) cmds \<and> ssOrch s' = ssOrch s \<and> adMain (ssDB s') = adMain (ssDB s)"
proof (induction cmds arbitrary: s)
  case (Cons c cs)
  obtain f s1 where f: "nextFault s = (f, s1)" by (cases "nextFault s")
  obtain err db where i: "InsertMigrationCommand (snNow env) f c (ssDB s1) = (err, db)" by force
  have s1: "ssDB s1 = ssDB s" "ssSent s1 = ssSent s" "ssOrch s1 = ssOrch s"
    using nextFault_fields(1,2,3) [of s] f by simp_all
  from Cons.prems f i obtain s3 where s3: "err = None" "sendCommand host c (s1\<lparr>ssDB := db\<rparr>) = (None, s3)"
    "deliverQueue env host cs s3 = (None, s')"
    by (auto split: option.splits prod.splits)
  from Cons.IH [OF s3(3)] sendCommand_ok [OF s3(2)] sendCommand_eq [OF s3(2)] s1
    InsertMigrationCommand_main [of "snNow env" f c "ssDB s1"] i
  show ?case by simp
qed simp

lemma deliverQueue_main: "adMain (ssDB (snd (deliverQueue env host cmds s))) = adMain (ssDB s)"
proof (induction cmds arbitrary: s)
  case (Cons c cs)
  obtain f s1 where f: "nextFault s = (f, s1)" by (cases "nextFault s")
  obtain err db where i: "InsertMigrationCommand (snNow env) f c (ssDB s1) = (err, db)" by force
  obtain e s3 where e: "sendCommand host c (s1\<lparr>ssDB := db\<rparr>) = (e, s3)" by force
  have "ssDB s1 = ssDB s" using nextFault_fields(1) [of s] f by simp
  with InsertMigrationCommand_main [of "snNow env" f c "ssDB s1"] i sendCommand_eq [OF e] f e Cons.IH [of s3]
  show ?case by (simp split: option.split)
qed simp

subsection \<open>Delivery from the durable queue\<close>

definition rowsDelivered :: "int \<Rightarrow> string list \<Rightarrow> AgentCommandRow list \<Rightarrow> AgentCommandRow list" where
  "rowsDelivered now ids t =
     map (\<lambda>r. if agCommandID r \<in> set ids then r\<lparr>agStatus := ''delivered'', agDeliveredAt := Some now\<rparr> else r) t"

lemma deliverDurable_ok:
  "deliverDurable env host cmds s = (None, s') \<Longrightarrow>
    ssSent s' = ssSent s @ map (Pair host) cmds \<and> ssOrch s' = ssOrch s \<and>
    commandsOf (ssDB s') = rowsDelivered (snNow env) (map CommandId cmds) (commandsOf (ssDB s))"
proof (induction cmds arbitrary: s)
  case (Cons c cs)
  then obtain s1 where s1: "sendCommand host c s = (None, s1)" by (auto split: prod.splits option.splits)
  obtain f s2 where f: "nextFault s1 = (f, s2)" by (cases "nextFault s1")
  obtain err db where m: "MarkAgentCommandDelivered (snNow env) f (CommandId c) (ssDB s2) = (err, db)" by force
  from Cons.prems s1 f m have d: "err = None" "deliverDurable env host cs (s2\<lparr>ssDB := db\<rparr>) = (None, s')"
    by (auto split: option.splits)
  have s2: "ssDB s2 = ssDB s" "ssSent s2 = ssSent s1" "ssOrch s2 = ssOrch s"
    using nextFault_fields(1,2,3) [of s1] f sendCommand_eq [OF s1] by simp_all
  have "commandsOf db = rowsDelivered (snNow env) [CommandId c] (commandsOf (ssDB s))"
    using m d(1) s2(1) by (auto simp: MarkAgentCommandDelivered_def updCommands_def tblUpdate_def rowsDelivered_def
        split: option.splits)
  with Cons.IH [OF d(2)] s2 sendCommand_ok [OF s1] show ?case
    by (simp add: rowsDelivered_def)
qed (simp add: rowsDelivered_def)

subsection \<open>Ingestion leaves the waiting commands alone\<close>

lemma storeFindings_commands:
  "storeFindings uuid now p fs db = Inr db' \<Longrightarrow> igCommands db' = igCommands db"
proof (induction fs arbitrary: db)
  case (Cons f fs)
  then obtain d1 d2 where d: "upsertFinding (newFindingRow p now f) db = Inr d1" "recordOccurrence now p f d1 = Inr d2"
    "storeFindings uuid now p fs (autoReopen uuid now f d2) = Inr db'"
    by (auto simp: storeFinding_def)
  have "igCommands d1 = igCommands db" using d(1) by (auto simp: upsertFinding_def split: if_splits)
  moreover have "igCommands d2 = igCommands d1" using d(2) by (auto simp: recordOccurrence_def split: if_splits)
  moreover have "igCommands (autoReopen uuid now f d2) = igCommands d2"
    by (simp add: autoReopen_def addEvent_def split: option.split)
  ultimately show ?case using Cons.IH [OF d(3)] by simp
qed simp

lemma storeComponents_commands: "storeComponents p cs db = Inr db' \<Longrightarrow> igCommands db' = igCommands db"
  by (induction cs arbitrary: db) (auto split: if_splits)

lemma storeCerts_commands: "storeCerts sha now p os db = Inr db' \<Longrightarrow> igCommands db' = igCommands db"
  by (induction os arbitrary: db) (auto split: if_splits)

definition completed :: "int \<Rightarrow> string \<Rightarrow> AgentCommandRow \<Rightarrow> AgentCommandRow" where
  "completed now host c = (if agHost c = host \<and> agStatus c = ''executing''
     then c\<lparr>agStatus := ''completed'', agCompletedAt := Some now\<rparr> else c)"

lemma InsertTelemetry_commands:
  "igCommands (snd (InsertTelemetry sha uuid now p db)) = igCommands db \<or>
   igCommands (snd (InsertTelemetry sha uuid now p db)) = map (completed now (plHostUuid p)) (igCommands db)"
proof (cases "\<exists>db'. ingest sha uuid now p db = Inr db'")
  case True
  then obtain d1 d2 d3 db' where d: "insertPayload now p db = Inr d1"
    "storeFindings uuid now p (Findings p) (insertScanRun now p (completeCommands now (plHostUuid p) d1)) = Inr d2"
    "storeComponents p (Components p) d2 = Inr d3" "storeCerts sha now p (NetworkObservations p) d3 = Inr db'"
    "ingest sha uuid now p db = Inr db'"
    by (auto simp: ingest_def)
  have "igCommands d1 = igCommands db" using d(1) by (auto simp: insertPayload_def split: if_splits)
  then have "igCommands db' = map (completed now (plHostUuid p)) (igCommands db)"
    using storeFindings_commands [OF d(2)] storeComponents_commands [OF d(3)] storeCerts_commands [OF d(4)]
    by (simp add: completeCommands_def completed_def)
  then show ?thesis using d(5) by (simp add: InsertTelemetry_def split: option.split)
qed (auto simp: InsertTelemetry_def split: option.split sum.split)

lemma completed_fields [simp]:
  "agHost (completed now h c) = agHost c" "agCommandID (completed now h c) = agCommandID c"
  "agPayload (completed now h c) = agPayload c" "agQueuedAt (completed now h c) = agQueuedAt c"
  "agStatus (completed now h c) = ''queued'' \<longleftrightarrow> agStatus c = ''queued''"
  by (simp_all add: completed_def)

lemma filter_queued:
  assumes "\<And>r. P (g r) = P r" "\<And>r. P r \<Longrightarrow> g r = r"
  shows "filter P (map g t) = filter P t"
  by (induction t) (simp_all add: assms)

lemma queued_completed:
  "filter (\<lambda>r. agHost r = h \<and> agStatus r = ''queued'') (map (completed now h') t) =
   filter (\<lambda>r. agHost r = h \<and> agStatus r = ''queued'') t"
  by (rule filter_queued) (auto simp: completed_def)

lemma storeTelemetry_fields:
  assumes "storeTelemetry env p s = (e, s')"
  shows "ssSent s' = ssSent s \<and> ssOrch s' = ssOrch s \<and>
    adMain (ssDB s') = snd (InsertTelemetry (snSha env) (snUuid env) (snNow env) p
      ((adMain (ssDB s))\<lparr>igFault := fst (nextFault s)\<rparr>)) \<and>
    e = fst (InsertTelemetry (snSha env) (snUuid env) (snNow env) p
      ((adMain (ssDB s))\<lparr>igFault := fst (nextFault s)\<rparr>))"
proof -
  obtain f s1 where f: "nextFault s = (f, s1)" by force
  have "ssDB s1 = ssDB s" "ssSent s1 = ssSent s" "ssOrch s1 = ssOrch s"
    using nextFault_fields(1,2,3) [of s] f by simp_all
  with assms f show ?thesis by (auto simp: storeTelemetry_def split: prod.splits)
qed

lemma storeTelemetry_queued:
  assumes "storeTelemetry env p s = (e, s')"
  shows "queuedFor h (ssDB s') = queuedFor h (ssDB s)"
  using storeTelemetry_fields [OF assms] InsertTelemetry_commands [of "snSha env" "snUuid env" "snNow env" p
      "(adMain (ssDB s))\<lparr>igFault := fst (nextFault s)\<rparr>"]
  by (auto simp: queuedFor_def queued_completed)

lemma assessPayload_fields:
  "assessPayload env payload s = (p, s1) \<Longrightarrow> ssDB s1 = ssDB s \<and> ssSent s1 = ssSent s \<and> ssOrch s1 = ssOrch s"
  by (auto simp: assessPayload_def split: prod.splits)

subsection \<open>One payload\<close>

lemma receivePayload_ok:
  assumes "receivePayload env payload s = (None, s')"
  obtains p s1 s2 s4 where "assessPayload env payload s = (p, s1)" "storeTelemetry env p s1 = (None, s2)"
    "ssDB s4 = ssDB s2" "ssSent s4 = ssSent s2" "ssOrch s4 = ssOrch s2"
    "deliverCommands env (plHostUuid payload) s4 = (None, s')"
proof -
  obtain p s1 where a: "assessPayload env payload s = (p, s1)" by force
  with assms obtain s2 where s2: "storeTelemetry env p s1 = (None, s2)"
    by (auto simp: receivePayload_def split: if_splits prod.splits option.splits)
  let ?s3 = "if hasCriticalFindings p then s2\<lparr>ssDispatched := ssDispatched s2 @ [p]\<rparr> else s2"
  let ?s4 = "broadcastHost env (plHostUuid p) ''telemetry_update'' ?s3"
  have "deliverCommands env (plHostUuid payload) ?s4 = (None, s')"
    using assms a s2 by (simp add: receivePayload_def split: if_splits)
  moreover have "ssDB ?s4 = ssDB s2" "ssSent ?s4 = ssSent s2" "ssOrch ?s4 = ssOrch s2" by simp_all
  ultimately show thesis using that a s2 by blast
qed

lemma deliverCommands_ok:
  assumes "deliverCommands env host s = (None, s')"
  shows "\<exists>durable. scanCommands (snUnmarshal env) (queuedFor host (ssDB s)) = Inr durable \<and>
    ssSent s' = ssSent s @ map (Pair host) (queueOf (ssOrch s) host @ durable) \<and>
    queueOf (ssOrch s') host = [] \<and>
    commandsOf (ssDB s') = rowsDelivered (snNow env) (map CommandId durable) (commandsOf (ssDB s))"
proof -
  let ?o = "snd (Drain host (ssOrch s))"
  from assms obtain s1 where q: "deliverQueue env host (queueOf (ssOrch s) host) (s\<lparr>ssOrch := ?o\<rparr>) = (None, s1)"
    by (auto simp: deliverCommands_def Drain_def split: prod.splits option.splits)
  obtain f s2 where f: "nextFault s1 = (f, s2)" by force
  have s2: "ssDB s2 = ssDB s1" "ssSent s2 = ssSent s1" "ssOrch s2 = ssOrch s1"
    using nextFault_fields(1,2,3) [of s1] f by simp_all
  note q' = deliverQueue_ok [OF q]
  from assms q f obtain durable where d: "DrainAgentCommands (snUnmarshal env) f host (ssDB s2) = Inr durable"
    "deliverDurable env host durable s2 = (None, s')"
    by (auto simp: deliverCommands_def Drain_def split: sum.splits)
  have "queuedFor host (ssDB s2) = queuedFor host (ssDB s)" using q' s2 by (simp add: queuedFor_def)
  moreover have "commandsOf (ssDB s2) = commandsOf (ssDB s)" using q' s2 by simp
  moreover have "queueOf ?o host = []" by (simp add: Drain_def queueOf_def)
  ultimately show ?thesis using d(1) deliverDurable_ok [OF d(2)] q' s2
    by (auto simp: DrainAgentCommands_def split: option.splits)
qed

subsection \<open>The ledger behind the stream\<close>

definition ledgerPart :: "ServerState \<Rightarrow> FindingRow list \<times> LifecycleEvent list \<times> nat" where
  "ledgerPart s = (igFindings (adMain (ssDB s)), igEvents (adMain (ssDB s)), igUUID (adMain (ssDB s)))"

lemma ledgerPart_eq: "ssDB s' = ssDB s \<Longrightarrow> ledgerPart s' = ledgerPart s"
  by (simp add: ledgerPart_def)

lemma mark_ledgerPart:
  "ledgerPart (s\<lparr>ssDB := snd (MarkAgentCommandDelivered now f cid (ssDB s))\<rparr>) = ledgerPart s"
  by (simp add: ledgerPart_def MarkAgentCommandDelivered_def updCommands_def split: option.split)

lemma deliverDurable_ledger: "ledgerPart (snd (deliverDurable env host cmds s)) = ledgerPart s"
proof (induction cmds arbitrary: s)
  case (Cons c cs)
  obtain e s1 where s1: "sendCommand host c s = (e, s1)" by force
  obtain f s2 where f: "nextFault s1 = (f, s2)" by force
  obtain err db where m: "MarkAgentCommandDelivered (snNow env) f (CommandId c) (ssDB s2) = (err, db)" by force
  have "ssDB s2 = ssDB s" using nextFault_fields(1) [of s1] f sendCommand_eq [OF s1] by simp
  then have "ledgerPart (s2\<lparr>ssDB := db\<rparr>) = ledgerPart s"
    using mark_ledgerPart [where s = s2 and now = "snNow env" and f = f and cid = "CommandId c"] m by (simp add: ledgerPart_def)
  moreover have "ledgerPart s1 = ledgerPart s" using sendCommand_eq [OF s1] by (simp add: ledgerPart_def)
  ultimately show ?case using s1 f m Cons.IH [of "s2\<lparr>ssDB := db\<rparr>"] by (simp split: option.split)
qed simp

lemma deliverCommands_ledger: "ledgerPart (snd (deliverCommands env host s)) = ledgerPart s"
proof -
  obtain e s1 where q: "deliverQueue env host (fst (Drain host (ssOrch s))) (s\<lparr>ssOrch := snd (Drain host (ssOrch s))\<rparr>) = (e, s1)"
    by force
  then have l1: "ledgerPart s1 = ledgerPart s"
    using deliverQueue_main [of env host "fst (Drain host (ssOrch s))" "s\<lparr>ssOrch := snd (Drain host (ssOrch s))\<rparr>"]
    by (simp add: ledgerPart_def)
  obtain f s2 where f: "nextFault s1 = (f, s2)" by force
  have l2: "ledgerPart s2 = ledgerPart s1" using nextFault_fields(1) [of s1] f by (simp add: ledgerPart_def)
  from q f l1 l2 deliverDurable_ledger show ?thesis
    by (auto simp: deliverCommands_def split: prod.splits option.splits sum.splits)
qed

lemma ledger_part:
  "ledger sha uuid (adMain (ssDB s)) \<Longrightarrow> ledgerPart s' = ledgerPart s \<Longrightarrow> ledger sha uuid (adMain (ssDB s'))"
  by (rule ledger.elsewhere) (auto simp: ledgerPart_def)

lemma storeTelemetry_ledger:
  assumes "ledger (snSha env) (snUuid env) (adMain (ssDB s))"
  shows "ledger (snSha env) (snUuid env) (adMain (ssDB (snd (storeTelemetry env p s))))"
proof -
  obtain e s' where s': "storeTelemetry env p s = (e, s')" by force
  have "ledger (snSha env) (snUuid env) ((adMain (ssDB s))\<lparr>igFault := fst (nextFault s)\<rparr>)"
    by (rule ledger.elsewhere [OF assms]) simp_all
  from ledger.telemetry [OF this] storeTelemetry_fields [OF s'] show ?thesis by (simp add: s')
qed

lemma receivePayload_ledger:
  assumes "ledger (snSha env) (snUuid env) (adMain (ssDB s))"
  shows "ledger (snSha env) (snUuid env) (adMain (ssDB (snd (receivePayload env payload s))))"
proof (cases "plHostUuid payload = []")
  case False
  obtain p s1 where a: "assessPayload env payload s = (p, s1)" by force
  obtain e s2 where t: "storeTelemetry env p s1 = (e, s2)" by force
  let ?s3 = "if hasCriticalFindings p then s2\<lparr>ssDispatched := ssDispatched s2 @ [p]\<rparr> else s2"
  let ?s4 = "broadcastHost env (plHostUuid p) ''telemetry_update'' ?s3"
  have l: "ledger (snSha env) (snUuid env) (adMain (ssDB s2))"
    using storeTelemetry_ledger [of env s1 p] assessPayload_fields [OF a] assms t by simp
  have "ledgerPart (snd (deliverCommands env (plHostUuid payload) ?s4)) = ledgerPart s2"
    unfolding deliverCommands_ledger by (rule ledgerPart_eq) simp
  from ledger_part [OF l this] l a t False show ?thesis by (auto simp: receivePayload_def split: option.split)
qed (use assms in \<open>simp add: receivePayload_def\<close>)

lemma StreamTelemetry_ledger:
  "ledger (snSha env) (snUuid env) (adMain (ssDB s)) \<Longrightarrow>
    ledger (snSha env) (snUuid env) (adMain (ssDB (snd (StreamTelemetry env ps s))))"
proof (induction ps arbitrary: s)
  case (Cons p ps)
  obtain e s1 where r: "receivePayload env p s = (e, s1)" by force
  with receivePayload_ledger [OF Cons.prems, of p] have l: "ledger (snSha env) (snUuid env) (adMain (ssDB s1))" by simp
  with Cons.IH [of s1] r show ?case by (simp split: option.split)
qed simp

lemma observed_status:
  "k \<in> set ks \<Longrightarrow> fold observe ks m k \<in> {Some ''open'', Some ''false_positive''}"
proof (induction ks rule: rev_induct)
  case (snoc a ks)
  then show ?case by (cases "k = a") (auto simp: observe_def)
qed simp

lemma receivePayload_status:
  assumes "ledger (snSha env) (snUuid env) (adMain (ssDB s))" and "inj (snUuid env)"
    and "receivePayload env payload s = (None, s')"
    and "f \<in> set (Findings (fst (assessPayload env payload s)))"
  shows "statusOf (adMain (ssDB s')) (keyOf f) \<in> {Some ''open'', Some ''false_positive''}"
proof -
  from assms(3) obtain p s1 s2 s4 where r: "assessPayload env payload s = (p, s1)"
    "storeTelemetry env p s1 = (None, s2)" "ssDB s4 = ssDB s2"
    "deliverCommands env (plHostUuid payload) s4 = (None, s')"
    by (rule receivePayload_ok)
  let ?db = "(adMain (ssDB s1))\<lparr>igFault := fst (nextFault s1)\<rparr>"
  obtain db where i: "InsertTelemetry (snSha env) (snUuid env) (snNow env) p ?db = (None, db)" "adMain (ssDB s2) = db"
    using storeTelemetry_fields [OF r(2)] by (metis prod.collapse)
  have "ledger (snSha env) (snUuid env) ?db"
    by (rule ledger.elsewhere [OF assms(1)]) (use assessPayload_fields [OF r(1)] in simp_all)
  from InsertTelemetry_status [OF i(1) assms(2) ledger_inv [OF this assms(2)]]
  have "statusOf db (keyOf f) \<in> {Some ''open'', Some ''false_positive''}"
    using observed_status [of "keyOf f" "map keyOf (Findings p)"] assms(4) r(1) by simp
  moreover have "igFindings (adMain (ssDB s')) = igFindings (adMain (ssDB s2))"
    using deliverCommands_ledger [of env "plHostUuid payload" s4] r(3,4) by (simp add: ledgerPart_def)
  ultimately show ?thesis using i(2) statusOf_findings by metis
qed

subsection \<open>The properties\<close>

text \<open>C20: A payload that goes through the stream delivers everything that waits for its host: first the
  orchestrator's queue, then the queued rows of the durable queue from the oldest on, and nothing of
  either is left (the stored commands being readable).\<close>

theorem stream_delivers_all:
  assumes "receivePayload env payload s = (None, s')"
    and "\<forall>r \<in> set (commandsOf (ssDB s)). snUnmarshal env (agPayload r) = Inr (dec r) \<and> CommandId (dec r) = agCommandID r"
  shows "ssSent s' = ssSent s @ map (Pair (plHostUuid payload))
      (queueOf (ssOrch s) (plHostUuid payload) @ map dec (queuedFor (plHostUuid payload) (ssDB s))) \<and>
    queueOf (ssOrch s') (plHostUuid payload) = [] \<and> queuedFor (plHostUuid payload) (ssDB s') = []"
proof -
  let ?h = "plHostUuid payload"
  from assms(1) obtain p s1 s2 s4 where r: "assessPayload env payload s = (p, s1)"
    "storeTelemetry env p s1 = (None, s2)" "ssDB s4 = ssDB s2" "ssSent s4 = ssSent s2" "ssOrch s4 = ssOrch s2"
    "deliverCommands env ?h s4 = (None, s')"
    by (rule receivePayload_ok)
  note a = assessPayload_fields [OF r(1)] and t = storeTelemetry_fields [OF r(2)]
  have q: "queuedFor ?h (ssDB s4) = queuedFor ?h (ssDB s)" using storeTelemetry_queued [OF r(2)] a r(3) by simp
  have rows: "\<And>r. r \<in> set (queuedFor ?h (ssDB s)) \<Longrightarrow> r \<in> set (commandsOf (ssDB s))" by (simp add: queuedFor_def)
  have "scanCommands (snUnmarshal env) rs = Inr (map dec rs)" if "set rs \<subseteq> set (commandsOf (ssDB s))" for rs
    using that assms(2) by (induction rs) auto
  then have scan: "scanCommands (snUnmarshal env) (queuedFor ?h (ssDB s4)) = Inr (map dec (queuedFor ?h (ssDB s)))"
    using rows q by auto
  from deliverCommands_ok [OF r(6)] scan have d: "ssSent s' = ssSent s4 @ map (Pair ?h) (queueOf (ssOrch s4) ?h @ map dec (queuedFor ?h (ssDB s)))"
    "queueOf (ssOrch s') ?h = []"
    "commandsOf (ssDB s') = rowsDelivered (snNow env) (map CommandId (map dec (queuedFor ?h (ssDB s)))) (commandsOf (ssDB s4))"
    by auto
  have ids: "map CommandId (map dec (queuedFor ?h (ssDB s))) = map agCommandID (queuedFor ?h (ssDB s4))"
    using assms(2) rows q by (auto simp: comp_def)
  have "\<not> (agHost r = ?h \<and> agStatus r = ''queued'')" if mem: "r \<in> set (commandsOf (ssDB s'))" for r
  proof -
    from mem obtain x where x: "x \<in> set (commandsOf (ssDB s4))"
      "r = (if agCommandID x \<in> set (map agCommandID (queuedFor ?h (ssDB s4)))
            then x\<lparr>agStatus := ''delivered'', agDeliveredAt := Some (snNow env)\<rparr> else x)"
      unfolding d(3) ids rowsDelivered_def by auto
    then have "x \<in> set (queuedFor ?h (ssDB s4))" if "agHost x = ?h" "agStatus x = ''queued''"
      using that by (simp add: queuedFor_def)
    with x(2) show ?thesis by auto
  qed
  then have "queuedFor ?h (ssDB s') = []" by (simp add: queuedFor_def filter_empty_conv)
  with d a t r(4,5) show ?thesis by simp
qed

text \<open>What the stream takes from the orchestrator's queue is not kept anywhere: when the first
  command cannot be recorded, the stream ends, nothing was sent or stored, and every command that was
  waiting for the host is gone.\<close>

theorem queued_commands_lost:
  assumes "queueOf (ssOrch s) host \<noteq> []" and "ssFaults s = Some e # rest"
  shows "fst (deliverCommands env host s) = Some e \<and>
    queueOf (ssOrch (snd (deliverCommands env host s))) host = [] \<and>
    ssSent (snd (deliverCommands env host s)) = ssSent s \<and> ssDB (snd (deliverCommands env host s)) = ssDB s"
proof -
  from assms(1) obtain c cs where "queueOf (ssOrch s) host = c # cs" by (cases "queueOf (ssOrch s) host") auto
  then show ?thesis using assms(2)
    by (simp add: deliverCommands_def Drain_def nextFault_def pop_def InsertMigrationCommand_def)
      (simp add: queueOf_def)
qed

lemma reportedState_ids [simp]:
  "reportedState (report\<lparr>rpCommandId := i, rpHostUuid := h\<rparr>) = reportedState report"
  by (simp add: reportedState_def fun_eq_iff)

lemma reportedState_state: "mgState (reportedState report m) = rpState report"
  by (simp add: reportedState_def)

text \<open>A status report decides the transaction of whatever command it names: the host that reports is
  not looked at, and any state replaces any other.\<close>

theorem report_not_bound:
  assumes "m \<in> set (adMigrations db)"
  shows "UpdateMigrationStatus now (None, f) (report\<lparr>rpCommandId := mgCommandID m, rpHostUuid := h\<rparr>) db =
      UpdateMigrationStatus now (None, f) (report\<lparr>rpCommandId := mgCommandID m, rpHostUuid := mgHost m\<rparr>) db \<and>
    reportedState (report\<lparr>rpCommandId := mgCommandID m, rpHostUuid := h\<rparr>) m
      \<in> set (adMigrations (snd (UpdateMigrationStatus now (None, f)
        (report\<lparr>rpCommandId := mgCommandID m, rpHostUuid := h\<rparr>) db))) \<and>
    mgState (reportedState report m) = rpState report"
  using assms
  by (auto simp: UpdateMigrationStatus_def updCommands_def set_tblUpdate reportedState_state)

text \<open>From the policy engine to the table: when a payload goes through the stream, every finding of
  its assessment is open in the findings table, or was declared a false positive, and the table is again
  one that its lifecycle log explains.\<close>

theorem streamed_findings_open:
  assumes "ledger (snSha env) (snUuid env) (adMain (ssDB s))" and "inj (snUuid env)"
    and "receivePayload env payload s = (None, s')"
    and "f \<in> set (Findings (fst (assessPayload env payload s)))"
  shows "statusOf (adMain (ssDB s')) (keyOf f) \<in> {Some ''open'', Some ''false_positive''} \<and>
    ledger (snSha env) (snUuid env) (adMain (ssDB s'))"
  using receivePayload_status [OF assms] receivePayload_ledger [OF assms(1), of payload] assms(3) by simp

subsection \<open>Without errors every delivery succeeds\<close>

definition quiet :: "ServerState \<Rightarrow> bool" where
  "quiet s \<longleftrightarrow> ssFaults s = [] \<and> ssSends s = []"

lemma quiet_steps:
  "quiet s \<Longrightarrow> nextFault s = (None, s)"
  "quiet s \<Longrightarrow> sendCommand host cmd s = (None, s\<lparr>ssSent := ssSent s @ [(host, cmd)]\<rparr>)"
  by (simp_all add: quiet_def nextFault_def pop_def sendCommand_def)

lemma quiet_update [simp]:
  "quiet (s\<lparr>ssDB := x\<rparr>) = quiet s" "quiet (s\<lparr>ssSent := y\<rparr>) = quiet s" "quiet (s\<lparr>ssOrch := z\<rparr>) = quiet s"
  by (simp_all add: quiet_def)

lemma broadcastHost_quiet: "quiet s \<Longrightarrow> quiet (broadcastHost env host typ s)"
  by (simp add: broadcastHost_def hostTenant_def quiet_steps) (simp add: quiet_def)

lemma insert_known:
  "hostKnown (mcHostUuid c) db \<Longrightarrow> fst (InsertMigrationCommand now None c db) = None"
  "hostKnown h (snd (InsertMigrationCommand now f c db)) = hostKnown h db"
  by (simp_all add: InsertMigrationCommand_def hostKnown_def split: option.split)

lemma deliverQueue_quiet:
  "quiet s \<Longrightarrow> \<forall>c \<in> set cmds. hostKnown (mcHostUuid c) (ssDB s) \<Longrightarrow>
    \<exists>s'. deliverQueue env host cmds s = (None, s') \<and> quiet s'"
proof (induction cmds arbitrary: s)
  case (Cons c cs)
  obtain err db where i: "InsertMigrationCommand (snNow env) None c (ssDB s) = (err, db)" by force
  with insert_known(1) [of c "ssDB s"] Cons.prems(2) have err: "err = None" by (metis fst_conv list.set_intros(1))
  have "\<forall>c \<in> set cs. hostKnown (mcHostUuid c) db"
    using Cons.prems(2) insert_known(2) [where now = "snNow env" and f = None and c = c and db = "ssDB s"] i by simp
  with Cons.IH [of "s\<lparr>ssDB := db, ssSent := ssSent s @ [(host, c)]\<rparr>"] Cons.prems(1) i err show ?case
    by (simp add: quiet_steps)
qed simp

lemma deliverDurable_quiet: "quiet s \<Longrightarrow> fst (deliverDurable env host cmds s) = None"
  by (induction cmds arbitrary: s) (simp_all add: quiet_steps MarkAgentCommandDelivered_def)

lemma deliverCommands_quiet:
  assumes "quiet s" and "\<forall>c \<in> set (queueOf (ssOrch s) host). hostKnown (mcHostUuid c) (ssDB s)"
    and "scanCommands (snUnmarshal env) (queuedFor host (ssDB s)) = Inr durable"
  shows "fst (deliverCommands env host s) = None"
proof -
  let ?s = "s\<lparr>ssOrch := snd (Drain host (ssOrch s))\<rparr>"
  obtain s1 where s1: "deliverQueue env host (queueOf (ssOrch s) host) ?s = (None, s1)" "quiet s1"
    using deliverQueue_quiet [where s = ?s and cmds = "queueOf (ssOrch s) host" and env = env and host = host]
      assms(1,2) by (simp, blast)
  have "queuedFor host (ssDB s1) = queuedFor host (ssDB s)"
    using deliverQueue_ok [OF s1(1)] by (simp add: queuedFor_def)
  with s1 assms(3) deliverDurable_quiet [OF s1(2)] show ?thesis
    by (simp add: deliverCommands_def Drain_def quiet_steps DrainAgentCommands_def)
qed

subsection \<open>A run\<close>

definition demo_env :: ServerEnv where
  "demo_env = \<lparr>snNow = 5, snEvent = (\<lambda>t d. Inr []), snMarshal = (\<lambda>c. Inr (CommandId c)),
     snUnmarshal = (\<lambda>r. Inr ((demo_command r)\<lparr>CommandId := r\<rparr>)), snSha = (\<lambda>x. x), snUuid = demo_uuid,
     snPost = (\<lambda>_ _. None), snParseFloat = (\<lambda>_. None), snQuote = (\<lambda>s. s), snNewID = (\<lambda>_. [])\<rparr>"

definition demo_waiting :: AgentCommandRow where
  "demo_waiting = \<lparr>agCommandID = ''c2'', agHost = ''h1'', agPayload = ''c2'', agStatus = ''queued'',
     agQueuedAt = 1, agDeliveredAt = None, agCompletedAt = None\<rparr>"

definition demo_signed :: MigrationCommand where
  "demo_signed = (demo_command ''f'')\<lparr>CommandId := ''c1'', mcHostUuid := ''h1''\<rparr>"

definition demo_server :: ServerState where
  "demo_server = \<lparr>ssDB = \<lparr>adMain = demo_empty\<lparr>igCommands := [demo_waiting]\<rparr>, adSessions = [], adMigrations = []\<rparr>,
     ssCreds = \<lparr>credRows = [], credFault = None\<rparr>, ssScanConfig = (\<lambda>_. None),
     ssEngine = \<lparr>active = [], profiles = Map.empty, osvClient = None\<rparr>,
     ssOrch = Enqueue demo_signed (newOrchestrator ''k''), ssHub = newHub, ssFaults = [], ssSends = [],
     ssSent = [], ssDispatched = []\<rparr>"

lemma demo_orch: "queueOf (ssOrch demo_server) ''h1'' = [demo_signed]"
  by (simp add: demo_server_def Enqueue_def newOrchestrator_def queueOf_def demo_signed_def)

lemma demo_assessed:
  "assessPayload demo_env (demo_payload ''p1'' ''h1'') demo_server = (demo_payload ''p1'' ''h1'', demo_server)"
  by (simp add: assessPayload_def demo_env_def demo_server_def Assess_def assessWithProfile_def GetActiveProfile_def
      zeroProfile_def demo_payload_def toLower_def)

lemma demo_received: "fst (receivePayload demo_env (demo_payload ''p1'' ''h1'') demo_server) = None"
proof -
  let ?s2 = "snd (storeTelemetry demo_env (demo_payload ''p1'' ''h1'') demo_server)"
  have t: "fst (storeTelemetry demo_env (demo_payload ''p1'' ''h1'') demo_server) = None"
    and assets: "igAssets (adMain (ssDB ?s2)) = igAssets demo_empty"
    and cmds: "igCommands (adMain (ssDB ?s2)) = [demo_waiting]"
    and rest: "ssFaults ?s2 = []" "ssSends ?s2 = []" "ssOrch ?s2 = ssOrch demo_server" "adMigrations (ssDB ?s2) = []"
    by (simp_all add: storeTelemetry_def nextFault_def pop_def demo_server_def demo_env_def demo_ingest_defs
        demo_empty_def demo_asset_def demo_waiting_def addEvent_def)
  let ?s4 = "broadcastHost demo_env ''h1'' ''telemetry_update'' ?s2"
  have "fst (deliverCommands demo_env ''h1'' ?s4) = None"
  proof (rule deliverCommands_quiet)
    show "quiet ?s4" by (rule broadcastHost_quiet) (simp add: quiet_def rest)
    show "\<forall>c \<in> set (queueOf (ssOrch ?s4) ''h1''). hostKnown (mcHostUuid c) (ssDB ?s4)"
      by (simp add: rest demo_orch hostKnown_def assets) (simp add: demo_signed_def demo_empty_def demo_asset_def)
    show "scanCommands (snUnmarshal demo_env) (queuedFor ''h1'' (ssDB ?s4)) =
        Inr [(demo_command ''c2'')\<lparr>CommandId := ''c2''\<rparr>]"
      by (simp add: queuedFor_def cmds) (simp add: demo_waiting_def demo_env_def)
  qed
  moreover have "plHostUuid (demo_payload ''p1'' ''h1'') = ''h1''" "\<not> hasCriticalFindings (demo_payload ''p1'' ''h1'')"
    by (simp_all add: demo_payload_def hasCriticalFindings_def demo_finding_def)
  ultimately show ?thesis using t
    by (simp add: receivePayload_def demo_assessed split: prod.split option.split) force
qed

lemma demo_received_eq:
  "receivePayload demo_env (demo_payload ''p1'' ''h1'') demo_server =
    (None, snd (receivePayload demo_env (demo_payload ''p1'' ''h1'') demo_server))"
  using demo_received by (metis prod.collapse)

theorem stream_delivers_all_witness:
  "map (CommandId \<circ> snd) (ssSent (snd (receivePayload demo_env (demo_payload ''p1'' ''h1'') demo_server))) = [''c1'', ''c2'']"
  using stream_delivers_all [OF demo_received_eq, of "\<lambda>r. (demo_command (agPayload r))\<lparr>CommandId := agPayload r\<rparr>"] demo_orch
  by (simp add: demo_payload_def) (simp add: demo_server_def queuedFor_def demo_waiting_def demo_env_def demo_signed_def)

theorem queued_commands_lost_witness:
  "queueOf (ssOrch (snd (deliverCommands demo_env ''h1'' (demo_server\<lparr>ssFaults := [Some ''timeout'']\<rparr>)))) ''h1'' = []"
  using queued_commands_lost [of "demo_server\<lparr>ssFaults := [Some ''timeout'']\<rparr>" "''h1''" "''timeout''" "[]" demo_env] demo_orch
  by simp

definition demo_migration :: MigrationRow where
  "demo_migration = \<lparr>mgCommandID = ''c1'', mgHost = ''h1'', mgService = [], mgProfile = [], mgKem = [], mgSig = [],
     mgConfigPath = [], mgState = MigrationStateFailed, mgDryRun = False, mgIssuedAt = 0, mgUpdatedAt = 0,
     mgLastError = [], mgOutput = [], mgObservedTLS = None\<rparr>"

definition demo_report :: MigrationStatusReport where
  "demo_report = \<lparr>rpCommandId = ''c1'', rpHostUuid = ''h2'', rpState = MigrationStateSucceeded, rpSuccess = True,
     ErrorVector = [], Output = [], ObservedTls = None, ReportedAtUnix = 9\<rparr>"

theorem report_not_bound_witness:
  "map mgState (adMigrations (snd (UpdateMigrationStatus 9 (None, None) demo_report
     \<lparr>adMain = demo_empty, adSessions = [], adMigrations = [demo_migration]\<rparr>))) = [MigrationStateSucceeded]"
proof -
  have r: "demo_report\<lparr>rpCommandId := mgCommandID demo_migration, rpHostUuid := ''h2''\<rparr> = demo_report"
    by (simp add: demo_report_def demo_migration_def)
  let ?db = "\<lparr>adMain = demo_empty, adSessions = [], adMigrations = [demo_migration]\<rparr>"
  have "demo_migration \<in> set (adMigrations ?db)" by simp
  from report_not_bound [OF this, where now = 9 and f = None and report = demo_report and h = "''h2''"] show ?thesis unfolding r
    by (simp add: UpdateMigrationStatus_def updCommands_def tblUpdate_def demo_report_def demo_migration_def
        reportedState_def commandStatusOf_def MigrationStateSucceeded_def MigrationStateApplying_def)
qed

theorem streamed_findings_open_witness:
  "statusOf (adMain (ssDB (snd (receivePayload demo_env (demo_payload ''p1'' ''h1'') demo_server)))) (keyOf demo_finding)
    \<in> {Some ''open'', Some ''false_positive''}"
proof -
  have l: "ledger (snSha demo_env) (snUuid demo_env) (adMain (ssDB demo_server))"
    by (rule ledger.start) (simp_all add: demo_server_def demo_empty_def)
  have i: "inj (snUuid demo_env)" using demo_uuid_inj by (simp add: demo_env_def)
  have f: "demo_finding \<in> set (Findings (fst (assessPayload demo_env (demo_payload ''p1'' ''h1'') demo_server)))"
    by (simp add: demo_assessed) (simp add: demo_payload_def)
  from streamed_findings_open [OF l i demo_received_eq f] show ?thesis by simp
qed

end
