(* ===== verification/FindingsQuery.thy ===== *)
theory FindingsQuery
  imports IngestProofs
begin

text \<open>
  Reading findings: \<open>Findings\<close>, \<open>FindingsPaginated\<close> and \<open>FindingsByHost\<close> of
  \<^verbatim>\<open>server/internal/store/store.go\<close>. A query is a filter, a sort and a window on the joined rows;
  \<open>ilike\<close> is the pattern match of the database. Rows that agree in the sort column come in the order
  in which the database reads them: \<open>scan\<close> reorders the joined rows of one statement.
\<close>

subsection \<open>Data\<close>

record Finding =
  fdFindingID :: string
  fdHostUUID :: string
  fdSeverity :: int
  fdTitle :: string
  fdDescription :: string
  fdAssetRef :: string
  fdAlgorithm :: string
  fdPolicyRuleID :: string
  fdMigrationProfile :: string
  fdStatus :: string
  fdUpdatedBy :: string
  fdUpdatedAt :: int
  fdCreatedAt :: int
  fdConfidence :: real
  fdTelemetryID :: string
  fdHostname :: string
  fdAgentVersion :: string
  fdScanFinished :: "int option"

record QueryParams =
  qpLimit :: int
  qpOffset :: int
  qpSort :: string
  qpOrder :: string
  qpSearch :: string
  qpHostUUID :: string
  qpScanID :: string
  qpAlgorithm :: string
  qpAssetRef :: string
  qpDateFrom :: "int option"
  qpDateTo :: "int option"
  qpTenantID :: string

subsection \<open>The joined rows\<close>

text \<open>A finding with its asset and its payload (inner joins).\<close>

type_synonym joined = "FindingRow \<times> AssetRow \<times> TelemetryRow"

definition joinFinding :: "IngestDB \<Rightarrow> FindingRow \<Rightarrow> joined list" where
  "joinFinding db r =
     (case (tblFind asHostUUID (frHost r) (igAssets db), tblFind tmID (frTelemetryID r) (igTelemetry db)) of
        (Some a, Some t) \<Rightarrow> [(r, a, t)] | _ \<Rightarrow> [])"

definition joinedFindings :: "IngestDB \<Rightarrow> joined list" where
  "joinedFindings db = concat (map (joinFinding db) (igFindings db))"

definition toFinding :: "joined \<Rightarrow> Finding" where
  "toFinding = (\<lambda>(r, a, t).
     \<lparr>fdFindingID = frFindingID r, fdHostUUID = frHost r, fdSeverity = frSeverity r, fdTitle = frTitle r,
      fdDescription = frDescription r, fdAssetRef = frAssetRef r, fdAlgorithm = frAlgorithm r,
      fdPolicyRuleID = frRule r, fdMigrationProfile = frProfile r, fdStatus = frStatus r,
      fdUpdatedBy = frUpdatedBy r, fdUpdatedAt = frUpdatedAt r, fdCreatedAt = frCreatedAt r,
      fdConfidence = frConfidence r, fdTelemetryID = frTelemetryID r, fdHostname = asHostname a,
      fdAgentVersion = asAgentVersion a, fdScanFinished = Some (ScanFinishedUnix (tmPayload t))\<rparr>)"

subsection \<open>The queries\<close>

definition clampLimit :: "int \<Rightarrow> int \<Rightarrow> nat" where
  "clampLimit dflt limit = nat (if limit \<le> 0 \<or> 500 < limit then dflt else limit)"

datatype sortKey = NumKey int | TextKey string

fun keyLess :: "sortKey \<Rightarrow> sortKey \<Rightarrow> bool" where
  "keyLess (NumKey a) (NumKey b) = (a < b)"
| "keyLess (TextKey a) (TextKey b) = (a < b)"
| "keyLess _ _ = False"

definition allowedSort :: "string list" where
  "allowedSort = [''severity'', ''algorithm'', ''asset_ref'', ''policy_rule_id'', ''created_at'', ''status'']"

definition sortColumn :: "string \<Rightarrow> string" where
  "sortColumn s = (if s \<in> set allowedSort then s else ''severity'')"

definition columnOf :: "string \<Rightarrow> FindingRow \<Rightarrow> sortKey" where
  "columnOf col r =
     (if col = ''algorithm'' then TextKey (frAlgorithm r)
      else if col = ''asset_ref'' then TextKey (frAssetRef r)
      else if col = ''policy_rule_id'' then TextKey (frRule r)
      else if col = ''created_at'' then NumKey (frCreatedAt r)
      else if col = ''status'' then TextKey (frStatus r)
      else NumKey (frSeverity r))"

text \<open>A stable insertion sort by \<open>before\<close>.\<close>

fun insertRow :: "('r \<Rightarrow> 'r \<Rightarrow> bool) \<Rightarrow> 'r \<Rightarrow> 'r list \<Rightarrow> 'r list" where
  "insertRow before x [] = [x]"
| "insertRow before x (y # ys) = (if before y x then y # insertRow before x ys else x # y # ys)"

definition orderRows :: "('r \<Rightarrow> 'r \<Rightarrow> bool) \<Rightarrow> 'r list \<Rightarrow> 'r list" where
  "orderRows before rows = foldr (insertRow before) rows []"

definition sortBefore :: "QueryParams \<Rightarrow> joined \<Rightarrow> joined \<Rightarrow> bool" where
  "sortBefore params x y =
     (let col = sortColumn (qpSort params); a = columnOf col (fst x); b = columnOf col (fst y)
      in if qpOrder params = ''asc'' then keyLess a b else keyLess b a)"

definition matchesText :: "(string \<Rightarrow> string \<Rightarrow> bool) \<Rightarrow> string \<Rightarrow> joined \<Rightarrow> bool" where
  "matchesText ilike search = (\<lambda>(r, a, t).
     let p = ''%'' @ search @ ''%''
     in ilike p (frTitle r) \<or> ilike p (frDescription r) \<or> ilike p (frAssetRef r) \<or> ilike p (frAlgorithm r) \<or>
        ilike p (frRule r) \<or> ilike p (asHostname a))"

definition selected :: "(string \<Rightarrow> string \<Rightarrow> bool) \<Rightarrow> QueryParams \<Rightarrow> joined \<Rightarrow> bool" where
  "selected ilike params = (\<lambda>(r, a, t).
     (qpSearch params = [] \<or> matchesText ilike (qpSearch params) (r, a, t)) \<and>
     (qpTenantID params = [] \<or> asTenantID a = qpTenantID params) \<and>
     (qpHostUUID params = [] \<or> frHost r = qpHostUUID params) \<and>
     (qpScanID params = [] \<or> frTelemetryID r = qpScanID params) \<and>
     (qpAlgorithm params = [] \<or> frAlgorithm r = qpAlgorithm params) \<and>
     (qpAssetRef params = [] \<or> frAssetRef r = qpAssetRef params) \<and>
     (case qpDateFrom params of None \<Rightarrow> True | Some d \<Rightarrow> d \<le> ScanFinishedUnix (tmPayload t)) \<and>
     (case qpDateTo params of None \<Rightarrow> True | Some d \<Rightarrow> ScanFinishedUnix (tmPayload t) \<le> d))"

definition matchingRows :: "(joined list \<Rightarrow> joined list) \<Rightarrow> (string \<Rightarrow> string \<Rightarrow> bool) \<Rightarrow> QueryParams \<Rightarrow> IngestDB
    \<Rightarrow> joined list" where
  "matchingRows scan ilike params db =
     orderRows (sortBefore params) (filter (selected ilike params) (scan (joinedFindings db)))"

text \<open>The page and the total; an error of the second statement falls back to the length of the page.\<close>

definition FindingsPaginated :: "(joined list \<Rightarrow> joined list) \<Rightarrow> (string \<Rightarrow> string \<Rightarrow> bool) \<Rightarrow> goerror \<times> goerror \<Rightarrow> QueryParams \<Rightarrow> IngestDB
    \<Rightarrow> (Finding list \<times> nat) result" where
  "FindingsPaginated scan ilike faults params db =
     (case fst faults of Some e \<Rightarrow> Inl e | None \<Rightarrow>
       (let rows = matchingRows scan ilike params db;
            page = map toFinding (take (clampLimit 50 (qpLimit params)) (drop (nat (max 0 (qpOffset params))) rows))
        in Inr (page, if snd faults = None then length rows else length page)))"

definition newestFirst :: "joined \<Rightarrow> joined \<Rightarrow> bool" where
  "newestFirst x y \<longleftrightarrow> frSeverity (fst y) < frSeverity (fst x) \<or>
     frSeverity (fst x) = frSeverity (fst y) \<and> frCreatedAt (fst y) < frCreatedAt (fst x)"

definition Findings_list :: "(joined list \<Rightarrow> joined list) \<Rightarrow> goerror \<Rightarrow> int \<Rightarrow> string \<Rightarrow> IngestDB \<Rightarrow> Finding list result" where
  "Findings_list scan fault limit tenantID db =
     (case fault of Some e \<Rightarrow> Inl e | None \<Rightarrow>
       Inr (map toFinding (take (clampLimit 200 limit) (orderRows newestFirst
         (filter (\<lambda>(r, a, t). tenantID = [] \<or> asTenantID a = tenantID) (scan (joinedFindings db)))))))"

text \<open>The occurrences of a scan and of a host, which have no review status.\<close>

definition occurrenceFinding :: "Occurrence \<Rightarrow> Finding" where
  "occurrenceFinding oc = (let f = ocFinding oc in
     \<lparr>fdFindingID = ocID oc, fdHostUUID = ocHost oc, fdSeverity = Severity f, fdTitle = Title f,
      fdDescription = fnDescription f, fdAssetRef = AssetRef f, fdAlgorithm = fnAlgorithm f,
      fdPolicyRuleID = PolicyRuleId f, fdMigrationProfile = MigrationProfile f, fdStatus = ''historical'',
      fdUpdatedBy = [], fdUpdatedAt = ocCreatedAt oc, fdCreatedAt = ocCreatedAt oc, fdConfidence = ocConfidence oc,
      fdTelemetryID = [], fdHostname = [], fdAgentVersion = [], fdScanFinished = None\<rparr>)"

definition newestOccurrence :: "Occurrence \<Rightarrow> Occurrence \<Rightarrow> bool" where
  "newestOccurrence x y \<longleftrightarrow> Severity (ocFinding y) < Severity (ocFinding x) \<or>
     Severity (ocFinding x) = Severity (ocFinding y) \<and> ocCreatedAt y < ocCreatedAt x"

definition selectedOccurrence :: "(string \<Rightarrow> string \<Rightarrow> bool) \<Rightarrow> string \<Rightarrow> QueryParams \<Rightarrow> IngestDB \<Rightarrow> Occurrence \<Rightarrow> bool" where
  "selectedOccurrence ilike scanID params db oc =
     (let f = ocFinding oc; p = ''%'' @ qpSearch params @ ''%''
      in ocScanID oc = scanID \<and>
         (qpSearch params = [] \<or> ilike p (Title f) \<or> ilike p (fnDescription f) \<or> ilike p (AssetRef f) \<or>
            ilike p (fnAlgorithm f) \<or> ilike p (PolicyRuleId f)) \<and>
         (qpAlgorithm params = [] \<or> fnAlgorithm f = qpAlgorithm params) \<and>
         (qpAssetRef params = [] \<or> AssetRef f = qpAssetRef params) \<and>
         (qpTenantID params = [] \<or>
            ocHost oc \<in> asHostUUID ` {a \<in> set (igAssets db). asTenantID a = qpTenantID params}))"

text \<open>An error of the count leaves the total at 0 here.\<close>

definition ReportFindings :: "(Occurrence list \<Rightarrow> Occurrence list) \<Rightarrow> (string \<Rightarrow> string \<Rightarrow> bool) \<Rightarrow> goerror \<times> goerror \<Rightarrow> string
    \<Rightarrow> QueryParams \<Rightarrow> IngestDB \<Rightarrow> (Finding list \<times> nat) result" where
  "ReportFindings scan ilike faults scanID params db =
     (case fst faults of Some e \<Rightarrow> Inl e | None \<Rightarrow>
       (let rows = orderRows newestOccurrence
              (filter (selectedOccurrence ilike scanID params db) (scan (igOccurrences db)));
            page = take (clampLimit 100 (qpLimit params)) (drop (nat (max 0 (qpOffset params))) rows)
        in Inr (map occurrenceFinding page, if snd faults = None then length rows else 0)))"

definition FindingsByHost :: "(Occurrence list \<Rightarrow> Occurrence list) \<Rightarrow> goerror \<Rightarrow> string \<Rightarrow> IngestDB \<Rightarrow> Finding list result" where
  "FindingsByHost scan fault host db =
     (case fault of Some e \<Rightarrow> Inl e | None \<Rightarrow>
       Inr (map occurrenceFinding (orderRows newestOccurrence
         (filter (\<lambda>oc. ocHost oc = host) (scan (igOccurrences db))))))"

subsection \<open>Sorting and windows\<close>

lemma set_insertRow [simp]: "set (insertRow b x ys) = insert x (set ys)"
  by (induction ys) auto

lemma set_orderRows [simp]: "set (orderRows b rows) = set rows"
  unfolding orderRows_def by (induction rows) auto

lemma length_insertRow [simp]: "length (insertRow b x ys) = Suc (length ys)"
  by (induction ys) auto

lemma length_orderRows [simp]: "length (orderRows b rows) = length rows"
  unfolding orderRows_def by (induction rows) auto

lemma joined_rows:
  "(r, a, t) \<in> set (joinedFindings db) \<Longrightarrow>
    r \<in> set (igFindings db) \<and> tblFind asHostUUID (frHost r) (igAssets db) = Some a"
  by (auto simp: joinedFindings_def joinFinding_def split: option.splits)

lemma clampLimit_range: "0 < d \<Longrightarrow> d \<le> 500 \<Longrightarrow> 0 < clampLimit d l \<and> clampLimit d l \<le> 500"
  by (auto simp: clampLimit_def)

definition tenantOf :: "IngestDB \<Rightarrow> string \<Rightarrow> string option" where
  "tenantOf db host = map_option asTenantID (tblFind asHostUUID host (igAssets db))"

definition pageAt :: "QueryParams \<Rightarrow> nat \<Rightarrow> QueryParams" where
  "pageAt params i = params\<lparr>qpOffset := int i * qpLimit params\<rparr>"

lemma concat_windows:
  assumes "0 < n"
  shows "concat (map (\<lambda>i. take n (drop (i * n) xs)) [0..<k]) = take (k * n) xs"
proof (induction k)
  case (Suc k)
  have "take (k * n) xs @ take n (drop (k * n) xs) = take (k * n + n) xs" by (simp add: take_add)
  with Suc show ?case by (simp add: add.commute)
qed simp

subsection \<open>The properties\<close>

text \<open>C19: A query for a tenant returns findings of that tenant only: every row of a page belongs to a
  host whose asset has the tenant, whatever else the caller asks for; a page has at most 500 rows.\<close>

theorem findings_tenant_scoped:
  assumes "FindingsPaginated scan ilike faults params db = Inr (page, tot)" and "qpTenantID params \<noteq> []"
    and "f \<in> set page" and "mset (scan (joinedFindings db)) = mset (joinedFindings db)"
  shows "tenantOf db (fdHostUUID f) = Some (qpTenantID params) \<and> length page \<le> 500 \<and>
    (\<exists>r. r \<in> set (igFindings db) \<and> frFindingID r = fdFindingID f \<and> frHost r = fdHostUUID f)"
proof -
  from assms(1) have page: "page = map toFinding (take (clampLimit 50 (qpLimit params))
      (drop (nat (max 0 (qpOffset params))) (matchingRows scan ilike params db)))"
    by (auto simp: FindingsPaginated_def Let_def split: option.splits)
  from assms(3) page obtain r a t where f: "f = toFinding (r, a, t)" "(r, a, t) \<in> set (matchingRows scan ilike params db)"
    by (auto dest!: in_set_takeD in_set_dropD)
  then have m: "(r, a, t) \<in> set (joinedFindings db)" "asTenantID a = qpTenantID params"
    using assms(2) mset_eq_setD [OF assms(4)] by (auto simp: matchingRows_def selected_def)
  have "length page \<le> 500" unfolding page using clampLimit_range [of 50 "qpLimit params"]
    by (auto intro: order_trans [OF min.cobounded2])
  with joined_rows [OF m(1)] m(2) f(1) show ?thesis by (auto simp: tenantOf_def toFinding_def)
qed

text \<open>Paging loses nothing: the pages of one limit, one after the other, are the matching findings in
  order, each once, and the total of every page is their number.\<close>

theorem findings_pages:
  assumes "1 \<le> qpLimit params" and "qpLimit params \<le> 500"
    and "length (matchingRows scan ilike params db) \<le> k * nat (qpLimit params)"
  shows "concat (map (\<lambda>i. fst (projr (FindingsPaginated scan ilike (None, None) (pageAt params i) db))) [0..<k]) =
      map toFinding (matchingRows scan ilike params db) \<and>
    snd (projr (FindingsPaginated scan ilike (None, None) (pageAt params i) db)) = length (matchingRows scan ilike params db)"
proof -
  define n where "n = nat (qpLimit params)"
  have n: "0 < n" "clampLimit 50 (qpLimit params) = n" using assms(1,2) by (simp_all add: n_def clampLimit_def)
  have m: "matchingRows scan ilike (pageAt params i) db = matchingRows scan ilike params db" for i
  proof -
    have "selected ilike (pageAt params i) = selected ilike params" "sortBefore (pageAt params i) = sortBefore params"
      by (simp_all add: selected_def sortBefore_def pageAt_def fun_eq_iff)
    then show ?thesis by (simp add: matchingRows_def)
  qed
  have page: "fst (projr (FindingsPaginated scan ilike (None, None) (pageAt params i) db)) =
      map toFinding (take n (drop (i * n) (matchingRows scan ilike params db)))" for i
  proof -
    have "nat (max 0 (qpOffset (pageAt params i))) = i * n"
      using assms(1) by (simp add: pageAt_def n_def nat_mult_distrib)
    moreover have "qpLimit (pageAt params i) = qpLimit params" by (simp add: pageAt_def)
    ultimately show ?thesis by (simp add: FindingsPaginated_def Let_def m n(2))
  qed
  have "concat (map (\<lambda>i. map toFinding (take n (drop (i * n) (matchingRows scan ilike params db)))) [0..<k]) =
      map toFinding (concat (map (\<lambda>i. take n (drop (i * n) (matchingRows scan ilike params db))) [0..<k]))"
    by (simp add: map_concat comp_def)
  also have "\<dots> = map toFinding (matchingRows scan ilike params db)"
    using concat_windows [OF n(1), of "matchingRows scan ilike params db" k] assms(3) by (simp add: n_def)
  finally show ?thesis unfolding page by (simp add: FindingsPaginated_def Let_def m)
qed

text \<open>A limit above 500 is not cut to 500 but replaced by 50: the scorecards, which ask for 5000
  findings, see the first 50.\<close>

theorem large_limit_ignored:
  assumes "qpLimit params = 5000" and "qpOffset params = 0"
  shows "fst (projr (FindingsPaginated scan ilike (None, None) params db)) =
    map toFinding (take 50 (matchingRows scan ilike params db))"
  using assms by (simp add: FindingsPaginated_def clampLimit_def Let_def)

text \<open>No column of the order is unique, so that rows of one severity may come in another order in the
  statement of the next page: the same finding is then on both pages, and the other one on none.\<close>

theorem pages_repeat:
  assumes "filter (selected ilike params) (joinedFindings db) = [x, y]" and "qpLimit params = 1"
    and "\<not> sortBefore params x y" and "\<not> sortBefore params y x"
  shows "fst (projr (FindingsPaginated (\<lambda>rows. rows) ilike (None, None) (pageAt params 0) db)) = [toFinding x] \<and>
    fst (projr (FindingsPaginated rev ilike (None, None) (pageAt params 1) db)) = [toFinding x]"
proof -
  have "selected ilike (pageAt params i) = selected ilike params" "sortBefore (pageAt params i) = sortBefore params"
    "qpLimit (pageAt params i) = 1" "qpOffset (pageAt params i) = int i" for i
    using assms(2) by (simp_all add: selected_def sortBefore_def pageAt_def fun_eq_iff)
  then show ?thesis using assms
    by (simp add: FindingsPaginated_def matchingRows_def Let_def orderRows_def clampLimit_def rev_filter [symmetric])
qed

subsection \<open>Witnesses\<close>

definition demo_query :: QueryParams where
  "demo_query = \<lparr>qpLimit = 1, qpOffset = 0, qpSort = ''severity'', qpOrder = [], qpSearch = [], qpHostUUID = [],
     qpScanID = [], qpAlgorithm = [], qpAssetRef = [], qpDateFrom = None, qpDateTo = None, qpTenantID = ''t1''\<rparr>"

lemma demo_joined:
  "joinedFindings demo_reported = [(demo_row ''open'' [] 5, demo_asset ''h1'' ''t1'',
     \<lparr>tmID = ''p1'', tmHost = ''h1'', tmReceivedAt = 5, tmPayload = demo_payload ''p1'' ''h1''\<rparr>)]"
  by (simp add: joinedFindings_def joinFinding_def demo_reported_rows demo_empty_def demo_asset_def demo_row_def
      tblFind_def)

lemma demo_matching:
  "matchingRows (\<lambda>x. x) ilike demo_query demo_reported = joinedFindings demo_reported"
  by (simp add: matchingRows_def demo_joined selected_def demo_query_def demo_asset_def orderRows_def)

theorem findings_tenant_scoped_witness:
  "tenantOf demo_reported ''h1'' = Some ''t1''"
proof -
  let ?f = "toFinding (demo_row ''open'' [] 5, demo_asset ''h1'' ''t1'',
     \<lparr>tmID = ''p1'', tmHost = ''h1'', tmReceivedAt = 5, tmPayload = demo_payload ''p1'' ''h1''\<rparr>)"
  have "FindingsPaginated (\<lambda>x. x) (\<lambda>p s. False) (None, None) demo_query demo_reported = Inr ([?f], 1)"
    unfolding FindingsPaginated_def by (simp add: demo_matching demo_joined) (simp add: demo_query_def clampLimit_def)
  from findings_tenant_scoped [OF this, of ?f] show ?thesis
    by (simp add: demo_query_def toFinding_def demo_row_def)
qed

theorem findings_pages_witness:
  "concat (map (\<lambda>i. fst (projr (FindingsPaginated (\<lambda>x. x) (\<lambda>p s. False) (None, None) (pageAt demo_query i) demo_reported)))
     [0..<2]) = map toFinding (joinedFindings demo_reported)"
  using findings_pages [of demo_query "\<lambda>x. x" "\<lambda>p s. False" demo_reported 2]
  by (simp add: demo_matching demo_joined) (simp add: demo_query_def)

end
