(* ===== verification/Agility.thy ===== *)
theory Agility
  imports FindingsQuery PolicyEngine
begin

text \<open>
  Crypto agility: the scorecards of \<^verbatim>\<open>server/internal/agility/scorecard.go\<close>, the dry-run exercise
  (\<^verbatim>\<open>exercise.go\<close>), the adapter matrix (\<^verbatim>\<open>adapters.go\<close>), the negotiation harness
  (\<^verbatim>\<open>harness.go\<close>), the table of metrics in \<^verbatim>\<open>store/store.go\<close> and the two handlers in
  \<^verbatim>\<open>httpapi/agility_waves.go\<close>. A \<open>float64\<close> is a real, a Go map its entries in the order of their
  first assignment; where the code ranges over a map, the order is a parameter.
\<close>

subsection \<open>Printing\<close>

text \<open>\<open>%.nf\<close>: the nearest decimal, ties to even.\<close>

definition roundEven :: "real \<Rightarrow> int" where
  "roundEven y = (let f = \<lfloor>y\<rfloor>; d = y - of_int f in
     if d < 1 / 2 then f else if 1 / 2 < d then f + 1 else if even f then f else f + 1)"

definition fixedPoint :: "nat \<Rightarrow> real \<Rightarrow> string" where
  "fixedPoint n x =
     (let k = nat (roundEven (\<bar>x\<bar> * 10 ^ n)); frac = decNat (k mod 10 ^ n)
      in (if x < 0 then ''-'' else []) @ decNat (k div 10 ^ n) @
         (if n = 0 then [] else ''.'' @ replicate (n - length frac) CHR ''0'' @ frac))"

text \<open>\<open>%v\<close> of a slice of strings.\<close>

definition showStrings :: "string list \<Rightarrow> string" where
  "showStrings ss = ''['' @ joinWith '' '' ss @ '']''"

subsection \<open>The scorecard\<close>

type_synonym MaturityLevel = int

definition MaturityName_of :: "MaturityLevel \<Rightarrow> string" where
  "MaturityName_of m =
     (if m = 0 then ''none'' else if m = 1 then ''reactive'' else if m = 2 then ''planned''
      else if m = 3 then ''agile'' else if m = 4 then ''crypto_agile'' else ''unknown'')"

record Scorecard =
  scHostUUID :: string
  HardcodeIndex :: real
  NegotiationCoverage :: real
  BlastRadiusScore :: real
  TTSADays :: "real option"
  ProfileAdoptionLatencyDays :: "real option"
  scMaturityLevel :: MaturityLevel
  MaturityName :: string
  AlgorithmBlastRadii :: "(string \<times> real) list"
  scComputedAt :: int

definition emptyScorecard :: "string \<Rightarrow> int \<Rightarrow> Scorecard" where
  "emptyScorecard host now =
     \<lparr>scHostUUID = host, HardcodeIndex = 0, NegotiationCoverage = 0, BlastRadiusScore = 0, TTSADays = None,
      ProfileAdoptionLatencyDays = None, scMaturityLevel = 0, MaturityName = MaturityName_of 0,
      AlgorithmBlastRadii = [], scComputedAt = now\<rparr>"

definition sourceExtensions :: "string list" where
  "sourceExtensions = [''.go'', ''.rs'', ''.py'', ''.js'', ''.ts'', ''.java'', ''.c'', ''.cpp'', ''.cs'', ''.rb'', ''.php'']"

definition isSourceFinding :: "Finding \<Rightarrow> bool" where
  "isSourceFinding f =
     list_ex (\<lambda>ext. length ext < length (fdAssetRef f) \<and> hasSuffix (fdAssetRef f) ext) sourceExtensions"

definition computeMaturity :: "Scorecard \<Rightarrow> MaturityLevel" where
  "computeMaturity sc =
     (let hi = HardcodeIndex sc; nc = NegotiationCoverage sc in
      if hi < 2 / 100 \<and> 90 / 100 < nc then 4
      else if hi < 5 / 100 \<and> 80 / 100 < nc then 3
      else if hi < 20 / 100 \<and> 60 / 100 < nc then 2
      else if hi < 50 / 100 \<and> 20 / 100 < nc then 1
      else 0)"

text \<open>The assets of an algorithm, and the entries of the map of blast radii.\<close>

definition assetsOf :: "Finding list \<Rightarrow> string \<Rightarrow> string list" where
  "assetsOf fs alg = firstSeen [] (map fdAssetRef (filter (\<lambda>f. fdAlgorithm f = alg) fs))"

definition blastRadii :: "Finding list \<Rightarrow> (string \<times> nat) list" where
  "blastRadii fs = map (\<lambda>alg. (alg, length (assetsOf fs alg))) (firstSeen [] (map fdAlgorithm fs))"

definition maxBlast :: "(string \<times> nat) list \<Rightarrow> nat" where
  "maxBlast radii = foldl (\<lambda>m (alg, n). if m < n then n else m) 0 radii"

text \<open>The last remediation, \<open>None\<close> for the zero time; times are in seconds.\<close>

definition latestRemediation :: "Finding list \<Rightarrow> int option" where
  "latestRemediation fs =
     foldl (\<lambda>t f. if fdStatus f = ''remediated'' \<and> (case t of None \<Rightarrow> True | Some u \<Rightarrow> u < fdUpdatedAt f)
                  then Some (fdUpdatedAt f) else t) None fs"

definition adoptionLatency :: "int option \<Rightarrow> Finding list \<Rightarrow> real option" where
  "adoptionLatency switchedAt fs =
     (case (switchedAt, latestRemediation fs) of
        (Some s, Some t) \<Rightarrow> if s < t then Some (of_int (t - s) / 3600 / 24) else None
      | _ \<Rightarrow> None)"

definition ComputeScorecard :: "int \<Rightarrow> string \<Rightarrow> Finding list \<Rightarrow> int \<Rightarrow> int \<Rightarrow> int option \<Rightarrow> Scorecard" where
  "ComputeScorecard now host fs totalServices negotiableServices policySwitchedAt =
     (if fs = [] then emptyScorecard host now
      else
        (let total = real (length fs); radii = blastRadii fs; m = maxBlast radii;
             sc = (emptyScorecard host now)
               \<lparr>HardcodeIndex := real (length (filter isSourceFinding fs)) / total,
                NegotiationCoverage :=
                  (if 0 < totalServices then of_int negotiableServices / of_int totalServices else 0),
                BlastRadiusScore := (if 0 < m then min 1 (real m / total) else 0),
                AlgorithmBlastRadii := map (\<lambda>(alg, n). (alg, real n)) radii,
                ProfileAdoptionLatencyDays := adoptionLatency policySwitchedAt fs\<rparr>
         in sc\<lparr>scMaturityLevel := computeMaturity sc, MaturityName := MaturityName_of (computeMaturity sc)\<rparr>))"

text \<open>\<open>if v > m[k] { m[k] = v }\<close> on a map whose missing keys read as 0.\<close>

definition raiseEntry :: "(string \<times> real) list \<Rightarrow> string \<times> real \<Rightarrow> (string \<times> real) list" where
  "raiseEntry m = (\<lambda>(k, v).
     case map_of m k of
       None \<Rightarrow> if 0 < v then m @ [(k, v)] else m
     | Some old \<Rightarrow> if old < v then map (\<lambda>(k', w). if k' = k then (k', v) else (k', w)) m else m)"

definition ComputeFleetScorecard :: "int \<Rightarrow> Scorecard list \<Rightarrow> Scorecard" where
  "ComputeFleetScorecard now scs =
     (if scs = [] then emptyScorecard [] now
      else
        (let n = real (length scs);
             fleet = (emptyScorecard [] now)
               \<lparr>HardcodeIndex := sum_list (map HardcodeIndex scs) / n,
                NegotiationCoverage := sum_list (map NegotiationCoverage scs) / n,
                BlastRadiusScore := sum_list (map BlastRadiusScore scs) / n,
                AlgorithmBlastRadii := foldl raiseEntry [] (concat (map AlgorithmBlastRadii scs))\<rparr>
         in fleet\<lparr>scMaturityLevel := computeMaturity fleet,
                  MaturityName := MaturityName_of (computeMaturity fleet)\<rparr>))"

text \<open>\<open>iter\<close> is the order in which the map of radii is read; entries of one radius stay in it.\<close>

definition TopBlastRadiusAlgorithms :: "((string \<times> real) list \<Rightarrow> (string \<times> real) list) \<Rightarrow> Scorecard \<Rightarrow> int
    \<Rightarrow> (string \<times> real) list" where
  "TopBlastRadiusAlgorithms iter sc n =
     (let entries = orderRows (\<lambda>x y. snd y < snd x) (iter (AlgorithmBlastRadii sc))
      in if 0 < n \<and> n < int (length entries) then take (nat n) entries else entries)"

subsection \<open>The dry-run exercise\<close>

record ExerciseFinding =
  xfHostUUID :: string
  Dimension :: string
  Score :: real
  Passed :: bool
  Reason :: string

record ExerciseReport =
  xrExerciseID :: string
  xrRunAt :: int
  HostCount :: nat
  PassCount :: nat
  FailCount :: nat
  SkipCount :: nat
  xrFindings :: "ExerciseFinding list"
  xrOverallGrade :: string
  xrSummary :: string

text \<open>The grade of a fraction, for the exercise and for the negotiation harness.\<close>

definition gradeOf :: "real \<Rightarrow> string" where
  "gradeOf x =
     (if 90 / 100 \<le> x then ''A'' else if 75 / 100 \<le> x then ''B'' else if 60 / 100 \<le> x then ''C''
      else if 45 / 100 \<le> x then ''D'' else ''F'')"

definition hardcodeCheck :: "Scorecard \<Rightarrow> ExerciseFinding" where
  "hardcodeCheck sc =
     (let s = HardcodeIndex sc; ok = s < 2 / 10
      in \<lparr>xfHostUUID = scHostUUID sc, Dimension = ''hardcode_index'', Score = s, Passed = ok,
          Reason = ''hardcode index '' @ fixedPoint 2 s @
            (if ok then '' is below threshold 0.20''
             else '' meets or exceeds threshold 0.20; algorithms hardcoded in source'')\<rparr>)"

definition negotiationCheck :: "Scorecard \<Rightarrow> ExerciseFinding" where
  "negotiationCheck sc =
     (let s = NegotiationCoverage sc; ok = 7 / 10 < s
      in \<lparr>xfHostUUID = scHostUUID sc, Dimension = ''negotiation_coverage'', Score = s, Passed = ok,
          Reason = ''negotiation coverage '' @ fixedPoint 2 s @
            (if ok then '' exceeds threshold 0.70''
             else '' is at or below threshold 0.70; services lack algorithm negotiation'')\<rparr>)"

definition blastCheck :: "Scorecard \<Rightarrow> ExerciseFinding" where
  "blastCheck sc =
     (let s = BlastRadiusScore sc; ok = s < 5 / 10
      in \<lparr>xfHostUUID = scHostUUID sc, Dimension = ''blast_radius_score'', Score = s, Passed = ok,
          Reason = ''blast radius score '' @ fixedPoint 2 s @
            (if ok then '' is below threshold 0.50''
             else '' meets or exceeds threshold 0.50; algorithm concentration risk is high'')\<rparr>)"

definition maturityCheck :: "Scorecard \<Rightarrow> ExerciseFinding" where
  "maturityCheck sc =
     (let ok = 2 \<le> scMaturityLevel sc
      in \<lparr>xfHostUUID = scHostUUID sc, Dimension = ''maturity_level'', Score = of_int (scMaturityLevel sc),
          Passed = ok,
          Reason = ''maturity level '' @ decInt (scMaturityLevel sc) @ '' ('' @ MaturityName sc @ '')'' @
            (if ok then '' meets minimum required level 2 (planned)''
             else '' is below minimum required level 2 (planned)'')\<rparr>)"

definition assessHost :: "Scorecard \<Rightarrow> ExerciseFinding list" where
  "assessHost sc = [hardcodeCheck sc, negotiationCheck sc, blastCheck sc, maturityCheck sc]"

definition RunExercise :: "string \<Rightarrow> int \<Rightarrow> Scorecard list \<Rightarrow> ExerciseReport" where
  "RunExercise exerciseID now scs =
     (let report = \<lparr>xrExerciseID = exerciseID, xrRunAt = now, HostCount = length scs, PassCount = 0, FailCount = 0,
            SkipCount = 0, xrFindings = [], xrOverallGrade = [], xrSummary = []\<rparr>
      in if scs = []
         then report\<lparr>xrOverallGrade := ''F'',
                xrSummary := ''No scorecards available; cannot assess agility readiness.''\<rparr>
         else
           (let fs = concat (map assessHost scs); pass = length (filter Passed fs); pct = real pass / real (length fs)
            in report\<lparr>xrFindings := fs, PassCount := pass, FailCount := length (filter (\<lambda>f. \<not> Passed f) fs),
                 xrOverallGrade := gradeOf pct,
                 xrSummary := ''Assessed '' @ decNat (length scs) @ '' host(s) across 4 agility dimensions. '' @
                   decNat pass @ ''/'' @ decNat (length fs) @ '' checks passed ('' @ fixedPoint 0 (pct * 100) @
                   ''%). Grade: '' @ gradeOf pct @ ''.''\<rparr>))"

subsection \<open>The adapter matrix\<close>

record AdapterCapability =
  acName :: string
  acTransport :: string
  SupportedKEMs :: "string list"
  SupportedSignatures :: "string list"
  MinVersionNote :: string
  SupportsNegotiation :: bool
  SupportsRollback :: bool
  acNotes :: string

definition nginxAdapter :: AdapterCapability where
  "nginxAdapter = \<lparr>acName = ''nginx'', acTransport = ''tls'', SupportedKEMs = [''X25519MLKEM768'', ''SecP256r1MLKEM768''],
     SupportedSignatures = [''ML-DSA-65'', ''ML-DSA-87''],
     MinVersionNote = ''nginx with OpenSSL >= 3.5 (native hybrid groups) or OpenSSL 3.3/3.4 + oqs-provider'',
     SupportsNegotiation = True, SupportsRollback = True,
     acNotes = ''Hybrid KEM negotiated via ssl_ecdh_curve/groups; PQC leaf cert requires a CA that issues ML-DSA.''\<rparr>"

definition apacheAdapter :: AdapterCapability where
  "apacheAdapter = \<lparr>acName = ''apache'', acTransport = ''tls'', SupportedKEMs = [''X25519MLKEM768'', ''SecP256r1MLKEM768''],
     SupportedSignatures = [''ML-DSA-65'', ''ML-DSA-87''],
     MinVersionNote = ''httpd/mod_ssl with OpenSSL >= 3.5 or OpenSSL 3.3/3.4 + oqs-provider'',
     SupportsNegotiation = True, SupportsRollback = True,
     acNotes = ''Same OpenSSL backing as nginx; SSLOpenSSLConfCmd Groups drives hybrid negotiation.''\<rparr>"

definition sshAdapter :: AdapterCapability where
  "sshAdapter = \<lparr>acName = ''ssh'', acTransport = ''ssh'',
     SupportedKEMs = [''mlkem768x25519-sha256'', ''sntrup761x25519-sha512''], SupportedSignatures = [],
     MinVersionNote = ''OpenSSH >= 9.9 (mlkem768x25519), or >= 9.0 (sntrup761x25519 hybrid)'',
     SupportsNegotiation = True, SupportsRollback = True,
     acNotes = ''Hybrid KEX via KexAlgorithms; PQC host-key signatures await standardization.''\<rparr>"

definition trustStoreAdapter :: AdapterCapability where
  "trustStoreAdapter = \<lparr>acName = ''windows-trust-store'', acTransport = ''trust-store'', SupportedKEMs = [],
     SupportedSignatures = [''ML-DSA-65'', ''ML-DSA-87''],
     MinVersionNote = ''Windows CNG with ML-DSA available (Insider/Server preview builds)'',
     SupportsNegotiation = False, SupportsRollback = True,
     acNotes = ''Trust anchors, not a runtime negotiator; can hold PQC CA certs once CNG exposes ML-DSA verification.''\<rparr>"

definition schannelAdapter :: AdapterCapability where
  "schannelAdapter = \<lparr>acName = ''windows-schannel-policy'', acTransport = ''schannel-policy'', SupportedKEMs = [],
     SupportedSignatures = [],
     MinVersionNote = ''No SChannel build negotiates ML-KEM hybrid groups as of 2025-08 (probe: build 26200)'',
     SupportsNegotiation = False, SupportsRollback = True,
     acNotes = ''Group policy controls classical curves only; PQC TLS negotiation not yet exposed by SChannel.''\<rparr>"

definition BuiltinAdapters :: "AdapterCapability list" where
  "BuiltinAdapters = [nginxAdapter, apacheAdapter, sshAdapter, trustStoreAdapter, schannelAdapter]"

definition normalizeAlgorithm :: "string \<Rightarrow> string" where
  "normalizeAlgorithm a =
     (let s = replaceByte (CHR ''_'') ''-'' (toUpper (trimSpace a)) in
      if s \<in> set [''KYBER'', ''KYBER768'', ''ML-KEM'', ''ML-KEM-768'', ''MLKEM768'', ''ML-KEM768''] then ''ML-KEM-768''
      else if s \<in> set [''KYBER1024'', ''ML-KEM-1024'', ''MLKEM1024''] then ''ML-KEM-1024''
      else if s \<in> set [''DILITHIUM'', ''DILITHIUM3'', ''ML-DSA'', ''ML-DSA-65'', ''MLDSA65''] then ''ML-DSA-65''
      else if s \<in> set [''DILITHIUM5'', ''ML-DSA-87'', ''MLDSA87''] then ''ML-DSA-87''
      else if s \<in> set [''X25519MLKEM768'', ''X25519-MLKEM768'', ''X25519+ML-KEM-768''] then ''X25519MLKEM768''
      else if s \<in> set [''SECP256R1MLKEM768'', ''P256-ML-KEM-768''] then ''SecP256r1MLKEM768''
      else s)"

definition adapterCovers :: "AdapterCapability \<Rightarrow> string \<Rightarrow> bool" where
  "adapterCovers a target =
     (let t = normalizeAlgorithm target in
      list_ex (\<lambda>k. let ck = normalizeAlgorithm k in
                 ck = t \<or> (t = ''ML-KEM-768'' \<and> contains (toUpper ck) ''MLKEM768'')) (SupportedKEMs a) \<or>
      list_ex (\<lambda>s. normalizeAlgorithm s = t) (SupportedSignatures a))"

subsection \<open>The negotiation harness\<close>

datatype Readiness = ReadinessReady | ReadinessPartial | ReadinessUnsupported

record AdapterNegotiationResult =
  anAdapter :: string
  anTransport :: string
  anReadiness :: Readiness
  CanNegotiate :: bool
  CanRollback :: bool
  MatchedTargets :: "string list"
  MissingTargets :: "string list"
  ReplacementPath :: string
  anNotes :: string

record NegotiationReport =
  ngExerciseID :: string
  ngRunAt :: int
  Targets :: "string list"
  Adapters :: "AdapterNegotiationResult list"
  ReadyCount :: nat
  PartialCount :: nat
  UnsupportedCount :: nat
  ngOverallGrade :: string
  ngSummary :: string
  ngMethod :: string

definition replacementPath :: "AdapterCapability \<Rightarrow> AdapterNegotiationResult \<Rightarrow> string" where
  "replacementPath a res =
     (if \<not> SupportsNegotiation a
      then acName a @ '' has no runtime negotiation surface; PQC posture is governed by '' @ acTransport a @
             '' configuration. '' @ MinVersionNote a
      else
        (case anReadiness res of
           ReadinessReady \<Rightarrow> ''Field hybrid PQC by setting negotiated groups; toolchain ready: '' @ MinVersionNote a @
             ''. Rollback is reversible via the mutation engine.''
         | ReadinessPartial \<Rightarrow> ''Partial: '' @ showStrings (MatchedTargets res) @ '' negotiable now; '' @
             showStrings (MissingTargets res) @ '' require a newer toolchain ('' @ MinVersionNote a @ '').''
         | ReadinessUnsupported \<Rightarrow>
             ''No targets negotiable on the current matrix; upgrade required: '' @ MinVersionNote a @ ''.''))"

definition readiness :: "string list \<Rightarrow> string list \<Rightarrow> string list \<Rightarrow> Readiness" where
  "readiness targets matched missing =
     (if targets = [] then ReadinessUnsupported else if missing = [] then ReadinessReady
      else if matched \<noteq> [] then ReadinessPartial else ReadinessUnsupported)"

definition evaluateAdapter :: "string list \<Rightarrow> AdapterCapability \<Rightarrow> AdapterNegotiationResult" where
  "evaluateAdapter targets a =
     (let fits = (\<lambda>t. SupportsNegotiation a \<and> adapterCovers a t);
          matched = filter fits targets; missing = filter (\<lambda>t. \<not> fits t) targets;
          res = \<lparr>anAdapter = acName a, anTransport = acTransport a, anReadiness = readiness targets matched missing,
                 CanNegotiate = SupportsNegotiation a, CanRollback = SupportsRollback a, MatchedTargets = matched,
                 MissingTargets = missing, ReplacementPath = [], anNotes = acNotes a\<rparr>
      in res\<lparr>ReplacementPath := replacementPath a res\<rparr>)"

definition normalizeTargets :: "string list \<Rightarrow> string list" where
  "normalizeTargets targets = sort (firstSeen [] (filter (\<lambda>n. n \<noteq> []) (map normalizeAlgorithm targets)))"

definition negotiationScore :: "NegotiationReport \<Rightarrow> real" where
  "negotiationScore r = (real (ReadyCount r) + 5 / 10 * real (PartialCount r)) / real (length (Adapters r))"

definition gradeNegotiation :: "NegotiationReport \<Rightarrow> string" where
  "gradeNegotiation r = (if Adapters r = [] then ''F'' else gradeOf (negotiationScore r))"

definition howMany :: "Readiness \<Rightarrow> AdapterNegotiationResult list \<Rightarrow> nat" where
  "howMany x rs = length (filter (\<lambda>r. anReadiness r = x) rs)"

definition runNegotiationHarness :: "string \<Rightarrow> int \<Rightarrow> AdapterCapability list \<Rightarrow> string list \<Rightarrow> NegotiationReport" where
  "runNegotiationHarness exerciseID now adapters targets =
     (let norm = normalizeTargets targets; rs = map (evaluateAdapter norm) adapters;
          ready = howMany ReadinessReady rs; part = howMany ReadinessPartial rs; uns = howMany ReadinessUnsupported rs;
          report = \<lparr>ngExerciseID = exerciseID, ngRunAt = now, Targets = norm, Adapters = rs, ReadyCount = ready,
                    PartialCount = part, UnsupportedCount = uns, ngOverallGrade = [], ngSummary = [],
                    ngMethod = ''capability-evaluation (offline; grades against curated adapter matrix, not a live handshake)''\<rparr>
      in report\<lparr>ngOverallGrade := gradeNegotiation report,
           ngSummary := ''Evaluated '' @ decNat (length adapters) @ '' adapter(s) against '' @ decNat (length norm) @
             '' PQC target(s): '' @ decNat ready @ '' ready, '' @ decNat part @ '' partial, '' @ decNat uns @
             '' unsupported. Grade: '' @ gradeNegotiation report @ ''.''\<rparr>)"

definition RunNegotiationHarness :: "string \<Rightarrow> int \<Rightarrow> string list \<Rightarrow> NegotiationReport" where
  "RunNegotiationHarness exerciseID now = runNegotiationHarness exerciseID now BuiltinAdapters"

definition EstimateTTSADays :: "Scorecard \<Rightarrow> NegotiationReport \<Rightarrow> real" where
  "EstimateTTSADays sc neg =
     (let base = 5 + HardcodeIndex sc * 40 + BlastRadiusScore sc * 20 +
            (if Adapters neg \<noteq> [] then (1 - negotiationScore neg) * 15 else 0)
      in if base < 1 then 1 else base)"

subsection \<open>The table of metrics\<close>

record AgilityMetrics =
  amMetricID :: string
  amHostUUID :: string
  amMeasurementDate :: int
  amTTSADays :: "real option"
  amHardcodeIndex :: real
  amNegotiationCoverage :: real
  amLatencyDays :: "real option"
  amBlastRadiusScore :: real
  amMeasuredAt :: int

text \<open>Times in seconds; the date column is the day of the measurement, and the unique key the host and the day.\<close>

definition dayOf :: "int \<Rightarrow> int" where
  "dayOf t = t div 86400"

definition metricsKey :: "AgilityMetrics \<Rightarrow> string \<times> int" where
  "metricsKey m = (amHostUUID m, amMeasurementDate m)"

definition UpsertAgilityMetrics :: "AssetRow list \<Rightarrow> string \<Rightarrow> int \<Rightarrow> AgilityMetrics \<Rightarrow> goerror \<Rightarrow> AgilityMetrics list
    \<Rightarrow> goerror \<times> AgilityMetrics list" where
  "UpsertAgilityMetrics assets newID now m fault tbl =
     (let row = m\<lparr>amMetricID := (if amMetricID m = [] then newID else amMetricID m),
            amMeasurementDate := dayOf (amMeasurementDate m), amMeasuredAt := now\<rparr>
      in case fault of Some e \<Rightarrow> (Some e, tbl) | None \<Rightarrow>
        if amHostUUID row \<notin> asHostUUID ` set assets
        then (Some ''insert on agility_metrics violates foreign key constraint'', tbl)
        else if metricsKey row \<notin> metricsKey ` set tbl \<and> amMetricID row \<in> amMetricID ` set tbl
        then (Some ''insert on agility_metrics violates unique constraint'', tbl)
        else (None, tblUpsert metricsKey row (\<lambda>old. row\<lparr>amMetricID := amMetricID old\<rparr>) tbl))"

definition newestMetrics :: "AgilityMetrics \<Rightarrow> AgilityMetrics \<Rightarrow> bool" where
  "newestMetrics x y = (amMeasurementDate y < amMeasurementDate x)"

definition GetAgilityMetrics :: "goerror \<Rightarrow> string \<Rightarrow> AgilityMetrics list \<Rightarrow> AgilityMetrics result" where
  "GetAgilityMetrics fault host tbl =
     (case fault of Some e \<Rightarrow> Inl e | None \<Rightarrow>
       (case orderRows newestMetrics (filter (\<lambda>m. amHostUUID m = host) tbl) of
          [] \<Rightarrow> Inl ''no rows in result set'' | m # _ \<Rightarrow> Inr m))"

definition GetFleetAgilityMetrics :: "goerror \<Rightarrow> AgilityMetrics list \<Rightarrow> AgilityMetrics list result" where
  "GetFleetAgilityMetrics fault tbl =
     (case fault of Some e \<Rightarrow> Inl e | None \<Rightarrow>
       Inr (concat (map (\<lambda>host. take 1 (orderRows newestMetrics (filter (\<lambda>m. amHostUUID m = host) tbl)))
         (sort (firstSeen [] (map amHostUUID tbl))))))"

subsection \<open>The handlers\<close>

text \<open>An HTTP answer is a body or the status of an answer without one.\<close>

type_synonym 'b reply = "int + 'b"

definition parseTargets :: "string \<Rightarrow> string list" where
  "parseTargets raw =
     (if raw = [] then [] else filter (\<lambda>t. t \<noteq> []) (map trimSpace (splitOn (CHR '','') raw)))"

text \<open>What a request meets: the readings of the clock and the fresh identifiers in the order they are
  taken, how the database reads rows, the order in which the map of hosts is read, and the errors.\<close>

record AgilityEnv =
  aeClock :: "nat \<Rightarrow> int"
  aeUUID :: "nat \<Rightarrow> string"
  aeScan :: "joined list \<Rightarrow> joined list"
  aeIlike :: "string \<Rightarrow> string \<Rightarrow> bool"
  aeIter :: "string list \<Rightarrow> string list"
  aeQueryFaults :: "goerror \<times> goerror"
  aeStoreFaults :: "nat \<Rightarrow> goerror"

definition agilityParams :: "string \<Rightarrow> string \<Rightarrow> QueryParams" where
  "agilityParams host tenant =
     \<lparr>qpLimit = 5000, qpOffset = 0, qpSort = [], qpOrder = [], qpSearch = [], qpHostUUID = host, qpScanID = [],
      qpAlgorithm = [], qpAssetRef = [], qpDateFrom = None, qpDateTo = None, qpTenantID = tenant\<rparr>"

definition hostScorecards :: "AgilityEnv \<Rightarrow> Finding list \<Rightarrow> Scorecard list" where
  "hostScorecards env fs =
     (let hosts = aeIter env (firstSeen [] (map fdHostUUID fs))
      in map (\<lambda>(i, host). ComputeScorecard (aeClock env i) host (filter (\<lambda>f. fdHostUUID f = host) fs) 0 0 None)
           (zip [0..<length hosts] hosts))"

definition exerciseTargets :: "string \<Rightarrow> Engine option \<Rightarrow> string list" where
  "exerciseTargets raw engine =
     (if parseTargets raw \<noteq> [] then parseTargets raw
      else (case engine of None \<Rightarrow> []
            | Some e \<Rightarrow> filter (\<lambda>t. t \<noteq> []) [PreferredKEM (GetActiveProfile e), PreferredSignature (GetActiveProfile e)]))"

definition metricsOf :: "int \<Rightarrow> NegotiationReport \<Rightarrow> Scorecard \<Rightarrow> AgilityMetrics" where
  "metricsOf runAt neg sc =
     \<lparr>amMetricID = [], amHostUUID = scHostUUID sc, amMeasurementDate = runAt,
      amTTSADays = Some (EstimateTTSADays sc neg), amHardcodeIndex = HardcodeIndex sc,
      amNegotiationCoverage = NegotiationCoverage sc, amLatencyDays = None,
      amBlastRadiusScore = BlastRadiusScore sc, amMeasuredAt = 0\<rparr>"

definition storeMetrics :: "AgilityEnv \<Rightarrow> AssetRow list \<Rightarrow> nat \<Rightarrow> AgilityMetrics list \<Rightarrow> AgilityMetrics list \<Rightarrow> AgilityMetrics list" where
  "storeMetrics env assets n ms tbl =
     foldl (\<lambda>t (i, m). snd (UpsertAgilityMetrics assets (aeUUID env (i + 2)) (aeClock env (n + 3 + i)) m
         (aeStoreFaults env i) t)) tbl (zip [0..<length ms] ms)"

definition agilityExercise :: "AgilityEnv \<Rightarrow> string \<Rightarrow> string \<Rightarrow> string \<Rightarrow> Engine option \<Rightarrow> IngestDB \<Rightarrow> AgilityMetrics list
    \<Rightarrow> (ExerciseReport \<times> NegotiationReport \<times> real) reply \<times> AgilityMetrics list" where
  "agilityExercise env httpMethod tenant rawTargets engine db tbl =
     (if httpMethod \<noteq> ''POST'' then (Inl 405, tbl)
      else case FindingsPaginated (aeScan env) (aeIlike env) (aeQueryFaults env) (agilityParams [] tenant) db of
        Inl e \<Rightarrow> (Inl 500, tbl)
      | Inr (fs, tot) \<Rightarrow>
          (let scs = hostScorecards env fs; n = length scs;
               report = RunExercise (aeUUID env 0) (aeClock env n) scs;
               neg = RunNegotiationHarness (aeUUID env 1) (aeClock env (n + 1)) (exerciseTargets rawTargets engine);
               fleet = ComputeFleetScorecard (aeClock env (n + 2)) scs
           in (Inr (report, neg, EstimateTTSADays fleet neg),
               storeMetrics env (igAssets db) n (map (metricsOf (xrRunAt report) neg) scs) tbl)))"

datatype ScorecardBody =
    HostBody Scorecard
  | FleetBody Scorecard "Scorecard list" "(string \<times> real) list"

definition agilityScorecard :: "((string \<times> real) list \<Rightarrow> (string \<times> real) list) \<Rightarrow> AgilityEnv \<Rightarrow> string \<Rightarrow> string \<Rightarrow> string
    \<Rightarrow> IngestDB \<Rightarrow> ScorecardBody reply" where
  "agilityScorecard iter env httpMethod tenant host db =
     (if httpMethod \<noteq> ''GET'' then Inl 405
      else case FindingsPaginated (aeScan env) (aeIlike env) (aeQueryFaults env) (agilityParams host tenant) db of
        Inl e \<Rightarrow> Inl 500
      | Inr (fs, tot) \<Rightarrow>
          if host \<noteq> [] then Inr (HostBody (ComputeScorecard (aeClock env 0) host fs 0 0 None))
          else
            (let scs = hostScorecards env fs; fleet = ComputeFleetScorecard (aeClock env (length scs)) scs
             in Inr (FleetBody fleet scs (TopBlastRadiusAlgorithms iter fleet 5))))"

end
