(* ===== verification/AgilityProofs.thy ===== *)
theory AgilityProofs
  imports Agility
begin

text \<open>
  Properties of the crypto-agility scorecards: names of one algorithm are interchangeable in the
  harness and its counts add up; every score is a fraction and every estimate within its bounds; and
  the exercise, as the handlers call it, cannot give a grade better than D.
\<close>

subsection \<open>Algorithm names\<close>

lemma replaceByte_single: "replaceByte c [d] s = map (\<lambda>x. if x = c then d else x) s"
  by (induction s) (simp_all add: replaceByte_def)

lemma trimSpace_toUpper: "trimSpace (toUpper s) = toUpper (trimSpace s)"
  by (simp add: toUpper_def trimSpace_map)

lemma normalized_text:
  "replaceByte (CHR ''_'') ''-'' (toUpper (trimSpace (replaceByte (CHR ''_'') ''-'' (toUpper (trimSpace a))))) =
   replaceByte (CHR ''_'') ''-'' (toUpper (trimSpace a))"
proof -
  have dash: "\<not> isSpace (CHR ''-'')" "\<not> isSpace (CHR ''_'')" "upperByte (CHR ''-'') = CHR ''-''"
    by (simp_all add: isSpace_def upperByte_def isLowerByte_def)
  let ?r = "\<lambda>x. if x = CHR ''_'' then CHR ''-'' else x"
  have r: "isSpace (?r c) = isSpace c" for c using dash by auto
  have t: "trimSpace (map ?r (toUpper (trimSpace a))) = map ?r (toUpper (trimSpace a))"
    using trimSpace_map [of ?r, OF r] trimSpace_toUpper [of "trimSpace a"] by simp
  have "map upperByte (map ?r (toUpper s)) = map ?r (toUpper s)" for s
    using dash(3) toUpper_idem [of s] by (auto simp: toUpper_def)
  then have "toUpper (map ?r (toUpper s)) = map ?r (toUpper s)" for s by (simp add: toUpper_def)
  then show ?thesis by (simp add: replaceByte_single t)
qed

lemma normalizeAlgorithm_idem: "normalizeAlgorithm (normalizeAlgorithm a) = normalizeAlgorithm a"
proof -
  let ?s = "replaceByte (CHR ''_'') ''-'' (toUpper (trimSpace a))"
  have c: "normalizeAlgorithm ''ML-KEM-768'' = ''ML-KEM-768''" "normalizeAlgorithm ''ML-KEM-1024'' = ''ML-KEM-1024''"
    "normalizeAlgorithm ''ML-DSA-65'' = ''ML-DSA-65''" "normalizeAlgorithm ''ML-DSA-87'' = ''ML-DSA-87''"
    "normalizeAlgorithm ''X25519MLKEM768'' = ''X25519MLKEM768''"
    "normalizeAlgorithm ''SecP256r1MLKEM768'' = ''SecP256r1MLKEM768''"
    by code_simp+
  show ?thesis
  proof (cases "normalizeAlgorithm a = ?s")
    case True
    then show ?thesis using normalized_text [of a] by (simp add: normalizeAlgorithm_def Let_def)
  next
    case False
    then have "normalizeAlgorithm a \<in> {''ML-KEM-768'', ''ML-KEM-1024'', ''ML-DSA-65'', ''ML-DSA-87'',
        ''X25519MLKEM768'', ''SecP256r1MLKEM768''}"
      unfolding normalizeAlgorithm_def Let_def by (auto split: if_splits)
    with c show ?thesis by auto
  qed
qed

subsection \<open>The harness\<close>

lemma normalizeTargets_aliases: "normalizeTargets (map normalizeAlgorithm targets) = normalizeTargets targets"
  by (simp add: normalizeTargets_def comp_def normalizeAlgorithm_idem)

lemma set_normalizeTargets: "set (normalizeTargets targets) = normalizeAlgorithm ` set targets - {[]}"
  by (auto simp: normalizeTargets_def)

lemma howMany_total:
  "howMany ReadinessReady rs + howMany ReadinessPartial rs + howMany ReadinessUnsupported rs = length rs"
proof (induction rs)
  case (Cons r rs)
  then show ?case by (cases "anReadiness r") (simp_all add: howMany_def)
qed (simp add: howMany_def)

definition splitsTargets :: "string list \<Rightarrow> AdapterNegotiationResult \<Rightarrow> bool" where
  "splitsTargets targets r \<longleftrightarrow>
     mset (MatchedTargets r) + mset (MissingTargets r) = mset targets \<and>
     (anReadiness r = ReadinessReady) = (targets \<noteq> [] \<and> MissingTargets r = []) \<and>
     (MatchedTargets r \<noteq> [] \<longrightarrow> CanNegotiate r)"

lemma evaluateAdapter_splits: "splitsTargets targets (evaluateAdapter targets a)"
proof -
  have "mset (filter P xs) + mset (filter (\<lambda>x. \<not> P x) xs) = mset xs" for P and xs :: "string list"
    by (induction xs) auto
  then show ?thesis
    by (auto simp: splitsTargets_def evaluateAdapter_def readiness_def Let_def filter_empty_conv)
qed

lemma negotiationScore_range:
  "0 \<le> negotiationScore (runNegotiationHarness i now adapters targets) \<and>
   negotiationScore (runNegotiationHarness i now adapters targets) \<le> 1"
proof (cases "adapters = []")
  case False
  let ?rs = "map (evaluateAdapter (normalizeTargets targets)) adapters"
  have "real (howMany ReadinessReady ?rs) + real (howMany ReadinessPartial ?rs) \<le> real (length adapters)"
    using howMany_total [of ?rs] by simp
  then have "real (howMany ReadinessReady ?rs) + 5 / 10 * real (howMany ReadinessPartial ?rs) \<le> real (length adapters)"
    by simp
  with False show ?thesis by (simp add: negotiationScore_def runNegotiationHarness_def Let_def divide_le_eq_1)
qed (simp add: negotiationScore_def runNegotiationHarness_def Let_def)

text \<open>The negotiation harness does not depend on how the targets are spelled: all aliases of the
  targets give the same report. Its counts are those of the five adapters, its targets the distinct
  canonical names in order, and each adapter divides the targets into matched and missing ones; it is
  ready exactly when none is missing, and matches none when it has no negotiation surface.\<close>

theorem harness_respects_aliases:
  "RunNegotiationHarness i now (map normalizeAlgorithm targets) = RunNegotiationHarness i now targets \<and>
   ReadyCount (RunNegotiationHarness i now targets) + PartialCount (RunNegotiationHarness i now targets) +
     UnsupportedCount (RunNegotiationHarness i now targets) = 5 \<and>
   set (Targets (RunNegotiationHarness i now targets)) = normalizeAlgorithm ` set targets - {[]} \<and>
   distinct (Targets (RunNegotiationHarness i now targets)) \<and> sorted (Targets (RunNegotiationHarness i now targets)) \<and>
   list_all (splitsTargets (Targets (RunNegotiationHarness i now targets))) (Adapters (RunNegotiationHarness i now targets))"
proof -
  have "length BuiltinAdapters = 5" by (simp add: BuiltinAdapters_def)
  then show ?thesis
    using howMany_total [of "map (evaluateAdapter (normalizeTargets targets)) BuiltinAdapters"]
    by (simp add: RunNegotiationHarness_def runNegotiationHarness_def Let_def normalizeTargets_aliases
        set_normalizeTargets list_all_iff evaluateAdapter_splits) (simp add: normalizeTargets_def)
qed

subsection \<open>Scores\<close>

definition fraction :: "real \<Rightarrow> bool" where
  "fraction x \<longleftrightarrow> 0 \<le> x \<and> x \<le> 1"

definition scoreRange :: "Scorecard \<Rightarrow> bool" where
  "scoreRange sc \<longleftrightarrow> fraction (HardcodeIndex sc) \<and> fraction (NegotiationCoverage sc) \<and> fraction (BlastRadiusScore sc)"

lemma scorecard_range:
  assumes "0 \<le> negotiable" and "negotiable \<le> services"
  shows "scoreRange (ComputeScorecard now host fs services negotiable switched)"
proof -
  have "real (length (filter P xs)) / real (length xs) \<le> 1" for P and xs :: "Finding list"
    by (simp add: divide_le_eq_1 length_filter_le)
  moreover have "real_of_int negotiable / real_of_int services \<le> 1"
    using assms by (cases "services = 0") (auto simp: divide_le_eq_1)
  ultimately show ?thesis using assms
    by (auto simp: ComputeScorecard_def scoreRange_def fraction_def emptyScorecard_def Let_def)
qed

lemma fraction_average:
  assumes "xs \<noteq> []" and "list_all fraction xs"
  shows "fraction (sum_list xs / real (length xs))"
proof -
  have "0 \<le> sum_list xs \<and> sum_list xs \<le> real (length xs)" using assms(2)
    by (induction xs) (auto simp: fraction_def)
  with assms(1) show ?thesis by (simp add: fraction_def divide_le_eq_1)
qed

lemma fleet_range:
  assumes "list_all scoreRange scs"
  shows "scoreRange (ComputeFleetScorecard now scs)"
proof (cases "scs = []")
  case True
  then show ?thesis by (simp add: ComputeFleetScorecard_def scoreRange_def fraction_def emptyScorecard_def)
next
  case False
  have "fraction (sum_list (map f scs) / real (length scs))" if "list_all (\<lambda>sc. fraction (f sc)) scs" for f
    using fraction_average [of "map f scs"] False that by (simp add: list_all_iff)
  with assms False show ?thesis
    by (simp add: ComputeFleetScorecard_def scoreRange_def emptyScorecard_def Let_def list_all_iff)
qed

lemma TTSA_range:
  assumes "scoreRange sc"
  shows "5 \<le> EstimateTTSADays sc (runNegotiationHarness i now adapters targets) \<and>
    EstimateTTSADays sc (runNegotiationHarness i now adapters targets) \<le> 80"
  using assms negotiationScore_range [of i now adapters targets]
  by (auto simp: EstimateTTSADays_def scoreRange_def fraction_def Let_def)

subsection \<open>The exercise as the handler runs it\<close>

lemma hostScorecards_range: "list_all scoreRange (hostScorecards env fs)"
  by (auto simp: hostScorecards_def list_all_iff Let_def scorecard_range)

lemma ComputeScorecard_uncovered:
  "NegotiationCoverage (ComputeScorecard now host fs 0 n switched) = 0 \<and>
   scMaturityLevel (ComputeScorecard now host fs 0 n switched) = 0"
  by (simp add: ComputeScorecard_def emptyScorecard_def computeMaturity_def Let_def)

lemma hostScorecards_uncovered:
  "list_all (\<lambda>sc. NegotiationCoverage sc = 0 \<and> scMaturityLevel sc = 0) (hostScorecards env fs)"
  by (auto simp: hostScorecards_def list_all_iff Let_def ComputeScorecard_uncovered)

lemma exercise_counts:
  "PassCount (RunExercise i now scs) + FailCount (RunExercise i now scs) = 4 * length scs"
  "HostCount (RunExercise i now scs) = length scs"
proof -
  have "length (concat (map assessHost scs)) = 4 * length scs"
    by (induction scs) (simp_all add: assessHost_def)
  then show "PassCount (RunExercise i now scs) + FailCount (RunExercise i now scs) = 4 * length scs"
    using sum_length_filter_compl [of Passed "concat (map assessHost scs)"]
    by (simp add: RunExercise_def Let_def)
qed (simp add: RunExercise_def Let_def)

lemma check_passed:
  "Passed (hardcodeCheck sc) \<longleftrightarrow> HardcodeIndex sc < 2 / 10" "Passed (negotiationCheck sc) \<longleftrightarrow> 7 / 10 < NegotiationCoverage sc"
  "Passed (blastCheck sc) \<longleftrightarrow> BlastRadiusScore sc < 5 / 10" "Passed (maturityCheck sc) \<longleftrightarrow> 2 \<le> scMaturityLevel sc"
  by (simp_all add: hardcodeCheck_def negotiationCheck_def blastCheck_def maturityCheck_def Let_def)

lemma uncovered_passes:
  assumes "list_all (\<lambda>sc. NegotiationCoverage sc = 0 \<and> scMaturityLevel sc = 0) scs"
  shows "length (filter Passed (concat (map assessHost scs))) \<le> 2 * length scs"
  using assms
  by (induction scs) (auto simp: assessHost_def check_passed)

lemma agilityExercise_run:
  assumes "agilityExercise env m tenant raw engine db tbl = (Inr (report, neg, ttsa), tbl')"
  obtains fs where "report = RunExercise (aeUUID env 0) (aeClock env (length (hostScorecards env fs))) (hostScorecards env fs)"
    and "neg = RunNegotiationHarness (aeUUID env 1) (aeClock env (length (hostScorecards env fs) + 1)) (exerciseTargets raw engine)"
    and "ttsa = EstimateTTSADays (ComputeFleetScorecard (aeClock env (length (hostScorecards env fs) + 2)) (hostScorecards env fs)) neg"
  using assms by (auto simp: agilityExercise_def Let_def split: if_splits sum.splits)

text \<open>The exercise assesses every host on four dimensions, each check passed or failed, and its
  estimate of the days to swap an algorithm lies between 5 and 80.\<close>

theorem exercise_within_bounds:
  assumes "agilityExercise env m tenant raw engine db tbl = (Inr (report, neg, ttsa), tbl')"
  shows "5 \<le> ttsa \<and> ttsa \<le> 80 \<and> PassCount report + FailCount report = 4 * HostCount report"
  by (rule agilityExercise_run [OF assms])
    (simp add: TTSA_range fleet_range hostScorecards_range RunNegotiationHarness_def exercise_counts)

text \<open>The handler computes every scorecard with no services at all, so that the negotiation
  coverage is 0 and the maturity none whatever the findings are: two of the four checks of every host
  fail, and the exercise cannot be graded better than D.\<close>

theorem exercise_grade_capped:
  assumes "agilityExercise env m tenant raw engine db tbl = (Inr (report, neg, ttsa), tbl')"
  shows "(xrOverallGrade report = ''D'' \<or> xrOverallGrade report = ''F'') \<and> PassCount report \<le> 2 * HostCount report"
proof (rule agilityExercise_run [OF assms])
  fix fs
  let ?scs = "hostScorecards env fs"
  assume r: "report = RunExercise (aeUUID env 0) (aeClock env (length ?scs)) ?scs"
  have p: "length (filter Passed (concat (map assessHost ?scs))) \<le> 2 * length ?scs"
    by (rule uncovered_passes [OF hostScorecards_uncovered])
  have l: "length (concat (map assessHost ?scs)) = 4 * length ?scs"
    by (simp add: assessHost_def length_concat comp_def sum_list_triv)
  show ?thesis
  proof (cases "?scs = []")
    case False
    have "real (length (filter Passed (concat (map assessHost ?scs)))) / real (length (concat (map assessHost ?scs))) \<le> 1 / 2"
      using p l False by (simp add: field_simps)
    moreover have "gradeOf x = ''D'' \<or> gradeOf x = ''F''" if "x \<le> 1 / 2" for x
      using that by (simp add: gradeOf_def)
    ultimately show ?thesis using False p unfolding r RunExercise_def Let_def by simp
  qed (simp add: r RunExercise_def Let_def)
qed

subsection \<open>Witnesses\<close>

definition demo_agility :: AgilityEnv where
  "demo_agility = \<lparr>aeClock = (\<lambda>n. int n), aeUUID = demo_uuid, aeScan = (\<lambda>x. x), aeIlike = (\<lambda>p s. False),
     aeIter = (\<lambda>x. x), aeQueryFaults = (None, None), aeStoreFaults = (\<lambda>n. None)\<rparr>"

lemma demo_exercise:
  "\<exists>report neg ttsa tbl. agilityExercise demo_agility ''POST'' ''t1'' [] None demo_reported [] = (Inr (report, neg, ttsa), tbl)"
  by (simp add: agilityExercise_def FindingsPaginated_def demo_agility_def Let_def)

theorem exercise_within_bounds_witness:
  "\<exists>report neg ttsa tbl. agilityExercise demo_agility ''POST'' ''t1'' [] None demo_reported [] = (Inr (report, neg, ttsa), tbl) \<and>
     5 \<le> ttsa \<and> ttsa \<le> 80"
  using demo_exercise exercise_within_bounds by metis

theorem exercise_grade_capped_witness:
  "\<exists>report neg ttsa tbl. agilityExercise demo_agility ''POST'' ''t1'' [] None demo_reported [] = (Inr (report, neg, ttsa), tbl) \<and>
     xrOverallGrade report \<noteq> ''A''"
proof -
  obtain report neg ttsa tbl where
    e: "agilityExercise demo_agility ''POST'' ''t1'' [] None demo_reported [] = (Inr (report, neg, ttsa), tbl)"
    using demo_exercise by blast
  from exercise_grade_capped [OF e] have "xrOverallGrade report \<noteq> ''A''" by auto
  with e show ?thesis by blast
qed

end
