(* ===== verification/CommandApi.thy ===== *)
theory CommandApi
  imports TelemetryServer LLMService Sessions AuditChain FindingsQuery
begin

text \<open>
  The HTTP handlers that send commands to agents: \<open>enqueueMigration\<close> of
  \<^verbatim>\<open>server/internal/httpapi/server.go\<close>, the remediation handlers of \<^verbatim>\<open>llm_remediation.go\<close> and the
  agent commands of \<^verbatim>\<open>agent_routes.go\<close>. They share the store, the orchestrator, the policy engine and
  the hub with the gRPC server, whose state is part of theirs. The body of a request is an argument,
  as the JSON decoder returned it; an answer is a status with an error text, or the value printed.
\<close>

subsection \<open>State\<close>

record ApiState =
  apServer :: ServerState
  apLLM :: LLMStore
  apAudit :: AuditDB

record ApiEnv =
  aiNow :: int
  aiCommandID :: string
  aiLogID :: string
  aiHmac :: "string \<Rightarrow> string \<Rightarrow> string"
  aiSha :: "string \<Rightarrow> string"
  aiMarshal :: "MigrationCommand \<Rightarrow> string result"
  aiUnmarshal :: "string \<Rightarrow> MigrationCommand result"
  aiEvent :: "string \<Rightarrow> (string \<times> string) list \<Rightarrow> byte list result"
  aiScan :: "joined list \<Rightarrow> joined list"
  aiUuid :: "nat \<Rightarrow> string"

text \<open>The context that the middleware leaves: user, role and tenant, if it ran.\<close>

type_synonym caller = "(string \<times> string \<times> string) option"

type_synonym 'b answer = "(int \<times> string) + 'b"

definition callerUser :: "caller \<Rightarrow> string" where
  "callerUser c = (case c of None \<Rightarrow> [] | Some (user, role, tenant) \<Rightarrow> user)"

definition callerRole :: "caller \<Rightarrow> string option" where
  "callerRole c = (case c of None \<Rightarrow> None | Some (user, role, tenant) \<Rightarrow> Some role)"

definition apFault :: "ApiState \<Rightarrow> goerror \<times> ApiState" where
  "apFault st = (let (f, s) = nextFault (apServer st) in (f, st\<lparr>apServer := s\<rparr>))"

abbreviation apDB :: "ApiState \<Rightarrow> AgentDB" where
  "apDB st \<equiv> ssDB (apServer st)"

definition setDB :: "AgentDB \<Rightarrow> ApiState \<Rightarrow> ApiState" where
  "setDB db st = st\<lparr>apServer := (apServer st)\<lparr>ssDB := db\<rparr>\<rparr>"

definition enqueueOn :: "MigrationCommand \<Rightarrow> ApiState \<Rightarrow> ApiState" where
  "enqueueOn cmd st = st\<lparr>apServer := (apServer st)\<lparr>ssOrch := Enqueue cmd (ssOrch (apServer st))\<rparr>\<rparr>"

definition onHub :: "(Hub \<Rightarrow> Hub) \<Rightarrow> ApiState \<Rightarrow> ApiState" where
  "onHub f st = st\<lparr>apServer := (apServer st)\<lparr>ssHub := f (ssHub (apServer st))\<rparr>\<rparr>"

text \<open>\<open>_ = a.store.InsertAuditLog(...)\<close>.\<close>

definition audit :: "ApiEnv \<Rightarrow> string \<Rightarrow> string \<Rightarrow> string \<Rightarrow> ApiState \<Rightarrow> ApiState" where
  "audit env user action details st =
     st\<lparr>apAudit := snd (InsertAuditLog (aiSha env) (aiLogID env) (aiNow env)
       \<lparr>LogID = [], alUsername = user, Action = action, Details = details, alCreatedAt = 0, PrevHash = [],
        EntryHash = []\<rparr> (apAudit st))\<rparr>"

definition internalError :: "int \<times> string" where
  "internalError = (500, ''internal server error'')"

subsection \<open>Paths and services\<close>

text \<open>A trailing line number of an asset reference is dropped; an index of the last colon of at most 1
  leaves it alone.\<close>

definition stripLineSuffix :: "string \<Rightarrow> string" where
  "stripLineSuffix assetRef =
     (case afterLastByte (CHR '':'') assetRef of
        None \<Rightarrow> assetRef
      | Some sfx \<Rightarrow>
          (let i = length assetRef - length sfx - 1
           in if i \<le> 1 then assetRef
              else if sfx = [] then take i assetRef
              else if list_all isDigit sfx then take i assetRef else assetRef))"

definition deriveService :: "string \<Rightarrow> string" where
  "deriveService configPath =
     (let l = toLower configPath in
      if contains l ''nginx'' then ''nginx''
      else if contains l ''apache'' \<or> contains l ''httpd'' then ''apache''
      else if contains l ''sshd_config'' \<or> contains l ''ssh_config'' then ''ssh''
      else if contains l ''postgres'' then ''postgresql''
      else ''generic'')"

subsection \<open>Remediation suggestions\<close>

definition findFindingByID :: "ApiEnv \<Rightarrow> caller \<Rightarrow> string \<Rightarrow> ApiState \<Rightarrow> Finding option \<times> ApiState" where
  "findFindingByID env c findingID st =
     (let (f, st1) = apFault st
      in (case Findings_list (aiScan env) f 5000 (TenantFromContext c) (adMain (apDB st1)) of
            Inl e \<Rightarrow> None
          | Inr fs \<Rightarrow> find (\<lambda>x. fdFindingID x = findingID) fs, st1))"

definition GetSuggestionByID :: "string \<Rightarrow> LLMStore \<Rightarrow> LLMSuggestion result \<times> LLMStore" where
  "GetSuggestionByID suggestionID db =
     (case exec (\<lambda>d. (None, d)) db of
        (Some e, d) \<Rightarrow> (Inl e, d)
      | (None, d) \<Rightarrow> (case tblFind SuggestionID suggestionID (lsSuggestions d) of
                         None \<Rightarrow> (Inl ''suggestion not found'', d)
                       | Some s \<Rightarrow> (Inr s, d)))"

definition validReviewDecision :: "string \<Rightarrow> bool" where
  "validReviewDecision d \<longleftrightarrow> d = ''approved'' \<or> d = ''rejected''"

definition remediationCommand :: "ApiEnv \<Rightarrow> LLMSuggestion \<Rightarrow> string \<Rightarrow> Finding \<Rightarrow> string \<Rightarrow> bool \<Rightarrow> string \<Rightarrow> ApiState
    \<Rightarrow> MigrationCommand" where
  "remediationCommand env s target f targetService dryRun hash st =
     (let stripped = stripLineSuffix (fdAssetRef f);
          configPath = (if stripped = [] then target else stripped);
          service = (if targetService = [] then deriveService configPath else targetService);
          profile = (if fdMigrationProfile f = [] then ''llm-remediation'' else fdMigrationProfile f);
          ap = GetActiveProfile (ssEngine (apServer st))
      in BuildCommand (aiHmac env) (aiCommandID env) (aiNow env) (ssOrch (apServer st)) (fdHostUUID f) service
           profile configPath (CandidatePatch s) hash dryRun (PreferredKEM ap) (PreferredSignature ap))"

definition queueRemediation :: "ApiEnv \<Rightarrow> LLMSuggestion \<Rightarrow> string \<Rightarrow> Finding \<Rightarrow> string \<Rightarrow> bool \<Rightarrow> string \<Rightarrow> string
    \<Rightarrow> ApiState \<Rightarrow> MigrationCommand answer \<times> ApiState" where
  "queueRemediation env s target f targetService dryRun mode actor st =
     (let stripped = stripLineSuffix (fdAssetRef f);
          configPath = (if stripped = [] then target else stripped);
          (f1, st1) = apFault st;
          hash = GetLatestConfigHash f1 (fdHostUUID f) configPath (apDB st1);
          cmd = remediationCommand env s target f targetService dryRun hash st1;
          (f2, st2) = apFault (enqueueOn cmd st1);
          (err, db) = InsertMigrationCommand (aiNow env) f2 cmd (apDB st2);
          st3 = setDB db st2
      in case err of
           Some e \<Rightarrow> (Inl internalError, st3)
         | None \<Rightarrow> (Inr cmd,
             onHub (Broadcast (aiEvent env) ''migration_enqueued''
                 [(''command_id'', CommandId cmd), (''host_uuid'', mcHostUuid cmd),
                  (''target_service'', TargetService cmd), (''source'', ''llm_remediation_'' @ mode)])
               (audit env actor ''LLM_APPLY_REMEDIATION''
                 (''mode='' @ mode @ '' suggestion='' @ SuggestionID s @ '' finding='' @ sgFindingID s @
                  '' host='' @ fdHostUUID f @ '' command='' @ CommandId cmd @ '' dry_run='' @
                  formatBool dryRun @ '' target='' @ target) st3)))"

definition enqueueSuggestionCommand :: "ApiEnv \<Rightarrow> caller \<Rightarrow> LLMSuggestion \<Rightarrow> string \<Rightarrow> bool option \<Rightarrow> string \<Rightarrow> string
    \<Rightarrow> ApiState \<Rightarrow> MigrationCommand answer \<times> ApiState" where
  "enqueueSuggestionCommand env c s targetService dryRunReq mode actor st =
     (if mode = ''manual'' \<and> sgReviewDecision s \<noteq> ''approved''
      then (Inl (409, ''suggestion must be approved before it can be applied''), st)
      else if ValidationStatus s \<noteq> ''passed'' \<or> CandidatePatch s = []
      then (Inl (422, ''suggestion has no deterministically-validated candidate patch to apply''), st)
      else case AgentWillApplyPatch (CandidatePatch s) of
        (target, Some reason) \<Rightarrow> (Inl (422, reason), st)
      | (target, None) \<Rightarrow>
      (case findFindingByID env c (sgFindingID s) st of
        (None, st1) \<Rightarrow> (Inl (404, ''finding for this suggestion was not found''), st1)
      | (Some f, st1) \<Rightarrow>
          if fdHostUUID f = [] then (Inl (422, ''finding has no host to target''), st1)
          else queueRemediation env s target f targetService (case dryRunReq of None \<Rightarrow> True | Some b \<Rightarrow> b)
                 mode actor st1))"

definition applySuggestion :: "ApiEnv \<Rightarrow> string \<Rightarrow> caller \<Rightarrow> bool option \<times> string \<Rightarrow> string \<Rightarrow> ApiState
    \<Rightarrow> MigrationCommand answer \<times> ApiState" where
  "applySuggestion env httpMethod c body suggestionID st =
     (if httpMethod \<noteq> ''POST'' then (Inl (405, []), st)
      else if \<not> requireWriteRole (callerRole c) then (Inl (403, ''forbidden: operator or admin role required''), st)
      else case GetSuggestionByID suggestionID (apLLM st) of
        (Inl e, l) \<Rightarrow> (Inl (if e = ''suggestion not found'' then (404, e) else internalError), st\<lparr>apLLM := l\<rparr>)
      | (Inr s, l) \<Rightarrow>
          enqueueSuggestionCommand env c s (snd body) (fst body) ''manual'' (callerUser c) (st\<lparr>apLLM := l\<rparr>))"

definition reviewSuggestion :: "ApiEnv \<Rightarrow> string \<Rightarrow> caller \<Rightarrow> (string \<times> string) result \<Rightarrow> string \<Rightarrow> ApiState
    \<Rightarrow> LLMSuggestion answer \<times> ApiState" where
  "reviewSuggestion env httpMethod c body suggestionID st =
     (if httpMethod \<noteq> ''POST'' then (Inl (405, []), st)
      else if \<not> requireWriteRole (callerRole c) then (Inl (403, ''forbidden: operator or admin role required''), st)
      else if suggestionID = [] then (Inl (400, ''suggestion_id is required''), st)
      else case body of
        Inl e \<Rightarrow> (Inl (400, ''invalid request body''), st)
      | Inr (decision, remark) \<Rightarrow>
          if \<not> validReviewDecision decision
          then (Inl (400, ''decision must be '' @ [CHR 0x27] @ ''approved'' @ [CHR 0x27] @ '' or '' @ [CHR 0x27] @
                  ''rejected'' @ [CHR 0x27]), st)
          else (case SetSuggestionReview suggestionID decision (callerUser c) remark (aiNow env) (apLLM st) of
              (Inl e, l) \<Rightarrow> (Inl (if e = ''suggestion not found'' then (404, e) else internalError), st\<lparr>apLLM := l\<rparr>)
            | (Inr s, l) \<Rightarrow> (Inr s, audit env (callerUser c) ''LLM_SUGGESTION_REVIEW''
                  (''suggestion '' @ suggestionID @ '' '' @ decision) (st\<lparr>apLLM := l\<rparr>))))"

definition autoApplyRemediation :: "ApiEnv \<Rightarrow> caller \<Rightarrow> LLMSuggestion \<Rightarrow> bool \<Rightarrow> ApiState \<Rightarrow> goerror \<times> ApiState" where
  "autoApplyRemediation env c s dryRun st =
     (case enqueueSuggestionCommand env c s [] (Some dryRun) ''autonomous'' ''system:autoremediation'' st of
        (Inl (status, reason), st1) \<Rightarrow> (Some (''autonomous enqueue refused: '' @ reason), st1)
      | (Inr cmd, st1) \<Rightarrow> (None, st1))"

subsection \<open>Migrations\<close>

record enqueueRequest =
  rqHostUUID :: string
  rqTargetService :: string
  rqMigrationProfile :: string
  rqConfigPath :: string
  rqPatch :: string
  rqDryRun :: bool

text \<open>The tenant check: it refuses only when the asset is known and belongs to another tenant.\<close>

definition foreignHost :: "caller \<Rightarrow> string \<Rightarrow> ApiState \<Rightarrow> bool \<times> ApiState" where
  "foreignHost c host st =
     (if TenantFromContext c = [] then (False, st)
      else let (f, st1) = apFault st
           in (case AssetTenant f host (apDB st1) of
                 Inl e \<Rightarrow> False
               | Inr owner \<Rightarrow> owner \<noteq> [] \<and> owner \<noteq> TenantFromContext c, st1))"

definition queueMigration :: "ApiEnv \<Rightarrow> caller \<Rightarrow> enqueueRequest \<Rightarrow> ApiState \<Rightarrow> MigrationCommand answer \<times> ApiState" where
  "queueMigration env c req st =
     (let (f1, st1) = apFault st;
          hash = GetLatestConfigHash f1 (rqHostUUID req) (rqConfigPath req) (apDB st1);
          ap = GetActiveProfile (ssEngine (apServer st1));
          cmd = BuildCommand (aiHmac env) (aiCommandID env) (aiNow env) (ssOrch (apServer st1)) (rqHostUUID req)
            (rqTargetService req) (rqMigrationProfile req) (rqConfigPath req) (rqPatch req) hash (rqDryRun req)
            (PreferredKEM ap) (PreferredSignature ap);
          (f2, st2) = apFault (enqueueOn cmd st1);
          (err, db) = InsertMigrationCommand (aiNow env) f2 cmd (apDB st2);
          st3 = setDB db st2
      in case err of
           Some e \<Rightarrow> (Inl internalError, st3)
         | None \<Rightarrow> (Inr cmd,
             onHub (BroadcastTenant (aiEvent env) (TenantFromContext c) ''migration_enqueued''
                 [(''command_id'', CommandId cmd), (''host_uuid'', mcHostUuid cmd),
                  (''target_service'', TargetService cmd), (''migration_profile'', mcMigrationProfile cmd)])
               (audit env (if callerUser c = [] then ''admin'' else callerUser c) ''ENQUEUE_MIGRATION''
                 (''Service: '' @ rqTargetService req @ '', Profile: '' @ rqMigrationProfile req @ '', Config: '' @
                  rqConfigPath req @ '', DryRun: '' @ formatBool (rqDryRun req) @ '', CommandId: '' @ CommandId cmd)
                 st3)))"

definition enqueueMigration :: "ApiEnv \<Rightarrow> string \<Rightarrow> caller \<Rightarrow> enqueueRequest result \<Rightarrow> ApiState
    \<Rightarrow> MigrationCommand answer \<times> ApiState" where
  "enqueueMigration env httpMethod c body st =
     (if httpMethod \<noteq> ''POST'' then (Inl (405, []), st)
      else case body of Inl e \<Rightarrow> (Inl internalError, st) | Inr req \<Rightarrow>
      (case foreignHost c (rqHostUUID req) st of
        (True, st1) \<Rightarrow> (Inl (404, ''agent not found''), st1)
      | (False, st1) \<Rightarrow> queueMigration env c req st1))"

text \<open>The handler as it is registered, behind the role check.\<close>

definition enqueueMigrationRoute :: "ApiEnv \<Rightarrow> string \<Rightarrow> caller \<Rightarrow> enqueueRequest result \<Rightarrow> ApiState
    \<Rightarrow> MigrationCommand answer \<times> ApiState" where
  "enqueueMigrationRoute env httpMethod c body st =
     (case RequireRole [''operator'', ''admin''] (callerRole c) of
        Some e \<Rightarrow> (Inl (403, e), st)
      | None \<Rightarrow> enqueueMigration env httpMethod c body st)"

subsection \<open>Scan control\<close>

definition scanVerbs :: "string list" where
  "scanVerbs = [''scan-now'', ''scan-pause'', ''scan-resume'', ''scan-cancel'', ''scan-target'']"

definition scanCommand :: "ApiEnv \<Rightarrow> string \<Rightarrow> string \<Rightarrow> string \<Rightarrow> MigrationCommand" where
  "scanCommand env host verb path =
     \<lparr>CommandId = aiCommandID env, mcHostUuid = host, TargetService = ''janus-agent'', mcMigrationProfile = verb,
      TargetKem = [], TargetSignature = [], ConfigPath = path, ValidationChecklist = None,
      RollbackWindowSeconds = 0, PatchUnifiedDiff = [], SignedDirective = [], IssuedAtUnix = 0, DryRun = False\<rparr>"

definition agentEnqueueCommand :: "ApiEnv \<Rightarrow> string \<Rightarrow> caller \<Rightarrow> (string \<times> string) result \<Rightarrow> string \<Rightarrow> ApiState
    \<Rightarrow> string answer \<times> ApiState" where
  "agentEnqueueCommand env httpMethod c body host st =
     (if httpMethod \<noteq> ''POST'' then (Inl (405, []), st)
      else if \<not> requireWriteRole (callerRole c) then (Inl (403, ''forbidden: operator or admin role required''), st)
      else case body of
        Inl e \<Rightarrow> (Inl (400, ''invalid JSON''), st)
      | Inr (verb, path) \<Rightarrow>
          if verb \<notin> set scanVerbs
          then (Inl (400, ''unsupported command; expected scan-now|scan-pause|scan-resume|scan-cancel|scan-target''), st)
          else if verb = ''scan-target'' \<and> trimSpace path = []
          then (Inl (400, ''scan-target requires a non-empty path''), st)
          else
            (let (f, st1) = apFault st;
                 (err, db) = EnqueueAgentCommand (aiMarshal env) (aiNow env) f (scanCommand env host verb path) (apDB st1);
                 st2 = setDB db st1
             in case err of
                  Some e \<Rightarrow> (Inl internalError, st2)
                | None \<Rightarrow> (Inr (aiCommandID env), audit env (callerUser c) ''AGENT_SCAN_CONTROL''
                    (''host_uuid='' @ host @ '' command='' @ verb @ '' command_id='' @ aiCommandID env) st2)))"

text \<open>The route \<open>/api/agents/{id}/commands\<close>: the tenant check first.\<close>

definition agentCommandsRoute :: "ApiEnv \<Rightarrow> string \<Rightarrow> caller \<Rightarrow> (string \<times> string) result \<Rightarrow> string \<Rightarrow> ApiState
    \<Rightarrow> string answer \<times> ApiState" where
  "agentCommandsRoute env httpMethod c body host st =
     (case foreignHost c host st of
        (True, st1) \<Rightarrow> (Inl (404, ''agent not found''), st1)
      | (False, st1) \<Rightarrow> agentEnqueueCommand env httpMethod c body host st1)"

definition AgentCommand :: "ApiEnv \<Rightarrow> goerror \<Rightarrow> string \<Rightarrow> string \<Rightarrow> AgentDB \<Rightarrow> (AgentCommandRow \<times> string) result" where
  "AgentCommand env fault host commandID db =
     (case fault of Some e \<Rightarrow> Inl e | None \<Rightarrow>
      case tblFind (\<lambda>r. (agHost r, agCommandID r)) (host, commandID) (commandsOf db) of
        None \<Rightarrow> Inl ''no rows in result set''
      | Some r \<Rightarrow> Inr (r, case aiUnmarshal env (agPayload r) of Inl e \<Rightarrow> [] | Inr cmd \<Rightarrow> mcMigrationProfile cmd))"

end
