(* ===== verification/CommandApiProofs.thy ===== *)
theory CommandApiProofs
  imports CommandApi
begin

text \<open>
  What the handlers that send commands put into the queues of the orchestrator: exactly which requests
  queue a command, for which host, and from which suggestion.
\<close>

subsection \<open>What the steps leave alone\<close>

abbreviation queueAt :: "ApiState \<Rightarrow> string \<Rightarrow> MigrationCommand list" where
  "queueAt st \<equiv> queueOf (ssOrch (apServer st))"

lemma apFault_fields [simp]:
  "apServer (snd (apFault st)) = (apServer st)\<lparr>ssFaults := snd (pop (ssFaults (apServer st)))\<rparr>"
  "apLLM (snd (apFault st)) = apLLM st" "apAudit (snd (apFault st)) = apAudit st"
  "fst (apFault st) = fst (pop (ssFaults (apServer st)))"
  by (simp_all add: apFault_def nextFault_def)

lemma step_fields [simp]:
  "ssOrch (apServer (setDB db st)) = ssOrch (apServer st)" "ssOrch (apServer (onHub f st)) = ssOrch (apServer st)"
  "apServer (audit env u a d st) = apServer st" "apLLM (audit env u a d st) = apLLM st"
  "apDB (onHub f st) = apDB st" "apDB (setDB db st) = db" "apLLM (setDB db st) = apLLM st"
  "apDB (enqueueOn cmd st) = apDB st" "apLLM (enqueueOn cmd st) = apLLM st"
  by (simp_all add: setDB_def onHub_def audit_def enqueueOn_def)

lemma queueAt_enqueueOn [simp]:
  "queueAt (enqueueOn cmd st) h = queueAt st h @ (if h = mcHostUuid cmd then [cmd] else [])"
  by (simp add: enqueueOn_def Enqueue_def queueOf_def)

lemma BuildCommand_fields [simp]:
  "mcHostUuid (BuildCommand hm u n o' host sv pr cp patch cs dry k s) = host"
  "PatchUnifiedDiff (BuildCommand hm u n o' host sv pr cp patch cs dry k s) = patch"
  "DryRun (BuildCommand hm u n o' host sv pr cp patch cs dry k s) = dry"
  "ConfigPath (BuildCommand hm u n o' host sv pr cp patch cs dry k s) = cp"
  "CommandId (BuildCommand hm u n o' host sv pr cp patch cs dry k s) = u"
  by (simp_all add: BuildCommand_def Let_def)

lemma TenantFromContext_not_Nil [simp]: "TenantFromContext c \<noteq> []"
  by (auto simp: TenantFromContext_def DefaultTenant_def split: option.splits)

lemma role_check: "RequireRole [''operator'', ''admin''] r = None \<longleftrightarrow> requireWriteRole r"
  by (auto simp: RequireRole_def requireWriteRole_def split: option.splits)

subsection \<open>Suggestions\<close>

lemma GetSuggestionByID_found:
  assumes "GetSuggestionByID sid l = (Inr s, l')"
  shows "s \<in> set (lsSuggestions l) \<and> SuggestionID s = sid"
proof -
  have "lsSuggestions (snd (exec (\<lambda>d. (None, d)) l)) = lsSuggestions l"
    by (auto simp: exec_def split: list.splits option.splits)
  with assms show ?thesis
    by (auto simp: GetSuggestionByID_def dest: tblFind_Some split: prod.splits option.splits)
qed

lemma found_in_tenant:
  assumes "findFindingByID env c fid st = (Some f, st1)" and "\<And>rows. mset (aiScan env rows) = mset rows"
  shows "tenantOf (adMain (apDB st)) (fdHostUUID f) = Some (TenantFromContext c) \<and> fdFindingID f = fid"
proof -
  let ?db = "adMain (apDB st)"
  let ?rows = "filter (\<lambda>(r, a, t). TenantFromContext c = [] \<or> asTenantID a = TenantFromContext c)
      (aiScan env (joinedFindings ?db))"
  obtain fs where fs: "Findings_list (aiScan env) (fst (apFault st)) 5000 (TenantFromContext c) ?db = Inr fs"
    and f: "find (\<lambda>x. fdFindingID x = fid) fs = Some f"
    using assms(1) by (auto simp: findFindingByID_def Let_def case_prod_beta split: sum.splits)
  from f have "f \<in> set fs" and id: "fdFindingID f = fid" by (auto simp: find_Some_iff)
  with fs have "\<exists>x \<in> set (orderRows newestFirst ?rows). f = toFinding x"
    by (fastforce simp: Findings_list_def dest!: in_set_takeD split: option.splits)
  then obtain r a t where x: "(r, a, t) \<in> set (joinedFindings ?db)" "asTenantID a = TenantFromContext c"
    "f = toFinding (r, a, t)"
    using mset_eq_setD [OF assms(2) [of "joinedFindings ?db"]] by auto
  from joined_rows [OF x(1)] x(2,3) id show ?thesis by (simp add: tenantOf_def toFinding_def)
qed

lemma queueRemediation_queue:
  "\<exists>cmd. mcHostUuid cmd = fdHostUUID f \<and> PatchUnifiedDiff cmd = CandidatePatch s \<and> DryRun cmd = dry \<and>
     (\<forall>h. queueAt (snd (queueRemediation env s target f service dry mode actor st)) h =
        queueAt st h @ (if h = mcHostUuid cmd then [cmd] else []))"
proof -
  define cmd where "cmd = remediationCommand env s target f service dry
    (GetLatestConfigHash (fst (apFault st)) (fdHostUUID f)
       (if stripLineSuffix (fdAssetRef f) = [] then target else stripLineSuffix (fdAssetRef f))
       (apDB (snd (apFault st)))) (snd (apFault st))"
  have "mcHostUuid cmd = fdHostUUID f" "PatchUnifiedDiff cmd = CandidatePatch s" "DryRun cmd = dry"
    by (simp_all add: cmd_def remediationCommand_def Let_def)
  moreover have "queueAt (snd (queueRemediation env s target f service dry mode actor st)) h =
        queueAt st h @ (if h = mcHostUuid cmd then [cmd] else [])" for h
    unfolding queueRemediation_def Let_def case_prod_beta cmd_def [symmetric]
    by (cases "fst (InsertMigrationCommand (aiNow env) (fst (apFault (enqueueOn cmd (snd (apFault st))))) cmd
          (apDB (snd (apFault (enqueueOn cmd (snd (apFault st)))))))") (simp_all del: if_split)
  ultimately show ?thesis by blast
qed

lemma enqueueSuggestionCommand_queue:
  assumes "\<And>rows. mset (aiScan env rows) = mset rows"
  shows "queueAt (snd (enqueueSuggestionCommand env c s service dry mode actor st)) = queueAt st \<or>
    (\<exists>cmd. (\<forall>h. queueAt (snd (enqueueSuggestionCommand env c s service dry mode actor st)) h =
         queueAt st h @ (if h = mcHostUuid cmd then [cmd] else [])) \<and>
      (mode = ''manual'' \<longrightarrow> sgReviewDecision s = ''approved'') \<and> ValidationStatus s = ''passed'' \<and>
      snd (AgentWillApplyPatch (CandidatePatch s)) = None \<and> PatchUnifiedDiff cmd = CandidatePatch s \<and>
      DryRun cmd = (dry \<noteq> Some False) \<and>
      tenantOf (adMain (apDB st)) (mcHostUuid cmd) = Some (TenantFromContext c))" (is "?same \<or> ?queued")
proof -
  obtain target reason where t: "AgentWillApplyPatch (CandidatePatch s) = (target, reason)" by fastforce
  obtain fo st1 where ff: "findFindingByID env c (sgFindingID s) st = (fo, st1)" by fastforce
  have q: "queueAt st1 = queueAt st"
    using ff by (auto simp: findFindingByID_def Let_def case_prod_beta)
  let ?ok = "(mode = ''manual'' \<longrightarrow> sgReviewDecision s = ''approved'') \<and> ValidationStatus s = ''passed'' \<and>
    CandidatePatch s \<noteq> [] \<and> reason = None"
  show ?thesis
  proof (cases "?ok \<and> fo \<noteq> None \<and> fdHostUUID (the fo) \<noteq> []")
    case True
    then obtain f where f: "fo = Some f" by blast
    let ?d = "case dry of None \<Rightarrow> True | Some b \<Rightarrow> b"
    have e: "enqueueSuggestionCommand env c s service dry mode actor st =
        queueRemediation env s target f service ?d mode actor st1"
      using True f t ff by (auto simp: enqueueSuggestionCommand_def)
    obtain cmd where c: "mcHostUuid cmd = fdHostUUID f" "PatchUnifiedDiff cmd = CandidatePatch s" "DryRun cmd = ?d"
      "\<forall>h. queueAt (snd (queueRemediation env s target f service ?d mode actor st1)) h =
         queueAt st1 h @ (if h = mcHostUuid cmd then [cmd] else [])"
      using queueRemediation_queue [of f s ?d env target service mode actor st1] by blast
    have "tenantOf (adMain (apDB st)) (mcHostUuid cmd) = Some (TenantFromContext c)"
      using found_in_tenant [OF ff [unfolded f] assms] c(1) by simp
    moreover have "?d = (dry \<noteq> Some False)" by (cases dry) auto
    ultimately have ?queued using c True t unfolding e q by (intro exI [of _ cmd]) simp
    then show ?thesis ..
  next
    case False
    then have ?same using q by (auto simp: enqueueSuggestionCommand_def t ff split: option.splits)
    then show ?thesis ..
  qed
qed

text \<open>C24: A suggestion reaches the queues only through review. When a request to apply one changes any
  queue, it appends one command, to the queue of one host; the caller is an operator or admin, and the
  host belongs to the caller's tenant; the command carries the patch of a stored suggestion that was
  approved, passed validation and names a file the agent would change; and it is a dry run unless the
  request says otherwise in so many words.\<close>

theorem applied_suggestion_reviewed:
  assumes "\<And>rows. mset (aiScan env rows) = mset rows"
    and "applySuggestion env httpMethod c body sid st = (r, st')" and "queueAt st' \<noteq> queueAt st"
  shows "\<exists>cmd s. (\<forall>h. queueAt st' h = queueAt st h @ (if h = mcHostUuid cmd then [cmd] else [])) \<and>
    requireWriteRole (callerRole c) \<and> s \<in> set (lsSuggestions (apLLM st)) \<and> SuggestionID s = sid \<and>
    sgReviewDecision s = ''approved'' \<and> ValidationStatus s = ''passed'' \<and>
    snd (AgentWillApplyPatch (CandidatePatch s)) = None \<and> PatchUnifiedDiff cmd = CandidatePatch s \<and>
    DryRun cmd = (fst body \<noteq> Some False) \<and>
    tenantOf (adMain (apDB st)) (mcHostUuid cmd) = Some (TenantFromContext c)"
proof -
  have role: "requireWriteRole (callerRole c)" using assms(2,3) by (auto simp: applySuggestion_def split: if_splits)
  obtain s l where g: "GetSuggestionByID sid (apLLM st) = (Inr s, l)"
    using assms(2,3) by (auto simp: applySuggestion_def split: if_splits prod.splits sum.splits)
  then have "st' = snd (enqueueSuggestionCommand env c s (snd body) (fst body) ''manual'' (callerUser c) (st\<lparr>apLLM := l\<rparr>))"
    using assms(2,3) role by (auto simp: applySuggestion_def split: if_splits)
  with enqueueSuggestionCommand_queue [OF assms(1), where c = c and s = s and service = "snd body" and dry = "fst body"
      and mode = "''manual''" and actor = "callerUser c" and st = "st\<lparr>apLLM := l\<rparr>"]
    GetSuggestionByID_found [OF g] assms(3) role show ?thesis by auto
qed

subsection \<open>Migrations\<close>

lemma foreignHost_iff:
  "fst (foreignHost c host st) \<longleftrightarrow> fst (pop (ssFaults (apServer st))) = None \<and>
     (\<exists>t. tenantOf (adMain (apDB st)) host = Some t \<and> t \<noteq> [] \<and> t \<noteq> TenantFromContext c)"
  by (cases "fst (pop (ssFaults (apServer st)))"; cases "tblFind asHostUUID host (igAssets (adMain (apDB st)))")
    (simp_all add: foreignHost_def AssetTenant_def tenantOf_def Let_def case_prod_beta del: tblFind_None)

lemma foreignHost_fields [simp]:
  "queueAt (snd (foreignHost c host st)) = queueAt st" "apDB (snd (foreignHost c host st)) = apDB st"
  by (auto simp: foreignHost_def Let_def case_prod_beta)

lemma queueMigration_queue:
  "\<exists>cmd. mcHostUuid cmd = rqHostUUID req \<and> PatchUnifiedDiff cmd = rqPatch req \<and> DryRun cmd = rqDryRun req \<and>
     (\<forall>h. queueAt (snd (queueMigration env c req st)) h = queueAt st h @ (if h = mcHostUuid cmd then [cmd] else []))"
proof -
  define cmd where "cmd = BuildCommand (aiHmac env) (aiCommandID env) (aiNow env) (ssOrch (apServer (snd (apFault st))))
    (rqHostUUID req) (rqTargetService req) (rqMigrationProfile req) (rqConfigPath req) (rqPatch req)
    (GetLatestConfigHash (fst (apFault st)) (rqHostUUID req) (rqConfigPath req) (apDB (snd (apFault st)))) (rqDryRun req)
    (PreferredKEM (GetActiveProfile (ssEngine (apServer (snd (apFault st))))))
    (PreferredSignature (GetActiveProfile (ssEngine (apServer (snd (apFault st))))))"
  have "mcHostUuid cmd = rqHostUUID req" "PatchUnifiedDiff cmd = rqPatch req" "DryRun cmd = rqDryRun req"
    by (simp_all add: cmd_def)
  moreover have "queueAt (snd (queueMigration env c req st)) h =
      queueAt st h @ (if h = mcHostUuid cmd then [cmd] else [])" for h
    unfolding queueMigration_def Let_def case_prod_beta cmd_def [symmetric]
    by (cases "fst (InsertMigrationCommand (aiNow env) (fst (apFault (enqueueOn cmd (snd (apFault st))))) cmd
          (apDB (snd (apFault (enqueueOn cmd (snd (apFault st)))))))") (simp_all del: if_split)
  ultimately show ?thesis by blast
qed

text \<open>C25: Exactly when a migration request queues a command, whatever is answered: an operator or admin
  posted a decodable request, and the tenant check did not see a host of another tenant. The check sees
  one only if its statement succeeds. So an unknown host, and a host of another tenant when the
  statement fails, get their command; and so does a host when the command cannot be recorded and the
  answer is an error.\<close>

theorem migration_enqueued_iff:
  "\<exists>cmd. mcHostUuid cmd = rqHostUUID req \<and> PatchUnifiedDiff cmd = rqPatch req \<and> DryRun cmd = rqDryRun req \<and>
     (\<forall>h. queueAt (snd (enqueueMigrationRoute env httpMethod c (Inr req) st)) h =
        queueAt st h @
          (if h = rqHostUUID req \<and> httpMethod = ''POST'' \<and> requireWriteRole (callerRole c) \<and>
              \<not> (fst (pop (ssFaults (apServer st))) = None \<and>
                 (\<exists>t. tenantOf (adMain (apDB st)) (rqHostUUID req) = Some t \<and> t \<noteq> [] \<and> t \<noteq> TenantFromContext c))
           then [cmd] else []))"
proof (cases "httpMethod = ''POST'' \<and> requireWriteRole (callerRole c)")
  case False
  then have "queueAt (snd (enqueueMigrationRoute env httpMethod c (Inr req) st)) = queueAt st"
    using role_check [of "callerRole c"]
    by (auto simp: enqueueMigrationRoute_def enqueueMigration_def split: option.splits)
  with False queueMigration_queue [of req env c st] show ?thesis by auto
next
  case True
  let ?st1 = "snd (foreignHost c (rqHostUUID req) st)"
  have e: "snd (enqueueMigrationRoute env httpMethod c (Inr req) st) =
      (if fst (foreignHost c (rqHostUUID req) st) then ?st1 else snd (queueMigration env c req ?st1))"
    using True role_check [of "callerRole c"]
    by (auto simp: enqueueMigrationRoute_def enqueueMigration_def split: prod.splits bool.splits)
  from queueMigration_queue [of req env c ?st1] obtain cmd where
    c: "mcHostUuid cmd = rqHostUUID req" "PatchUnifiedDiff cmd = rqPatch req" "DryRun cmd = rqDryRun req"
    "\<forall>h. queueAt (snd (queueMigration env c req ?st1)) h = queueAt ?st1 h @ (if h = mcHostUuid cmd then [cmd] else [])"
    by blast
  then show ?thesis using True unfolding e foreignHost_iff [symmetric] by (intro exI [of _ cmd]) simp
qed

text \<open>Two tenants: the check fails, and an operator of the one sends a command to the host of the other.\<close>

theorem tenant_check_fails_open:
  assumes "requireWriteRole (callerRole c)" and "ssFaults (apServer st) = [Some e]"
  shows "\<exists>cmd. queueAt (snd (enqueueMigrationRoute env ''POST'' c (Inr req) st)) (rqHostUUID req) =
    queueAt st (rqHostUUID req) @ [cmd] \<and> PatchUnifiedDiff cmd = rqPatch req"
proof -
  have "fst (pop (ssFaults (apServer st))) \<noteq> None" using assms(2) by (simp add: pop_def)
  moreover obtain cmd where "PatchUnifiedDiff cmd = rqPatch req"
    "queueAt (snd (queueMigration env c req (snd (foreignHost c (rqHostUUID req) st)))) (rqHostUUID req) =
       queueAt st (rqHostUUID req) @ [cmd]"
    using queueMigration_queue [of req env c "snd (foreignHost c (rqHostUUID req) st)"] by auto
  ultimately show ?thesis using assms(1) role_check [of "callerRole c"] foreignHost_iff [of c "rqHostUUID req" st]
    by (auto simp: enqueueMigrationRoute_def enqueueMigration_def split: prod.splits bool.splits)
qed

subsection \<open>Witnesses\<close>

definition demo_approved :: LLMSuggestion where
  "demo_approved = demo_suggestion\<lparr>sgFindingID := ''f1'', sgReviewDecision := ''approved''\<rparr>"

definition demo_api :: ApiState where
  "demo_api = \<lparr>apServer = \<lparr>ssDB = \<lparr>adMain = demo_reported, adSessions = [], adMigrations = []\<rparr>,
      ssCreds = \<lparr>credRows = [], credFault = None\<rparr>, ssScanConfig = (\<lambda>_. None), ssEngine = NewEngine NIST2026Profile,
      ssOrch = newOrchestrator ''k'', ssHub = newHub, ssFaults = [], ssSends = [], ssSent = [], ssDispatched = []\<rparr>,
     apLLM = \<lparr>lsJobs = [], lsVerdicts = [], lsProvs = [], lsSuggestions = [demo_approved], lsFaults = []\<rparr>,
     apAudit = \<lparr>auditRows = [], auditFault = None\<rparr>\<rparr>"

definition demo_api_env :: ApiEnv where
  "demo_api_env = \<lparr>aiNow = 9, aiCommandID = ''c1'', aiLogID = ''l1'', aiHmac = (\<lambda>k m. k), aiSha = (\<lambda>x. x),
     aiMarshal = (\<lambda>c. Inr []), aiUnmarshal = (\<lambda>s. Inl []), aiEvent = (\<lambda>t d. Inr []), aiScan = (\<lambda>rows. rows), aiUuid = demo_uuid\<rparr>"

abbreviation demo_operator :: caller where
  "demo_operator \<equiv> Some (''op'', ''operator'', ''t1'')"

lemma demo_will_apply: "AgentWillApplyPatch demo_patch = (''etc/app.conf'', None)"
  by code_simp

lemma demo_applied:
  "queueAt (snd (applySuggestion demo_api_env ''POST'' demo_operator (None, []) ''s'' demo_api)) ''h1'' \<noteq> queueAt demo_api ''h1''"
proof -
  let ?f = "toFinding (demo_row ''open'' [] 5, demo_asset ''h1'' ''t1'',
     \<lparr>tmID = ''p1'', tmHost = ''h1'', tmReceivedAt = 5, tmPayload = demo_payload ''p1'' ''h1''\<rparr>)"
  have fd: "fst (apFault demo_api) = None" "apDB (snd (apFault demo_api)) = apDB demo_api"
    by (simp_all add: demo_api_def pop_def)
  have m: "adMain (apDB demo_api) = demo_reported" "lsSuggestions (apLLM demo_api) = [demo_approved]"
    by (simp_all add: demo_api_def)
  have g: "GetSuggestionByID ''s'' (apLLM demo_api) = (Inr demo_approved, apLLM demo_api)"
    by (simp add: GetSuggestionByID_def exec_def demo_api_def tblFind_def demo_approved_def demo_suggestion_def)
  have ff: "findFindingByID demo_api_env demo_operator ''f1'' demo_api = (Some ?f, snd (apFault demo_api))"
    by (simp add: findFindingByID_def Let_def case_prod_beta fd m demo_joined Findings_list_def clampLimit_def
        TenantFromContext_def demo_api_env_def orderRows_def del: apFault_fields)
      (simp add: toFinding_def demo_row_def demo_asset_def)
  have h: "fdHostUUID ?f = ''h1''" by (simp add: toFinding_def demo_row_def)
  have s: "sgReviewDecision demo_approved = ''approved''" "ValidationStatus demo_approved = ''passed''"
    "CandidatePatch demo_approved = demo_patch" "demo_patch \<noteq> []" "sgFindingID demo_approved = ''f1''"
    by (simp_all add: demo_approved_def demo_suggestion_def demo_patch_def)
  have "snd (applySuggestion demo_api_env ''POST'' demo_operator (None, []) ''s'' demo_api) =
      snd (queueRemediation demo_api_env demo_approved ''etc/app.conf'' ?f [] True ''manual'' ''op'' (snd (apFault demo_api)))"
    by (simp add: applySuggestion_def requireWriteRole_def callerRole_def callerUser_def g enqueueSuggestionCommand_def s
        demo_will_apply ff h del: apFault_fields)
  with queueRemediation_queue [of ?f demo_approved True demo_api_env "''etc/app.conf''" "[]" "''manual''" "''op''"
      "snd (apFault demo_api)"] h
  show ?thesis by auto
qed

theorem applied_suggestion_reviewed_witness:
  "tenantOf demo_reported ''h1'' = Some ''t1'' \<and>
   (\<exists>cmd :: MigrationCommand. mcHostUuid cmd = ''h1'' \<and> DryRun cmd \<and> PatchUnifiedDiff cmd = demo_patch)"
proof -
  obtain r st' where a: "applySuggestion demo_api_env ''POST'' demo_operator (None, []) ''s'' demo_api = (r, st')"
    by fastforce
  then have n: "queueAt st' ''h1'' \<noteq> queueAt demo_api ''h1''" using demo_applied by simp
  obtain cmd s where c: "\<forall>h. queueAt st' h = queueAt demo_api h @ (if h = mcHostUuid cmd then [cmd] else [])"
    "s \<in> set (lsSuggestions (apLLM demo_api))" "PatchUnifiedDiff cmd = CandidatePatch s"
    "DryRun cmd" "tenantOf (adMain (apDB demo_api)) (mcHostUuid cmd) = Some (TenantFromContext demo_operator)"
  proof -
    have "queueAt st' \<noteq> queueAt demo_api" using n by auto
    then show thesis using that applied_suggestion_reviewed [OF _ a] by (auto simp: demo_api_env_def)
  qed
  moreover from n c(1) have "mcHostUuid cmd = ''h1''" by (auto split: if_splits)
  ultimately show ?thesis
    by (intro conjI exI [of _ cmd])
      (auto simp: demo_api_def demo_approved_def demo_suggestion_def TenantFromContext_def)
qed

end
