(* ===== verification/FindingApi.thy ===== *)
theory FindingApi
  imports CommandApi
begin

text \<open>
  The HTTP handlers that change findings or speak about them: status changes, one at a time
  (\<^verbatim>\<open>httpapi/server.go\<close>, \<open>findingStatus\<close>) and in bulk (\<^verbatim>\<open>findings_bulk.go\<close>), the routing of
  \<^verbatim>\<open>lifecycle.go\<close>, comments and assignments (\<^verbatim>\<open>finding_meta.go\<close> and its tables in
  \<^verbatim>\<open>store/finding_meta.go\<close>), compliance exceptions (\<^verbatim>\<open>compliance_exceptions.go\<close>) and the
  service-level metrics of \<^verbatim>\<open>features.go\<close>. Times are in seconds, dates in days.
\<close>

subsection \<open>The tables beside the findings\<close>

record FindingComment =
  fcCommentID :: string
  fcFindingID :: string
  fcActor :: string
  fcBody :: string
  fcCreatedAt :: int

record FindingAssignment =
  faFindingID :: string
  faAssignedTo :: string
  faDueDate :: "int option"
  faUpdatedAt :: int

record ComplianceException =
  ceExceptionID :: string
  ceRuleID :: string
  ceAssetRef :: string
  ceReason :: string
  ceRequestedBy :: string
  ceApprovedBy :: string
  ceStatus :: string
  ceCreatedAt :: int
  ceExpiresAt :: "int option"

record MetaDB =
  mdComments :: "FindingComment list"
  mdAssignments :: "FindingAssignment list"
  mdExceptions :: "ComplianceException list"

definition AddFindingComment :: "string \<Rightarrow> int \<Rightarrow> goerror \<Rightarrow> FindingComment \<Rightarrow> MetaDB \<Rightarrow> goerror \<times> MetaDB" where
  "AddFindingComment fresh now fault c db =
     (let row = c\<lparr>fcCommentID := (if fcCommentID c = [] then fresh else fcCommentID c), fcCreatedAt := now\<rparr>
      in case fault of Some e \<Rightarrow> (Some e, db) | None \<Rightarrow>
        if fcCommentID row \<in> fcCommentID ` set (mdComments db)
        then (Some ''duplicate key value violates unique constraint finding_comments_pkey'', db)
        else (None, db\<lparr>mdComments := mdComments db @ [row]\<rparr>))"

definition ListFindingComments :: "goerror \<Rightarrow> string \<Rightarrow> MetaDB \<Rightarrow> FindingComment list result" where
  "ListFindingComments fault findingID db =
     (case fault of Some e \<Rightarrow> Inl e | None \<Rightarrow>
       Inr (sort_key fcCreatedAt (filter (\<lambda>c. fcFindingID c = findingID) (mdComments db))))"

definition UpsertFindingAssignment :: "int \<Rightarrow> goerror \<Rightarrow> FindingAssignment \<Rightarrow> MetaDB \<Rightarrow> goerror \<times> MetaDB" where
  "UpsertFindingAssignment now fault a db =
     (case fault of Some e \<Rightarrow> (Some e, db) | None \<Rightarrow>
       (None, db\<lparr>mdAssignments := tblUpsert faFindingID (a\<lparr>faUpdatedAt := now\<rparr>)
          (\<lambda>r. r\<lparr>faAssignedTo := faAssignedTo a, faDueDate := faDueDate a, faUpdatedAt := now\<rparr>) (mdAssignments db)\<rparr>))"

text \<open>No row is no error: the answer is nil.\<close>

definition GetFindingAssignment :: "goerror \<Rightarrow> string \<Rightarrow> MetaDB \<Rightarrow> FindingAssignment option result" where
  "GetFindingAssignment fault findingID db =
     (case fault of Some e \<Rightarrow> Inl e | None \<Rightarrow> Inr (tblFind faFindingID findingID (mdAssignments db)))"

definition ListFindingAssignments :: "goerror \<Rightarrow> MetaDB \<Rightarrow> FindingAssignment list result" where
  "ListFindingAssignments fault db = (case fault of Some e \<Rightarrow> Inl e | None \<Rightarrow> Inr (mdAssignments db))"

definition CreateComplianceException :: "int \<Rightarrow> goerror \<Rightarrow> ComplianceException \<Rightarrow> MetaDB \<Rightarrow> goerror \<times> MetaDB" where
  "CreateComplianceException now fault e db =
     (let row = e\<lparr>ceStatus := (if ceStatus e = [] then ''active'' else ceStatus e), ceCreatedAt := now\<rparr>
      in case fault of Some err \<Rightarrow> (Some err, db) | None \<Rightarrow>
        if ceExceptionID row \<in> ceExceptionID ` set (mdExceptions db)
        then (Some ''duplicate key value violates unique constraint compliance_exceptions_pkey'', db)
        else (None, db\<lparr>mdExceptions := mdExceptions db @ [row]\<rparr>))"

definition ListComplianceExceptions :: "goerror \<Rightarrow> MetaDB \<Rightarrow> ComplianceException list result" where
  "ListComplianceExceptions fault db =
     (case fault of Some e \<Rightarrow> Inl e | None \<Rightarrow> Inr (rev (sort_key ceCreatedAt (mdExceptions db))))"

definition RevokeComplianceException :: "goerror \<Rightarrow> string \<Rightarrow> MetaDB \<Rightarrow> goerror \<times> MetaDB" where
  "RevokeComplianceException fault exceptionID db =
     (case fault of Some e \<Rightarrow> (Some e, db) | None \<Rightarrow>
       (None, db\<lparr>mdExceptions := tblUpdate ceExceptionID exceptionID (\<lambda>r. r\<lparr>ceStatus := ''revoked''\<rparr>) (mdExceptions db)\<rparr>))"

text \<open>\<open>ORDER BY occurred_at\<close>.\<close>

definition ListLifecycleEvents :: "goerror \<Rightarrow> string \<Rightarrow> IngestDB \<Rightarrow> LifecycleEvent list result" where
  "ListLifecycleEvents fault findingID db =
     (case fault of Some e \<Rightarrow> Inl e | None \<Rightarrow>
       Inr (sort_key evAt (filter (\<lambda>e. evFindingID e = findingID) (igEvents db))))"

subsection \<open>Status changes\<close>

definition statusChange :: "ApiEnv \<Rightarrow> string \<Rightarrow> string \<Rightarrow> string \<Rightarrow> ApiState \<Rightarrow> goerror \<times> ApiState" where
  "statusChange env findingID status who st =
     (let (f, st1) = apFault st; db = apDB st1;
          (err, m) = UpdateFindingStatus (aiUuid env) (aiNow env) findingID status who ((adMain db)\<lparr>igFault := f\<rparr>)
      in (err, setDB (db\<lparr>adMain := m\<rparr>) st1))"

definition broadcastStatus :: "ApiEnv \<Rightarrow> caller \<Rightarrow> string \<Rightarrow> string \<Rightarrow> string \<Rightarrow> ApiState \<Rightarrow> ApiState" where
  "broadcastStatus env c findingID status who =
     onHub (BroadcastTenant (aiEvent env) (TenantFromContext c) ''finding_status''
       [(''finding_id'', findingID), (''status'', status), (''updated_by'', who)])"

text \<open>The body holds the status and the name of who changes it.\<close>

definition findingStatus :: "ApiEnv \<Rightarrow> string \<Rightarrow> caller \<Rightarrow> string \<Rightarrow> (string \<times> string) result \<Rightarrow> ApiState
    \<Rightarrow> (string \<times> string) answer \<times> ApiState" where
  "findingStatus env httpMethod c path body st =
     (if httpMethod \<noteq> ''PUT'' then (Inl (405, []), st)
      else let parts = splitOn (CHR ''/'') (trimPrefix path ''/api/findings/'') in
        if length parts < 2 \<or> parts ! 1 \<noteq> ''status'' then (Inl (404, []), st)
        else case body of Inl e \<Rightarrow> (Inl internalError, st) | Inr (status, who) \<Rightarrow>
          (case statusChange env (parts ! 0) status who st of
             (Some e, st1) \<Rightarrow> (Inl internalError, st1)
           | (None, st1) \<Rightarrow> (Inr (parts ! 0, status), broadcastStatus env c (parts ! 0) status who st1)))"

datatype findingsRoute = ToTimeline | ToComments | ToAssign | ToStatus

definition findingsDispatch :: "string \<Rightarrow> findingsRoute" where
  "findingsDispatch path =
     (if hasSuffix path ''/timeline'' then ToTimeline else if hasSuffix path ''/comments'' then ToComments
      else if hasSuffix path ''/assign'' then ToAssign else ToStatus)"

record bulkUpdateResult =
  brFindingID :: string
  brOK :: bool
  brError :: string

definition bulkUpdateMax :: nat where "bulkUpdateMax = 100"

definition orOperator :: "string \<Rightarrow> string" where
  "orOperator actor = (if actor = [] then ''operator'' else actor)"

definition bulkItem :: "ApiEnv \<Rightarrow> caller \<Rightarrow> string \<Rightarrow> string \<times> string \<Rightarrow> ApiState \<Rightarrow> bulkUpdateResult \<times> ApiState" where
  "bulkItem env c actor u st =
     (case u of (findingID, status) \<Rightarrow>
        if findingID = [] \<or> status = []
        then (\<lparr>brFindingID = findingID, brOK = False, brError = ''finding_id and status are required''\<rparr>, st)
        else (case statusChange env findingID status actor st of
            (Some e, st1) \<Rightarrow> (\<lparr>brFindingID = findingID, brOK = False, brError = e\<rparr>, st1)
          | (None, st1) \<Rightarrow> (\<lparr>brFindingID = findingID, brOK = True, brError = []\<rparr>,
                            broadcastStatus env c findingID status actor st1)))"

fun bulkLoop :: "ApiEnv \<Rightarrow> caller \<Rightarrow> string \<Rightarrow> (string \<times> string) list \<Rightarrow> ApiState \<Rightarrow> bulkUpdateResult list \<times> ApiState" where
  "bulkLoop env c actor [] st = ([], st)"
| "bulkLoop env c actor (u # us) st =
     (let (r, st1) = bulkItem env c actor u st; (rs, st2) = bulkLoop env c actor us st1 in (r # rs, st2))"

text \<open>The body, if it is JSON, is decoded as the wrapper object or, when that has no updates, as an
  array.\<close>

definition bulkUpdateFindings :: "ApiEnv \<Rightarrow> string \<Rightarrow> caller
    \<Rightarrow> ((string \<times> string) list result \<times> (string \<times> string) list result) result
    \<Rightarrow> ApiState \<Rightarrow> (nat \<times> nat \<times> bulkUpdateResult list) answer \<times> ApiState" where
  "bulkUpdateFindings env httpMethod c body st =
     (if httpMethod \<noteq> ''POST'' then (Inl (405, []), st)
      else case body of Inl e \<Rightarrow> (Inl internalError, st) | Inr (wrapper, bare) \<Rightarrow>
      (case (case wrapper of Inr (u # us) \<Rightarrow> Inr (u # us) | _ \<Rightarrow> bare) of
        Inl e \<Rightarrow> (Inl (400, ''body must be an array of {finding_id,status} or {'' @ [CHR 0x22] @ ''updates'' @
                   [CHR 0x22] @ '':[...]}''), st)
      | Inr updates \<Rightarrow>
          if updates = [] then (Inl (400, ''no updates provided''), st)
          else if bulkUpdateMax < length updates then (Inl (422, ''too many findings in one request''), st)
          else
            (let actor = orOperator (callerUser c);
                 (results, st1) = bulkLoop env c actor updates st;
                 updated = length (filter brOK results); failed = length (filter (\<lambda>r. \<not> brOK r) results)
             in (Inr (updated, failed, results),
                 audit env actor ''FINDINGS_BULK_UPDATE''
                   (''updated='' @ decNat updated @ '' failed='' @ decNat failed) st1))))"

subsection \<open>Comments and assignments\<close>

record FindingApiState =
  fsApi :: ApiState
  fsMeta :: MetaDB

definition fsFault :: "FindingApiState \<Rightarrow> goerror \<times> FindingApiState" where
  "fsFault s = (let (f, a) = apFault (fsApi s) in (f, s\<lparr>fsApi := a\<rparr>))"

definition findingIDFromPath :: "string \<Rightarrow> string \<Rightarrow> string" where
  "findingIDFromPath path sfx =
     (let t = trimPrefix path ''/api/findings/''
      in if hasSuffix t (CHR ''/'' # sfx) then take (length t - length sfx - 1) t else t)"

definition findingComments :: "ApiEnv \<Rightarrow> string \<Rightarrow> caller \<Rightarrow> string \<Rightarrow> string result \<Rightarrow> FindingApiState
    \<Rightarrow> FindingComment list answer \<times> FindingApiState" where
  "findingComments env httpMethod c path body s =
     (let findingID = findingIDFromPath path ''comments'' in
      if findingID = [] then (Inl (400, []), s)
      else if httpMethod = ''GET'' then
        (let (f, s1) = fsFault s
         in (case ListFindingComments f findingID (fsMeta s1) of Inl e \<Rightarrow> Inl internalError | Inr cs \<Rightarrow> Inr cs, s1))
      else if httpMethod = ''POST'' then
        (if \<not> requireWriteRole (callerRole c) then (Inl (403, ''forbidden: operator or admin role required''), s)
         else case body of Inl e \<Rightarrow> (Inl internalError, s) | Inr b \<Rightarrow>
           if trimSpace b = [] then (Inl (400, ''comment body is required''), s)
           else
             (let actor = orOperator (callerUser c);
                  cm = \<lparr>fcCommentID = [], fcFindingID = findingID, fcActor = actor, fcBody = trimSpace b,
                        fcCreatedAt = 0\<rparr>;
                  (f, s1) = fsFault s;
                  (err, m) = AddFindingComment (aiLogID env) (aiNow env) f cm (fsMeta s1);
                  s2 = s1\<lparr>fsMeta := m\<rparr>
              in case err of
                   Some e \<Rightarrow> (Inl internalError, s2)
                 | None \<Rightarrow> (Inr [cm\<lparr>fcCommentID := aiLogID env\<rparr>], s2\<lparr>fsApi := onHub (BroadcastTenant (aiEvent env) (TenantFromContext c)
                     ''finding_comment'' [(''finding_id'', findingID), (''actor'', actor)]) (fsApi s2)\<rparr>)))
      else (Inl (405, []), s))"

text \<open>\<open>time.Parse("2006-01-02", s)\<close>, as the number of days since 1 January 1970.\<close>

definition leapYear :: "nat \<Rightarrow> bool" where
  "leapYear y \<longleftrightarrow> 4 dvd y \<and> (\<not> 100 dvd y \<or> 400 dvd y)"

definition monthDays :: "nat \<Rightarrow> nat \<Rightarrow> nat" where
  "monthDays y m = (if m = 2 then (if leapYear y then 29 else 28) else if m \<in> {4, 6, 9, 11} then 30 else 31)"

definition dayNumber :: "nat \<Rightarrow> nat \<Rightarrow> nat \<Rightarrow> int" where
  "dayNumber y m d =
     (let y' = int y - (if m \<le> 2 then 1 else 0); mp = (int m + 9) mod 12
      in 365 * y' + y' div 4 - y' div 100 + y' div 400 + (153 * mp + 2) div 5 + int d - 1 - 719468)"

definition parseDate :: "string \<Rightarrow> int option" where
  "parseDate s =
     (let y = take 4 s; m = take 2 (drop 5 s); d = drop 8 s in
      if length s = 10 \<and> s ! 4 = CHR ''-'' \<and> s ! 7 = CHR ''-'' \<and> list_all isDigit (y @ m @ d) \<and>
         1 \<le> readDec m \<and> readDec m \<le> 12 \<and> 1 \<le> readDec d \<and> readDec d \<le> monthDays (readDec y) (readDec m)
      then Some (dayNumber (readDec y) (readDec m) (readDec d)) else None)"

text \<open>The body holds the assignee and the due date.\<close>

definition findingAssign :: "ApiEnv \<Rightarrow> string \<Rightarrow> caller \<Rightarrow> string \<Rightarrow> (string \<times> string) result \<Rightarrow> FindingApiState
    \<Rightarrow> FindingAssignment answer \<times> FindingApiState" where
  "findingAssign env httpMethod c path body s =
     (let findingID = findingIDFromPath path ''assign'';
          fresh = (\<lambda>who due. \<lparr>faFindingID = findingID, faAssignedTo = who, faDueDate = due, faUpdatedAt = 0\<rparr>)
      in if findingID = [] then (Inl (400, []), s)
      else if httpMethod = ''GET'' then
        (let (f, s1) = fsFault s
         in (case GetFindingAssignment f findingID (fsMeta s1) of
               Inl e \<Rightarrow> Inl internalError
             | Inr a \<Rightarrow> Inr (case a of None \<Rightarrow> fresh [] None | Some r \<Rightarrow> r), s1))
      else if httpMethod \<noteq> ''POST'' then (Inl (405, []), s)
      else if \<not> requireWriteRole (callerRole c) then (Inl (403, ''forbidden: operator or admin role required''), s)
      else case body of Inl e \<Rightarrow> (Inl internalError, s) | Inr (who, due) \<Rightarrow>
        if due \<noteq> [] \<and> parseDate due = None then (Inl (400, ''due_date must be YYYY-MM-DD''), s)
        else
          (let a = fresh who (if due = [] then None else parseDate due);
               (f, s1) = fsFault s;
               (err, m) = UpsertFindingAssignment (aiNow env) f a (fsMeta s1);
               s2 = s1\<lparr>fsMeta := m\<rparr>
           in case err of
                Some e \<Rightarrow> (Inl internalError, s2)
              | None \<Rightarrow> (Inr a, s2\<lparr>fsApi :=
                  onHub (BroadcastTenant (aiEvent env) (TenantFromContext c) ''finding_assigned''
                      [(''finding_id'', findingID), (''assigned_to'', who)])
                    (audit env (orOperator (callerUser c)) ''FINDING_ASSIGN''
                      (''finding_id='' @ findingID @ '' assigned_to='' @ who @ '' due='' @ due) (fsApi s2))\<rparr>)))"

subsection \<open>Compliance exceptions\<close>

record exceptionRequest =
  erRuleID :: string
  erAssetRef :: string
  erReason :: string
  erTTLHours :: int

text \<open>\<open>time.Duration(h) * time.Hour\<close>, 64-bit nanoseconds that wrap around, as seconds.\<close>

definition hoursDuration :: "int \<Rightarrow> int" where
  "hoursDuration h = sint (word_of_int (h * 3600000000000) :: 64 word) div 1000000000"

definition newException :: "ApiEnv \<Rightarrow> string \<Rightarrow> exceptionRequest \<Rightarrow> ComplianceException" where
  "newException env username req =
     \<lparr>ceExceptionID = aiCommandID env, ceRuleID = trimSpace (erRuleID req), ceAssetRef = trimSpace (erAssetRef req),
      ceReason = trimSpace (erReason req), ceRequestedBy = username, ceApprovedBy = username, ceStatus = ''active'',
      ceCreatedAt = 0,
      ceExpiresAt = (if 0 < erTTLHours req then Some (aiNow env + hoursDuration (erTTLHours req)) else None)\<rparr>"

definition complianceExceptions :: "ApiEnv \<Rightarrow> string \<Rightarrow> caller \<Rightarrow> exceptionRequest result \<Rightarrow> FindingApiState
    \<Rightarrow> ComplianceException list answer \<times> FindingApiState" where
  "complianceExceptions env httpMethod c body s =
     (if httpMethod = ''GET'' then
        (let (f, s1) = fsFault s
         in (case ListComplianceExceptions f (fsMeta s1) of Inl e \<Rightarrow> Inl internalError | Inr es \<Rightarrow> Inr es, s1))
      else if httpMethod \<noteq> ''POST'' then (Inl (405, []), s)
      else case body of Inl e \<Rightarrow> (Inl (400, ''invalid JSON body''), s) | Inr req \<Rightarrow>
        if trimSpace (erRuleID req) = [] \<or> trimSpace (erReason req) = []
        then (Inl (422, ''rule_id and reason are required''), s)
        else
          (let username = orOperator (callerUser c); exc = newException env username req;
               (f, s1) = fsFault s;
               (err, m) = CreateComplianceException (aiNow env) f exc (fsMeta s1);
               s2 = s1\<lparr>fsMeta := m\<rparr>
           in case err of
                Some e \<Rightarrow> (Inl internalError, s2)
              | None \<Rightarrow> (Inr [exc], s2\<lparr>fsApi := audit env username ''COMPLIANCE_EXCEPTION_CREATE''
                  (''exception_id='' @ ceExceptionID exc @ '' rule_id='' @ ceRuleID exc @ '' asset_ref='' @
                   ceAssetRef exc) (fsApi s2)\<rparr>)))"

definition complianceExceptionByID :: "ApiEnv \<Rightarrow> string \<Rightarrow> caller \<Rightarrow> string \<Rightarrow> FindingApiState
    \<Rightarrow> string answer \<times> FindingApiState" where
  "complianceExceptionByID env httpMethod c path s =
     (if httpMethod \<noteq> ''DELETE'' then (Inl (405, []), s)
      else let exceptionID = trimPrefix path ''/api/compliance/exceptions/'' in
        if exceptionID = [] then (Inl (400, ''exception_id is required''), s)
        else
          (let (f, s1) = fsFault s;
               (err, m) = RevokeComplianceException f exceptionID (fsMeta s1);
               s2 = s1\<lparr>fsMeta := m\<rparr>
           in case err of
                Some e \<Rightarrow> (Inl internalError, s2)
              | None \<Rightarrow> (Inr exceptionID, s2\<lparr>fsApi := audit env (orOperator (callerUser c))
                  ''COMPLIANCE_EXCEPTION_REVOKE'' (''exception_id='' @ exceptionID) (fsApi s2)\<rparr>)))"

subsection \<open>Service levels\<close>

definition percent :: "nat \<Rightarrow> nat \<Rightarrow> real option" where
  "percent part whole = (if 0 < whole then Some (real part * 100 / real whole) else None)"

definition migrationSLA :: "MigrationRow list \<Rightarrow> nat \<times> nat \<times> real option" where
  "migrationSLA ms =
     (let succeeded = length (filter (\<lambda>m. mgState m = MigrationStateSucceeded) ms);
          failed = length (filter (\<lambda>m. mgState m = MigrationStateFailed) ms)
      in (succeeded, failed, percent succeeded (succeeded + failed)))"

text \<open>Findings of a severity, how many of them are resolved, and the percentage.\<close>

definition resolvedSLA :: "int \<Rightarrow> Finding list \<Rightarrow> nat \<times> nat \<times> real option" where
  "resolvedSLA sev fs =
     (let all = filter (\<lambda>f. fdSeverity f = sev) fs;
          resolved = length (filter (\<lambda>f. fdStatus f = ''resolved'') all)
      in (length all, resolved, percent resolved (length all)))"

definition closedStatuses :: "string list" where
  "closedStatuses = [''remediated'', ''resolved'', ''accepted'', ''accepted_risk'', ''false-positive'', ''false_positive'']"

definition statusByID :: "Finding list \<Rightarrow> string \<Rightarrow> string" where
  "statusByID fs findingID =
     (case find (\<lambda>f. fdFindingID f = findingID) (rev fs) of None \<Rightarrow> [] | Some f \<Rightarrow> fdStatus f)"

definition breached :: "int \<Rightarrow> Finding list \<Rightarrow> FindingAssignment \<Rightarrow> bool" where
  "breached now fs a =
     (case faDueDate a of None \<Rightarrow> False
      | Some d \<Rightarrow> d * 86400 < now \<and> statusByID fs (faFindingID a) \<notin> set closedStatuses)"

definition assignmentSLA :: "int \<Rightarrow> Finding list \<Rightarrow> FindingAssignment list \<Rightarrow> nat \<times> string list" where
  "assignmentSLA now fs as =
     (let assigned = filter (\<lambda>a. \<not> (faAssignedTo a = [] \<and> faDueDate a = None)) as
      in (length assigned, map faFindingID (filter (breached now fs) assigned)))"

text \<open>The part of \<open>slaMetrics\<close> behind the overview and the migrations: an error of the findings or of
  the assignments leaves an empty list.\<close>

definition slaFindings :: "(joined list \<Rightarrow> joined list) \<Rightarrow> goerror \<Rightarrow> string \<Rightarrow> IngestDB \<Rightarrow> Finding list" where
  "slaFindings scan fault tenant db = (case Findings_list scan fault 10000 tenant db of Inl e \<Rightarrow> [] | Inr fs \<Rightarrow> fs)"

definition slaMetrics :: "(joined list \<Rightarrow> joined list) \<Rightarrow> int \<Rightarrow> goerror \<times> goerror \<Rightarrow> string \<Rightarrow> MigrationRow list
    \<Rightarrow> IngestDB \<Rightarrow> MetaDB
    \<Rightarrow> (nat \<times> nat \<times> real option) \<times> (nat \<times> nat \<times> real option) \<times> (nat \<times> nat \<times> real option) \<times> nat \<times> string list" where
  "slaMetrics scan now faults tenant ms db meta =
     (let fs = slaFindings scan (fst faults) tenant db;
          as = (case ListFindingAssignments (snd faults) meta of Inl e \<Rightarrow> [] | Inr as \<Rightarrow> as)
      in (migrationSLA ms, resolvedSLA 5 fs, resolvedSLA 4 fs, assignmentSLA now fs as))"

end
