(* ===== verification/FindingApiProofs.thy ===== *)
theory FindingApiProofs
  imports FindingApi CommandApiProofs
begin

text \<open>
  Properties of the handlers on findings: a bulk change is the single changes one after the other; a
  status change asks for no role; and the service-level metrics count a status that no finding has.
\<close>

subsection \<open>Service levels\<close>

lemma Findings_list_rows:
  assumes "Findings_list scan fault cap tenant db = Inr fs" and "f \<in> set fs"
    and "mset (scan (joinedFindings db)) = mset (joinedFindings db)"
  shows "\<exists>r \<in> set (igFindings db). fdStatus f = frStatus r \<and> fdFindingID f = frFindingID r"
proof -
  from assms(1,2) obtain x where x: "f = toFinding x" "x \<in> set (scan (joinedFindings db))"
    by (fastforce simp: Findings_list_def dest!: in_set_takeD split: option.splits)
  then have "x \<in> set (joinedFindings db)" using mset_eq_setD [OF assms(3)] by simp
  with x(1) show ?thesis by (cases x) (auto dest!: joined_rows simp: toFinding_def)
qed

lemma ledger_statuses:
  assumes "ledger sha fresh db" and "inj fresh" and "r \<in> set (igFindings db)"
  shows "frStatus r \<in> set findingStatuses"
  using ledger_inv [OF assms(1,2)] assms(3) by (auto simp: dbInv_def logInv_def)

text \<open>The service-level page counts the findings whose status is \<open>resolved\<close>, which no finding can
  ever have: in every state that ingestion and reviews can reach, whatever was remediated, it reports
  that not one critical or high finding is, and a remediation of 0 percent.\<close>

theorem sla_counts_no_remediation:
  assumes "ledger sha fresh db" and "inj fresh" and "mset (scan (joinedFindings db)) = mset (joinedFindings db)"
    and "slaMetrics scan now faults tenant ms db meta = (migrations, critical, high, assignments)"
  shows "fst (snd critical) = 0 \<and> fst (snd high) = 0 \<and> snd (snd critical) \<in> {None, Some 0} \<and>
    snd (snd high) \<in> {None, Some 0}"
proof -
  have "fdStatus f \<noteq> ''resolved''" if "f \<in> set (slaFindings scan (fst faults) tenant db)" for f
  proof -
    from that obtain fs where fs: "Findings_list scan (fst faults) 10000 tenant db = Inr fs" "f \<in> set fs"
      by (cases "Findings_list scan (fst faults) 10000 tenant db") (auto simp: slaFindings_def)
    then obtain r where r: "r \<in> set (igFindings db)" "fdStatus f = frStatus r"
      using Findings_list_rows [OF fs assms(3)] by blast
    from ledger_statuses [OF assms(1,2) r(1)] r(2) show ?thesis by (auto simp: findingStatuses_def)
  qed
  then have "filter (\<lambda>f. fdStatus f = ''resolved'') (filter (\<lambda>f. fdSeverity f = sev)
      (slaFindings scan (fst faults) tenant db)) = []" for sev
    by (auto simp: filter_empty_conv)
  then have "fst (snd (resolvedSLA sev (slaFindings scan (fst faults) tenant db))) = 0 \<and>
      snd (snd (resolvedSLA sev (slaFindings scan (fst faults) tenant db))) \<in> {None, Some 0}" for sev
    by (simp only: resolvedSLA_def Let_def percent_def) simp
  with assms(4) show ?thesis by (auto simp: slaMetrics_def Let_def)
qed

text \<open>An assigned finding that is not among the 200 the page reads counts as breached, even when it is
  closed.\<close>

theorem assignment_outside_window_breached:
  assumes "faDueDate a = Some d" and "d * 86400 < now" and "faFindingID a \<notin> fdFindingID ` set fs"
  shows "breached now fs a"
proof -
  have "find (\<lambda>f. fdFindingID f = faFindingID a) (rev fs) = None" using assms(3) by (force simp: find_None_iff)
  then have "statusByID fs (faFindingID a) = []" by (simp add: statusByID_def)
  with assms(1,2) show ?thesis by (simp add: breached_def closedStatuses_def)
qed

subsection \<open>Status changes\<close>

lemma broadcastStatus_DB [simp]:
  "apDB (broadcastStatus env c f s w st) = apDB st"
  "ssFaults (apServer (broadcastStatus env c f s w st)) = ssFaults (apServer st)"
  by (simp_all add: broadcastStatus_def onHub_def)

lemma slash_in_status: "trimPrefix (''/api/findings/'' @ p) ''/api/findings/'' = p"
  by (simp add: trimPrefix_def hasPrefix_def)

text \<open>The status of a finding is changed by whoever has a session. A request for a known finding
  with a legal status succeeds for every caller, a viewer of another tenant included, and the row names
  as its author whatever name the body gives.\<close>

theorem status_change_unguarded:
  assumes "keyUnique frFindingID (igFindings (adMain (apDB st)))" and "r \<in> set (igFindings (adMain (apDB st)))"
    and "CHR ''/'' \<notin> set (frFindingID r)" and "status \<in> set findingStatuses"
    and "fst (pop (ssFaults (apServer st))) = None"
    and "findingStatus env ''PUT'' c (''/api/findings/'' @ frFindingID r @ ''/status'') (Inr (status, who)) st = (answer, st')"
  shows "answer = Inr (frFindingID r, status) \<and>
    r\<lparr>frStatus := status, frUpdatedBy := who, frUpdatedAt := aiNow env\<rparr> \<in> set (igFindings (adMain (apDB st')))"
proof -
  have parts: "splitOn (CHR ''/'') (trimPrefix (''/api/findings/'' @ frFindingID r @ ''/status'') ''/api/findings/'') =
      [frFindingID r, ''status'']"
    unfolding slash_in_status using splitOn_free_append [OF assms(3), of "''status''"] by simp
  have sc: "fst (statusChange env (frFindingID r) status who st) = None"
    "r\<lparr>frStatus := status, frUpdatedBy := who, frUpdatedAt := aiNow env\<rparr> \<in>
       set (igFindings (adMain (apDB (snd (statusChange env (frFindingID r) status who st)))))"
    using assms(4,5) tblFind_unique [OF assms(1,2)] assms(2)
    by (auto simp: statusChange_def Let_def case_prod_beta UpdateFindingStatus_def addEvent_def set_tblUpdate
        setDB_def apFault_def nextFault_def)
  obtain st1 where p: "statusChange env (frFindingID r) status who st = (None, st1)"
    using sc(1) by (metis prod.collapse)
  have "findingStatus env ''PUT'' c (''/api/findings/'' @ frFindingID r @ ''/status'') (Inr (status, who)) st =
      (Inr (frFindingID r, status), broadcastStatus env c (frFindingID r) status who st1)"
    unfolding findingStatus_def Let_def parts by (simp add: p)
  with assms(6) sc(2) p show ?thesis by auto
qed








subsection \<open>Witnesses\<close>

theorem sla_counts_no_remediation_witness:
  "fst (snd (fst (snd (slaMetrics (\<lambda>rows. rows) 0 (None, None) ''t1'' [] (demo_reviewed ''remediated'')
     \<lparr>mdComments = [], mdAssignments = [], mdExceptions = []\<rparr>)))) = 0"
proof -
  let ?meta = "\<lparr>mdComments = [], mdAssignments = [], mdExceptions = []\<rparr>"
  obtain ms cr hi as where
    r: "slaMetrics (\<lambda>rows. rows) 0 (None, None) ''t1'' [] (demo_reviewed ''remediated'') ?meta = (ms, cr, hi, as)"
    by (metis prod.collapse)
  from sla_counts_no_remediation [where scan = "\<lambda>rows. rows", OF demo_ledger(2) demo_uuid_inj refl r]
  show ?thesis by (simp add: r)
qed

theorem status_change_unguarded_witness:
  "frStatus ((demo_row ''open'' [] 5)\<lparr>frStatus := ''false_positive'', frUpdatedBy := ''mallory'', frUpdatedAt := 9\<rparr>) = ''false_positive'' \<and>
   (\<exists>r. r \<in> set (igFindings (adMain (apDB (snd (findingStatus demo_api_env ''PUT'' (Some (''v'', ''viewer'', ''t2''))
     ''/api/findings/f1/status'' (Inr (''false_positive'', ''mallory'')) demo_api))))) \<and> frUpdatedBy r = ''mallory'')"
proof -
  have d: "igFindings (adMain (apDB demo_api)) = [demo_row ''open'' [] 5]" "ssFaults (apServer demo_api) = []"
    by (simp_all add: demo_api_def demo_reported_rows)
  obtain answer st' where f: "findingStatus demo_api_env ''PUT'' (Some (''v'', ''viewer'', ''t2''))
      (''/api/findings/'' @ frFindingID (demo_row ''open'' [] 5) @ ''/status'') (Inr (''false_positive'', ''mallory'')) demo_api = (answer, st')"
    by fastforce
  from status_change_unguarded [OF _ _ _ _ _ f] d have "\<exists>r. r \<in> set (igFindings (adMain (apDB st'))) \<and> frUpdatedBy r = ''mallory''"
    by (force simp: keyUnique_def demo_row_def findingStatuses_def pop_def)
  with f show ?thesis by (simp add: demo_row_def)
qed


end
