(* ===== verification/FleetQuery.thy ===== *)
theory FleetQuery
  imports CommandApi
begin

text \<open>
  The read side of the store that the dashboard and the reports use: \<open>Overview\<close>, \<open>AssetsPaginated\<close>,
  \<open>AgentByID\<close>, \<open>ScanRuns\<close>, \<open>ConnectionHistory\<close>, \<open>Components\<close>, \<open>ComponentsPaginated\<close> and \<open>Migrations\<close>
  of \<^verbatim>\<open>server/internal/store/store.go\<close>, and the heartbeat of an agent, which writes the live columns
  they show. A query is a filter, a sort and a window; \<open>ilike\<close> is the pattern match of the database and
  a \<open>readOrder\<close> the order in which it reads rows that the sort does not separate. Statements that fail
  are given by \<open>faults\<close>, by the position of the statement in its operation.
\<close>

subsection \<open>Tables\<close>

text \<open>The columns of an asset that only a heartbeat writes, and the log of progress events.\<close>

record LiveColumns =
  lvScanProgress :: int
  lvScanPath :: string
  lvCPU :: real
  lvMem :: real
  lvStatus :: string
  lvFilesScanned :: int
  lvFilesSkipped :: int

record ProgressEvent =
  pgEventID :: string
  pgHost :: string
  pgProgress :: int
  pgPath :: string
  pgStatus :: string
  pgFiles :: int
  pgCPU :: real
  pgMem :: real
  pgRecordedAt :: int

record FleetDB =
  flAgents :: AgentDB
  flLive :: "string \<Rightarrow> LiveColumns"
  flProgress :: "ProgressEvent list"

abbreviation fleetAssets :: "FleetDB \<Rightarrow> AssetRow list" where
  "fleetAssets db \<equiv> igAssets (adMain (flAgents db))"

text \<open>What a row starts with.\<close>

definition liveDefaults :: LiveColumns where
  "liveDefaults = \<lparr>lvScanProgress = 0, lvScanPath = [], lvCPU = 0, lvMem = 0, lvStatus = ''offline'',
     lvFilesScanned = 0, lvFilesSkipped = 0\<rparr>"

text \<open>The row-level scope: no tenant is no restriction.\<close>

definition inTenant :: "string \<Rightarrow> FleetDB \<Rightarrow> string \<Rightarrow> bool" where
  "inTenant tenantID db host \<longleftrightarrow> tenantID = [] \<or>
     host \<in> asHostUUID ` {a \<in> set (fleetAssets db). asTenantID a = tenantID}"

definition stale :: "int \<Rightarrow> AssetRow \<Rightarrow> bool" where
  "stale now a \<longleftrightarrow> asLastSeen a < now - 300"

text \<open>The newest scan of a host.\<close>

definition newerScan :: "ScanRun \<Rightarrow> ScanRun \<Rightarrow> bool" where
  "newerScan x y \<longleftrightarrow> srFinished y < srFinished x"

definition latestScan :: "(ScanRun list \<Rightarrow> ScanRun list) \<Rightarrow> FleetDB \<Rightarrow> string \<Rightarrow> ScanRun option" where
  "latestScan readOrder db host =
     (case orderRows newerScan (filter (\<lambda>s. srHost s = host) (readOrder (igScans (adMain (flAgents db))))) of
        [] \<Rightarrow> None | s # rest \<Rightarrow> Some s)"

text \<open>\<open>SELECT DISTINCT ON (host_uuid) scan_id\<close>.\<close>

definition latestScanIDs :: "(ScanRun list \<Rightarrow> ScanRun list) \<Rightarrow> string \<Rightarrow> FleetDB \<Rightarrow> string list" where
  "latestScanIDs readOrder tenantID db =
     map srScanID (map (\<lambda>h. the (latestScan readOrder db h))
       (filter (inTenant tenantID db) (remdups (map srHost (readOrder (igScans (adMain (flAgents db))))))))"

subsection \<open>The overview\<close>

record Overview =
  ovAssets :: nat
  ovComponents :: nat
  ovFindings :: nat
  ovCritical :: nat
  ovHigh :: nat
  ovOpenMigrations :: nat
  ovStalled :: nat
  ovScore :: int
  ovBreakdown :: "(string \<times> int) list"
  ovHistogram :: "(string \<times> nat) list"

definition countWhere :: "('r \<Rightarrow> bool) \<Rightarrow> 'r list \<Rightarrow> nat" where
  "countWhere P rows = length (filter P rows)"

definition remediationBonus :: "nat \<Rightarrow> nat \<Rightarrow> int" where
  "remediationBonus remediated tot = (if 0 < tot then \<lfloor>real remediated / real tot * 20\<rfloor> else 0)"

definition readinessScore :: "nat \<Rightarrow> nat \<Rightarrow> nat \<Rightarrow> nat \<Rightarrow> nat \<Rightarrow> int" where
  "readinessScore critical high stalled remediated tot =
     max 0 (min 100 (100 - (int critical * 18 + int high * 8 + int stalled * 15) + remediationBonus remediated tot))"

text \<open>The twelve most frequent algorithms; the map of the code is the list of its entries.\<close>

definition algorithmHistogram :: "(string list \<Rightarrow> string list) \<Rightarrow> FindingRow list \<Rightarrow> (string \<times> nat) list" where
  "algorithmHistogram readOrder rows =
     take 12 (orderRows (\<lambda>x y. snd y < snd x)
       (map (\<lambda>a. (a, countWhere (\<lambda>r. frAlgorithm r = a) rows)) (readOrder (remdups (map frAlgorithm rows)))))"

definition Overview_read :: "(ScanRun list \<Rightarrow> ScanRun list) \<Rightarrow> (string list \<Rightarrow> string list) \<Rightarrow> (nat \<Rightarrow> goerror) \<Rightarrow> int
    \<Rightarrow> string \<Rightarrow> FleetDB \<Rightarrow> Overview result" where
  "Overview_read scanOrder groupOrder faults now tenantID db =
     (let main = adMain (flAgents db);
          assets = filter (\<lambda>a. asManaged a \<and> (tenantID = [] \<or> asTenantID a = tenantID)) (igAssets main);
          rows = filter (\<lambda>r. inTenant tenantID db (frHost r)) (igFindings main);
          critical = countWhere (\<lambda>r. frSeverity r = RiskSeverityCritical) rows;
          high = countWhere (\<lambda>r. frSeverity r = RiskSeverityHigh) rows;
          stalled = (case faults 6 of Some e \<Rightarrow> 0 | None \<Rightarrow> countWhere (stale now) assets);
          remediated = (case faults 7 of Some e \<Rightarrow> 0
             | None \<Rightarrow> countWhere (\<lambda>r. frStatus r \<in> {''remediated'', ''accepted_risk''}) rows);
          bonus = remediationBonus remediated (length rows);
          score = readinessScore critical high stalled remediated (length rows)
      in case List.find (\<lambda>i. faults i \<noteq> None) [0, 1, 2, 3, 4, 5, 8] of
           Some i \<Rightarrow> Inl (the (faults i))
         | None \<Rightarrow> Inr
             \<lparr>ovAssets = length assets,
              ovComponents = countWhere (\<lambda>c. scScanID c \<in> set (latestScanIDs scanOrder tenantID db)) (igComponents main),
              ovFindings = length rows, ovCritical = critical, ovHigh = high,
              ovOpenMigrations = countWhere (\<lambda>m. mgState m \<notin> {MigrationStateSucceeded, MigrationStateFailed} \<and>
                 inTenant tenantID db (mgHost m)) (adMigrations (flAgents db)),
              ovStalled = stalled, ovScore = score,
              ovBreakdown = [(''penalty_from_findings'', int critical * 18 + int high * 8),
                 (''penalty_from_stalled'', int stalled * 15), (''remediation_bonus'', bonus), (''total_score'', score)],
              ovHistogram = algorithmHistogram groupOrder rows\<rparr>)"

subsection \<open>Assets\<close>

record Asset =
  aeHostUUID :: string
  aeHostname :: string
  aeOSName :: string
  aeOSVersion :: string
  aeArch :: string
  aeExecutionMode :: int
  aeLastSeen :: int
  aeScanProgress :: int
  aeScanPath :: string
  aeCPU :: real
  aeMem :: real
  aeStatus :: string
  aeFilesScanned :: int
  aeFilesSkipped :: int
  aeAgentVersion :: string
  aeObservedIP :: string
  aeDNSName :: string
  aeFirstRegistered :: int
  aeLastRegistered :: int
  aeLastScanID :: string
  aeLastScanFinished :: "int option"
  aeLastScanSeverity :: int
  aeOpenFindings :: nat

text \<open>The embedded query parameters have fields \<open>TenantID\<close>, \<open>DateFrom\<close> and \<open>DateTo\<close> of their own, which
  the outer ones shadow.\<close>

record FleetQueryParams =
  fqQuery :: QueryParams
  fqStatus :: string
  fqOSName :: string
  fqSeverity :: int
  fqDateFrom :: "int option"
  fqDateTo :: "int option"
  fqTenantID :: string

text \<open>A row of \<open>assetSelect\<close>: the columns of a disconnected agent are zeroed.\<close>

definition assetRow :: "(ScanRun list \<Rightarrow> ScanRun list) \<Rightarrow> int \<Rightarrow> FleetDB \<Rightarrow> AssetRow \<Rightarrow> Asset" where
  "assetRow readOrder now db a =
     (let lv = flLive db (asHostUUID a); off = stale now a; sr = latestScan readOrder db (asHostUUID a) in
     \<lparr>aeHostUUID = asHostUUID a, aeHostname = asHostname a, aeOSName = asOsName a, aeOSVersion = asOsVersion a,
      aeArch = asArch a, aeExecutionMode = asExecutionMode a, aeLastSeen = asLastSeen a,
      aeScanProgress = (if off then 0 else lvScanProgress lv), aeScanPath = (if off then [] else lvScanPath lv),
      aeCPU = lvCPU lv, aeMem = lvMem lv, aeStatus = (if off then ''offline'' else lvStatus lv),
      aeFilesScanned = lvFilesScanned lv, aeFilesSkipped = lvFilesSkipped lv, aeAgentVersion = asAgentVersion a,
      aeObservedIP = asObservedIP a, aeDNSName = asDnsName a, aeFirstRegistered = asFirstRegistered a,
      aeLastRegistered = asLastRegistered a, aeLastScanID = (case sr of None \<Rightarrow> [] | Some s \<Rightarrow> srScanID s),
      aeLastScanFinished = map_option srFinished sr,
      aeLastScanSeverity = (case sr of None \<Rightarrow> 0 | Some s \<Rightarrow> srMaxSeverity s),
      aeOpenFindings = countWhere (\<lambda>r. frHost r = asHostUUID a \<and> frStatus r = ''open'')
        (igFindings (adMain (flAgents db)))\<rparr>)"

definition statusFilter :: "int \<Rightarrow> string \<Rightarrow> AssetRow \<Rightarrow> LiveColumns \<Rightarrow> bool" where
  "statusFilter now wanted a lv =
     (if wanted = [] then True
      else if toLower wanted = ''offline'' then stale now a
      else if toLower wanted = ''idle'' then \<not> stale now a \<and> lvStatus lv = ''Idle''
      else if toLower wanted = ''scanning'' then \<not> stale now a \<and> lvStatus lv \<notin> {''Idle'', ''offline'', []}
      else lvStatus lv = wanted)"

definition assetSelected :: "(string \<Rightarrow> string \<Rightarrow> bool) \<Rightarrow> (ScanRun list \<Rightarrow> ScanRun list) \<Rightarrow> int \<Rightarrow> FleetQueryParams
    \<Rightarrow> FleetDB \<Rightarrow> AssetRow \<Rightarrow> bool" where
  "assetSelected ilike readOrder now params db a =
     (let q = qpSearch (fqQuery params); p = ''%'' @ q @ ''%'' in
      asManaged a \<and>
      (fqTenantID params = [] \<or> asTenantID a = fqTenantID params) \<and>
      (q = [] \<or> ilike p (asHostname a) \<or> ilike p (asHostUUID a) \<or> ilike p (asOsName a) \<or> ilike p (asOsVersion a) \<or>
         ilike p (asAgentVersion a) \<or> ilike p (asObservedIP a) \<or> ilike p (asDnsName a)) \<and>
      statusFilter now (fqStatus params) a (flLive db (asHostUUID a)) \<and>
      (fqOSName params = [] \<or> asOsName a = fqOSName params) \<and>
      (fqSeverity params \<le> 0 \<or> fqSeverity params \<le>
         (case latestScan readOrder db (asHostUUID a) of None \<Rightarrow> 0 | Some s \<Rightarrow> srMaxSeverity s)) \<and>
      (case fqDateFrom params of None \<Rightarrow> True | Some d \<Rightarrow> d \<le> asLastSeen a) \<and>
      (case fqDateTo params of None \<Rightarrow> True | Some d \<Rightarrow> asLastSeen a \<le> d))"

text \<open>The column to sort by: a key the code does not know is \<open>last_seen\<close>; \<open>open_findings\<close> names a column
  that the statement does not have.\<close>

definition assetColumn :: "string \<Rightarrow> (ScanRun list \<Rightarrow> ScanRun list) \<Rightarrow> FleetDB \<Rightarrow> AssetRow \<Rightarrow> sortKey" where
  "assetColumn col readOrder db a =
     (if col = ''hostname'' then TextKey (asHostname a)
      else if col = ''os_name'' then TextKey (asOsName a)
      else if col = ''os_version'' then TextKey (asOsVersion a)
      else if col = ''agent_version'' then TextKey (asAgentVersion a)
      else if col = ''observed_ip'' then TextKey (asObservedIP a)
      else if col = ''status'' then TextKey (lvStatus (flLive db (asHostUUID a)))
      else if col = ''scan_progress'' then NumKey (lvScanProgress (flLive db (asHostUUID a)))
      else if col = ''last_scan_severity''
      then NumKey (case latestScan readOrder db (asHostUUID a) of None \<Rightarrow> 0 | Some s \<Rightarrow> srMaxSeverity s)
      else NumKey (asLastSeen a))"

text \<open>The sort column in the direction asked for, ties by the key of the row in ascending order.\<close>

definition columnBefore :: "('r \<Rightarrow> 'r \<Rightarrow> bool) \<Rightarrow> string \<Rightarrow> ('r \<Rightarrow> string) \<Rightarrow> 'r \<Rightarrow> 'r \<Rightarrow> bool" where
  "columnBefore lt order key x y =
     (if lt x y then order = ''asc'' else if lt y x then order \<noteq> ''asc'' else key x < key y)"

definition window :: "nat \<Rightarrow> int \<Rightarrow> 'r list \<Rightarrow> 'r list" where
  "window n offset rows = take n (drop (nat (max 0 offset)) rows)"

definition AssetsPaginated :: "(string \<Rightarrow> string \<Rightarrow> bool) \<Rightarrow> (ScanRun list \<Rightarrow> ScanRun list) \<Rightarrow> int \<Rightarrow> (nat \<Rightarrow> goerror)
    \<Rightarrow> FleetQueryParams \<Rightarrow> FleetDB \<Rightarrow> (Asset list \<times> nat) result" where
  "AssetsPaginated ilike readOrder now faults params db =
     (case (if qpSort (fqQuery params) = ''open_findings'' then Some ''column open_findings does not exist'' else faults 0) of
        Some e \<Rightarrow> Inl e
      | None \<Rightarrow>
          (let col = assetColumn (qpSort (fqQuery params)) readOrder db;
               rows = orderRows (columnBefore (\<lambda>x y. keyLess (col x) (col y)) (qpOrder (fqQuery params)) asHostUUID)
                 (filter (assetSelected ilike readOrder now params db) (fleetAssets db));
               page = map (assetRow readOrder now db)
                 (window (clampLimit 50 (qpLimit (fqQuery params))) (qpOffset (fqQuery params)) rows)
           in Inr (page, if faults 1 = None then length rows else length page)))"

definition fleetQuery :: "int \<Rightarrow> string \<Rightarrow> string \<Rightarrow> QueryParams" where
  "fleetQuery lmt col tenantID = \<lparr>qpLimit = lmt, qpOffset = 0, qpSort = col, qpOrder = ''desc'', qpSearch = [],
     qpHostUUID = [], qpScanID = [], qpAlgorithm = [], qpAssetRef = [], qpDateFrom = None, qpDateTo = None,
     qpTenantID = tenantID\<rparr>"

definition fleetParams :: "QueryParams \<Rightarrow> string \<Rightarrow> FleetQueryParams" where
  "fleetParams q tenantID = \<lparr>fqQuery = q, fqStatus = [], fqOSName = [], fqSeverity = 0, fqDateFrom = None,
     fqDateTo = None, fqTenantID = tenantID\<rparr>"

text \<open>\<open>Assets\<close> sets the tenant of the embedded parameters, the handler of the fleet page the outer one.\<close>

definition Assets_list :: "(string \<Rightarrow> string \<Rightarrow> bool) \<Rightarrow> (ScanRun list \<Rightarrow> ScanRun list) \<Rightarrow> int \<Rightarrow> (nat \<Rightarrow> goerror)
    \<Rightarrow> string \<Rightarrow> FleetDB \<Rightarrow> Asset list result" where
  "Assets_list ilike readOrder now faults tenantID db =
     map_sum id fst (AssetsPaginated ilike readOrder now faults
       (fleetParams (fleetQuery 5000 ''last_seen'' tenantID) []) db)"

definition assets :: "(string \<Rightarrow> string \<Rightarrow> bool) \<Rightarrow> (ScanRun list \<Rightarrow> ScanRun list) \<Rightarrow> int \<Rightarrow> (nat \<Rightarrow> goerror)
    \<Rightarrow> caller \<Rightarrow> FleetDB \<Rightarrow> Asset list answer" where
  "assets ilike readOrder now faults who db =
     (case AssetsPaginated ilike readOrder now faults
             (fleetParams (fleetQuery 5000 ''last_seen'' []) (TenantFromContext who)) db of
        Inl e \<Rightarrow> Inl internalError | Inr (page, tot) \<Rightarrow> Inr page)"

definition AgentByID :: "(ScanRun list \<Rightarrow> ScanRun list) \<Rightarrow> int \<Rightarrow> goerror \<Rightarrow> string \<Rightarrow> FleetDB \<Rightarrow> Asset result" where
  "AgentByID readOrder now fault host db =
     (case fault of Some e \<Rightarrow> Inl e | None \<Rightarrow>
       (case tblFind asHostUUID host (filter asManaged (fleetAssets db)) of
          None \<Rightarrow> Inl ''no rows in result set'' | Some a \<Rightarrow> Inr (assetRow readOrder now db a)))"

subsection \<open>Scans, connections, components, migrations\<close>

record ScanQueryParams =
  sqQuery :: QueryParams
  sqHostUUID :: string
  sqSeverity :: int
  sqDateFrom :: "int option"
  sqDateTo :: "int option"

text \<open>A scan with the name of its host; the tenant of the parameters is not read.\<close>

definition scanSelected :: "(string \<Rightarrow> string \<Rightarrow> bool) \<Rightarrow> ScanQueryParams \<Rightarrow> ScanRun \<times> string \<Rightarrow> bool" where
  "scanSelected ilike params = (\<lambda>(s, hostname).
     let q = qpSearch (sqQuery params); p = ''%'' @ q @ ''%'' in
     (sqHostUUID params = [] \<or> srHost s = sqHostUUID params) \<and>
     (sqSeverity params \<le> 0 \<or> sqSeverity params \<le> srMaxSeverity s) \<and>
     (case sqDateFrom params of None \<Rightarrow> True | Some d \<Rightarrow> d \<le> srFinished s) \<and>
     (case sqDateTo params of None \<Rightarrow> True | Some d \<Rightarrow> srFinished s \<le> d) \<and>
     (q = [] \<or> ilike p hostname \<or> ilike p (srScanID s) \<or> ilike p (srHost s)))"

definition scanColumn :: "string \<Rightarrow> ScanRun \<times> string \<Rightarrow> sortKey" where
  "scanColumn col = (\<lambda>(s, hostname).
     if col = ''hostname'' then TextKey hostname
     else if col = ''max_severity'' then NumKey (srMaxSeverity s)
     else if col = ''finding_count'' then NumKey (int (srFindingCount s))
     else if col = ''status'' then TextKey (srStatus s)
     else NumKey (srFinished s))"

definition joinedScans :: "FleetDB \<Rightarrow> (ScanRun \<times> string) list" where
  "joinedScans db = concat (map (\<lambda>s. case tblFind asHostUUID (srHost s) (fleetAssets db) of
     None \<Rightarrow> [] | Some a \<Rightarrow> [(s, asHostname a)]) (igScans (adMain (flAgents db))))"

definition ScanRuns :: "(string \<Rightarrow> string \<Rightarrow> bool) \<Rightarrow> (nat \<Rightarrow> goerror) \<Rightarrow> ScanQueryParams \<Rightarrow> FleetDB
    \<Rightarrow> ((ScanRun \<times> string) list \<times> nat) result" where
  "ScanRuns ilike faults params db =
     (case faults 0 of Some e \<Rightarrow> Inl e | None \<Rightarrow>
       (let col = scanColumn (qpSort (sqQuery params));
            rows = orderRows (columnBefore (\<lambda>x y. keyLess (col x) (col y)) (qpOrder (sqQuery params)) (srScanID \<circ> fst))
              (filter (scanSelected ilike params) (joinedScans db));
            page = window (clampLimit 50 (qpLimit (sqQuery params))) (qpOffset (sqQuery params)) rows
        in Inr (page, if faults 1 = None then length rows else length page)))"

text \<open>A missing date sorts after every date.\<close>

definition dateLess :: "int option \<Rightarrow> int option \<Rightarrow> bool" where
  "dateLess x y = (case x of None \<Rightarrow> False | Some d \<Rightarrow> (case y of None \<Rightarrow> True | Some e \<Rightarrow> d < e))"

definition sessionLess :: "string \<Rightarrow> ConnSession \<Rightarrow> ConnSession \<Rightarrow> bool" where
  "sessionLess col x y =
     (if col = ''disconnected_at'' then dateLess (cnDisconnectedAt x) (cnDisconnectedAt y)
      else if col = ''last_seen'' then cnLastSeen x < cnLastSeen y
      else if col = ''observed_ip'' then cnObservedIP x < cnObservedIP y
      else if col = ''agent_version'' then cnAgentVersion x < cnAgentVersion y
      else if col = ''status'' then cnStatus x < cnStatus y
      else cnConnectedAt x < cnConnectedAt y)"

definition ConnectionHistory :: "(string \<Rightarrow> string \<Rightarrow> bool) \<Rightarrow> (nat \<Rightarrow> goerror) \<Rightarrow> string \<Rightarrow> QueryParams \<Rightarrow> FleetDB
    \<Rightarrow> (ConnSession list \<times> nat) result" where
  "ConnectionHistory ilike faults host params db =
     (case faults 0 of Some e \<Rightarrow> Inl e | None \<Rightarrow>
       (let p = ''%'' @ qpSearch params @ ''%'';
            rows = orderRows (columnBefore (sessionLess (qpSort params)) (qpOrder params) cnSessionID)
              (filter (\<lambda>s. cnHost s = host \<and> (qpSearch params = [] \<or>
                 ilike p (cnObservedIP s) \<or> ilike p (cnAgentVersion s) \<or> ilike p (cnStatus s)))
                (adSessions (flAgents db)))
        in Inr (window (clampLimit 50 (qpLimit params)) (qpOffset params) rows,
                if faults 1 = None then length rows else 0)))"

text \<open>Components of the newest payload of each host, newest payload first, cut at the limit; the limit also
  bounds the number of payloads.\<close>

record Component =
  coHostUUID :: string
  coTelemetryID :: string
  coBomRef :: string
  coName :: string
  coVersion :: string
  coComponentType :: string
  coFilePath :: string
  coLanguage :: string
  coAlgorithms :: "string list"
  coDependencies :: "string list"
  coReachable :: bool
  coScanFinished :: int

definition payloadComponents :: "TelemetryRow \<Rightarrow> Component list" where
  "payloadComponents t = map (\<lambda>c.
     \<lparr>coHostUUID = tmHost t, coTelemetryID = tmID t, coBomRef = BomRef c, coName = cmpName c,
      coVersion = cmpVersion c, coComponentType = ComponentType c, coFilePath = FilePath c, coLanguage = Language c,
      coAlgorithms = filter (\<lambda>n. n \<noteq> []) (map algName (Algorithms c)), coDependencies = Dependencies c,
      coReachable = Reachable c, coScanFinished = ScanFinishedUnix (tmPayload t)\<rparr>) (Components (tmPayload t))"

definition latestPayloads :: "(TelemetryRow list \<Rightarrow> TelemetryRow list) \<Rightarrow> string \<Rightarrow> FleetDB \<Rightarrow> TelemetryRow list" where
  "latestPayloads readOrder tenantID db =
     (let rows = filter (\<lambda>t. inTenant tenantID db (tmHost t)) (readOrder (igTelemetry (adMain (flAgents db))))
      in map (\<lambda>h. hd (orderRows (\<lambda>x y. tmReceivedAt y < tmReceivedAt x) (filter (\<lambda>t. tmHost t = h) rows)))
           (remdups (map tmHost rows)))"

definition Components_list :: "(TelemetryRow list \<Rightarrow> TelemetryRow list) \<Rightarrow> goerror \<Rightarrow> int \<Rightarrow> string \<Rightarrow> FleetDB
    \<Rightarrow> Component list result" where
  "Components_list readOrder fault lmt tenantID db =
     (case fault of Some e \<Rightarrow> Inl e | None \<Rightarrow>
       (let n = nat (if lmt \<le> 0 \<or> 2000 < lmt then 500 else lmt);
            payloads = take n (orderRows (\<lambda>x y. tmReceivedAt y < tmReceivedAt x) (latestPayloads readOrder tenantID db))
        in Inr (take n (concat (map payloadComponents payloads)))))"

definition componentOf :: "ScanComponent \<Rightarrow> Component" where
  "componentOf c =
     \<lparr>coHostUUID = scHost c, coTelemetryID = scScanID c, coBomRef = scBomRef c, coName = scName c,
      coVersion = scVersion c, coComponentType = scType c, coFilePath = scFilePath c, coLanguage = scLanguage c,
      coAlgorithms = scAlgorithms c, coDependencies = scDependencies c, coReachable = scReachable c,
      coScanFinished = scFinished c\<rparr>"

definition componentSelected :: "(string \<Rightarrow> string \<Rightarrow> bool) \<Rightarrow> (ScanRun list \<Rightarrow> ScanRun list) \<Rightarrow> QueryParams \<Rightarrow> FleetDB
    \<Rightarrow> ScanComponent \<Rightarrow> bool" where
  "componentSelected ilike scanOrder params db c =
     (let p = ''%'' @ qpSearch params @ ''%'' in
      (qpHostUUID params = [] \<or> scHost c = qpHostUUID params) \<and>
      inTenant (qpTenantID params) db (scHost c) \<and>
      (if qpScanID params \<noteq> [] then scScanID c = qpScanID params
       else scScanID c \<in> set (latestScanIDs scanOrder [] db)) \<and>
      (qpAssetRef params = [] \<or> scBomRef c = qpAssetRef params \<or> scFilePath c = qpAssetRef params) \<and>
      (qpSearch params = [] \<or> ilike p (scName c) \<or> ilike p (scFilePath c) \<or> ilike p (scBomRef c)))"

definition ComponentsPaginated :: "(string \<Rightarrow> string \<Rightarrow> bool) \<Rightarrow> (ScanRun list \<Rightarrow> ScanRun list)
    \<Rightarrow> (ScanComponent list \<Rightarrow> ScanComponent list) \<Rightarrow> (nat \<Rightarrow> goerror) \<Rightarrow> QueryParams \<Rightarrow> FleetDB
    \<Rightarrow> (Component list \<times> nat) result" where
  "ComponentsPaginated ilike scanOrder readOrder faults params db =
     (case faults 0 of Some e \<Rightarrow> Inl e | None \<Rightarrow>
       (let rows = orderRows (\<lambda>x y. scFinished y < scFinished x)
              (filter (componentSelected ilike scanOrder params db) (readOrder (igComponents (adMain (flAgents db)))))
        in Inr (map componentOf (window (clampLimit 100 (qpLimit params)) (qpOffset params) rows),
                if faults 1 = None then length rows else 0)))"

definition Migrations_list :: "(MigrationRow list \<Rightarrow> MigrationRow list) \<Rightarrow> goerror \<Rightarrow> string \<Rightarrow> FleetDB \<Rightarrow> MigrationRow list result" where
  "Migrations_list readOrder fault tenantID db =
     (case fault of Some e \<Rightarrow> Inl e | None \<Rightarrow>
       Inr (take 200 (orderRows (\<lambda>x y. mgUpdatedAt y < mgUpdatedAt x)
         (filter (\<lambda>m. inTenant tenantID db (mgHost m)) (readOrder (adMigrations (flAgents db)))))))"

subsection \<open>Heartbeats\<close>

record AgentHeartbeat =
  hbHostUUID :: string
  hbScanProgress :: int
  hbScanPath :: string
  hbCPU :: real
  hbMem :: real
  hbStatus :: string
  hbFilesScanned :: int
  hbFilesSkipped :: int
  hbMetricsPresent :: "bool option"

definition int4 :: "int \<Rightarrow> bool" where
  "int4 x \<longleftrightarrow> -(2 ^ 31) \<le> x \<and> x < 2 ^ 31"

definition liveFrom :: "AgentHeartbeat \<Rightarrow> LiveColumns \<Rightarrow> LiveColumns" where
  "liveFrom hb lv =
     (let metricsPresent = (hbMetricsPresent hb = None \<or> hbMetricsPresent hb = Some True) in
      \<lparr>lvScanProgress = hbScanProgress hb, lvScanPath = hbScanPath hb,
       lvCPU = (if metricsPresent then hbCPU hb else lvCPU lv), lvMem = (if metricsPresent then hbMem hb else lvMem lv),
       lvStatus = hbStatus hb, lvFilesScanned = hbFilesScanned hb, lvFilesSkipped = hbFilesSkipped hb\<rparr>)"

text \<open>Columns of a progress event by which a repeated one is recognised.\<close>

definition eventData :: "ProgressEvent \<Rightarrow> int \<times> string \<times> string \<times> int" where
  "eventData e = (pgProgress e, pgPath e, pgStatus e, pgFiles e)"

text \<open>The transaction: the error of its second statement is dropped, but aborts it.\<close>

definition UpdateAgentHeartbeat :: "string \<Rightarrow> int \<Rightarrow> (nat \<Rightarrow> goerror) \<Rightarrow> AgentHeartbeat \<Rightarrow> FleetDB
    \<Rightarrow> goerror \<times> FleetDB" where
  "UpdateAgentHeartbeat fresh now faults hb db =
     (let host = hbHostUUID hb;
          known = host \<in> asHostUUID ` set (fleetAssets db);
          agents1 = updAssets (tblUpdate asHostUUID host (\<lambda>a. a\<lparr>asLastSeen := now\<rparr>)) (flAgents db);
          live1 = (if known then (flLive db)(host := liveFrom hb (flLive db host)) else flLive db);
          open_session = newest cnConnectedAt (\<lambda>s. cnHost s = host \<and> cnDisconnectedAt s = None) (adSessions agents1);
          sessions = (case open_session of None \<Rightarrow> adSessions agents1
             | Some s \<Rightarrow> tblUpdate cnSessionID (cnSessionID s) (\<lambda>r. r\<lparr>cnLastSeen := now, cnStatus := hbStatus hb\<rparr>)
                          (adSessions agents1));
          event = \<lparr>pgEventID = fresh, pgHost = host, pgProgress = hbScanProgress hb, pgPath = hbScanPath hb,
             pgStatus = hbStatus hb, pgFiles = hbFilesScanned hb, pgCPU = hbCPU hb, pgMem = hbMem hb, pgRecordedAt = now\<rparr>;
          repeated = (case newest pgRecordedAt (\<lambda>e. pgHost e = host) (flProgress db) of
             None \<Rightarrow> False | Some e \<Rightarrow> eventData e = eventData event)
      in if faults 0 \<noteq> None then (faults 0, db)
         else if \<not> (int4 (hbScanProgress hb) \<and> int4 (hbFilesScanned hb) \<and> int4 (hbFilesSkipped hb))
         then (Some ''integer out of range'', db)
         else if faults 1 \<noteq> None then (Some ''current transaction is aborted'', db)
         else if faults 2 \<noteq> None then (faults 2, db)
         else if \<not> repeated \<and> fresh \<in> pgEventID ` set (flProgress db)
         then (Some ''duplicate key value violates unique constraint'', db)
         else if \<not> repeated \<and> \<not> known
         then (Some ''insert on agent_progress_events violates foreign key constraint'', db)
         else if faults 3 \<noteq> None then (faults 3, db)
         else (None, \<lparr>flAgents = agents1\<lparr>adSessions := sessions\<rparr>, flLive = live1,
                     flProgress = (if repeated then flProgress db else flProgress db @ [event])\<rparr>))"

text \<open>The endpoint, which the authentication lets through: the host is the one that the body names.\<close>

definition agentHeartbeat :: "string \<Rightarrow> int \<Rightarrow> (nat \<Rightarrow> goerror) \<Rightarrow> string \<Rightarrow> AgentHeartbeat result \<Rightarrow> FleetDB
    \<Rightarrow> string answer \<times> FleetDB" where
  "agentHeartbeat fresh now faults httpMethod body db =
     (if httpMethod \<noteq> ''POST'' then (Inl (405, []), db)
      else case body of
        Inl e \<Rightarrow> (Inl internalError, db)
      | Inr hb \<Rightarrow>
          if hbHostUUID hb = [] then (Inl (400, ''host_uuid is required''), db)
          else (case UpdateAgentHeartbeat fresh now faults hb db of
                  (Some e, db') \<Rightarrow> (Inl internalError, db')
                | (None, db') \<Rightarrow> (Inr (hbHostUUID hb), db')))"


interpretation asset_seen: keyed_update asHostUUID "\<lambda>a. a\<lparr>asLastSeen := now\<rparr>" for now
  by unfold_locales simp

end
