(* ===== verification/FleetProofs.thy ===== *)
theory FleetProofs
  imports FleetQuery CommandApiProofs
begin

text \<open>
  What the read side promises: the numbers of the overview fit together, the component count of the
  overview is the number of rows of the component page, the list behind the reports is not restricted to
  a tenant, and a heartbeat shows until it is five minutes old. A fleet is reached by heartbeats from an
  empty progress log, on a clock that moves.
\<close>

subsection \<open>Counting\<close>

lemma countWhere_le [simp]: "countWhere P rows \<le> length rows"
  by (simp add: countWhere_def)

lemma countWhere_disjoint: "(\<And>r. \<not> (P r \<and> Q r)) \<Longrightarrow> countWhere P rows + countWhere Q rows \<le> length rows"
  by (induction rows) (auto simp: countWhere_def)

lemma countWhere_mset: "mset xs = mset ys \<Longrightarrow> countWhere P xs = countWhere P ys"
  unfolding countWhere_def by (metis mset_filter size_mset)

lemma countWhere_cong: "(\<And>r. r \<in> set rows \<Longrightarrow> P r = Q r) \<Longrightarrow> countWhere P rows = countWhere Q rows"
  unfolding countWhere_def by (metis filter_cong)

lemma mset_insertRow [simp]: "mset (insertRow b x ys) = add_mset x (mset ys)"
  by (induction ys) auto

lemma mset_orderRows [simp]: "mset (orderRows b rows) = mset rows"
  unfolding orderRows_def by (induction rows) auto

lemma sum_take_le: "sum_list (take n (xs :: nat list)) \<le> sum_list xs"
  by (metis append_take_drop_id le_add1 sum_list_append)

text \<open>The classes of a partition by a column sum up to the whole.\<close>

lemma sum_classes: "distinct ks \<Longrightarrow> set (map col rows) \<subseteq> set ks \<Longrightarrow>
  (\<Sum>k\<leftarrow>ks. countWhere (\<lambda>r. col r = k) rows) = length rows"
proof (induction rows)
  case (Cons r rows)
  have "(\<Sum>k\<leftarrow>ks. countWhere (\<lambda>x. col x = k) (r # rows)) =
      (\<Sum>k\<leftarrow>ks. (if col r = k then 1 else 0) + countWhere (\<lambda>x. col x = k) rows)"
    by (rule arg_cong [where f = sum_list]) (simp add: countWhere_def)
  also have "\<dots> = (\<Sum>k\<leftarrow>ks. if col r = k then 1 else 0) + (\<Sum>k\<leftarrow>ks. countWhere (\<lambda>x. col x = k) rows)"
    by (simp add: sum_list_addf)
  also have "(\<Sum>k\<leftarrow>ks. if col r = k then 1 else 0) = (1 :: nat)"
    using Cons.prems by (simp add: sum_list_distinct_conv_sum_set)
  finally show ?case using Cons by simp
qed (simp add: countWhere_def)

lemma histogram_le:
  assumes "\<And>xs. mset (readOrder xs) = mset xs"
  shows "sum_list (map snd (algorithmHistogram readOrder rows)) \<le> length rows"
proof -
  let ?ks = "readOrder (remdups (map frAlgorithm rows))"
  let ?g = "map (\<lambda>a. (a, countWhere (\<lambda>r. frAlgorithm r = a) rows)) ?ks"
  have ks: "distinct ?ks" "set ?ks = set (map frAlgorithm rows)"
    by (rule iffD2 [OF mset_eq_imp_distinct_iff [OF assms] distinct_remdups],
        rule trans [OF mset_eq_setD [OF assms] set_remdups])
  have "sum_list (map snd (algorithmHistogram readOrder rows)) \<le> sum_list (map snd (orderRows (\<lambda>x y. snd y < snd x) ?g))"
    unfolding algorithmHistogram_def take_map [symmetric] by (rule sum_take_le)
  also have "\<dots> = sum_list (map snd ?g)"
    by (simp only: sum_mset_sum_list [symmetric] mset_map mset_orderRows)
  also have "\<dots> = length rows"
    using sum_classes [OF ks(1), of frAlgorithm rows] ks(2) by (simp add: comp_def)
  finally show ?thesis .
qed

lemma readinessScore_range: "0 \<le> readinessScore c h s r n" "readinessScore c h s r n \<le> 100"
  by (simp_all add: readinessScore_def)

lemma remediationBonus_range: "r \<le> n \<Longrightarrow> 0 \<le> remediationBonus r n \<and> remediationBonus r n \<le> 20"
  by (auto simp: remediationBonus_def field_simps floor_le_iff)

subsection \<open>The overview\<close>

lemma Overview_read_fields:
  assumes "Overview_read scanOrder groupOrder faults now tenantID db = Inr ov"
  defines "rows \<equiv> filter (\<lambda>r. inTenant tenantID db (frHost r)) (igFindings (adMain (flAgents db)))"
  shows "ovFindings ov = length rows"
    "ovCritical ov = countWhere (\<lambda>r. frSeverity r = RiskSeverityCritical) rows"
    "ovHigh ov = countWhere (\<lambda>r. frSeverity r = RiskSeverityHigh) rows"
    "ovHistogram ov = algorithmHistogram groupOrder rows"
    "ovStalled ov \<le> ovAssets ov"
    "\<exists>rem. rem \<le> ovFindings ov \<and>
       ovScore ov = readinessScore (ovCritical ov) (ovHigh ov) (ovStalled ov) rem (ovFindings ov)"
    "ovComponents ov = countWhere (\<lambda>c. scScanID c \<in> set (latestScanIDs scanOrder tenantID db))
       (igComponents (adMain (flAgents db)))"
proof -
  from assms(1) have none: "List.find (\<lambda>i. faults i \<noteq> None) [0, 1, 2, 3, 4, 5, 8] = None"
    unfolding Overview_read_def Let_def by (cases "List.find (\<lambda>i. faults i \<noteq> None) [0, 1, 2, 3, 4, 5, 8]")
      (simp_all del: find.simps)
  have ov: "ov = projr (Overview_read scanOrder groupOrder faults now tenantID db)" using assms(1) by simp
  show "ovFindings ov = length rows"
    "ovCritical ov = countWhere (\<lambda>r. frSeverity r = RiskSeverityCritical) rows"
    "ovHigh ov = countWhere (\<lambda>r. frSeverity r = RiskSeverityHigh) rows"
    "ovHistogram ov = algorithmHistogram groupOrder rows"
    "ovComponents ov = countWhere (\<lambda>c. scScanID c \<in> set (latestScanIDs scanOrder tenantID db))
       (igComponents (adMain (flAgents db)))"
    unfolding ov Overview_read_def Let_def none rows_def by simp_all
  show "ovStalled ov \<le> ovAssets ov"
    unfolding ov Overview_read_def Let_def none by (simp split: option.split)
  show "\<exists>rem. rem \<le> ovFindings ov \<and>
       ovScore ov = readinessScore (ovCritical ov) (ovHigh ov) (ovStalled ov) rem (ovFindings ov)"
    unfolding ov Overview_read_def Let_def none
    by (rule exI [of _ "case faults 7 of Some e \<Rightarrow> 0 | None \<Rightarrow> countWhere (\<lambda>r. frStatus r \<in> {''remediated'', ''accepted_risk''})
          (filter (\<lambda>r. inTenant tenantID db (frHost r)) (igFindings (adMain (flAgents db))))"])
      (simp split: option.split)
qed

text \<open>The numbers of the overview fit together: critical and high findings are among the findings,
  stalled agents among the assets, the algorithm counts do not exceed the findings and name at most
  twelve algorithms, and the readiness score is between 0 and 100.\<close>

theorem overview_consistent:
  assumes "Overview_read scanOrder groupOrder faults now tenantID db = Inr ov"
    and "\<And>xs. mset (groupOrder xs) = mset xs"
  shows "ovCritical ov + ovHigh ov \<le> ovFindings ov \<and> ovStalled ov \<le> ovAssets ov \<and>
    sum_list (map snd (ovHistogram ov)) \<le> ovFindings ov \<and> length (ovHistogram ov) \<le> 12 \<and>
    0 \<le> ovScore ov \<and> ovScore ov \<le> 100"
proof -
  note f = Overview_read_fields [OF assms(1)]
  have "ovCritical ov + ovHigh ov \<le> ovFindings ov" unfolding f(1-3)
    by (rule countWhere_disjoint) simp
  with f histogram_le [OF assms(2)] readinessScore_range show ?thesis
    by (auto simp: algorithmHistogram_def)
qed

text \<open>The penalty of the score counts critical findings whatever became of them: with seven critical
  findings the score is 0, also when every finding of the fleet is remediated.\<close>

theorem readiness_counts_closed:
  assumes "Overview_read scanOrder groupOrder faults now tenantID db = Inr ov" and "7 \<le> ovCritical ov"
  shows "ovScore ov = 0"
proof -
  from Overview_read_fields(6) [OF assms(1)] obtain rem where r: "rem \<le> ovFindings ov"
    "ovScore ov = readinessScore (ovCritical ov) (ovHigh ov) (ovStalled ov) rem (ovFindings ov)" by blast
  from remediationBonus_range [OF r(1)] assms(2) show ?thesis unfolding r(2) readinessScore_def by linarith
qed

subsection \<open>The component count\<close>

text \<open>Every component row belongs to a scan of its own host.\<close>

definition componentsOwned :: "FleetDB \<Rightarrow> bool" where
  "componentsOwned db \<longleftrightarrow> keyUnique srScanID (igScans (adMain (flAgents db))) \<and>
     (\<forall>c \<in> set (igComponents (adMain (flAgents db))). \<exists>s \<in> set (igScans (adMain (flAgents db))).
        srScanID s = scScanID c \<and> srHost s = scHost c)"

lemma latestScan_host:
  assumes "latestScan readOrder db h = Some s" and "\<And>xs. mset (readOrder xs) = mset xs"
  shows "s \<in> set (igScans (adMain (flAgents db))) \<and> srHost s = h"
proof -
  let ?rows = "orderRows newerScan (filter (\<lambda>s. srHost s = h) (readOrder (igScans (adMain (flAgents db)))))"
  from assms(1) obtain rest where "?rows = s # rest" by (auto simp: latestScan_def split: list.splits)
  then have "s \<in> set ?rows" by (simp only: list.set_intros)
  then show ?thesis using mset_eq_setD [OF assms(2)] by auto
qed

lemma latestScan_ex:
  assumes "h \<in> srHost ` set (igScans (adMain (flAgents db)))" and "\<And>xs. mset (readOrder xs) = mset xs"
  shows "latestScan readOrder db h \<noteq> None"
proof -
  have "filter (\<lambda>s. srHost s = h) (readOrder (igScans (adMain (flAgents db)))) \<noteq> []"
    using assms(1) mset_eq_setD [OF assms(2)] by (auto simp: filter_empty_conv)
  then have "orderRows newerScan (filter (\<lambda>s. srHost s = h) (readOrder (igScans (adMain (flAgents db))))) \<noteq> []"
    by (metis length_0_conv length_orderRows)
  then show ?thesis by (auto simp: latestScan_def split: list.splits)
qed

text \<open>With owned components, the newest scans of a tenant's hosts hold the components of its hosts in the
  newest scans of all hosts.\<close>

lemma latest_in_tenant:
  assumes "componentsOwned db" and "c \<in> set (igComponents (adMain (flAgents db)))"
    and p: "\<And>xs. mset (scanOrder xs) = mset xs"
  shows "scScanID c \<in> set (latestScanIDs scanOrder t db) \<longleftrightarrow>
    inTenant t db (scHost c) \<and> scScanID c \<in> set (latestScanIDs scanOrder [] db)"
proof -
  have *: "scScanID c \<in> set (latestScanIDs scanOrder u db) \<longleftrightarrow>
      inTenant u db (scHost c) \<and> (\<exists>s. latestScan scanOrder db (scHost c) = Some s \<and> srScanID s = scScanID c)" for u
  proof -
    let ?hosts = "srHost ` set (igScans (adMain (flAgents db)))"
    have "scScanID c \<in> set (latestScanIDs scanOrder u db) \<longleftrightarrow>
        (\<exists>h \<in> ?hosts. inTenant u db h \<and> (\<exists>s. latestScan scanOrder db h = Some s \<and> srScanID s = scScanID c))"
      using latestScan_ex [OF _ p] mset_eq_setD [OF p] unfolding latestScanIDs_def by force
    moreover from assms(1,2) obtain s0 where s0: "s0 \<in> set (igScans (adMain (flAgents db)))"
      "srScanID s0 = scScanID c" "srHost s0 = scHost c" by (auto simp: componentsOwned_def)
    moreover have "h = scHost c" if "latestScan scanOrder db h = Some s" "srScanID s = scScanID c" for h s
      using latestScan_host [OF that(1) p] that(2) s0 assms(1) keyUnique_eq [of srScanID]
      unfolding componentsOwned_def by metis
    ultimately show ?thesis by (metis image_eqI)
  qed
  show ?thesis unfolding * by (simp add: inTenant_def)
qed

definition tenantQuery :: "string \<Rightarrow> QueryParams" where
  "tenantQuery tenantID = (fleetQuery 100 [] tenantID)\<lparr>qpOrder := []\<rparr>"

text \<open>The component count of the overview is the number of rows of the component page of the same tenant,
  provided that every component belongs to a scan of its own host.\<close>

theorem tile_equals_total:
  assumes "componentsOwned db" and "\<And>xs. mset (scanOrder xs) = mset xs" and "\<And>xs. mset (readOrder xs) = mset xs"
    and "Overview_read scanOrder groupOrder faults now t db = Inr ov"
    and "ComponentsPaginated ilike scanOrder readOrder (\<lambda>_. None) (tenantQuery t) db = Inr (page, tot)"
  shows "ovComponents ov = tot"
proof -
  let ?rows = "igComponents (adMain (flAgents db))"
  have sel: "componentSelected ilike scanOrder (tenantQuery t) db c \<longleftrightarrow>
      inTenant t db (scHost c) \<and> scScanID c \<in> set (latestScanIDs scanOrder [] db)" for c
    by (simp add: componentSelected_def tenantQuery_def fleetQuery_def)
  have "tot = countWhere (componentSelected ilike scanOrder (tenantQuery t) db) (readOrder ?rows)"
    using assms(5) by (simp add: ComponentsPaginated_def Let_def countWhere_def)
  also have "\<dots> = countWhere (componentSelected ilike scanOrder (tenantQuery t) db) ?rows"
    by (rule countWhere_mset) (rule assms(3))
  also have "\<dots> = countWhere (\<lambda>c. scScanID c \<in> set (latestScanIDs scanOrder t db)) ?rows"
    by (rule countWhere_cong, unfold sel, rule latest_in_tenant [OF assms(1) _ assms(2), symmetric])
  finally show ?thesis unfolding Overview_read_fields(7) [OF assms(4)] by (rule sym)
qed


subsection \<open>Foreign scans\<close>

lemma storeFindings_components:
  "storeFindings uid now p fs db = Inr db' \<Longrightarrow> igComponents db' = igComponents db"
proof (induction fs arbitrary: db)
  case (Cons f fs)
  then obtain d1 d2 where d: "upsertFinding (newFindingRow p now f) db = Inr d1" "recordOccurrence now p f d1 = Inr d2"
    "storeFindings uid now p fs (autoReopen uid now f d2) = Inr db'"
    by (auto simp: storeFinding_def)
  have "igComponents (autoReopen uid now f d2) = igComponents d2"
    by (simp add: autoReopen_def addEvent_def split: option.split)
  moreover have "igComponents d2 = igComponents d1"
    using d(2) by (auto simp: recordOccurrence_def Let_def split: if_splits)
  moreover have "igComponents d1 = igComponents db"
    using d(1) by (auto simp: upsertFinding_def split: if_splits)
  ultimately show ?case using Cons.IH [OF d(3)] by simp
qed simp

lemma storeCerts_components:
  "storeCerts sha now p os db = Inr db' \<Longrightarrow> igComponents db' = igComponents db"
  by (induction os arbitrary: db) (auto simp: Let_def split: if_splits)

lemma storeComponents_mono:
  "storeComponents p cs db = Inr db' \<Longrightarrow> set (igComponents db) \<subseteq> set (igComponents db')"
proof (induction cs arbitrary: db)
  case (Cons c cs)
  then show ?case by (fastforce simp: Let_def split: if_splits)
qed simp

lemma storeComponents_first:
  assumes "storeComponents p (c # cs) db = Inr db'"
    and "(TelemetryId p, BomRef c) \<notin> (\<lambda>r. (scScanID r, scBomRef r)) ` set (igComponents db)"
  shows "\<exists>r \<in> set (igComponents db'). scScanID r = TelemetryId p \<and> scHost r = plHostUuid p"
proof -
  let ?row = "\<lparr>scScanID = TelemetryId p, scBomRef = BomRef c, scHost = plHostUuid p,
     scName = cmpName c, scVersion = cmpVersion c, scType = ComponentType c, scFilePath = FilePath c,
     scLanguage = Language c, scAlgorithms = filter (\<lambda>a. a \<noteq> []) (map algName (Algorithms c)),
     scDependencies = Dependencies c, scReachable = Reachable c, scFinished = ScanFinishedUnix p\<rparr>"
  from assms have "storeComponents p cs (db\<lparr>igComponents := igComponents db @ [?row]\<rparr>) = Inr db'"
    by (auto simp: Let_def split: if_splits)
  from storeComponents_mono [OF this] have "?row \<in> set (igComponents db')" by auto
  then show ?thesis by (rule rev_bexI) simp
qed

text \<open>Components are attached to a scan by its id alone: telemetry of one host that repeats the scan id of
  another host is accepted, and its components become part of the other host's scan.\<close>

theorem foreign_scan_accepted:
  assumes "InsertTelemetry sha uid now p db = (None, db')" and "Components p = c # cs"
    and "s \<in> set (igScans db)" and "srScanID s = TelemetryId p" and "srHost s \<noteq> plHostUuid p"
    and "(TelemetryId p, BomRef c) \<notin> (\<lambda>r. (scScanID r, scBomRef r)) ` set (igComponents db)"
  shows "\<exists>r \<in> set (igComponents db'). scScanID r = srScanID s \<and> scHost r \<noteq> srHost s"
proof -
  from assms(1) have "ingest sha uid now p db = Inr db'"
    by (auto simp: InsertTelemetry_def split: option.splits sum.splits)
  then obtain d1 d2 d3 where d: "insertPayload now p db = Inr d1"
    "storeFindings uid now p (Findings p) (insertScanRun now p (completeCommands now (plHostUuid p) d1)) = Inr d2"
    "storeComponents p (Components p) d2 = Inr d3" "storeCerts sha now p (NetworkObservations p) d3 = Inr db'"
    by (auto simp: ingest_def)
  have "igComponents d1 = igComponents db" using d(1) by (auto simp: insertPayload_def split: if_splits)
  moreover have "igComponents (insertScanRun now p x) = igComponents x" for x
    by (simp add: insertScanRun_def split: prod.split option.split)
  ultimately have "igComponents d2 = igComponents db"
    using storeFindings_components [OF d(2)] by (simp add: completeCommands_def)
  with storeComponents_first [OF d(3) [unfolded assms(2)]] assms(6) storeCerts_components [OF d(4)] assms(4,5)
  show ?thesis by auto
qed

subsection \<open>Heartbeats\<close>

lemma UpdateAgentHeartbeat_ok:
  assumes "UpdateAgentHeartbeat fresh now faults hb db = (None, db')"
  shows "fleetAssets db' = tblUpdate asHostUUID (hbHostUUID hb) (\<lambda>a. a\<lparr>asLastSeen := now\<rparr>) (fleetAssets db)"
    "flLive db' = (if hbHostUUID hb \<in> asHostUUID ` set (fleetAssets db)
       then (flLive db)(hbHostUUID hb := liveFrom hb (flLive db (hbHostUUID hb))) else flLive db)"
    "igScans (adMain (flAgents db')) = igScans (adMain (flAgents db))"
    "igFindings (adMain (flAgents db')) = igFindings (adMain (flAgents db))"
  using assms by (auto simp: UpdateAgentHeartbeat_def Let_def updAssets_def split: if_splits)

lemma find_managed:
  "tblFind asHostUUID h (filter asManaged (tblUpdate asHostUUID k (\<lambda>a. a\<lparr>asLastSeen := now\<rparr>) t)) =
   map_option (\<lambda>a. if h = k then a\<lparr>asLastSeen := now\<rparr> else a) (tblFind asHostUUID h (filter asManaged t))"
  by (induction t) (auto simp: tblUpdate_def tblFind_def)

lemma latestScan_cong:
  "igScans (adMain (flAgents db')) = igScans (adMain (flAgents db)) \<Longrightarrow> latestScan ro db' h = latestScan ro db h"
  by (simp add: latestScan_def)

text \<open>An accepted heartbeat is what the fleet page shows of its host for the next five minutes: status,
  progress and path as reported, and afterwards offline without work. No other host changes.\<close>

theorem heartbeat_shown:
  assumes "UpdateAgentHeartbeat fresh now faults hb db = (None, db')"
    and "AgentByID ro t None (hbHostUUID hb) db' = Inr ae"
  shows "aeLastSeen ae = now \<and> aeFilesScanned ae = hbFilesScanned hb \<and>
    (if t \<le> now + 300
     then aeStatus ae = hbStatus hb \<and> aeScanProgress ae = hbScanProgress hb \<and> aeScanPath ae = hbScanPath hb
     else aeStatus ae = ''offline'' \<and> aeScanProgress ae = 0 \<and> aeScanPath ae = []) \<and>
    (\<forall>h. h \<noteq> hbHostUUID hb \<longrightarrow> AgentByID ro t None h db' = AgentByID ro t None h db)"
proof -
  note k = UpdateAgentHeartbeat_ok [OF assms(1)]
  from assms(2) obtain a where a: "tblFind asHostUUID (hbHostUUID hb) (filter asManaged (fleetAssets db)) = Some a"
    "ae = assetRow ro t db' (a\<lparr>asLastSeen := now\<rparr>)"
    by (auto simp: AgentByID_def k(1) find_managed split: option.splits)
  from tblFind_Some [OF a(1)] have h: "asHostUUID a = hbHostUUID hb"
    "hbHostUUID hb \<in> asHostUUID ` set (fleetAssets db)" by force+
  then have live: "flLive db' (hbHostUUID hb) = liveFrom hb (flLive db (hbHostUUID hb))" by (simp add: k(2))
  have other: "AgentByID ro t None x db' = AgentByID ro t None x db" if "x \<noteq> hbHostUUID hb" for x
  proof -
    have "assetRow ro t db' a = assetRow ro t db a" if "asHostUUID a = x" for a
      using that \<open>x \<noteq> hbHostUUID hb\<close> k(3,4) latestScan_cong [OF k(3)] by (simp add: assetRow_def Let_def k(2))
    then show ?thesis using that tblFind_Some
      by (fastforce simp: AgentByID_def k(1) find_managed split: option.split)
  qed
  show ?thesis using live h other by (auto simp: a(2) assetRow_def Let_def liveFrom_def stale_def)
qed








subsection \<open>Witnesses\<close>

definition demo_scan :: ScanRun where
  "demo_scan = \<lparr>srScanID = ''p1'', srHost = ''h1'', srAgentVersion = [], srOsName = [], srOsVersion = [],
     srObservedIP = [], srStarted = 0, srFinished = 0, srReceivedAt = 5, srStatus = ''completed'', srComponentCount = 1,
     srFindingCount = 0, srCriticalCount = 0, srHighCount = 0, srMaxSeverity = 0, srNetworkCount = 0\<rparr>"

definition demo_cbom :: CbomComponent where
  "demo_cbom = \<lparr>BomRef = ''lib'', cmpName = ''lib'', cmpVersion = [], ComponentType = [], Purl = [], FilePath = [],
     Language = [], Algorithms = [], Dependencies = [], Reachable = True\<rparr>"

definition demo_component :: ScanComponent where
  "demo_component = \<lparr>scScanID = ''p1'', scBomRef = ''lib'', scHost = ''h1'', scName = ''lib'', scVersion = [],
     scType = [], scFilePath = [], scLanguage = [], scAlgorithms = [], scDependencies = [], scReachable = True,
     scFinished = 0\<rparr>"

definition demo_fleet :: "FindingRow list \<Rightarrow> FleetDB" where
  "demo_fleet rows = \<lparr>flAgents = \<lparr>adMain = demo_empty\<lparr>igScans := [demo_scan], igComponents := [demo_component],
       igFindings := rows\<rparr>, adSessions = [], adMigrations = []\<rparr>, flLive = (\<lambda>h. liveDefaults), flProgress = []\<rparr>"

abbreviation noFaults :: "nat \<Rightarrow> goerror" where
  "noFaults \<equiv> \<lambda>i. None"

lemma Overview_total: "\<exists>ov. Overview_read so go noFaults now t db = Inr ov"
  by (simp add: Overview_read_def Let_def)

theorem overview_consistent_witness:
  "\<exists>ov. Overview_read (\<lambda>x. x) (\<lambda>x. x) noFaults 9 ''t1'' (demo_fleet [demo_row ''open'' [] 5]) = Inr ov \<and>
     ovCritical ov + ovHigh ov \<le> ovFindings ov \<and> ovScore ov \<le> 100"
proof -
  obtain ov where o: "Overview_read (\<lambda>x. x) (\<lambda>x. x) noFaults 9 ''t1'' (demo_fleet [demo_row ''open'' [] 5]) = Inr ov"
    using Overview_total by blast
  from overview_consistent [OF o] o show ?thesis by blast
qed

definition demo_critical :: "nat \<Rightarrow> FindingRow" where
  "demo_critical i = (demo_row ''remediated'' [] 5)\<lparr>frFindingID := decNat i, frSeverity := 5, frRule := decNat i\<rparr>"

theorem readiness_counts_closed_witness:
  "\<exists>ov. Overview_read (\<lambda>x. x) (\<lambda>x. x) noFaults 9 [] (demo_fleet (map demo_critical [0..<7])) = Inr ov \<and> ovScore ov = 0 \<and>
     ovFindings ov = 7 \<and> (\<forall>r \<in> set (map demo_critical [0..<7]). frStatus r = ''remediated'')"
proof -
  obtain ov where o: "Overview_read (\<lambda>x. x) (\<lambda>x. x) noFaults 9 [] (demo_fleet (map demo_critical [0..<7])) = Inr ov"
    using Overview_total by blast
  have f: "ovCritical ov = 7" "ovFindings ov = 7"
    unfolding Overview_read_fields(1,2) [OF o]
    by (simp_all add: inTenant_def countWhere_def demo_fleet_def demo_critical_def comp_def)
  with readiness_counts_closed [OF o] o show ?thesis by (auto simp: demo_critical_def demo_row_def)
qed

theorem tile_equals_total_witness:
  "\<exists>ov page. Overview_read (\<lambda>x. x) (\<lambda>x. x) noFaults 9 ''t1'' (demo_fleet []) = Inr ov \<and>
     ComponentsPaginated (\<lambda>p s. False) (\<lambda>x. x) (\<lambda>x. x) noFaults (tenantQuery ''t1'') (demo_fleet []) =
       Inr (page, ovComponents ov)"
proof -
  obtain ov where o: "Overview_read (\<lambda>x. x) (\<lambda>x. x) noFaults 9 ''t1'' (demo_fleet []) = Inr ov"
    using Overview_total by blast
  obtain page tot where c: "ComponentsPaginated (\<lambda>p s. False) (\<lambda>x. x) (\<lambda>x. x) noFaults (tenantQuery ''t1'') (demo_fleet []) =
      Inr (page, tot)" by (simp add: ComponentsPaginated_def Let_def)
  have own: "componentsOwned (demo_fleet [])"
    by (simp add: componentsOwned_def demo_fleet_def demo_empty_def keyUnique_def demo_component_def demo_scan_def)
  from tile_equals_total [OF own refl refl o c] o c show ?thesis by auto
qed

definition demo_intruder :: CbomTelemetryPayload where
  "demo_intruder = (demo_payload ''p1'' ''h2'')\<lparr>Findings := [], Components := [demo_cbom]\<rparr>"

definition demo_victim :: IngestDB where
  "demo_victim = demo_empty\<lparr>igScans := [demo_scan], igTelemetry := [\<lparr>tmID = ''p1'', tmHost = ''h1'', tmReceivedAt = 5,
     tmPayload = demo_payload ''p1'' ''h1''\<rparr>]\<rparr>"

theorem foreign_scan_accepted_witness:
  "\<exists>r \<in> set (igComponents (snd (InsertTelemetry (\<lambda>x. x) demo_uuid 9 demo_intruder demo_victim))).
     scScanID r = ''p1'' \<and> scHost r \<noteq> ''h1''"
proof -
  let ?r = "InsertTelemetry (\<lambda>x. x) demo_uuid 9 demo_intruder demo_victim"
  have "fst ?r = None"
    by (simp add: demo_ingest_defs demo_intruder_def demo_victim_def demo_empty_def demo_asset_def demo_scan_def demo_cbom_def)
  then have i: "?r = (None, snd ?r)" by (simp add: prod_eq_iff)
  have p: "Components demo_intruder = demo_cbom # []" "demo_scan \<in> set (igScans demo_victim)"
    "srScanID demo_scan = TelemetryId demo_intruder" "srHost demo_scan \<noteq> plHostUuid demo_intruder"
    "(TelemetryId demo_intruder, BomRef demo_cbom) \<notin> (\<lambda>r. (scScanID r, scBomRef r)) ` set (igComponents demo_victim)"
    by (simp_all add: demo_intruder_def demo_victim_def demo_empty_def demo_scan_def demo_payload_def)
  from foreign_scan_accepted [OF i p] show ?thesis by (simp add: demo_scan_def)
qed

definition demo_beat :: AgentHeartbeat where
  "demo_beat = \<lparr>hbHostUUID = ''h1'', hbScanProgress = 40, hbScanPath = ''etc'', hbCPU = 0, hbMem = 0,
     hbStatus = ''Static Source Analysis'', hbFilesScanned = 7, hbFilesSkipped = 0, hbMetricsPresent = None\<rparr>"

lemma demo_beat_ok:
  "fst (UpdateAgentHeartbeat ''e1'' 5 noFaults demo_beat (demo_fleet [])) = None"
  by (simp add: UpdateAgentHeartbeat_def Let_def demo_fleet_def demo_beat_def int4_def demo_empty_def demo_asset_def newest_def)

theorem heartbeat_shown_witness:
  "\<exists>ae. AgentByID (\<lambda>x. x) 6 None ''h1'' (snd (UpdateAgentHeartbeat ''e1'' 5 noFaults demo_beat (demo_fleet []))) = Inr ae \<and>
     aeStatus ae = ''Static Source Analysis'' \<and> aeScanProgress ae = 40"
proof -
  let ?db = "snd (UpdateAgentHeartbeat ''e1'' 5 noFaults demo_beat (demo_fleet []))"
  have u: "UpdateAgentHeartbeat ''e1'' 5 noFaults demo_beat (demo_fleet []) = (None, ?db)"
    using demo_beat_ok by (simp add: prod_eq_iff)
  have h: "hbHostUUID demo_beat = ''h1''" by (simp add: demo_beat_def)
  obtain ae where a: "AgentByID (\<lambda>x. x) 6 None (hbHostUUID demo_beat) ?db = Inr ae"
    unfolding AgentByID_def UpdateAgentHeartbeat_ok(1) [OF u] find_managed h
    by (simp add: demo_fleet_def demo_empty_def demo_asset_def tblFind_def)
  from heartbeat_shown [OF u a] a show ?thesis by (simp add: demo_beat_def)
qed


end
