(* ===== verification/Reports.thy ===== *)
theory Reports
  imports FleetProofs PolicyEngine
begin

text \<open>
  What leaves the server as a document: the enterprise report (\<open>reportHTML\<close>, \<^verbatim>\<open>httpapi/server.go\<close>), the
  compliance report (\<open>complianceReportHTML\<close>, \<^verbatim>\<open>features.go\<close>), the CSV exports of findings and audit log
  and the locations of the SARIF export. A document is the string that the handler writes. \<open>rfc3339\<close> prints
  a time as the handlers do, \<open>stamp\<close> as \<open>time.Time.String\<close>; the map of the histogram is walked in the
  order of its list.
\<close>

subsection \<open>Escaping\<close>

definition esc :: "string \<Rightarrow> string" where
  "esc s =
     replaceByte (CHR 0x27) ''&#39;''
       (replaceByte (CHR 0x22) ''&quot;''
         (replaceByte (CHR ''>'') ''&gt;''
           (replaceByte (CHR ''<'') ''&lt;''
             (replaceByte (CHR ''&'') ''&amp;'' s))))"

definition metric :: "string \<Rightarrow> nat \<Rightarrow> string" where
  "metric label val =
     ''<div class=\"metric\"><div class=\"muted\">'' @ esc label @ ''</div><strong>'' @ decNat val @
     ''</strong></div>''"

definition showBool :: "bool \<Rightarrow> string" where
  "showBool b = (if b then ''true'' else ''false'')"

text \<open>A table: the text before its rows, the rows, the text after them.\<close>

definition tableOf :: "string \<Rightarrow> ('r \<Rightarrow> string) \<Rightarrow> 'r list \<Rightarrow> string \<Rightarrow> string" where
  "tableOf before row rows after = before @ concat (map row rows) @ after"

subsection \<open>The compliance report\<close>

definition complianceHead :: string where
  "complianceHead =
     ''<!doctype html><html><head><meta charset=\"utf-8\"><title>Janus Compliance Report</title><st'' @
     ''yle>body{font-family:Segoe UI,Arial,sans-serif;margin:40px;color:#17211c;line-height:1.5}h'' @
     ''1{border-bottom:2px solid #11845b;padding-bottom:8px}h2{margin-top:24px;color:#11845b}tabl'' @
     ''e{border-collapse:collapse;width:100%;margin:12px 0}th,td{border:1px solid #dfe5dc;padding'' @
     '':8px;text-align:left}th{background:#edf1ea}.critical{color:#b42318;font-weight:700}.pass{c'' @
     ''olor:#11845b}.warn{color:#b54708}.toolbar{display:flex;gap:8px;margin-bottom:16px}.toolbar'' @
     '' button,.toolbar a{border:1px solid #dfe5dc;border-radius:5px;background:#fff;color:#17211'' @
     ''c;padding:8px 12px;text-decoration:none;cursor:pointer}.footer{margin-top:32px;font-size:0'' @
     ''.8em;color:#697469}</style></head><body><nav class=\"toolbar\" aria-label=\"Report navigation'' @
     ''\"><button type=\"button\" onclick=\"history.length > 1 ? history.back() : location.assign('' @
     [CHR 0x27] @ ''/'' @ [CHR 0x27] @ '')\">Back</button><a href=\"/\">Home</a></nav>''"

definition scoreClass :: "int \<Rightarrow> string" where
  "scoreClass score = (if score < 50 then ''critical'' else if score < 80 then ''warn'' else ''pass'')"

definition complianceSummary :: "string \<Rightarrow> Overview \<Rightarrow> Profile \<Rightarrow> string" where
  "complianceSummary generated ov profile =
     ''<h1>Janus CryptoBOM Compliance Report</h1>'' @
     ''<p>Generated: '' @ generated @ '' | Active Policy: <strong>'' @ Version profile @
     ''</strong> (RSA min '' @ decNat (MinimumRSAKeyBits profile) @ '', DH min '' @
     decNat (MinimumDHSafePrimeBits profile) @ '', TLS 1.3: '' @ showBool (RequireTLS13 profile) @
     '', Hybrid PQC: '' @ showBool (RequireHybridPQTLS13 profile) @ '')</p>'' @
     ''<h2>Fleet Quantum-Readiness Score: <span class=\"'' @ scoreClass (ovScore ov) @ ''\">'' @
     decInt (ovScore ov) @ ''/100</span></h2>'' @
     ''<h2>Executive Summary</h2>'' @
     ''<p>Assets: '' @ decNat (ovAssets ov) @ '' | Components: '' @ decNat (ovComponents ov) @
     '' | Findings: '' @ decNat (ovFindings ov) @ '' | Critical: '' @ decNat (ovCritical ov) @ '' | High: '' @
     decNat (ovHigh ov) @ '' | Stalled: '' @ decNat (ovStalled ov) @ '' | Open Migrations: '' @
     decNat (ovOpenMigrations ov) @ ''</p>'' @
     ''<h2>Regulatory Alignment</h2>''"

definition regulatoryTable :: "Overview \<Rightarrow> Profile \<Rightarrow> string" where
  "regulatoryTable ov profile =
     ''<p class=\"warn\"><em>Note: compliance labels below reflect scanner findings against policy '' @
     ''thresholds. They are evidence-dependent assessments, not formal certifications. A \"No find'' @
     ''ings\" result requires complete scan coverage to be meaningful.</em></p><table><tr><th>Fram'' @
     ''ework</th><th>Assessment</th><th>Remaining Gaps</th></tr><tr><td>NIST FIPS 203/204/205</td'' @ ''>'' @
     (if ovCritical ov = 0 \<and> ovHigh ov < 5
      then ''<td class=\"pass\">NO CRITICAL FINDINGS</td><td>Verify full scan coverage</td>''
      else ''<td class=\"critical\">FINDINGS PRESENT</td><td>'' @ decNat (ovCritical ov) @ '' critical, '' @
           decNat (ovHigh ov) @ '' high findings require remediation</td>'') @
     ''</tr><tr><td>CNSA 2.0</td>'' @
     (if PreferredKEM profile = ''ML-KEM-1024'' \<and> PreferredSignature profile = ''ML-DSA-87''
      then ''<td class=\"pass\">PROFILE ALIGNED</td><td>See NIST FIPS findings above</td>''
      else ''<td class=\"warn\">PROFILE MISMATCH</td><td>Activate CNSA 2.0 profile for ML-KEM-1024 + ML-D'' @
           ''SA-87</td>'') @
     ''</tr></table>''"

definition complianceAssetRow :: "(int \<Rightarrow> string) \<Rightarrow> int \<Rightarrow> Asset \<Rightarrow> string" where
  "complianceAssetRow rfc3339 now a =
     ''<tr><td>'' @ esc (aeHostname a) @ ''<br><small>'' @ esc (aeHostUUID a) @ ''</small></td><td>'' @
     aeOSName a @ '' '' @ aeOSVersion a @ ''</td><td>'' @ decInt (aeExecutionMode a) @ ''</td><td>'' @
     rfc3339 (aeLastSeen a) @ ''</td><td>'' @
     (if 300 < now - aeLastSeen a then ''<span class=\"critical\">STALLED</span>'' else []) @ ''</td></tr>''"

definition complianceFindingRow :: "Finding \<Rightarrow> string" where
  "complianceFindingRow f =
     (if 4 \<le> fdSeverity f
      then ''<tr><td class=\"critical\">'' @ decInt (fdSeverity f) @ ''</td><td>'' @ esc (fdTitle f) @
           ''</td><td>'' @ esc (fdAssetRef f) @ ''</td><td>'' @ esc (fdAlgorithm f) @ ''</td><td>'' @
           esc (fdPolicyRuleID f) @ ''</td></tr>''
      else [])"

definition complianceReportHTML :: "(int \<Rightarrow> string) \<Rightarrow> int \<Rightarrow> Overview \<Rightarrow> Asset list \<Rightarrow> Finding list \<Rightarrow> Profile \<Rightarrow> string" where
  "complianceReportHTML rfc3339 now ov as fs profile =
     complianceHead @ complianceSummary (rfc3339 now) ov profile @ regulatoryTable ov profile @
     tableOf (''<h2>Asset Inventory</h2><table><tr><th>Host</th><th>Platform</th><th>Mode</th><th>Last See'' @
              ''n</th><th>Status</th></tr>'') (complianceAssetRow rfc3339 now) as ''</table>'' @
     tableOf (''<h2>Critical & High Findings</h2><table><tr><th>Severity</th><th>Title</th><th>Asset</th><'' @
              ''th>Algorithm</th><th>Rule</th></tr>'') complianceFindingRow fs ''</table>'' @
     ''<div class=\"footer\">Janus CryptoBOM | Apache 2.0 | Generated from controller evidence | '' @
     rfc3339 now @ ''</div></body></html>''"

text \<open>The handler: an error of the overview ends it, one of the lists leaves the list empty.\<close>

record ReportEnv =
  reIlike :: "string \<Rightarrow> string \<Rightarrow> bool"
  reScanOrder :: "ScanRun list \<Rightarrow> ScanRun list"
  reGroupOrder :: "string list \<Rightarrow> string list"
  reJoinOrder :: "joined list \<Rightarrow> joined list"
  rePayloadOrder :: "TelemetryRow list \<Rightarrow> TelemetryRow list"
  reMigrationOrder :: "MigrationRow list \<Rightarrow> MigrationRow list"
  reFaults :: "nat \<Rightarrow> nat \<Rightarrow> goerror"
  reNow :: int
  reRfc3339 :: "int \<Rightarrow> string"
  reStamp :: "int \<Rightarrow> string"

definition orEmpty :: "'a list result \<Rightarrow> 'a list" where
  "orEmpty r = (case r of Inl e \<Rightarrow> [] | Inr xs \<Rightarrow> xs)"

definition reportOverview :: "ReportEnv \<Rightarrow> caller \<Rightarrow> FleetDB \<Rightarrow> Overview result" where
  "reportOverview env who db =
     Overview_read (reScanOrder env) (reGroupOrder env) (reFaults env 0) (reNow env) (TenantFromContext who) db"

definition reportAssets :: "ReportEnv \<Rightarrow> caller \<Rightarrow> FleetDB \<Rightarrow> Asset list result" where
  "reportAssets env who db =
     Assets_list (reIlike env) (reScanOrder env) (reNow env) (reFaults env 1) (TenantFromContext who) db"

definition reportFindingList :: "ReportEnv \<Rightarrow> caller \<Rightarrow> FleetDB \<Rightarrow> Finding list result" where
  "reportFindingList env who db =
     Findings_list (reJoinOrder env) (reFaults env 2 0) 500 (TenantFromContext who) (adMain (flAgents db))"

definition complianceReport :: "ReportEnv \<Rightarrow> string \<Rightarrow> caller \<Rightarrow> Profile \<Rightarrow> FleetDB \<Rightarrow> string answer" where
  "complianceReport env httpMethod who profile db =
     (if httpMethod \<noteq> ''GET'' then Inl (405, [])
      else case reportOverview env who db of
        Inl e \<Rightarrow> Inl internalError
      | Inr ov \<Rightarrow> Inr (complianceReportHTML (reRfc3339 env) (reNow env) ov (orEmpty (reportAssets env who db))
                       (orEmpty (reportFindingList env who db)) profile))"

subsection \<open>The enterprise report\<close>

definition reportHead :: string where
  "reportHead =
     ''<!doctype html><html><head><meta charset=\"utf-8\"><title>Janus CryptoBOM Report</title><sty'' @
     ''le>body{font-family:Segoe UI,Arial,sans-serif;margin:24px;color:#17211c;background:#f7f8f5'' @
     ''}table{border-collapse:collapse;width:100%;background:#fff;margin-bottom:24px}th,td{border'' @
     '':1px solid #dfe5dc;padding:8px;text-align:left;vertical-align:top}th{background:#edf1ea}.m'' @
     ''etric{display:inline-block;background:#fff;border:1px solid #dfe5dc;border-radius:6px;padd'' @
     ''ing:12px;margin:0 12px 12px 0}.sev5{color:#b42318;font-weight:700}.sev4{color:#b54708;font'' @
     ''-weight:700}.muted{color:#697469}</style></head><body><h1>Janus CryptoBOM Enterprise Repor'' @
     ''t</h1><p class=\"muted\">Generated from controller evidence, CBOM telemetry, and migration t'' @
     ''ransaction state.</p>''"

definition reportAssetRow :: "(int \<Rightarrow> string) \<Rightarrow> Asset \<Rightarrow> string" where
  "reportAssetRow stamp a =
     ''<tr><td>'' @ esc (aeHostname a) @ ''<br><span class=\"muted\">'' @ esc (aeHostUUID a) @
     ''</span></td><td>'' @ esc (aeOSName a) @ '' '' @ esc (aeOSVersion a) @ '' / '' @ esc (aeArch a) @
     ''</td><td>'' @ decInt (aeExecutionMode a) @ ''</td><td>'' @ esc (stamp (aeLastSeen a)) @ ''</td></tr>''"

definition reportComponentRow :: "Component \<Rightarrow> string" where
  "reportComponentRow c =
     ''<tr><td>'' @ esc (coName c) @ ''<br><span class=\"muted\">'' @ esc (coBomRef c) @ ''</span></td><td>'' @
     esc (coComponentType c) @ ''</td><td>'' @ esc (coFilePath c) @ ''</td><td>'' @
     esc (joinWith '', '' (coAlgorithms c)) @ ''</td></tr>''"

definition reportFindingRow :: "Finding \<Rightarrow> string" where
  "reportFindingRow f =
     ''<tr><td class=\"sev'' @ decInt (fdSeverity f) @ ''\">'' @ decInt (fdSeverity f) @ ''</td><td>'' @
     esc (fdTitle f) @ ''<br><span class=\"muted\">'' @ esc (fdDescription f) @ ''</span></td><td>'' @
     esc (fdAssetRef f) @ ''</td><td>'' @ esc (fdAlgorithm f) @ ''</td><td>'' @ esc (fdPolicyRuleID f) @
     ''</td><td>'' @ esc (fdMigrationProfile f) @ ''</td></tr>''"

definition reportMigrationRow :: "MigrationRow \<Rightarrow> string" where
  "reportMigrationRow m =
     ''<tr><td>'' @ esc (mgCommandID m) @ ''</td><td>'' @ esc (mgHost m) @ ''</td><td>'' @ esc (mgService m) @
     ''</td><td>'' @ esc (mgKem m) @ '' / '' @ esc (mgSig m) @ ''</td><td>'' @ decInt (mgState m) @
     ''</td><td>'' @ esc (mgLastError m) @ ''</td></tr>''"

definition reportDensityRow :: "string \<times> nat \<Rightarrow> string" where
  "reportDensityRow = (\<lambda>(algorithm, n). ''<tr><td>'' @ esc algorithm @ ''</td><td>'' @ decNat n @ ''</td></tr>'')"

definition reportBody :: "(int \<Rightarrow> string) \<Rightarrow> Overview \<Rightarrow> Asset list \<Rightarrow> Component list \<Rightarrow> Finding list \<Rightarrow> MigrationRow list \<Rightarrow> string" where
  "reportBody stamp ov as cs fs ms =
     reportHead @ metric ''Assets'' (ovAssets ov) @ metric ''Components'' (ovComponents ov) @
     metric ''Findings'' (ovFindings ov) @ metric ''Critical Findings'' (ovCritical ov) @
     metric ''Open Migrations'' (ovOpenMigrations ov) @
     tableOf (''<h2>Assets</h2><table><thead><tr><th>Host</th><th>Platform</th><th>Mode</th><th>Last Seen<'' @
              ''/th></tr></thead><tbody>'') (reportAssetRow stamp) as ''</tbody></table>'' @
     tableOf (''<h2>CBOM Components</h2><table><thead><tr><th>Component</th><th>Type</th><th>Path</th><th>'' @
              ''Algorithms</th></tr></thead><tbody>'') reportComponentRow cs ''</tbody></table>'' @
     tableOf (''<h2>Findings</h2><table><thead><tr><th>Severity</th><th>Finding</th><th>Asset</th><th>Algo'' @
              ''rithm</th><th>Rule</th><th>Migration Profile</th></tr></thead><tbody>'') reportFindingRow fs ''</tbody></table>'' @
     tableOf (''<h2>Migration Transactions</h2><table><thead><tr><th>Command</th><th>Host</th><th>Service<'' @
              ''/th><th>Target</th><th>State</th><th>Error</th></tr></thead><tbody>'') reportMigrationRow ms ''</tbody></table>'' @
     tableOf (''<h2>Algorithm Density</h2><table><thead><tr><th>Algorithm</th><th>Count</th></tr></thead><'' @
              ''tbody>'') reportDensityRow (ovHistogram ov) ''</tbody></table></body></html>''"

text \<open>Here every error of a list is an error of the report.\<close>

definition reportHTML :: "ReportEnv \<Rightarrow> caller \<Rightarrow> FleetDB \<Rightarrow> string answer" where
  "reportHTML env who db =
     (let tenant = TenantFromContext who in
      case reportOverview env who db of Inl e \<Rightarrow> Inl internalError | Inr ov \<Rightarrow>
      (case reportAssets env who db of Inl e \<Rightarrow> Inl internalError | Inr as \<Rightarrow>
      (case reportFindingList env who db of Inl e \<Rightarrow> Inl internalError | Inr fs \<Rightarrow>
      (case Components_list (rePayloadOrder env) (reFaults env 3 0) 500 tenant db of Inl e \<Rightarrow> Inl internalError | Inr cs \<Rightarrow>
      (case Migrations_list (reMigrationOrder env) (reFaults env 4 0) tenant db of Inl e \<Rightarrow> Inl internalError | Inr ms \<Rightarrow>
        Inr (reportBody (reStamp env) ov as cs fs ms))))))"

subsection \<open>CSV\<close>

definition csvEsc :: "string \<Rightarrow> string" where
  "csvEsc s =
     (if CHR '','' \<in> set s \<or> CHR 0x22 \<in> set s \<or> CHR 0x0A \<in> set s
      then CHR 0x22 # replaceByte (CHR 0x22) [CHR 0x22, CHR 0x22] s @ [CHR 0x22] else s)"

definition csvFindingHeader :: string where
  "csvFindingHeader =
     ''finding_id,host_uuid,severity,title,asset_ref,algorithm,policy_rule_id,migration_profile,status,created_at'' @
     [CHR 0x0A]"

definition csvFindingLine :: "(int \<Rightarrow> string) \<Rightarrow> Finding \<Rightarrow> string" where
  "csvFindingLine rfc3339 f =
     csvEsc (fdFindingID f) @ '','' @ csvEsc (fdHostUUID f) @ '','' @ decInt (fdSeverity f) @ '','' @
     csvEsc (fdTitle f) @ '','' @ csvEsc (fdAssetRef f) @ '','' @ csvEsc (fdAlgorithm f) @ '','' @
     csvEsc (fdPolicyRuleID f) @ '','' @ csvEsc (fdMigrationProfile f) @ '','' @
     csvEsc (fdStatus f) @ '','' @ rfc3339 (fdCreatedAt f) @ [CHR 0x0A]"

definition exportCSV :: "ReportEnv \<Rightarrow> caller \<Rightarrow> FleetDB \<Rightarrow> string answer" where
  "exportCSV env who db =
     (case Findings_list (reJoinOrder env) (reFaults env 2 0) 5000 (TenantFromContext who) (adMain (flAgents db)) of
        Inl e \<Rightarrow> Inl internalError
      | Inr fs \<Rightarrow> Inr (csvFindingHeader @ concat (map (csvFindingLine (reRfc3339 env)) fs)))"

definition csvAuditLine :: "(int \<Rightarrow> string) \<Rightarrow> AuditLog \<Rightarrow> string" where
  "csvAuditLine rfc3339 l =
     rfc3339 (alCreatedAt l) @ '','' @ csvEsc (alUsername l) @ '','' @ csvEsc (Action l) @ '','' @
     csvEsc (Details l) @ [CHR 0x0A]"

definition GetAuditLogs :: "goerror \<Rightarrow> AuditDB \<Rightarrow> AuditLog list result" where
  "GetAuditLogs fault db = (case fault of Some e \<Rightarrow> Inl e | None \<Rightarrow> Inr (take 100 (rev (auditRows db))))"

definition exportAuditCSV :: "(int \<Rightarrow> string) \<Rightarrow> goerror \<Rightarrow> AuditDB \<Rightarrow> string answer" where
  "exportAuditCSV rfc3339 fault db =
     (case GetAuditLogs fault db of
        Inl e \<Rightarrow> Inl internalError
      | Inr logs \<Rightarrow> Inr (''timestamp,username,action,details'' @ [CHR 0x0A] @ concat (map (csvAuditLine rfc3339) logs)))"

subsection \<open>SARIF\<close>

definition sarifSeverity :: "int \<Rightarrow> string" where
  "sarifSeverity sev = (if 5 \<le> sev then ''error'' else if 3 \<le> sev then ''warning'' else ''note'')"

text \<open>The number of a line on 64 bits; another byte than a digit ends the loop with -1.\<close>

fun lineVal :: "64 word \<Rightarrow> string \<Rightarrow> 64 word" where
  "lineVal n [] = n"
| "lineVal n (c # s) =
     (if isDigit c then lineVal (n * 10 + word_of_int (int (digitVal c))) s else - 1)"

text \<open>The location: the path, and the line if there is a region.\<close>

definition parseSARIFLocation :: "string \<Rightarrow> string \<times> int option" where
  "parseSARIFLocation assetRef =
     (case afterLastByte (CHR '':'') assetRef of
        None \<Rightarrow> (assetRef, None)
      | Some sfx \<Rightarrow>
          (let i = length assetRef - length sfx - 1; n = sint (lineVal 0 sfx)
           in if 0 < i \<and> 0 < n then (take i assetRef, Some n) else (assetRef, None)))"

end
