(* ===== verification/ReportProofs.thy ===== *)
theory ReportProofs
  imports Reports
begin

text \<open>
  What the documents give away: escaped text has no markup, the exports are read back field by field, and
  the compliance report names the agents of every tenant and repeats the operating system they claim
  letter by letter.
\<close>

subsection \<open>Escaping\<close>

lemma mem_replaceByte: "x \<in> set (replaceByte c r s) \<longleftrightarrow> (x \<in> set s \<and> x \<noteq> c) \<or> (c \<in> set s \<and> x \<in> set r)"
  by (auto simp: replaceByte_def split: if_splits)

text \<open>No byte that could end a text or an attribute.\<close>

definition markup :: "char set" where
  "markup = {CHR ''<'', CHR ''>'', CHR 0x22, CHR 0x27}"

lemma esc_free: "x \<in> markup \<Longrightarrow> x \<notin> set (esc s)"
  by (auto simp: markup_def esc_def mem_replaceByte)

subsection \<open>Parts of a document\<close>

lemma sublist_concat: "x \<in> set xs \<Longrightarrow> sublist (f x) (concat (map f xs))"
  by (auto simp: in_set_conv_decomp)

lemma sublist_of_row: "sublist s (f x) \<Longrightarrow> x \<in> set xs \<Longrightarrow> sublist s (concat (map f xs))"
  by (rule sublist_order.order_trans [OF _ sublist_concat])

lemma sublist_here: "sublist s (s @ t)"
  by simp

lemma sublist_skip: "sublist s t \<Longrightarrow> sublist s (u @ t)"
  unfolding sublist_def by (metis append_assoc)

lemma Assets_list_small:
  assumes "length (filter asManaged (fleetAssets db)) \<le> 50" and "faults 0 = None"
  shows "\<exists>as. Assets_list ilike ro now faults t db = Inr as \<and>
    set as = assetRow ro now db ` {a \<in> set (fleetAssets db). asManaged a}"
proof -
  let ?p = "fleetParams (fleetQuery 5000 ''last_seen'' t) []"
  have sel: "assetSelected ilike ro now ?p db = asManaged"
    by (simp add: assetSelected_def fleetParams_def fleetQuery_def statusFilter_def fun_eq_iff)
  let ?rows = "orderRows (columnBefore (\<lambda>x y. keyLess (assetColumn ''last_seen'' ro db x) (assetColumn ''last_seen'' ro db y))
    ''desc'' asHostUUID) (filter asManaged (fleetAssets db))"
  have "Assets_list ilike ro now faults t db = Inr (map (assetRow ro now db) (take 50 ?rows))"
    unfolding Assets_list_def AssetsPaginated_def sel Let_def
    by (simp add: assms(2) fleetParams_def fleetQuery_def clampLimit_def window_def)
  moreover have "take 50 ?rows = ?rows" using assms(1) by simp
  ultimately show ?thesis by auto
qed

text \<open>The compliance report is of all tenants and trusts the agents: whoever asks, every managed agent of
  a fleet of at most fifty is in it, of whatever tenant, and the name of its operating system, which the
  agent itself reported, stands in the page byte by byte, markup and scripts included.\<close>

theorem report_repeats_agents:
  assumes "complianceReport env ''GET'' who profile db = Inr html"
    and "a \<in> set (fleetAssets db)" and "asManaged a" and "length (filter asManaged (fleetAssets db)) \<le> 50"
    and "reFaults env 1 0 = None"
  shows "sublist (asOsName a) html \<and> sublist (esc (asHostUUID a)) html"
proof -
  obtain as where as: "reportAssets env who db = Inr as"
    "set as = assetRow (reScanOrder env) (reNow env) db ` {a \<in> set (fleetAssets db). asManaged a}"
    unfolding reportAssets_def using Assets_list_small [where faults = "reFaults env 1", OF assms(4) assms(5)] by blast
  let ?a = "assetRow (reScanOrder env) (reNow env) db a"
  let ?row = "complianceAssetRow (reRfc3339 env) (reNow env)"
  have in_as: "?a \<in> set as" using assms(2,3) as(2) by blast
  have fields: "aeOSName ?a = asOsName a" "aeHostUUID ?a = asHostUUID a" by (simp_all add: assetRow_def Let_def)
  have "sublist (aeOSName ?a) (?row ?a)" "sublist (esc (aeHostUUID ?a)) (?row ?a)"
    unfolding complianceAssetRow_def by (rule sublist_here | rule sublist_skip)+
  with sublist_of_row [OF _ in_as] have rows: "sublist (asOsName a) (concat (map ?row as))"
    "sublist (esc (asHostUUID a)) (concat (map ?row as))" by (auto simp: fields)
  from assms(1) obtain ov where "html = complianceReportHTML (reRfc3339 env) (reNow env) ov as
      (orEmpty (reportFindingList env who db)) profile"
    unfolding complianceReport_def by (auto simp: as(1) orEmpty_def split: sum.splits)
  then have "sublist (concat (map ?row as)) html"
    unfolding complianceReportHTML_def tableOf_def append_assoc by (elim ssubst) (rule sublist_here | rule sublist_skip)+
  with rows show ?thesis using sublist_order.order_trans by metis
qed

subsection \<open>CSV\<close>

text \<open>A reader of CSV as RFC 4180 describes it, with lines that end in a line feed: where it is in a field, the
  field and the record read so far, both reversed.\<close>

datatype csvMode = AtStart | InPlain | InQuotes | AfterQuote

definition endsField :: "char \<Rightarrow> bool" where
  "endsField c \<longleftrightarrow> c = CHR '','' \<or> c = CHR 0x0A"

fun csvScan :: "csvMode \<Rightarrow> string \<Rightarrow> string list \<Rightarrow> string \<Rightarrow> string list list" where
  "csvScan m f r [] = (if m = AtStart \<and> r = [] then [] else [rev (rev f # r)])"
| "csvScan m f r (c # s) =
     (if m = InQuotes then (if c = CHR 0x22 then csvScan AfterQuote f r s else csvScan InQuotes (c # f) r s)
      else if m = AtStart \<and> c = CHR 0x22 then csvScan InQuotes [] r s
      else if m = AfterQuote \<and> c = CHR 0x22 then csvScan InQuotes (c # f) r s
      else if c = CHR '','' then csvScan AtStart [] (rev f # r) s
      else if c = CHR 0x0A then rev (rev f # r) # csvScan AtStart [] [] s
      else csvScan InPlain (c # f) r s)"

definition csvRead :: "string \<Rightarrow> string list list" where
  "csvRead s = csvScan AtStart [] [] s"

text \<open>What happens at the end of a field.\<close>

definition fieldEnd :: "char \<Rightarrow> string \<Rightarrow> string list \<Rightarrow> string \<Rightarrow> string list list" where
  "fieldEnd c f r t = (if c = CHR '','' then csvScan AtStart [] (f # r) t else rev (f # r) # csvScan AtStart [] [] t)"

definition plainField :: "string \<Rightarrow> bool" where
  "plainField s \<longleftrightarrow> CHR '','' \<notin> set s \<and> CHR 0x22 \<notin> set s \<and> CHR 0x0A \<notin> set s"

lemma scan_plain: "plainField p \<Longrightarrow> endsField c \<Longrightarrow> csvScan InPlain f r (p @ c # t) = fieldEnd c (rev f @ p) r t"
  by (induction p arbitrary: f) (auto simp: plainField_def endsField_def fieldEnd_def)

lemma scan_start: "plainField p \<Longrightarrow> endsField c \<Longrightarrow> csvScan AtStart [] r (p @ c # t) = fieldEnd c p r t"
  using scan_plain [of "tl p" c "[hd p]" r t]
  by (cases p) (auto simp: plainField_def endsField_def fieldEnd_def)

lemma scan_quotes: "endsField c \<Longrightarrow>
  csvScan InQuotes f r (replaceByte (CHR 0x22) [CHR 0x22, CHR 0x22] s @ CHR 0x22 # c # t) = fieldEnd c (rev f @ s) r t"
  by (induction s arbitrary: f) (auto simp: replaceByte_def endsField_def fieldEnd_def)

lemma scan_csvEsc: "endsField c \<Longrightarrow> csvScan AtStart [] r (csvEsc s @ c # t) = fieldEnd c s r t"
  using scan_quotes [of c "[]" r s t] scan_start [of s c r t] by (simp add: csvEsc_def plainField_def)

lemma plainField_decInt [simp]: "plainField (decInt i)"
  by (auto simp: plainField_def isDigit_def dest!: decInt_chars)

definition csvFindingFields :: "(int \<Rightarrow> string) \<Rightarrow> Finding \<Rightarrow> string list" where
  "csvFindingFields rfc3339 f =
     [fdFindingID f, fdHostUUID f, decInt (fdSeverity f), fdTitle f, fdAssetRef f, fdAlgorithm f,
      fdPolicyRuleID f, fdMigrationProfile f, fdStatus f, rfc3339 (fdCreatedAt f)]"

lemma scan_line:
  assumes "plainField (rfc3339 (fdCreatedAt f))"
  shows "csvScan AtStart [] [] (csvFindingLine rfc3339 f @ t) = csvFindingFields rfc3339 f # csvScan AtStart [] [] t"
proof -
  have e: "endsField (CHR '','')" "endsField (CHR 0x0A)" by (simp_all add: endsField_def)
  have comma: "csvScan AtStart [] r (csvEsc s @ CHR '','' # u) = csvScan AtStart [] (s # r) u"
    "plainField p \<Longrightarrow> csvScan AtStart [] r (p @ CHR '','' # u) = csvScan AtStart [] (p # r) u"
    "plainField p \<Longrightarrow> csvScan AtStart [] r (p @ CHR 0x0A # u) = rev (p # r) # csvScan AtStart [] [] u" for r s p u
    using scan_csvEsc [OF e(1)] scan_start [OF _ e(1)] scan_start [OF _ e(2)] by (simp_all add: fieldEnd_def)
  show ?thesis
    by (simp add: csvFindingLine_def csvFindingFields_def comma assms del: csvScan.simps)
qed

lemma scan_header: "csvScan AtStart [] [] (csvFindingHeader @ t) =
  [''finding_id'', ''host_uuid'', ''severity'', ''title'', ''asset_ref'', ''algorithm'', ''policy_rule_id'',
   ''migration_profile'', ''status'', ''created_at''] # csvScan AtStart [] [] t"
  by (simp add: csvFindingHeader_def)

text \<open>The CSV export is read back exactly: a reader of RFC 4180 gets the header and one record for each
  finding with its ten fields, whatever commas, quotes and line breaks the fields contain.\<close>

theorem csv_export_roundtrip:
  assumes "exportCSV env who db = Inr doc" and "\<And>t. plainField (reRfc3339 env t)"
  shows "\<exists>fs. Findings_list (reJoinOrder env) (reFaults env 2 0) 5000 (TenantFromContext who) (adMain (flAgents db)) = Inr fs \<and>
    csvRead doc =
      [''finding_id'', ''host_uuid'', ''severity'', ''title'', ''asset_ref'', ''algorithm'', ''policy_rule_id'',
       ''migration_profile'', ''status'', ''created_at''] # map (csvFindingFields (reRfc3339 env)) fs"
proof -
  from assms(1) obtain fs where
    fs: "Findings_list (reJoinOrder env) (reFaults env 2 0) 5000 (TenantFromContext who) (adMain (flAgents db)) = Inr fs"
    and t: "doc = csvFindingHeader @ concat (map (csvFindingLine (reRfc3339 env)) fs)"
    by (auto simp: exportCSV_def split: sum.splits)
  have "csvScan AtStart [] [] (concat (map (csvFindingLine (reRfc3339 env)) xs)) =
      map (csvFindingFields (reRfc3339 env)) xs" for xs
    by (induction xs) (simp_all add: scan_line assms(2))
  then show ?thesis using fs by (simp add: t csvRead_def scan_header)
qed

subsection \<open>SARIF\<close>

lemma lineVal_digits:
  "list_all isDigit s \<Longrightarrow> lineVal (word_of_nat n) s = word_of_nat (fold (\<lambda>c n. n * 10 + digitVal c) s n)"
proof (induction s arbitrary: n)
  case (Cons c s)
  have "word_of_nat n * 10 + word_of_int (int (digitVal c)) = (word_of_nat (n * 10 + digitVal c) :: 64 word)" by simp
  with Cons show ?case by (simp only: lineVal.simps list.pred_inject fold_simps if_True)
qed simp

lemma lineVal_decNat: "lineVal 0 (decNat n) = word_of_nat n"
  using lineVal_digits [of "decNat n" 0] readDec_decNat [of n]
  by (simp add: readDec_def list_all_iff decNat_digits)

text \<open>Every reference that ends in a colon and a decimal number is taken for a line of a file, network
  endpoints with a port too, although the comment of the function says that these get no region.\<close>

theorem sarif_line_read:
  assumes "h \<noteq> []" and "0 < n" and "n < 2 ^ 63"
  shows "parseSARIFLocation (h @ CHR '':'' # decNat n) = (h, Some (int n))"
proof -
  have c: "CHR '':'' \<notin> set (decNat n)" by (auto dest!: decNat_digits simp: isDigit_def)
  have "takeWhile (\<lambda>x. x \<noteq> CHR '':'') (rev (decNat n) @ CHR '':'' # rev h) = rev (decNat n)"
    using c by (subst takeWhile_append2) auto
  then have "afterLastByte (CHR '':'') (h @ CHR '':'' # decNat n) = Some (decNat n)"
    by (simp add: afterLastByte_def)
  moreover have "sint (word_of_nat n :: 64 word) = int n"
    using assms(3) by (simp add: signed_of_nat signed_take_bit_int_eq_self)
  ultimately show ?thesis using assms(1,2) by (simp add: parseSARIFLocation_def lineVal_decNat Let_def)
qed


subsection \<open>Witnesses\<close>

definition demo_report_env :: ReportEnv where
  "demo_report_env = \<lparr>reIlike = (\<lambda>p s. False), reScanOrder = (\<lambda>x. x), reGroupOrder = (\<lambda>x. x),
     reJoinOrder = (\<lambda>x. x), rePayloadOrder = (\<lambda>x. x), reMigrationOrder = (\<lambda>x. x), reFaults = (\<lambda>i. noFaults),
     reNow = 9, reRfc3339 = decInt, reStamp = decInt\<rparr>"

definition demo_profile :: Profile where
  "demo_profile = \<lparr>Version = [], MinimumRSAKeyBits = 2048, MinimumDHSafePrimeBits = 2048, RequireTLS13 = True,
     RequireHybridPQTLS13 = True, PreferredKEM = [], PreferredSignature = [], MinimumConfidence = 0,
     prEffectiveDate = [], FrameworkMappings = []\<rparr>"

definition demo_script :: string where
  "demo_script = ''<script>alert(1)</script>''"

definition demo_hostile :: FleetDB where
  "demo_hostile = \<lparr>flAgents = \<lparr>adMain = demo_empty\<lparr>igAssets := [(demo_asset ''h2'' ''t2'')\<lparr>asOsName := demo_script\<rparr>]\<rparr>,
     adSessions = [], adMigrations = []\<rparr>, flLive = (\<lambda>h. liveDefaults), flProgress = []\<rparr>"

lemma demo_reported_overview: "\<exists>ov. reportOverview demo_report_env who db = Inr ov"
  using Overview_total by (simp add: reportOverview_def demo_report_env_def)

text \<open>A caller of tenant \<open>t1\<close> gets the script of an agent of tenant \<open>t2\<close>.\<close>

theorem report_repeats_agents_witness:
  "\<exists>html. complianceReport demo_report_env ''GET'' demo_operator demo_profile demo_hostile = Inr html \<and>
     sublist demo_script html"
proof -
  let ?a = "(demo_asset ''h2'' ''t2'')\<lparr>asOsName := demo_script\<rparr>"
  obtain html where h: "complianceReport demo_report_env ''GET'' demo_operator demo_profile demo_hostile = Inr html"
    using demo_reported_overview [of demo_operator demo_hostile] by (auto simp: complianceReport_def)
  have a: "?a \<in> set (fleetAssets demo_hostile)" "asManaged ?a" "length (filter asManaged (fleetAssets demo_hostile)) \<le> 50"
    "reFaults demo_report_env 1 0 = None"
    by (simp_all add: demo_hostile_def demo_asset_def demo_report_env_def)
  from report_repeats_agents [OF h a] h show ?thesis by auto
qed

theorem csv_export_roundtrip_witness:
  "\<exists>doc fs. exportCSV demo_report_env demo_operator (demo_fleet []) = Inr doc \<and>
     csvRead doc = [''finding_id'', ''host_uuid'', ''severity'', ''title'', ''asset_ref'', ''algorithm'',
       ''policy_rule_id'', ''migration_profile'', ''status'', ''created_at''] # map (csvFindingFields decInt) fs"
proof -
  obtain doc where t: "exportCSV demo_report_env demo_operator (demo_fleet []) = Inr doc"
    by (simp add: exportCSV_def demo_report_env_def Findings_list_def)
  have r: "reRfc3339 demo_report_env = decInt" by (simp add: demo_report_env_def)
  have p: "plainField (reRfc3339 demo_report_env t)" for t by (simp add: r)
  from csv_export_roundtrip [OF t p] t show ?thesis unfolding r by blast
qed

end
