(* ===== verification/LLMApi.thy ===== *)
theory LLMApi
  imports CommandApiProofs LLMProofs
begin

text \<open>
  The HTTP handlers of the LLM capability: \<^verbatim>\<open>httpapi/llm_analysis.go\<close> and \<^verbatim>\<open>httpapi/llm_batch.go\<close>, with the
  statements of \<^verbatim>\<open>store/store.go\<close> that only they use. A batch is submitted by its handler and worked off by
  goroutines behind a semaphore; that part is a step relation whose steps are the spawning of a goroutine,
  its start, the end of its analysis and the release of its slot. \<open>marshal\<close> prints the evidence of a
  finding as JSON, \<open>readOrder\<close> is the order in which the database reads rows.
\<close>

subsection \<open>State\<close>

record batchState =
  BatchID :: string
  bsCreatedBy :: string
  bsCreatedAt :: int
  bsTotal :: int
  bsQueued :: int
  bsRunning :: int
  bsCompleted :: int
  bsFailed :: int
  bsSkipped :: int
  bsJobs :: "string \<rightharpoonup> string"

record LLMApi =
  laService :: LLMService
  laMain :: IngestDB
  laAudit :: AuditDB
  laBatches :: "string \<rightharpoonup> batchState"

text \<open>What is sent to the provider about a finding.\<close>

record FindingEvidence =
  feFindingID :: string
  feAlgorithm :: string
  feTitle :: string
  feDescription :: string
  feAssetRef :: string
  feSeverity :: int
  feConfidence :: real
  feStatus :: string
  feRule :: string
  feSensitivity :: string

record LLMCall =
  lcEnv :: LLMEnv
  lcClock :: LLMClock
  lcNow :: int
  lcLogID :: string
  lcBatchID :: string
  lcSha :: "string \<Rightarrow> string"
  lcMarshal :: "FindingEvidence \<Rightarrow> string"
  lcScan :: "joined list \<Rightarrow> joined list"
  lcFault :: goerror

definition onService :: "(LLMService \<Rightarrow> 'a \<times> LLMService) \<Rightarrow> LLMApi \<Rightarrow> 'a \<times> LLMApi" where
  "onService act st = (let (r, s) = act (laService st) in (r, st\<lparr>laService := s\<rparr>))"

definition llmAudit :: "LLMCall \<Rightarrow> string \<Rightarrow> string \<Rightarrow> string \<Rightarrow> LLMApi \<Rightarrow> LLMApi" where
  "llmAudit c user action details st =
     st\<lparr>laAudit := snd (InsertAuditLog (lcSha c) (lcLogID c) (lcNow c)
       \<lparr>LogID = [], alUsername = user, Action = action, Details = details, alCreatedAt = 0, PrevHash = [],
        EntryHash = []\<rparr> (laAudit st))\<rparr>"

definition orAdmin :: "caller \<Rightarrow> string" where
  "orAdmin who = (if callerUser who = [] then ''admin'' else callerUser who)"

definition visibleFindings :: "LLMCall \<Rightarrow> caller \<Rightarrow> LLMApi \<Rightarrow> Finding list result" where
  "visibleFindings c who st = Findings_list (lcScan c) (lcFault c) 5000 (TenantFromContext who) (laMain st)"

subsection \<open>Statements\<close>

definition GetVerdictByFinding :: "string \<Rightarrow> LLMStore \<Rightarrow> LLMVerdict result \<times> LLMStore" where
  "GetVerdictByFinding findingID db =
     (case exec (\<lambda>d. (None, d)) db of
        (Some e, d) \<Rightarrow> (Inl e, d)
      | (None, d) \<Rightarrow> (case newest vdCreatedAt (\<lambda>v. vdFindingID v = findingID) (lsVerdicts d) of
                         None \<Rightarrow> (Inl ''no rows in result set'', d)
                       | Some v \<Rightarrow> (Inr v, d)))"

definition GetSuggestionByJob :: "string \<Rightarrow> LLMStore \<Rightarrow> LLMSuggestion result \<times> LLMStore" where
  "GetSuggestionByJob jobID db =
     (case exec (\<lambda>d. (None, d)) db of
        (Some e, d) \<Rightarrow> (Inl e, d)
      | (None, d) \<Rightarrow> (case tblFind sgJobID jobID (lsSuggestions d) of
                         None \<Rightarrow> (Inl ''no rows in result set'', d)
                       | Some s \<Rightarrow> (Inr s, d)))"

definition ListProvenance :: "(LLMProvenance list \<Rightarrow> LLMProvenance list) \<Rightarrow> string \<Rightarrow> LLMStore
    \<Rightarrow> LLMProvenance list result \<times> LLMStore" where
  "ListProvenance byNewest findingID db =
     (case exec (\<lambda>d. (None, d)) db of
        (Some e, d) \<Rightarrow> (Inl e, d)
      | (None, d) \<Rightarrow> (Inr (filter (\<lambda>p. pvFindingID p = findingID) (byNewest (lsProvs d))), d))"

definition ListAnalysisJobs :: "(LLMAnalysisJob list \<Rightarrow> LLMAnalysisJob list) \<Rightarrow> (string \<Rightarrow> string list) \<Rightarrow> QueryParams
    \<Rightarrow> LLMStore \<Rightarrow> (LLMAnalysisJob list \<times> nat) result \<times> LLMStore" where
  "ListAnalysisJobs readOrder findingsOf params db =
     (case exec (\<lambda>d. (None, d)) db of
        (Some e, d) \<Rightarrow> (Inl e, d)
      | (None, d) \<Rightarrow>
          (let lmt = nat (if qpLimit params \<le> 0 \<or> 200 < qpLimit params then 50 else qpLimit params);
               rows = orderRows (\<lambda>x y. jbCreatedAt y < jbCreatedAt x)
                 (filter (\<lambda>j. (qpSearch params = [] \<or> jbFindingID j = qpSearch params \<or> jbStatus j = qpSearch params) \<and>
                    (qpHostUUID params = [] \<or> jbFindingID j \<in> set (findingsOf (qpHostUUID params))))
                   (readOrder (lsJobs d)));
               page = take lmt (drop (nat (max 0 (qpOffset params))) rows)
           in case exec (\<lambda>d. (None, d)) d of
                (Some e, d2) \<Rightarrow> (Inr (page, 0), d2) | (None, d2) \<Rightarrow> (Inr (page, length rows), d2)))"

subsection \<open>One finding\<close>

datatype llmAnswer = JobQueued string | JobVerdict string LLMVerdict | JobSuggestion string LLMSuggestion

definition respondWithAnalysis :: "LLMCall \<Rightarrow> string \<Rightarrow> string \<Rightarrow> string \<Rightarrow> string \<Rightarrow> string \<Rightarrow> LLMApi
    \<Rightarrow> llmAnswer answer \<times> LLMApi" where
  "respondWithAnalysis c jobID findingID jobType username evidence st =
     (if jobType = ''remediation_suggestion''
      then (case onService (GenerateRemediation (lcEnv c) (lcClock c) jobID evidence) st of
              (Inl e, st1) \<Rightarrow> (Inl internalError, st1)
            | (Inr s, st1) \<Rightarrow> (Inr (JobSuggestion jobID s), llmAudit c username ''LLM_SUGGEST_REMEDIATION''
                (''finding_id='' @ findingID @ '' job_id='' @ jobID @ '' validation='' @ ValidationStatus s) st1))
      else (case onService (AnalyzeFinding (lcEnv c) (lcClock c) jobID evidence) st of
              (Inl e, st1) \<Rightarrow> (Inl internalError, st1)
            | (Inr v, st1) \<Rightarrow> (Inr (JobVerdict jobID v), llmAudit c username ''LLM_ANALYZE''
                (''finding_id='' @ findingID @ '' job_id='' @ jobID @ '' verdict='' @ vdVerdict v) st1)))"

definition buildFindingEvidence :: "LLMCall \<Rightarrow> Finding \<Rightarrow> string" where
  "buildFindingEvidence c f = lcMarshal c
     \<lparr>feFindingID = fdFindingID f, feAlgorithm = fdAlgorithm f, feTitle = fdTitle f, feDescription = fdDescription f,
      feAssetRef = fdAssetRef f, feSeverity = fdSeverity f, feConfidence = fdConfidence f, feStatus = fdStatus f,
      feRule = fdPolicyRuleID f, feSensitivity = ''metadata-only''\<rparr>"

definition findFinding :: "LLMCall \<Rightarrow> caller \<Rightarrow> string \<Rightarrow> LLMApi \<Rightarrow> Finding option" where
  "findFinding c who findingID st =
     (case visibleFindings c who st of Inl e \<Rightarrow> None | Inr fs \<Rightarrow> find (\<lambda>f. fdFindingID f = findingID) fs)"

text \<open>The body: finding, kind of job and the evidence that the client may give.\<close>

definition llmAnalyze :: "LLMCall \<Rightarrow> string \<Rightarrow> caller \<Rightarrow> (string \<times> string \<times> string) result \<Rightarrow> LLMApi
    \<Rightarrow> llmAnswer answer \<times> LLMApi" where
  "llmAnalyze c httpMethod who body st =
     (if httpMethod \<noteq> ''POST'' then (Inl (405, []), st)
      else if svmode (laService st) = ''disabled'' then (Inl (503, ''LLM capability is disabled''), st)
      else case body of
        Inl e \<Rightarrow> (Inl (400, ''invalid JSON''), st)
      | Inr (findingID, jobType0, given) \<Rightarrow>
          if findingID = [] then (Inl (400, ''finding_id is required''), st)
          else let jobType = (if jobType0 = [] then ''false_positive_triage'' else jobType0) in
            (case onService (SubmitAnalysisJob (lcEnv c) (lcNow c) findingID jobType (orAdmin who)) st of
               (Inl e, st1) \<Rightarrow> (Inl internalError, st1)
             | (Inr jobID, st1) \<Rightarrow>
                 let evidence = (if given \<noteq> [] then given
                       else case findFinding c who findingID st1 of None \<Rightarrow> [] | Some f \<Rightarrow> buildFindingEvidence c f)
                 in if evidence \<noteq> [] then respondWithAnalysis c jobID findingID jobType (orAdmin who) evidence st1
                    else (Inr (JobQueued jobID), st1)))"

subsection \<open>Verdicts and reviews\<close>

definition llmVerdict :: "string \<Rightarrow> string \<Rightarrow> LLMApi \<Rightarrow> LLMVerdict answer \<times> LLMApi" where
  "llmVerdict httpMethod findingID st =
     (if httpMethod \<noteq> ''GET'' then (Inl (405, []), st)
      else if findingID = [] then (Inl (400, ''finding_id is required''), st)
      else case onService (onStore (GetVerdictByFinding findingID)) st of
        (Inl e, st1) \<Rightarrow> (if e = ''no rows in result set'' then Inl (404, ''no verdict for this finding'')
                         else Inl internalError, st1)
      | (Inr v, st1) \<Rightarrow> (Inr v, st1))"

definition reviewVerdict :: "LLMCall \<Rightarrow> string \<Rightarrow> caller \<Rightarrow> string \<Rightarrow> (string \<times> string) result \<Rightarrow> LLMApi
    \<Rightarrow> LLMVerdict answer \<times> LLMApi" where
  "reviewVerdict c httpMethod who verdictID body st =
     (if httpMethod \<noteq> ''POST'' then (Inl (405, []), st)
      else if callerRole who \<notin> {Some ''operator'', Some ''admin''}
      then (Inl (403, ''forbidden: operator or admin role required''), st)
      else if verdictID = [] then (Inl (400, ''verdict_id is required''), st)
      else case body of
        Inl e \<Rightarrow> (Inl (400, ''invalid request body''), st)
      | Inr (decision, remark) \<Rightarrow>
          if \<not> validReviewDecision decision then (Inl (400, ''decision must be approved or rejected''), st)
          else (case onService (onStore (SetVerdictReview verdictID decision (callerUser who) remark (lcNow c))) st of
                  (Inl e, st1) \<Rightarrow> (if e = ''verdict not found'' then Inl (404, e) else Inl internalError, st1)
                | (Inr v, st1) \<Rightarrow> (Inr v, llmAudit c (callerUser who) ''LLM_VERDICT_REVIEW''
                    (''verdict '' @ verdictID @ '' '' @ decision) st1)))"

datatype jobResult = NoResult | WithVerdict LLMVerdict | WithSuggestion LLMSuggestion

definition llmJob :: "string \<Rightarrow> LLMApi \<Rightarrow> (LLMAnalysisJob \<times> jobResult) answer \<times> LLMApi" where
  "llmJob jobID st =
     (case onService (onStore (GetAnalysisJob jobID)) st of
        (Inl e, st1) \<Rightarrow> (Inl internalError, st1)
      | (Inr job, st1) \<Rightarrow>
          if jbStatus job \<noteq> ''completed'' then (Inr (job, NoResult), st1)
          else if JobType job = ''remediation_suggestion''
          then (case onService (onStore (GetSuggestionByJob jobID)) st1 of
                  (Inl e, st2) \<Rightarrow> (Inr (job, NoResult), st2) | (Inr s, st2) \<Rightarrow> (Inr (job, WithSuggestion s), st2))
          else (case onService (onStore (GetVerdictByJob jobID)) st1 of
                  (Inl e, st2) \<Rightarrow> (Inr (job, NoResult), st2) | (Inr v, st2) \<Rightarrow> (Inr (job, WithVerdict v), st2)))"


subsection \<open>Usage\<close>

text \<open>Per model: calls, tokens in and out (the average latency, which nothing computes with, is left out); the pricing of the known models per thousand tokens.\<close>

definition GetLLMUsage :: "(string list \<Rightarrow> string list) \<Rightarrow> LLMStore
    \<Rightarrow> ((string \<times> nat \<times> int \<times> int) list \<times> (string \<rightharpoonup> nat)) result \<times> LLMStore" where
  "GetLLMUsage groupOrder db =
     (case exec (\<lambda>d. (None, d)) db of
        (Some e, d) \<Rightarrow> (Inl e, d)
      | (None, d) \<Rightarrow>
          (let label = (\<lambda>p. if pvModel p = [] then ''(unknown)'' else pvModel p);
               models = groupOrder (remdups (map label (lsProvs d)));
               usage = map (\<lambda>m. let ps = filter (\<lambda>p. label p = m) (lsProvs d)
                 in (m, length ps, sum_list (map TokensIn ps), sum_list (map TokensOut ps))) models;
               byStatus = (\<lambda>s. let n = length (filter (\<lambda>j. jbStatus j = s) (lsJobs d)) in if n = 0 then None else Some n)
           in case exec (\<lambda>d. (None, d)) d of
                (Some e, d2) \<Rightarrow> (Inl e, d2)
              | (None, d2) \<Rightarrow> (Inr (orderRows (\<lambda>x y. fst (snd y) < fst (snd x)) usage, byStatus), d2)))"

definition llmModelCostPer1K :: "string \<Rightarrow> (real \<times> real) option" where
  "llmModelCostPer1K = map_of
     [(''gpt-4o'', 25 / 10000, 1 / 100), (''gpt-4o-mini'', 15 / 100000, 6 / 10000), (''gpt-4.1'', 2 / 1000, 8 / 1000),
      (''gpt-4.1-mini'', 4 / 10000, 16 / 10000), (''o4-mini'', 11 / 10000, 44 / 10000)]"

definition modelCost :: "string \<times> nat \<times> int \<times> int \<Rightarrow> real" where
  "modelCost = (\<lambda>(m, calls, tin, tout).
     case llmModelCostPer1K m of None \<Rightarrow> 0 | Some (rin, rout) \<Rightarrow> real_of_int tin / 1000 * rin + real_of_int tout / 1000 * rout)"

record usageReport =
  urCalls :: nat
  urTokensIn :: int
  urTokensOut :: int
  urCost :: real
  urSuccess :: real
  urNote :: string

definition llmUsage :: "(string list \<Rightarrow> string list) \<Rightarrow> string \<Rightarrow> LLMApi \<Rightarrow> usageReport answer \<times> LLMApi" where
  "llmUsage groupOrder httpMethod st =
     (if httpMethod \<noteq> ''GET'' then (Inl (405, []), st)
      else case onService (onStore (GetLLMUsage groupOrder)) st of
        (Inl e, st1) \<Rightarrow> (Inl internalError, st1)
      | (Inr (ms, jobs), st1) \<Rightarrow>
          (let completed = (case jobs ''completed'' of None \<Rightarrow> 0 | Some n \<Rightarrow> n);
               failed = (case jobs ''failed'' of None \<Rightarrow> 0 | Some n \<Rightarrow> n)
           in (Inr \<lparr>urCalls = sum_list (map (\<lambda>(m, n, i, x). n) ms), urTokensIn = sum_list (map (\<lambda>(m, n, i, x). i) ms),
                    urTokensOut = sum_list (map (\<lambda>(m, n, i, x). x) ms), urCost = sum_list (map modelCost ms),
                    urSuccess = (if 0 < completed + failed then real completed / real (completed + failed) else 0),
                    urNote = (if \<exists>m \<in> set ms. llmModelCostPer1K (fst m) = None
                      then ''Costs are list-price estimates for known models; unknown models show $0.''
                      else ''Costs are list-price estimates for the models in use.'')\<rparr>, st1)))"

subsection \<open>Batches\<close>

record batchFilter =
  bfSeverityGte :: int
  bfStatus :: string
  bfAlgorithm :: string
  bfHostUUID :: string
  bfScope :: string

record batchRequest =
  bqFindingIDs :: "string list"
  bqFilter :: "batchFilter option"
  bqJobType :: string
  bqForce :: bool

definition filterKeeps :: "batchFilter \<Rightarrow> Finding \<Rightarrow> bool" where
  "filterKeeps b f =
     (let sevGte = (if bfScope b = ''all_critical'' then 5 else bfSeverityGte b);
          wanted = (if bfScope b = ''all'' \<and> bfStatus b = [] then ''open'' else bfStatus b);
          algo = toLower (trimSpace (bfAlgorithm b))
      in \<not> (0 < sevGte \<and> fdSeverity f < sevGte) \<and> \<not> (wanted \<noteq> [] \<and> fdStatus f \<noteq> wanted) \<and>
         \<not> (bfHostUUID b \<noteq> [] \<and> fdHostUUID f \<noteq> bfHostUUID b) \<and>
         \<not> (algo \<noteq> [] \<and> \<not> contains (toLower (fdAlgorithm f)) algo))"

definition selectFindings :: "Finding list \<Rightarrow> batchRequest \<Rightarrow> Finding list" where
  "selectFindings all req =
     (if bqFindingIDs req \<noteq> [] then filter (\<lambda>f. fdFindingID f \<in> set (bqFindingIDs req)) all
      else case bqFilter req of None \<Rightarrow> [] | Some b \<Rightarrow> filter (filterKeeps b) all)"

definition maxBatchFindings :: nat where
  "maxBatchFindings = 500"

record jobUnit =
  juFindingID :: string
  juJobID :: string
  juEvidence :: string

text \<open>The loop over the selection; a verdict that cannot be read counts as none.\<close>

fun submitUnits :: "LLMCall \<Rightarrow> bool \<Rightarrow> string \<Rightarrow> string \<Rightarrow> Finding list \<Rightarrow> batchState \<Rightarrow> LLMApi
    \<Rightarrow> jobUnit list \<times> batchState \<times> LLMApi" where
  "submitUnits c force jobType username [] bs st = ([], bs, st)"
| "submitUnits c force jobType username (f # fs) bs st =
     (let (judged, st1) = (if force then (False, st) else
            (case onService (onStore (GetVerdictByFinding (fdFindingID f))) st of
               (Inl e, s) \<Rightarrow> (False, s) | (Inr v, s) \<Rightarrow> (vdVerdict v \<noteq> [], s)))
      in if judged then submitUnits c force jobType username fs (bs\<lparr>bsSkipped := bsSkipped bs + 1\<rparr>) st1
         else (case onService (SubmitAnalysisJob (lcEnv c) (lcNow c) (fdFindingID f) jobType username) st1 of
                 (Inl e, st2) \<Rightarrow> submitUnits c force jobType username fs (bs\<lparr>bsFailed := bsFailed bs + 1\<rparr>) st2
               | (Inr jobID, st2) \<Rightarrow>
                   (let (us, bs', st') = submitUnits c force jobType username fs
                          (bs\<lparr>bsJobs := (bsJobs bs)(fdFindingID f \<mapsto> jobID)\<rparr>) st2
                    in (\<lparr>juFindingID = fdFindingID f, juJobID = jobID, juEvidence = buildFindingEvidence c f\<rparr> # us,
                        bs', st'))))"

definition newBatch :: "LLMCall \<Rightarrow> string \<Rightarrow> batchState" where
  "newBatch c username = \<lparr>BatchID = lcBatchID c, bsCreatedBy = username, bsCreatedAt = lcNow c, bsTotal = 0,
     bsQueued = 0, bsRunning = 0, bsCompleted = 0, bsFailed = 0, bsSkipped = 0, bsJobs = Map.empty\<rparr>"

text \<open>The handler up to the answer: the batch with its units, which the goroutine then works off.\<close>

definition llmAnalyzeBatch :: "LLMCall \<Rightarrow> string \<Rightarrow> caller \<Rightarrow> batchRequest result \<Rightarrow> LLMApi
    \<Rightarrow> (batchState \<times> jobUnit list) answer \<times> LLMApi" where
  "llmAnalyzeBatch c httpMethod who body st =
     (if httpMethod \<noteq> ''POST'' then (Inl (405, []), st)
      else if svmode (laService st) = ''disabled'' then (Inl (503, ''LLM capability is disabled''), st)
      else case body of
        Inl e \<Rightarrow> (Inl (400, ''invalid JSON''), st)
      | Inr req \<Rightarrow>
          (let jobType = (if bqJobType req = [] then ''false_positive_triage'' else bqJobType req)
           in case visibleFindings c who st of
                Inl e \<Rightarrow> (Inl internalError, st)
              | Inr all \<Rightarrow>
                  (let chosen = take maxBatchFindings (selectFindings all req)
                   in if chosen = [] then (Inl (400, ''no findings matched the selection''), st)
                      else (let (us, bs, st1) = submitUnits c (bqForce req) jobType (orAdmin who) chosen
                                  (newBatch c (orAdmin who)) st;
                                batch = bs\<lparr>bsTotal := int (length us), bsQueued := int (length us)\<rparr>;
                                st2 = st1\<lparr>laBatches := (laBatches st1)(BatchID batch \<mapsto> batch)\<rparr>
                            in (Inr (batch, us), llmAudit c (orAdmin who) ''LLM_ANALYZE_BATCH''
                                 (''batch_id='' @ BatchID batch @ '' jobs='' @ decInt (bsTotal batch) @
                                  '' skipped='' @ decInt (bsSkipped batch)) st2)))))"

subsection \<open>Working off a batch\<close>

text \<open>Units that wait for a slot, units whose goroutine holds a slot but has not begun, units in analysis,
  slots of goroutines that have counted their result but not yet released; the counters and the service.\<close>

record batchRun =
  brWaiting :: "jobUnit list"
  brSpawned :: "jobUnit list"
  brActive :: "jobUnit list"
  brLeaving :: nat
  brBatch :: batchState
  brService :: LLMService

definition startBatch :: "batchState \<Rightarrow> jobUnit list \<Rightarrow> LLMService \<Rightarrow> batchRun" where
  "startBatch bs us svc = \<lparr>brWaiting = us, brSpawned = [], brActive = [], brLeaving = 0, brBatch = bs, brService = svc\<rparr>"

definition slotsUsed :: "batchRun \<Rightarrow> nat" where
  "slotsUsed b = length (brSpawned b) + length (brActive b) + brLeaving b"

definition maxConc :: "int \<Rightarrow> nat" where
  "maxConc configured = nat (if configured \<le> 0 then 4 else configured)"

definition countBegin :: "batchState \<Rightarrow> batchState" where
  "countBegin bs = bs\<lparr>bsQueued := bsQueued bs - 1, bsRunning := bsRunning bs + 1\<rparr>"

definition countEnd :: "bool \<Rightarrow> batchState \<Rightarrow> batchState" where
  "countEnd failed bs =
     (let b1 = bs\<lparr>bsRunning := bsRunning bs - 1\<rparr>
      in if failed then b1\<lparr>bsFailed := bsFailed b1 + 1\<rparr> else b1\<lparr>bsCompleted := bsCompleted b1 + 1\<rparr>)"

inductive batch_step :: "LLMEnv \<Rightarrow> nat \<Rightarrow> batchRun \<Rightarrow> batchRun \<Rightarrow> bool" for env slots where
  spawn: "brWaiting b = u # us \<Longrightarrow> slotsUsed b < slots \<Longrightarrow>
    batch_step env slots b (b\<lparr>brWaiting := us, brSpawned := brSpawned b @ [u]\<rparr>)"
| begins: "u \<in> set (brSpawned b) \<Longrightarrow>
    batch_step env slots b (b\<lparr>brSpawned := remove1 u (brSpawned b), brActive := brActive b @ [u],
      brBatch := countBegin (brBatch b)\<rparr>)"
| ends: "u \<in> set (brActive b) \<Longrightarrow> AnalyzeFinding env clk (juJobID u) (juEvidence u) (brService b) = (r, svc) \<Longrightarrow>
    batch_step env slots b (b\<lparr>brActive := remove1 u (brActive b), brLeaving := Suc (brLeaving b), brService := svc,
      brBatch := countEnd (isl r) (brBatch b)\<rparr>)"
| release: "brLeaving b = Suc n \<Longrightarrow> batch_step env slots b (b\<lparr>brLeaving := n\<rparr>)"

text \<open>What \<open>GET /api/llm/batches/{id}\<close> calls done.\<close>

definition batchDone :: "batchState \<Rightarrow> bool" where
  "batchDone bs \<longleftrightarrow> bsQueued bs = 0 \<and> bsRunning bs = 0"

definition llmBatchStatus :: "string \<Rightarrow> string \<Rightarrow> LLMApi \<Rightarrow> (batchState \<times> bool) answer" where
  "llmBatchStatus httpMethod batchID st =
     (if httpMethod \<noteq> ''GET'' then Inl (405, [])
      else if batchID = [] then Inl (400, ''batch_id is required'')
      else case laBatches st batchID of
        None \<Rightarrow> Inl (404, ''unknown batch_id'') | Some bs \<Rightarrow> Inr (bs, batchDone bs))"

end
