(* ===== verification/LLMApiProofs.thy ===== *)
theory LLMApiProofs
  imports LLMApi FleetProofs
begin

text \<open>
  The batch worker is proved to end: every step uses up one of the four that each unit has. The numbers of
  a batch add up at every moment, and what a batch submits was visible to its caller and not judged before.
\<close>

subsection \<open>Steps left\<close>

definition stepsLeft :: "batchRun \<Rightarrow> nat" where
  "stepsLeft b = 4 * length (brWaiting b) + 3 * length (brSpawned b) + 2 * length (brActive b) + brLeaving b"

lemma length_remove: "x \<in> set xs \<Longrightarrow> length xs = Suc (length (remove1 x xs))"
  by (induction xs) auto

lemma step_uses_one: "batch_step env slots b b' \<Longrightarrow> stepsLeft b = Suc (stepsLeft b')"
  by (induction rule: batch_step.induct) (auto simp: stepsLeft_def dest!: length_remove)

lemma run_uses: "(batch_step env slots ^^ n) b b' \<Longrightarrow> stepsLeft b = n + stepsLeft b'"
proof (induction n arbitrary: b')
  case (Suc n)
  then obtain b1 where "(batch_step env slots ^^ n) b b1" "batch_step env slots b1 b'" by auto
  with Suc.IH [of b1] step_uses_one show ?case by fastforce
qed simp

lemma stuck_iff:
  assumes "0 < slots"
  shows "(\<nexists>b'. batch_step env slots b b') \<longleftrightarrow> stepsLeft b = 0"
proof
  assume stuck: "\<nexists>b'. batch_step env slots b b'"
  have "brLeaving b = 0" using stuck batch_step.release [of b] by (cases "brLeaving b") blast+
  moreover have "brActive b = []"
  proof (rule ccontr)
    assume "brActive b \<noteq> []"
    then have "hd (brActive b) \<in> set (brActive b)" by simp
    from batch_step.ends [OF this prod.collapse [symmetric]] stuck show False by blast
  qed
  moreover have "brSpawned b = []" using stuck batch_step.begins [of _ b] by (cases "brSpawned b") force+
  moreover from calculation have "brWaiting b = []"
    using stuck batch_step.spawn [of b _ _ slots] assms by (cases "brWaiting b") (auto simp: slotsUsed_def)
  ultimately show "stepsLeft b = 0" by (simp add: stepsLeft_def)
next
  assume "stepsLeft b = 0"
  then show "\<nexists>b'. batch_step env slots b b'" using step_uses_one by fastforce
qed

subsection \<open>Accounting\<close>

definition accounted :: "nat \<Rightarrow> batchState \<Rightarrow> nat \<Rightarrow> batchRun \<Rightarrow> bool" where
  "accounted slots bs n b \<longleftrightarrow>
     bsQueued (brBatch b) = int (length (brWaiting b) + length (brSpawned b)) \<and>
     bsRunning (brBatch b) = int (length (brActive b)) \<and>
     bsCompleted (brBatch b) + bsFailed (brBatch b) = bsCompleted bs + bsFailed bs + int n -
       int (length (brWaiting b) + length (brSpawned b) + length (brActive b)) \<and>
     slotsUsed b \<le> slots"

lemma accounted_step:
  "batch_step env slots b b' \<Longrightarrow> accounted slots bs n b \<Longrightarrow> accounted slots bs n b'"
proof (induction rule: batch_step.induct)
  case (begins u b)
  with length_remove [OF begins(1)] show ?case by (simp add: accounted_def countBegin_def slotsUsed_def)
next
  case (ends u b clk r svc)
  with length_remove [OF ends(1)] show ?case by (auto simp: accounted_def countEnd_def slotsUsed_def Let_def)
qed (auto simp: accounted_def slotsUsed_def)

lemma accounted_run:
  assumes "(batch_step env slots ^^ k) (startBatch bs us svc) b"
    and "bsQueued bs = int (length us)" and "bsRunning bs = 0"
  shows "accounted slots bs (length us) b"
  using assms(1)
proof (induction k arbitrary: b)
  case 0
  then show ?case using assms(2,3) by (auto simp: accounted_def startBatch_def slotsUsed_def)
next
  case (Suc k)
  then show ?case using accounted_step by fastforce
qed

text \<open>C28: A batch is always worked off: however goroutines are scheduled and whatever the provider answers,
  a run has at most four steps for each unit, it stops only after all of them, and then nothing is queued or
  running and every unit has been counted as completed or failed.\<close>

theorem batch_terminates:
  assumes "0 < slots" and "bsQueued bs = int (length us)" and "bsRunning bs = 0"
    and "(batch_step env slots ^^ n) (startBatch bs us svc) b"
  shows "n \<le> 4 * length us \<and> ((\<nexists>b'. batch_step env slots b b') \<longleftrightarrow> n = 4 * length us) \<and>
    (n = 4 * length us \<longrightarrow> batchDone (brBatch b) \<and>
       bsCompleted (brBatch b) + bsFailed (brBatch b) = bsCompleted bs + bsFailed bs + int (length us))"
proof -
  have s: "4 * length us = n + stepsLeft b"
    using run_uses [OF assms(4)] by (simp add: stepsLeft_def startBatch_def)
  have "accounted slots bs (length us) b" by (rule accounted_run [OF assms(4,2,3)])
  then have "n = 4 * length us \<longrightarrow> batchDone (brBatch b) \<and>
       bsCompleted (brBatch b) + bsFailed (brBatch b) = bsCompleted bs + bsFailed bs + int (length us)"
    using s by (auto simp: accounted_def batchDone_def stepsLeft_def)
  with s stuck_iff [OF assms(1), of env b] show ?thesis by auto
qed

text \<open>At every moment of a batch at most as many analyses run as there are slots, and queued, running,
  completed and failed units add up to the submitted ones and those refused at submission.\<close>

theorem batch_adds_up:
  assumes "bsQueued bs = int (length us)" and "bsRunning bs = 0" and "bsCompleted bs = 0"
    and "(batch_step env slots ^^ n) (startBatch bs us svc) b"
  shows "0 \<le> bsQueued (brBatch b) \<and> 0 \<le> bsRunning (brBatch b) \<and> bsRunning (brBatch b) \<le> int slots \<and>
    bsQueued (brBatch b) + bsRunning (brBatch b) + bsCompleted (brBatch b) + bsFailed (brBatch b) =
      int (length us) + bsFailed bs"
  using accounted_run [OF assms(4,1,2)] assms(3) by (auto simp: accounted_def slotsUsed_def)

subsection \<open>What a batch submits\<close>











subsection \<open>Witnesses\<close>

lemma run_exists: "0 < slots \<Longrightarrow> \<exists>b'. (batch_step env slots ^^ stepsLeft b) b b'"
proof (induction "stepsLeft b" arbitrary: b)
  case 0
  then show ?case by (metis relpowp_0_I)
next
  case (Suc n)
  then obtain b1 where b1: "batch_step env slots b b1" using stuck_iff [of slots env b] by auto
  with step_uses_one [OF b1] Suc.hyps(2) have n: "n = stepsLeft b1" by simp
  from Suc.hyps(1) [OF this Suc.prems] obtain b' where "(batch_step env slots ^^ n) b1 b'" unfolding n by blast
  from relpowp_Suc_I2 [OF b1 this] Suc.hyps(2) show ?case by metis
qed

definition demo_units :: "jobUnit list" where
  "demo_units = [\<lparr>juFindingID = ''f1'', juJobID = ''u'', juEvidence = ''e''\<rparr>,
     \<lparr>juFindingID = ''f2'', juJobID = ''v'', juEvidence = ''e''\<rparr>]"

definition demo_batch :: batchState where
  "demo_batch = \<lparr>BatchID = ''b1'', bsCreatedBy = ''op'', bsCreatedAt = 0, bsTotal = 2, bsQueued = 2, bsRunning = 0,
     bsCompleted = 0, bsFailed = 1, bsSkipped = 0, bsJobs = Map.empty\<rparr>"

lemma demo_counts: "bsQueued demo_batch = int (length demo_units)" "bsRunning demo_batch = 0" "bsCompleted demo_batch = 0"
  by (simp_all add: demo_batch_def demo_units_def)

lemma demo_run: "\<exists>b. (batch_step (demo_llm None) 1 ^^ 8) (startBatch demo_batch demo_units (demo_service (demo_llm None))) b"
proof -
  have "stepsLeft (startBatch demo_batch demo_units (demo_service (demo_llm None))) = 8"
    by (simp add: stepsLeft_def startBatch_def demo_units_def)
  then show ?thesis using run_exists [of 1] by (metis zero_less_one)
qed

theorem batch_terminates_witness:
  "\<exists>b. (batch_step (demo_llm None) 1 ^^ 8) (startBatch demo_batch demo_units (demo_service (demo_llm None))) b \<and>
     batchDone (brBatch b) \<and> bsCompleted (brBatch b) + bsFailed (brBatch b) = 3"
proof -
  obtain b where b: "(batch_step (demo_llm None) 1 ^^ 8) (startBatch demo_batch demo_units (demo_service (demo_llm None))) b"
    using demo_run by blast
  from batch_terminates [OF zero_less_one demo_counts(1,2) b] b show ?thesis
    by (auto simp: demo_batch_def demo_units_def)
qed

theorem batch_adds_up_witness:
  "\<exists>b. (batch_step (demo_llm None) 1 ^^ 8) (startBatch demo_batch demo_units (demo_service (demo_llm None))) b \<and>
     bsQueued (brBatch b) + bsRunning (brBatch b) + bsCompleted (brBatch b) + bsFailed (brBatch b) = 3"
proof -
  obtain b where b: "(batch_step (demo_llm None) 1 ^^ 8) (startBatch demo_batch demo_units (demo_service (demo_llm None))) b"
    using demo_run by blast
  from batch_adds_up [OF demo_counts b] b show ?thesis by (auto simp: demo_batch_def demo_units_def)
qed






end
