(* ===== verification/PolicyApi.thy ===== *)
theory PolicyApi
  imports CommandApi "HOL-Library.Char_ord" "HOL-Library.List_Lexorder"
begin

text \<open>
  The HTTP handlers on policy profiles and the files behind them: \<open>policies\<close>, \<open>activePolicy\<close> and
  \<open>createPolicy\<close> of \<^verbatim>\<open>httpapi/server.go\<close> and \<^verbatim>\<open>httpapi/policy_crud.go\<close>. The directory is the list of its
  files, path and content; a write that fails gives its error and what the file holds then, if it was
  touched. \<open>pnMarshal\<close> and \<open>pnUnmarshal\<close> are \<open>yaml.v3\<close>, \<open>pnDecimal\<close> is \<open>%.2f\<close>. What a restart makes of the
  directory is the loader of the policy engine on the files in the order of \<open>filepath.Glob\<close>.
\<close>

subsection \<open>State\<close>

type_synonym fileTree = "(string \<times> string) list"

record PolicyState =
  psEngine :: Engine
  psFiles :: fileTree
  psHub :: Hub
  psAudit :: AuditDB

record PolicyEnv =
  pnNow :: int
  pnLogID :: string
  pnSha :: "string \<Rightarrow> string"
  pnEvent :: "string \<Rightarrow> (string \<times> string) list \<Rightarrow> byte list result"
  pnMarshal :: "Profile \<Rightarrow> string result"
  pnUnmarshal :: "string \<Rightarrow> Profile option"
  pnDecimal :: "real \<Rightarrow> string"
  pnMkdir :: goerror
  pnWrite :: "string \<Rightarrow> (string \<times> string option) option"
  pnRemovable :: "string \<Rightarrow> bool"

definition policyAudit :: "PolicyEnv \<Rightarrow> string \<Rightarrow> string \<Rightarrow> string \<Rightarrow> PolicyState \<Rightarrow> PolicyState" where
  "policyAudit n user action details st =
     st\<lparr>psAudit := snd (InsertAuditLog (pnSha n) (pnLogID n) (pnNow n)
       \<lparr>LogID = [], alUsername = user, Action = action, Details = details, alCreatedAt = 0, PrevHash = [],
        EntryHash = []\<rparr> (psAudit st))\<rparr>"

definition policyEvent :: "PolicyEnv \<Rightarrow> (string \<times> string) list \<Rightarrow> PolicyState \<Rightarrow> PolicyState" where
  "policyEvent n kvs st = st\<lparr>psHub := Broadcast (pnEvent n) ''policy_switched'' kvs (psHub st)\<rparr>"

definition actorOr :: "string \<Rightarrow> caller \<Rightarrow> string" where
  "actorOr dflt who = (if callerUser who = [] then dflt else callerUser who)"

subsection \<open>Files\<close>

definition putFile :: "string \<Rightarrow> string \<Rightarrow> fileTree \<Rightarrow> fileTree" where
  "putFile path data fs = tblUpsert fst (path, data) (\<lambda>r. (fst r, data)) fs"

definition WriteFile :: "PolicyEnv \<Rightarrow> string \<Rightarrow> string \<Rightarrow> fileTree \<Rightarrow> goerror \<times> fileTree" where
  "WriteFile n path data fs =
     (case pnWrite n path of
        None \<Rightarrow> (None, putFile path data fs)
      | Some (e, None) \<Rightarrow> (Some e, fs)
      | Some (e, Some left) \<Rightarrow> (Some e, putFile path left fs))"

definition removeFile :: "PolicyEnv \<Rightarrow> string \<Rightarrow> fileTree \<Rightarrow> fileTree" where
  "removeFile n path fs = (if pnRemovable n path then tblDelete fst path fs else fs)"

definition safeChar :: "char \<Rightarrow> bool" where
  "safeChar c \<longleftrightarrow> (CHR ''a'' \<le> c \<and> c \<le> CHR ''z'') \<or> (CHR ''A'' \<le> c \<and> c \<le> CHR ''Z'') \<or> isDigit c \<or>
     c \<in> {CHR ''.'', CHR ''-'', CHR ''_''}"

definition sanitizePolicyFilename :: "string \<Rightarrow> string" where
  "sanitizePolicyFilename version = map (\<lambda>c. if safeChar c then c else CHR ''_'') version"

definition policyVersionValid :: "string \<Rightarrow> bool" where
  "policyVersionValid version \<longleftrightarrow>
     \<not> (version = [] \<or> contains version ''..'') \<and> sanitizePolicyFilename (toLower version) = toLower version"

definition policyPath :: "string \<Rightarrow> string" where
  "policyPath safeVersion = ''policies/'' @ safeVersion @ ''.yaml''"

definition writePolicyFile :: "PolicyEnv \<Rightarrow> string \<Rightarrow> Profile \<Rightarrow> PolicyState \<Rightarrow> goerror \<times> PolicyState" where
  "writePolicyFile n safeVersion p st =
     (case pnMarshal n p of
        Inl e \<Rightarrow> (Some e, st)
      | Inr data \<Rightarrow>
          (case pnMkdir n of
             Some e \<Rightarrow> (Some e, st)
           | None \<Rightarrow> (let (e, fs) = WriteFile n (policyPath safeVersion) data (psFiles st) in (e, st\<lparr>psFiles := fs\<rparr>))))"

subsection \<open>Handlers\<close>

definition policies_list :: "string \<Rightarrow> PolicyState \<Rightarrow> (string \<times> string set) answer" where
  "policies_list httpMethod st =
     (if httpMethod \<noteq> ''GET'' then Inl (405, []) else Inr (active (psEngine st), dom (profiles (psEngine st))))"

definition activePolicy :: "PolicyEnv \<Rightarrow> string \<Rightarrow> caller \<Rightarrow> string result \<Rightarrow> PolicyState \<Rightarrow> string answer \<times> PolicyState" where
  "activePolicy n httpMethod who body st =
     (if httpMethod \<noteq> ''PUT'' \<and> httpMethod \<noteq> ''POST'' then (Inl (405, []), st)
      else if \<not> requireWriteRole (callerRole who) then (Inl (403, ''forbidden''), st)
      else case body of
        Inl e \<Rightarrow> (Inl (400, ''invalid json''), st)
      | Inr version \<Rightarrow>
          (case SetActiveProfile version (psEngine st) of
             (Some e, eng) \<Rightarrow> (Inl (400, e), st)
           | (None, eng) \<Rightarrow> (Inr (active eng), policyEvent n [(''active'', active eng)] (st\<lparr>psEngine := eng\<rparr>))))"

definition policyYaml :: "PolicyEnv \<Rightarrow> Profile \<Rightarrow> string" where
  "policyYaml n p =
     ''version: '' @ [CHR 0x22] @ Version p @ [CHR 0x22, CHR 0x0A] @
     ''minimum_rsa_key_bits: '' @ decInt (int (MinimumRSAKeyBits p)) @ [CHR 0x0A] @
     ''minimum_dh_safe_prime_bits: '' @ decInt (int (MinimumDHSafePrimeBits p)) @ [CHR 0x0A] @
     ''require_tls_13: '' @ formatBool (RequireTLS13 p) @ [CHR 0x0A] @
     ''require_hybrid_pq_tls_13: '' @ formatBool (RequireHybridPQTLS13 p) @ [CHR 0x0A] @
     ''preferred_kem: '' @ [CHR 0x22] @ PreferredKEM p @ [CHR 0x22, CHR 0x0A] @
     ''preferred_signature: '' @ [CHR 0x22] @ PreferredSignature p @ [CHR 0x22, CHR 0x0A] @
     ''minimum_confidence: '' @ pnDecimal n (MinimumConfidence p) @ [CHR 0x0A]"

text \<open>The body carries the eight fields that the request struct has; the others stay at their zero value.\<close>

definition createPolicy :: "PolicyEnv \<Rightarrow> string \<Rightarrow> caller \<Rightarrow> Profile result \<Rightarrow> PolicyState \<Rightarrow> Profile answer \<times> PolicyState" where
  "createPolicy n httpMethod who body st =
     (if httpMethod \<noteq> ''POST'' then (Inl (405, []), st)
      else if \<not> requireWriteRole (callerRole who) then (Inl (403, ''forbidden''), st)
      else case body of
        Inl e \<Rightarrow> (Inl (400, ''invalid JSON''), st)
      | Inr req \<Rightarrow>
          if Version req = [] then (Inl (400, ''version is required''), st)
          else (let safeVersion = sanitizePolicyFilename (toLower (Version req)) in
            if safeVersion \<noteq> toLower (Version req) \<or> contains (Version req) ''..''
            then (Inl (400, ''version contains invalid characters''), st)
            else (let p = req\<lparr>prEffectiveDate := [], FrameworkMappings := []\<rparr>;
                      st1 = st\<lparr>psEngine := AddProfile p (psEngine st)\<rparr>;
                      (e, fs) = WriteFile n (policyPath safeVersion) (policyYaml n p) (psFiles st1);
                      st2 = st1\<lparr>psFiles := fs\<rparr>
                  in case e of
                       Some _ \<Rightarrow> (Inl internalError, st2)
                     | None \<Rightarrow> (Inr p, policyAudit n (actorOr ''admin'' who) ''CREATE_POLICY_PROFILE''
                                 (''Created policy version '' @ Version p) st2))))"

definition savePolicy :: "PolicyEnv \<Rightarrow> string \<Rightarrow> string \<Rightarrow> string \<Rightarrow> Profile \<Rightarrow> PolicyState \<Rightarrow> Profile answer \<times> PolicyState" where
  "savePolicy n actor action verb p st =
     (case writePolicyFile n (sanitizePolicyFilename (toLower (Version p))) p
             (st\<lparr>psEngine := AddProfile p (psEngine st)\<rparr>) of
        (Some e, st1) \<Rightarrow> (Inl internalError, st1)
      | (None, st1) \<Rightarrow> (Inr p, policyEvent n [(''version'', Version p), (''action'', verb)]
          (policyAudit n actor action (''version='' @ Version p) st1)))"

datatype policyAnswer = PolicyExport string string | PolicySaved Profile | PolicyDeleted string

text \<open>\<open>rest\<close> is what follows \<open>/api/policies/\<close> in the path.\<close>

definition policyByVersion :: "PolicyEnv \<Rightarrow> string \<Rightarrow> caller \<Rightarrow> string \<Rightarrow> Profile result \<Rightarrow> PolicyState
    \<Rightarrow> policyAnswer answer \<times> PolicyState" where
  "policyByVersion n httpMethod who rest body st =
     (let parts = splitOn (CHR ''/'') rest; version = hd parts in
      if \<not> policyVersionValid version then (Inl (400, ''invalid policy version''), st)
      else let safe = sanitizePolicyFilename (toLower version); actor = actorOr ''operator'' who in
        if length parts = 2 \<and> parts ! 1 = ''export''
        then (if httpMethod \<noteq> ''GET'' then (Inl (405, []), st)
              else case GetProfile version (psEngine st) of
                (p, False) \<Rightarrow> (Inl (404, ''policy not found''), st)
              | (p, True) \<Rightarrow> (case pnMarshal n p of
                                 Inl e \<Rightarrow> (Inl internalError, st)
                               | Inr data \<Rightarrow> (Inr (PolicyExport (safe @ ''.yaml'') data), st)))
        else if httpMethod = ''PUT''
        then (case body of
                Inl e \<Rightarrow> (Inl (400, ''invalid JSON''), st)
              | Inr req \<Rightarrow> (case savePolicy n actor ''UPDATE_POLICY_PROFILE'' ''updated'' (req\<lparr>Version := version\<rparr>) st of
                               (Inl e, st1) \<Rightarrow> (Inl e, st1) | (Inr p, st1) \<Rightarrow> (Inr (PolicySaved p), st1)))
        else if httpMethod = ''DELETE''
        then (if callerRole who \<noteq> Some ''admin'' then (Inl (403, ''deleting a policy requires admin role''), st)
              else case RemoveProfile version (psEngine st) of
                (Some e, eng) \<Rightarrow> (Inl (422, e), st)
              | (None, eng) \<Rightarrow>
                  (Inr (PolicyDeleted version),
                   policyEvent n [(''version'', version), (''action'', ''deleted'')]
                     (policyAudit n actor ''DELETE_POLICY_PROFILE'' (''version='' @ version)
                       (st\<lparr>psEngine := eng, psFiles := removeFile n (policyPath safe) (psFiles st)\<rparr>))))
        else (Inl (405, []), st))"

text \<open>The outer result is the reading of the body, the inner one its YAML.\<close>

definition importPolicy :: "PolicyEnv \<Rightarrow> string \<Rightarrow> caller \<Rightarrow> Profile result result \<Rightarrow> PolicyState
    \<Rightarrow> Profile answer \<times> PolicyState" where
  "importPolicy n httpMethod who body st =
     (if httpMethod \<noteq> ''POST'' then (Inl (405, []), st)
      else case body of
        Inl e \<Rightarrow> (Inl internalError, st)
      | Inr (Inl e) \<Rightarrow> (Inl (400, ''invalid YAML: '' @ e), st)
      | Inr (Inr p) \<Rightarrow>
          if \<not> policyVersionValid (Version p) then (Inl (400, ''policy version is required''), st)
          else savePolicy n (actorOr ''operator'' who) ''IMPORT_POLICY_PROFILE'' ''imported'' p st)"

subsection \<open>Requests and restarts\<close>

datatype policyRequest =
  Activate string caller "string result"
| Create string caller "Profile result"
| ByVersion string caller string "Profile result"
| Import string caller "Profile result result"

fun policyStep :: "PolicyEnv \<Rightarrow> policyRequest \<Rightarrow> PolicyState \<Rightarrow> PolicyState" where
  "policyStep n (Activate m who body) st = snd (activePolicy n m who body st)"
| "policyStep n (Create m who body) st = snd (createPolicy n m who body st)"
| "policyStep n (ByVersion m who rest body) st = snd (policyByVersion n m who rest body st)"
| "policyStep n (Import m who body) st = snd (importPolicy n m who body st)"

fun policyRun :: "(PolicyEnv \<times> policyRequest) list \<Rightarrow> PolicyState \<Rightarrow> PolicyState" where
  "policyRun [] st = st"
| "policyRun ((n, r) # rs) st = policyRun rs (policyStep n r st)"

text \<open>\<open>filepath.Glob\<close> with the pattern \<open>policies/*.yaml\<close>, and the start of the server on the files it finds.\<close>

definition globPolicies :: "fileTree \<Rightarrow> fileTree" where
  "globPolicies fs = sort_key fst
     (filter (\<lambda>f. prefix ''policies/'' (fst f) \<and> suffix ''.yaml'' (fst f) \<and> length ''policies/.yaml'' \<le> length (fst f) \<and>
        CHR ''/'' \<notin> set (drop (length ''policies/'') (fst f))) fs)"

definition restartEngine :: "(string \<Rightarrow> Profile option) \<Rightarrow> fileTree \<Rightarrow> Engine" where
  "restartEngine unmarshal fs = LoadEngine (Some (map (\<lambda>f. (fst f, unmarshal (snd f))) (globPolicies fs)))"

end
