(* ===== verification/PolicyApiProofs.thy ===== *)
theory PolicyApiProofs
  imports PolicyApi
begin

text \<open>
  What the policy handlers do to the directory of policy files, and what a restart makes of it: the handlers
  touch no file outside it, a profile that was saved is there again after a restart, but the choice of the
  active profile is not, and versions that differ only in the case of letters share a file.
\<close>

subsection \<open>Names\<close>

lemma sanitize_id: "sanitizePolicyFilename s = s \<longleftrightarrow> list_all safeChar s"
proof -
  have u: "safeChar (CHR ''_'')" by (simp add: safeChar_def)
  show ?thesis unfolding sanitizePolicyFilename_def by (induction s) (use u in \<open>auto split: if_splits\<close>)
qed

lemma safeChar_slash: "\<not> safeChar (CHR ''/'')"
  by (simp add: safeChar_def isDigit_def less_eq_char_simp)

lemma safe_no_slash: "list_all safeChar s \<Longrightarrow> CHR ''/'' \<notin> set s"
  using safeChar_slash by (auto simp: list_all_iff)

lemma lowerByte_dot: "lowerByte c = CHR ''.'' \<longleftrightarrow> c = CHR ''.''"
proof
  assume a: "lowerByte c = CHR ''.''"
  show "c = CHR ''.''"
  proof (cases "isUpperByte c")
    case True
    then have "of_char (lowerByte c) = (of_char c :: nat) + 32"
      by (simp add: lowerByte_def isUpperByte_def of_char_of take_bit_eq_mod)
    with a have "(of_char c :: nat) = 14" by (simp add: of_char_def)
    with True show ?thesis by (simp add: isUpperByte_def)
  qed (use a in \<open>simp add: lowerByte_def\<close>)
qed (simp add: lowerByte_def isUpperByte_def of_char_def)

lemma toLower_dots: "contains (toLower v) ''..'' \<longleftrightarrow> contains v ''..''"
proof
  assume "contains (toLower v) ''..''"
  then obtain a b where "map lowerByte v = a @ (CHR ''.'' # CHR ''.'' # b)"
    by (auto simp: contains_iff_sublist toLower_def sublist_def)
  then obtain a' c d b' where "v = a' @ c # d # b'" "lowerByte c = CHR ''.''" "lowerByte d = CHR ''.''"
    by (auto simp: map_eq_append_conv map_eq_Cons_conv)
  then have "v = a' @ ''..'' @ b'" by (simp add: lowerByte_dot)
  then show "contains v ''..''" unfolding contains_iff_sublist sublist_def by blast
next
  assume "contains v ''..''"
  then obtain a b where v: "v = a @ ''..'' @ b" by (auto simp: contains_iff_sublist sublist_def)
  have "lowerByte (CHR ''.'') = CHR ''.''" by (simp add: lowerByte_dot)
  then have "toLower v = toLower a @ ''..'' @ toLower b" by (simp add: toLower_def v)
  then show "contains (toLower v) ''..''" unfolding contains_iff_sublist sublist_def by blast
qed

text \<open>A path that the handlers may touch: one file of the directory, named by safe characters.\<close>

definition policyFile :: "string \<Rightarrow> bool" where
  "policyFile path \<longleftrightarrow> (\<exists>s. path = policyPath s \<and> s \<noteq> [] \<and> list_all safeChar s \<and> \<not> contains s ''..'')"

lemma valid_policyFile:
  assumes "policyVersionValid v"
  shows "policyFile (policyPath (sanitizePolicyFilename (toLower v)))"
  using assms unfolding policyFile_def policyVersionValid_def
  by (metis sanitize_id toLower_dots toLower_def map_is_Nil_conv)

subsection \<open>Writes\<close>

interpretation content: keyed_update fst "\<lambda>r. (fst r, data)" for data
  by unfold_locales simp

lemma find_putFile:
  "tblFind fst p (putFile path data fs) = (if p = path then Some (path, data) else tblFind fst p fs)"
  using content.find_upsert [of p "(path, data)" data fs] tblFind_Some [of fst p fs]
  by (auto simp: putFile_def split: option.splits simp del: tblFind_None)

lemma find_WriteFile: "p \<noteq> path \<Longrightarrow> tblFind fst p (snd (WriteFile n path data fs)) = tblFind fst p fs"
  by (simp add: WriteFile_def find_putFile split: option.split prod.split)

lemma find_delete: "p \<noteq> path \<Longrightarrow> tblFind fst p (tblDelete fst path fs) = tblFind fst p fs"
  by (induction fs) (auto simp: tblFind_def tblDelete_def)

lemma find_removeFile: "p \<noteq> path \<Longrightarrow> tblFind fst p (removeFile n path fs) = tblFind fst p fs"
  by (simp add: removeFile_def find_delete)

lemma files_audit [simp]: "psFiles (policyAudit n u a d st) = psFiles st" "psEngine (policyAudit n u a d st) = psEngine st"
  by (simp_all add: policyAudit_def)

lemma files_event [simp]: "psFiles (policyEvent n kvs st) = psFiles st" "psEngine (policyEvent n kvs st) = psEngine st"
  by (simp_all add: policyEvent_def)

lemma files_activate [simp]: "psFiles (snd (activePolicy n m who body st)) = psFiles st"
  by (simp add: activePolicy_def split: sum.split prod.split option.split)

lemma find_savePolicy:
  assumes "p \<noteq> policyPath (sanitizePolicyFilename (toLower (Version q)))"
  shows "tblFind fst p (psFiles (snd (savePolicy n actor act verb q st))) = tblFind fst p (psFiles st)"
  using find_WriteFile [OF assms]
  by (auto simp: savePolicy_def writePolicyFile_def case_prod_beta split: prod.split option.split sum.split)

lemma find_createPolicy:
  assumes "\<not> policyFile p"
  shows "tblFind fst p (psFiles (snd (createPolicy n m who body st))) = tblFind fst p (psFiles st)"
proof (cases body)
  case (Inr req)
  show ?thesis
  proof (cases "Version req = [] \<or> contains (Version req) ''..'' \<or> sanitizePolicyFilename (toLower (Version req)) \<noteq> toLower (Version req)")
    case False
    then have "policyVersionValid (Version req)" by (simp add: policyVersionValid_def)
    from valid_policyFile [OF this] assms False have "p \<noteq> policyPath (toLower (Version req))" by auto
    from find_WriteFile [OF this] show ?thesis
      by (simp add: createPolicy_def Inr Let_def case_prod_beta split: option.split)
  qed (auto simp: createPolicy_def Inr Let_def)
qed (simp add: createPolicy_def)

lemma find_policyByVersion:
  assumes "\<not> policyFile p"
  shows "tblFind fst p (psFiles (snd (policyByVersion n m who rest body st))) = tblFind fst p (psFiles st)"
proof (cases "policyVersionValid (hd (splitOn (CHR ''/'') rest))")
  case True
  let ?v = "hd (splitOn (CHR ''/'') rest)"
  from True have ok: "policyVersionValid ?v = True" by simp
  have ne: "p \<noteq> policyPath (sanitizePolicyFilename (toLower ?v))" using valid_policyFile [OF True] assms by auto
  have save: "tblFind fst p (psFiles (snd (savePolicy n actor act verb (req\<lparr>Version := ?v\<rparr>) st))) = tblFind fst p (psFiles st)"
    for actor act verb req by (rule find_savePolicy) (use ne in simp)
  define E where "E \<longleftrightarrow> length (splitOn (CHR ''/'') rest) = 2 \<and> splitOn (CHR ''/'') rest ! 1 = ''export''"
  have sym: "(length (splitOn (CHR ''/'') rest) = 2 \<and> splitOn (CHR ''/'') rest ! Suc 0 = ''export'') = E"
    by (simp add: E_def)
  note unf = policyByVersion_def Let_def ok sym
  consider (export) E | (put) req where "\<not> E" "m = ''PUT''" "body = Inr req" | (del) "\<not> E" "m = ''DELETE''"
    | (other) "\<not> E" "m = ''PUT'' \<longrightarrow> isl body" "m \<noteq> ''DELETE''" by (cases body) auto
  then show ?thesis
  proof cases
    case export
    then show ?thesis by (simp add: unf split: prod.split bool.split sum.split)
  next
    case (put req)
    obtain r st1 where r: "savePolicy n (actorOr ''operator'' who) ''UPDATE_POLICY_PROFILE'' ''updated''
        (req\<lparr>Version := ?v\<rparr>) st = (r, st1)" by fastforce
    from save [of _ _ _ req, unfolded r] save r have "tblFind fst p (psFiles st1) = tblFind fst p (psFiles st)"
      by (metis snd_conv)
    with put r show ?thesis by (cases r) (simp_all add: unf)
  next
    case del
    then show ?thesis by (simp add: unf find_removeFile [OF ne] split: prod.split option.split)
  next
    case other
    then show ?thesis by (cases body) (simp_all add: unf)
  qed
qed (simp add: policyByVersion_def)

lemma find_importPolicy:
  assumes "\<not> policyFile p"
  shows "tblFind fst p (psFiles (snd (importPolicy n m who body st))) = tblFind fst p (psFiles st)"
  using assms valid_policyFile find_savePolicy
  by (auto simp: importPolicy_def split: sum.split) metis+

text \<open>C30: Whatever policy requests arrive, every file they change is one of the policies directory, named by
  letters, digits, dots, dashes and underscores without two dots in a row; no other file changes.\<close>

theorem policy_files_confined:
  "policyFile path \<or> tblFind fst path (psFiles (policyRun rs st)) = tblFind fst path (psFiles st)"
proof (cases "policyFile path")
  case False
  have step: "tblFind fst path (psFiles (policyStep n r st)) = tblFind fst path (psFiles st)" for n r st
    by (cases r) (simp_all add: find_createPolicy find_policyByVersion find_importPolicy False)
  have "tblFind fst path (psFiles (policyRun rs st)) = tblFind fst path (psFiles st)"
    by (induction rs arbitrary: st) (auto simp: step)
  then show ?thesis by simp
qed simp

subsection \<open>Restarts\<close>

definition holdsVersion :: "string \<Rightarrow> string \<times> Profile option \<Rightarrow> bool" where
  "holdsVersion v r \<longleftrightarrow> (case snd r of None \<Rightarrow> False | Some q \<Rightarrow> Version q \<noteq> [] \<and> Version q = v)"

lemma load_version:
  "profiles (loadProfiles l e) v =
     (case filter (holdsVersion v) l of [] \<Rightarrow> profiles e v | rs \<Rightarrow> snd (last rs))"
  by (induction l e rule: loadProfiles.induct)
    (auto simp: holdsVersion_def Let_def split: option.splits list.splits if_splits)

lemma load_active:
  "\<forall>r \<in> set l. \<not> contains (fst r) ''nist-pqc-2026'' \<Longrightarrow> active (loadProfiles l e) = active e"
  by (induction l e rule: loadProfiles.induct) (simp_all add: Let_def split: option.splits)

definition globbed :: "string \<Rightarrow> bool" where
  "globbed path \<longleftrightarrow> prefix ''policies/'' path \<and> suffix ''.yaml'' path \<and> length ''policies/.yaml'' \<le> length path \<and>
     CHR ''/'' \<notin> set (drop (length ''policies/'') path)"

lemma globPolicies_alt: "globPolicies fs = sort_key fst (filter (\<lambda>f. globbed (fst f)) fs)"
  by (simp add: globPolicies_def globbed_def)

lemma policyFile_globbed: "list_all safeChar s \<Longrightarrow> globbed (policyPath s)"
  using safe_no_slash [of s] by (auto simp: globbed_def policyPath_def suffix_def)

text \<open>What a version is after a restart: the profile of the last file that declares it.\<close>

definition declares :: "(string \<Rightarrow> Profile option) \<Rightarrow> string \<Rightarrow> string \<times> string \<Rightarrow> bool" where
  "declares unmarshal v f \<longleftrightarrow> globbed (fst f) \<and> holdsVersion v (fst f, unmarshal (snd f))"

lemma declares_alt: "declares unmarshal v = (\<lambda>f. globbed (fst f) \<and> holdsVersion v (fst f, unmarshal (snd f)))"
  by (simp add: fun_eq_iff declares_def)

lemma restart_version:
  "profiles (restartEngine unmarshal fs) v =
     (case sort_key fst (filter (declares unmarshal v) fs) of
        [] \<Rightarrow> if v = ''nist-pqc-2026.1'' then Some NIST2026Profile else None | rs \<Rightarrow> unmarshal (snd (last rs)))"
proof -
  have "filter (holdsVersion v) (map (\<lambda>f. (fst f, unmarshal (snd f))) (globPolicies fs)) =
      map (\<lambda>f. (fst f, unmarshal (snd f))) (sort_key fst (filter (declares unmarshal v) fs))"
    by (simp add: globPolicies_alt filter_map filter_sort comp_def declares_alt)
  then show ?thesis
    by (auto simp: restartEngine_def LoadEngine_def Let_def load_version NIST2026Profile_def last_map
        split: list.split)
qed

text \<open>Each file is named after the version it declares.\<close>

definition wellNamed :: "(string \<Rightarrow> Profile option) \<Rightarrow> fileTree \<Rightarrow> bool" where
  "wellNamed unmarshal fs \<longleftrightarrow>
     (\<forall>f \<in> set fs. \<forall>v. declares unmarshal v f \<longrightarrow> fst f = policyPath (toLower v))"

lemma set_putFile: "set (putFile path data fs) = {f \<in> set fs. fst f \<noteq> path} \<union> {(path, data)}"
  by (auto simp: putFile_def tblUpsert_def set_tblUpdate)

lemma filter_putFile:
  assumes "\<And>f. f \<in> set fs \<Longrightarrow> fst f = path \<Longrightarrow> \<not> P f" and "\<not> P (path, data)"
  shows "filter P (putFile path data fs) = filter P fs"
proof -
  have "filter P (tblUpdate fst path (\<lambda>r. (fst r, data)) fs) = filter P fs"
    using assms by (induction fs) (auto simp: tblUpdate_def)
  then show ?thesis using assms(2) by (simp add: putFile_def tblUpsert_def)
qed

lemma savePolicy_ok:
  assumes "savePolicy n actor act verb q st = (Inr p, st')" and "policyVersionValid (Version q)"
  shows "p = q \<and> psEngine st' = AddProfile p (psEngine st) \<and>
    (\<exists>data. pnMarshal n p = Inr data \<and> psFiles st' = putFile (policyPath (toLower (Version p))) data (psFiles st))"
  using assms
  by (auto simp: savePolicy_def writePolicyFile_def WriteFile_def policyVersionValid_def Let_def
      split: sum.splits option.splits prod.splits)

lemma put_ok:
  assumes "policyByVersion n ''PUT'' who rest (Inr req) st = (Inr (PolicySaved p), st')"
  shows "policyVersionValid (Version p) \<and> psEngine st' = AddProfile p (psEngine st) \<and>
    (\<exists>data. pnMarshal n p = Inr data \<and> psFiles st' = putFile (policyPath (toLower (Version p))) data (psFiles st))"
proof -
  let ?v = "hd (splitOn (CHR ''/'') rest)"
  from assms have ok: "policyVersionValid ?v"
    and "savePolicy n (actorOr ''operator'' who) ''UPDATE_POLICY_PROFILE'' ''updated'' (req\<lparr>Version := ?v\<rparr>) st = (Inr p, st')"
    by (auto simp: policyByVersion_def Let_def split: if_splits sum.splits prod.splits bool.splits)
  from savePolicy_ok [OF this(2)] ok show ?thesis by auto
qed

lemma version_declares:
  assumes "policyVersionValid (Version p)" and "unmarshal data = Some p"
  shows "declares unmarshal v (policyPath (toLower (Version p)), data) \<longleftrightarrow> v = Version p"
proof -
  have "list_all safeChar (toLower (Version p))" using assms(1) sanitize_id by (auto simp: policyVersionValid_def)
  from policyFile_globbed [OF this] assms show ?thesis
    by (auto simp: declares_def holdsVersion_def policyVersionValid_def)
qed

lemma put_restart:
  assumes put: "policyByVersion n ''PUT'' who rest (Inr req) st = (Inr (PolicySaved p), st')"
    and yaml: "\<And>data. pnMarshal n p = Inr data \<Longrightarrow> unmarshal data = Some p"
    and named: "wellNamed unmarshal (psFiles st)"
  shows "wellNamed unmarshal (psFiles st')"
    and "filter (declares unmarshal v) (psFiles st') = filter (declares unmarshal v) (psFiles st)
       \<or> toLower v = toLower (Version p)"
    and "f \<in> set (psFiles st') \<Longrightarrow> declares unmarshal v f \<Longrightarrow> toLower v = toLower (Version p) \<Longrightarrow>
       v = Version p \<and> unmarshal (snd f) = Some p"
    and "\<exists>f \<in> set (psFiles st'). declares unmarshal (Version p) f"
proof -
  from put_ok [OF put] obtain data where ok: "policyVersionValid (Version p)" and m: "pnMarshal n p = Inr data"
    and fs: "psFiles st' = putFile (policyPath (toLower (Version p))) data (psFiles st)" by blast
  have path: "policyPath a = policyPath b \<longleftrightarrow> a = b" for a b by (simp add: policyPath_def)
  note dec = version_declares [where p = p and data = data and unmarshal = unmarshal, OF ok yaml [OF m]]
  have old: "toLower v = toLower w" if "f \<in> set (psFiles st)" "declares unmarshal v f" "fst f = policyPath (toLower w)" for v w f
    using named that path by (auto simp: wellNamed_def)
  show "wellNamed unmarshal (psFiles st')"
    using named dec by (auto simp: wellNamed_def fs set_putFile)
  show "filter (declares unmarshal v) (psFiles st') = filter (declares unmarshal v) (psFiles st)
       \<or> toLower v = toLower (Version p)"
    unfolding fs using old [of _ v "Version p"] dec by (metis filter_putFile)
  show "v = Version p \<and> unmarshal (snd f) = Some p"
    if "f \<in> set (psFiles st')" "declares unmarshal v f" "toLower v = toLower (Version p)"
    using that named dec yaml [OF m] by (auto simp: wellNamed_def fs set_putFile)
  show "\<exists>f \<in> set (psFiles st'). declares unmarshal (Version p) f"
    using dec by (auto simp: fs set_putFile)
qed



text \<open>Two versions that differ only in the case of their letters are two profiles of the engine but one file: of
  two that were saved one after the other the first is gone after a restart.\<close>

theorem case_versions_share_file:
  assumes "policyByVersion n ''PUT'' who rest (Inr req) st = (Inr (PolicySaved p), st1)"
    and "policyByVersion n ''PUT'' who rest' (Inr req') st1 = (Inr (PolicySaved q), st2)"
    and "Version p \<noteq> Version q" and "toLower (Version p) = toLower (Version q)"
    and "Version p \<noteq> ''nist-pqc-2026.1''"
    and "\<And>r data. pnMarshal n r = Inr data \<Longrightarrow> unmarshal data = Some r"
    and "wellNamed unmarshal (psFiles st)"
  shows "profiles (psEngine st2) (Version p) = Some p \<and> profiles (psEngine st2) (Version q) = Some q \<and>
    profiles (restartEngine unmarshal (psFiles st2)) (Version p) = None"
proof -
  have w1: "wellNamed unmarshal (psFiles st1)" by (rule put_restart(1) [OF assms(1) assms(6) assms(7)])
  have "filter (declares unmarshal (Version p)) (psFiles st2) = []"
    using put_restart(3) [OF assms(2) assms(6) w1, of _ "Version p"] assms(3,4) by (auto simp: filter_empty_conv)
  then have "profiles (restartEngine unmarshal (psFiles st2)) (Version p) = None"
    using assms(5) by (simp add: restart_version)
  with put_ok [OF assms(1)] put_ok [OF assms(2)] assms(3) show ?thesis by (auto simp: AddProfile_def)
qed

text \<open>The active profile is a matter of the running server only: choosing one writes no file, and with no file whose
  path contains the name of the built-in profile every restart goes back to that one.\<close>

theorem active_choice_lost:
  assumes "activePolicy n m who (Inr v) st = (Inr a, st')"
    and "\<forall>f \<in> set (psFiles st). \<not> contains (fst f) ''nist-pqc-2026''"
  shows "active (psEngine st') = v \<and> psFiles st' = psFiles st \<and> psAudit st' = psAudit st \<and>
    active (restartEngine unmarshal (psFiles st')) = ''nist-pqc-2026.1''"
proof -
  from assms(1) have "active (psEngine st') = v \<and> psFiles st' = psFiles st \<and> psAudit st' = psAudit st"
    by (auto simp: activePolicy_def SetActiveProfile_def policyEvent_def split: if_splits option.splits)
  moreover have "active (restartEngine unmarshal (psFiles st)) = ''nist-pqc-2026.1''"
    unfolding restartEngine_def LoadEngine_def Let_def option.case
    by (subst load_active) (use assms(2) in \<open>auto simp: globPolicies_alt\<close>)
  ultimately show ?thesis by simp
qed

text \<open>The text of a field of the request becomes part of the YAML that \<open>createPolicy\<close> writes, so a request can
  add any line to the file.\<close>

lemma yaml_kem: "\<exists>pre post. \<forall>k. policyYaml n (p\<lparr>PreferredKEM := k\<rparr>) = pre @ k @ post"
proof (intro exI allI)
  fix k
  show "policyYaml n (p\<lparr>PreferredKEM := k\<rparr>) =
      (''version: '' @ [CHR 0x22] @ Version p @ [CHR 0x22, CHR 0x0A] @
       ''minimum_rsa_key_bits: '' @ decInt (int (MinimumRSAKeyBits p)) @ [CHR 0x0A] @
       ''minimum_dh_safe_prime_bits: '' @ decInt (int (MinimumDHSafePrimeBits p)) @ [CHR 0x0A] @
       ''require_tls_13: '' @ formatBool (RequireTLS13 p) @ [CHR 0x0A] @
       ''require_hybrid_pq_tls_13: '' @ formatBool (RequireHybridPQTLS13 p) @ [CHR 0x0A] @
       ''preferred_kem: '' @ [CHR 0x22]) @ k @
      ([CHR 0x22, CHR 0x0A] @ ''preferred_signature: '' @ [CHR 0x22] @ PreferredSignature p @ [CHR 0x22, CHR 0x0A] @
       ''minimum_confidence: '' @ pnDecimal n (MinimumConfidence p) @ [CHR 0x0A])"
    by (simp add: policyYaml_def)
qed

lemma yaml_line_injected:
  "\<exists>pre post. policyYaml n (p\<lparr>PreferredKEM := ''x'' @ [CHR 0x22, CHR 0x0A] @ line @ [CHR 0x0A] @ ''#''\<rparr>) =
     pre @ [CHR 0x0A] @ line @ [CHR 0x0A] @ post"
proof -
  obtain pre post where kem: "\<And>k. policyYaml n (p\<lparr>PreferredKEM := k\<rparr>) = pre @ k @ post" using yaml_kem by blast
  show ?thesis
    by (intro exI [where x = "pre @ ''x'' @ [CHR 0x22]"] exI [where x = "''#'' @ post"]) (simp add: kem)
qed

subsection \<open>Witnesses\<close>

text \<open>A YAML of versions only, which reads back what it wrote for profiles that have no other field set.\<close>

definition demo_policy_env :: PolicyEnv where
  "demo_policy_env = \<lparr>pnNow = 0, pnLogID = ''l1'', pnSha = (\<lambda>x. x), pnEvent = (\<lambda>t f. Inl ''off''),
     pnMarshal = (\<lambda>p. if p = zeroProfile\<lparr>Version := Version p\<rparr> then Inr (Version p) else Inl ''unsupported''),
     pnUnmarshal = (\<lambda>s. Some (zeroProfile\<lparr>Version := s\<rparr>)), pnDecimal = (\<lambda>x. ''0.00''), pnMkdir = None,
     pnWrite = (\<lambda>path. None), pnRemovable = (\<lambda>path. True)\<rparr>"

definition demo_policies :: PolicyState where
  "demo_policies = \<lparr>psEngine = LoadEngine None, psFiles = [], psHub = newHub,
     psAudit = \<lparr>auditRows = [], auditFault = None\<rparr>\<rparr>"

lemma demo_yaml: "pnMarshal demo_policy_env p = Inr data \<Longrightarrow> pnUnmarshal demo_policy_env data = Some p"
  by (auto simp: demo_policy_env_def split: if_splits)

lemma demo_named: "wellNamed unmarshal (psFiles demo_policies)"
  by (simp add: wellNamed_def demo_policies_def)

definition demo_admin :: caller where
  "demo_admin = Some (''root'', ''admin'', ''acme'')"

lemma demo_put:
  assumes "v \<in> {''A'', ''a''}"
  shows "\<exists>st'. policyByVersion demo_policy_env ''PUT'' demo_admin v (Inr zeroProfile) st =
    (Inr (PolicySaved (zeroProfile\<lparr>Version := v\<rparr>)), st')"
proof -
  have low: "toLower ''A'' = ''a''" "toLower ''a'' = ''a''" "sanitizePolicyFilename ''a'' = ''a''" by code_simp+
  have v: "splitOn (CHR ''/'') v = [v]" "toLower v = ''a''" "v \<noteq> []" "\<not> contains v ''..''"
    using assms low by auto
  then have "policyVersionValid v" by (simp add: policyVersionValid_def low)
  then show ?thesis
    by (simp add: policyByVersion_def savePolicy_def writePolicyFile_def WriteFile_def v low demo_policy_env_def)
qed


theorem case_versions_share_file_witness:
  "\<exists>st2 :: PolicyState. profiles (psEngine st2) ''A'' \<noteq> None \<and>
     profiles (restartEngine (pnUnmarshal demo_policy_env) (psFiles st2)) ''A'' = None"
proof -
  obtain st1 where 1: "policyByVersion demo_policy_env ''PUT'' demo_admin ''A'' (Inr zeroProfile) demo_policies =
      (Inr (PolicySaved (zeroProfile\<lparr>Version := ''A''\<rparr>)), st1)" using demo_put by blast
  obtain st2 where 2: "policyByVersion demo_policy_env ''PUT'' demo_admin ''a'' (Inr zeroProfile) st1 =
      (Inr (PolicySaved (zeroProfile\<lparr>Version := ''a''\<rparr>)), st2)" using demo_put by blast
  have l: "toLower ''A'' = toLower ''a''" by code_simp
  from case_versions_share_file [where unmarshal = "pnUnmarshal demo_policy_env", OF 1 2 _ _ _ demo_yaml demo_named]
  show ?thesis by (intro exI [where x = st2]) (simp add: l)
qed

theorem active_choice_lost_witness:
  "\<exists>st' :: PolicyState. active (psEngine st') = ''a'' \<and> active (restartEngine (pnUnmarshal demo_policy_env) (psFiles st')) = ''nist-pqc-2026.1''"
proof -
  let ?st = "demo_policies\<lparr>psEngine := AddProfile (zeroProfile\<lparr>Version := ''a''\<rparr>) (LoadEngine None)\<rparr>"
  have "\<exists>v. fst (activePolicy demo_policy_env ''POST'' demo_admin (Inr ''a'') ?st) = Inr v"
    by (simp add: activePolicy_def demo_admin_def callerRole_def requireWriteRole_def SetActiveProfile_def AddProfile_def)
  then obtain a st' where r: "activePolicy demo_policy_env ''POST'' demo_admin (Inr ''a'') ?st = (Inr a, st')"
    by (metis prod.collapse)
  from active_choice_lost [OF r, of "pnUnmarshal demo_policy_env"] show ?thesis by (auto simp: demo_policies_def)
qed

end
