(* ===== verification/AdminApi.thy ===== *)
theory AdminApi
  imports CommandApi Webhooks UrlGuard PolicyApi FleetQuery
begin

text \<open>
  The administration of the fleet: \<open>fleetConfig\<close>, \<open>fleetProfiles\<close>, \<open>fleetProfileMapping\<close>,
  \<open>agentDiagnostics\<close>, \<open>webhooks\<close> and \<open>retention\<close> of \<^verbatim>\<open>httpapi/server.go\<close>, \<open>agentConfig\<close> of
  \<^verbatim>\<open>agent_routes.go\<close>, \<open>tenants\<close> of \<^verbatim>\<open>tenants.go\<close>, and their statements in \<^verbatim>\<open>store/store.go\<close>. The tables hang
  off the assets by foreign keys. \<open>avFaults\<close> says of each statement to come whether it fails for a reason
  beyond the constraints. Collation, clock, UUIDs and the date arithmetic of the retention are parameters.
\<close>

subsection \<open>Tables\<close>

record FleetConfig =
  fcConfigID :: string
  fcExcludeDirs :: string
  fcMinKeySize :: int
  fcScanSchedule :: string
  fcLLMApiKey :: string
  fcLLMApiUrl :: string
  fcUpdatedAt :: int

record ConfigProfile =
  cpProfileID :: string
  cpName :: string
  cpExcludeDirs :: string
  cpMinKeySize :: int
  cpScanSchedule :: string
  cpLLMApiKey :: string
  cpLLMApiUrl :: string
  cpUpdatedAt :: int

record AgentProfileMapping =
  amHostUUID :: string
  amProfileID :: string
  amMappedAt :: int

record RetentionPolicy =
  rpPolicyKey :: string
  rpRetentionDays :: int
  rpAutoPurge :: bool
  rpUpdatedAt :: int

record Tenant =
  tnTenantID :: string
  tnName :: string
  tnStatus :: string
  tnCreatedAt :: int

record AgentScanConfig =
  scHostUUID :: string
  scConfigured :: bool
  scPolicyVersion :: string
  scScanRoots :: "string list"
  scExcludeDirs :: "string list"
  scIncludeExtensions :: "string list"
  scScanIntervalSeconds :: nat
  scMaxFileBytes :: nat
  scMaxBinaryBytes :: nat
  scNetworkTargets :: "string list"
  scEnableRuntimeDiscovery :: bool
  scEnableProcessMemoryScraping :: bool
  scEnablePluginDiscovery :: bool
  scEnableActiveTLSProbing :: bool

record AdminState =
  avFleet :: "FleetConfig list"
  avProfiles :: "ConfigProfile list"
  avMappings :: "AgentProfileMapping list"
  avDiagnostics :: "(string \<times> string) list"
  avTenants :: "Tenant list"
  avRetention :: "RetentionPolicy list"
  avWebhooks :: "Webhook list"
  avScanConfigs :: "AgentScanConfig list"
  avMain :: IngestDB
  avAudit :: AuditDB
  avFaults :: "goerror list"

record AdminEnv =
  veNow :: int
  veUUID :: string
  veLogID :: string
  veSha :: "string \<Rightarrow> string"
  veNameBefore :: "string \<Rightarrow> string \<Rightarrow> bool"
  veScan :: "AgentProfileMapping list \<Rightarrow> AgentProfileMapping list"
  veCutoff :: "int \<Rightarrow> int"
  veParse :: "string \<Rightarrow> parsedURL result"
  veIP :: "string \<Rightarrow> ipClass option"

text \<open>One statement: it fails for a reason of its own, or runs and may meet a constraint.\<close>

definition stmt :: "(AdminState \<Rightarrow> 'a result \<times> AdminState) \<Rightarrow> AdminState \<Rightarrow> 'a result \<times> AdminState" where
  "stmt act st =
     (let (f, rest) = pop (avFaults st); st1 = st\<lparr>avFaults := rest\<rparr>
      in case f of Some e \<Rightarrow> (Inl e, st1) | None \<Rightarrow> act st1)"

definition knownHost :: "string \<Rightarrow> AdminState \<Rightarrow> bool" where
  "knownHost host st \<longleftrightarrow> host \<in> asHostUUID ` set (igAssets (avMain st))"

definition foreignKey :: string where
  "foreignKey = ''insert or update violates foreign key constraint''"

text \<open>A number beyond the range of its \<open>INTEGER\<close> column.\<close>

definition outOfRange :: string where
  "outOfRange = ''value is greater than maximum value for int4''"

definition adminAudit :: "AdminEnv \<Rightarrow> string \<Rightarrow> string \<Rightarrow> string \<Rightarrow> AdminState \<Rightarrow> AdminState" where
  "adminAudit v user action details st =
     st\<lparr>avAudit := snd (InsertAuditLog (veSha v) (veLogID v) (veNow v)
       \<lparr>LogID = [], alUsername = user, Action = action, Details = details, alCreatedAt = 0, PrevHash = [],
        EntryHash = []\<rparr> (avAudit st))\<rparr>"

subsection \<open>Fleet configuration\<close>

definition defaultFleetConfig :: "int \<Rightarrow> FleetConfig" where
  "defaultFleetConfig now = \<lparr>fcConfigID = ''default'',
     fcExcludeDirs = ''.git, target, node_modules, dist, .venv, temp'', fcMinKeySize = 2048, fcScanSchedule = ''daily'',
     fcLLMApiKey = [], fcLLMApiUrl = ''https://api.openai.com/v1'', fcUpdatedAt = now\<rparr>"

definition selectFleet :: "AdminState \<Rightarrow> FleetConfig result \<times> AdminState" where
  "selectFleet = stmt (\<lambda>st. (case avFleet st of [] \<Rightarrow> Inl ''no rows in result set'' | fc # x \<Rightarrow> Inr fc, st))"

definition GetFleetConfig :: "AdminEnv \<Rightarrow> AdminState \<Rightarrow> FleetConfig result \<times> AdminState" where
  "GetFleetConfig v st =
     (case selectFleet st of
        (Inr fc, st1) \<Rightarrow> (Inr fc, st1)
      | (Inl e, st1) \<Rightarrow>
          selectFleet (snd (stmt (\<lambda>s. (Inr (), s\<lparr>avFleet := tblInsert fcConfigID (defaultFleetConfig (veNow v)) (avFleet s)\<rparr>)) st1)))"

definition UpdateFleetConfig :: "AdminEnv \<Rightarrow> FleetConfig \<Rightarrow> AdminState \<Rightarrow> unit result \<times> AdminState" where
  "UpdateFleetConfig v fc = stmt (\<lambda>st.
     if \<not> int4 (fcMinKeySize fc) then (Inl outOfRange, st)
     else (Inr (), st\<lparr>avFleet := tblUpsert fcConfigID (fc\<lparr>fcConfigID := ''default'', fcUpdatedAt := veNow v\<rparr>)
       (\<lambda>old. fc\<lparr>fcConfigID := fcConfigID old, fcUpdatedAt := veNow v\<rparr>) (avFleet st)\<rparr>))"

definition GetConfigForAgent :: "AdminEnv \<Rightarrow> string \<Rightarrow> AdminState \<Rightarrow> FleetConfig result \<times> AdminState" where
  "GetConfigForAgent v host st =
     (case stmt (\<lambda>s. (case tblFind amHostUUID host (avMappings s) of
             None \<Rightarrow> Inl ''no rows in result set''
           | Some m \<Rightarrow> (case tblFind cpProfileID (amProfileID m) (avProfiles s) of
                          None \<Rightarrow> Inl ''no rows in result set''
                        | Some p \<Rightarrow> Inr \<lparr>fcConfigID = cpProfileID p, fcExcludeDirs = cpExcludeDirs p,
                            fcMinKeySize = cpMinKeySize p, fcScanSchedule = cpScanSchedule p, fcLLMApiKey = cpLLMApiKey p,
                            fcLLMApiUrl = cpLLMApiUrl p, fcUpdatedAt = cpUpdatedAt p\<rparr>), s)) st of
        (Inr fc, st1) \<Rightarrow> (Inr fc, st1)
      | (Inl e, st1) \<Rightarrow> GetFleetConfig v st1)"

definition maskedSecret :: string where
  "maskedSecret = ''***configured***''"

definition maskFleet :: "FleetConfig \<Rightarrow> FleetConfig" where
  "maskFleet fc = (if fcLLMApiKey fc \<noteq> [] then fc\<lparr>fcLLMApiKey := maskedSecret\<rparr> else fc)"

datatype fleetAnswer = FleetShown FleetConfig | FleetSaved

definition fleetConfig :: "AdminEnv \<Rightarrow> string \<Rightarrow> caller \<Rightarrow> string \<Rightarrow> FleetConfig result \<Rightarrow> AdminState
    \<Rightarrow> fleetAnswer answer \<times> AdminState" where
  "fleetConfig v httpMethod who host body st =
     (if httpMethod = ''GET''
      then (case (if host \<noteq> [] then GetConfigForAgent v host st else GetFleetConfig v st) of
              (Inl e, st1) \<Rightarrow> (Inl internalError, st1)
            | (Inr fc, st1) \<Rightarrow> (Inr (FleetShown (maskFleet fc)), st1))
      else if httpMethod = ''POST''
      then (if \<not> requireWriteRole (callerRole who) then (Inl (403, ''forbidden''), st)
            else case body of
              Inl e \<Rightarrow> (Inl (400, ''invalid JSON''), st)
            | Inr fc0 \<Rightarrow>
                (let (fc, st1) = (if fcLLMApiKey fc0 = maskedSecret
                        then (case GetFleetConfig v st of
                                (Inl e, s) \<Rightarrow> (fc0, s) | (Inr old, s) \<Rightarrow> (fc0\<lparr>fcLLMApiKey := fcLLMApiKey old\<rparr>, s))
                        else (fc0, st))
                 in case UpdateFleetConfig v fc st1 of
                      (Inl e, st2) \<Rightarrow> (Inl internalError, st2)
                    | (Inr u, st2) \<Rightarrow> (Inr FleetSaved, adminAudit v (actorOr ''admin'' who) ''UPDATE_FLEET_CONFIG''
                        (''Excluded dirs: '' @ fcExcludeDirs fc @ '', Min key size: '' @ decInt (fcMinKeySize fc) @
                         '', Schedule: '' @ fcScanSchedule fc) st2)))
      else (Inl (405, []), st))"

subsection \<open>Profiles and mappings\<close>

definition GetConfigProfiles :: "AdminEnv \<Rightarrow> AdminState \<Rightarrow> ConfigProfile list result \<times> AdminState" where
  "GetConfigProfiles v = stmt (\<lambda>st. (Inr (orderRows (\<lambda>x y. veNameBefore v (cpName x) (cpName y)) (avProfiles st)), st))"

definition CreateConfigProfile :: "AdminEnv \<Rightarrow> ConfigProfile \<Rightarrow> AdminState \<Rightarrow> string result \<times> AdminState" where
  "CreateConfigProfile v cp0 =
     (let cp = (if cpProfileID cp0 = [] then cp0\<lparr>cpProfileID := veUUID v\<rparr> else cp0)
      in stmt (\<lambda>st. if \<not> int4 (cpMinKeySize cp) then (Inl outOfRange, st)
           else (Inr (cpProfileID cp), st\<lparr>avProfiles := tblUpsert cpProfileID (cp\<lparr>cpUpdatedAt := veNow v\<rparr>)
             (\<lambda>old. cp\<lparr>cpProfileID := cpProfileID old, cpUpdatedAt := veNow v\<rparr>) (avProfiles st)\<rparr>)))"

definition DeleteConfigProfile :: "string \<Rightarrow> AdminState \<Rightarrow> unit result \<times> AdminState" where
  "DeleteConfigProfile profileID = stmt (\<lambda>st. (Inr (), st\<lparr>avProfiles := tblDelete cpProfileID profileID (avProfiles st),
     avMappings := filter (\<lambda>m. amProfileID m \<noteq> profileID) (avMappings st)\<rparr>))"

definition GetAgentProfileMappings :: "AdminEnv \<Rightarrow> AdminState \<Rightarrow> AgentProfileMapping list result \<times> AdminState" where
  "GetAgentProfileMappings v = stmt (\<lambda>st. (Inr (veScan v (avMappings st)), st))"

definition MapAgentToProfile :: "AdminEnv \<Rightarrow> string \<Rightarrow> string \<Rightarrow> AdminState \<Rightarrow> unit result \<times> AdminState" where
  "MapAgentToProfile v host profileID =
     (if profileID = [] then stmt (\<lambda>st. (Inr (), st\<lparr>avMappings := tblDelete amHostUUID host (avMappings st)\<rparr>))
      else stmt (\<lambda>st. if \<not> knownHost host st \<or> profileID \<notin> cpProfileID ` set (avProfiles st) then (Inl foreignKey, st)
        else (Inr (), st\<lparr>avMappings := tblUpsert amHostUUID
               \<lparr>amHostUUID = host, amProfileID = profileID, amMappedAt = veNow v\<rparr>
               (\<lambda>m. m\<lparr>amProfileID := profileID, amMappedAt := veNow v\<rparr>) (avMappings st)\<rparr>)))"

datatype profileAnswer = ProfilesShown "ConfigProfile list" | ProfileSaved string | ProfileDeleted

definition maskProfile :: "ConfigProfile \<Rightarrow> ConfigProfile" where
  "maskProfile cp = (if cpLLMApiKey cp \<noteq> [] then cp\<lparr>cpLLMApiKey := maskedSecret\<rparr> else cp)"

text \<open>\<open>idParam\<close> and \<open>profileParam\<close> are the query parameters \<open>id\<close> and \<open>profile_id\<close>.\<close>

definition fleetProfiles :: "AdminEnv \<Rightarrow> string \<Rightarrow> caller \<Rightarrow> string \<Rightarrow> string \<Rightarrow> ConfigProfile result \<Rightarrow> AdminState
    \<Rightarrow> profileAnswer answer \<times> AdminState" where
  "fleetProfiles v httpMethod who idParam profileParam body st =
     (if httpMethod = ''GET''
      then (case GetConfigProfiles v st of
              (Inl e, st1) \<Rightarrow> (Inl internalError, st1) | (Inr ps, st1) \<Rightarrow> (Inr (ProfilesShown (map maskProfile ps)), st1))
      else if httpMethod = ''POST''
      then (if \<not> requireWriteRole (callerRole who) then (Inl (403, ''forbidden''), st)
            else case body of
              Inl e \<Rightarrow> (Inl (400, ''invalid JSON''), st)
            | Inr cp0 \<Rightarrow>
                (let cp = (if cpLLMApiKey cp0 = maskedSecret then cp0\<lparr>cpLLMApiKey := []\<rparr> else cp0)
                 in if cpName cp = [] then (Inl (400, ''profile name is required''), st)
                    else case CreateConfigProfile v cp st of
                      (Inl e, st1) \<Rightarrow> (Inl internalError, st1) | (Inr i, st1) \<Rightarrow> (Inr (ProfileSaved i), st1)))
      else if httpMethod = ''DELETE''
      then (if \<not> requireWriteRole (callerRole who) then (Inl (403, ''forbidden''), st)
            else let profileID = (if idParam = [] then profileParam else idParam) in
              if profileID = [] then (Inl (400, ''id parameter required''), st)
              else case DeleteConfigProfile profileID st of
                (Inl e, st1) \<Rightarrow> (Inl internalError, st1) | (Inr u, st1) \<Rightarrow> (Inr ProfileDeleted, st1))
      else (Inl (405, []), st))"

datatype mappingAnswer = MappingsShown "AgentProfileMapping list" | Mapped string string

definition fleetProfileMapping :: "AdminEnv \<Rightarrow> string \<Rightarrow> caller \<Rightarrow> (string \<times> string) result \<Rightarrow> AdminState
    \<Rightarrow> mappingAnswer answer \<times> AdminState" where
  "fleetProfileMapping v httpMethod who body st =
     (if httpMethod = ''GET''
      then (case GetAgentProfileMappings v st of
              (Inl e, st1) \<Rightarrow> (Inl internalError, st1) | (Inr ms, st1) \<Rightarrow> (Inr (MappingsShown ms), st1))
      else if httpMethod = ''POST''
      then (if \<not> requireWriteRole (callerRole who) then (Inl (403, ''forbidden''), st)
            else case body of
              Inl e \<Rightarrow> (Inl (400, ''invalid JSON''), st)
            | Inr (host, profileID) \<Rightarrow>
                if host = [] then (Inl (400, ''host_uuid is required''), st)
                else (case MapAgentToProfile v host profileID st of
                        (Inl e, st1) \<Rightarrow> (Inl internalError, st1) | (Inr u, st1) \<Rightarrow> (Inr (Mapped host profileID), st1)))
      else (Inl (405, []), st))"

subsection \<open>Diagnostics\<close>

definition GetAgentDiagnostics :: "string \<Rightarrow> AdminState \<Rightarrow> string \<times> AdminState" where
  "GetAgentDiagnostics host st =
     (case stmt (\<lambda>s. (case tblFind fst host (avDiagnostics s) of
             None \<Rightarrow> Inl ''no rows in result set'' | Some r \<Rightarrow> Inr (snd r), s)) st of
        (Inl e, st1) \<Rightarrow> ([], st1) | (Inr logs, st1) \<Rightarrow> (logs, st1))"

definition UpdateAgentDiagnostics :: "string \<Rightarrow> string \<Rightarrow> AdminState \<Rightarrow> unit result \<times> AdminState" where
  "UpdateAgentDiagnostics host logs = stmt (\<lambda>st.
     if \<not> knownHost host st then (Inl foreignKey, st)
     else (Inr (), st\<lparr>avDiagnostics := tblUpsert fst (host, logs) (\<lambda>r. (fst r, logs)) (avDiagnostics st)\<rparr>))"

definition agentDiagnostics :: "string \<Rightarrow> string \<Rightarrow> (string \<times> string) result \<Rightarrow> AdminState \<Rightarrow> string answer \<times> AdminState" where
  "agentDiagnostics httpMethod hostParam body st =
     (if httpMethod = ''GET''
      then (if hostParam = [] then (Inl (400, ''host_uuid is required''), st)
            else let (logs, st1) = GetAgentDiagnostics hostParam st in (Inr logs, st1))
      else if httpMethod = ''POST''
      then (case body of
              Inl e \<Rightarrow> (Inl (400, ''invalid JSON''), st)
            | Inr (host, logs) \<Rightarrow>
                if host = [] then (Inl (400, ''host_uuid is required''), st)
                else (case UpdateAgentDiagnostics host logs st of
                        (Inl e, st1) \<Rightarrow> (Inl internalError, st1) | (Inr u, st1) \<Rightarrow> (Inr ''saved'', st1)))
      else (Inl (405, []), st))"

subsection \<open>Tenants\<close>

definition slugHead :: "char \<Rightarrow> bool" where
  "slugHead c \<longleftrightarrow> isLowerByte c \<or> isDigit c"

definition tenantIDPattern :: "string \<Rightarrow> bool" where
  "tenantIDPattern s \<longleftrightarrow> s \<noteq> [] \<and> slugHead (hd s) \<and>
     list_all (\<lambda>c. slugHead c \<or> c = CHR ''_'' \<or> c = CHR ''-'') (tl s) \<and> length (tl s) \<le> 62"

definition CreateTenant :: "AdminEnv \<Rightarrow> Tenant \<Rightarrow> AdminState \<Rightarrow> unit result \<times> AdminState" where
  "CreateTenant v t0 =
     (let t = (if tnStatus t0 = [] then t0\<lparr>tnStatus := ''active''\<rparr> else t0)
      in stmt (\<lambda>st. (Inr (), st\<lparr>avTenants := tblUpsert tnTenantID (t\<lparr>tnCreatedAt := veNow v\<rparr>)
           (\<lambda>old. old\<lparr>tnName := tnName t, tnStatus := tnStatus t\<rparr>) (avTenants st)\<rparr>)))"

definition ListTenants :: "AdminState \<Rightarrow> Tenant list result \<times> AdminState" where
  "ListTenants = stmt (\<lambda>st. (Inr (orderRows (\<lambda>x y. tnCreatedAt y < tnCreatedAt x) (avTenants st)), st))"

datatype tenantAnswer = TenantsShown "Tenant list" | TenantCreated Tenant

definition tenants :: "AdminEnv \<Rightarrow> string \<Rightarrow> caller \<Rightarrow> (string \<times> string) result \<Rightarrow> AdminState
    \<Rightarrow> tenantAnswer answer \<times> AdminState" where
  "tenants v httpMethod who body st =
     (if httpMethod = ''GET''
      then (case ListTenants st of
              (Inl e, st1) \<Rightarrow> (Inl internalError, st1) | (Inr ts, st1) \<Rightarrow> (Inr (TenantsShown ts), st1))
      else if httpMethod = ''POST''
      then (case body of
              Inl e \<Rightarrow> (Inl (400, ''invalid JSON body''), st)
            | Inr (tenantID, title) \<Rightarrow>
                (let i = trimSpace tenantID
                 in if \<not> tenantIDPattern i then (Inl (422, ''tenant_id must match the slug pattern''), st)
                    else (let t = \<lparr>tnTenantID = i, tnName = trimSpace title, tnStatus = ''active'', tnCreatedAt = 0\<rparr>
                          in case CreateTenant v t st of
                               (Inl e, st1) \<Rightarrow> (Inl internalError, st1)
                             | (Inr u, st1) \<Rightarrow> (Inr (TenantCreated t), adminAudit v (actorOr ''admin'' who) ''TENANT_CREATE''
                                 (''tenant_id='' @ i @ '' name='' @ trimSpace title) st1))))
      else (Inl (405, []), st))"

subsection \<open>Webhooks\<close>

datatype webhookAnswer = WebhooksShown "Webhook list" | WebhookSaved | WebhookDeleted

definition webhooks :: "AdminEnv \<Rightarrow> string \<Rightarrow> caller \<Rightarrow> string \<Rightarrow> Webhook result \<Rightarrow> AdminState
    \<Rightarrow> webhookAnswer answer \<times> AdminState" where
  "webhooks v httpMethod who idParam body st =
     (if httpMethod = ''GET''
      then (case stmt (\<lambda>s. (Inr (GetWebhooks (avWebhooks s)), s)) st of
              (Inl e, st1) \<Rightarrow> (Inl internalError, st1) | (Inr ws, st1) \<Rightarrow> (Inr (WebhooksShown ws), st1))
      else if httpMethod = ''POST''
      then (if \<not> requireWriteRole (callerRole who) then (Inl (403, ''forbidden''), st)
            else case body of
              Inl e \<Rightarrow> (Inl (400, ''invalid JSON''), st)
            | Inr wh \<Rightarrow>
                if whURL wh = [] then (Inl (400, ''url is required''), st)
                else (case validateWebhookURL (veParse v) (veIP v) (whURL wh) of
                        Some e \<Rightarrow> (Inl (400, e), st)
                      | None \<Rightarrow>
                          (case stmt (\<lambda>s. (case InsertWebhook (veUUID v) (wh\<lparr>whActive := True, whCreatedAt := veNow v\<rparr>) (avWebhooks s) of
                                 (Some e, t) \<Rightarrow> (Inl e, s) | (None, t) \<Rightarrow> (Inr (), s\<lparr>avWebhooks := t\<rparr>))) st of
                             (Inl e, st1) \<Rightarrow> (Inl internalError, st1)
                           | (Inr u, st1) \<Rightarrow> (Inr WebhookSaved, adminAudit v (actorOr ''admin'' who) ''ADD_WEBHOOK''
                               (''Added webhook URL: '' @ whURL wh) st1))))
      else if httpMethod = ''DELETE''
      then (if \<not> requireWriteRole (callerRole who) then (Inl (403, ''forbidden''), st)
            else if idParam = [] then (Inl (400, ''id parameter required''), st)
            else (case stmt (\<lambda>s. (Inr (), s\<lparr>avWebhooks := DeleteWebhook idParam (avWebhooks s)\<rparr>)) st of
                    (Inl e, st1) \<Rightarrow> (Inl internalError, st1)
                  | (Inr u, st1) \<Rightarrow> (Inr WebhookDeleted, adminAudit v (actorOr ''admin'' who) ''DELETE_WEBHOOK''
                      (''Deleted webhook ID: '' @ idParam) st1)))
      else (Inl (405, []), st))"

subsection \<open>Retention\<close>

definition selectRetention :: "AdminState \<Rightarrow> RetentionPolicy result \<times> AdminState" where
  "selectRetention = stmt (\<lambda>st. (case avRetention st of [] \<Rightarrow> Inl ''no rows in result set'' | r # x \<Rightarrow> Inr r, st))"

definition GetRetentionPolicy :: "AdminEnv \<Rightarrow> AdminState \<Rightarrow> RetentionPolicy result \<times> AdminState" where
  "GetRetentionPolicy v st =
     (case selectRetention st of
        (Inr rp, st1) \<Rightarrow> (Inr rp, st1)
      | (Inl e, st1) \<Rightarrow>
          selectRetention (snd (stmt (\<lambda>s. (Inr (), s\<lparr>avRetention := tblInsert rpPolicyKey
            \<lparr>rpPolicyKey = ''default'', rpRetentionDays = 90, rpAutoPurge = True, rpUpdatedAt = veNow v\<rparr> (avRetention s)\<rparr>)) st1)))"

definition UpdateRetentionPolicy :: "AdminEnv \<Rightarrow> int \<Rightarrow> bool \<Rightarrow> AdminState \<Rightarrow> unit result \<times> AdminState" where
  "UpdateRetentionPolicy v days auto = stmt (\<lambda>st.
     if \<not> int4 days then (Inl outOfRange, st)
     else (Inr (), st\<lparr>avRetention := tblUpsert rpPolicyKey
       \<lparr>rpPolicyKey = ''default'', rpRetentionDays = days, rpAutoPurge = auto, rpUpdatedAt = veNow v\<rparr>
       (\<lambda>old. old\<lparr>rpRetentionDays := days, rpAutoPurge := auto, rpUpdatedAt := veNow v\<rparr>) (avRetention st)\<rparr>))"

text \<open>The purge: telemetry with its findings, then the audit log.\<close>

definition purge :: "int \<Rightarrow> AdminState \<Rightarrow> nat result \<times> AdminState" where
  "purge cutoff = stmt (\<lambda>st. (case PurgeOldTelemetry cutoff (avMain st) of
       (Inl e, m) \<Rightarrow> (Inl e, st\<lparr>avMain := m\<rparr>)
     | (Inr k, m) \<Rightarrow> (Inr k, st\<lparr>avMain := m, avAudit := purgeAuditLogs cutoff (avAudit st)\<rparr>)))"

datatype retentionAnswer = RetentionShown RetentionPolicy | Purged nat

definition retention :: "AdminEnv \<Rightarrow> string \<Rightarrow> caller \<Rightarrow> (int \<times> bool \<times> bool) result \<Rightarrow> AdminState
    \<Rightarrow> retentionAnswer answer \<times> AdminState" where
  "retention v httpMethod who body st =
     (if httpMethod = ''GET''
      then (case GetRetentionPolicy v st of
              (Inl e, st1) \<Rightarrow> (Inl internalError, st1) | (Inr rp, st1) \<Rightarrow> (Inr (RetentionShown rp), st1))
      else if httpMethod = ''POST''
      then (if \<not> requireWriteRole (callerRole who) then (Inl (403, ''forbidden''), st)
            else case body of
              Inl e \<Rightarrow> (Inl (400, ''invalid JSON''), st)
            | Inr (days, auto, trigger) \<Rightarrow>
                (case UpdateRetentionPolicy v days auto st of
                   (Inl e, st1) \<Rightarrow> (Inl internalError, st1)
                 | (Inr u, st1) \<Rightarrow>
                     (case (if trigger \<and> 0 < days then purge (veCutoff v days) st1 else (Inr 0, st1)) of
                        (Inl e, st2) \<Rightarrow> (Inl internalError, st2)
                      | (Inr k, st2) \<Rightarrow> (Inr (Purged k), adminAudit v (actorOr ''admin'' who) ''UPDATE_RETENTION_POLICY''
                          (''Updated retention to '' @ decInt days @ '' days. Triggered purge: '' @ formatBool trigger @
                           '' (purged='' @ decInt (int k) @ '')'') st2))))
      else (Inl (405, []), st))"

subsection \<open>Scan configuration of an agent\<close>

text \<open>The stored JSON carries every field, so it is kept as the configuration itself.\<close>

definition defaultScanConfig :: "string \<Rightarrow> AgentScanConfig" where
  "defaultScanConfig host = \<lparr>scHostUUID = host, scConfigured = False, scPolicyVersion = [], scScanRoots = [],
     scExcludeDirs = [], scIncludeExtensions = [], scScanIntervalSeconds = 900, scMaxFileBytes = 2097152,
     scMaxBinaryBytes = 16777216, scNetworkTargets = [], scEnableRuntimeDiscovery = False,
     scEnableProcessMemoryScraping = False, scEnablePluginDiscovery = False, scEnableActiveTLSProbing = False\<rparr>"

definition GetAgentScanConfig :: "string \<Rightarrow> AdminState \<Rightarrow> AgentScanConfig result \<times> AdminState" where
  "GetAgentScanConfig host = stmt (\<lambda>st. (Inr (case tblFind scHostUUID host (avScanConfigs st) of
       None \<Rightarrow> defaultScanConfig host | Some c \<Rightarrow> c\<lparr>scHostUUID := host, scConfigured := True\<rparr>), st))"

definition UpdateAgentScanConfig :: "AgentScanConfig \<Rightarrow> AdminState \<Rightarrow> unit result \<times> AdminState" where
  "UpdateAgentScanConfig cfg0 =
     (let cfg = cfg0\<lparr>scConfigured := True\<rparr>
      in stmt (\<lambda>st. if \<not> knownHost (scHostUUID cfg) st then (Inl foreignKey, st)
           else (Inr (), st\<lparr>avScanConfigs := tblUpsert scHostUUID cfg (\<lambda>old. cfg\<lparr>scHostUUID := scHostUUID old\<rparr>) (avScanConfigs st)\<rparr>)))"

definition agentConfig :: "AdminEnv \<Rightarrow> string \<Rightarrow> caller \<Rightarrow> string \<Rightarrow> AgentScanConfig result \<Rightarrow> AdminState
    \<Rightarrow> AgentScanConfig answer \<times> AdminState" where
  "agentConfig v httpMethod who host body st =
     (if httpMethod = ''GET''
      then (case GetAgentScanConfig host st of
              (Inl e, st1) \<Rightarrow> (Inl internalError, st1) | (Inr cfg, st1) \<Rightarrow> (Inr cfg, st1))
      else if httpMethod = ''PUT''
      then (if callerRole who \<notin> {Some ''admin'', Some ''operator''}
            then (Inl (403, ''forbidden: operator or admin role required''), st)
            else case body of
              Inl e \<Rightarrow> (Inl (400, ''invalid JSON''), st)
            | Inr cfg0 \<Rightarrow>
                (let cfg = cfg0\<lparr>scHostUUID := host, scConfigured := True\<rparr>
                 in case UpdateAgentScanConfig cfg st of
                      (Inl e, st1) \<Rightarrow> (Inl internalError, st1)
                    | (Inr u, st1) \<Rightarrow> (Inr cfg, adminAudit v (callerUser who) ''AGENT_CONFIG_UPDATE''
                        (''host_uuid='' @ host) st1)))
      else (Inl (405, []), st))"

text \<open>The route in front of it, with the tenant check of all routes under one agent.\<close>

definition agentConfigRoute :: "AdminEnv \<Rightarrow> string \<Rightarrow> caller \<Rightarrow> string \<Rightarrow> AgentScanConfig result \<Rightarrow> AdminState
    \<Rightarrow> AgentScanConfig answer \<times> AdminState" where
  "agentConfigRoute v httpMethod who host body st =
     (let (owner, st1) = (if TenantFromContext who = [] then (Inr [], st)
            else stmt (\<lambda>s. (case tblFind asHostUUID host (igAssets (avMain s)) of
               None \<Rightarrow> Inl ''no rows in result set'' | Some a \<Rightarrow> Inr (asTenantID a), s)) st)
      in case owner of
           Inl e \<Rightarrow> agentConfig v httpMethod who host body st1
         | Inr t \<Rightarrow> if t \<noteq> [] \<and> t \<noteq> TenantFromContext who then (Inl (404, ''agent not found''), st1)
                    else agentConfig v httpMethod who host body st1)"

text \<open>What the telemetry stream reads of it.\<close>

definition policyVersionOf :: "AdminState \<Rightarrow> string \<Rightarrow> string option" where
  "policyVersionOf st host = map_option scPolicyVersion (tblFind scHostUUID host (avScanConfigs st))"

subsection \<open>Requests\<close>

datatype adminRequest =
  RqFleet string caller string "FleetConfig result"
| RqProfiles string caller string string "ConfigProfile result"
| RqMapping string caller "(string \<times> string) result"
| RqDiagnostics string string "(string \<times> string) result"
| RqTenants string caller "(string \<times> string) result"
| RqWebhooks string caller string "Webhook result"
| RqRetention string caller "(int \<times> bool \<times> bool) result"
| RqConfig string caller string "AgentScanConfig result"

fun adminStep :: "AdminEnv \<Rightarrow> adminRequest \<Rightarrow> AdminState \<Rightarrow> AdminState" where
  "adminStep v (RqFleet m who host body) st = snd (fleetConfig v m who host body st)"
| "adminStep v (RqProfiles m who i p body) st = snd (fleetProfiles v m who i p body st)"
| "adminStep v (RqMapping m who body) st = snd (fleetProfileMapping v m who body st)"
| "adminStep v (RqDiagnostics m host body) st = snd (agentDiagnostics m host body st)"
| "adminStep v (RqTenants m who body) st = snd (tenants v m who body st)"
| "adminStep v (RqWebhooks m who i body) st = snd (webhooks v m who i body st)"
| "adminStep v (RqRetention m who body) st = snd (retention v m who body st)"
| "adminStep v (RqConfig m who host body) st = snd (agentConfigRoute v m who host body st)"

fun adminRun :: "(AdminEnv \<times> adminRequest) list \<Rightarrow> AdminState \<Rightarrow> AdminState" where
  "adminRun [] st = st"
| "adminRun ((v, r) # rs) st = adminRun rs (adminStep v r st)"

end
