(* ===== verification/AdminApiProofs.thy ===== *)
theory AdminApiProofs
  imports AdminApi FleetProofs TelemetryProofs
begin

text \<open>
  The tables of the fleet administration keep their keys and references through every request; the stored
  key of the language model is never shown and survives being posted back masked, except in a profile.
\<close>

subsection \<open>Statements\<close>

interpretation fleet_upd: keyed_update fcConfigID "\<lambda>old. fc\<lparr>fcConfigID := fcConfigID old, fcUpdatedAt := now\<rparr>" for fc now
  by unfold_locales simp

interpretation profile_upd: keyed_update cpProfileID "\<lambda>old. cp\<lparr>cpProfileID := cpProfileID old, cpUpdatedAt := now\<rparr>" for cp now
  by unfold_locales simp

interpretation mapping_upd: keyed_update amHostUUID "\<lambda>m. m\<lparr>amProfileID := p, amMappedAt := now\<rparr>" for p now
  by unfold_locales simp

interpretation diagnostics_upd: keyed_update fst "\<lambda>r. (fst r, logs)" for logs
  by unfold_locales simp

interpretation tenant_upd: keyed_update tnTenantID "\<lambda>old. old\<lparr>tnName := x, tnStatus := s\<rparr>" for x s
  by unfold_locales simp

interpretation retention_upd: keyed_update rpPolicyKey
    "\<lambda>old. old\<lparr>rpRetentionDays := days, rpAutoPurge := auto, rpUpdatedAt := now\<rparr>" for days auto now
  by unfold_locales simp

interpretation scan_upd: keyed_update scHostUUID "\<lambda>old. cfg\<lparr>scHostUUID := scHostUUID old\<rparr>" for cfg
  by unfold_locales simp

text \<open>The constraints of the schema, and what the handlers add: one row of fleet configuration, slugs as tenants.\<close>

definition adminInv :: "AdminState \<Rightarrow> bool" where
  "adminInv st \<longleftrightarrow>
     keyUnique fcConfigID (avFleet st) \<and> (\<forall>fc \<in> set (avFleet st). fcConfigID fc = ''default'') \<and>
     keyUnique cpProfileID (avProfiles st) \<and> keyUnique amHostUUID (avMappings st) \<and>
     keyUnique fst (avDiagnostics st) \<and> keyUnique tnTenantID (avTenants st) \<and>
     keyUnique rpPolicyKey (avRetention st) \<and> keyUnique WebhookID (avWebhooks st) \<and>
     keyUnique scHostUUID (avScanConfigs st) \<and>
     (\<forall>m \<in> set (avMappings st). amProfileID m \<in> cpProfileID ` set (avProfiles st) \<and> knownHost (amHostUUID m) st) \<and>
     (\<forall>r \<in> set (avDiagnostics st). knownHost (fst r) st) \<and> (\<forall>c \<in> set (avScanConfigs st). knownHost (scHostUUID c) st) \<and>
     (\<forall>t \<in> set (avTenants st). tenantIDPattern (tnTenantID t))"

lemma adminInv_parts:
  assumes "adminInv st"
  shows "keyUnique fcConfigID (avFleet st)" "fc \<in> set (avFleet st) \<Longrightarrow> fcConfigID fc = ''default''"
    "keyUnique cpProfileID (avProfiles st)" "keyUnique amHostUUID (avMappings st)" "keyUnique fst (avDiagnostics st)"
    "keyUnique tnTenantID (avTenants st)" "keyUnique rpPolicyKey (avRetention st)" "keyUnique WebhookID (avWebhooks st)"
    "keyUnique scHostUUID (avScanConfigs st)"
    "m \<in> set (avMappings st) \<Longrightarrow> amProfileID m \<in> cpProfileID ` set (avProfiles st)"
    "m \<in> set (avMappings st) \<Longrightarrow> knownHost (amHostUUID m) st"
    "r \<in> set (avDiagnostics st) \<Longrightarrow> knownHost (fst r) st" "c \<in> set (avScanConfigs st) \<Longrightarrow> knownHost (scHostUUID c) st"
    "t \<in> set (avTenants st) \<Longrightarrow> tenantIDPattern (tnTenantID t)"
  using assms by (simp_all add: adminInv_def)

lemma adminInv_faults [simp]: "adminInv (st\<lparr>avFaults := fs\<rparr>) = adminInv st"
  by (simp add: adminInv_def knownHost_def)

lemma adminInv_audit [simp]: "adminInv (adminAudit v u a d st) = adminInv st"
  by (simp add: adminInv_def knownHost_def adminAudit_def)

lemma stmt_inv:
  assumes "adminInv st" and "\<And>s. adminInv s \<Longrightarrow> adminInv (snd (act s))"
  shows "adminInv (snd (stmt act st))"
  using assms by (simp add: stmt_def Let_def case_prod_beta split: option.split)

lemma read_inv: "stmt (\<lambda>s. (g s, s)) st = (r, st1) \<Longrightarrow> adminInv st \<Longrightarrow> adminInv st1"
  using stmt_inv [of st "\<lambda>s. (g s, s)"] by simp

lemma set_fleet: "adminInv st \<Longrightarrow> keyUnique fcConfigID t \<Longrightarrow> \<forall>fc \<in> set t. fcConfigID fc = ''default'' \<Longrightarrow>
    adminInv (st\<lparr>avFleet := t\<rparr>)"
  by (simp add: adminInv_def knownHost_def)

lemma set_profiles: "adminInv st \<Longrightarrow> keyUnique cpProfileID t \<Longrightarrow>
    cpProfileID ` set (avProfiles st) \<subseteq> cpProfileID ` set t \<Longrightarrow> adminInv (st\<lparr>avProfiles := t\<rparr>)"
  by (auto simp: adminInv_def knownHost_def)

lemma set_mappings: "adminInv st \<Longrightarrow> keyUnique amHostUUID t \<Longrightarrow>
    \<forall>m \<in> set t. amProfileID m \<in> cpProfileID ` set (avProfiles st) \<and> knownHost (amHostUUID m) st \<Longrightarrow>
    adminInv (st\<lparr>avMappings := t\<rparr>)"
  by (simp add: adminInv_def knownHost_def)

lemma set_diagnostics: "adminInv st \<Longrightarrow> keyUnique fst t \<Longrightarrow> \<forall>r \<in> set t. knownHost (fst r) st \<Longrightarrow>
    adminInv (st\<lparr>avDiagnostics := t\<rparr>)"
  by (simp add: adminInv_def knownHost_def)

lemma set_tenants: "adminInv st \<Longrightarrow> keyUnique tnTenantID t \<Longrightarrow> \<forall>x \<in> set t. tenantIDPattern (tnTenantID x) \<Longrightarrow>
    adminInv (st\<lparr>avTenants := t\<rparr>)"
  by (simp add: adminInv_def knownHost_def)

lemma set_retention: "adminInv st \<Longrightarrow> keyUnique rpPolicyKey t \<Longrightarrow> adminInv (st\<lparr>avRetention := t\<rparr>)"
  by (simp add: adminInv_def knownHost_def)

lemma set_webhooks: "adminInv st \<Longrightarrow> keyUnique WebhookID t \<Longrightarrow> adminInv (st\<lparr>avWebhooks := t\<rparr>)"
  by (simp add: adminInv_def knownHost_def)

lemma set_scanConfigs: "adminInv st \<Longrightarrow> keyUnique scHostUUID t \<Longrightarrow> \<forall>c \<in> set t. knownHost (scHostUUID c) st \<Longrightarrow>
    adminInv (st\<lparr>avScanConfigs := t\<rparr>)"
  by (simp add: adminInv_def knownHost_def)

lemma set_main: "adminInv st \<Longrightarrow> igAssets m = igAssets (avMain st) \<Longrightarrow> adminInv (st\<lparr>avMain := m\<rparr>)"
  by (simp add: adminInv_def knownHost_def)

lemma set_audit: "adminInv st \<Longrightarrow> adminInv (st\<lparr>avAudit := t\<rparr>)"
  by (simp add: adminInv_def knownHost_def)

text \<open>The keys and rows of an upsert.\<close>

lemma upsert_rows:
  "r' \<in> set (tblUpsert key r f t) \<Longrightarrow> r' = r \<or> r' \<in> set t \<or> (\<exists>x \<in> set t. key x = key r \<and> r' = f x)"
  by (auto simp: tblUpsert_def set_tblUpdate split: if_splits)

lemma GetFleetConfig_inv: "GetFleetConfig v st = (r, st') \<Longrightarrow> adminInv st \<Longrightarrow> adminInv st'"
proof -
  assume run: "GetFleetConfig v st = (r, st')" and a: "adminInv st"
  obtain q st1 where s: "selectFleet st = (q, st1)" by fastforce
  have 1: "adminInv st1" using read_inv [OF s [unfolded selectFleet_def] a] .
  have 2: "adminInv (snd (stmt (\<lambda>s. (Inr (), s\<lparr>avFleet := tblInsert fcConfigID (defaultFleetConfig (veNow v)) (avFleet s)\<rparr>)) st1))"
    by (rule stmt_inv [OF 1], unfold snd_conv, rule set_fleet)
      (auto simp: set_tblInsert defaultFleetConfig_def adminInv_def)
  show ?thesis
  proof (cases q)
    case (Inl e)
    with run s have "selectFleet (snd (stmt (\<lambda>s. (Inr (), s\<lparr>avFleet := tblInsert fcConfigID (defaultFleetConfig (veNow v)) (avFleet s)\<rparr>)) st1)) = (r, st')"
      by (simp add: GetFleetConfig_def)
    from read_inv [OF this [unfolded selectFleet_def] 2] show ?thesis .
  qed (use run s 1 in \<open>simp add: GetFleetConfig_def\<close>)
qed

lemma UpdateFleetConfig_inv: "adminInv st \<Longrightarrow> adminInv (snd (UpdateFleetConfig v fc st))"
  unfolding UpdateFleetConfig_def
  by (erule stmt_inv)
    (auto intro!: set_fleet fleet_upd.unique_upsert simp: adminInv_parts dest!: upsert_rows dest: adminInv_parts(2))

lemma GetConfigForAgent_inv: "GetConfigForAgent v host st = (r, st') \<Longrightarrow> adminInv st \<Longrightarrow> adminInv st'"
  by (auto simp: GetConfigForAgent_def split: prod.splits sum.splits dest: read_inv GetFleetConfig_inv)

lemma profile_keys: "cpProfileID ` set t \<subseteq> cpProfileID `
    set (tblUpsert cpProfileID r (\<lambda>old. cp\<lparr>cpProfileID := cpProfileID old, cpUpdatedAt := now\<rparr>) t)"
  by (auto simp: tblUpsert_def profile_upd.keys)

lemma keyUnique_filter: "keyUnique key t \<Longrightarrow> keyUnique key (filter P t)"
  by (simp add: keyUnique_def distinct_map_filter)

lemma CreateConfigProfile_inv: "adminInv st \<Longrightarrow> adminInv (snd (CreateConfigProfile v cp st))"
  unfolding CreateConfigProfile_def Let_def
  by (erule stmt_inv)
    (auto intro!: set_profiles profile_upd.unique_upsert simp: adminInv_parts
      dest: profile_keys [THEN subsetD, OF imageI])

lemma DeleteConfigProfile_inv: "adminInv st \<Longrightarrow> adminInv (snd (DeleteConfigProfile i st))"
  unfolding DeleteConfigProfile_def
  by (erule stmt_inv) (auto simp: adminInv_def knownHost_def set_tblDelete keyUnique_filter)

lemma MapAgentToProfile_inv: "adminInv st \<Longrightarrow> adminInv (snd (MapAgentToProfile v host i st))"
  unfolding MapAgentToProfile_def
  by (simp split: if_splits, intro conjI impI; erule stmt_inv)
    (auto intro!: set_mappings mapping_upd.unique_upsert simp: adminInv_parts set_tblDelete dest!: upsert_rows dest: adminInv_parts(10,11))

lemma UpdateAgentDiagnostics_inv: "adminInv st \<Longrightarrow> adminInv (snd (UpdateAgentDiagnostics host logs st))"
  unfolding UpdateAgentDiagnostics_def
  by (erule stmt_inv)
    (auto intro!: set_diagnostics diagnostics_upd.unique_upsert simp: adminInv_parts dest!: upsert_rows dest: adminInv_parts(12))

lemma CreateTenant_inv:
  "adminInv st \<Longrightarrow> tenantIDPattern (tnTenantID t) \<Longrightarrow> adminInv (snd (CreateTenant v t st))"
  unfolding CreateTenant_def Let_def
  by (erule stmt_inv)
    (auto intro!: set_tenants tenant_upd.unique_upsert simp: adminInv_parts dest!: upsert_rows dest: adminInv_parts(14))

lemma UpdateRetentionPolicy_inv: "adminInv st \<Longrightarrow> adminInv (snd (UpdateRetentionPolicy v days auto st))"
  unfolding UpdateRetentionPolicy_def
  by (erule stmt_inv) (auto intro!: set_retention retention_upd.unique_upsert simp: adminInv_parts)

lemma purge_inv: "adminInv st \<Longrightarrow> adminInv (snd (purge cutoff st))"
  unfolding purge_def
proof (erule stmt_inv)
  fix s assume a: "adminInv s"
  have k: "igAssets (snd (PurgeOldTelemetry cutoff (avMain s))) = igAssets (avMain s)"
    by (simp add: PurgeOldTelemetry_def Let_def split: option.split)
  obtain r m where p: "PurgeOldTelemetry cutoff (avMain s) = (r, m)" by fastforce
  with k set_main [OF a, of m] show "adminInv (snd (case PurgeOldTelemetry cutoff (avMain s) of
       (Inl e, m) \<Rightarrow> (Inl e, s\<lparr>avMain := m\<rparr>)
     | (Inr k, m) \<Rightarrow> (Inr k, s\<lparr>avMain := m, avAudit := purgeAuditLogs cutoff (avAudit s)\<rparr>)))"
    by (cases r) (auto intro!: set_audit)
qed

lemma UpdateAgentScanConfig_inv: "adminInv st \<Longrightarrow> adminInv (snd (UpdateAgentScanConfig c st))"
  unfolding UpdateAgentScanConfig_def Let_def
  by (erule stmt_inv)
    (auto intro!: set_scanConfigs scan_upd.unique_upsert simp: adminInv_parts dest!: upsert_rows dest: adminInv_parts(13))

subsection \<open>Requests\<close>

lemmas read_statements = GetConfigProfiles_def GetAgentProfileMappings_def ListTenants_def selectRetention_def
  GetAgentScanConfig_def

text \<open>The change of each statement, in the form in which a handler meets it.\<close>

lemma statement_steps:
  "UpdateFleetConfig v fc st = (r, st') \<Longrightarrow> adminInv st \<Longrightarrow> adminInv st'"
  "CreateConfigProfile v cp st = (i, st') \<Longrightarrow> adminInv st \<Longrightarrow> adminInv st'"
  "DeleteConfigProfile k st = (r, st') \<Longrightarrow> adminInv st \<Longrightarrow> adminInv st'"
  "MapAgentToProfile v host k st = (r, st') \<Longrightarrow> adminInv st \<Longrightarrow> adminInv st'"
  "UpdateAgentDiagnostics host logs st = (r, st') \<Longrightarrow> adminInv st \<Longrightarrow> adminInv st'"
  "UpdateRetentionPolicy v days auto st = (r, st') \<Longrightarrow> adminInv st \<Longrightarrow> adminInv st'"
  "purge cutoff st = (n, st') \<Longrightarrow> adminInv st \<Longrightarrow> adminInv st'"
  "UpdateAgentScanConfig c st = (r, st') \<Longrightarrow> adminInv st \<Longrightarrow> adminInv st'"
  "CreateTenant v t st = (r, st') \<Longrightarrow> adminInv st \<Longrightarrow> tenantIDPattern (tnTenantID t) \<Longrightarrow> adminInv st'"
  using UpdateFleetConfig_inv [of st v fc] CreateConfigProfile_inv [of st v cp] DeleteConfigProfile_inv [of st k]
    MapAgentToProfile_inv [of st v host k] UpdateAgentDiagnostics_inv [of st host logs]
    UpdateRetentionPolicy_inv [of st v days auto] purge_inv [of st cutoff] UpdateAgentScanConfig_inv [of st c]
    CreateTenant_inv [of st t v]
  by simp_all

lemma fleetConfig_inv: "fleetConfig v m who host body st = (r, st') \<Longrightarrow> adminInv st \<Longrightarrow> adminInv st'"
  by (auto simp: fleetConfig_def Let_def split: prod.splits sum.splits if_splits
      dest: GetConfigForAgent_inv GetFleetConfig_inv statement_steps(1))

lemma fleetProfiles_inv: "fleetProfiles v m who i k body st = (r, st') \<Longrightarrow> adminInv st \<Longrightarrow> adminInv st'"
  by (auto simp: fleetProfiles_def Let_def GetConfigProfiles_def split: prod.splits sum.splits if_splits
      dest: read_inv statement_steps(2,3))

lemma fleetProfileMapping_inv: "fleetProfileMapping v m who body st = (r, st') \<Longrightarrow> adminInv st \<Longrightarrow> adminInv st'"
  by (auto simp: fleetProfileMapping_def GetAgentProfileMappings_def split: prod.splits sum.splits if_splits
      dest: read_inv statement_steps(4))

lemma agentDiagnostics_inv: "agentDiagnostics m host body st = (r, st') \<Longrightarrow> adminInv st \<Longrightarrow> adminInv st'"
  by (auto simp: agentDiagnostics_def GetAgentDiagnostics_def split: prod.splits sum.splits if_splits
      dest: read_inv statement_steps(5))

lemma tenants_inv: "tenants v m who body st = (r, st') \<Longrightarrow> adminInv st \<Longrightarrow> adminInv st'"
  by (auto simp: tenants_def Let_def ListTenants_def split: prod.splits sum.splits if_splits
      dest: read_inv statement_steps(9))

lemma webhook_added:
  assumes "stmt (\<lambda>s. (case InsertWebhook u w (avWebhooks s) of
      (Some e, t) \<Rightarrow> (Inl e, s) | (None, t) \<Rightarrow> (Inr (), s\<lparr>avWebhooks := t\<rparr>))) st = (r, st')" and "adminInv st"
  shows "adminInv st'"
proof -
  have "adminInv (snd (stmt (\<lambda>s. (case InsertWebhook u w (avWebhooks s) of
      (Some e, t) \<Rightarrow> (Inl e, s) | (None, t) \<Rightarrow> (Inr (), s\<lparr>avWebhooks := t\<rparr>))) st))"
    using assms(2)
    by (rule stmt_inv)
      (auto simp: InsertWebhook_def Let_def keyUnique_def intro!: set_webhooks
        dest: adminInv_parts(8) split: prod.split option.split)
  with assms(1) show ?thesis by simp
qed

lemma webhook_deleted:
  assumes "stmt (\<lambda>s. (Inr (), s\<lparr>avWebhooks := DeleteWebhook i (avWebhooks s)\<rparr>)) st = (r, st')" and "adminInv st"
  shows "adminInv st'"
proof -
  have "adminInv (snd (stmt (\<lambda>s. (Inr (), s\<lparr>avWebhooks := DeleteWebhook i (avWebhooks s)\<rparr>)) st))"
    using assms(2) by (rule stmt_inv) (auto simp: DeleteWebhook_def adminInv_parts intro!: set_webhooks)
  with assms(1) show ?thesis by simp
qed

lemma webhooks_inv: "webhooks v m who i body st = (r, st') \<Longrightarrow> adminInv st \<Longrightarrow> adminInv st'"
  by (auto simp: webhooks_def split: prod.splits sum.splits if_splits option.splits
      dest: read_inv webhook_added webhook_deleted)

lemma retention_default_inv:
  "adminInv st \<Longrightarrow> adminInv (snd (stmt (\<lambda>s. (Inr (), s\<lparr>avRetention := tblInsert rpPolicyKey rp (avRetention s)\<rparr>)) st))"
  by (erule stmt_inv) (auto intro!: set_retention simp: adminInv_parts)

lemma GetRetentionPolicy_inv: "GetRetentionPolicy v st = (r, st') \<Longrightarrow> adminInv st \<Longrightarrow> adminInv st'"
  unfolding GetRetentionPolicy_def selectRetention_def
  by (auto split: prod.splits sum.splits dest: read_inv)
    (rule read_inv, assumption, rule retention_default_inv, erule (1) read_inv)

lemma retention_inv: "retention v m who body st = (r, st') \<Longrightarrow> adminInv st \<Longrightarrow> adminInv st'"
  by (auto simp: retention_def split: prod.splits sum.splits if_splits
      dest: GetRetentionPolicy_inv statement_steps(6,7))

lemma agentConfig_inv: "agentConfig v m who host body st = (r, st') \<Longrightarrow> adminInv st \<Longrightarrow> adminInv st'"
  by (auto simp: agentConfig_def Let_def GetAgentScanConfig_def split: prod.splits sum.splits if_splits
      dest: read_inv statement_steps(8))

lemma agentConfigRoute_inv: "agentConfigRoute v m who host body st = (r, st') \<Longrightarrow> adminInv st \<Longrightarrow> adminInv st'"
  by (auto simp: agentConfigRoute_def Let_def split: prod.splits sum.splits if_splits dest: read_inv agentConfig_inv)

lemma adminStep_inv: "adminInv st \<Longrightarrow> adminInv (adminStep v rq st)"
  by (cases rq) (simp, metis prod.collapse fleetConfig_inv fleetProfiles_inv fleetProfileMapping_inv agentDiagnostics_inv
      tenants_inv webhooks_inv retention_inv agentConfigRoute_inv)+

text \<open>C32: Whatever administrative requests arrive and whatever statements fail, the tables stay sound: keys are
  unique, there is one row of fleet configuration, every tenant is a slug, and every mapping, scan configuration and
  diagnostics row belongs to a known host and every mapping to an existing profile, also after profiles are deleted
  and telemetry is purged.\<close>

theorem admin_tables_sound:
  assumes "adminInv st"
  shows "adminInv (adminRun rs st)"
  using assms by (induction rs st rule: adminRun.induct) (auto intro: adminStep_inv)

subsection \<open>Secrets\<close>

lemma stmt_ok [simp]: "avFaults st = [] \<Longrightarrow> stmt act st = act st"
  by (cases st) (simp add: stmt_def pop_def)

lemma one_row: "adminInv st \<Longrightarrow> avFleet st = [] \<or> (\<exists>fc. avFleet st = [fc] \<and> fcConfigID fc = ''default'')"
  by (cases "avFleet st"; cases "tl (avFleet st)") (auto simp: adminInv_def keyUnique_def)

lemma GetFleetConfig_ok:
  assumes "adminInv st" and "avFaults st = []" and "GetFleetConfig v st = (Inr fc, st1)"
  shows "avFleet st1 = [fc] \<and> fcConfigID fc = ''default'' \<and> avFaults st1 = []"
  using one_row [OF assms(1)] assms(2,3)
  by (auto simp: GetFleetConfig_def selectFleet_def tblInsert_def defaultFleetConfig_def)

text \<open>What the fleet page shows of the stored key is whether there is one, and a client that posts back what it was
  shown changes nothing but the time of the update: the key is kept.\<close>

theorem fleet_config_roundtrip:
  assumes "adminInv st" and "avFaults st = []"
    and "fleetConfig v ''GET'' who [] body st = (Inr (FleetShown fc), st1)"
    and "fleetConfig v' ''POST'' who' [] (Inr fc) st1 = (Inr FleetSaved, st2)"
  shows "fcLLMApiKey fc \<in> {[], maskedSecret} \<and>
    (\<exists>old. avFleet st1 = [old] \<and> avFleet st2 = [old\<lparr>fcUpdatedAt := veNow v'\<rparr>] \<and> fc = maskFleet old)"
proof -
  from assms(3) obtain old where g: "GetFleetConfig v st = (Inr old, st1)" and fc: "fc = maskFleet old"
    by (auto simp: fleetConfig_def split: prod.splits sum.splits)
  note row = GetFleetConfig_ok [OF assms(1,2) g]
  then have again: "GetFleetConfig v' st1 = (Inr old, st1)" by (simp add: GetFleetConfig_def selectFleet_def)
  have masked: "fcLLMApiKey fc = maskedSecret \<Longrightarrow> fc\<lparr>fcLLMApiKey := fcLLMApiKey old\<rparr> = old"
    and plain: "fcLLMApiKey fc \<noteq> maskedSecret \<Longrightarrow> fc = old" by (auto simp: fc maskFleet_def)
  have upd: "old\<lparr>fcConfigID := ''default'', fcUpdatedAt := k\<rparr> = old\<lparr>fcUpdatedAt := k\<rparr>" for k
    using row by (cases old) simp
  have "\<exists>u. UpdateFleetConfig v' old st1 = (Inr u, st2\<lparr>avAudit := avAudit st1\<rparr>)"
  proof (cases "fcLLMApiKey fc = maskedSecret")
    case True
    with assms(4) row show ?thesis
      by (auto simp: fleetConfig_def again masked adminAudit_def UpdateFleetConfig_def split: if_splits)
  next
    case False
    with assms(4) row plain [OF False] show ?thesis
      by (auto simp: fleetConfig_def adminAudit_def UpdateFleetConfig_def split: if_splits)
  qed
  then have "avFleet (st2\<lparr>avAudit := avAudit st1\<rparr>) = [old\<lparr>fcUpdatedAt := veNow v'\<rparr>]"
    using row by (auto simp: UpdateFleetConfig_def tblUpsert_def tblUpdate_def upd split: if_splits
        dest!: arg_cong [where f = avFleet])
  with row fc show ?thesis by (simp add: maskFleet_def)
qed

text \<open>A profile loses its stored key when a client posts back what it was shown: the list shows the mask, and a
  posted mask is stored as no key.\<close>

theorem profile_key_lost:
  assumes "p \<in> set (avProfiles st)" and "cpLLMApiKey p \<noteq> []" and "cpProfileID p \<noteq> []"
    and "avFaults st = []" and "adminInv st"
    and "fleetProfiles v ''GET'' who [] [] body st = (Inr (ProfilesShown ps), st1)"
    and "fleetProfiles v' ''POST'' who' [] [] (Inr (maskProfile p)) st1 = (Inr (ProfileSaved i), st2)"
  shows "maskProfile p \<in> set ps \<and> i = cpProfileID p \<and>
    tblFind cpProfileID i (avProfiles st2) = Some (p\<lparr>cpLLMApiKey := [], cpUpdatedAt := veNow v'\<rparr>)"
proof -
  have st1: "st1 = st" and ps: "ps = map maskProfile (orderRows (\<lambda>x y. veNameBefore v (cpName x) (cpName y)) (avProfiles st))"
    using assms(4,6) by (auto simp: fleetProfiles_def GetConfigProfiles_def)
  have m: "cpLLMApiKey (maskProfile p) = maskedSecret" "maskProfile p = p\<lparr>cpLLMApiKey := maskedSecret\<rparr>"
    using assms(2) by (simp_all add: maskProfile_def)
  from assms(7) have "CreateConfigProfile v' (p\<lparr>cpLLMApiKey := []\<rparr>) st = (Inr i, st2)"
    by (auto simp: fleetProfiles_def m st1 split: if_splits prod.splits sum.splits)
  then have i: "i = cpProfileID p" and t: "avProfiles st2 = tblUpsert cpProfileID (p\<lparr>cpLLMApiKey := [], cpUpdatedAt := veNow v'\<rparr>)
      (\<lambda>old. p\<lparr>cpLLMApiKey := [], cpProfileID := cpProfileID old, cpUpdatedAt := veNow v'\<rparr>) (avProfiles st)"
    using assms(3,4) by (auto simp: CreateConfigProfile_def Let_def split: if_splits)
  have "tblFind cpProfileID (cpProfileID p) (avProfiles st) = Some p"
    by (rule tblFind_unique) (use assms(1) adminInv_parts(3) [OF assms(5)] in auto)
  with profile_upd.find_upsert [where k = "cpProfileID p" and r = "p\<lparr>cpLLMApiKey := [], cpUpdatedAt := veNow v'\<rparr>"
      and cp = "p\<lparr>cpLLMApiKey := []\<rparr>" and now = "veNow v'" and t = "avProfiles st"]
  have "tblFind cpProfileID i (avProfiles st2) = Some (p\<lparr>cpLLMApiKey := [], cpUpdatedAt := veNow v'\<rparr>)"
    by (simp add: t i)
  moreover have "maskProfile p \<in> set ps" using assms(1) by (auto simp: ps set_orderRows)
  ultimately show ?thesis using i by simp
qed

text \<open>A mask that comes back while the old key cannot be read is stored as if it were the key.\<close>

lemma mask_stored:
  assumes "avFaults st = [Some e, None, Some e']" and "requireWriteRole (callerRole who)" and "fcLLMApiKey fc = maskedSecret"
    and "int4 (fcMinKeySize fc)" and "adminInv st"
  shows "\<exists>row \<in> set (avFleet (snd (fleetConfig v ''POST'' who [] (Inr fc) st))). fcLLMApiKey row = maskedSecret"
  using one_row [OF assms(5)] assms(1-4)
  by (auto simp: fleetConfig_def GetFleetConfig_def selectFleet_def UpdateFleetConfig_def stmt_def pop_def Let_def
      tblInsert_def tblUpsert_def tblUpdate_def defaultFleetConfig_def adminAudit_def)

subsection \<open>Scan configuration\<close>

text \<open>After the scan configuration of an agent was saved, the agent reads it back as it was posted, its telemetry
  is assessed under the policy version it names, and the configuration of no other host changed.\<close>

theorem saved_config_selects_policy:
  assumes "agentConfigRoute v ''PUT'' who host (Inr cfg) st = (Inr c, st')" and "avFaults st = []"
    and "ssScanConfig s = policyVersionOf st'" and "plHostUuid payload = host" and "scPolicyVersion cfg \<noteq> []"
  shows "c = cfg\<lparr>scHostUUID := host, scConfigured := True\<rparr> \<and> GetAgentScanConfig host st' = (Inr c, st') \<and>
    (\<forall>h. h = host \<or> policyVersionOf st' h = policyVersionOf st h) \<and>
    assessPayload env payload s =
      (let (p, e) = AssessWithVersion (snPost env) (snParseFloat env) (snQuote env) (snNewID env) (scPolicyVersion cfg)
             (ssEngine s) payload in (p, s\<lparr>ssEngine := e\<rparr>))"
proof -
  let ?c = "cfg\<lparr>scHostUUID := host, scConfigured := True\<rparr>"
  have c: "c = ?c" and t: "avScanConfigs st' = tblUpsert scHostUUID ?c (\<lambda>old. ?c\<lparr>scHostUUID := scHostUUID old\<rparr>) (avScanConfigs st)"
    and f: "avFaults st' = []"
  proof -
    from assms(1,2) have "agentConfig v ''PUT'' who host (Inr cfg) st = (Inr c, st')"
      by (auto simp: agentConfigRoute_def split: if_splits option.splits)
    with assms(2) show "c = ?c" "avScanConfigs st' = tblUpsert scHostUUID ?c (\<lambda>old. ?c\<lparr>scHostUUID := scHostUUID old\<rparr>) (avScanConfigs st)"
      "avFaults st' = []"
      by (auto simp: agentConfig_def UpdateAgentScanConfig_def adminAudit_def Let_def split: if_splits)
  qed
  have found: "tblFind scHostUUID h (avScanConfigs st') = (if h = host then Some ?c else tblFind scHostUUID h (avScanConfigs st))" for h
    using scan_upd.find_upsert [of h ?c ?c "avScanConfigs st"] tblFind_Some [of scHostUUID host "avScanConfigs st"]
    by (auto simp: t split: option.splits simp del: tblFind_None)
  then show ?thesis
    using assms(3-5) c f by (simp add: GetAgentScanConfig_def policyVersionOf_def assessPayload_def)
qed

subsection \<open>Witnesses\<close>

definition demo_admin_env :: AdminEnv where
  "demo_admin_env = \<lparr>veNow = 9, veUUID = ''u1'', veLogID = ''l1'', veSha = (\<lambda>x. x), veNameBefore = (\<lambda>x y. False),
     veScan = (\<lambda>x. x), veCutoff = (\<lambda>d. 0), veParse = (\<lambda>u. Inl ''bad''), veIP = (\<lambda>h. None)\<rparr>"

definition demo_profile :: ConfigProfile where
  "demo_profile = \<lparr>cpProfileID = ''p1'', cpName = ''dmz'', cpExcludeDirs = [], cpMinKeySize = 2048, cpScanSchedule = ''daily'',
     cpLLMApiKey = ''sk-1'', cpLLMApiUrl = [], cpUpdatedAt = 0\<rparr>"

definition demo_admin_state :: AdminState where
  "demo_admin_state = \<lparr>avFleet = [(defaultFleetConfig 0)\<lparr>fcLLMApiKey := ''sk-0''\<rparr>], avProfiles = [demo_profile],
     avMappings = [\<lparr>amHostUUID = ''h1'', amProfileID = ''p1'', amMappedAt = 1\<rparr>], avDiagnostics = [], avTenants = [],
     avRetention = [], avWebhooks = [], avScanConfigs = [], avMain = demo_empty,
     avAudit = \<lparr>auditRows = [], auditFault = None\<rparr>, avFaults = []\<rparr>"

definition demo_fleet_admin :: caller where
  "demo_fleet_admin = Some (''root'', ''admin'', ''t1'')"

lemma demo_role: "requireWriteRole (Some ''admin'')" "callerRole demo_fleet_admin = Some ''admin''"
  by (simp_all add: demo_fleet_admin_def callerRole_def requireWriteRole_def)

lemma demo_admin_inv: "adminInv demo_admin_state" "avFaults demo_admin_state = []"
  by (simp_all add: adminInv_def demo_admin_state_def demo_profile_def defaultFleetConfig_def keyUnique_def knownHost_def
      demo_empty_def demo_asset_def)

theorem admin_tables_sound_witness:
  "adminInv (adminRun [(demo_admin_env, RqProfiles ''DELETE'' demo_fleet_admin ''p1'' [] (Inl [])),
     (demo_admin_env, RqTenants ''POST'' demo_fleet_admin (Inr ('' acme '', ''Acme'')))] demo_admin_state)"
  by (rule admin_tables_sound [OF demo_admin_inv(1)])

theorem fleet_config_roundtrip_witness:
  "\<exists>fc (st1 :: AdminState) st2. fleetConfig demo_admin_env ''GET'' demo_fleet_admin [] (Inl []) demo_admin_state =
       (Inr (FleetShown fc), st1) \<and>
     fleetConfig demo_admin_env ''POST'' demo_fleet_admin [] (Inr fc) st1 = (Inr FleetSaved, st2) \<and>
     fcLLMApiKey fc = maskedSecret \<and> map fcLLMApiKey (avFleet st2) = [''sk-0'']"
proof -
  let ?fc = "maskFleet ((defaultFleetConfig 0)\<lparr>fcLLMApiKey := ''sk-0''\<rparr>)"
  have g: "fleetConfig demo_admin_env ''GET'' demo_fleet_admin [] (Inl []) demo_admin_state = (Inr (FleetShown ?fc), demo_admin_state)"
    by (simp add: fleetConfig_def GetFleetConfig_def selectFleet_def demo_admin_inv(2)) (simp add: demo_admin_state_def)
  have m: "fcLLMApiKey ?fc = maskedSecret" by (simp add: maskFleet_def)
  have "fst (fleetConfig demo_admin_env ''POST'' demo_fleet_admin [] (Inr ?fc) demo_admin_state) = Inr FleetSaved"
    by (simp add: fleetConfig_def m GetFleetConfig_def selectFleet_def demo_admin_inv(2) demo_role UpdateFleetConfig_def)
      (simp add: demo_admin_state_def maskFleet_def defaultFleetConfig_def int4_def)
  then obtain st2 where p: "fleetConfig demo_admin_env ''POST'' demo_fleet_admin [] (Inr ?fc) demo_admin_state = (Inr FleetSaved, st2)"
    by (metis prod.collapse)
  from fleet_config_roundtrip [OF demo_admin_inv g p]
  have k: "map fcLLMApiKey (avFleet st2) = [''sk-0'']" by (auto simp: demo_admin_state_def)
  show ?thesis by (intro exI conjI, rule g, rule p, rule m, rule k)
qed

theorem profile_key_lost_witness:
  "\<exists>st2 :: AdminState. fleetProfiles demo_admin_env ''POST'' demo_fleet_admin [] [] (Inr (maskProfile demo_profile)) demo_admin_state =
       (Inr (ProfileSaved ''p1''), st2) \<and> map_option cpLLMApiKey (tblFind cpProfileID ''p1'' (avProfiles st2)) = Some []"
proof -
  have g: "fleetProfiles demo_admin_env ''GET'' demo_fleet_admin [] [] (Inl []) demo_admin_state =
      (Inr (ProfilesShown [maskProfile demo_profile]), demo_admin_state)"
    by (simp add: fleetProfiles_def GetConfigProfiles_def demo_admin_inv(2)) (simp add: demo_admin_state_def orderRows_def)
  have "fst (fleetProfiles demo_admin_env ''POST'' demo_fleet_admin [] [] (Inr (maskProfile demo_profile)) demo_admin_state) =
      Inr (ProfileSaved ''p1'')"
    by (simp add: fleetProfiles_def CreateConfigProfile_def demo_admin_inv(2) demo_role Let_def demo_profile_def maskProfile_def int4_def)
  then obtain st2 where p: "fleetProfiles demo_admin_env ''POST'' demo_fleet_admin [] [] (Inr (maskProfile demo_profile)) demo_admin_state =
      (Inr (ProfileSaved ''p1''), st2)" by (metis prod.collapse)
  have d: "demo_profile \<in> set (avProfiles demo_admin_state)" "cpLLMApiKey demo_profile \<noteq> []" "cpProfileID demo_profile \<noteq> []"
    by (simp_all add: demo_admin_state_def demo_profile_def)
  from profile_key_lost [OF d demo_admin_inv(2,1) g p] p show ?thesis by auto
qed

theorem saved_config_selects_policy_witness:
  "\<exists>(st' :: AdminState) c. agentConfigRoute demo_admin_env ''PUT'' demo_fleet_admin ''h1''
       (Inr ((defaultScanConfig [])\<lparr>scPolicyVersion := ''strict''\<rparr>)) demo_admin_state = (Inr c, st') \<and>
     GetAgentScanConfig ''h1'' st' = (Inr c, st') \<and> scPolicyVersion c = ''strict''"
proof -
  let ?cfg = "(defaultScanConfig [])\<lparr>scPolicyVersion := ''strict''\<rparr>"
  have known: "knownHost ''h1'' demo_admin_state"
    "tblFind asHostUUID ''h1'' (igAssets (avMain demo_admin_state)) = Some (demo_asset ''h1'' ''t1'')"
    by (simp_all add: knownHost_def demo_admin_state_def demo_empty_def demo_asset_def tblFind_def)
  have "\<exists>c. fst (agentConfigRoute demo_admin_env ''PUT'' demo_fleet_admin ''h1'' (Inr ?cfg) demo_admin_state) = Inr c"
    by (simp add: agentConfigRoute_def known demo_admin_inv(2) Let_def demo_asset_def)
      (simp add: agentConfig_def UpdateAgentScanConfig_def demo_admin_inv(2) demo_role(2) known(1) Let_def
        demo_fleet_admin_def [symmetric] TenantFromContext_def, simp add: demo_fleet_admin_def)
  then obtain c st' where r: "agentConfigRoute demo_admin_env ''PUT'' demo_fleet_admin ''h1'' (Inr ?cfg) demo_admin_state = (Inr c, st')"
    by (metis prod.collapse)
  have "plHostUuid (demo_payload ''p1'' ''h1'') = ''h1''" by (simp add: demo_payload_def)
  from saved_config_selects_policy [OF r demo_admin_inv(2), of "demo_server\<lparr>ssScanConfig := policyVersionOf st'\<rparr>"
      "demo_payload ''p1'' ''h1''" demo_env] this r
  show ?thesis by auto
qed

end
