(* ===== verification/Metrics.thy ===== *)
theory Metrics
  imports GoLib "HOL-Library.AList" "HOL-Library.Char_ord" "HOL-Library.List_Lexorder"
begin

text \<open>
  The in-process metrics of \<^verbatim>\<open>server/internal/metrics/metrics.go\<close>: counters of requests, the latency
  histogram per path, webhook and migration durations, and the Prometheus text of them. A Go map is an
  association list; the seconds of \<open>float64\<close> are reals, \<open>fmtFloat\<close> prints them. Counters do not wrap here.
\<close>

subsection \<open>Registry\<close>

definition latencyBuckets :: "real list" where
  "latencyBuckets = [5 / 1000, 1 / 100, 25 / 1000, 5 / 100, 1 / 10, 25 / 100, 5 / 10, 1, 25 / 10, 5, 10]"

text \<open>The key of a request counter: method, path, status.\<close>

type_synonym httpKey = "string \<times> string \<times> string"

record Registry =
  httpReqs :: "(httpKey \<times> nat) list"
  durBucket :: "(string \<times> nat list) list"
  durSum :: "(string \<times> real) list"
  durCount :: "(string \<times> nat) list"
  webhookStatus :: "(string \<times> nat) list"
  webhookLatSum :: real
  webhookLatCount :: nat
  migrationDurSum :: "(string \<times> real) list"
  migrationDurCount :: "(string \<times> nat) list"

definition emptyRegistry :: Registry where
  "emptyRegistry = \<lparr>httpReqs = [], durBucket = [], durSum = [], durCount = [], webhookStatus = [], webhookLatSum = 0,
     webhookLatCount = 0, migrationDurSum = [], migrationDurCount = []\<rparr>"

text \<open>Reading a missing key gives the zero value.\<close>

definition entry :: "'v \<Rightarrow> ('k \<times> 'v) list \<Rightarrow> 'k \<Rightarrow> 'v" where
  "entry d t k = (case map_of t k of None \<Rightarrow> d | Some v \<Rightarrow> v)"

definition inc :: "'k \<Rightarrow> ('k \<times> nat) list \<Rightarrow> ('k \<times> nat) list" where
  "inc k t = AList.update k (entry 0 t k + 1) t"

definition add :: "'k \<Rightarrow> real \<Rightarrow> ('k \<times> real) list \<Rightarrow> ('k \<times> real) list" where
  "add k x t = AList.update k (entry 0 t k + x) t"

definition ObserveHTTP :: "string \<Rightarrow> string \<Rightarrow> int \<Rightarrow> real \<Rightarrow> Registry \<Rightarrow> Registry" where
  "ObserveHTTP httpMethod path status seconds m =
     (let b = entry (replicate (length latencyBuckets) 0) (durBucket m) path;
          b' = map2 (\<lambda>ub n. if seconds \<le> ub then n + 1 else n) latencyBuckets b
      in m\<lparr>httpReqs := inc (httpMethod, path, decInt status) (httpReqs m), durBucket := AList.update path b' (durBucket m),
           durSum := add path seconds (durSum m), durCount := inc path (durCount m)\<rparr>)"

definition ObserveWebhook :: "string \<Rightarrow> Registry \<Rightarrow> Registry" where
  "ObserveWebhook status m = m\<lparr>webhookStatus := inc status (webhookStatus m)\<rparr>"

definition ObserveWebhookLatency :: "real \<Rightarrow> Registry \<Rightarrow> Registry" where
  "ObserveWebhookLatency seconds m =
     m\<lparr>webhookLatSum := webhookLatSum m + seconds, webhookLatCount := webhookLatCount m + 1\<rparr>"

definition ObserveMigration :: "string \<Rightarrow> real \<Rightarrow> Registry \<Rightarrow> Registry" where
  "ObserveMigration state seconds m =
     (let s = (if seconds < 0 then 0 else seconds)
      in m\<lparr>migrationDurSum := add state s (migrationDurSum m), migrationDurCount := inc state (migrationDurCount m)\<rparr>)"

subsection \<open>Text\<close>

definition escapeLabel :: "string \<Rightarrow> string" where
  "escapeLabel s = replaceByte (CHR 0x0A) [CHR 0x5C, CHR ''n''] (replaceByte (CHR 0x22) [CHR 0x5C, CHR 0x22]
     (replaceByte (CHR 0x5C) [CHR 0x5C, CHR 0x5C] s))"

definition label :: "string \<Rightarrow> string \<Rightarrow> string" where
  "label name v = name @ ''='' @ [CHR 0x22] @ escapeLabel v @ [CHR 0x22]"

definition series :: "string \<Rightarrow> string \<Rightarrow> string \<Rightarrow> string" where
  "series name labels v = name @ ''{'' @ labels @ ''} '' @ v @ [CHR 0x0A]"

definition head_lines :: "string \<Rightarrow> string \<Rightarrow> string \<Rightarrow> string" where
  "head_lines name help kind = ''# HELP '' @ name @ '' '' @ help @ [CHR 0x0A] @ ''# TYPE '' @ name @ '' '' @ kind @ [CHR 0x0A]"

text \<open>The order of the request counters: by path, then method, then status, all different.\<close>

definition sortedKeys :: "httpKey list \<Rightarrow> httpKey list" where
  "sortedKeys ks = sort_key (\<lambda>k. fst (snd k)) (sort_key fst (sort_key (\<lambda>k. snd (snd k)) ks))"

definition requestLines :: "Registry \<Rightarrow> string" where
  "requestLines m = concat (map (\<lambda>k. series ''janus_http_requests_total''
     (label ''method'' (fst k) @ '','' @ label ''path'' (fst (snd k)) @ '','' @ label ''status'' (snd (snd k)))
     (decNat (entry 0 (httpReqs m) k))) (sortedKeys (map fst (httpReqs m))))"

definition histogramLines :: "(real \<Rightarrow> string) \<Rightarrow> Registry \<Rightarrow> string \<Rightarrow> string" where
  "histogramLines fmtFloat m p =
     (let d = ''janus_http_request_duration_seconds'' in
      concat (map (\<lambda>(ub, n). series (d @ ''_bucket'') (label ''path'' p @ '','' @ ''le='' @ [CHR 0x22] @ fmtFloat ub @ [CHR 0x22]) (decNat n))
        (zip latencyBuckets (entry [] (durBucket m) p))) @
      series (d @ ''_bucket'') (label ''path'' p @ '','' @ ''le='' @ [CHR 0x22] @ ''+Inf'' @ [CHR 0x22]) (decNat (entry 0 (durCount m) p)) @
      series (d @ ''_sum'') (label ''path'' p) (fmtFloat (entry 0 (durSum m) p)) @
      series (d @ ''_count'') (label ''path'' p) (decNat (entry 0 (durCount m) p)))"

definition WriteProcessMetrics :: "(real \<Rightarrow> string) \<Rightarrow> Registry \<Rightarrow> string" where
  "WriteProcessMetrics fmtFloat m =
     head_lines ''janus_http_requests_total'' ''Total HTTP requests handled.'' ''counter'' @ requestLines m @
     [CHR 0x0A] @ head_lines ''janus_http_request_duration_seconds'' ''HTTP request latency.'' ''histogram'' @
     concat (map (histogramLines fmtFloat m) (sort (map fst (durCount m)))) @
     [CHR 0x0A] @ head_lines ''janus_webhook_dispatches_total'' ''Webhook dispatch outcomes.'' ''counter'' @
     concat (map (\<lambda>s. series ''janus_webhook_dispatches_total'' (label ''status'' s) (decNat (entry 0 (webhookStatus m) s)))
       (sort (map fst (webhookStatus m)))) @
     [CHR 0x0A] @ head_lines ''janus_webhook_dispatch_duration_seconds'' ''Webhook dispatch duration including retries.'' ''summary'' @
     ''janus_webhook_dispatch_duration_seconds_sum '' @ fmtFloat (webhookLatSum m) @ [CHR 0x0A] @
     ''janus_webhook_dispatch_duration_seconds_count '' @ decNat (webhookLatCount m) @ [CHR 0x0A] @
     [CHR 0x0A] @ head_lines ''janus_migration_duration_seconds'' ''Migration duration by terminal state.'' ''summary'' @
     concat (map (\<lambda>s. series ''janus_migration_duration_seconds_sum'' (label ''state'' s) (fmtFloat (entry 0 (migrationDurSum m) s)) @
         series ''janus_migration_duration_seconds_count'' (label ''state'' s) (decNat (entry 0 (migrationDurCount m) s)))
       (sort (map fst (migrationDurCount m))))"

subsection \<open>What the histogram counts\<close>

record Observation =
  obMethod :: string
  obPath :: string
  obStatus :: int
  obSeconds :: real

definition observe :: "Observation \<Rightarrow> Registry \<Rightarrow> Registry" where
  "observe x = ObserveHTTP (obMethod x) (obPath x) (obStatus x) (obSeconds x)"

lemma entry_update: "entry d (AList.update k v t) k' = (if k' = k then v else entry d t k')"
  by (simp add: entry_def update_conv')

lemma entry_Nil [simp]: "entry d [] k = d"
  by (simp add: entry_def)

definition upTo :: "real \<Rightarrow> string \<Rightarrow> Observation list \<Rightarrow> nat" where
  "upTo ub p obs = length (filter (\<lambda>x. obPath x = p \<and> obSeconds x \<le> ub) obs)"

definition countedBy :: "Observation list \<Rightarrow> Registry \<Rightarrow> bool" where
  "countedBy obs m \<longleftrightarrow>
     (\<forall>p. entry (replicate (length latencyBuckets) 0) (durBucket m) p = map (\<lambda>ub. upTo ub p obs) latencyBuckets) \<and>
     (\<forall>p. entry 0 (durCount m) p = length (filter (\<lambda>x. obPath x = p) obs)) \<and>
     (\<forall>p. entry 0 (durSum m) p = sum_list (map obSeconds (filter (\<lambda>x. obPath x = p) obs))) \<and>
     (\<forall>k. entry 0 (httpReqs m) k = length (filter (\<lambda>x. (obMethod x, obPath x, decInt (obStatus x)) = k) obs))"

lemma countedBy_empty: "countedBy [] emptyRegistry"
  by (simp add: countedBy_def emptyRegistry_def upTo_def map_replicate_const)

lemma countedBy_observe: "countedBy obs m \<Longrightarrow> countedBy (obs @ [x]) (observe x m)"
  by (auto simp: countedBy_def observe_def ObserveHTTP_def Let_def inc_def add_def entry_update upTo_def zip_map2 comp_def
      zip_same_conv_map)

text \<open>Whatever requests were observed, in whatever order: the bucket of each bound holds the number of requests of
  the path that took at most that long, so buckets never decrease with the bound and never exceed the count; count,
  sum and the counters of method, path and status are those of the requests.\<close>

theorem histogram_counts:
  "let m = fold observe obs emptyRegistry in countedBy obs m \<and>
     (\<forall>p. sorted (entry (replicate (length latencyBuckets) 0) (durBucket m) p)) \<and>
     list_all (\<lambda>n. n \<le> entry 0 (durCount m) p) (entry (replicate (length latencyBuckets) 0) (durBucket m) p)"
proof -
  have c: "countedBy obs (fold observe obs emptyRegistry)"
    by (induction obs rule: rev_induct) (simp_all add: countedBy_empty countedBy_observe)
  have le: "upTo a q obs \<le> upTo b q obs" if "a \<le> b" for a b q
    using that unfolding upTo_def by (induction obs) auto
  have "upTo a q obs \<le> length (filter (\<lambda>x. obPath x = q) obs)" for a q
    unfolding upTo_def by (induction obs) auto
  moreover have "sorted (map (\<lambda>ub. upTo ub q obs) latencyBuckets)" for q
    by (simp add: latencyBuckets_def le)
  ultimately show ?thesis using c by (auto simp: Let_def countedBy_def list_all_iff)
qed

subsection \<open>Labels\<close>

definition escapeByte :: "char \<Rightarrow> string" where
  "escapeByte c = (if c = CHR 0x5C then [CHR 0x5C, CHR 0x5C] else if c = CHR 0x22 then [CHR 0x5C, CHR 0x22]
     else if c = CHR 0x0A then [CHR 0x5C, CHR ''n''] else [c])"

lemma escapeLabel_bytes: "escapeLabel s = concat (map escapeByte s)"
  by (induction s) (auto simp: escapeLabel_def replaceByte_def escapeByte_def)

text \<open>A reader of the text format.\<close>

fun unescape :: "string \<Rightarrow> string" where
  "unescape (c # d # s) = (if c = CHR 0x5C then (if d = CHR ''n'' then CHR 0x0A else d) # unescape s else c # unescape (d # s))"
| "unescape s = s"

lemma unescape_plain: "c \<noteq> CHR 0x5C \<Longrightarrow> unescape (c # s) = c # unescape s"
  by (cases s) auto

lemma unescape_escape: "unescape (escapeLabel s) = s"
  by (induction s) (auto simp: escapeLabel_bytes escapeByte_def unescape_plain)

lemma escapeLabel_one_line: "CHR 0x0A \<notin> set (escapeLabel s)"
  by (auto simp: escapeLabel_bytes escapeByte_def split: if_splits)

end
