(* ===== verification/Router.thy ===== *)
theory Router
  imports Sessions Metrics
begin

text \<open>
  The HTTP stack that \<open>New\<close> of \<^verbatim>\<open>httpapi/server.go\<close> builds: the route table, Go's \<open>ServeMux\<close> on it, and
  the layers around: correlation (\<^verbatim>\<open>correlation.go\<close>), request logger with metrics, CORS, rate limits
  (\<^verbatim>\<open>features.go\<close>), drain guard, authentication and role checks. A request either gets an answer on
  the way or reaches a handler with the identity in its context. Paths carry no percent escapes and the
  method is not CONNECT; \<open>weStatus\<close> is the status a handler will answer with.
\<close>

subsection \<open>Rate limits\<close>

text \<open>A client's window: its count and the time at which it ends. Times are in nanoseconds.\<close>

type_synonym clients = "(string \<times> nat \<times> int) list"

definition minute :: int where
  "minute = 60000000000"

definition sweepExpired :: "int \<Rightarrow> clients \<Rightarrow> clients" where
  "sweepExpired now cs = (if 4096 < length cs then filter (\<lambda>c. \<not> snd (snd c) < now) cs else cs)"

definition RateLimit :: "int \<Rightarrow> int \<Rightarrow> string \<Rightarrow> clients \<Rightarrow> bool \<times> clients" where
  "RateLimit maxPerMinute now key cs =
     (let cs1 = sweepExpired now cs;
          (n, resetAt) = (case map_of cs1 key of
             None \<Rightarrow> (0, now + minute)
           | Some (k, r) \<Rightarrow> if r < now then (0, now + minute) else (k, r))
      in (int (n + 1) \<le> maxPerMinute, AList.update key (n + 1, resetAt) cs1))"

subsection \<open>Requests\<close>

record WebRequest = HttpRequest +
  rMethod :: string
  rOrigin :: string
  rRemoteAddr :: string
  rCorrelationID :: string
  rRequestID :: string

record WebEnv =
  weHmac :: "string \<Rightarrow> string \<Rightarrow> string"
  weUnmarshal :: "string \<Rightarrow> JWTPayload result"
  weNow :: int
  weSecret :: string
  weAgentSecret :: string
  weDisableAuth :: bool
  weRevoked :: "string \<Rightarrow> int"
  weAgentVerify :: "bool option"
  weRateLimit :: int
  weCORSOrigin :: string
  weSplitHostPort :: "string \<Rightarrow> string option"
  weUUID :: string
  weStatus :: "string \<Rightarrow> int"
  weSeconds :: real

record WebState =
  wsGlobal :: clients
  wsLogin :: clients
  wsChange :: clients
  wsDraining :: bool
  wsMetrics :: Registry

text \<open>An answer given on the way, a redirect of the multiplexer, or the handler with its context.\<close>

datatype routed = Answered int string | Redirected string | Reached string "(string \<times> string \<times> string) option"

definition clientKey :: "WebEnv \<Rightarrow> string \<Rightarrow> string" where
  "clientKey w remote = (case weSplitHostPort w remote of None \<Rightarrow> remote | Some host \<Rightarrow> host)"

subsection \<open>Correlation and CORS\<close>

definition safeCorrelationID :: "string \<Rightarrow> bool" where
  "safeCorrelationID s \<longleftrightarrow> s \<noteq> [] \<and> length s \<le> 64 \<and>
     list_all (\<lambda>c. isUpperByte c \<or> isLowerByte c \<or> isDigit c \<or> c \<in> {CHR ''.'', CHR ''_'', CHR ''-''}) s"

definition correlationMiddleware :: "WebEnv \<Rightarrow> WebRequest \<Rightarrow> string" where
  "correlationMiddleware w r =
     (let i = (if rCorrelationID r = [] then rRequestID r else rCorrelationID r)
      in if safeCorrelationID i then i else weUUID w)"

definition configuredOrigins :: "string \<Rightarrow> string list" where
  "configuredOrigins allowedOrigins = map trimSpace (splitOn (CHR '','') allowedOrigins)"

definition allowedOrigin :: "string \<Rightarrow> string \<Rightarrow> bool" where
  "allowedOrigin allowedOrigins orig \<longleftrightarrow>
     orig \<in> {''http://localhost:5173'', ''http://127.0.0.1:5173'', ''http://localhost:8080''} \<or>
     (orig \<noteq> [] \<and> orig \<in> set (configuredOrigins allowedOrigins))"

definition corsOrigin :: "string \<Rightarrow> string \<Rightarrow> string" where
  "corsOrigin allowedOrigins orig =
     (let first = hd (configuredOrigins allowedOrigins);
          dflt = (if first \<noteq> [] then first else ''http://localhost:5173'')
      in if orig \<noteq> [] \<and> allowedOrigin allowedOrigins orig then orig else dflt)"

subsection \<open>Routes\<close>

record Route =
  rtPattern :: string
  rtRoles :: "string list option"
  rtLimited :: bool
  rtHandler :: string

definition plain :: "string \<Rightarrow> string \<Rightarrow> Route" where
  "plain p h = \<lparr>rtPattern = p, rtRoles = None, rtLimited = False, rtHandler = h\<rparr>"

definition limited :: "string \<Rightarrow> string \<Rightarrow> Route" where
  "limited p h = \<lparr>rtPattern = p, rtRoles = None, rtLimited = True, rtHandler = h\<rparr>"

definition guarded :: "string \<Rightarrow> string list \<Rightarrow> string \<Rightarrow> Route" where
  "guarded p roles h = \<lparr>rtPattern = p, rtRoles = Some roles, rtLimited = False, rtHandler = h\<rparr>"

definition routes :: "Route list" where
  "routes =
  [plain ''/api/health'' ''health'',
   limited ''/api/auth/login'' ''LoginHandler'',
   limited ''/api/auth/change-password'' ''changePassword'',
   plain ''/api/overview'' ''overview'',
   plain ''/api/assets'' ''assets'',
   plain ''/api/components'' ''components'',
   plain ''/api/findings'' ''findings'',
   guarded ''/api/findings/bulk-update'' [''operator'', ''admin''] ''bulkUpdateFindings'',
   plain ''/api/findings/'' ''findingsDispatch'',
   plain ''/api/hosts/'' ''hostFindings'',
   plain ''/api/migrations'' ''migrations'',
   plain ''/api/report.html'' ''reportHTML'',
   plain ''/api/agents/'' ''agentRoutes'',
   plain ''/api/reports/'' ''reportFindings'',
   plain ''/api/scan-config/schema'' ''scanConfigSchema'',
   guarded ''/api/certificates/csr'' [''operator'', ''admin''] ''createCSR'',
   guarded ''/api/migrations/enqueue'' [''operator'', ''admin''] ''enqueueMigration'',
   plain ''/api/export/cyclonedx'' ''exportCycloneDX'',
   plain ''/api/export/csv'' ''exportCSV'',
   plain ''/api/export/sarif'' ''exportSARIF'',
   plain ''/api/policies'' ''policies'',
   plain ''/api/policies/active'' ''activePolicy'',
   plain ''/api/policies/create'' ''createPolicy'',
   guarded ''/api/policies/import'' [''operator'', ''admin''] ''importPolicy'',
   guarded ''/api/policies/'' [''operator'', ''admin''] ''policyByVersion'',
   plain ''/api/policy/rules'' ''complianceRules'',
   plain ''/api/policy/rules/'' ''complianceRuleByID'',
   plain ''/api/agent/heartbeat'' ''agentHeartbeat'',
   plain ''/api/fleet/config'' ''fleetConfig'',
   plain ''/api/fleet/profiles'' ''fleetProfiles'',
   plain ''/api/fleet/profiles/mapping'' ''fleetProfileMapping'',
   plain ''/api/audit-logs'' ''auditLogs'',
   guarded ''/api/audit-logs/verify'' [''admin''] ''auditVerify'',
   plain ''/api/agent/diagnostics'' ''agentDiagnostics'',
   plain ''/api/webhooks'' ''webhooks'',
   plain ''/api/retention'' ''retention'',
   plain ''/api/export/siem'' ''exportSIEM'',
   plain ''/api/llm/proxy'' ''llmProxy'',
   guarded ''/api/llm/test-connection'' [''admin''] ''llmTestConnection'',
   guarded ''/api/llm/analyze'' [''operator'', ''admin''] ''llmAnalyze'',
   guarded ''/api/llm/analyze/batch'' [''operator'', ''admin''] ''llmAnalyzeBatch'',
   plain ''/api/llm/batches/'' ''llmBatchStatus'',
   plain ''/api/llm/jobs'' ''llmJobs'',
   plain ''/api/llm/jobs/'' ''llmJobs'',
   plain ''/api/llm/verdicts/'' ''llmVerdict'',
   plain ''/api/llm/suggestions/'' ''llmSuggestion'',
   plain ''/api/llm/provenance/'' ''llmProvenance'',
   plain ''/api/llm/status'' ''llmStatus'',
   plain ''/api/llm/usage'' ''llmUsage'',
   plain ''/api/agility/scorecard'' ''agilityScorecard'',
   guarded ''/api/agility/exercise'' [''operator'', ''admin''] ''agilityExercise'',
   guarded ''/api/admin/release-check'' [''admin''] ''releaseCheck'',
   guarded ''/api/waves'' [''operator'', ''admin''] ''wavePlans'',
   guarded ''/api/waves/'' [''operator'', ''admin''] ''wavePlanByID'',
   guarded ''/api/compliance/exceptions'' [''operator'', ''admin''] ''complianceExceptions'',
   guarded ''/api/compliance/exceptions/'' [''operator'', ''admin''] ''complianceExceptionByID'',
   guarded ''/api/tenants'' [''admin''] ''tenants'',
   plain ''/api/ws/ticket'' ''wsTicketIssue'',
   plain ''/api/ws'' ''serveWS'',
   plain ''/api/report/compliance'' ''complianceReport'',
   plain ''/api/lab/simulate'' ''pqcLabSimulate'',
   plain ''/api/sla/metrics'' ''slaMetrics'',
   plain ''/api/agent/upgrade'' ''agentUpgradeInfo'',
   plain ''/api/export/audit'' ''exportAuditLog'',
   plain ''/api/sandbox/simulate'' ''sandboxSimulate'',
   plain ''/api/confidence/report'' ''confidenceReport'',
   guarded ''/api/hsm/keys'' [''operator'', ''admin''] ''hsmListKeys'',
   guarded ''/api/hsm/keys/generate'' [''operator'', ''admin''] ''hsmGenerateKey'',
   guarded ''/api/hsm/sign'' [''operator'', ''admin''] ''hsmSign'',
   guarded ''/api/hsm/verify'' [''operator'', ''admin''] ''hsmVerify'',
   plain ''/metrics'' ''metrics'']"

definition authRateLimitPerMinute :: int where
  "authRateLimitPerMinute = 20"

text \<open>\<open>cleanPath\<close> of \<open>net/http\<close>.\<close>

fun cleanSegs :: "string list \<Rightarrow> string list \<Rightarrow> string list" where
  "cleanSegs acc [] = rev acc"
| "cleanSegs acc (s # ss) =
     (if s = [] \<or> s = ''.'' then cleanSegs acc ss
      else if s = ''..'' then cleanSegs (tl acc) ss else cleanSegs (s # acc) ss)"

definition cleanPath :: "string \<Rightarrow> string" where
  "cleanPath p =
     (if p = [] then ''/''
      else let p1 = (if hd p = CHR ''/'' then p else CHR ''/'' # p);
               np = CHR ''/'' # joinWith ''/'' (cleanSegs [] (splitOn (CHR ''/'') p1))
           in if last p1 = CHR ''/'' \<and> np \<noteq> ''/'' then np @ ''/'' else np)"

definition routeMatches :: "string \<Rightarrow> Route \<Rightarrow> bool" where
  "routeMatches path rt \<longleftrightarrow> rtPattern rt = path \<or> (suffix ''/'' (rtPattern rt) \<and> prefix (rtPattern rt) path)"

definition moreSpecific :: "Route \<Rightarrow> Route option \<Rightarrow> Route option" where
  "moreSpecific rt best =
     (case best of None \<Rightarrow> Some rt
      | Some b \<Rightarrow> if length (rtPattern b) < length (rtPattern rt) then Some rt else Some b)"

definition matchRoute :: "string \<Rightarrow> Route option" where
  "matchRoute path = foldr moreSpecific (filter (routeMatches path) routes) None"

datatype muxed = NotFound | RedirectTo string | Found Route

definition ServeMux :: "string \<Rightarrow> muxed" where
  "ServeMux path =
     (let c = cleanPath path; m = matchRoute c;
          exact = (case m of None \<Rightarrow> False | Some rt \<Rightarrow> rtPattern rt = c)
      in if \<not> exact \<and> \<not> suffix ''/'' c \<and> c @ ''/'' \<in> rtPattern ` set routes then RedirectTo (c @ ''/'')
         else if c \<noteq> path then RedirectTo c
         else case m of None \<Rightarrow> NotFound | Some rt \<Rightarrow> Found rt)"

subsection \<open>The stack\<close>

definition tooMany :: routed where
  "tooMany = Answered 429 ''rate limit exceeded''"

text \<open>The routed handler with the wrappers of its registration.\<close>

definition dispatch :: "WebEnv \<Rightarrow> WebRequest \<Rightarrow> (string \<times> string \<times> string) option \<Rightarrow> WebState \<Rightarrow> routed \<times> WebState" where
  "dispatch w r ctx st =
     (case ServeMux (rPath r) of
        NotFound \<Rightarrow> (Answered 404 ''404 page not found'', st)
      | RedirectTo p \<Rightarrow> (Redirected p, st)
      | Found rt \<Rightarrow>
          if rtLimited rt
          then (if rtHandler rt = ''LoginHandler''
                then (let (ok, cs) = RateLimit authRateLimitPerMinute (weNow w) (clientKey w (rRemoteAddr r)) (wsLogin st)
                      in (if ok then Reached (rtHandler rt) ctx else tooMany, st\<lparr>wsLogin := cs\<rparr>))
                else (let (ok, cs) = RateLimit authRateLimitPerMinute (weNow w) (clientKey w (rRemoteAddr r)) (wsChange st)
                      in (if ok then Reached (rtHandler rt) ctx else tooMany, st\<lparr>wsChange := cs\<rparr>)))
          else (case rtRoles rt of
                  None \<Rightarrow> (Reached (rtHandler rt) ctx, st)
                | Some roles \<Rightarrow>
                    (case RequireRole roles (map_option (\<lambda>(u, role, t). role) ctx) of
                       Some e \<Rightarrow> (Answered 403 e, st)
                     | None \<Rightarrow> (Reached (rtHandler rt) ctx, st))))"

definition authenticated :: "WebEnv \<Rightarrow> WebRequest \<Rightarrow> WebState \<Rightarrow> routed \<times> WebState" where
  "authenticated w r st =
     (case AuthMiddleware (weHmac w) (weUnmarshal w) (weNow w) (weSecret w) (weAgentSecret w) (weDisableAuth w)
             (Some (weRevoked w)) (weAgentVerify w) (HttpRequest.truncate r) of
        Reject code e \<Rightarrow> (Answered code e, st)
      | Pass ctx \<Rightarrow> dispatch w r ctx st)"

definition drainGuard :: "WebEnv \<Rightarrow> WebRequest \<Rightarrow> WebState \<Rightarrow> routed \<times> WebState" where
  "drainGuard w r st =
     (if wsDraining st \<and> rPath r \<noteq> ''/api/health''
      then (Answered 503 ''server is shutting down; retry after reconnect'', st) else authenticated w r st)"

definition inner :: "WebEnv \<Rightarrow> WebRequest \<Rightarrow> WebState \<Rightarrow> routed \<times> WebState" where
  "inner w r st =
     (if 0 < weRateLimit w
      then (let (ok, cs) = RateLimit (weRateLimit w) (weNow w) (clientKey w (rRemoteAddr r)) (wsGlobal st);
                st1 = st\<lparr>wsGlobal := cs\<rparr>
            in if ok then drainGuard w r st1 else (tooMany, st1))
      else drainGuard w r st)"

definition cors :: "WebEnv \<Rightarrow> WebRequest \<Rightarrow> WebState \<Rightarrow> routed \<times> WebState" where
  "cors w r st = (if rMethod r = ''OPTIONS'' then (Answered 204 [], st) else inner w r st)"

definition templatePrefixes :: "string list" where
  "templatePrefixes = [''/api/findings/'', ''/api/hosts/'', ''/api/agents/'', ''/api/reports/'', ''/api/llm/jobs/'',
     ''/api/llm/verdicts/'', ''/api/llm/suggestions/'', ''/api/llm/provenance/'', ''/api/llm/batches/'', ''/api/waves/'',
     ''/api/policy/rules/'', ''/api/fleet/profiles/'', ''/api/compliance/exceptions/'']"

definition normalizePath :: "string \<Rightarrow> string" where
  "normalizePath p =
     (case find (\<lambda>pre. prefix pre p \<and> length pre < length p) templatePrefixes of
        None \<Rightarrow> p | Some pre \<Rightarrow> pre @ ''*'')"

definition statusOf :: "WebEnv \<Rightarrow> routed \<Rightarrow> int" where
  "statusOf w a = (case a of Answered code e \<Rightarrow> code | Redirected p \<Rightarrow> 301 | Reached h ctx \<Rightarrow> weStatus w h)"

definition requestLogger :: "WebEnv \<Rightarrow> WebRequest \<Rightarrow> WebState \<Rightarrow> routed \<times> WebState" where
  "requestLogger w r st =
     (if rPath r = ''/api/ws'' then cors w r st
      else let (a, st1) = cors w r st
           in (a, st1\<lparr>wsMetrics := ObserveHTTP (rMethod r) (normalizePath (rPath r)) (statusOf w a) (weSeconds w) (wsMetrics st1)\<rparr>))"

text \<open>The outermost layer: the correlation id echoed, the CORS header, the outcome.\<close>

definition serve :: "WebEnv \<Rightarrow> WebRequest \<Rightarrow> WebState \<Rightarrow> (string \<times> string \<times> routed) \<times> WebState" where
  "serve w r st =
     (let (a, st1) = requestLogger w r st
      in ((correlationMiddleware w r, corsOrigin (weCORSOrigin w) (rOrigin r), a), st1))"

end
