(* ===== verification/RouterProofs.thy ===== *)
theory RouterProofs
  imports Router
begin

text \<open>
  Who reaches which handler, how many requests of a client pass a rate limit in a minute, and what every
  request, also a refused one, leaves behind in the metrics.
\<close>

subsection \<open>Rate limits\<close>

text \<open>A run of one limiter: the time and key of each request, and whether it passed.\<close>

fun limitRun :: "int \<Rightarrow> (int \<times> string) list \<Rightarrow> clients \<Rightarrow> bool list" where
  "limitRun m [] cs = []"
| "limitRun m ((t, k) # rs) cs = (let (ok, cs') = RateLimit m t k cs in ok # limitRun m rs cs')"

text \<open>The requests of a client that passed between two times.\<close>

definition passedBy :: "string \<Rightarrow> int \<Rightarrow> int \<Rightarrow> (int \<times> string) list \<Rightarrow> bool list \<Rightarrow> nat" where
  "passedBy k a b rs oks = length (filter (\<lambda>((t, k'), ok). k' = k \<and> a \<le> t \<and> t \<le> b \<and> ok) (zip rs oks))"

lemma passedBy_Cons:
  "passedBy k a b ((t, k') # rs) (ok # oks) = (if k' = k \<and> a \<le> t \<and> t \<le> b \<and> ok then 1 else 0) + passedBy k a b rs oks"
  by (simp add: passedBy_def)

text \<open>What a client may still pass until \<open>b\<close>, when no window of it can open and end before \<open>b\<close>.\<close>

definition allowance :: "nat \<Rightarrow> int \<Rightarrow> string \<Rightarrow> clients \<Rightarrow> nat" where
  "allowance m b k cs = (case map_of cs k of None \<Rightarrow> m | Some (c, r) \<Rightarrow> (m - c) + (if r < b then m else 0))"

lemma map_of_sweep:
  "distinct (map fst cs) \<Longrightarrow> map_of (sweepExpired now cs) k =
     (if 4096 < length cs then (case map_of cs k of None \<Rightarrow> None | Some e \<Rightarrow> if snd e < now then None else Some e) else map_of cs k)"
proof -
  assume d: "distinct (map fst cs)"
  have "map_of (filter (\<lambda>c. \<not> snd (snd c) < now) cs) k =
      (case map_of cs k of None \<Rightarrow> None | Some e \<Rightarrow> if snd e < now then None else Some e)"
    using d
  proof (induction cs)
    case (Cons c cs)
    then have "fst c = k \<Longrightarrow> map_of cs k = None" by (auto simp: map_of_eq_None_iff)
    with Cons show ?case by (cases c) (auto split: option.split)
  qed simp
  then show ?thesis by (simp add: sweepExpired_def)
qed

lemma distinct_sweep: "distinct (map fst cs) \<Longrightarrow> distinct (map fst (sweepExpired now cs))"
  by (simp add: sweepExpired_def distinct_map_filter)

lemma RateLimit_distinct: "distinct (map fst cs) \<Longrightarrow> distinct (map fst (snd (RateLimit m t k cs)))"
  by (simp add: RateLimit_def Let_def case_prod_beta distinct_update distinct_sweep)

lemma allowance_step:
  assumes "distinct (map fst cs)" and "a \<le> t" and "b = a + minute" and "t \<le> b"
  shows "(if k' = k \<and> fst (RateLimit (int m) t k' cs) then 1 else 0) + allowance m b k (snd (RateLimit (int m) t k' cs))
    \<le> allowance m b k cs"
proof -
  note sw = map_of_sweep [OF assms(1)]
  show ?thesis
  proof (cases "map_of cs k")
    case None
    then show ?thesis
      using assms(2-4)
      by (cases "k' = k") (auto simp: RateLimit_def Let_def allowance_def update_conv' sw case_prod_beta)
  next
    case (Some e)
    then show ?thesis
      using assms(2-4)
      by (cases e; cases "k' = k")
        (auto simp: RateLimit_def Let_def allowance_def update_conv' sw case_prod_beta minute_def)
  qed
qed

lemma passedBy_late: "\<forall>r \<in> set rs. b < fst r \<Longrightarrow> passedBy k a b rs oks = 0"
  by (auto simp: passedBy_def filter_empty_conv dest!: set_zip_leftD)

lemma passed_allowance:
  assumes "sorted (map fst rs)" and "\<forall>r \<in> set rs. a \<le> fst r" and "distinct (map fst cs)" and "b = a + minute"
  shows "passedBy k a b rs (limitRun (int m) rs cs) \<le> allowance m b k cs"
  using assms
proof (induction rs arbitrary: cs)
  case Nil
  then show ?case by (simp add: passedBy_def)
next
  case (Cons r rs)
  obtain t k' where r: "r = (t, k')" by fastforce
  show ?case
  proof (cases "t \<le> b")
    case True
    have "passedBy k a b rs (limitRun (int m) rs (snd (RateLimit (int m) t k' cs))) \<le>
        allowance m b k (snd (RateLimit (int m) t k' cs))"
      using Cons by (auto simp: RateLimit_distinct)
    with allowance_step [OF Cons.prems(3) _ Cons.prems(4) True, of k' k m] Cons.prems(2) True show ?thesis
      by (auto simp: r passedBy_Cons case_prod_beta)
  next
    case False
    then have "\<forall>q \<in> set (r # rs). b < fst q" using Cons.prems(1) by (auto simp: r)
    from passedBy_late [OF this] show ?thesis by simp
  qed
qed

lemma passed_window:
  assumes "sorted (map fst rs)" and "distinct (map fst cs)"
  shows "passedBy k a (a + minute) rs (limitRun (int m) rs cs) \<le> 2 * m"
  using assms
proof (induction rs arbitrary: cs)
  case Nil
  then show ?case by (simp add: passedBy_def)
next
  case (Cons r rs)
  obtain t k' where r: "r = (t, k')" by fastforce
  show ?case
  proof (cases "a \<le> t")
    case True
    then have "\<forall>q \<in> set (r # rs). a \<le> fst q" using Cons.prems(1) by (auto simp: r)
    from passed_allowance [OF Cons.prems(1) this Cons.prems(2) refl, of k m]
    moreover have "allowance m (a + minute) k cs \<le> 2 * m"
      by (simp add: allowance_def mult_2 add_mono trans_le_add1 split: option.split)
    ultimately show ?thesis by simp
  next
    case False
    with Cons show ?thesis by (auto simp: r passedBy_Cons case_prod_beta RateLimit_distinct)
  qed
qed

text \<open>C34: Whatever requests of whatever clients arrive, at most twice the limit of those of one client pass in any
  minute, also across the end of a window and when expired windows are swept.\<close>

theorem rate_limit_window:
  assumes "sorted (map fst rs)"
  shows "passedBy k a (a + minute) rs (limitRun (int m) rs []) \<le> 2 * m"
  using passed_window [OF assms] by simp

subsection \<open>Access\<close>

definition operatorHandlers :: "string list" where
  "operatorHandlers = [''bulkUpdateFindings'', ''createCSR'', ''enqueueMigration'', ''importPolicy'', ''policyByVersion'',
     ''llmAnalyze'', ''llmAnalyzeBatch'', ''agilityExercise'', ''wavePlans'', ''wavePlanByID'', ''complianceExceptions'',
     ''complianceExceptionByID'', ''hsmListKeys'', ''hsmGenerateKey'', ''hsmSign'', ''hsmVerify'']"

definition adminHandlers :: "string list" where
  "adminHandlers = [''auditVerify'', ''llmTestConnection'', ''releaseCheck'', ''tenants'']"

definition publicHandlers :: "string list" where
  "publicHandlers = [''agentHeartbeat'', ''health'', ''LoginHandler'', ''metrics'', ''serveWS'']"

text \<open>Each row of the table asks for the roles that its handler is meant for, and a public path leads to a public handler.\<close>

definition routeOK :: "Route \<Rightarrow> bool" where
  "routeOK rt \<longleftrightarrow>
     (rtHandler rt \<in> set operatorHandlers \<longrightarrow> rtRoles rt = Some [''operator'', ''admin''] \<and> \<not> rtLimited rt) \<and>
     (rtHandler rt \<in> set adminHandlers \<longrightarrow> rtRoles rt = Some [''admin''] \<and> \<not> rtLimited rt) \<and>
     (rtPattern rt \<in> set publicPaths \<longrightarrow> rtHandler rt \<in> set publicHandlers)"

lemma routes_OK: "rt \<in> set routes \<Longrightarrow> routeOK rt"
proof -
  have "list_all routeOK routes" by code_simp
  then show "rt \<in> set routes \<Longrightarrow> routeOK rt" by (simp add: list_all_iff)
qed

lemma matchRoute_in: "matchRoute path = Some rt \<Longrightarrow> rt \<in> set routes \<and> routeMatches path rt"
proof -
  have "foldr moreSpecific rts None = Some rt \<Longrightarrow> rt \<in> set rts" for rts
    by (induction rts) (auto simp: moreSpecific_def split: option.splits if_splits)
  then show "matchRoute path = Some rt \<Longrightarrow> rt \<in> set routes \<and> routeMatches path rt"
    unfolding matchRoute_def by fastforce
qed

lemma ServeMux_found: "ServeMux path = Found rt \<Longrightarrow> rt \<in> set routes"
  by (auto simp: ServeMux_def Let_def dest: matchRoute_in split: option.splits if_splits)

lemma public_routes: "path \<in> set publicPaths \<Longrightarrow> ServeMux path = Found rt \<Longrightarrow> rtHandler rt \<in> set publicHandlers"
proof -
  have "list_all (\<lambda>p. case ServeMux p of Found x \<Rightarrow> rtHandler x \<in> set publicHandlers | _ \<Rightarrow> True) publicPaths" by code_simp
  then show "path \<in> set publicPaths \<Longrightarrow> ServeMux path = Found rt \<Longrightarrow> rtHandler rt \<in> set publicHandlers"
    by (auto simp: list_all_iff split: muxed.splits)
qed

lemma agent_routes: "ServeMux ''/api/agent/config'' = NotFound" "ServeMux ''/api/agent/scan-command'' = NotFound"
  by code_simp+

lemma health_route: "ServeMux ''/api/health'' = Found (plain ''/api/health'' ''health'')"
  by code_simp

lemma inner_reached:
  assumes "inner w r st = (Reached h ctx, st')"
  shows "\<exists>st1 st2. drainGuard w r st1 = (Reached h ctx, st2) \<and> wsDraining st1 = wsDraining st"
proof (cases "0 < weRateLimit w")
  case True
  obtain ok cs where l: "RateLimit (weRateLimit w) (weNow w) (clientKey w (rRemoteAddr r)) (wsGlobal st) = (ok, cs)" by fastforce
  with assms True have "drainGuard w r (st\<lparr>wsGlobal := cs\<rparr>) = (Reached h ctx, st')"
    by (auto simp: inner_def tooMany_def Let_def split: if_splits)
  moreover have "wsDraining (st\<lparr>wsGlobal := cs\<rparr>) = wsDraining st" by simp
  ultimately show ?thesis by blast
next
  case False
  with assms have "drainGuard w r st = (Reached h ctx, st')" by (simp add: inner_def)
  then show ?thesis by blast
qed

lemma served:
  assumes "serve w r st = ((cid, orig, Reached h ctx), st')"
  shows "\<exists>st1 st2. drainGuard w r st1 = (Reached h ctx, st2) \<and> wsDraining st1 = wsDraining st"
proof -
  from assms have "fst (requestLogger w r st) = Reached h ctx" by (auto simp: serve_def split: prod.splits)
  then have "fst (cors w r st) = Reached h ctx" by (auto simp: requestLogger_def split: if_splits prod.splits)
  then have "fst (inner w r st) = Reached h ctx" by (auto simp: cors_def split: if_splits)
  then show ?thesis using inner_reached by (metis prod.collapse)
qed

lemma dispatched:
  assumes "drainGuard w r st = (Reached h ctx, st')"
  shows "AuthMiddleware (weHmac w) (weUnmarshal w) (weNow w) (weSecret w) (weAgentSecret w) (weDisableAuth w)
      (Some (weRevoked w)) (weAgentVerify w) (HttpRequest.truncate r) = Pass ctx \<and>
    (\<exists>rt. ServeMux (rPath r) = Found rt \<and> rtHandler rt = h \<and> (rtLimited rt \<or> (case rtRoles rt of None \<Rightarrow> True
       | Some roles \<Rightarrow> RequireRole roles (map_option (\<lambda>(u, role, t). role) ctx) = None)))"
  using assms
  by (auto simp: drainGuard_def authenticated_def dispatch_def tooMany_def split: if_splits outcome.splits muxed.splits
      prod.splits option.splits)

lemma required_role: "RequireRole roles ctxRole = None \<Longrightarrow> \<exists>role. ctxRole = Some role \<and> (role \<in> set roles \<or> role = ''admin'')"
  by (auto simp: RequireRole_def split: option.splits if_splits)

lemma passed_identity:
  assumes "AuthMiddleware hmac unmarshal now secret agentSecret False (Some before) verify q = Pass ctx"
  shows "(ctx = None \<and> rPath q \<in> {''/api/agent/config'', ''/api/agent/scan-command''} \<union> set publicPaths) \<or>
    (\<exists>user role tenant token iat. ctx = Some (user, role, tenant) \<and>
       VerifyToken hmac unmarshal now token secret = Inr (user, role, tenant, iat) \<and>
       \<not> (0 < before user \<and> iat < before user))"
  using assms by (auto simp: AuthMiddleware_def split: if_splits option.splits list.splits sum.splits) blast+

text \<open>C33: With authentication on, a request reaches one of the five public handlers, or it carries a valid token that
  no password change has ended and its handler runs as the user, role and tenant of that token; the sixteen handlers
  of operators run for the roles operator and admin only, the four of administrators for admin only. Methods, paths
  that the multiplexer cleans, the other layers and their state make no difference.\<close>

theorem handler_access:
  assumes "serve w r st = ((cid, orig, Reached h ctx), st')" and "\<not> weDisableAuth w"
  shows "(ctx = None \<and> h \<in> set publicHandlers) \<or>
    (\<exists>user role tenant token iat. ctx = Some (user, role, tenant) \<and>
       VerifyToken (weHmac w) (weUnmarshal w) (weNow w) token (weSecret w) = Inr (user, role, tenant, iat) \<and>
       \<not> (0 < weRevoked w user \<and> iat < weRevoked w user) \<and>
       (h \<in> set operatorHandlers \<longrightarrow> role \<in> {''operator'', ''admin''}) \<and> (h \<in> set adminHandlers \<longrightarrow> role = ''admin''))"
proof -
  from served [OF assms(1)] obtain st1 st2 where d: "drainGuard w r st1 = (Reached h ctx, st2)" by blast
  from dispatched [OF d] assms(2) obtain rt where
    auth: "AuthMiddleware (weHmac w) (weUnmarshal w) (weNow w) (weSecret w) (weAgentSecret w) False
      (Some (weRevoked w)) (weAgentVerify w) (HttpRequest.truncate r) = Pass ctx"
    and rt: "ServeMux (rPath r) = Found rt" "rtHandler rt = h"
    and roles: "rtLimited rt \<or> (case rtRoles rt of None \<Rightarrow> True
       | Some roles \<Rightarrow> RequireRole roles (map_option (\<lambda>(u, role, t). role) ctx) = None)" by auto
  have ok: "routeOK rt" by (rule routes_OK [OF ServeMux_found [OF rt(1)]])
  have p: "rPath (HttpRequest.truncate r) = rPath r" by (simp add: HttpRequest.truncate_def)
  from passed_identity [OF auth] show ?thesis
  proof
    assume a: "ctx = None \<and> rPath (HttpRequest.truncate r) \<in> {''/api/agent/config'', ''/api/agent/scan-command''} \<union> set publicPaths"
    then have "rPath r \<in> set publicPaths" using rt(1) agent_routes by (auto simp: p)
    from public_routes [OF this rt(1)] a rt(2) show ?thesis by simp
  next
    assume "\<exists>user role tenant token iat. ctx = Some (user, role, tenant) \<and>
       VerifyToken (weHmac w) (weUnmarshal w) (weNow w) token (weSecret w) = Inr (user, role, tenant, iat) \<and>
       \<not> (0 < weRevoked w user \<and> iat < weRevoked w user)"
    then obtain user role tenant token iat where t: "ctx = Some (user, role, tenant)"
      "VerifyToken (weHmac w) (weUnmarshal w) (weNow w) token (weSecret w) = Inr (user, role, tenant, iat)"
      "\<not> (0 < weRevoked w user \<and> iat < weRevoked w user)" by blast
    have "h \<in> set operatorHandlers \<longrightarrow> role \<in> {''operator'', ''admin''}"
      using ok roles required_role [of "[''operator'', ''admin'']" "Some role"] by (auto simp: routeOK_def rt(2) t(1))
    moreover have "h \<in> set adminHandlers \<longrightarrow> role = ''admin''"
      using ok roles required_role [of "[''admin'']" "Some role"] by (auto simp: routeOK_def rt(2) t(1))
    ultimately show ?thesis using t by blast
  qed
qed

text \<open>While the server drains, only the health handler is reached.\<close>

lemma draining_reaches_health:
  assumes "serve w r st = ((cid, orig, Reached h ctx), st')" and "wsDraining st"
  shows "h = ''health''"
proof -
  from served [OF assms(1)] assms(2) obtain st1 st2 where d: "drainGuard w r st1 = (Reached h ctx, st2)" "wsDraining st1" by auto
  then have "rPath r = ''/api/health''" by (auto simp: drainGuard_def split: if_splits)
  with dispatched [OF d(1)] health_route show ?thesis by (auto simp: plain_def)
qed

text \<open>The CORS header names a configured or a local origin, whatever the request claims.\<close>

lemma cors_never_reflects: "allowedOrigin configured (corsOrigin configured orig)"
proof -
  have "configuredOrigins configured \<noteq> []" by (simp add: configuredOrigins_def)
  then have "hd (configuredOrigins configured) \<in> set (configuredOrigins configured)" by simp
  then show ?thesis by (auto simp: corsOrigin_def allowedOrigin_def Let_def)
qed

subsection \<open>Metrics\<close>

fun serveRun :: "WebEnv \<Rightarrow> WebRequest list \<Rightarrow> WebState \<Rightarrow> WebState" where
  "serveRun w [] st = st"
| "serveRun w (r # rs) st = serveRun w rs (snd (serve w r st))"

abbreviation pathsSeen :: "WebState \<Rightarrow> string set" where
  "pathsSeen st \<equiv> (\<lambda>k. fst (snd k)) ` fst ` set (httpReqs (wsMetrics st))"

definition probe :: "nat \<Rightarrow> WebRequest" where
  "probe i = \<lparr>rPath = ''/x'' @ replicate i (CHR ''x''), rAuthorization = [], rHostUUID = [], rAgentToken = [],
     rMethod = ''GET'', rOrigin = [], rRemoteAddr = [], rCorrelationID = [], rRequestID = []\<rparr>"

lemma metrics_dispatch: "wsMetrics (snd (drainGuard w r st)) = wsMetrics st"
  by (simp add: drainGuard_def authenticated_def dispatch_def Let_def case_prod_beta
      split: outcome.split muxed.split option.split)

lemma metrics_cors: "wsMetrics (snd (cors w r st)) = wsMetrics st"
  by (simp add: cors_def inner_def Let_def case_prod_beta metrics_dispatch)

lemma serve_metrics:
  "pathsSeen (snd (serve w r st)) = (if rPath r = ''/api/ws'' then pathsSeen st else insert (normalizePath (rPath r)) (pathsSeen st))"
  by (simp add: serve_def requestLogger_def case_prod_beta Let_def ObserveHTTP_def inc_def metrics_cors dom_update)

lemma probe_path: "normalizePath (rPath (probe i)) = rPath (probe i)" "rPath (probe i) \<noteq> ''/api/ws''"
  by (simp_all add: probe_def normalizePath_def templatePrefixes_def)

lemma run_probes: "pathsSeen (serveRun w (map probe is) st) = (\<lambda>i. rPath (probe i)) ` set is \<union> pathsSeen st"
  by (induction "is" arbitrary: st) (auto simp: serve_metrics probe_path)

lemma no_x_route: "rt \<in> set routes \<Longrightarrow> \<exists>p c. rtPattern rt = CHR ''/'' # c # p \<and> c \<noteq> CHR ''x''"
proof -
  have "list_all (\<lambda>rt. case rtPattern rt of a # c # p \<Rightarrow> a = CHR ''/'' \<and> c \<noteq> CHR ''x'' | _ \<Rightarrow> False) routes" by code_simp
  moreover assume "rt \<in> set routes"
  ultimately have "case rtPattern rt of a # c # p \<Rightarrow> a = CHR ''/'' \<and> c \<noteq> CHR ''x'' | _ \<Rightarrow> False"
    unfolding list_all_iff by blast
  then show "\<exists>p c. rtPattern rt = CHR ''/'' # c # p \<and> c \<noteq> CHR ''x''" by (simp split: list.splits)
qed

lemma x_unmatched: "matchRoute (CHR ''/'' # CHR ''x'' # p) = None" "CHR ''/'' # CHR ''x'' # p \<notin> rtPattern ` set routes"
proof -
  have "filter (routeMatches (CHR ''/'' # CHR ''x'' # p)) routes = []"
    using no_x_route by (fastforce simp: filter_empty_conv routeMatches_def)
  then show "matchRoute (CHR ''/'' # CHR ''x'' # p) = None" by (simp add: matchRoute_def)
  show "CHR ''/'' # CHR ''x'' # p \<notin> rtPattern ` set routes" using no_x_route by fastforce
qed

lemma probe_unknown: "ServeMux (rPath (probe i)) = NotFound"
proof -
  define xs where "xs = CHR ''x'' # replicate i (CHR ''x'')"
  have p: "rPath (probe i) = CHR ''/'' # xs" by (simp add: probe_def xs_def)
  have free: "CHR ''/'' \<notin> set xs" "xs \<noteq> []" "xs \<noteq> ''.''" "xs \<noteq> ''..''" by (auto simp: xs_def)
  then have "last xs \<noteq> CHR ''/''" using last_in_set by metis
  moreover have "splitOn (CHR ''/'') (CHR ''/'' # xs) = [[], xs]" using free(1) by (simp add: splitOn_free)
  ultimately have "cleanPath (rPath (probe i)) = rPath (probe i)" by (simp add: cleanPath_def p free(2-4))
  then show ?thesis
    using x_unmatched [of "replicate i (CHR ''x'')"] x_unmatched(2) [of "replicate i (CHR ''x'') @ ''/''"]
    by (simp add: ServeMux_def Let_def probe_def)
qed

text \<open>Requests without credentials to paths that no route has leave one series of the metrics each, although they
  are refused: their number has no bound.\<close>

theorem refused_requests_grow_metrics:
  "\<exists>rs. length rs = n \<and> list_all (\<lambda>r. rAuthorization r = [] \<and> ServeMux (rPath r) = NotFound) rs \<and>
     n \<le> length (httpReqs (wsMetrics (serveRun w rs st)))"
proof -
  have "inj (\<lambda>i. rPath (probe i))" by (auto simp: inj_def probe_def dest: arg_cong [where f = length])
  then have "card ((\<lambda>i. rPath (probe i)) ` set [0..<n]) = n" by (subst card_image) (auto dest: inj_on_subset)
  moreover have "(\<lambda>i. rPath (probe i)) ` set [0..<n] \<subseteq> pathsSeen (serveRun w (map probe [0..<n]) st)"
    unfolding run_probes by blast
  then have "card ((\<lambda>i. rPath (probe i)) ` set [0..<n]) \<le> card (pathsSeen (serveRun w (map probe [0..<n]) st))"
    by (intro card_mono) auto
  moreover have "card (pathsSeen q) \<le> length (httpReqs (wsMetrics q))" for q :: WebState
    by (rule order_trans [OF card_image_le order_trans [OF card_image_le card_length]]) simp_all
  ultimately have "n \<le> length (httpReqs (wsMetrics (serveRun w (map probe [0..<n]) st)))"
    using order_trans by fastforce
  moreover have "list_all (\<lambda>r. rAuthorization r = [] \<and> ServeMux (rPath r) = NotFound) (map probe [0..<n])"
    by (simp add: list_all_iff probe_unknown) (simp add: probe_def)
  ultimately show ?thesis by (intro exI [where x = "map probe [0..<n]"]) simp
qed

subsection \<open>Witnesses\<close>

definition demo_web :: WebEnv where
  "demo_web = \<lparr>weHmac = (\<lambda>k m. []), weUnmarshal = (\<lambda>b. Inr \<lparr>Sub = ''root'', Role = ''admin'', Tenant = ''acme'', Iat = 5, Exp = 9\<rparr>),
     weNow = 0, weSecret = ''k'', weAgentSecret = ''a'', weDisableAuth = False, weRevoked = (\<lambda>u. 0), weAgentVerify = None,
     weRateLimit = 600, weCORSOrigin = [], weSplitHostPort = (\<lambda>a. None), weUUID = ''u'', weStatus = (\<lambda>h. 200),
     weSeconds = 0\<rparr>"

definition demo_request_to :: "string \<Rightarrow> WebRequest" where
  "demo_request_to path = \<lparr>rPath = path, rAuthorization = ''Bearer ..'', rHostUUID = [], rAgentToken = [],
     rMethod = ''GET'', rOrigin = [], rRemoteAddr = ''10.0.0.1'', rCorrelationID = [], rRequestID = []\<rparr>"

definition demo_web_state :: WebState where
  "demo_web_state = \<lparr>wsGlobal = [], wsLogin = [], wsChange = [], wsDraining = False, wsMetrics = emptyRegistry\<rparr>"

lemma demo_served:
  "fst (serve demo_web (demo_request_to ''/api/tenants'') demo_web_state) =
     (''u'', ''http://localhost:5173'', Reached ''tenants'' (Some (''root'', ''admin'', ''acme'')))"
proof -
  have m: "ServeMux ''/api/tenants'' = Found (guarded ''/api/tenants'' [''admin''] ''tenants'')" by code_simp
  have s: "splitOn (CHR '' '') ''Bearer ..'' = [''Bearer'', ''..'']" "splitOn (CHR ''.'') ''..'' = [[], [], []]"
    "toLower ''Bearer'' = ''bearer''" "rawURLBase64 [] = []" "rawURLDecode [] = Some []"
    "configuredOrigins [] = [[]]" by code_simp+
  show ?thesis
    by (simp add: serve_def requestLogger_def cors_def inner_def drainGuard_def authenticated_def dispatch_def m guarded_def
        RateLimit_def sweepExpired_def AuthMiddleware_def VerifyToken_def publicPaths_def s RequireRole_def unixSec_def
        correlationMiddleware_def safeCorrelationID_def corsOrigin_def demo_web_def demo_request_to_def
        demo_web_state_def HttpRequest.truncate_def)
qed

theorem handler_access_witness:
  "\<exists>cid orig st'. serve demo_web (demo_request_to ''/api/tenants'') demo_web_state =
       ((cid, orig, Reached ''tenants'' (Some (''root'', ''admin'', ''acme''))), st') \<and>
     (\<exists>token iat. VerifyToken (weHmac demo_web) (weUnmarshal demo_web) (weNow demo_web) token (weSecret demo_web) =
       Inr (''root'', ''admin'', ''acme'', iat))"
proof -
  obtain st' where r: "serve demo_web (demo_request_to ''/api/tenants'') demo_web_state =
      ((''u'', ''http://localhost:5173'', Reached ''tenants'' (Some (''root'', ''admin'', ''acme''))), st')"
    using demo_served by (metis prod.collapse)
  have "\<not> weDisableAuth demo_web" by (simp add: demo_web_def)
  from handler_access [OF r this] r show ?thesis by blast
qed

theorem rate_limit_window_witness:
  "passedBy ''c'' 0 (0 + minute) [(0, ''c''), (5, ''c''), (9, ''c'')] (limitRun (int 1) [(0, ''c''), (5, ''c''), (9, ''c'')] []) \<le> 2 * 1"
  by (rule rate_limit_window) simp

end
