(* ===== verification/WaveApi.thy ===== *)
theory WaveApi
  imports CommandApi WavePlanner
begin

text \<open>
  The HTTP handlers on wave plans: \<open>wavePlans\<close> and \<open>wavePlanByID\<close> of \<^verbatim>\<open>httpapi/agility_waves.go\<close> over the
  planner and the audit log. The decoded body, the path and the context are arguments; \<open>wnQuote\<close> is \<open>%q\<close> of
  package fmt. The database error of each statement is drawn anew for each request. At the end: the log of
  status changes, read back.
\<close>

subsection \<open>State\<close>

record WaveApiState =
  waDB :: WaveDB
  waAudit :: AuditDB

record WaveApiEnv =
  wnNow :: int
  wnUUID :: string
  wnLogID :: string
  wnSha :: "string \<Rightarrow> string"
  wnQuote :: "string \<Rightarrow> string"
  wnFault :: "wave_op \<Rightarrow> goerror"

definition waveAudit :: "WaveApiEnv \<Rightarrow> string \<Rightarrow> string \<Rightarrow> string \<Rightarrow> WaveApiState \<Rightarrow> WaveApiState" where
  "waveAudit n user action details st =
     st\<lparr>waAudit := snd (InsertAuditLog (wnSha n) (wnLogID n) (wnNow n)
       \<lparr>LogID = [], alUsername = user, Action = action, Details = details, alCreatedAt = 0, PrevHash = [],
        EntryHash = []\<rparr> (waAudit st))\<rparr>"

fun waveErrorText :: "(string \<Rightarrow> string) \<Rightarrow> wave_error \<Rightarrow> string" where
  "waveErrorText q (StoreErr e) = e"
| "waveErrorText q NameRequired = ''wave plan name is required''"
| "waveErrorText q WaveNumberLow = ''wave_number must be >= 1''"
| "waveErrorText q TargetBeforeStart = ''target_date must not be before start_date''"
| "waveErrorText q (BadApprovalPolicy p) = ''approval_policy must be one of auto, operator, admin (got '' @ q p @ '')''"
| "waveErrorText q BudgetNegative = ''budget_hours must be >= 0''"
| "waveErrorText q ActualNegative = ''actual_hours must be >= 0''"
| "waveErrorText q (UnknownDependency d) = ''depends_on references unknown wave plan '' @ q d"
| "waveErrorText q (InvalidStatus s) = ''invalid status '' @ q s"
| "waveErrorText q PlanNotFound = ''wave plan not found''"
| "waveErrorText q (BadTransition a b) = ''cannot transition wave plan from '' @ q a @ '' to '' @ q b"
| "waveErrorText q (CannotActivate ds) = ''cannot activate: '' @ decNat (length ds) @
     '' dependency wave(s) not yet completed: ['' @ joinWith '' '' ds @ '']''"
| "waveErrorText q (CannotDelete s) = ''cannot delete a '' @ s @ '' wave plan; cancel it first''"
| "waveErrorText q PlanRequired = ''wave plan is required''"
| "waveErrorText q (BadCanaryPercent p) = ''canary percent must be between 1 and 100 (got '' @ decInt p @ '')''"
| "waveErrorText q NoAssets = ''wave plan has no assets to select a canary cohort from''"

definition waveUser :: "caller \<Rightarrow> string" where
  "waveUser who = (if callerUser who = [] then ''admin'' else callerUser who)"

definition ReadinessChecklist :: "string list" where
  "ReadinessChecklist =
     [''All assets in wave have completed a discovery scan'',
      ''Critical and high findings reviewed and triaged'',
      ''Dry-run migration simulation passed for a representative asset'',
      ''Rollback plan documented'',
      ''Stakeholder approval recorded in audit log'',
      ''Monitoring alerts configured for target services'']"

subsection \<open>Handlers\<close>

datatype waveAnswer =
  WavePlansList "WavePlan list" "string list"
| WaveCreated WavePlan
| WaveGraphBudget DependencyGraph BudgetSummary
| WaveStatus string string
| WaveDeleted

definition wavePlans :: "WaveApiEnv \<Rightarrow> string \<Rightarrow> caller \<Rightarrow> WavePlan result \<Rightarrow> WaveApiState
    \<Rightarrow> waveAnswer answer \<times> WaveApiState" where
  "wavePlans n httpMethod who body st =
     (let tenant = TenantFromContext who in
      if httpMethod = ''GET''
      then (case GetWavePlans tenant (waDB st) of
              Inl e \<Rightarrow> (Inl internalError, st)
            | Inr plans \<Rightarrow> (Inr (WavePlansList plans ReadinessChecklist), st))
      else if httpMethod = ''POST''
      then (case body of
              Inl e \<Rightarrow> (Inl (400, ''invalid JSON''), st)
            | Inr plan \<Rightarrow>
                (case WavePlanner.Create tenant (wnNow n) (wnUUID n) plan (waveUser who) (waDB st) of
                   (Some e, p, db) \<Rightarrow> (Inl (422, waveErrorText (wnQuote n) e), st\<lparr>waDB := db\<rparr>)
                 | (None, p, db) \<Rightarrow>
                     (Inr (WaveCreated p), waveAudit n (waveUser who) ''WAVE_PLAN_CREATE''
                        (''plan_id='' @ PlanID p @ '' name='' @ wpName p) (st\<lparr>waDB := db\<rparr>))))
      else (Inl (405, []), st))"

text \<open>\<open>planID\<close> is what follows \<open>/api/waves/\<close> in the path.\<close>

definition wavePlanByID :: "WaveApiEnv \<Rightarrow> string \<Rightarrow> caller \<Rightarrow> string \<Rightarrow> string result \<Rightarrow> WaveApiState
    \<Rightarrow> waveAnswer answer \<times> WaveApiState" where
  "wavePlanByID n httpMethod who planID body st =
     (let tenant = TenantFromContext who in
      if planID = [] then (Inl (400, ''plan_id is required''), st)
      else if planID = ''graph''
      then (if httpMethod \<noteq> ''GET'' then (Inl (405, []), st)
            else case Graph tenant (waDB st) of
              Inl e \<Rightarrow> (Inl internalError, st)
            | Inr g \<Rightarrow> (case Budget tenant (waDB st) of
                           Inl e \<Rightarrow> (Inl internalError, st)
                         | Inr b \<Rightarrow> (Inr (WaveGraphBudget g b), st)))
      else if httpMethod = ''PUT''
      then (case body of
              Inl e \<Rightarrow> (Inl (400, ''invalid JSON''), st)
            | Inr status \<Rightarrow>
                (case UpdateStatus tenant (wnNow n) planID status (waDB st) of
                   (Some e, db) \<Rightarrow> (Inl (422, waveErrorText (wnQuote n) e), st\<lparr>waDB := db\<rparr>)
                 | (None, db) \<Rightarrow>
                     (Inr (WaveStatus status planID), waveAudit n (waveUser who) ''WAVE_PLAN_STATUS''
                        (''plan_id='' @ planID @ '' status='' @ status) (st\<lparr>waDB := db\<rparr>))))
      else if httpMethod = ''DELETE''
      then (case Delete tenant planID (waDB st) of
              (Some e, db) \<Rightarrow> (Inl (422, waveErrorText (wnQuote n) e), st\<lparr>waDB := db\<rparr>)
            | (None, db) \<Rightarrow>
                (Inr WaveDeleted, waveAudit n (waveUser who) ''WAVE_PLAN_DELETE'' (''plan_id='' @ planID) (st\<lparr>waDB := db\<rparr>)))
      else (Inl (405, []), st))"

subsection \<open>Requests\<close>

datatype waveRequest =
  OnPlans string caller "WavePlan result"
| OnPlan string caller string "string result"

fun waveStep :: "WaveApiEnv \<Rightarrow> waveRequest \<Rightarrow> WaveApiState \<Rightarrow> WaveApiState" where
  "waveStep n (OnPlans m who body) st = snd (wavePlans n m who body (st\<lparr>waDB := (waDB st)\<lparr>wdbFault := wnFault n\<rparr>\<rparr>))"
| "waveStep n (OnPlan m who i body) st = snd (wavePlanByID n m who i body (st\<lparr>waDB := (waDB st)\<lparr>wdbFault := wnFault n\<rparr>\<rparr>))"

fun waveRun :: "(WaveApiEnv \<times> waveRequest) list \<Rightarrow> WaveApiState \<Rightarrow> WaveApiState" where
  "waveRun [] st = st"
| "waveRun ((n, r) # rs) st = waveRun rs (waveStep n r st)"

text \<open>The log read back: the status of a plan after the rows so far.\<close>

definition readRow :: "string \<Rightarrow> AuditLog \<Rightarrow> string option \<Rightarrow> string option" where
  "readRow i r s =
     (if Action r = ''WAVE_PLAN_CREATE'' \<and> prefix (''plan_id='' @ i @ '' name='') (Details r) then Some StatusPlanned
      else if Action r = ''WAVE_PLAN_STATUS'' \<and> prefix (''plan_id='' @ i @ '' status='') (Details r)
      then Some (drop (length (''plan_id='' @ i @ '' status='')) (Details r))
      else if Action r = ''WAVE_PLAN_DELETE'' \<and> Details r = ''plan_id='' @ i then None
      else s)"

definition loggedStatus :: "string \<Rightarrow> AuditLog list \<Rightarrow> string option" where
  "loggedStatus i rows = fold (readRow i) rows None"

definition planStatus :: "string \<Rightarrow> WaveApiState \<Rightarrow> string option" where
  "planStatus i st = map_option wpStatus (tblFind PlanID i (wdbRows (waDB st)))"

end
