(* ===== verification/WaveApiProofs.thy ===== *)
theory WaveApiProofs
  imports WaveApi
begin

text \<open>
  The wave table and the audit log tell the same story: who changed a plan is logged, and the log read back
  gives the status of every plan.
\<close>

lemma readRow_append: "loggedStatus i (rows @ [r]) = readRow i r (loggedStatus i rows)"
  by (simp add: loggedStatus_def)

text \<open>Identifiers have no space, so an entry is about one plan only.\<close>

lemma prefix_id:
  assumes "CHR '' '' \<notin> set i" and "CHR '' '' \<notin> set j"
  shows "prefix (''plan_id='' @ i @ CHR '' '' # w) (''plan_id='' @ j @ CHR '' '' # v) \<longleftrightarrow> i = j \<and> prefix w v"
proof
  assume "prefix (''plan_id='' @ i @ CHR '' '' # w) (''plan_id='' @ j @ CHR '' '' # v)"
  then obtain t where "j @ CHR '' '' # v = i @ CHR '' '' # (w @ t)" by (auto simp: prefix_def)
  with assms show "i = j \<and> prefix w v" by (metis append_sep_inj prefixI)
qed (auto simp: prefix_def)

definition logRow :: "string \<Rightarrow> string \<Rightarrow> AuditLog \<Rightarrow> bool" where
  "logRow action details r \<longleftrightarrow> Action r = action \<and> Details r = details"

lemma readRow_create:
  assumes "logRow ''WAVE_PLAN_CREATE'' (''plan_id='' @ j @ '' name='' @ nm) r" and "CHR '' '' \<notin> set i" and "CHR '' '' \<notin> set j"
  shows "readRow i r s = (if i = j then Some StatusPlanned else s)"
  using assms prefix_id [OF assms(2,3), of "''name=''" "''name='' @ nm"] by (auto simp: logRow_def readRow_def)

lemma readRow_status:
  assumes "logRow ''WAVE_PLAN_STATUS'' (''plan_id='' @ j @ '' status='' @ t) r" and "CHR '' '' \<notin> set i" and "CHR '' '' \<notin> set j"
  shows "readRow i r s = (if i = j then Some t else s)"
  using assms prefix_id [OF assms(2,3), of "''status=''" "''status='' @ t"] by (auto simp: logRow_def readRow_def)

lemma readRow_delete:
  "logRow ''WAVE_PLAN_DELETE'' (''plan_id='' @ j) r \<Longrightarrow> readRow i r s = (if i = j then None else s)"
  by (auto simp: logRow_def readRow_def)

lemma waveAudit_rows:
  assumes "auditFault (waAudit st) = None" and "wnLogID n \<notin> LogID ` set (auditRows (waAudit st))"
  shows "\<exists>r. auditRows (waAudit (waveAudit n user action details st)) = auditRows (waAudit st) @ [r] \<and>
    LogID r = wnLogID n \<and> alUsername r = user \<and> logRow action details r"
  using assms by (simp add: waveAudit_def InsertAuditLog_def Let_def logRow_def)

lemma waveAudit_db [simp]: "waDB (waveAudit n user action details st) = waDB st"
  by (simp add: waveAudit_def)

definition spaceless :: "string \<Rightarrow> bool" where
  "spaceless i \<longleftrightarrow> CHR '' '' \<notin> set i"

text \<open>Identifiers so far are in \<open>U\<close>, those of log rows in \<open>L\<close>.\<close>

definition sameStory :: "string set \<Rightarrow> string set \<Rightarrow> WaveApiState \<Rightarrow> bool" where
  "sameStory U L st \<longleftrightarrow> auditFault (waAudit st) = None \<and> LogID ` set (auditRows (waAudit st)) \<subseteq> L \<and>
     keyUnique PlanID (wdbRows (waDB st)) \<and> PlanID ` set (wdbRows (waDB st)) \<subseteq> U \<and> (\<forall>u \<in> U. spaceless u) \<and>
     (\<forall>i. spaceless i \<longrightarrow> loggedStatus i (auditRows (waAudit st)) = planStatus i st)"

lemma sameStory_weaken:
  assumes "sameStory U L st" and "spaceless u"
  shows "sameStory (insert u U) (insert l L) st"
  using assms unfolding sameStory_def by blast

lemma sameStory_fault: "sameStory U L (st\<lparr>waDB := waDB st\<lparr>wdbFault := f\<rparr>\<rparr>) \<longleftrightarrow> sameStory U L st"
  by (simp add: sameStory_def planStatus_def)

lemma sameStory_logged:
  assumes "sameStory U L st" and "spaceless u" and "wnLogID n \<notin> L"
    and "keyUnique PlanID (wdbRows db)" and "PlanID ` set (wdbRows db) \<subseteq> insert u U"
    and "\<And>i r. spaceless i \<Longrightarrow> logRow action details r \<Longrightarrow>
      readRow i r (planStatus i st) = map_option wpStatus (tblFind PlanID i (wdbRows db))"
  shows "sameStory (insert u U) (insert (wnLogID n) L) (waveAudit n user action details (st\<lparr>waDB := db\<rparr>))"
proof -
  have f: "auditFault (waAudit (st\<lparr>waDB := db\<rparr>)) = None" "wnLogID n \<notin> LogID ` set (auditRows (waAudit (st\<lparr>waDB := db\<rparr>)))"
    using assms(1,3) by (auto simp: sameStory_def)
  from waveAudit_rows [OF f, of user action details] obtain r where
    r: "auditRows (waAudit (waveAudit n user action details (st\<lparr>waDB := db\<rparr>))) = auditRows (waAudit st) @ [r]"
      "LogID r = wnLogID n" "logRow action details r" by auto
  have "auditFault (waAudit (waveAudit n user action details (st\<lparr>waDB := db\<rparr>))) = None"
    using f(1) by (simp add: waveAudit_def InsertAuditLog_def Let_def)
  then show ?thesis
    using assms(1,2,4,5) r assms(6) [OF _ r(3)]
    by (auto simp: sameStory_def readRow_append planStatus_def)
qed

lemma find_insert: "k \<notin> key ` set t \<Longrightarrow> key r = k \<Longrightarrow>
  tblFind key i (tblInsert key r t) = (if i = k then Some r else tblFind key i t)"
  by (induction t) (auto simp: tblFind_def tblInsert_def)

lemma find_deleted_plan: "tblFind key i (tblDelete key k t) = (if i = k then None else tblFind key i t)"
  by (induction t) (auto simp: tblFind_def tblDelete_def)

lemma story_create:
  assumes "sameStory U L st" and "Create tenant now (wnUUID n) plan who (waDB st) = (None, p, db)"
    and "wnUUID n \<notin> U" and "wnUUID n \<noteq> []" and "spaceless (wnUUID n)" and "wnLogID n \<notin> L"
  shows "sameStory (insert (wnUUID n) U) (insert (wnLogID n) L)
    (waveAudit n user ''WAVE_PLAN_CREATE'' (''plan_id='' @ PlanID p @ '' name='' @ wpName p) (st\<lparr>waDB := db\<rparr>))"
proof (rule sameStory_logged [OF assms(1,5,6)])
  note c = Create_ok [OF assms(2,4)]
  have new: "wnUUID n \<notin> PlanID ` set (wdbRows (waDB st))" using assms(1,3) by (auto simp: sameStory_def)
  show "keyUnique PlanID (wdbRows db)" using c assms(1) by (simp add: sameStory_def)
  show "PlanID ` set (wdbRows db) \<subseteq> insert (wnUUID n) U" using c assms(1) by (auto simp: sameStory_def set_tblInsert)
  fix i r assume "spaceless i" and "logRow ''WAVE_PLAN_CREATE'' (''plan_id='' @ PlanID p @ '' name='' @ wpName p) r"
  with assms(5) readRow_create [of "PlanID p" "wpName p" r i] c find_insert [OF new, of p i]
  show "readRow i r (planStatus i st) = map_option wpStatus (tblFind PlanID i (wdbRows db))"
    by (auto simp: spaceless_def planStatus_def)
qed

lemma story_update:
  assumes "sameStory U L st" and "UpdateStatus tenant now j s (waDB st) = (None, db)"
    and "spaceless u" and "wnLogID n \<notin> L"
  shows "sameStory (insert u U) (insert (wnLogID n) L)
    (waveAudit n user ''WAVE_PLAN_STATUS'' (''plan_id='' @ j @ '' status='' @ s) (st\<lparr>waDB := db\<rparr>))"
proof (rule sameStory_logged [OF assms(1,3,4)])
  obtain q where q: "q \<in> set (wdbRows (waDB st))" "PlanID q = j" and
    db: "db = waDB st\<lparr>wdbRows := tblUpdate PlanID j (setWaveColumns now (q\<lparr>wpStatus := s\<rparr>)) (wdbRows (waDB st))\<rparr>"
    using assms(2) by (rule UpdateStatus_ok)
  show "keyUnique PlanID (wdbRows db)" using assms(1) by (simp add: sameStory_def db wave_row.unique)
  show "PlanID ` set (wdbRows db) \<subseteq> insert u U" using assms(1) by (auto simp: sameStory_def db wave_row.keys)
  fix i r assume "spaceless i" and "logRow ''WAVE_PLAN_STATUS'' (''plan_id='' @ j @ '' status='' @ s) r"
  moreover have "spaceless j" using assms(1) q by (auto simp: sameStory_def)
  moreover have "tblFind PlanID j (wdbRows (waDB st)) = Some q"
    using tblFind_unique [of PlanID "wdbRows (waDB st)" q] assms(1) q by (auto simp: sameStory_def)
  ultimately show "readRow i r (planStatus i st) = map_option wpStatus (tblFind PlanID i (wdbRows db))"
    using readRow_status [of j s r i]
    by (auto simp: spaceless_def planStatus_def db wave_row.find_same wave_row.find_other setWaveColumns_def)
qed

lemma story_delete:
  assumes "sameStory U L st" and "Delete tenant j (waDB st) = (None, db)" and "spaceless u" and "wnLogID n \<notin> L"
  shows "sameStory (insert u U) (insert (wnLogID n) L)
    (waveAudit n user ''WAVE_PLAN_DELETE'' (''plan_id='' @ j) (st\<lparr>waDB := db\<rparr>))"
proof (rule sameStory_logged [OF assms(1,3,4)])
  have db: "db = waDB st\<lparr>wdbRows := tblDelete PlanID j (wdbRows (waDB st))\<rparr>"
    using assms(2) by (rule Delete_ok)
  show "keyUnique PlanID (wdbRows db)" using assms(1) by (simp add: sameStory_def db)
  show "PlanID ` set (wdbRows db) \<subseteq> insert u U" using assms(1) by (auto simp: sameStory_def db set_tblDelete)
  fix i r assume "spaceless i" and "logRow ''WAVE_PLAN_DELETE'' (''plan_id='' @ j) r"
  then show "readRow i r (planStatus i st) = map_option wpStatus (tblFind PlanID i (wdbRows db))"
    using readRow_delete [of j r i] by (simp add: planStatus_def db find_deleted_plan)
qed

lemma refused_db:
  "Create tenant now u plan who db = (Some e, p, db') \<Longrightarrow> db' = db"
  "UpdateStatus tenant now i s db = (Some e, db') \<Longrightarrow> db' = db"
  "Delete tenant i db = (Some e, db') \<Longrightarrow> db' = db"
  using Create_refused [of tenant now u plan who db e] UpdateStatus_refused [of tenant now i s db e]
    Delete_refused [of tenant i db e] by simp_all

lemma story_step:
  assumes "sameStory U L st" and "wnUUID n \<notin> U" and "wnUUID n \<noteq> []" and "spaceless (wnUUID n)" and "wnLogID n \<notin> L"
  shows "sameStory (insert (wnUUID n) U) (insert (wnLogID n) L) (waveStep n r st)"
proof -
  let ?st = "st\<lparr>waDB := waDB st\<lparr>wdbFault := wnFault n\<rparr>\<rparr>"
  have start: "sameStory U L ?st" using assms(1) by (simp add: sameStory_fault)
  have kept: "sameStory (insert (wnUUID n) U) (insert (wnLogID n) L) ?st" using start assms(4) by (rule sameStory_weaken)
  show ?thesis
  proof (cases r)
    case (OnPlans m who body)
    then show ?thesis
      using kept story_create [OF start _ assms(2-5)]
      by (auto simp: wavePlans_def Let_def dest!: refused_db split: sum.split prod.split option.split)
  next
    case (OnPlan m who i body)
    then show ?thesis
      using kept story_update [OF start _ assms(4,5)] story_delete [OF start _ assms(4,5)]
      by (auto simp: wavePlanByID_def Let_def dest!: refused_db split: sum.split prod.split option.split)
  qed
qed

lemma story_run:
  assumes "sameStory U L st" and "distinct (map (wnUUID \<circ> fst) rs)" and "distinct (map (wnLogID \<circ> fst) rs)"
    and "wnUUID ` fst ` set rs \<inter> U = {}" and "wnLogID ` fst ` set rs \<inter> L = {}"
    and "\<forall>n \<in> fst ` set rs. wnUUID n \<noteq> [] \<and> spaceless (wnUUID n)"
  shows "\<exists>U L. sameStory U L (waveRun rs st)"
  using assms
proof (induction rs arbitrary: U L st)
  case Nil
  then show ?case by auto
next
  case (Cons x rs)
  obtain n r where x: "x = (n, r)" by fastforce
  have "sameStory (insert (wnUUID n) U) (insert (wnLogID n) L) (waveStep n r st)"
    using Cons.prems by (intro story_step) (auto simp: x)
  from Cons.IH [OF this] Cons.prems show ?case by (auto simp: x image_iff)
qed

definition noWaves :: WaveApiState where
  "noWaves = \<lparr>waDB = \<lparr>wdbRows = [], wdbFault = \<lambda>_. None\<rparr>, waAudit = \<lparr>auditRows = [], auditFault = None\<rparr>\<rparr>"

text \<open>C35: The audit log read back gives the status of every wave plan, and None for those deleted or never created,
  after any requests of any callers with any database errors on the plans, while identifiers are fresh and the log
  takes its rows.\<close>

theorem wave_log_replays:
  assumes "distinct (map (wnUUID \<circ> fst) rs)" and "distinct (map (wnLogID \<circ> fst) rs)"
    and "\<forall>n \<in> fst ` set rs. wnUUID n \<noteq> [] \<and> spaceless (wnUUID n)" and "spaceless i"
  shows "loggedStatus i (auditRows (waAudit (waveRun rs noWaves))) = planStatus i (waveRun rs noWaves)"
proof -
  have "sameStory {} {} noWaves" by (simp add: sameStory_def noWaves_def planStatus_def loggedStatus_def tblFind_def)
  from story_run [OF this assms(1,2) _ _ assms(3)] assms(4) show ?thesis by (auto simp: sameStory_def)
qed

definition demo_wave_env :: "string \<Rightarrow> string \<Rightarrow> WaveApiEnv" where
  "demo_wave_env u l = \<lparr>wnNow = 1, wnUUID = u, wnLogID = l, wnSha = (\<lambda>s. ''h''), wnQuote = id, wnFault = \<lambda>_. None\<rparr>"

definition demo_wave_requests :: "(WaveApiEnv \<times> waveRequest) list" where
  "demo_wave_requests =
    [(demo_wave_env ''a'' ''1'', OnPlans ''POST'' (Some (''ann'', ''admin'', ''acme'')) (Inr (mk_plan [] 1 []\<lparr>wpName := ''A''\<rparr>))),
     (demo_wave_env ''b'' ''2'', OnPlan ''PUT'' (Some (''ann'', ''admin'', ''acme'')) ''a'' (Inr ''active''))]"

theorem wave_log_replays_witness:
  "loggedStatus ''a'' (auditRows (waAudit (waveRun demo_wave_requests noWaves))) = Some ''active''"
proof -
  have "loggedStatus ''a'' (auditRows (waAudit (waveRun demo_wave_requests noWaves))) =
      planStatus ''a'' (waveRun demo_wave_requests noWaves)"
    by (rule wave_log_replays) (simp_all add: demo_wave_requests_def demo_wave_env_def spaceless_def)
  also have "\<dots> = Some ''active''" by code_simp
  finally show ?thesis .
qed

end
