(* ===== verification/HSM.thy ===== *)
theory HSM
  imports CommandApi
begin

text \<open>
  The key stores of \<^verbatim>\<open>server/internal/hsm/\<close>: the software store (\<^verbatim>\<open>softhsm.go\<close>), the client of a PKCS#11
  token (\<^verbatim>\<open>pkcs11_cgo.go\<close>), the choice between them (\<^verbatim>\<open>backend.go\<close>) and the handlers of
  \<^verbatim>\<open>httpapi/server.go\<close> on the chosen one. The signature schemes of circl and the module behind the
  \<open>pkcs11\<close> package are parameters: a record of functions each, over a token state that only the module knows.
  \<open>%q\<close> is a parameter too. Each operation holds the mutex, so it is one step.
\<close>

subsection \<open>Faults\<close>

text \<open>An error of Go, or a panic: a write to a map or a call through a pointer that \<open>Close\<close> has set to nil.\<close>

datatype hsmFault = Failed string | Panicked

type_synonym 'a hres = "hsmFault + 'a"

definition wrapE :: "string \<Rightarrow> 'a hres \<Rightarrow> 'a hres" where
  "wrapE pre r = (case r of Inl (Failed e) \<Rightarrow> Inl (Failed (pre @ e)) | _ \<Rightarrow> r)"

definition bindH :: "'a hres \<times> 's \<Rightarrow> ('a \<Rightarrow> 's \<Rightarrow> 'b hres \<times> 's) \<Rightarrow> 'b hres \<times> 's" where
  "bindH p f = (case fst p of Inl e \<Rightarrow> (Inl e, snd p) | Inr a \<Rightarrow> f a (snd p))"

lemma bindH_simps [simp]: "bindH (Inl e, s) f = (Inl e, s)" "bindH (Inr a, s) f = f a s"
  by (simp_all add: bindH_def)

record KeyInfo =
  kiKeyID :: string
  kiLabel :: string
  kiAlgorithm :: string
  kiKeySize :: int
  kiIsPQC :: bool
  kiCreatedAt :: int

definition acceptedPQCSignatureAlgs :: "string list" where
  "acceptedPQCSignatureAlgs =
     [''ML-DSA-44'', ''ML-DSA-65'', ''ML-DSA-87'', ''SLH-DSA-SHA2-128S'', ''SLH-DSA-SHA2-128F'',
      ''SLH-DSA-SHA2-192S'', ''SLH-DSA-SHA2-256S'']"

definition IsAcceptedPQCSignatureAlg :: "string \<Rightarrow> bool" where
  "IsAcceptedPQCSignatureAlg alg \<longleftrightarrow> alg \<in> set acceptedPQCSignatureAlgs"

subsection \<open>The software store\<close>

record Schemes =
  scAvailable :: "string \<Rightarrow> bool"
  scPublicKeySize :: "string \<Rightarrow> int"
  scSign :: "string \<Rightarrow> string \<Rightarrow> string \<Rightarrow> string"
  scVerify :: "string \<Rightarrow> string \<Rightarrow> string \<Rightarrow> string \<Rightarrow> bool"
  scMarshal :: "string \<Rightarrow> string \<Rightarrow> string result"
  scQuote :: "string \<Rightarrow> string"

text \<open>\<open>skAlg\<close> names the scheme.\<close>

record softKey =
  skInfo :: KeyInfo
  skAlg :: string
  skPriv :: string
  skPub :: string

record SoftHSM2 =
  shKeys :: "string \<rightharpoonup> softKey"
  shByLabel :: "string \<rightharpoonup> string"
  shMacKeys :: "string \<rightharpoonup> string"
  shOpen :: bool

text \<open>What a generation draws: the key pair or the error of the scheme, the UUID and the clock, in seconds.\<close>

record KeyDraw =
  kdPair :: "(string \<times> string) result"
  kdUUID :: string
  kdNow :: int

definition NewSoftHSM2 :: SoftHSM2 where
  "NewSoftHSM2 = \<lparr>shKeys = Map.empty, shByLabel = Map.empty, shMacKeys = Map.empty, shOpen = True\<rparr>"

definition soft_ListKeys :: "SoftHSM2 \<Rightarrow> KeyInfo set" where
  "soft_ListKeys s = skInfo ` ran (shKeys s)"

definition soft_GenerateKeyPair :: "Schemes \<Rightarrow> KeyDraw \<Rightarrow> string \<Rightarrow> SoftHSM2 \<Rightarrow> string hres \<times> SoftHSM2" where
  "soft_GenerateKeyPair sc d algorithm s =
     (if \<not> IsAcceptedPQCSignatureAlg algorithm
      then (Inl (Failed (''softhsm: refusing to generate a non-PQC signing key '' @ scQuote sc algorithm @
              ''; Janus signs only with ML-DSA/SLH-DSA (FIPS 204/205)'')), s)
      else if \<not> scAvailable sc algorithm
      then (Inl (Failed (''softhsm: PQC algorithm '' @ scQuote sc algorithm @ '' is not available in this build'')), s)
      else case kdPair d of
        Inl e \<Rightarrow> (Inl (Failed (''softhsm: generate '' @ algorithm @ '' key: '' @ e)), s)
      | Inr (pub, priv) \<Rightarrow>
          if \<not> shOpen s then (Inl Panicked, s)
          else (Inr (kdUUID d), s\<lparr>shKeys := (shKeys s)(kdUUID d \<mapsto>
                 \<lparr>skInfo = \<lparr>kiKeyID = kdUUID d, kiLabel = ''janus-soft-'' @ algorithm @ ''-'' @ decInt (kdNow d),
                    kiAlgorithm = algorithm, kiKeySize = scPublicKeySize sc algorithm * 8, kiIsPQC = True,
                    kiCreatedAt = kdNow d\<rparr>,
                  skAlg = algorithm, skPriv = priv, skPub = pub\<rparr>)\<rparr>))"

definition softNotFound :: "string \<Rightarrow> hsmFault" where
  "softNotFound keyID = Failed (''softhsm: key '' @ keyID @ '' not found'')"

definition soft_Sign :: "Schemes \<Rightarrow> string \<Rightarrow> string \<Rightarrow> SoftHSM2 \<Rightarrow> string hres" where
  "soft_Sign sc keyID msg s =
     (case shKeys s keyID of None \<Rightarrow> Inl (softNotFound keyID) | Some k \<Rightarrow> Inr (scSign sc (skAlg k) (skPriv k) msg))"

definition soft_Verify :: "Schemes \<Rightarrow> string \<Rightarrow> string \<Rightarrow> string \<Rightarrow> SoftHSM2 \<Rightarrow> bool hres" where
  "soft_Verify sc keyID msg sig s =
     (case shKeys s keyID of None \<Rightarrow> Inl (softNotFound keyID) | Some k \<Rightarrow> Inr (scVerify sc (skAlg k) (skPub k) msg sig))"

definition soft_GetKeyInfo :: "string \<Rightarrow> SoftHSM2 \<Rightarrow> KeyInfo hres" where
  "soft_GetKeyInfo keyID s = (case shKeys s keyID of None \<Rightarrow> Inl (softNotFound keyID) | Some k \<Rightarrow> Inr (skInfo k))"

definition soft_EnsureMACKey :: "string \<Rightarrow> string \<Rightarrow> SoftHSM2 \<Rightarrow> unit hres \<times> SoftHSM2" where
  "soft_EnsureMACKey label keyMaterial s =
     (if keyMaterial = [] then (Inl (Failed ''softhsm: MAC key material is empty''), s)
      else if shMacKeys s label \<noteq> None then (Inr (), s)
      else if \<not> shOpen s then (Inl Panicked, s)
      else (Inr (), s\<lparr>shMacKeys := (shMacKeys s)(label \<mapsto> keyMaterial)\<rparr>))"

definition soft_MAC :: "(string \<Rightarrow> string \<Rightarrow> string) \<Rightarrow> Schemes \<Rightarrow> string \<Rightarrow> string \<Rightarrow> SoftHSM2 \<Rightarrow> string hres" where
  "soft_MAC hmac sc label msg s =
     (case shMacKeys s label of
        None \<Rightarrow> Inl (Failed (''softhsm: MAC key '' @ scQuote sc label @ '' not found''))
      | Some secret \<Rightarrow> Inr (hmac secret msg))"

definition soft_EnsureMLDSAKey :: "Schemes \<Rightarrow> KeyDraw \<Rightarrow> string \<Rightarrow> string \<Rightarrow> SoftHSM2 \<Rightarrow> string hres \<times> SoftHSM2" where
  "soft_EnsureMLDSAKey sc d label algorithm s =
     (case shByLabel s label of
        Some i \<Rightarrow> (Inr i, s)
      | None \<Rightarrow> bindH (soft_GenerateKeyPair sc d algorithm s) (\<lambda>keyID s1.
          (Inr keyID, s1\<lparr>shByLabel := (shByLabel s1)(label \<mapsto> keyID),
             shKeys := (case shKeys s1 keyID of None \<Rightarrow> shKeys s1
               | Some k \<Rightarrow> (shKeys s1)(keyID \<mapsto> k\<lparr>skInfo := (skInfo k)\<lparr>kiLabel := label\<rparr>\<rparr>))\<rparr>)))"

definition soft_PublicKey :: "Schemes \<Rightarrow> string \<Rightarrow> SoftHSM2 \<Rightarrow> string hres" where
  "soft_PublicKey sc keyID s =
     (case shKeys s keyID of None \<Rightarrow> Inl (softNotFound keyID)
      | Some k \<Rightarrow> map_sum Failed id (scMarshal sc (skAlg k) (skPub k)))"

definition soft_Close :: "SoftHSM2 \<Rightarrow> SoftHSM2" where
  "soft_Close s = \<lparr>shKeys = Map.empty, shByLabel = Map.empty, shMacKeys = Map.empty, shOpen = False\<rparr>"

end
