(* ===== verification/Pkcs11.thy ===== *)
theory Pkcs11
  imports HSM
begin

text \<open>
  The client of a PKCS#11 token, \<^verbatim>\<open>hsm/pkcs11_cgo.go\<close>. The package \<open>pkcs11\<close> and the module it loads are a record
  of functions over the state of the token; every call goes through \<open>prim\<close>, which panics after \<open>Close\<close> and
  notes the call in a log. Handles are numbers, 0 is none.
\<close>

subsection \<open>The module\<close>

datatype objectClass = CKO_PUBLIC_KEY | CKO_PRIVATE_KEY | CKO_SECRET_KEY

datatype mechanism = CKM_ML_DSA_KEY_PAIR_GEN | CKM_ML_DSA | CKM_SHA256_HMAC

datatype attribute =
  CKA_CLASS objectClass
| CKA_KEY_TYPE string
| CKA_TOKEN bool
| CKA_PRIVATE bool
| CKA_SIGN bool
| CKA_VERIFY bool
| CKA_LABEL string
| CKA_ID string
| CKA_VALUE string
| CKA_PARAMETER_SET nat

datatype attributeName = LABEL | VALUE

record TokenInfo =
  tiLabel :: string
  tiManufacturerID :: string
  tiModel :: string
  tiSerialNumber :: string

record 't Module =
  mdQuote :: "string \<Rightarrow> string"
  mdNew :: "string \<Rightarrow> bool"
  mdInitialize :: "'t \<Rightarrow> unit result \<times> 't"
  mdFinalize :: "'t \<Rightarrow> unit result \<times> 't"
  mdDestroy :: "'t \<Rightarrow> unit result \<times> 't"
  mdGetSlotList :: "'t \<Rightarrow> nat list result \<times> 't"
  mdGetTokenInfo :: "nat \<Rightarrow> 't \<Rightarrow> TokenInfo result \<times> 't"
  mdOpenSession :: "nat \<Rightarrow> 't \<Rightarrow> nat result \<times> 't"
  mdLogin :: "nat \<Rightarrow> string \<Rightarrow> 't \<Rightarrow> unit result \<times> 't"
  mdLogout :: "nat \<Rightarrow> 't \<Rightarrow> unit result \<times> 't"
  mdCloseSession :: "nat \<Rightarrow> 't \<Rightarrow> unit result \<times> 't"
  mdFindObjectsInit :: "nat \<Rightarrow> attribute list \<Rightarrow> 't \<Rightarrow> unit result \<times> 't"
  mdFindObjects :: "nat \<Rightarrow> nat \<Rightarrow> 't \<Rightarrow> nat list result \<times> 't"
  mdFindObjectsFinal :: "nat \<Rightarrow> 't \<Rightarrow> unit result \<times> 't"
  mdGenerateKeyPair :: "nat \<Rightarrow> mechanism \<Rightarrow> attribute list \<Rightarrow> attribute list \<Rightarrow> 't \<Rightarrow> unit result \<times> 't"
  mdCreateObject :: "nat \<Rightarrow> attribute list \<Rightarrow> 't \<Rightarrow> unit result \<times> 't"
  mdDestroyObject :: "nat \<Rightarrow> nat \<Rightarrow> 't \<Rightarrow> unit result \<times> 't"
  mdGetAttributeValue :: "nat \<Rightarrow> nat \<Rightarrow> attributeName \<Rightarrow> 't \<Rightarrow> string list result \<times> 't"
  mdSignInit :: "nat \<Rightarrow> mechanism \<Rightarrow> nat \<Rightarrow> 't \<Rightarrow> unit result \<times> 't"
  mdSign :: "nat \<Rightarrow> string \<Rightarrow> 't \<Rightarrow> string result \<times> 't"
  mdVerifyInit :: "nat \<Rightarrow> mechanism \<Rightarrow> nat \<Rightarrow> 't \<Rightarrow> unit result \<times> 't"
  mdVerify :: "nat \<Rightarrow> string \<Rightarrow> string \<Rightarrow> 't \<Rightarrow> unit result \<times> 't"

datatype moduleCall =
  Initialize | Finalize | Destroy | GetSlotList | GetTokenInfo nat | OpenSession nat | Login nat | Logout nat
| CloseSession nat | FindObjectsInit "attribute list" | FindObjects | FindObjectsFinal
| GenerateKeyPair mechanism "attribute list" "attribute list" | CreateObject "attribute list" | DestroyObject nat
| GetAttributeValue nat attributeName | SignInit mechanism nat | Sign string | VerifyInit mechanism nat
| Verify string string

text \<open>\<open>pcLive\<close>: the context pointer is not nil.\<close>

record 't PKCS11Client =
  pcToken :: 't
  pcLog :: "moduleCall list"
  pcLive :: bool
  pcSession :: nat

definition prim :: "moduleCall \<Rightarrow> ('t \<Rightarrow> 'a result \<times> 't) \<Rightarrow> 't PKCS11Client \<Rightarrow> 'a hres \<times> 't PKCS11Client" where
  "prim c f p =
     (if \<not> pcLive p then (Inl Panicked, p)
      else (map_sum Failed id (fst (f (pcToken p))), p\<lparr>pcToken := snd (f (pcToken p)), pcLog := pcLog p @ [c]\<rparr>))"

text \<open>A call whose result is dropped.\<close>

definition drop_result :: "'a hres \<times> 's \<Rightarrow> 's" where
  "drop_result r = snd r"

definition prefixed :: "string \<Rightarrow> 'a hres \<times> 's \<Rightarrow> 'a hres \<times> 's" where
  "prefixed pre r = (wrapE pre (fst r), snd r)"

subsection \<open>Slots\<close>

datatype Mode = ModeDisabled | ModeSoftware | ModePKCS11 | OtherMode string

record HSMConfig =
  hcMode :: Mode
  hcModulePath :: string
  hcPin :: string
  hcSlotID :: int
  hcSlotIndex :: int
  hcLabel :: string
  hcSignCommands :: bool
  hcCommandKeyLabel :: string

fun labelledSlot :: "'t Module \<Rightarrow> string \<Rightarrow> nat list \<Rightarrow> 't PKCS11Client \<Rightarrow> nat option \<times> 't PKCS11Client" where
  "labelledSlot x label [] p = (None, p)"
| "labelledSlot x label (s # ss) p =
     (case prim (GetTokenInfo s) (mdGetTokenInfo x s) p of
        (Inr ti, p1) \<Rightarrow> if tiLabel ti = label then (Some s, p1) else labelledSlot x label ss p1
      | (Inl e, p1) \<Rightarrow> labelledSlot x label ss p1)"

text \<open>\<open>uint(cfg.SlotID)\<close> is the number modulo \<open>2^64\<close>.\<close>

definition findSlot :: "'t Module \<Rightarrow> HSMConfig \<Rightarrow> 't PKCS11Client \<Rightarrow> nat hres \<times> 't PKCS11Client" where
  "findSlot x cfg p =
     bindH (prefixed ''GetSlotList: '' (prim GetSlotList (mdGetSlotList x) p)) (\<lambda>slots p1.
       if hcLabel cfg \<noteq> []
       then (case labelledSlot x (hcLabel cfg) slots p1 of
               (Some s, p2) \<Rightarrow> (Inr s, p2)
             | (None, p2) \<Rightarrow> (Inl (Failed (''no initialized token with label '' @ mdQuote x (hcLabel cfg))), p2))
       else if 0 \<le> hcSlotIndex cfg
       then (if int (length slots) \<le> hcSlotIndex cfg
             then (Inl (Failed (''slot index '' @ decInt (hcSlotIndex cfg) @ '' out of range: only '' @
                     decNat (length slots) @ '' token(s) present'')), p1)
             else (Inr (slots ! nat (hcSlotIndex cfg)), p1))
       else if nat (hcSlotID cfg mod 2 ^ 64) \<in> set slots then (Inr (nat (hcSlotID cfg mod 2 ^ 64)), p1)
       else (case slots of s # _ \<Rightarrow> (Inr s, p1)
             | [] \<Rightarrow> (Inl (Failed ''no initialized PKCS#11 token found''), p1)))"

definition release :: "'t Module \<Rightarrow> 't PKCS11Client \<Rightarrow> 't PKCS11Client" where
  "release x p = drop_result (prim Destroy (mdDestroy x) (drop_result (prim Finalize (mdFinalize x) p)))"

definition login :: "'t Module \<Rightarrow> HSMConfig \<Rightarrow> nat \<Rightarrow> 't PKCS11Client \<Rightarrow> unit hres \<times> 't PKCS11Client" where
  "login x cfg session p =
     (if hcPin cfg = [] then (Inr (), p\<lparr>pcSession := session\<rparr>)
      else case prefixed ''Login (check JANUS_HSM_PIN): '' (prim (Login session) (mdLogin x session (hcPin cfg)) p) of
        (Inl e, p1) \<Rightarrow> (Inl e, release x (drop_result (prim (CloseSession session) (mdCloseSession x session) p1)))
      | (Inr _, p1) \<Rightarrow> (Inr (), p1\<lparr>pcSession := session\<rparr>))"

definition newPKCS11 :: "'t Module \<Rightarrow> HSMConfig \<Rightarrow> 't \<Rightarrow> unit hres \<times> 't PKCS11Client" where
  "newPKCS11 x cfg tok =
     (let p = \<lparr>pcToken = tok, pcLog = [], pcLive = True, pcSession = 0\<rparr> in
      if hcModulePath cfg = [] then (Inl (Failed ''JANUS_HSM_MODULE_PATH is required for pkcs11 mode''), p)
      else if \<not> mdNew x (hcModulePath cfg)
      then (Inl (Failed (''could not load PKCS#11 module '' @ mdQuote x (hcModulePath cfg))), p)
      else case prefixed ''C_Initialize: '' (prim Initialize (mdInitialize x) p) of
        (Inl e, p1) \<Rightarrow> (Inl e, drop_result (prim Destroy (mdDestroy x) p1))
      | (Inr _, p1) \<Rightarrow>
          (case findSlot x cfg p1 of
             (Inl e, p2) \<Rightarrow> (Inl e, release x p2)
           | (Inr slot, p2) \<Rightarrow>
               (case prefixed ''OpenSession: '' (prim (OpenSession slot) (mdOpenSession x slot) p2) of
                  (Inl e, p3) \<Rightarrow> (Inl e, release x p3)
                | (Inr session, p3) \<Rightarrow> login x cfg session p3)))"

record SlotDetail =
  sdIndex :: nat
  sdSlotID :: nat
  sdTokenPresent :: bool
  sdInfo :: TokenInfo

definition noInfo :: TokenInfo where
  "noInfo = \<lparr>tiLabel = [], tiManufacturerID = [], tiModel = [], tiSerialNumber = []\<rparr>"

definition trimInfo :: "TokenInfo \<Rightarrow> TokenInfo" where
  "trimInfo ti = \<lparr>tiLabel = trimSpace (tiLabel ti), tiManufacturerID = trimSpace (tiManufacturerID ti),
     tiModel = trimSpace (tiModel ti), tiSerialNumber = trimSpace (tiSerialNumber ti)\<rparr>"

fun slotDetails :: "'t Module \<Rightarrow> nat \<Rightarrow> nat list \<Rightarrow> 't PKCS11Client \<Rightarrow> SlotDetail list \<times> 't PKCS11Client" where
  "slotDetails x i [] p = ([], p)"
| "slotDetails x i (s # ss) p =
     (let (r, p1) = prim (GetTokenInfo s) (mdGetTokenInfo x s) p;
          d = \<lparr>sdIndex = i, sdSlotID = s, sdTokenPresent = True,
               sdInfo = (case r of Inl e \<Rightarrow> noInfo | Inr ti \<Rightarrow> trimInfo ti)\<rparr>;
          (ds, p2) = slotDetails x (i + 1) ss p1
      in (d # ds, p2))"

definition ListSlots :: "'t Module \<Rightarrow> string \<Rightarrow> 't \<Rightarrow> SlotDetail list hres \<times> 't PKCS11Client" where
  "ListSlots x modulePath tok =
     (let p = \<lparr>pcToken = tok, pcLog = [], pcLive = True, pcSession = 0\<rparr> in
      if modulePath = [] then (Inl (Failed ''module path is required''), p)
      else if \<not> mdNew x modulePath
      then (Inl (Failed (''could not load PKCS#11 module '' @ mdQuote x modulePath)), p)
      else case prefixed ''C_Initialize: '' (prim Initialize (mdInitialize x) p) of
        (Inl e, p1) \<Rightarrow> (Inl e, drop_result (prim Destroy (mdDestroy x) p1))
      | (Inr _, p1) \<Rightarrow>
          (case prefixed ''GetSlotList: '' (prim GetSlotList (mdGetSlotList x) p1) of
             (Inl e, p2) \<Rightarrow> (Inl e, release x p2)
           | (Inr slots, p2) \<Rightarrow> (let (ds, p3) = slotDetails x 0 slots p2 in (Inr ds, release x p3))))"

subsection \<open>Objects\<close>

definition findAll :: "'t Module \<Rightarrow> attribute list \<Rightarrow> 't PKCS11Client \<Rightarrow> nat list hres \<times> 't PKCS11Client" where
  "findAll x template p =
     bindH (prefixed ''FindObjectsInit: '' (prim (FindObjectsInit template) (mdFindObjectsInit x (pcSession p) template) p))
       (\<lambda>_ p1.
         let (r, p2) = prim FindObjects (mdFindObjects x (pcSession p) 256) p1;
             (fr, p3) = prim FindObjectsFinal (mdFindObjectsFinal x (pcSession p)) p2
         in prefixed ''FindObjects: '' (case (r, fr) of (Inr hs, Inl e) \<Rightarrow> (Inl e, p3) | _ \<Rightarrow> (r, p3)))"

definition findOne :: "'t Module \<Rightarrow> objectClass \<Rightarrow> string \<Rightarrow> 't PKCS11Client \<Rightarrow> nat hres \<times> 't PKCS11Client" where
  "findOne x class label p =
     bindH (findAll x [CKA_CLASS class, CKA_LABEL label] p) (\<lambda>handles p1.
       case handles of [] \<Rightarrow> (Inl (Failed (''pkcs11: object '' @ mdQuote x label @ '' not found'')), p1)
       | h # _ \<Rightarrow> (Inr h, p1))"

fun destroyAll :: "'t Module \<Rightarrow> nat \<Rightarrow> nat list \<Rightarrow> 't PKCS11Client \<Rightarrow> (nat \<times> hsmFault option) \<times> 't PKCS11Client" where
  "destroyAll x removed [] p = ((removed, None), p)"
| "destroyAll x removed (h # hs) p =
     (case prefixed ''DestroyObject: '' (prim (DestroyObject h) (mdDestroyObject x (pcSession p) h) p) of
        (Inl e, p1) \<Rightarrow> ((removed, Some e), p1)
      | (Inr _, p1) \<Rightarrow> destroyAll x (removed + 1) hs p1)"

definition RemoveKey :: "'t Module \<Rightarrow> string \<Rightarrow> 't PKCS11Client \<Rightarrow> (nat \<times> hsmFault option) \<times> 't PKCS11Client" where
  "RemoveKey x label p =
     (case findAll x [CKA_LABEL label] p of
        (Inl e, p1) \<Rightarrow> ((0, Some e), p1)
      | (Inr handles, p1) \<Rightarrow> destroyAll x 0 handles p1)"

definition paramSetFor :: "'t Module \<Rightarrow> string \<Rightarrow> nat hres" where
  "paramSetFor x algorithm =
     (if algorithm = ''ML-DSA-44'' then Inr 1
      else if algorithm = ''ML-DSA-65'' then Inr 2
      else if algorithm = ''ML-DSA-87'' then Inr 3
      else Inl (Failed (''PKCS#11 backend supports ML-DSA-44/65/87; '' @ mdQuote x algorithm @
             '' is not available (note: RSA/ECDSA are never used)'')))"

definition genMLDSA :: "'t Module \<Rightarrow> string \<Rightarrow> nat \<Rightarrow> 't PKCS11Client \<Rightarrow> unit hres \<times> 't PKCS11Client" where
  "genMLDSA x label paramSet p =
     (let pub = [CKA_TOKEN True, CKA_VERIFY True, CKA_LABEL label, CKA_ID label, CKA_PARAMETER_SET paramSet];
          priv = [CKA_TOKEN True, CKA_PRIVATE True, CKA_SIGN True, CKA_LABEL label, CKA_ID label]
      in prefixed ''pkcs11: ML-DSA key generation failed (does this token support ML-DSA?): ''
           (prim (GenerateKeyPair CKM_ML_DSA_KEY_PAIR_GEN pub priv)
             (mdGenerateKeyPair x (pcSession p) CKM_ML_DSA_KEY_PAIR_GEN pub priv) p))"

definition p11_GenerateKeyPair :: "'t Module \<Rightarrow> string \<Rightarrow> string \<Rightarrow> 't PKCS11Client \<Rightarrow> string hres \<times> 't PKCS11Client" where
  "p11_GenerateKeyPair x freshID algorithm p =
     (if \<not> IsAcceptedPQCSignatureAlg algorithm
      then (Inl (Failed (''pkcs11: refusing non-PQC signing key '' @ mdQuote x algorithm @
              '' (Janus signs only with ML-DSA/SLH-DSA)'')), p)
      else case paramSetFor x algorithm of
        Inl e \<Rightarrow> (Inl e, p)
      | Inr paramSet \<Rightarrow>
          (let label = ''janus-'' @ algorithm @ ''-'' @ freshID
           in bindH (genMLDSA x label paramSet p) (\<lambda>_ p1. (Inr label, p1))))"

text \<open>\<open>h, _ := c.findOne(...)\<close> is 0 for every error.\<close>

definition p11_EnsureMLDSAKey :: "'t Module \<Rightarrow> string \<Rightarrow> string \<Rightarrow> 't PKCS11Client \<Rightarrow> string hres \<times> 't PKCS11Client" where
  "p11_EnsureMLDSAKey x label algorithm p =
     (if \<not> IsAcceptedPQCSignatureAlg algorithm
      then (Inl (Failed (''pkcs11: '' @ mdQuote x algorithm @ '' is not a PQC signature algorithm'')), p)
      else case paramSetFor x algorithm of
        Inl e \<Rightarrow> (Inl e, p)
      | Inr paramSet \<Rightarrow>
          (let (r, p1) = findOne x CKO_PRIVATE_KEY label p; h = (case r of Inr h \<Rightarrow> h | Inl e \<Rightarrow> 0)
           in if r = Inl Panicked then (Inl Panicked, p1)
              else if h \<noteq> 0 then (Inr label, p1)
              else bindH (genMLDSA x label paramSet p1) (\<lambda>_ p2. (Inr label, p2))))"

definition p11_PublicKey :: "'t Module \<Rightarrow> string \<Rightarrow> 't PKCS11Client \<Rightarrow> string hres \<times> 't PKCS11Client" where
  "p11_PublicKey x keyID p =
     bindH (findOne x CKO_PUBLIC_KEY keyID p) (\<lambda>pub p1.
       let pre = ''pkcs11: could not read public key value for '' @ mdQuote x keyID @ '': '' in
       case prim (GetAttributeValue pub VALUE) (mdGetAttributeValue x (pcSession p1) pub VALUE) p1 of
         (Inl e, p2) \<Rightarrow> (wrapE pre (Inl e), p2)
       | (Inr attrs, p2) \<Rightarrow>
           (case attrs of [] \<Rightarrow> (Inl (Failed (pre @ ''%!w(<nil>)'')), p2)
            | v # _ \<Rightarrow> if v = [] then (Inl (Failed (pre @ ''%!w(<nil>)'')), p2) else (Inr v, p2)))"

definition p11_Sign :: "'t Module \<Rightarrow> string \<Rightarrow> string \<Rightarrow> 't PKCS11Client \<Rightarrow> string hres \<times> 't PKCS11Client" where
  "p11_Sign x keyID msg p =
     bindH (findOne x CKO_PRIVATE_KEY keyID p) (\<lambda>priv p1.
     bindH (prefixed ''pkcs11: SignInit (CKM_ML_DSA): ''
              (prim (SignInit CKM_ML_DSA priv) (mdSignInit x (pcSession p1) CKM_ML_DSA priv) p1)) (\<lambda>_ p2.
     prefixed ''pkcs11: Sign: '' (prim (Sign msg) (mdSign x (pcSession p2) msg) p2)))"

definition p11_Verify :: "'t Module \<Rightarrow> string \<Rightarrow> string \<Rightarrow> string \<Rightarrow> 't PKCS11Client \<Rightarrow> bool hres \<times> 't PKCS11Client" where
  "p11_Verify x keyID msg sig p =
     bindH (findOne x CKO_PUBLIC_KEY keyID p) (\<lambda>pub p1.
     bindH (prefixed ''pkcs11: VerifyInit: ''
              (prim (VerifyInit CKM_ML_DSA pub) (mdVerifyInit x (pcSession p1) CKM_ML_DSA pub) p1)) (\<lambda>_ p2.
     case prim (Verify msg sig) (mdVerify x (pcSession p2) msg sig) p2 of
       (Inr _, p3) \<Rightarrow> (Inr True, p3)
     | (Inl Panicked, p3) \<Rightarrow> (Inl Panicked, p3)
     | (Inl (Failed e), p3) \<Rightarrow> (Inr False, p3)))"

definition p11_EnsureMACKey :: "'t Module \<Rightarrow> string \<Rightarrow> string \<Rightarrow> 't PKCS11Client \<Rightarrow> unit hres \<times> 't PKCS11Client" where
  "p11_EnsureMACKey x label keyMaterial p =
     (if keyMaterial = [] then (Inl (Failed ''pkcs11: MAC key material is empty''), p)
      else let (r, p1) = findOne x CKO_SECRET_KEY label p; h = (case r of Inr h \<Rightarrow> h | Inl e \<Rightarrow> 0);
               template = [CKA_CLASS CKO_SECRET_KEY, CKA_KEY_TYPE ''GENERIC_SECRET'', CKA_TOKEN True, CKA_PRIVATE True,
                 CKA_SIGN True, CKA_VERIFY True, CKA_LABEL label, CKA_VALUE keyMaterial]
           in if r = Inl Panicked then (Inl Panicked, p1)
              else if h \<noteq> 0 then (Inr (), p1)
              else prefixed ''pkcs11: import command MAC key: ''
                     (prim (CreateObject template) (mdCreateObject x (pcSession p1) template) p1))"

definition p11_MAC :: "'t Module \<Rightarrow> string \<Rightarrow> string \<Rightarrow> 't PKCS11Client \<Rightarrow> string hres \<times> 't PKCS11Client" where
  "p11_MAC x label msg p =
     bindH (findOne x CKO_SECRET_KEY label p) (\<lambda>key p1.
     bindH (prefixed ''pkcs11: SignInit (CKM_SHA256_HMAC): ''
              (prim (SignInit CKM_SHA256_HMAC key) (mdSignInit x (pcSession p1) CKM_SHA256_HMAC key) p1)) (\<lambda>_ p2.
     prefixed ''pkcs11: HMAC: '' (prim (Sign msg) (mdSign x (pcSession p2) msg) p2)))"

fun keyInfos :: "'t Module \<Rightarrow> objectClass \<Rightarrow> nat list \<Rightarrow> 't PKCS11Client \<Rightarrow> KeyInfo list hres \<times> 't PKCS11Client" where
  "keyInfos x class [] p = (Inr [], p)"
| "keyInfos x class (h # hs) p =
     (let (r, p1) = prim (GetAttributeValue h LABEL) (mdGetAttributeValue x (pcSession p) h LABEL) p;
          label = (case r of Inr (v # _) \<Rightarrow> v | _ \<Rightarrow> []);
          k = \<lparr>kiKeyID = label, kiLabel = label, kiAlgorithm = (if class = CKO_SECRET_KEY then ''HMAC-SHA256'' else ''ML-DSA''),
               kiKeySize = 0, kiIsPQC = (class = CKO_PRIVATE_KEY), kiCreatedAt = 0\<rparr>
      in bindH (keyInfos x class hs p1) (\<lambda>ks p2. (Inr (k # ks), p2)))"

fun keysOfClasses :: "'t Module \<Rightarrow> objectClass list \<Rightarrow> 't PKCS11Client \<Rightarrow> KeyInfo list hres \<times> 't PKCS11Client" where
  "keysOfClasses x [] p = (Inr [], p)"
| "keysOfClasses x (c # cs) p =
     bindH (findAll x [CKA_CLASS c] p) (\<lambda>handles p1.
     bindH (keyInfos x c handles p1) (\<lambda>ks p2.
     bindH (keysOfClasses x cs p2) (\<lambda>rest p3. (Inr (ks @ rest), p3))))"

definition p11_ListKeys :: "'t Module \<Rightarrow> 't PKCS11Client \<Rightarrow> KeyInfo list hres \<times> 't PKCS11Client" where
  "p11_ListKeys x p = keysOfClasses x [CKO_PRIVATE_KEY, CKO_SECRET_KEY] p"

definition p11_GetKeyInfo :: "'t Module \<Rightarrow> string \<Rightarrow> 't PKCS11Client \<Rightarrow> KeyInfo hres \<times> 't PKCS11Client" where
  "p11_GetKeyInfo x keyID p =
     bindH (p11_ListKeys x p) (\<lambda>keys p1.
       case find (\<lambda>k. kiKeyID k = keyID) keys of
         None \<Rightarrow> (Inl (Failed (''pkcs11: key '' @ mdQuote x keyID @ '' not found'')), p1)
       | Some k \<Rightarrow> (Inr k, p1))"

definition p11_Close :: "'t Module \<Rightarrow> 't PKCS11Client \<Rightarrow> 't PKCS11Client" where
  "p11_Close x p =
     (if \<not> pcLive p then p
      else let p1 = drop_result (prim (Logout (pcSession p)) (mdLogout x (pcSession p)) p);
               p2 = drop_result (prim (CloseSession (pcSession p)) (mdCloseSession x (pcSession p)) p1)
           in (release x p2)\<lparr>pcLive := False\<rparr>)"

end
