(* ===== verification/HSMApi.thy ===== *)
theory HSMApi
  imports Pkcs11 Config
begin

text \<open>
  The choice of the key store (\<^verbatim>\<open>hsm/config.go\<close>, \<^verbatim>\<open>hsm/backend.go\<close>) and the handlers on it, \<open>hsmListKeys\<close>,
  \<open>hsmGenerateKey\<close>, \<open>hsmSign\<close> and \<open>hsmVerify\<close> of \<^verbatim>\<open>httpapi/server.go\<close>. \<open>get\<close> resolves a setting, from the
  environment or the configuration file.
\<close>

subsection \<open>Configuration\<close>

definition DefaultCommandKeyLabel :: string where
  "DefaultCommandKeyLabel = ''janus-command-signing''"

text \<open>\<open>strconv.ParseBool\<close>, with false for what it does not read.\<close>

definition BoolValue :: "(string \<Rightarrow> string) \<Rightarrow> string \<Rightarrow> bool" where
  "BoolValue get key \<longleftrightarrow> trimSpace (get key) \<in> {''1'', ''t'', ''T'', ''TRUE'', ''true'', ''True''}"

definition parseMode :: "string \<Rightarrow> Mode" where
  "parseMode v =
     (let m = toLower (trimSpace v) in
      if m = ''disabled'' then ModeDisabled else if m = ''pkcs11'' then ModePKCS11 else ModeSoftware)"

definition atoiSetting :: "(string \<Rightarrow> string) \<Rightarrow> string \<Rightarrow> int \<Rightarrow> int" where
  "atoiSetting get key dflt =
     (if get key = [] then dflt else case parseInt64 (get key) of None \<Rightarrow> dflt | Some n \<Rightarrow> n)"

definition LoadConfigFromEnv :: "reader \<Rightarrow> (string \<Rightarrow> string) \<Rightarrow> HSMConfig" where
  "LoadConfigFromEnv readFile get =
     \<lparr>hcMode = parseMode (get ''JANUS_HSM_MODE''),
      hcModulePath = get ''JANUS_HSM_MODULE_PATH'',
      hcPin = (if get ''JANUS_HSM_PIN_FILE'' = [] then get ''JANUS_HSM_PIN''
               else case readFile (get ''JANUS_HSM_PIN_FILE'') of Inl e \<Rightarrow> get ''JANUS_HSM_PIN'' | Inr b \<Rightarrow> trimEOL b),
      hcSlotID = atoiSetting get ''JANUS_HSM_SLOT'' 0,
      hcSlotIndex = atoiSetting get ''JANUS_HSM_SLOT_INDEX'' (- 1),
      hcLabel = get ''JANUS_HSM_TOKEN_LABEL'',
      hcSignCommands = BoolValue get ''JANUS_HSM_SIGN_COMMANDS'',
      hcCommandKeyLabel = strSetting get ''JANUS_HSM_COMMAND_KEY_LABEL'' DefaultCommandKeyLabel\<rparr>"

subsection \<open>The store behind the interface\<close>

datatype 't Backend = SoftStore SoftHSM2 | TokenStore "'t PKCS11Client"

record 't HSMEnv =
  heSchemes :: Schemes
  heModule :: "'t Module"
  heHmac :: "string \<Rightarrow> string \<Rightarrow> string"

definition NewBackend :: "'t HSMEnv \<Rightarrow> HSMConfig \<Rightarrow> 't \<Rightarrow> 't Backend option hres" where
  "NewBackend v cfg tok =
     (case hcMode cfg of
        ModeDisabled \<Rightarrow> Inr None
      | ModePKCS11 \<Rightarrow>
          (case newPKCS11 (heModule v) cfg tok of
             (Inl e, p) \<Rightarrow> wrapE ''pkcs11 backend: '' (Inl e)
           | (Inr _, p) \<Rightarrow> Inr (Some (TokenStore p)))
      | ModeSoftware \<Rightarrow> Inr (Some (SoftStore NewSoftHSM2))
      | OtherMode m \<Rightarrow> if m = [] then Inr (Some (SoftStore NewSoftHSM2))
          else Inl (Failed (''unknown JANUS_HSM_MODE '' @ mdQuote (heModule v) m @ '' (use disabled|software|pkcs11)'')))"

definition onSoft :: "'a hres \<times> SoftHSM2 \<Rightarrow> 'a hres \<times> 't Backend" where
  "onSoft r = (fst r, SoftStore (snd r))"

definition onToken :: "'a hres \<times> 't PKCS11Client \<Rightarrow> 'a hres \<times> 't Backend" where
  "onToken r = (fst r, TokenStore (snd r))"

fun be_GenerateKeyPair :: "'t HSMEnv \<Rightarrow> KeyDraw \<Rightarrow> string \<Rightarrow> 't Backend \<Rightarrow> string hres \<times> 't Backend" where
  "be_GenerateKeyPair v d alg (SoftStore s) = onSoft (soft_GenerateKeyPair (heSchemes v) d alg s)"
| "be_GenerateKeyPair v d alg (TokenStore p) = onToken (p11_GenerateKeyPair (heModule v) (kdUUID d) alg p)"

fun be_Sign :: "'t HSMEnv \<Rightarrow> string \<Rightarrow> string \<Rightarrow> 't Backend \<Rightarrow> string hres \<times> 't Backend" where
  "be_Sign v keyID msg (SoftStore s) = (soft_Sign (heSchemes v) keyID msg s, SoftStore s)"
| "be_Sign v keyID msg (TokenStore p) = onToken (p11_Sign (heModule v) keyID msg p)"

fun be_Verify :: "'t HSMEnv \<Rightarrow> string \<Rightarrow> string \<Rightarrow> string \<Rightarrow> 't Backend \<Rightarrow> bool hres \<times> 't Backend" where
  "be_Verify v keyID msg sig (SoftStore s) = (soft_Verify (heSchemes v) keyID msg sig s, SoftStore s)"
| "be_Verify v keyID msg sig (TokenStore p) = onToken (p11_Verify (heModule v) keyID msg sig p)"

fun be_ListKeys :: "'t HSMEnv \<Rightarrow> 't Backend \<Rightarrow> KeyInfo set hres \<times> 't Backend" where
  "be_ListKeys v (SoftStore s) = (Inr (soft_ListKeys s), SoftStore s)"
| "be_ListKeys v (TokenStore p) = (let r = p11_ListKeys (heModule v) p in onToken (map_sum id set (fst r), snd r))"

fun be_EnsureMACKey :: "'t HSMEnv \<Rightarrow> string \<Rightarrow> string \<Rightarrow> 't Backend \<Rightarrow> unit hres \<times> 't Backend" where
  "be_EnsureMACKey v label key (SoftStore s) = onSoft (soft_EnsureMACKey label key s)"
| "be_EnsureMACKey v label key (TokenStore p) = onToken (p11_EnsureMACKey (heModule v) label key p)"

fun be_MAC :: "'t HSMEnv \<Rightarrow> string \<Rightarrow> string \<Rightarrow> 't Backend \<Rightarrow> string hres \<times> 't Backend" where
  "be_MAC v label msg (SoftStore s) = (soft_MAC (heHmac v) (heSchemes v) label msg s, SoftStore s)"
| "be_MAC v label msg (TokenStore p) = onToken (p11_MAC (heModule v) label msg p)"

fun be_EnsureMLDSAKey :: "'t HSMEnv \<Rightarrow> KeyDraw \<Rightarrow> string \<Rightarrow> string \<Rightarrow> 't Backend \<Rightarrow> string hres \<times> 't Backend" where
  "be_EnsureMLDSAKey v d label alg (SoftStore s) = onSoft (soft_EnsureMLDSAKey (heSchemes v) d label alg s)"
| "be_EnsureMLDSAKey v d label alg (TokenStore p) = onToken (p11_EnsureMLDSAKey (heModule v) label alg p)"

fun be_PublicKey :: "'t HSMEnv \<Rightarrow> string \<Rightarrow> 't Backend \<Rightarrow> string hres \<times> 't Backend" where
  "be_PublicKey v keyID (SoftStore s) = (soft_PublicKey (heSchemes v) keyID s, SoftStore s)"
| "be_PublicKey v keyID (TokenStore p) = onToken (p11_PublicKey (heModule v) keyID p)"

subsection \<open>Handlers\<close>

text \<open>A panic ends the request without an answer.\<close>

datatype 'a hsmAnswer = Refused int string | Aborted | Answered 'a

definition fromHSM :: "('a \<Rightarrow> 'b) \<Rightarrow> 'a hres \<Rightarrow> 'b hsmAnswer" where
  "fromHSM f r = (case r of Inr a \<Rightarrow> Answered (f a) | Inl Panicked \<Rightarrow> Aborted
     | Inl (Failed e) \<Rightarrow> Refused (fst internalError) (snd internalError))"

definition withHSM :: "string \<Rightarrow> string \<Rightarrow> 't Backend option \<Rightarrow> ('t Backend \<Rightarrow> 'b hsmAnswer \<times> 't Backend)
    \<Rightarrow> 'b hsmAnswer \<times> 't Backend option" where
  "withHSM expected httpMethod b f =
     (if httpMethod \<noteq> expected then (Refused 405 [], b)
      else case b of None \<Rightarrow> (Refused 501 ''HSM not configured'', b)
        | Some h \<Rightarrow> (fst (f h), Some (snd (f h))))"

definition hsmListKeys :: "'t HSMEnv \<Rightarrow> string \<Rightarrow> 't Backend option \<Rightarrow> KeyInfo set hsmAnswer \<times> 't Backend option" where
  "hsmListKeys v httpMethod b =
     withHSM ''GET'' httpMethod b (\<lambda>h. let (r, h1) = be_ListKeys v h in (fromHSM id r, h1))"

definition hsmGenerateKey :: "'t HSMEnv \<Rightarrow> KeyDraw \<Rightarrow> string \<Rightarrow> string result \<Rightarrow> 't Backend option
    \<Rightarrow> (string \<times> string) hsmAnswer \<times> 't Backend option" where
  "hsmGenerateKey v d httpMethod body b =
     withHSM ''POST'' httpMethod b (\<lambda>h.
       case body of
         Inl e \<Rightarrow> (Refused 400 ''invalid JSON'', h)
       | Inr alg \<Rightarrow> if alg = [] then (Refused 400 ''algorithm is required'', h)
                     else let (r, h1) = be_GenerateKeyPair v d alg h in (fromHSM (\<lambda>keyID. (keyID, alg)) r, h1))"

definition hsmSign :: "'t HSMEnv \<Rightarrow> string \<Rightarrow> (string \<times> string) result \<Rightarrow> 't Backend option
    \<Rightarrow> (string \<times> string) hsmAnswer \<times> 't Backend option" where
  "hsmSign v httpMethod body b =
     withHSM ''POST'' httpMethod b (\<lambda>h.
       case body of
         Inl e \<Rightarrow> (Refused 400 ''invalid JSON'', h)
       | Inr (keyID, msg) \<Rightarrow> if keyID = [] \<or> msg = [] then (Refused 400 ''key_id and data are required'', h)
                     else let (r, h1) = be_Sign v keyID msg h in (fromHSM (\<lambda>sig. (keyID, sig)) r, h1))"

definition hsmVerify :: "'t HSMEnv \<Rightarrow> string \<Rightarrow> (string \<times> string \<times> string) result \<Rightarrow> 't Backend option
    \<Rightarrow> (string \<times> bool) hsmAnswer \<times> 't Backend option" where
  "hsmVerify v httpMethod body b =
     withHSM ''POST'' httpMethod b (\<lambda>h.
       case body of
         Inl e \<Rightarrow> (Refused 400 ''invalid JSON'', h)
       | Inr (keyID, msg, sig) \<Rightarrow> if keyID = [] \<or> msg = [] \<or> sig = []
                     then (Refused 400 ''key_id, data, and signature are required'', h)
                     else let (r, h1) = be_Verify v keyID msg sig h in (fromHSM (\<lambda>ok. (keyID, ok)) r, h1))"

subsection \<open>Requests\<close>

datatype hsmRequest =
  RList string
| RGenerate KeyDraw string "string result"
| RSign string "(string \<times> string) result"
| RVerify string "(string \<times> string \<times> string) result"

fun hsmStep :: "'t HSMEnv \<Rightarrow> hsmRequest \<Rightarrow> 't Backend option \<Rightarrow> 't Backend option" where
  "hsmStep v (RList m) b = snd (hsmListKeys v m b)"
| "hsmStep v (RGenerate d m body) b = snd (hsmGenerateKey v d m body b)"
| "hsmStep v (RSign m body) b = snd (hsmSign v m body b)"
| "hsmStep v (RVerify m body) b = snd (hsmVerify v m body b)"

fun hsmRun :: "'t HSMEnv \<Rightarrow> hsmRequest list \<Rightarrow> 't Backend option \<Rightarrow> 't Backend option" where
  "hsmRun v [] b = b"
| "hsmRun v (r # rs) b = hsmRun v rs (hsmStep v r b)"

end
