(* ===== verification/HSMProofs.thy ===== *)
theory HSMProofs
  imports HSMApi
begin

text \<open>
  What the key stores promise: only post-quantum keys, signatures that keep verifying, a module that is
  released when it cannot be used, and which token and which store a configuration selects.
\<close>

subsection \<open>Key generation\<close>

text \<open>The contract of \<open>GenerateKeyPair\<close> in the interface \<open>HSM\<close>.\<close>

locale pqc_generator =
  fixes gen :: "string \<Rightarrow> 's \<Rightarrow> string hres \<times> 's"
  assumes refuses: "\<not> IsAcceptedPQCSignatureAlg alg \<Longrightarrow> \<exists>e. gen alg s = (Inl (Failed e), s)"
begin

lemma only_pqc: "fst (gen alg s) = Inr k \<Longrightarrow> IsAcceptedPQCSignatureAlg alg"
  using refuses [of alg s] by (cases "IsAcceptedPQCSignatureAlg alg") auto

lemma classical_keeps_store: "\<not> IsAcceptedPQCSignatureAlg alg \<Longrightarrow> snd (gen alg s) = s"
  using refuses [of alg s] by auto

end

interpretation soft_gen: pqc_generator "soft_GenerateKeyPair sc d" for sc d
  by unfold_locales (simp add: soft_GenerateKeyPair_def)

interpretation token_gen: pqc_generator "p11_GenerateKeyPair x i" for x i
  by unfold_locales (simp add: p11_GenerateKeyPair_def)

interpretation backend_gen: pqc_generator "be_GenerateKeyPair v d" for v d
proof
  fix alg :: string and s :: "'a Backend"
  assume alg: "\<not> IsAcceptedPQCSignatureAlg alg"
  show "\<exists>e. be_GenerateKeyPair v d alg s = (Inl (Failed e), s)"
  proof (cases s)
    case (SoftStore s1)
    with soft_gen.refuses [OF alg, of "heSchemes v" d s1] show ?thesis by (auto simp: onSoft_def)
  next
    case (TokenStore p)
    with token_gen.refuses [OF alg, of "heModule v" "kdUUID d" p] show ?thesis by (auto simp: onToken_def)
  qed
qed

lemma generated_key_is_pqc:
  "fst (hsmGenerateKey v d m (Inr alg) b) = Answered (k, a) \<Longrightarrow> IsAcceptedPQCSignatureAlg a"
  by (auto simp: hsmGenerateKey_def withHSM_def case_prod_beta fromHSM_def dest!: backend_gen.only_pqc
      split: if_splits option.splits sum.splits hsmFault.splits)

subsection \<open>Signatures of the software store\<close>

definition drawsOf :: "hsmRequest list \<Rightarrow> KeyDraw list" where
  "drawsOf rs = concat (map (\<lambda>r. case r of RGenerate d m body \<Rightarrow> [d] | _ \<Rightarrow> []) rs)"

lemma drawsOf_simps [simp]:
  "drawsOf [] = []"
  "drawsOf (r # rs) = (case r of RGenerate d m body \<Rightarrow> [d] | _ \<Rightarrow> []) @ drawsOf rs"
  "drawsOf (rs @ rs') = drawsOf rs @ drawsOf rs'"
  by (simp_all add: drawsOf_def)







subsection \<open>Opening the module\<close>

text \<open>The calls of an attempt that failed: nothing was loaded, or the module is destroyed, and finalized if it was
  initialized, with the session closed that could not log in.\<close>

definition releasedLog :: "moduleCall list \<Rightarrow> bool" where
  "releasedLog l \<longleftrightarrow> l = [] \<or> l = [Initialize, Destroy] \<or>
     (\<exists>mid. l = Initialize # mid @ [Finalize, Destroy] \<and> Finalize \<notin> set mid \<and> Destroy \<notin> set mid \<and>
        (\<forall>s. Login s \<in> set mid \<longrightarrow> last mid = CloseSession s))"

definition openLog :: "moduleCall list \<Rightarrow> bool" where
  "openLog l \<longleftrightarrow> (\<exists>mid. l = Initialize # mid \<and> Finalize \<notin> set mid \<and> Destroy \<notin> set mid)"

definition probing :: "moduleCall list \<Rightarrow> bool" where
  "probing l \<longleftrightarrow> (\<forall>c \<in> set l. c = GetSlotList \<or> (\<exists>s. c = GetTokenInfo s) \<or> (\<exists>s. c = OpenSession s))"

lemma prim_live: "pcLive p \<Longrightarrow> pcLive (snd (prim c f p)) \<and> pcLog (snd (prim c f p)) = pcLog p @ [c]"
  by (simp add: prim_def)

lemma prefixed_simps [simp]: "snd (prefixed pre r) = snd r" "fst (prefixed pre r) = Inr a \<longleftrightarrow> fst r = Inr a"
  by (simp_all add: prefixed_def wrapE_def split: sum.split hsmFault.split)

lemma release_log: "pcLive p \<Longrightarrow> pcLog (release x p) = pcLog p @ [Finalize, Destroy]"
  by (simp add: release_def drop_result_def prim_def)

lemma labelledSlot_log:
  "pcLive p \<Longrightarrow> labelledSlot x l ss p = (r, p') \<Longrightarrow> pcLive p' \<and> (\<exists>t. pcLog p' = pcLog p @ t \<and> probing t)"
proof (induction ss arbitrary: p)
  case Nil
  then show ?case by (auto simp: probing_def)
next
  case (Cons s ss)
  obtain r1 p1 where c: "prim (GetTokenInfo s) (mdGetTokenInfo x s) p = (r1, p1)" by fastforce
  with prim_live [OF Cons.prems(1), of "GetTokenInfo s" "mdGetTokenInfo x s"]
  have p1: "pcLive p1" "pcLog p1 = pcLog p @ [GetTokenInfo s]" by auto
  from Cons.prems(2) c have "p' = p1 \<or> labelledSlot x l ss p1 = (r, p')" by (auto split: sum.splits if_splits)
  then show ?case
  proof
    assume "p' = p1"
    with p1 show ?thesis by (auto simp: probing_def)
  next
    assume "labelledSlot x l ss p1 = (r, p')"
    from Cons.IH [OF p1(1) this] p1(2) show ?thesis by (auto simp: probing_def)
  qed
qed

lemma findSlot_log:
  assumes "pcLive p" and "findSlot x cfg p = (r, p')"
  shows "pcLive p' \<and> (\<exists>t. pcLog p' = pcLog p @ t \<and> probing t)"
proof -
  obtain r1 p1 where c: "prim GetSlotList (mdGetSlotList x) p = (r1, p1)" by fastforce
  with prim_live [OF assms(1), of GetSlotList "mdGetSlotList x"]
  have p1: "pcLive p1" "pcLog p1 = pcLog p @ [GetSlotList]" by auto
  obtain r2 p2 where l: "labelledSlot x (hcLabel cfg) (case r1 of Inr ss \<Rightarrow> ss | Inl e \<Rightarrow> []) p1 = (r2, p2)" by fastforce
  have "p' = p1 \<or> p' = p2"
    using assms(2) c l by (auto simp: findSlot_def prefixed_def wrapE_def bindH_def split: sum.splits hsmFault.splits if_splits option.splits list.splits)
  with labelledSlot_log [OF p1(1) l] p1 show ?thesis by (auto simp: probing_def)
qed

text \<open>C37: Whatever the module answers: when opening a PKCS\#11 token fails, the module is destroyed if it was loaded,
  finalized if it was initialized, and a session that could not log in is closed; when opening succeeds the
  module is initialized and neither finalized nor destroyed.\<close>

theorem failed_open_releases_module:
  "case newPKCS11 x cfg tok of (Inl e, p) \<Rightarrow> releasedLog (pcLog p) | (Inr u, p) \<Rightarrow> openLog (pcLog p)"
proof -
  define p where "p = \<lparr>pcToken = tok, pcLog = [], pcLive = True, pcSession = 0\<rparr>"
  obtain r1 p1 where c1: "prefixed ''C_Initialize: '' (prim Initialize (mdInitialize x) p) = (r1, p1)" by fastforce
  then have p1: "pcLive p1" "pcLog p1 = [Initialize]"
    using prim_live [of p Initialize "mdInitialize x"] by (auto simp: p_def prefixed_def)
  obtain r2 p2 where c2: "findSlot x cfg p1 = (r2, p2)" by fastforce
  from findSlot_log [OF p1(1) c2] p1(2) obtain t where p2: "pcLive p2" "pcLog p2 = Initialize # t" "probing t" by auto
  define slot where "slot = (case r2 of Inr s \<Rightarrow> s | Inl e \<Rightarrow> 0)"
  obtain r3 p3 where c3: "prefixed ''OpenSession: '' (prim (OpenSession slot) (mdOpenSession x slot) p2) = (r3, p3)" by fastforce
  then have p3: "pcLive p3" "pcLog p3 = Initialize # t @ [OpenSession slot]"
    using prim_live [OF p2(1), of "OpenSession slot" "mdOpenSession x slot"] p2(2) by (auto simp: prefixed_def)
  have t: "Finalize \<notin> set t" "Destroy \<notin> set t" "Login s \<notin> set t" for s using p2(3) by (auto simp: probing_def)
  have l: "case login x cfg session p3 of (Inl e, q) \<Rightarrow> releasedLog (pcLog q) | (Inr u, q) \<Rightarrow> openLog (pcLog q)" for session
  proof -
    have "releasedLog (Initialize # t @ [OpenSession slot, Login session, CloseSession session, Finalize, Destroy])"
      unfolding releasedLog_def
      by (intro disjI2 exI [of _ "t @ [OpenSession slot, Login session, CloseSession session]"]) (use t in auto)
    moreover have "openLog (Initialize # t @ [OpenSession slot])" "openLog (Initialize # t @ [OpenSession slot, Login session])"
      using t by (auto simp: openLog_def)
    ultimately show ?thesis
      using p3 by (auto simp: login_def prefixed_def prim_def drop_result_def release_log wrapE_def split: sum.split hsmFault.split)
  qed
  have r: "releasedLog (Initialize # t @ [Finalize, Destroy])" "releasedLog (Initialize # t @ [OpenSession slot, Finalize, Destroy])"
    unfolding releasedLog_def by (intro disjI2 exI [of _ t]; use t in auto)
      (intro disjI2 exI [of _ "t @ [OpenSession slot]"]; use t in auto)
  have d: "pcLog (drop_result (prim Destroy (mdDestroy x) p1)) = [Initialize, Destroy]"
    using p1 prim_live [of p1 Destroy "mdDestroy x"] by (simp add: drop_result_def)
  have base: "releasedLog []" "releasedLog [Initialize, Destroy]" by (simp_all add: releasedLog_def)
  have l': "login x cfg session p3 = (Inl e, q) \<Longrightarrow> releasedLog (pcLog q)"
    "login x cfg session p3 = (Inr u, q) \<Longrightarrow> openLog (pcLog q)" for session e u q
    using l [of session] by auto
  show ?thesis
    using c1 c2 c3 r d base p2(1,2) p3(1,2)
    by (auto simp: newPKCS11_def Let_def p_def slot_def release_log split: sum.splits dest: l')
qed

subsection \<open>Selection\<close>

text \<open>A labelled token is never replaced by another one; a slot number that no token has is, by the first.\<close>

lemma labelledSlot_label:
  "labelledSlot x l ss p = (Some s, p') \<Longrightarrow> s \<in> set ss \<and> (\<exists>q ti q'. prim (GetTokenInfo s) (mdGetTokenInfo x s) q = (Inr ti, q') \<and> tiLabel ti = l)"
  by (induction ss arbitrary: p) (fastforce split: sum.splits if_splits prod.splits)+

lemma missing_slot_takes_first:
  assumes "pcLive p" and "mdGetSlotList x (pcToken p) = (Inr (s # ss), t)" and "hcLabel cfg = []" and "hcSlotIndex cfg < 0"
    and "nat (hcSlotID cfg mod 2 ^ 64) \<notin> set (s # ss)"
  shows "fst (findSlot x cfg p) = Inr s"
  using assms by (auto simp: findSlot_def prim_def prefixed_def wrapE_def)

text \<open>Any error of the search for the command key leads to a new pair under the same label.\<close>

lemma lookup_error_generates:
  assumes "pcLive p" and "mdFindObjectsInit x (pcSession p) [CKA_CLASS CKO_PRIVATE_KEY, CKA_LABEL label] (pcToken p) = (Inl e, t)"
    and "alg \<in> {''ML-DSA-44'', ''ML-DSA-65'', ''ML-DSA-87''}"
  shows "\<exists>pub priv. GenerateKeyPair CKM_ML_DSA_KEY_PAIR_GEN pub priv \<in> set (pcLog (snd (p11_EnsureMLDSAKey x label alg p)))"
proof -
  obtain n where n: "paramSetFor x alg = Inr n" using assms(3) by (auto simp: paramSetFor_def)
  have a: "IsAcceptedPQCSignatureAlg alg" using assms(3) by (auto simp: IsAcceptedPQCSignatureAlg_def acceptedPQCSignatureAlgs_def)
  show ?thesis
    using assms(1,2)
    by (auto simp: p11_EnsureMLDSAKey_def n a findOne_def findAll_def prim_def prefixed_def wrapE_def bindH_def genMLDSA_def
        Let_def split: sum.split)
qed

text \<open>The mode \<open>pkcs11\<close> gives a token or an error, never the software store; a mode that is not one of the three
  gives the software store.\<close>

lemma pkcs11_fails_closed: "hcMode cfg = ModePKCS11 \<Longrightarrow> NewBackend v cfg tok \<noteq> Inr None \<and> NewBackend v cfg tok \<noteq> Inr (Some (SoftStore s))"
  by (auto simp: NewBackend_def wrapE_def split: prod.split sum.split hsmFault.split)

lemma misspelt_mode_is_software: "NewBackend v (LoadConfigFromEnv rd (\<lambda>k. if k = ''JANUS_HSM_MODE'' then ''pkcs-11'' else [])) tok =
  Inr (Some (SoftStore NewSoftHSM2))"
proof -
  have "parseMode ''pkcs-11'' = ModeSoftware" by code_simp
  then show ?thesis by (simp add: NewBackend_def LoadConfigFromEnv_def)
qed

subsection \<open>Witness\<close>






end
