(* ===== verification/StartUp.thy ===== *)
theory StartUp
  imports HSMApi
begin

text \<open>
  The start and the end of the server, \<open>main\<close> of \<^verbatim>\<open>cmd/janus-server/main.go\<close>: from the configuration to the
  transport, the key store and the signers of the orchestrator, with every reason to refuse, and the drain.
  Database, policy engine, notifier, sockets and certificates enter as what the calls to them return; \<open>syPEM\<close> are
  the blocks that \<open>pem.Decode\<close> finds in turn. The signing closures answer from the store as it is when they are
  installed. The ML-DSA signer without a store is \<^verbatim>\<open>orchestrator/mldsa.go\<close>.
\<close>

subsection \<open>Software signer\<close>

record CommandSigner =
  csAlgorithm :: string
  csPriv :: string
  csPub :: string

text \<open>Keys are drawn, derived from a seed or read from their encoding by the scheme.\<close>

definition NewMLDSACommandSigner :: "Schemes \<Rightarrow> (string \<times> string) result \<Rightarrow> string \<Rightarrow> CommandSigner result" where
  "NewMLDSACommandSigner sc pair algorithm =
     (if \<not> scAvailable sc algorithm then Inl (''unknown ML-DSA algorithm '' @ scQuote sc algorithm)
      else case pair of Inl e \<Rightarrow> Inl (''generate '' @ algorithm @ '' command key: '' @ e)
        | Inr (pub, priv) \<Rightarrow> Inr \<lparr>csAlgorithm = algorithm, csPriv = priv, csPub = pub\<rparr>)"

definition NewMLDSACommandSignerFromSeed :: "Schemes \<Rightarrow> (string \<Rightarrow> nat) \<Rightarrow> (string \<Rightarrow> string \<Rightarrow> string \<times> string)
    \<Rightarrow> string \<Rightarrow> string \<Rightarrow> CommandSigner result" where
  "NewMLDSACommandSignerFromSeed sc seedSize deriveKey algorithm seed =
     (if \<not> scAvailable sc algorithm then Inl (''unknown ML-DSA algorithm '' @ scQuote sc algorithm)
      else if length seed < seedSize algorithm
      then Inl (''seed too short for '' @ algorithm @ '': need '' @ decNat (seedSize algorithm) @ '' bytes'')
      else let (pub, priv) = deriveKey algorithm (take (seedSize algorithm) seed)
           in Inr \<lparr>csAlgorithm = algorithm, csPriv = priv, csPub = pub\<rparr>)"

definition NewMLDSACommandSignerFromKey :: "Schemes \<Rightarrow> (string \<Rightarrow> string \<Rightarrow> (string \<times> string) result) \<Rightarrow> string \<Rightarrow> string
    \<Rightarrow> CommandSigner result" where
  "NewMLDSACommandSignerFromKey sc unmarshalKey algorithm keyBytes =
     (if \<not> scAvailable sc algorithm then Inl (''unknown ML-DSA algorithm '' @ scQuote sc algorithm)
      else case unmarshalKey algorithm keyBytes of Inl e \<Rightarrow> Inl (''load '' @ algorithm @ '' command key: '' @ e)
        | Inr (pub, priv) \<Rightarrow> Inr \<lparr>csAlgorithm = algorithm, csPriv = priv, csPub = pub\<rparr>)"

definition signer_Sign :: "Schemes \<Rightarrow> CommandSigner \<Rightarrow> string \<Rightarrow> string result" where
  "signer_Sign sc s msg = Inr (scSign sc (csAlgorithm s) (csPriv s) msg)"

definition signer_PublicKey :: "Schemes \<Rightarrow> CommandSigner \<Rightarrow> string" where
  "signer_PublicKey sc s = (case scMarshal sc (csAlgorithm s) (csPub s) of Inl e \<Rightarrow> [] | Inr pub \<Rightarrow> pub)"

subsection \<open>What main reads\<close>

record 't StartEnv =
  syConfig :: "Config result"
  syGet :: "string \<Rightarrow> string"
  syReadFile :: reader
  syPEM :: "string \<Rightarrow> (string \<times> string) list"
  syConnect :: goerror
  sySchema :: goerror
  syEngine :: goerror
  syNotifier :: goerror
  syKeyPair :: "string \<Rightarrow> string \<Rightarrow> goerror"
  syParseCAs :: "string \<Rightarrow> bool"
  syListen :: "string \<Rightarrow> goerror"
  syHSM :: "'t HSMEnv"
  syToken :: 't
  syDraw :: KeyDraw
  syUnmarshalKey :: "string \<Rightarrow> string \<Rightarrow> (string \<times> string) result"
  syCertPub :: "string \<Rightarrow> string result"

datatype transport = PlainGRPC | ServerTLS13 | MutualTLS13

record 't Started =
  sdConfig :: Config
  sdTransport :: transport
  sdPerAgent :: bool
  sdMetricsAddr :: "string option"
  sdHSM :: "'t Backend option"
  sdOrch :: Orchestrator

definition loadPEMOrRaw :: "'t StartEnv \<Rightarrow> string \<Rightarrow> string \<Rightarrow> string result" where
  "loadPEMOrRaw v path pemType =
     (case syReadFile v path of
        Inl e \<Rightarrow> Inl e
      | Inr raw \<Rightarrow> (case find (\<lambda>b. fst b = pemType) (syPEM v raw) of None \<Rightarrow> Inr raw | Some b \<Rightarrow> Inr (snd b)))"

definition faultText :: "hsmFault \<Rightarrow> string" where
  "faultText e = (case e of Failed s \<Rightarrow> s | Panicked \<Rightarrow> ''panic'')"

subsection \<open>Transport\<close>

definition grpcTransport :: "'t StartEnv \<Rightarrow> Config \<Rightarrow> transport result" where
  "grpcTransport v cfg =
     (if RequireTLS cfg \<and> (TLSCertFile cfg = [] \<or> TLSKeyFile cfg = [])
      then Inl ''JANUS_REQUIRE_TLS is set but JANUS_TLS_CERT_FILE and JANUS_TLS_KEY_FILE are not both configured''
      else if RequireMTLS cfg \<and> ClientCAFile cfg = []
      then Inl ''JANUS_REQUIRE_MTLS is set but JANUS_CLIENT_CA_FILE is not configured''
      else if TLSCertFile cfg \<noteq> [] \<or> TLSKeyFile cfg \<noteq> []
      then (case syKeyPair v (TLSCertFile cfg) (TLSKeyFile cfg) of
              Some e \<Rightarrow> Inl (''load tls certificate: '' @ e)
            | None \<Rightarrow>
                if ClientCAFile cfg = [] then Inr ServerTLS13
                else (case syReadFile v (ClientCAFile cfg) of
                        Inl e \<Rightarrow> Inl (''load client ca certificate: '' @ e)
                      | Inr ca \<Rightarrow> if syParseCAs v ca then Inr MutualTLS13 else Inl ''failed to parse client ca certificate''))
      else Inr PlainGRPC)"

subsection \<open>Signers\<close>

definition hmacLayer :: "'t StartEnv \<Rightarrow> Config \<Rightarrow> HSMConfig \<Rightarrow> 't Backend option \<Rightarrow> Orchestrator
    \<Rightarrow> ('t Backend option \<times> Orchestrator) result" where
  "hmacLayer v cfg hcfg b orch =
     (case b of
        None \<Rightarrow> Inr (b, orch)
      | Some h \<Rightarrow>
          if \<not> hcSignCommands hcfg then Inr (b, orch)
          else (case be_EnsureMACKey (syHSM v) (hcCommandKeyLabel hcfg) (CommandSigningKey cfg) h of
                  (Inl e, h1) \<Rightarrow> Inl (''failed to provision the command-signing key in the HSM: '' @ faultText e)
                | (Inr _, h1) \<Rightarrow>
                    Inr (Some h1, UseHSMSigner (\<lambda>l msg. map_sum faultText id (fst (be_MAC (syHSM v) l msg h1)))
                           (hcCommandKeyLabel hcfg) orch)))"

definition softwareSigner :: "'t StartEnv \<Rightarrow> string \<Rightarrow> CommandSigner result" where
  "softwareSigner v alg =
     (let keyFile = syGet v ''JANUS_COMMAND_SIG_KEY_FILE'' in
      if keyFile \<noteq> []
      then (case loadPEMOrRaw v keyFile ''ML-DSA PRIVATE KEY'' of
              Inl e \<Rightarrow> Inl (''reading JANUS_COMMAND_SIG_KEY_FILE failed: '' @ e)
            | Inr keyBytes \<Rightarrow> NewMLDSACommandSignerFromKey (heSchemes (syHSM v)) (syUnmarshalKey v) alg keyBytes)
      else NewMLDSACommandSigner (heSchemes (syHSM v)) (kdPair (syDraw v)) alg)"

text \<open>Both stores are key managers, so the software signer is for a server without a store.\<close>

definition mldsaLayer :: "'t StartEnv \<Rightarrow> 't Backend option \<Rightarrow> Orchestrator \<Rightarrow> ('t Backend option \<times> Orchestrator) result" where
  "mldsaLayer v b orch =
     (let alg = strSetting (syGet v) ''JANUS_COMMAND_SIG_ALG'' ''ML-DSA-65'';
          label = strSetting (syGet v) ''JANUS_COMMAND_SIG_KEY_LABEL'' ''janus-command-mldsa'' in
      case b of
        Some h \<Rightarrow>
          (case be_EnsureMLDSAKey (syHSM v) (syDraw v) label alg h of
             (Inl e, h1) \<Rightarrow> Inl (''provisioning the HSM key failed: '' @ faultText e)
           | (Inr keyID, h1) \<Rightarrow>
               (case be_PublicKey (syHSM v) keyID h1 of
                  (Inl e, h2) \<Rightarrow> Inl (''reading the HSM public key failed: '' @ faultText e)
                | (Inr pub, h2) \<Rightarrow>
                    Inr (Some h2, AddMLDSASigner (\<lambda>msg. map_sum faultText id (fst (be_Sign (syHSM v) keyID msg h2))) pub orch)))
      | None \<Rightarrow>
          (case softwareSigner v alg of
             Inl e \<Rightarrow> Inl e
           | Inr s \<Rightarrow> Inr (None, AddMLDSASigner (signer_Sign (heSchemes (syHSM v)) s) (signer_PublicKey (heSchemes (syHSM v)) s) orch)))"

definition certLayer :: "'t StartEnv \<Rightarrow> Orchestrator \<Rightarrow> Orchestrator result" where
  "certLayer v orch =
     (let certFile = syGet v ''JANUS_COMMAND_SIG_CERT_FILE'' in
      if certFile = [] then Inr orch
      else case loadPEMOrRaw v certFile ''CERTIFICATE'' of
        Inl e \<Rightarrow> Inl (''reading JANUS_COMMAND_SIG_CERT_FILE failed: '' @ e)
      | Inr leafDER \<Rightarrow>
          (case syCertPub v leafDER of
             Inl e \<Rightarrow> Inl (''JANUS_COMMAND_SIG_CERT_FILE is not an ML-DSA certificate: '' @ e)
           | Inr pub \<Rightarrow> if pub \<noteq> mldsaPub orch
               then Inl ''JANUS_COMMAND_SIG_CERT_FILE public key does not match the signing key; refusing to start''
               else Inr (SetMLDSACommandCert (Some leafDER) orch)))"

definition signers :: "'t StartEnv \<Rightarrow> Config \<Rightarrow> HSMConfig \<Rightarrow> 't Backend option \<Rightarrow> ('t Backend option \<times> Orchestrator) result" where
  "signers v cfg hcfg b =
     (case hmacLayer v cfg hcfg b (newOrchestrator (CommandSigningKey cfg)) of
        Inl e \<Rightarrow> Inl e
      | Inr (b1, o1) \<Rightarrow>
          if \<not> equalFold (strSetting (syGet v) ''JANUS_COMMAND_SIG_SCHEME'' ''hmac'') ''ml-dsa'' then Inr (b1, o1)
          else (case mldsaLayer v b1 o1 of
                  Inl e \<Rightarrow> Inl e
                | Inr (b2, o2) \<Rightarrow> (case certLayer v o2 of Inl e \<Rightarrow> Inl e | Inr o3 \<Rightarrow> Inr (b2, o3))))"

subsection \<open>Start\<close>

definition firstFailure :: "goerror list \<Rightarrow> goerror" where
  "firstFailure es = fold (\<lambda>e acc. case acc of None \<Rightarrow> e | Some _ \<Rightarrow> acc) es None"

definition startServer :: "'t StartEnv \<Rightarrow> 't Started result" where
  "startServer v =
     (case syConfig v of Inl e \<Rightarrow> Inl e | Inr cfg \<Rightarrow>
      case firstFailure [syConnect v, sySchema v, syEngine v, syNotifier v] of Some e \<Rightarrow> Inl e | None \<Rightarrow>
      case grpcTransport v cfg of Inl e \<Rightarrow> Inl e | Inr tr \<Rightarrow>
      case syListen v (GRPCAddr cfg) of Some e \<Rightarrow> Inl e | None \<Rightarrow>
      let hcfg = LoadConfigFromEnv (syReadFile v) (syGet v) in
      case NewBackend (syHSM v) hcfg (syToken v) of Inl e \<Rightarrow> Inl (faultText e) | Inr b \<Rightarrow>
      case signers v cfg hcfg b of Inl e \<Rightarrow> Inl e | Inr (b1, orch) \<Rightarrow>
        Inr \<lparr>sdConfig = cfg, sdTransport = tr, sdPerAgent = (AgentAuthMode cfg = ''per-agent''),
             sdMetricsAddr = (if MetricsAddr cfg = [] then None else Some (MetricsAddr cfg)), sdHSM = b1, sdOrch = orch\<rparr>)"

subsection \<open>Drain\<close>

text \<open>The time each stage takes, in nanoseconds, when the streams need \<open>grpc\<close>, the dispatches \<open>hooks\<close> and the requests
  \<open>http\<close> to end by themselves.\<close>

definition maxDuration :: "int \<Rightarrow> int \<Rightarrow> int" where
  "maxDuration a b = (if b < a then a else b)"

definition shutdownTime :: "int \<Rightarrow> int \<Rightarrow> int \<Rightarrow> int \<Rightarrow> int" where
  "shutdownTime grace grpc hooks http =
     (let remaining = grace - grpc;
          hookTime = (if 0 < remaining then min hooks remaining else 0);
          window = maxDuration (grace - (grpc + hookTime)) 1000000000
      in grpc + hookTime + min http window)"

end
