(* ===== verification/StartUpProofs.thy ===== *)
theory StartUpProofs
  imports StartUp HSMProofs
begin

text \<open>
  What a server that has started signs with and how it is reached, and how long it takes to stop.
\<close>

subsection \<open>Signers\<close>







lemma hmac_kept [simp]:
  "hmacHex hmac (AddMLDSASigner sign pub orch) m = hmacHex hmac orch m"
  "hmacHex hmac (SetMLDSACommandCert der orch) m = hmacHex hmac orch m"
  by (cases "hsmMAC orch"; simp add: hmacHex_def AddMLDSASigner_def SetMLDSACommandCert_def)+





lemma started_parts:
  assumes "startServer v = Inr s"
  shows "\<exists>b. syConfig v = Inr (sdConfig s) \<and> grpcTransport v (sdConfig s) = Inr (sdTransport s) \<and>
    NewBackend (syHSM v) (LoadConfigFromEnv (syReadFile v) (syGet v)) (syToken v) = Inr b \<and>
    signers v (sdConfig s) (LoadConfigFromEnv (syReadFile v) (syGet v)) b = Inr (sdHSM s, sdOrch s)"
proof -
  note a = assms [unfolded startServer_def Let_def]
  obtain cfg where cfg: "syConfig v = Inr cfg" using a by (cases "syConfig v") simp_all
  note a = a [unfolded cfg sum.case]
  have ff: "firstFailure [syConnect v, sySchema v, syEngine v, syNotifier v] = None"
    using a by (cases "firstFailure [syConnect v, sySchema v, syEngine v, syNotifier v]") simp_all
  note a = a [unfolded ff option.case]
  obtain tr where tr: "grpcTransport v cfg = Inr tr" using a by (cases "grpcTransport v cfg") simp_all
  note a = a [unfolded tr sum.case]
  have ls: "syListen v (GRPCAddr cfg) = None" using a by (cases "syListen v (GRPCAddr cfg)") simp_all
  note a = a [unfolded ls option.case]
  let ?h = "LoadConfigFromEnv (syReadFile v) (syGet v)"
  obtain b where b: "NewBackend (syHSM v) ?h (syToken v) = Inr b"
    using a by (cases "NewBackend (syHSM v) ?h (syToken v)") simp_all
  note a = a [unfolded b sum.case]
  obtain r where sg: "signers v cfg ?h b = Inr r" using a by (cases "signers v cfg ?h b") simp_all
  from a [unfolded sg sum.case] show ?thesis using cfg tr b sg by (cases r) auto
qed


text \<open>What a setting asks for is not ignored: a key file is, by every store.\<close>

lemma key_file_ignored:
  "mldsaLayer (v\<lparr>syGet := (syGet v)(''JANUS_COMMAND_SIG_KEY_FILE'' := f)\<rparr>) (Some h) orch = mldsaLayer v (Some h) orch"
  by (simp add: mldsaLayer_def strSetting_def cong: prod.case_cong sum.case_cong)

text \<open>A token keeps the command key it has: another key in the configuration changes nothing.\<close>

lemma token_keeps_old_key:
  "findOne x CKO_SECRET_KEY label p = (Inr h, p1) \<Longrightarrow> h \<noteq> 0 \<Longrightarrow> key \<noteq> [] \<Longrightarrow> p11_EnsureMACKey x label key p = (Inr (), p1)"
  by (simp add: p11_EnsureMACKey_def)

subsection \<open>Transport\<close>

lemma FromEnv_mtls: "FromEnv getenv rd bcrypt pd parse ip = Inr cfg \<Longrightarrow> RequireMTLS cfg \<Longrightarrow> RequireTLS cfg"
  by (erule FromEnv_cases) (simp add: readSettings_def)

lemma transport_required:
  assumes "grpcTransport v cfg = Inr tr"
  shows "(RequireTLS cfg \<longrightarrow> tr \<noteq> PlainGRPC) \<and> (RequireTLS cfg \<and> RequireMTLS cfg \<longrightarrow> tr = MutualTLS13)"
  using assms by (auto simp: grpcTransport_def split: if_splits option.splits sum.splits)

text \<open>A server configured from its environment never serves agents in the clear when TLS is required, nor without their
  certificates when mutual TLS is.\<close>

theorem required_transport:
  assumes "startServer v = Inr s" and "syConfig v = FromEnv getenv rd bcrypt pd parse ip"
  shows "(RequireTLS (sdConfig s) \<longrightarrow> sdTransport s \<noteq> PlainGRPC) \<and> (RequireMTLS (sdConfig s) \<longrightarrow> sdTransport s = MutualTLS13)"
proof -
  from started_parts [OF assms(1)] have c: "syConfig v = Inr (sdConfig s)" and t: "grpcTransport v (sdConfig s) = Inr (sdTransport s)"
    by blast+
  have "RequireMTLS (sdConfig s) \<longrightarrow> RequireTLS (sdConfig s)" using FromEnv_mtls assms(2) c by metis
  with transport_required [OF t] show ?thesis by blast
qed

subsection \<open>Drain\<close>

text \<open>The grace period bounds what follows the streams, not the streams.\<close>

lemma shutdown_after_streams:
  "0 \<le> hooks \<Longrightarrow> 0 \<le> http \<Longrightarrow> shutdownTime grace grpc hooks http \<le> max grace grpc + 1000000000"
  by (auto simp: shutdownTime_def maxDuration_def Let_def min_def max_def)

lemma shutdown_unbounded: "\<exists>grpc. n < shutdownTime grace grpc 0 0"
  by (intro exI [of _ "max grace n + 1"]) (auto simp: shutdownTime_def maxDuration_def max_def)

subsection \<open>Witness\<close>



end
