(* ===== verification/AgentCli.thy ===== *)
theory AgentCli
  imports AgentAuth Config
begin

text \<open>
  The command line of \<^verbatim>\<open>cmd/janus-server/cli.go\<close> and \<^verbatim>\<open>cli_agent.go\<close>: \<open>gen-hmac-key\<close> and the management of
  agent identities, with package \<open>flag\<close> for string flags. It shares the table of credentials with the server;
  the clock, UUIDs, random bytes, \<open>%q\<close> and the dates are parameters. The layout of \<open>tabwriter\<close> is left out.
\<close>

subsection \<open>Flags\<close>

text \<open>\<open>FlagSet.Parse\<close> with \<open>ExitOnError\<close>: the exit code, or the values that were set.\<close>

definition flagName :: "string \<Rightarrow> string" where
  "flagName s = (case s of _ # c # r \<Rightarrow> if c = CHR ''-'' then r else c # r | _ \<Rightarrow> [])"

fun parseFlags :: "string list \<Rightarrow> (string \<rightharpoonup> string) \<Rightarrow> string list \<Rightarrow> nat + (string \<rightharpoonup> string)" where
  "parseFlags names m [] = Inr m"
| "parseFlags names m (s # args) =
     (if length s < 2 \<or> hd s \<noteq> CHR ''-'' then Inr m
      else if s = ''--'' then Inr m
      else let body = flagName s; name = uptoByte (CHR ''='') body in
        if body = [] \<or> hd body = CHR ''-'' \<or> hd body = CHR ''='' then Inl 2
        else if name \<notin> set names then (if name = ''help'' \<or> name = ''h'' then Inl 0 else Inl 2)
        else if CHR ''='' \<in> set body then parseFlags names (m(name \<mapsto> drop (length name + 1) body)) args
        else (case args of [] \<Rightarrow> Inl 2 | v # rest \<Rightarrow> parseFlags names (m(name \<mapsto> v)) rest))"

definition flagOr :: "(string \<rightharpoonup> string) \<Rightarrow> string \<Rightarrow> string \<Rightarrow> string" where
  "flagOr m name dflt = (case m name of None \<Rightarrow> dflt | Some v \<Rightarrow> v)"

subsection \<open>Commands\<close>

record CliEnv =
  ceGetenv :: "string \<Rightarrow> string"
  ceReadFile :: reader
  ceConnect :: goerror
  ceHkdf :: "string \<Rightarrow> string \<Rightarrow> string option"
  ceUUID :: string
  ceNow :: int
  ceRandom :: "string result"
  ceQuote :: "string \<Rightarrow> string"
  ceDate :: "int \<Rightarrow> string"
  ceRFC3339 :: "int \<Rightarrow> string"

text \<open>The exit code with the text for stderr, or the lines printed.\<close>

datatype cliResult = Exit nat string | Printed "string list"

definition agentMasterKey :: "CliEnv \<Rightarrow> string result" where
  "agentMasterKey v =
     (let path = ceGetenv v ''JANUS_AGENT_KEY_MASTER_FILE''; m = trimSpace (ceGetenv v ''JANUS_AGENT_KEY_MASTER'') in
      if path \<noteq> []
      then (case ceReadFile v path of
              Inl e \<Rightarrow> Inl (''agent enroll: read JANUS_AGENT_KEY_MASTER_FILE: '' @ e)
            | Inr raw \<Rightarrow> Inr (trimSpace raw))
      else if m = [] then Inl ''agent enroll: set JANUS_AGENT_KEY_MASTER (hex) or JANUS_AGENT_KEY_MASTER_FILE''
      else Inr m)"

definition agentEnroll :: "CliEnv \<Rightarrow> string list \<Rightarrow> CredDB \<Rightarrow> cliResult \<times> CredDB" where
  "agentEnroll v args db =
     (case parseFlags [''label'', ''host-uuid'', ''tenant''] Map.empty args of
        Inl code \<Rightarrow> (Exit code [], db)
      | Inr m \<Rightarrow>
          (case agentMasterKey v of
             Inl e \<Rightarrow> (Exit 1 e, db)
           | Inr master \<Rightarrow>
               (case DeriveKey (ceHkdf v) master (ceUUID v) of
                  Inl e \<Rightarrow> (Exit 1 (''agent enroll: derive key: '' @ e), db)
                | Inr key \<Rightarrow>
                    (case ceConnect v of
                       Some e \<Rightarrow> (Exit 1 e, db)
                     | None \<Rightarrow>
                         (case UpsertAgentCredential (ceNow v)
                             \<lparr>acAgentID = ceUUID v, acHostUUID = flagOr m ''host-uuid'' [], KeyMode = ''derived'', KeyEnc = [],
                              acStatus = ''active'', acLabel = flagOr m ''label'' [], acTenantID = flagOr m ''tenant'' ''default'',
                              EnrolledBy = ''cli'', EnrolledAt = 0, LastAuthAt = None, RevokedAt = None, RevokedReason = []\<rparr> db of
                            (Some e, db1) \<Rightarrow> (Exit 1 (''agent enroll: '' @ e), db1)
                          | (None, db1) \<Rightarrow>
                              (Printed [''# Per-agent identity enrolled - put these in the agent package (janus-agent.toml):'',
                                 ''agent_id  = '' @ ceQuote v (ceUUID v), ''agent_key = '' @ ceQuote v (hexEncode key)], db1))))))"

definition agentSetStatus :: "CliEnv \<Rightarrow> string list \<Rightarrow> string \<Rightarrow> CredDB \<Rightarrow> cliResult \<times> CredDB" where
  "agentSetStatus v args status db =
     (case parseFlags [''id'', ''reason''] Map.empty args of
        Inl code \<Rightarrow> (Exit code [], db)
      | Inr m \<Rightarrow>
          (let i = flagOr m ''id'' [] in
           if i = [] then (Exit 2 ''agent: --id is required'', db)
           else case ceConnect v of
             Some e \<Rightarrow> (Exit 1 e, db)
           | None \<Rightarrow>
               (case SetAgentCredentialStatus (ceNow v) i status (flagOr m ''reason'' []) db of
                  (Some e, db1) \<Rightarrow> (Exit 1 (''agent: '' @ e), db1)
                | (None, db1) \<Rightarrow> (Printed [''agent '' @ i @ '' -> '' @ status], db1))))"

definition ListAgentCredentials :: "CredDB \<Rightarrow> AgentCredential list result" where
  "ListAgentCredentials db =
     (case credFault db of
        Some e \<Rightarrow> Inl e
      | None \<Rightarrow> Inr (map (\<lambda>c. c\<lparr>KeyEnc := []\<rparr>) (rev (sort_key EnrolledAt (rev (credRows db))))))"

definition listRow :: "CliEnv \<Rightarrow> AgentCredential \<Rightarrow> string" where
  "listRow v c = joinWith [CHR 0x09]
     [acAgentID c, acStatus c, defaultTo ''default'' (acTenantID c), acLabel c, ceDate v (EnrolledAt c),
      (case LastAuthAt c of None \<Rightarrow> ''-'' | Some t \<Rightarrow> ceRFC3339 v t)]"

definition agentList :: "CliEnv \<Rightarrow> CredDB \<Rightarrow> cliResult" where
  "agentList v db =
     (case ceConnect v of
        Some e \<Rightarrow> Exit 1 e
      | None \<Rightarrow>
          (case ListAgentCredentials db of
             Inl e \<Rightarrow> Exit 1 (''agent list: '' @ e)
           | Inr cs \<Rightarrow> Printed (joinWith [CHR 0x09] [''AGENT_ID'', ''STATUS'', ''TENANT'', ''LABEL'', ''ENROLLED'', ''LAST_AUTH'']
                         # map (listRow v) cs)))"

definition runAgentCLI :: "CliEnv \<Rightarrow> string list \<Rightarrow> CredDB \<Rightarrow> cliResult \<times> CredDB" where
  "runAgentCLI v args db =
     (case args of
        [] \<Rightarrow> (Exit 2 ''usage'', db)
      | sub # rest \<Rightarrow>
          if sub = ''enroll'' then agentEnroll v rest db
          else if sub = ''revoke'' then agentSetStatus v rest ''revoked'' db
          else if sub = ''disable'' then agentSetStatus v rest ''disabled'' db
          else if sub = ''activate'' then agentSetStatus v rest ''active'' db
          else if sub = ''list'' then (agentList v db, db)
          else (Exit 2 ''usage'', db))"

definition genHMACKey :: "CliEnv \<Rightarrow> cliResult" where
  "genHMACKey v = (case ceRandom v of Inl e \<Rightarrow> Exit 1 (''gen-hmac-key: '' @ e) | Inr b \<Rightarrow> Printed [hexEncode b])"

end
