(* ===== verification/Der.thy ===== *)
theory Der
  imports GoLib "HOL-Library.Char_ord" "HOL-Library.List_Lexorder"
begin

text \<open>
  What \<^verbatim>\<open>certmanager/mldsa_cert.go\<close> uses of \<open>encoding/asn1\<close>: DER elements written and read, with Go's rules
  for identifiers, lengths, bit strings, integers, object identifiers and explicit tags. A reader takes the
  remaining bytes and gives the value with what follows it; None is any error.
\<close>

subsection \<open>Writing\<close>

fun beBytes :: "nat \<Rightarrow> string" where
  "beBytes n = (if n < 256 then [char_of n] else beBytes (n div 256) @ [char_of (n mod 256)])"

declare beBytes.simps [simp del]

definition derLength :: "nat \<Rightarrow> string" where
  "derLength n = (if n < 128 then [char_of n] else char_of (128 + length (beBytes n)) # beBytes n)"

text \<open>An element: the identifier octet, the length, the content.\<close>

definition tlv :: "nat \<Rightarrow> string \<Rightarrow> string" where
  "tlv b c = char_of b # derLength (length c) @ c"

fun septets :: "nat \<Rightarrow> nat list" where
  "septets n = (if n < 128 then [n] else septets (n div 128) @ [n mod 128])"

declare septets.simps [simp del]

definition base128 :: "nat \<Rightarrow> string" where
  "base128 n = (let s = septets n in map (\<lambda>d. char_of (128 + d)) (butlast s) @ [char_of (last s)])"

definition oidContent :: "nat list \<Rightarrow> string" where
  "oidContent ns = (case ns of a # b # rest \<Rightarrow> base128 (40 * a + b) @ concat (map base128 rest) | _ \<Rightarrow> [])"

definition oidDER :: "nat list \<Rightarrow> string" where
  "oidDER ns = tlv 6 (oidContent ns)"

definition integerDER :: "nat \<Rightarrow> string" where
  "integerDER n = tlv 2 (if 128 \<le> (of_char (hd (beBytes n)) :: nat) then CHR 0x00 # beBytes n else beBytes n)"

text \<open>The bytes and the number of unused bits of the last.\<close>

definition bitStringDER :: "nat \<Rightarrow> string \<Rightarrow> string" where
  "bitStringDER unused bs = tlv 3 (char_of unused # bs)"

definition sequenceDER :: "string list \<Rightarrow> string" where
  "sequenceDER es = tlv 0x30 (concat es)"

definition setDER :: "string list \<Rightarrow> string" where
  "setDER es = tlv 0x31 (concat (sort es))"

subsection \<open>Reading\<close>

type_synonym 'a parser = "string \<Rightarrow> ('a \<times> string) option"

text \<open>\<open>parseBase128Int\<close>: at most five bytes, no leading zero digit, below \<open>2^31\<close>.\<close>

fun readBase128 :: "nat \<Rightarrow> nat \<Rightarrow> nat parser" where
  "readBase128 k acc [] = None"
| "readBase128 k acc (c # s) =
     (let b = of_char c :: nat; v = acc * 128 + b mod 128 in
      if k = 5 \<or> (k = 0 \<and> b = 128) then None
      else if b < 128 then (if v < 2 ^ 31 then Some (v, s) else None)
      else readBase128 (k + 1) v s)"

fun readLengthBytes :: "nat \<Rightarrow> nat \<Rightarrow> nat parser" where
  "readLengthBytes 0 acc s = (if acc < 128 then None else Some (acc, s))"
| "readLengthBytes (Suc k) acc [] = None"
| "readLengthBytes (Suc k) acc (c # s) =
     (if 2 ^ 23 \<le> acc then None
      else let v = acc * 256 + of_char c in if v = 0 then None else readLengthBytes k v s)"

definition readLength :: "nat parser" where
  "readLength s =
     (case s of [] \<Rightarrow> None
      | c # r \<Rightarrow> (let b = of_char c :: nat in
          if b < 128 then Some (b, r) else if b = 128 then None else readLengthBytes (b - 128) 0 r))"

text \<open>Class, whether constructed, tag number; and the length.\<close>

type_synonym tagged = "nat \<times> bool \<times> nat"

definition readHeader :: "(tagged \<times> nat) parser" where
  "readHeader s =
     (case s of [] \<Rightarrow> None
      | c # r \<Rightarrow> (let b = of_char c :: nat; cls = b div 64; compound = (b div 32 mod 2 = 1) in
          case (if b mod 32 \<noteq> 31 then Some (b mod 32, r)
                else case readBase128 0 0 r of None \<Rightarrow> None | Some (t, r1) \<Rightarrow> if t < 31 then None else Some (t, r1)) of
            None \<Rightarrow> None
          | Some (t, r1) \<Rightarrow> (case readLength r1 of None \<Rightarrow> None | Some (n, r2) \<Rightarrow> Some (((cls, compound, t), n), r2))))"

text \<open>The content of an element whose header was read.\<close>

definition readContent :: "nat \<Rightarrow> string parser" where
  "readContent n s = (if length s < n then None else Some (take n s, drop n s))"

definition expectTag :: "tagged \<Rightarrow> string parser" where
  "expectTag t s =
     (case readHeader s of None \<Rightarrow> None
      | Some ((t', n), r) \<Rightarrow> if t' = t then readContent n r else None)"

text \<open>\<open>asn1.RawValue\<close>: any element, whole.\<close>

definition readRaw :: "string parser" where
  "readRaw s =
     (case readHeader s of None \<Rightarrow> None
      | Some ((t, n), r) \<Rightarrow> (case readContent n r of None \<Rightarrow> None
          | Some (c, r') \<Rightarrow> Some (take (length s - length r') s, r')))"

text \<open>A struct or a slice: the reader of the fields gets the content; what it leaves of a struct is ignored.\<close>

definition readSequence :: "'a parser \<Rightarrow> 'a parser" where
  "readSequence p s =
     (case expectTag (0, True, 16) s of None \<Rightarrow> None
      | Some (c, r) \<Rightarrow> map_option (\<lambda>(a, left). (a, r)) (p c))"

text \<open>\<open>explicit,tag:n\<close>: the header of the wrapper, then the element.\<close>

definition readExplicit :: "nat \<Rightarrow> 'a parser \<Rightarrow> 'a parser" where
  "readExplicit n p s =
     (case readHeader s of None \<Rightarrow> None
      | Some (((cls, compound, t), len), r) \<Rightarrow>
          if r = [] then None
          else if cls = 2 \<and> t = n \<and> compound \<and> 0 < len then p r else None)"

fun readComponents :: "nat \<Rightarrow> nat list parser" where
  "readComponents 0 s = (if s = [] then Some ([], []) else None)"
| "readComponents (Suc k) s =
     (if s = [] then Some ([], [])
      else case readBase128 0 0 s of None \<Rightarrow> None
        | Some (v, r) \<Rightarrow> map_option (\<lambda>(vs, r'). (v # vs, r')) (readComponents k r))"

definition readOID :: "nat list parser" where
  "readOID s =
     (case expectTag (0, False, 6) s of None \<Rightarrow> None
      | Some (c, r) \<Rightarrow>
          (case readComponents (length c) c of
             Some (v # vs, []) \<Rightarrow> Some ((if v < 80 then [v div 40, v mod 40] else [2, v - 80]) @ vs, r)
           | _ \<Rightarrow> None))"

text \<open>\<open>checkInteger\<close>: not empty and minimal.\<close>

definition minimalInteger :: "string \<Rightarrow> bool" where
  "minimalInteger c \<longleftrightarrow>
     (case c of [] \<Rightarrow> False | [a] \<Rightarrow> True
      | a # b # r \<Rightarrow> \<not> ((of_char a = (0 :: nat) \<and> (of_char b :: nat) < 128) \<or> (of_char a = (255 :: nat) \<and> 128 \<le> (of_char b :: nat))))"

definition readInteger :: "string parser" where
  "readInteger s =
     (case expectTag (0, False, 2) s of None \<Rightarrow> None
      | Some (c, r) \<Rightarrow> if minimalInteger c then Some (c, r) else None)"

text \<open>A Go \<open>int\<close> has eight bytes.\<close>

definition readInt :: "string parser" where
  "readInt s = (case readInteger s of None \<Rightarrow> None | Some (c, r) \<Rightarrow> if 8 < length c then None else Some (c, r))"

definition readBitString :: "string parser" where
  "readBitString s =
     (case expectTag (0, False, 3) s of None \<Rightarrow> None
      | Some ([], r) \<Rightarrow> None
      | Some (p # bs, r) \<Rightarrow>
          (let unused = of_char p :: nat in
           if 7 < unused \<or> (bs = [] \<and> 0 < unused) \<or> (of_char (last (p # bs)) :: nat) mod 2 ^ unused \<noteq> 0 then None
           else Some (bs, r)))"

definition readBool :: "bool parser" where
  "readBool s =
     (case expectTag (0, False, 1) s of
        Some ([c], r) \<Rightarrow> if c = CHR 0x00 then Some (False, r) else if c = CHR 0xFF then Some (True, r) else None
      | _ \<Rightarrow> None)"

text \<open>An optional boolean is absent at the end or when another element comes first.\<close>

definition readOptionalBool :: "bool parser" where
  "readOptionalBool s =
     (if s = [] then Some (False, s)
      else case readHeader s of None \<Rightarrow> None
        | Some ((t, n), r) \<Rightarrow> if t = (0, False, 1) then readBool s else Some (False, s))"

fun readMany :: "nat \<Rightarrow> 'a parser \<Rightarrow> 'a list parser" where
  "readMany 0 p s = (if s = [] then Some ([], []) else None)"
| "readMany (Suc k) p s =
     (if s = [] then Some ([], [])
      else case p s of None \<Rightarrow> None | Some (a, r) \<Rightarrow> map_option (\<lambda>(as, r'). (a # as, r')) (readMany k p r))"

definition andThen :: "'a parser \<Rightarrow> ('a \<Rightarrow> 'b parser) \<Rightarrow> 'b parser" where
  "andThen p f s = (case p s of None \<Rightarrow> None | Some (a, r) \<Rightarrow> f a r)"

subsection \<open>Reading what was written\<close>

lemma of_char_lt [simp]: "(of_char c :: nat) < 256"
  using nat_of_char_less_256 by simp

definition beVal :: "nat \<Rightarrow> string \<Rightarrow> nat" where
  "beVal a s = foldl (\<lambda>a c. a * 256 + of_char c) a s"

lemma beVal_simps [simp]: "beVal a [] = a" "beVal a (c # s) = beVal (a * 256 + of_char c) s"
  "beVal a (s @ t) = beVal (beVal a s) t"
  by (simp_all add: beVal_def)

lemma beVal_beBytes: "beVal 0 (beBytes n) = n"
proof (induction n rule: beBytes.induct)
  case (1 n)
  then show ?case by (subst beBytes.simps) (simp add: of_char_of)
qed

lemma beBytes_not_Nil [simp]: "beBytes n \<noteq> []"
  by (subst beBytes.simps) simp

lemma hd_beBytes: "0 < n \<Longrightarrow> 0 < (of_char (hd (beBytes n)) :: nat)"
proof (induction n rule: beBytes.induct)
  case (1 n)
  then show ?case by (subst beBytes.simps) (auto simp: of_char_of hd_append)
qed

lemma length_beBytes: "n < 256 ^ Suc k \<Longrightarrow> length (beBytes n) \<le> Suc k"
proof (induction n arbitrary: k rule: beBytes.induct)
  case (1 n)
  show ?case
  proof (cases "n < 256")
    case True
    then show ?thesis by (subst beBytes.simps) simp
  next
    case False
    then obtain j where "k = Suc j" using 1(2) by (cases k) auto
    with 1 False have "length (beBytes (n div 256)) \<le> Suc j" by (intro 1(1)) (auto simp: div_less_iff_less_mult)
    with False \<open>k = Suc j\<close> show ?thesis by (subst beBytes.simps) simp
  qed
qed

text \<open>Sizes that a Go length takes.\<close>

abbreviation sized :: "string \<Rightarrow> bool" where
  "sized c \<equiv> length c < 2 ^ 31"

lemma beVal_ge: "a \<le> beVal a s"
proof (induction s arbitrary: a)
  case (Cons c s)
  have "a \<le> a * 256 + of_char c" by simp
  with Cons [of "a * 256 + of_char c"] show ?case by simp
qed simp

lemma readLengthBytes_ok:
  "beVal a bs < 2 ^ 31 \<Longrightarrow> 128 \<le> beVal a bs \<Longrightarrow> bs = [] \<or> 0 < a \<or> 0 < (of_char (hd bs) :: nat) \<Longrightarrow>
     readLengthBytes (length bs) a (bs @ r) = Some (beVal a bs, r)"
proof (induction bs arbitrary: a)
  case (Cons c bs)
  have "a * 256 + of_char c < 2 ^ 31" using beVal_ge [of "a * 256 + of_char c" bs] Cons.prems(1) by simp
  then have "a < 2 ^ 23" by simp
  moreover have "0 < a * 256 + (of_char c :: nat)" using Cons.prems(3) by auto
  ultimately show ?case using Cons.IH [of "a * 256 + of_char c"] Cons.prems(1,2) by (simp add: Let_def)
qed simp

lemma readLength_derLength: "n < 2 ^ 31 \<Longrightarrow> readLength (derLength n @ r) = Some (n, r)"
proof (cases "n < 128")
  case True
  then show ?thesis by (simp add: readLength_def derLength_def of_char_of)
next
  case False
  assume n: "n < 2 ^ 31"
  then have "length (beBytes n) \<le> 4" using length_beBytes [of n 3] by simp
  moreover have "0 < length (beBytes n)" by simp
  ultimately have "readLength (derLength n @ r) = readLengthBytes (length (beBytes n)) 0 (beBytes n @ r)"
    using False by (simp add: readLength_def derLength_def of_char_of Let_def)
  also have "\<dots> = Some (n, r)"
    using readLengthBytes_ok [of 0 "beBytes n" r] hd_beBytes [of n] False n by (simp add: beVal_beBytes)
  finally show ?thesis .
qed

lemma readHeader_tlv:
  "b < 256 \<Longrightarrow> b mod 32 \<noteq> 31 \<Longrightarrow> sized c \<Longrightarrow>
     readHeader (tlv b c @ r) = Some (((b div 64, b div 32 mod 2 = 1, b mod 32), length c), c @ r)"
  by (simp add: readHeader_def tlv_def of_char_of readLength_derLength Let_def)

lemma readContent_append [simp]: "readContent (length c) (c @ r) = Some (c, r)"
  by (simp add: readContent_def)

lemma expectTag_tlv:
  "b < 256 \<Longrightarrow> b mod 32 \<noteq> 31 \<Longrightarrow> sized c \<Longrightarrow> t = (b div 64, b div 32 mod 2 = 1, b mod 32) \<Longrightarrow>
     expectTag t (tlv b c @ r) = Some (c, r)"
  by (simp add: expectTag_def readHeader_tlv)

lemma readRaw_tlv: "b < 256 \<Longrightarrow> b mod 32 \<noteq> 31 \<Longrightarrow> sized c \<Longrightarrow> readRaw (tlv b c @ r) = Some (tlv b c, r)"
  by (simp add: readRaw_def readHeader_tlv)

lemma sized_content: "sized (tlv b c) \<Longrightarrow> sized c"
  by (simp add: tlv_def)

lemma readSequence_tlv:
  "sized (concat es) \<Longrightarrow> p (concat es) = Some (a, left) \<Longrightarrow> readSequence p (sequenceDER es @ r) = Some (a, r)"
  by (simp add: readSequence_def sequenceDER_def expectTag_tlv)

lemma readBitString_DER: "length bs < 2 ^ 31 - 1 \<Longrightarrow> readBitString (bitStringDER 0 bs @ r) = Some (bs, r)"
  by (simp add: readBitString_def bitStringDER_def expectTag_tlv of_char_of Let_def)

lemma minimal_integer:
  "minimalInteger (if 128 \<le> (of_char (hd (beBytes n)) :: nat) then CHR 0x00 # beBytes n else beBytes n)"
proof -
  obtain c s where c: "beBytes n = c # s" using beBytes_not_Nil list.exhaust by blast
  show ?thesis
  proof (cases "n = 0")
    case True
    then have "beBytes n = [char_of (0 :: nat)]" by (subst beBytes.simps) simp
    then show ?thesis by (simp add: minimalInteger_def of_char_of)
  next
    case False
    with hd_beBytes [of n] c have "0 < (of_char c :: nat)" by simp
    moreover have "(of_char c :: nat) < 256" by simp
    ultimately show ?thesis by (cases s) (auto simp: c minimalInteger_def)
  qed
qed

lemma readInteger_DER: "length (beBytes n) < 2 ^ 31 - 1 \<Longrightarrow> \<exists>c. \<forall>r. readInteger (integerDER n @ r) = Some (c, r)"
  using minimal_integer [of n]
  by (intro exI [of _ "if 128 \<le> (of_char (hd (beBytes n)) :: nat) then CHR 0x00 # beBytes n else beBytes n"])
    (simp add: readInteger_def integerDER_def expectTag_tlv)

lemma readExplicit_tlv:
  "n < 31 \<Longrightarrow> sized c \<Longrightarrow> c \<noteq> [] \<Longrightarrow> p (c @ r) = Some (a, r') \<Longrightarrow> readExplicit n p (tlv (160 + n) c @ r) = Some (a, r')"
proof -
  assume n: "n < 31" and c: "sized c" "c \<noteq> []" "p (c @ r) = Some (a, r')"
  have "(160 + n) div 64 = 2" "(160 + n) div 32 = 5" "(160 + n) mod 32 = n"
    using n mod_mult_self3 [of 5 32 n] by (simp_all add: div_nat_eqI)
  then have "readHeader (tlv (160 + n) c @ r) = Some (((2, True, n), length c), c @ r)"
    using readHeader_tlv [of "160 + n" c r] n c(1) by simp
  with c show ?thesis by (simp add: readExplicit_def)
qed

lemma tlv_not_Nil [simp]: "tlv b c \<noteq> []" by (simp add: tlv_def)

lemma length_tlv: "length c < length (tlv b c)" by (simp add: tlv_def)

lemma readMany_map:
  "(\<And>x r. x \<in> set xs \<Longrightarrow> p (f x @ r) = Some (g x, r)) \<Longrightarrow> (\<And>x. x \<in> set xs \<Longrightarrow> f x \<noteq> []) \<Longrightarrow> length xs \<le> k \<Longrightarrow>
     readMany k p (concat (map f xs)) = Some (map g xs, [])"
proof (induction xs arbitrary: k)
  case Nil
  then show ?case by (cases k) simp_all
next
  case (Cons x xs)
  then obtain j where "k = Suc j" by (cases k) auto
  with Cons show ?case by simp
qed

end
