(* ===== verification/Certs.thy ===== *)
theory Certs
  imports HSM Der
begin

text \<open>
  ML-DSA certificates, \<^verbatim>\<open>certmanager/mldsa_cert.go\<close>: one certificate, the chain of a root and a leaf that
  signs commands, and what the server and the agent read back. The ASN.1 layer is \<open>Der\<close>; its errors are
  not told apart. \<open>crTime\<close> writes a time as UTCTime or GeneralizedTime (with its tag), \<open>crReadTime\<close> reads
  one; UTF-8 validity, PEM, calendar days and the encodings of circl are parameters too. A serial number is
  what \<open>rand.Int\<close> gives, not negative.
\<close>

subsection \<open>Parameters\<close>

definition oidMLDSA44 :: "nat list" where "oidMLDSA44 = [2, 16, 840, 1, 101, 3, 4, 3, 17]"
definition oidMLDSA65 :: "nat list" where "oidMLDSA65 = [2, 16, 840, 1, 101, 3, 4, 3, 18]"
definition oidMLDSA87 :: "nat list" where "oidMLDSA87 = [2, 16, 840, 1, 101, 3, 4, 3, 19]"

record CertEnv =
  crSchemes :: Schemes
  crTime :: "int \<Rightarrow> (nat \<times> string) option"
  crReadTime :: "nat \<Rightarrow> string \<Rightarrow> int option"
  crUTF8 :: "string \<Rightarrow> bool"
  crAddDays :: "int \<Rightarrow> int \<Rightarrow> int"
  crPEM :: "string \<Rightarrow> string \<Rightarrow> string"
  crMarshalPriv :: "string \<Rightarrow> string \<Rightarrow> string result"
  crUnmarshalPub :: "string \<Rightarrow> string \<Rightarrow> string result"

definition mldsaOID :: "CertEnv \<Rightarrow> string \<Rightarrow> nat list result" where
  "mldsaOID v scheme =
     (if scheme = ''ML-DSA-44'' then Inr oidMLDSA44
      else if scheme = ''ML-DSA-65'' then Inr oidMLDSA65
      else if scheme = ''ML-DSA-87'' then Inr oidMLDSA87
      else Inl (''certmanager: unknown ML-DSA scheme '' @ scQuote (crSchemes v) scheme))"

record Name =
  nmCommonName :: string
  nmOrganization :: "string list"

record MLDSACertParams =
  mpScheme :: string
  mpSerial :: nat
  mpSubject :: Name
  mpIssuer :: Name
  mpNotBefore :: int
  mpNotAfter :: int
  mpSubjectPub :: string
  mpIsCA :: bool
  mpDNSNames :: "string list"
  mpIPAddresses :: "string list"
  mpSignPriv :: string

subsection \<open>Names, times, extensions\<close>

definition printableByte :: "char \<Rightarrow> bool" where
  "printableByte c \<longleftrightarrow> isUpperByte c \<or> isLowerByte c \<or> isDigit c \<or>
     c \<in> {CHR '' '', CHR 0x27, CHR ''('', CHR '')'', CHR ''+'', CHR '','', CHR ''-'', CHR ''.'', CHR ''/'', CHR '':'', CHR ''='', CHR ''?''}"

definition directoryString :: "CertEnv \<Rightarrow> string \<Rightarrow> string option" where
  "directoryString v s =
     (if list_all printableByte s then Some (tlv 19 s) else if crUTF8 v s then Some (tlv 12 s) else None)"

definition attributeDER :: "CertEnv \<Rightarrow> nat list \<Rightarrow> string \<Rightarrow> string option" where
  "attributeDER v oid s = map_option (\<lambda>d. sequenceDER [oidDER oid, d]) (directoryString v s)"

fun collect :: "'a option list \<Rightarrow> 'a list option" where
  "collect [] = Some []"
| "collect (x # xs) = (case x of None \<Rightarrow> None | Some a \<Rightarrow> map_option (\<lambda>as. a # as) (collect xs))"

definition rdnDER :: "CertEnv \<Rightarrow> nat list \<Rightarrow> string list \<Rightarrow> string option" where
  "rdnDER v oid values = map_option setDER (collect (map (attributeDER v oid) values))"

text \<open>\<open>ToRDNSequence\<close>: organization before common name, empty ones left out.\<close>

definition nameDER :: "CertEnv \<Rightarrow> Name \<Rightarrow> string option" where
  "nameDER v n = map_option sequenceDER (collect
     ((if nmOrganization n = [] then [] else [rdnDER v [2, 5, 4, 10] (nmOrganization n)]) @
      (if nmCommonName n = [] then [] else [rdnDER v [2, 5, 4, 3] [nmCommonName n]])))"

definition timeDER :: "CertEnv \<Rightarrow> int \<Rightarrow> string option" where
  "timeDER v t = map_option (\<lambda>(tag, txt). tlv tag txt) (crTime v t)"

definition extensionDER :: "nat list \<times> bool \<times> string \<Rightarrow> string" where
  "extensionDER x = (case x of (oid, critical, val) \<Rightarrow>
     sequenceDER ([oidDER oid] @ (if critical then [tlv 1 [CHR 0xFF]] else []) @ [tlv 4 val]))"

definition ipBytes :: "string \<Rightarrow> string" where
  "ipBytes ip =
     (if length ip = 4 then ip
      else if length ip = 16
      then (if take 12 ip = replicate 10 (CHR 0x00) @ [CHR 0xFF, CHR 0xFF] then drop 12 ip else ip)
      else [])"

definition mldsaExtensions :: "MLDSACertParams \<Rightarrow> (nat list \<times> bool \<times> string) list" where
  "mldsaExtensions p =
     [([2, 5, 29, 19], True, sequenceDER (if mpIsCA p then [tlv 1 [CHR 0xFF]] else [])),
      ([2, 5, 29, 15], True, if mpIsCA p then bitStringDER 1 [CHR 0x06] else bitStringDER 7 [CHR 0x80])] @
     (if mpDNSNames p \<noteq> [] \<or> mpIPAddresses p \<noteq> []
      then [([2, 5, 29, 17], False, sequenceDER (map (tlv 0x82) (mpDNSNames p) @ map (\<lambda>ip. tlv 0x87 (ipBytes ip)) (mpIPAddresses p)))]
      else [])"

subsection \<open>Issuing\<close>

definition algorithmDER :: "nat list \<Rightarrow> string" where
  "algorithmDER oid = sequenceDER [oidDER oid]"

definition tbsDER :: "nat list \<Rightarrow> nat \<Rightarrow> string \<Rightarrow> string \<Rightarrow> string \<Rightarrow> string \<Rightarrow> string \<Rightarrow> (nat list \<times> bool \<times> string) list \<Rightarrow> string" where
  "tbsDER oid serial issuer notBefore notAfter subject pub exts =
     sequenceDER
       [tlv 0xA0 (integerDER 2), integerDER serial, algorithmDER oid, issuer, sequenceDER [notBefore, notAfter], subject,
        sequenceDER [algorithmDER oid, bitStringDER 0 pub], tlv 0xA3 (sequenceDER (map extensionDER exts))]"

definition certDER :: "nat list \<Rightarrow> string \<Rightarrow> string \<Rightarrow> string" where
  "certDER oid tbs sig = sequenceDER [tbs, algorithmDER oid, bitStringDER 0 sig]"

definition IssueMLDSACert :: "CertEnv \<Rightarrow> MLDSACertParams \<Rightarrow> string result" where
  "IssueMLDSACert v p =
     (case mldsaOID v (mpScheme p) of
        Inl e \<Rightarrow> Inl e
      | Inr oid \<Rightarrow>
          (case (nameDER v (mpIssuer p), nameDER v (mpSubject p)) of
             (None, _) \<Rightarrow> Inl ''certmanager: marshal issuer''
           | (Some i, None) \<Rightarrow> Inl ''certmanager: marshal subject''
           | (Some i, Some s) \<Rightarrow>
               (case scMarshal (crSchemes v) (mpScheme p) (mpSubjectPub p) of
                  Inl e \<Rightarrow> Inl (''certmanager: marshal public key: '' @ e)
                | Inr pub \<Rightarrow>
                    (case (timeDER v (mpNotBefore p), timeDER v (mpNotAfter p)) of
                       (Some nb, Some na) \<Rightarrow>
                         (let tbs = tbsDER oid (mpSerial p) i nb na s pub (mldsaExtensions p)
                          in Inr (certDER oid tbs (scSign (crSchemes v) (mpScheme p) (mpSignPriv p) tbs)))
                     | _ \<Rightarrow> Inl ''certmanager: marshal TBS''))))"

record MLDSAChain =
  mcScheme :: string
  mcRootCertPEM :: string
  mcRootKeyPEM :: string
  mcLeafCertPEM :: string
  mcLeafKeyPEM :: string
  mcRootPub :: string
  mcRootPriv :: string
  mcLeafPriv :: string
  mcLeafPub :: string
  mcRootCertDER :: string
  mcLeafCertDER :: string

text \<open>What the generation draws: both key pairs and serial numbers, and the clock.\<close>

record ChainDraw =
  cdRootPair :: "(string \<times> string) result"
  cdRootSerial :: "nat result"
  cdLeafPair :: "(string \<times> string) result"
  cdLeafSerial :: "nat result"
  cdNow :: int

definition chainName :: "string \<Rightarrow> Name" where
  "chainName cn = \<lparr>nmCommonName = cn, nmOrganization = [''Janus CryptoBOM'']\<rparr>"

definition chainCert :: "CertEnv \<Rightarrow> ChainDraw \<Rightarrow> string \<Rightarrow> nat \<Rightarrow> string \<Rightarrow> string \<Rightarrow> int \<Rightarrow> string \<Rightarrow> bool \<Rightarrow> string \<Rightarrow> string result" where
  "chainCert v d scheme serial subjectCN rootCN days pub isCA priv =
     IssueMLDSACert v \<lparr>mpScheme = scheme, mpSerial = serial, mpSubject = chainName subjectCN, mpIssuer = chainName rootCN,
       mpNotBefore = cdNow d - 300 * 1000000000, mpNotAfter = crAddDays v (cdNow d) days, mpSubjectPub = pub, mpIsCA = isCA,
       mpDNSNames = [], mpIPAddresses = [], mpSignPriv = priv\<rparr>"

definition IssueMLDSAChain :: "CertEnv \<Rightarrow> ChainDraw \<Rightarrow> string \<Rightarrow> string \<Rightarrow> string \<Rightarrow> int \<Rightarrow> MLDSAChain result" where
  "IssueMLDSAChain v d scheme rootCN leafCN days0 =
     (if \<not> scAvailable (crSchemes v) scheme
      then Inl (''certmanager: ML-DSA scheme '' @ scQuote (crSchemes v) scheme @ '' not available in this build'')
      else let days = (if days0 \<le> 0 then 365 else days0) in
        case cdRootPair d of Inl e \<Rightarrow> Inl (''certmanager: generate root key: '' @ e) | Inr (rootPub, rootPriv) \<Rightarrow>
        case cdRootSerial d of Inl e \<Rightarrow> Inl e | Inr rootSerial \<Rightarrow>
        case chainCert v d scheme rootSerial rootCN rootCN (days * 5) rootPub True rootPriv of Inl e \<Rightarrow> Inl e | Inr rootDER \<Rightarrow>
        case cdLeafPair d of Inl e \<Rightarrow> Inl (''certmanager: generate leaf key: '' @ e) | Inr (leafPub, leafPriv) \<Rightarrow>
        case cdLeafSerial d of Inl e \<Rightarrow> Inl e | Inr leafSerial \<Rightarrow>
        case chainCert v d scheme leafSerial leafCN rootCN days leafPub False rootPriv of Inl e \<Rightarrow> Inl e | Inr leafDER \<Rightarrow>
        case crMarshalPriv v scheme rootPriv of Inl e \<Rightarrow> Inl (''certmanager: marshal root key: '' @ e) | Inr rootKeyRaw \<Rightarrow>
        case crMarshalPriv v scheme leafPriv of Inl e \<Rightarrow> Inl (''certmanager: marshal leaf key: '' @ e) | Inr leafKeyRaw \<Rightarrow>
          Inr \<lparr>mcScheme = scheme, mcRootCertPEM = crPEM v ''CERTIFICATE'' rootDER,
               mcRootKeyPEM = crPEM v ''ML-DSA PRIVATE KEY'' rootKeyRaw, mcLeafCertPEM = crPEM v ''CERTIFICATE'' leafDER,
               mcLeafKeyPEM = crPEM v ''ML-DSA PRIVATE KEY'' leafKeyRaw, mcRootPub = rootPub, mcRootPriv = rootPriv,
               mcLeafPriv = leafPriv, mcLeafPub = leafPub, mcRootCertDER = rootDER, mcLeafCertDER = leafDER\<rparr>)"

subsection \<open>Reading\<close>

definition readAlgorithm :: "nat list parser" where
  "readAlgorithm = readSequence (andThen readOID (\<lambda>oid s. if s = [] then Some (oid, s)
     else map_option (\<lambda>(params, r). (oid, r)) (readRaw s)))"

text \<open>\<open>mldsaCertificate\<close>: the signed part whole, and the signature.\<close>

definition readCertificate :: "(string \<times> string) parser" where
  "readCertificate = readSequence (andThen readRaw (\<lambda>tbs. andThen readAlgorithm (\<lambda>alg. andThen readBitString (\<lambda>sig s.
     Some ((tbs, sig), s)))))"

definition MLDSATBSAndSig :: "string \<Rightarrow> (string \<times> string) result" where
  "MLDSATBSAndSig der =
     (case readCertificate der of None \<Rightarrow> Inl ''certmanager: unmarshal cert'' | Some (c, rest) \<Rightarrow> Inr c)"

definition readTime :: "CertEnv \<Rightarrow> int parser" where
  "readTime v s =
     (case readHeader s of None \<Rightarrow> None
      | Some ((t, n), r) \<Rightarrow>
          if t \<noteq> (0, False, 23) \<and> t \<noteq> (0, False, 24) then None
          else case readContent n r of None \<Rightarrow> None
            | Some (c, r') \<Rightarrow> map_option (\<lambda>i. (i, r')) (crReadTime v (snd (snd t)) c))"

definition readExtension :: "unit parser" where
  "readExtension = readSequence (andThen readOID (\<lambda>oid. andThen readOptionalBool (\<lambda>crit s.
     map_option (\<lambda>(val, r). ((), r)) (expectTag (0, False, 4) s))))"

definition readTBS :: "CertEnv \<Rightarrow> (nat list \<times> string) parser" where
  "readTBS v = readSequence
     (andThen (readExplicit 0 readInt) (\<lambda>version. andThen readInteger (\<lambda>serial. andThen readAlgorithm (\<lambda>alg.
      andThen readRaw (\<lambda>issuer. andThen (readSequence (andThen (readTime v) (\<lambda>nb. readTime v))) (\<lambda>validity.
      andThen readRaw (\<lambda>subject.
      andThen (readSequence (andThen readAlgorithm (\<lambda>oid. andThen readBitString (\<lambda>pub s. Some ((oid, pub), s))))) (\<lambda>spki.
      andThen (readExplicit 3 (readSequence (\<lambda>s. readMany (length s) readExtension s))) (\<lambda>exts s.
        Some (spki, s))))))))))"

definition schemeNameForOID :: "nat list \<Rightarrow> string" where
  "schemeNameForOID oid =
     (if oid = oidMLDSA44 then ''ML-DSA-44'' else if oid = oidMLDSA65 then ''ML-DSA-65''
      else if oid = oidMLDSA87 then ''ML-DSA-87'' else [])"

definition MLDSAPublicKeyFromCert :: "CertEnv \<Rightarrow> string \<Rightarrow> (string \<times> string) result" where
  "MLDSAPublicKeyFromCert v der =
     (case readCertificate der of
        None \<Rightarrow> Inl ''certmanager: unmarshal cert''
      | Some ((tbs, sig), rest) \<Rightarrow>
          (case readTBS v tbs of
             None \<Rightarrow> Inl ''certmanager: unmarshal tbs''
           | Some ((oid, raw), rest') \<Rightarrow>
               (let name = schemeNameForOID oid in
                if name = [] then Inl ''certmanager: SPKI algorithm is not ML-DSA''
                else case crUnmarshalPub v name raw of
                  Inl e \<Rightarrow> Inl (''certmanager: parse ML-DSA public key: '' @ e)
                | Inr pub \<Rightarrow> Inr (pub, name))))"

end
