(* ===== verification/CertsProofs.thy ===== *)
theory CertsProofs
  imports Certs
begin

text \<open>
  What is read back from an issued certificate is what was put in: readers that read what was written and leave
  the rest (\<open>reads\<close>) compose, element by element of the certificate.
\<close>

subsection \<open>Readers on what was written\<close>

definition reads :: "'a parser \<Rightarrow> string \<Rightarrow> 'a \<Rightarrow> bool" where
  "reads p x a \<longleftrightarrow> (\<forall>r. p (x @ r) = Some (a, r))"

lemma reads_bind: "reads p x a \<Longrightarrow> f a y = res \<Longrightarrow> andThen p f (x @ y) = res"
  by (simp add: reads_def andThen_def)

lemma reads_end: "reads p x a \<Longrightarrow> p x = Some (a, [])"
  unfolding reads_def by (metis append_Nil2)

lemma reads_sequence: "sized (concat es) \<Longrightarrow> p (concat es) = Some (a, left) \<Longrightarrow> reads (readSequence p) (sequenceDER es) a"
  by (simp add: reads_def readSequence_tlv)

lemma reads_raw: "b < 256 \<Longrightarrow> b mod 32 \<noteq> 31 \<Longrightarrow> sized c \<Longrightarrow> reads readRaw (tlv b c) (tlv b c)"
  by (simp add: reads_def readRaw_tlv)

lemma reads_bits: "length bs < 2 ^ 31 - 1 \<Longrightarrow> reads readBitString (bitStringDER 0 bs) bs"
  by (simp add: reads_def readBitString_DER)

lemma reads_explicit:
  assumes "reads p c a" and "n < 31" and "sized c" and "c \<noteq> []"
  shows "reads (readExplicit n p) (tlv (160 + n) c) a"
  using assms unfolding reads_def by (auto intro: readExplicit_tlv)

text \<open>The arcs that occur: one digit of base 128, or 840.\<close>

definition easyArc :: "nat \<Rightarrow> bool" where
  "easyArc n \<longleftrightarrow> n < 128 \<or> n = 840"

lemma base128_easy: "n < 128 \<Longrightarrow> base128 n = [char_of n]" "base128 840 = [char_of (134 :: nat), char_of (72 :: nat)]"
  by (simp_all add: base128_def septets.simps)

lemma readBase128_easy: "easyArc n \<Longrightarrow> readBase128 0 0 (base128 n @ r) = Some (n, r)"
  by (auto simp: easyArc_def base128_easy of_char_of)

lemma base128_not_Nil [simp]: "base128 n \<noteq> []"
  by (simp add: base128_def Let_def)

lemma readComponents_easy:
  "list_all easyArc ns \<Longrightarrow> length ns \<le> k \<Longrightarrow> readComponents k (concat (map base128 ns)) = Some (ns, [])"
proof (induction ns arbitrary: k)
  case Nil
  then show ?case by (cases k) simp_all
next
  case (Cons n ns)
  then obtain j where "k = Suc j" by (cases k) auto
  with Cons show ?case by (simp add: readBase128_easy)
qed

definition goodOID :: "nat list \<Rightarrow> bool" where
  "goodOID ns \<longleftrightarrow> (case ns of a # b # rest \<Rightarrow> a = 2 \<and> b < 40 \<and> list_all easyArc rest \<and> length rest \<le> 8 | _ \<Rightarrow> False)"

lemma goodOIDs:
  "goodOID oidMLDSA44" "goodOID oidMLDSA65" "goodOID oidMLDSA87" "goodOID [2, 5, 29, 19]" "goodOID [2, 5, 29, 15]" "goodOID [2, 5, 29, 17]"
  by (simp_all add: goodOID_def easyArc_def oidMLDSA44_def oidMLDSA65_def oidMLDSA87_def)

lemma length_easy: "list_all easyArc ns \<Longrightarrow> length ns \<le> length (concat (map base128 ns)) \<and> length (concat (map base128 ns)) \<le> 2 * length ns"
  by (induction ns) (auto simp: easyArc_def base128_easy)

lemma oid_length:
  assumes "goodOID ns"
  shows "length (oidContent ns) < 20" and "length (oidDER ns) < 2 ^ 8"
proof -
  obtain b rest where ns: "ns = 2 # b # rest" and b: "b < 40" and rest: "list_all easyArc rest" "length rest \<le> 8"
    using assms by (auto simp: goodOID_def split: list.splits)
  have "length (base128 (80 + b)) = 1" using b by (simp add: base128_easy)
  with length_easy [OF rest(1)] rest(2) show c: "length (oidContent ns) < 20" by (simp add: oidContent_def ns)
  then show "length (oidDER ns) < 2 ^ 8" by (simp add: oidDER_def tlv_def derLength_def)
qed

lemma reads_oid:
  assumes "goodOID ns"
  shows "reads readOID (oidDER ns) ns"
proof -
  obtain b rest where ns: "ns = 2 # b # rest" and b: "b < 40" and rest: "list_all easyArc rest" "length rest \<le> 8"
    using assms by (auto simp: goodOID_def split: list.splits)
  have content: "oidContent ns = concat (map base128 ((80 + b) # rest))" by (simp add: oidContent_def ns)
  have easy: "list_all easyArc ((80 + b) # rest)" using b rest by (simp add: easyArc_def)
  have "readComponents (length (oidContent ns)) (oidContent ns) = Some ((80 + b) # rest, [])"
    unfolding content using length_easy [OF easy] by (intro readComponents_easy easy) simp
  moreover have "expectTag (0, False, 6) (tlv 6 (oidContent ns) @ r) = Some (oidContent ns, r)" for r
    using oid_length(1) [OF assms] by (simp add: expectTag_tlv)
  ultimately show ?thesis by (simp add: reads_def readOID_def oidDER_def ns)
qed

lemma reads_algorithm:
  assumes "goodOID ns"
  shows "reads readAlgorithm (algorithmDER ns) ns"
  unfolding readAlgorithm_def algorithmDER_def
proof (rule reads_sequence)
  show "sized (concat [oidDER ns])" using oid_length(2) [OF assms] by simp
  show "andThen readOID (\<lambda>oid s. if s = [] then Some (oid, s) else map_option (\<lambda>(params, r). (oid, r)) (readRaw s))
      (concat [oidDER ns]) = Some (ns, [])"
    using reads_end [OF reads_oid [OF assms]] by (simp add: andThen_def)
qed

lemma reads_time:
  assumes "crReadTime v tag str = Some i" and "tag = 23 \<or> tag = 24" and "sized str"
  shows "reads (readTime v) (tlv tag str) i"
  using assms by (auto simp: reads_def readTime_def readHeader_tlv)

lemma reads_extension:
  assumes "goodOID oid" and "length val < 2 ^ 30"
  shows "reads readExtension (extensionDER (oid, critical, val)) ()"
proof -
  have o: "length (oidDER oid) < 2 ^ 8" using assms(1) by (rule oid_length)
  have v: "length (tlv 4 val) < 2 ^ 30 + 10"
    using assms(2) length_beBytes [of "length val" 3] by (simp add: tlv_def derLength_def)
  have t: "length (tlv 1 [CHR 0xFF]) = 3" by (simp add: tlv_def derLength_def)
  have bool: "readOptionalBool (tlv 1 [CHR 0xFF] @ r) = Some (True, r)" for r
    by (simp add: readOptionalBool_def readHeader_tlv readBool_def expectTag_tlv)
  have none: "readOptionalBool (tlv 4 val) = Some (False, tlv 4 val)"
    using assms(2) readHeader_tlv [of 4 val "[]"] by (simp add: readOptionalBool_def)
  have octets: "expectTag (0, False, 4) (tlv 4 val) = Some (val, [])"
    using assms(2) expectTag_tlv [of 4 val "(0, False, 4)" "[]"] by simp
  note oid = reads_oid [OF assms(1), unfolded reads_def, rule_format]
  show ?thesis
    unfolding readExtension_def extensionDER_def prod.case
  proof (rule reads_sequence)
    show "sized (concat ([oidDER oid] @ (if critical then [tlv 1 [CHR 0xFF]] else []) @ [tlv 4 val]))"
      using o v t by simp
    show "andThen readOID (\<lambda>oid. andThen readOptionalBool (\<lambda>crit s. map_option (\<lambda>(val, r). ((), r)) (expectTag (0, False, 4) s)))
        (concat ([oidDER oid] @ (if critical then [tlv 1 [CHR 0xFF]] else []) @ [tlv 4 val])) = Some ((), [])"
      using bool none octets by (simp add: andThen_def oid)
  qed
qed

subsection \<open>Issued certificates\<close>

lemma element_length: "x \<in> set es \<Longrightarrow> length x \<le> length (concat es)" for x :: string
  by (simp add: length_concat member_le_sum_list)

lemma sequence_length: "x \<in> set es \<Longrightarrow> length x < length (sequenceDER es)"
  using element_length [of x es] length_tlv [of "concat es" 48] by (simp add: sequenceDER_def)

lemma tlv_content: "length (tlv b c) < n \<Longrightarrow> length c < n"
  using length_tlv [of c b] by simp

lemma name_sequence: "nameDER v n = Some d \<Longrightarrow> \<exists>es. d = sequenceDER es"
  by (auto simp: nameDER_def)

lemma reads_raw_sequence: "length (sequenceDER es) < 2 ^ 30 \<Longrightarrow> reads readRaw (sequenceDER es) (sequenceDER es)"
  unfolding sequenceDER_def by (intro reads_raw) (auto dest: tlv_content)

lemma extension_not_Nil: "extensionDER x \<noteq> []"
  by (cases x) (simp add: extensionDER_def sequenceDER_def)

lemma length_concat_ge: "(\<And>x. x \<in> set xs \<Longrightarrow> f x \<noteq> []) \<Longrightarrow> length xs \<le> length (concat (map f xs))"
proof (induction xs)
  case (Cons x xs)
  then have "length xs \<le> length (concat (map f xs))" and "f x \<noteq> []" by simp_all
  then show ?case by (cases "f x") simp_all
qed simp

lemma reads_extensions:
  assumes "\<forall>(oid, crit, val) \<in> set exts. goodOID oid" and "length (sequenceDER (map extensionDER exts)) < 2 ^ 30"
  shows "reads (readSequence (\<lambda>s. readMany (length s) readExtension s)) (sequenceDER (map extensionDER exts)) (map (\<lambda>x. ()) exts)"
proof (rule reads_sequence)
  have "length (concat (map extensionDER exts)) < 2 ^ 30"
    using assms(2) unfolding sequenceDER_def by (rule tlv_content)
  then show "sized (concat (map extensionDER exts))" by simp
  have one: "readExtension (extensionDER x @ r) = Some ((), r)" if "x \<in> set exts" for x r
  proof -
    obtain oid crit val where x: "x = (oid, crit, val)" by (cases x)
    have "length (extensionDER x) < 2 ^ 30"
      using sequence_length [of "extensionDER x" "map extensionDER exts"] that assms(2) by simp
    moreover have "length (tlv 4 val) < length (extensionDER x)"
      unfolding x extensionDER_def prod.case by (rule sequence_length) simp
    ultimately have "length val < 2 ^ 30" using length_tlv [of val 4] by simp
    moreover have "goodOID oid" using assms(1) that x by auto
    ultimately show ?thesis using reads_extension [of oid val crit] by (simp add: reads_def x)
  qed
  have "length exts \<le> length (concat (map extensionDER exts))"
    using extension_not_Nil by (rule length_concat_ge)
  then show "readMany (length (concat (map extensionDER exts))) readExtension (concat (map extensionDER exts)) =
      Some (map (\<lambda>x. ()) exts, [])"
    using one extension_not_Nil by (intro readMany_map) auto
qed

lemma version_reads: "reads (readExplicit 0 readInt) (tlv 0xA0 (integerDER 2)) [char_of (2 :: nat)]"
proof -
  have i: "integerDER 2 = tlv 2 [char_of (2 :: nat)]" by (simp add: integerDER_def beBytes.simps of_char_of)
  have "reads readInt (integerDER 2) [char_of (2 :: nat)]"
    by (simp add: reads_def readInt_def readInteger_def i expectTag_tlv minimalInteger_def)
  moreover have "length (integerDER 2) = 3" by (simp add: i tlv_def derLength_def)
  ultimately show ?thesis using reads_explicit [of readInt "integerDER 2" _ 0] by (simp add: i)
qed

lemma extensions_good: "\<forall>(oid, crit, val) \<in> set (mldsaExtensions p). goodOID oid"
  using goodOIDs by (auto simp: mldsaExtensions_def)

definition timesRead :: "CertEnv \<Rightarrow> bool" where
  "timesRead v \<longleftrightarrow> (\<forall>t tag str. crTime v t = Some (tag, str) \<longrightarrow> (tag = 23 \<or> tag = 24) \<and> crReadTime v tag str \<noteq> None)"

lemma time_reads:
  assumes "timesRead v" and "timeDER v t = Some d" and "length d < 2 ^ 30"
  shows "\<exists>i. reads (readTime v) d i"
proof -
  obtain tag str where t: "crTime v t = Some (tag, str)" "d = tlv tag str" using assms(2) by (auto simp: timeDER_def)
  with assms(1) obtain i where "tag = 23 \<or> tag = 24" "crReadTime v tag str = Some i"
    unfolding timesRead_def by blast
  moreover have "sized str" using assms(3) unfolding t(2) by (auto dest: tlv_content)
  ultimately show ?thesis unfolding t(2) using reads_time by blast
qed

lemma tbs_reads:
  assumes "goodOID oid" and "\<exists>es. issuer = sequenceDER es" and "\<exists>es. subject = sequenceDER es"
    and "reads (readTime v) nb i" and "reads (readTime v) na j"
    and "\<forall>(oid, crit, val) \<in> set exts. goodOID oid"
    and small: "length (tbsDER oid serial issuer nb na subject pub exts) < 2 ^ 30"
  shows "reads (readTBS v) (tbsDER oid serial issuer nb na subject pub exts) (oid, pub)"
proof -
  let ?es = "[tlv 0xA0 (integerDER 2), integerDER serial, algorithmDER oid, issuer, sequenceDER [nb, na], subject,
        sequenceDER [algorithmDER oid, bitStringDER 0 pub], tlv 0xA3 (sequenceDER (map extensionDER exts))]"
  have len: "length x < 2 ^ 30" if "x \<in> set ?es" for x
    using sequence_length [OF that] small by (simp add: tbsDER_def)
  have alg: "reads readAlgorithm (algorithmDER oid) oid" by (rule reads_algorithm [OF assms(1)])
  have "length (integerDER serial) < 2 ^ 30" by (rule len) simp
  then have "length (beBytes serial) < 2 ^ 31 - 1" by (auto simp: integerDER_def dest!: tlv_content split: if_splits)
  then obtain c where serial: "reads readInteger (integerDER serial) c" unfolding reads_def using readInteger_DER by blast
  have raw: "reads readRaw issuer issuer" "reads readRaw subject subject"
    using assms(2,3) len [of issuer] len [of subject] reads_raw_sequence by auto
  have times: "reads (readSequence (andThen (readTime v) (\<lambda>nb. readTime v))) (sequenceDER [nb, na]) j"
  proof (rule reads_sequence)
    have "length (sequenceDER [nb, na]) < 2 ^ 30" by (rule len) simp
    then show "sized (concat [nb, na])" unfolding sequenceDER_def by (auto dest: tlv_content)
    show "andThen (readTime v) (\<lambda>nb. readTime v) (concat [nb, na]) = Some (j, [])"
      using reads_bind [OF assms(4), of "\<lambda>nb. readTime v" na] reads_end [OF assms(5)] by simp
  qed
  have spki: "reads (readSequence (andThen readAlgorithm (\<lambda>oid. andThen readBitString (\<lambda>pub s. Some ((oid, pub), s)))))
      (sequenceDER [algorithmDER oid, bitStringDER 0 pub]) (oid, pub)"
  proof (rule reads_sequence)
    have l: "length (sequenceDER [algorithmDER oid, bitStringDER 0 pub]) < 2 ^ 30" by (rule len) simp
    then show "sized (concat [algorithmDER oid, bitStringDER 0 pub])" unfolding sequenceDER_def by (auto dest: tlv_content)
    have "length (bitStringDER 0 pub) < 2 ^ 30"
      using l sequence_length [of "bitStringDER 0 pub" "[algorithmDER oid, bitStringDER 0 pub]"] by simp
    then have "reads readBitString (bitStringDER 0 pub) pub"
      by (intro reads_bits) (auto simp: bitStringDER_def dest: tlv_content)
    then show "andThen readAlgorithm (\<lambda>oid. andThen readBitString (\<lambda>pub s. Some ((oid, pub), s)))
        (concat [algorithmDER oid, bitStringDER 0 pub]) = Some ((oid, pub), [])"
      unfolding concat.simps append_Nil2 by (intro reads_bind [OF alg]) (simp add: andThen_def reads_end)
  qed
  have exts: "reads (readExplicit 3 (readSequence (\<lambda>s. readMany (length s) readExtension s)))
      (tlv 0xA3 (sequenceDER (map extensionDER exts))) (map (\<lambda>x. ()) exts)"
  proof -
    have "length (tlv 0xA3 (sequenceDER (map extensionDER exts))) < 2 ^ 30" by (rule len) simp
    then have l: "length (sequenceDER (map extensionDER exts)) < 2 ^ 30" by (rule tlv_content)
    have "sequenceDER (map extensionDER exts) \<noteq> []" by (simp add: sequenceDER_def)
    with reads_explicit [OF reads_extensions [OF assms(6) l], of 3] l show ?thesis by simp
  qed
  show ?thesis
    unfolding readTBS_def tbsDER_def
  proof (rule reads_sequence)
    have "length (concat ?es) < 2 ^ 30" using small unfolding tbsDER_def sequenceDER_def [of ?es] by (rule tlv_content)
    then show "sized (concat ?es)" by simp
    show "andThen (readExplicit 0 readInt) (\<lambda>version. andThen readInteger (\<lambda>serial. andThen readAlgorithm (\<lambda>alg.
      andThen readRaw (\<lambda>issuer. andThen (readSequence (andThen (readTime v) (\<lambda>nb. readTime v))) (\<lambda>validity.
      andThen readRaw (\<lambda>subject.
      andThen (readSequence (andThen readAlgorithm (\<lambda>oid. andThen readBitString (\<lambda>pub s. Some ((oid, pub), s))))) (\<lambda>spki.
      andThen (readExplicit 3 (readSequence (\<lambda>s. readMany (length s) readExtension s))) (\<lambda>exts s.
        Some (spki, s))))))))) (concat ?es) = Some ((oid, pub), [])"
      unfolding concat.simps
      by (intro reads_bind [OF version_reads] reads_bind [OF serial] reads_bind [OF alg] reads_bind [OF raw(1)]
          reads_bind [OF times] reads_bind [OF raw(2)] reads_bind [OF spki] reads_bind [OF exts] refl)
  qed
qed

definition keysRead :: "CertEnv \<Rightarrow> bool" where
  "keysRead v \<longleftrightarrow> (\<forall>alg pub raw. scMarshal (crSchemes v) alg pub = Inr raw \<longrightarrow> crUnmarshalPub v alg raw = Inr pub)"

text \<open>Whatever names, times, serial number, alternative names and keys a certificate below \<open>2^30\<close> bytes carries.\<close>

lemma issued_reads_back:
  assumes "IssueMLDSACert v p = Inr der" and "length der < 2 ^ 30" and "timesRead v" and "keysRead v"
  shows "\<exists>tbs. MLDSATBSAndSig der = Inr (tbs, scSign (crSchemes v) (mpScheme p) (mpSignPriv p) tbs) \<and>
    MLDSAPublicKeyFromCert v der = Inr (mpSubjectPub p, mpScheme p)"
proof -
  note a = assms(1)[unfolded IssueMLDSACert_def]
  obtain oid where o: "mldsaOID v (mpScheme p) = Inr oid" using a by (cases "mldsaOID v (mpScheme p)") simp_all
  note a = a[unfolded o sum.case]
  obtain i s where n: "nameDER v (mpIssuer p) = Some i" "nameDER v (mpSubject p) = Some s"
    using a by (cases "nameDER v (mpIssuer p)"; cases "nameDER v (mpSubject p)") simp_all
  note a = a[unfolded n prod.case option.case]
  obtain raw where k: "scMarshal (crSchemes v) (mpScheme p) (mpSubjectPub p) = Inr raw"
    using a by (cases "scMarshal (crSchemes v) (mpScheme p) (mpSubjectPub p)") simp_all
  note a = a[unfolded k sum.case]
  obtain nb na where t: "timeDER v (mpNotBefore p) = Some nb" "timeDER v (mpNotAfter p) = Some na"
    using a by (cases "timeDER v (mpNotBefore p)"; cases "timeDER v (mpNotAfter p)") simp_all
  note parts = o n k t
  define tbs where "tbs = tbsDER oid (mpSerial p) i nb na s raw (mldsaExtensions p)"
  define sig where "sig = scSign (crSchemes v) (mpScheme p) (mpSignPriv p) tbs"
  have der: "der = certDER oid tbs sig"
    using a[unfolded t prod.case option.case Let_def] by (simp add: tbs_def sig_def)
  have oid: "goodOID oid" "schemeNameForOID oid = mpScheme p" "mpScheme p \<noteq> []"
    using parts(1) goodOIDs
    by (auto simp: mldsaOID_def schemeNameForOID_def oidMLDSA44_def oidMLDSA65_def oidMLDSA87_def split: if_splits)
  have small: "length x < 2 ^ 30" if "x \<in> set [tbs, algorithmDER oid, bitStringDER 0 sig]" for x
    using sequence_length [OF that] assms(2) by (simp add: der certDER_def)
  have tbs: "length tbs < 2 ^ 30" by (rule small) simp
  have "length (bitStringDER 0 sig) < 2 ^ 30" by (rule small) simp
  then have "reads readBitString (bitStringDER 0 sig) sig"
    by (intro reads_bits) (auto simp: bitStringDER_def dest: tlv_content)
  moreover have "reads readRaw tbs tbs" using tbs unfolding tbs_def tbsDER_def by (rule reads_raw_sequence)
  ultimately have cert: "readCertificate der = Some ((tbs, sig), [])"
    unfolding der certDER_def readCertificate_def
  proof (intro reads_end reads_sequence)
    have "length (concat [tbs, algorithmDER oid, bitStringDER 0 sig]) < 2 ^ 30"
      using assms(2) unfolding der certDER_def sequenceDER_def [of "[tbs, algorithmDER oid, bitStringDER 0 sig]"] by (rule tlv_content)
    then show "sized (concat [tbs, algorithmDER oid, bitStringDER 0 sig])" by simp
  next
    assume r: "reads readBitString (bitStringDER 0 sig) sig" "reads readRaw tbs tbs"
    show "andThen readRaw (\<lambda>tbs. andThen readAlgorithm (\<lambda>alg. andThen readBitString (\<lambda>sig s. Some ((tbs, sig), s))))
        (concat [tbs, algorithmDER oid, bitStringDER 0 sig]) = Some ((tbs, sig), [])"
      unfolding concat.simps
      by (intro reads_bind [OF r(2)] reads_bind [OF reads_algorithm [OF oid(1)]] reads_bind [OF r(1)] refl)
  qed
  have "length x < 2 ^ 30" if "x \<in> set [nb, na]" for x
    using sequence_length [OF that] sequence_length [of "sequenceDER [nb, na]"
      "[tlv 0xA0 (integerDER 2), integerDER (mpSerial p), algorithmDER oid, i, sequenceDER [nb, na], s,
        sequenceDER [algorithmDER oid, bitStringDER 0 raw], tlv 0xA3 (sequenceDER (map extensionDER (mldsaExtensions p)))]"] tbs
    by (simp add: tbs_def tbsDER_def)
  then obtain a b where "reads (readTime v) nb a" "reads (readTime v) na b"
    using time_reads [OF assms(3) parts(5)] time_reads [OF assms(3) parts(6)] by auto
  from tbs_reads [OF oid(1) name_sequence [OF parts(2)] name_sequence [OF parts(3)] this extensions_good] tbs
  have "readTBS v tbs = Some ((oid, raw), [])" unfolding tbs_def by (intro reads_end) blast
  then have "MLDSAPublicKeyFromCert v der = Inr (mpSubjectPub p, mpScheme p)"
    using assms(4) parts(4) oid by (simp add: keysRead_def MLDSAPublicKeyFromCert_def cert Let_def)
  then show ?thesis by (auto simp: MLDSATBSAndSig_def cert sig_def)
qed

subsection \<open>The chain\<close>

lemma chain_parts:
  assumes "IssueMLDSAChain v d scheme rootCN leafCN days0 = Inr c"
  obtains rs ls days where "cdRootPair d = Inr (mcRootPub c, mcRootPriv c)" and "cdLeafPair d = Inr (mcLeafPub c, mcLeafPriv c)"
    and "chainCert v d scheme rs rootCN rootCN (days * 5) (mcRootPub c) True (mcRootPriv c) = Inr (mcRootCertDER c)"
    and "chainCert v d scheme ls leafCN rootCN days (mcLeafPub c) False (mcRootPriv c) = Inr (mcLeafCertDER c)"
proof -
  define days where "days = (if days0 \<le> 0 then 365 else days0)"
  note a = assms[unfolded IssueMLDSAChain_def Let_def, folded days_def]
  have av: "(\<not> scAvailable (crSchemes v) scheme) = False" using a by (cases "scAvailable (crSchemes v) scheme") simp_all
  note a = a[unfolded av if_False]
  obtain rp rq where r: "cdRootPair d = Inr (rp, rq)" using a by (cases "cdRootPair d") auto
  note a = a[unfolded r sum.case prod.case]
  obtain rs where rs: "cdRootSerial d = Inr rs" using a by (cases "cdRootSerial d") simp_all
  note a = a[unfolded rs sum.case]
  obtain rd where rd: "chainCert v d scheme rs rootCN rootCN (days * 5) rp True rq = Inr rd"
    using a by (cases "chainCert v d scheme rs rootCN rootCN (days * 5) rp True rq") simp_all
  note a = a[unfolded rd sum.case]
  obtain lp lq where l: "cdLeafPair d = Inr (lp, lq)" using a by (cases "cdLeafPair d") auto
  note a = a[unfolded l sum.case prod.case]
  obtain ls where ls: "cdLeafSerial d = Inr ls" using a by (cases "cdLeafSerial d") simp_all
  note a = a[unfolded ls sum.case]
  obtain ld where ld: "chainCert v d scheme ls leafCN rootCN days lp False rq = Inr ld"
    using a by (cases "chainCert v d scheme ls leafCN rootCN days lp False rq") simp_all
  note a = a[unfolded ld sum.case]
  have "mcRootPub c = rp" "mcRootPriv c = rq" "mcLeafPub c = lp" "mcLeafPriv c = lq" "mcRootCertDER c = rd" "mcLeafCertDER c = ld"
    using a by (cases "crMarshalPriv v scheme rq"; cases "crMarshalPriv v scheme lq"; force)+
  with that [of rs days ls] r l rd ld show thesis by simp
qed

lemma chain_cert_reads:
  assumes "chainCert v d scheme serial cn rootCN days pub ca priv = Inr der" and "length der < 2 ^ 30"
    and "timesRead v" and "keysRead v"
  shows "\<exists>tbs. MLDSATBSAndSig der = Inr (tbs, scSign (crSchemes v) scheme priv tbs)"
    and "MLDSAPublicKeyFromCert v der = Inr (pub, scheme)"
  using issued_reads_back [OF assms(1)[unfolded chainCert_def] assms(2-4)] by auto

text \<open>C40: In a chain the server issues, with certificates below \<open>2^30\<close> bytes, the public key read from the
  root certificate verifies the signatures of both certificates over their signed parts, and the public key
  read from the leaf is the one whose private key the chain holds, whatever names and lifetime were asked for.
  Relied on: times and public keys read back as they were written, and the scheme's signatures verify under
  the key of the pair.\<close>

theorem issued_chain_verifies:
  assumes "IssueMLDSAChain v d scheme rootCN leafCN days = Inr c"
    and "length (mcRootCertDER c) < 2 ^ 30" and "length (mcLeafCertDER c) < 2 ^ 30"
    and "timesRead v" and "keysRead v"
    and "\<And>pub priv m. cdRootPair d = Inr (pub, priv) \<Longrightarrow>
      scVerify (crSchemes v) scheme pub m (scSign (crSchemes v) scheme priv m)"
  shows "\<exists>root. MLDSAPublicKeyFromCert v (mcRootCertDER c) = Inr (root, scheme) \<and>
    (\<exists>tbs sig. MLDSATBSAndSig (mcRootCertDER c) = Inr (tbs, sig) \<and> scVerify (crSchemes v) scheme root tbs sig) \<and>
    (\<exists>tbs sig. MLDSATBSAndSig (mcLeafCertDER c) = Inr (tbs, sig) \<and> scVerify (crSchemes v) scheme root tbs sig) \<and>
    MLDSAPublicKeyFromCert v (mcLeafCertDER c) = Inr (mcLeafPub c, scheme) \<and>
    cdLeafPair d = Inr (mcLeafPub c, mcLeafPriv c)"
proof -
  from assms(1) obtain rs ls n where pairs: "cdRootPair d = Inr (mcRootPub c, mcRootPriv c)" "cdLeafPair d = Inr (mcLeafPub c, mcLeafPriv c)"
    and root: "chainCert v d scheme rs rootCN rootCN (n * 5) (mcRootPub c) True (mcRootPriv c) = Inr (mcRootCertDER c)"
    and leaf: "chainCert v d scheme ls leafCN rootCN n (mcLeafPub c) False (mcRootPriv c) = Inr (mcLeafCertDER c)"
    by (rule chain_parts)
  show ?thesis
    using chain_cert_reads [OF root assms(2,4,5)] chain_cert_reads [OF leaf assms(3-5)] assms(6) [OF pairs(1)] pairs(2) by auto
qed

lemma tlv_size: "length c < 2 ^ 30 \<Longrightarrow> length (tlv b c) \<le> length c + 6"
  using length_beBytes [of "length c" 3] by (simp add: tlv_def derLength_def)
lemma sequence_size: "length (concat es) < 2 ^ 30 \<Longrightarrow> length (sequenceDER es) \<le> sum_list (map length es) + 6"
  using tlv_size [of "concat es" 48] by (simp add: sequenceDER_def length_concat)
definition demo_certs :: CertEnv where
  "demo_certs = \<lparr>crSchemes = \<lparr>scAvailable = (\<lambda>a. True), scPublicKeySize = (\<lambda>a. 4), scSign = (\<lambda>a priv msg. priv @ msg),
     scVerify = (\<lambda>a pub msg sig. sig = pub @ msg), scMarshal = (\<lambda>a pub. Inr pub), scQuote = id\<rparr>,
     crTime = (\<lambda>t. Some (23, ''t'')), crReadTime = (\<lambda>tag s. Some 0),
     crUTF8 = (\<lambda>s. True), crAddDays = (+), crPEM = (@), crMarshalPriv = (\<lambda>alg. Inr), crUnmarshalPub = (\<lambda>alg. Inr)\<rparr>"

lemma demo_name: "\<exists>s. nameDER demo_certs (chainName [c]) = Some s \<and> length s < 100"
  by (cases "printableByte c")
    (simp_all add: nameDER_def chainName_def demo_certs_def rdnDER_def attributeDER_def directoryString_def printableByte_def
      isUpperByte_def isLowerByte_def isDigit_def sequenceDER_def setDER_def tlv_def derLength_def oidDER_def oidContent_def base128_def septets.simps)
lemma demo_extensions:
  "mpDNSNames p = [] \<Longrightarrow> mpIPAddresses p = [] \<Longrightarrow> length (sequenceDER (map extensionDER (mldsaExtensions p))) < 200"
  by (cases "mpIsCA p") (simp_all add: mldsaExtensions_def extensionDER_def sequenceDER_def tlv_def derLength_def bitStringDER_def oidDER_def oidContent_def base128_def septets.simps)

lemma demo_alg: "length (algorithmDER oidMLDSA65) = 13"
  by (simp add: oidMLDSA65_def algorithmDER_def sequenceDER_def tlv_def derLength_def oidDER_def oidContent_def base128_def septets.simps)

lemma demo_serial: "n < 2 ^ 31 \<Longrightarrow> length (integerDER n) \<le> 11"
  using length_beBytes [of n 3] tlv_size [of "beBytes n" 2] tlv_size [of "CHR 0x00 # beBytes n" 2] by (simp add: integerDER_def)

lemma demo_schemes:
  "scAvailable (crSchemes demo_certs) alg" "scMarshal (crSchemes demo_certs) alg pub = Inr pub"
  "scSign (crSchemes demo_certs) alg priv m = priv @ m" "crMarshalPriv demo_certs alg priv = Inr priv"
  by (simp_all add: demo_certs_def)

lemma demo_cert:
  assumes "n < 2 ^ 31" and "length pub < 10" and "length priv < 10"
  shows "\<exists>der. chainCert demo_certs d ''ML-DSA-65'' n [a] [b] days pub ca priv = Inr der \<and> length der < 2 ^ 30"
proof -
  obtain s where s: "nameDER demo_certs (chainName [a]) = Some s" "length s < 100" using demo_name by blast
  obtain i where i: "nameDER demo_certs (chainName [b]) = Some i" "length i < 100" using demo_name by blast
  have time: "timeDER demo_certs t = Some (tlv 23 ''t'')" for t by (simp add: timeDER_def demo_certs_def)
  have pub: "length (bitStringDER 0 pub) \<le> 20" using tlv_size [of "char_of (0 :: nat) # pub" 3] assms(2) by (simp add: bitStringDER_def)
  have v: "length (tlv 0xA0 (integerDER 2)) \<le> 20" using tlv_size [of "integerDER 2" "0xA0"] demo_serial [of 2] by simp
  have times: "length (sequenceDER [tlv 23 ''t'', tlv 23 ''t'']) \<le> 20" by (simp add: sequenceDER_def tlv_def derLength_def)
  define p where "p = \<lparr>mpScheme = ''ML-DSA-65'', mpSerial = n, mpSubject = chainName [a], mpIssuer = chainName [b],
       mpNotBefore = cdNow d - 300 * 1000000000, mpNotAfter = crAddDays demo_certs (cdNow d) days, mpSubjectPub = pub, mpIsCA = ca,
       mpDNSNames = [], mpIPAddresses = [], mpSignPriv = priv\<rparr>"
  define x where "x = sequenceDER (map extensionDER (mldsaExtensions p))"
  have x: "length (tlv 0xA3 x) < 210" using demo_extensions [of p] tlv_size [of x "0xA3"] by (simp add: x_def p_def)
  have k: "length (sequenceDER [algorithmDER oidMLDSA65, bitStringDER 0 pub]) \<le> 40"
    using sequence_size [of "[algorithmDER oidMLDSA65, bitStringDER 0 pub]"] pub by (simp add: demo_alg)
  define tbs where "tbs = tbsDER oidMLDSA65 n i (tlv 23 ''t'') (tlv 23 ''t'') s pub (mldsaExtensions p)"
  have "length tbs < 600" unfolding tbs_def tbsDER_def x_def [symmetric]
    by (rule le_less_trans [OF sequence_size]) (use s(2) i(2) demo_serial [OF assms(1)] v times k x in \<open>simp_all add: demo_alg\<close>)
  moreover from this have "length (bitStringDER 0 (priv @ tbs)) \<le> 620"
    using tlv_size [of "char_of (0 :: nat) # priv @ tbs" 3] assms(3) by (simp add: bitStringDER_def)
  ultimately have "length (certDER oidMLDSA65 tbs (priv @ tbs)) < 2 ^ 30"
    unfolding certDER_def by (intro le_less_trans [OF sequence_size]) (simp_all add: demo_alg)
  moreover have "IssueMLDSACert demo_certs p = Inr (certDER oidMLDSA65 tbs (priv @ tbs))"
    by (simp add: IssueMLDSACert_def mldsaOID_def s(1) i(1) time demo_schemes Let_def tbs_def p_def)
  ultimately show ?thesis by (simp add: chainCert_def p_def)
qed

definition demo_chain_draw :: ChainDraw where
  "demo_chain_draw = \<lparr>cdRootPair = Inr (''r'', ''r''), cdRootSerial = Inr 1, cdLeafPair = Inr (''l'', ''l''), cdLeafSerial = Inr 2, cdNow = 0\<rparr>"

lemma demo_draws:
  "cdRootPair demo_chain_draw = Inr (''r'', ''r'')" "cdRootSerial demo_chain_draw = Inr 1"
  "cdLeafPair demo_chain_draw = Inr (''l'', ''l'')" "cdLeafSerial demo_chain_draw = Inr 2"
  by (simp_all add: demo_chain_draw_def)

lemma demo_chain_issued:
  "\<exists>c. IssueMLDSAChain demo_certs demo_chain_draw ''ML-DSA-65'' ''R'' ''L'' 0 = Inr c \<and>
    length (mcRootCertDER c) < 2 ^ 30 \<and> length (mcLeafCertDER c) < 2 ^ 30"
proof -
  obtain r where "chainCert demo_certs demo_chain_draw ''ML-DSA-65'' 1 ''R'' ''R'' 1825 ''r'' True ''r'' = Inr r" "length r < 2 ^ 30"
    using demo_cert [of 1 "''r''" "''r''" demo_chain_draw "CHR ''R''" "CHR ''R''" 1825 True] by auto
  moreover obtain l where "chainCert demo_certs demo_chain_draw ''ML-DSA-65'' 2 ''L'' ''R'' 365 ''l'' False ''r'' = Inr l" "length l < 2 ^ 30"
    using demo_cert [of 2 "''l''" "''r''" demo_chain_draw "CHR ''L''" "CHR ''R''" 365 False] by auto
  ultimately show ?thesis by (simp add: IssueMLDSAChain_def demo_schemes demo_draws)
qed

theorem issued_chain_verifies_witness:
  "\<exists>c root. IssueMLDSAChain demo_certs demo_chain_draw ''ML-DSA-65'' ''R'' ''L'' 0 = Inr c \<and>
    MLDSAPublicKeyFromCert demo_certs (mcRootCertDER c) = Inr (root, ''ML-DSA-65'') \<and>
    MLDSAPublicKeyFromCert demo_certs (mcLeafCertDER c) = Inr (''l'', ''ML-DSA-65'')"
proof -
  obtain c where c: "IssueMLDSAChain demo_certs demo_chain_draw ''ML-DSA-65'' ''R'' ''L'' 0 = Inr c"
    "length (mcRootCertDER c) < 2 ^ 30" "length (mcLeafCertDER c) < 2 ^ 30"
    using demo_chain_issued by blast
  have "timesRead demo_certs" "keysRead demo_certs"
    by (simp_all add: timesRead_def keysRead_def demo_certs_def)
  moreover have "scVerify (crSchemes demo_certs) alg pub m (scSign (crSchemes demo_certs) alg priv m)"
    if "cdRootPair demo_chain_draw = Inr (pub, priv)" for alg pub priv m
    using that by (auto simp: demo_certs_def demo_chain_draw_def)
  ultimately show ?thesis
    using issued_chain_verifies [OF c(1), OF c(2,3)] c(1) by (auto simp: demo_chain_draw_def)
qed

end
