(* ===== verification/Lab.thy ===== *)
theory Lab
  imports Reports "HOL-Library.AList"
begin

text \<open>
  What an operator asks without changing the fleet: the migration simulator of \<^verbatim>\<open>sandbox/simulator.go\<close> with its
  handler, the lab of \<^verbatim>\<open>httpapi/features.go\<close> (\<open>pqcLabSimulate\<close>), the confidence report of
  \<^verbatim>\<open>policy/confidence.go\<close> and the release check of \<^verbatim>\<open>httpapi/release_check.go\<close>. The simulator drops the
  configuration hash it reads and never looks at the target service, so neither is an argument. Identifiers and
  clock readings are arguments; a decoded body is a sum, its error the decoder's. A confidence is a real number.
\<close>

subsection \<open>The migration simulator\<close>

record DependencyUpdate =
  duPackageManager :: string
  duPackage :: string
  duCurrentVersion :: string
  duMinVersion :: string
  duReason :: string

record CompatibilityAnalysis =
  caTargetEcosystem :: string
  caBreakingChanges :: "string list"
  caDependencyUpdates :: "DependencyUpdate list"
  caRollbackRisk :: string
  caMinTLSVersion :: string
  caHybridRequired :: bool
  caEstimatedDowntime :: string

record SimulationResult =
  srSimulationID :: string
  srInputAlgorithm :: string
  srRecommendedKEM :: string
  srRecommendedSignature :: string
  srGeneratedPatch :: string
  srEstimatedImpact :: string
  srRollbackWindowSecs :: nat
  srValidationChecklist :: "string list"
  srPreChecks :: "(string \<times> bool) list"
  srWarnings :: "string list"
  srCompatibility :: CompatibilityAnalysis
  srRequiresApproval :: bool
  srApprovalPolicy :: string
  srHumanApprovalRequired :: bool

definition isSignatureAlgorithm :: "string \<Rightarrow> bool" where
  "isSignatureAlgorithm algorithm =
     (let upper = toUpper algorithm in contains upper ''RSA'' \<or> contains upper ''DSA'' \<or> contains upper ''ECDSA'')"

definition estimateImpact :: "string \<Rightarrow> string" where
  "estimateImpact algorithm =
     (let upper = toUpper algorithm in
      if contains upper ''RSA'' \<or> contains upper ''DSA'' \<or> contains upper ''ECDSA'' then ''MEDIUM'' else ''LOW'')"

definition newline :: string where "newline = [CHR 0x0A]"

definition generatePatch :: "string \<Rightarrow> string \<Rightarrow> string \<Rightarrow> string \<Rightarrow> string" where
  "generatePatch configPath algorithm kem sig =
     ''--- '' @ configPath @ newline @ ''+++ '' @ configPath @ newline @ ''@@ -1,5 +1,5 @@'' @ newline @
     ''-'' @ algorithm @ newline @ ''+'' @ (if isSignatureAlgorithm algorithm then sig else kem) @ newline"

definition needs :: "string \<Rightarrow> string \<Rightarrow> string \<Rightarrow> string \<Rightarrow> DependencyUpdate" where
  "needs manager package version reason =
     \<lparr>duPackageManager = manager, duPackage = package, duCurrentVersion = [], duMinVersion = version, duReason = reason\<rparr>"

definition mldsaStep :: "string \<Rightarrow> CompatibilityAnalysis \<Rightarrow> CompatibilityAnalysis" where
  "mldsaStep sigUpper ca =
     (if contains sigUpper ''ML-DSA''
      then ca\<lparr>caBreakingChanges := caBreakingChanges ca @
               [''Certificate chain validation requires both legacy and PQC trust anchors during transition'',
                ''TLS clients must support ML-DSA before migration''],
             caMinTLSVersion := ''TLSv1.3'', caHybridRequired := True, caRollbackRisk := ''medium'', caEstimatedDowntime := ''<30s'',
             caDependencyUpdates := caDependencyUpdates ca @
               [needs ''cargo'' ''openssl'' ''0.10.64'' ''liboqs support for ML-DSA'',
                needs ''cargo'' ''pqcrypto'' ''0.1.0'' ''PQC primitive support'',
                needs ''npm'' ''@noble/post-quantum'' ''0.1.0''
                  ''node-forge is not compatible with ML-DSA; use @noble/post-quantum'',
                needs ''go'' ''golang.org/x/crypto'' ''0.17.0'' ''hybrid PQC support'',
                needs ''pip'' ''cryptography'' ''42.0.0'' ''ML-DSA support via liboqs bindings'']\<rparr>
      else if contains sigUpper ''RSA'' then ca\<lparr>caRollbackRisk := ''low'', caEstimatedDowntime := ''none''\<rparr>
      else ca)"

definition mlkemStep :: "string \<Rightarrow> CompatibilityAnalysis \<Rightarrow> CompatibilityAnalysis" where
  "mlkemStep kemUpper ca =
     (if contains kemUpper ''ML-KEM''
      then ca\<lparr>caHybridRequired := True, caMinTLSVersion := ''TLSv1.3'',
             caDependencyUpdates := caDependencyUpdates ca @
               [needs ''cargo'' ''openssl'' ''3.5.0'' ''ML-KEM support requires OpenSSL >= 3.5.0'']\<rparr>
      else ca)"

definition aesStep :: "string \<Rightarrow> string \<Rightarrow> CompatibilityAnalysis \<Rightarrow> CompatibilityAnalysis" where
  "aesStep inputUpper sigUpper ca =
     (if contains inputUpper ''AES-128'' \<and> contains sigUpper ''AES-256''
      then ca\<lparr>caBreakingChanges := caBreakingChanges ca @
               [''Key material must be regenerated; existing encrypted data cannot be migrated transparently''],
             caRollbackRisk := ''high'', caEstimatedDowntime := ''<5m''\<rparr>
      else ca)"

definition buildCompatibilityAnalysis :: "string \<Rightarrow> string \<Rightarrow> string \<Rightarrow> CompatibilityAnalysis" where
  "buildCompatibilityAnalysis inputAlgorithm recommendedKEM recommendedSignature =
     aesStep (toUpper inputAlgorithm) (toUpper recommendedSignature)
       (mlkemStep (toUpper recommendedKEM)
         (mldsaStep (toUpper recommendedSignature)
           \<lparr>caTargetEcosystem = ''tls'', caBreakingChanges = [], caDependencyUpdates = [], caRollbackRisk = ''medium'',
            caMinTLSVersion = [], caHybridRequired = False, caEstimatedDowntime = ''none''\<rparr>))"

definition SimulateMigration :: "string \<Rightarrow> Engine \<Rightarrow> string \<Rightarrow> string \<Rightarrow> bool \<Rightarrow> SimulationResult" where
  "SimulateMigration simulationID engine algorithm configPath dryRun =
     (let p = GetActiveProfile engine in
      \<lparr>srSimulationID = simulationID, srInputAlgorithm = algorithm, srRecommendedKEM = PreferredKEM p,
       srRecommendedSignature = PreferredSignature p,
       srGeneratedPatch = generatePatch configPath algorithm (PreferredKEM p) (PreferredSignature p),
       srEstimatedImpact = estimateImpact algorithm, srRollbackWindowSecs = 300,
       srValidationChecklist = [''config-backup-verified'', ''syntax-check'', ''daemon-reload-test'', ''tls13-handshake-verify'',
         ''hybrid-mlkem-observed''],
       srPreChecks = [(''config_backup'', True), (''syntax_check'', False), (''reload_possible'', True)],
       srWarnings = (if dryRun then [''Dry-run mode: no changes will be applied''] else []),
       srCompatibility = buildCompatibilityAnalysis algorithm (PreferredKEM p) (PreferredSignature p),
       srRequiresApproval = True, srApprovalPolicy = ''human-review-required'', srHumanApprovalRequired = True\<rparr>)"

record sandboxRequest =
  sbHostUUID :: string
  sbTargetService :: string
  sbAlgorithm :: string
  sbConfigPath :: string
  sbDryRun :: bool

definition sandboxSimulate :: "string \<Rightarrow> Engine \<Rightarrow> string \<Rightarrow> sandboxRequest result \<Rightarrow> SimulationResult answer" where
  "sandboxSimulate simulationID engine httpMethod body =
     (if httpMethod \<noteq> ''POST'' then Inl (405, [])
      else case body of
        Inl e \<Rightarrow> Inl (400, ''invalid JSON'')
      | Inr q \<Rightarrow>
          if sbHostUUID q = [] \<or> sbAlgorithm q = [] then Inl (400, ''host_uuid and algorithm are required'')
          else Inr (SimulateMigration simulationID engine (sbAlgorithm q) (sbConfigPath q) (sbDryRun q)))"

subsection \<open>The lab\<close>

record labRequest =
  lbAlgorithm :: string
  lbTargetService :: string
  lbConfigSnippet :: string

record LabResult =
  lrSimulationID :: string
  lrInputAlgorithm :: string
  lrTargetService :: string
  lrRecommendedKEM :: string
  lrRecommendedSignature :: string
  lrMigrationPatch :: string
  lrEstimatedImpact :: string
  lrRollbackWindowSecs :: nat
  lrValidationChecklist :: "string list"
  lrDryRunAvailable :: bool

definition labReplacement :: "Profile \<Rightarrow> string \<Rightarrow> string" where
  "labReplacement profile algorithm =
     (let algUpper = toUpper algorithm in
      if contains algUpper ''RSA'' \<or> contains algUpper ''ECDSA'' \<or> contains algUpper ''DSA''
      then PreferredSignature profile else PreferredKEM profile)"

definition labResult :: "int \<Rightarrow> Profile \<Rightarrow> labRequest \<Rightarrow> LabResult" where
  "labResult nanos profile q =
     \<lparr>lrSimulationID = ''sim-'' @ decInt nanos, lrInputAlgorithm = lbAlgorithm q, lrTargetService = lbTargetService q,
      lrRecommendedKEM = PreferredKEM profile, lrRecommendedSignature = PreferredSignature profile,
      lrMigrationPatch = ''--- '' @ lbTargetService q @ newline @ ''+++ '' @ lbTargetService q @ newline @ ''@@ -1,3 +1,3 @@'' @
        newline @ ''-use '' @ lbAlgorithm q @ '';'' @ newline @ ''+use '' @ labReplacement profile (lbAlgorithm q) @ '';'' @ newline,
      lrEstimatedImpact = ''LOW'', lrRollbackWindowSecs = 300,
      lrValidationChecklist = [''config-syntax'', ''daemon-reload'', ''tls13-handshake''], lrDryRunAvailable = True\<rparr>"

definition pqcLabSimulate :: "(string \<Rightarrow> LabResult \<Rightarrow> byte list result) \<Rightarrow> int \<Rightarrow> Engine \<Rightarrow> string \<Rightarrow> labRequest result \<Rightarrow> Hub
    \<Rightarrow> LabResult answer \<times> Hub" where
  "pqcLabSimulate marshal nanos engine httpMethod body hub =
     (if httpMethod \<noteq> ''POST'' then (Inl (405, []), hub)
      else case body of
        Inl e \<Rightarrow> (Inl (400, ''invalid JSON''), hub)
      | Inr q \<Rightarrow>
          (let simulated = labResult nanos (GetActiveProfile engine) q
           in (Inr simulated, Broadcast marshal ''lab_simulation'' simulated hub)))"

subsection \<open>Confidence\<close>

record ConfidenceReport =
  cfAverage :: real
  cfLow :: nat
  cfHigh :: nat
  cfBreakdown :: "string \<rightharpoonup> real"

definition effectiveConfidence :: "Finding \<Rightarrow> real" where
  "effectiveConfidence f = (if fdConfidence f = 0 then 82 / 100 else fdConfidence f)"

text \<open>The loop's variables; an entry of the two maps that is absent counts as zero.\<close>

record confidenceSums =
  csTotal :: real
  csRules :: "string \<rightharpoonup> real \<times> nat"
  csLow :: nat
  csHigh :: nat

definition addRule :: "string \<Rightarrow> real \<Rightarrow> (string \<rightharpoonup> real \<times> nat) \<Rightarrow> (string \<rightharpoonup> real \<times> nat)" where
  "addRule rule conf m = m(rule \<mapsto> (case m rule of None \<Rightarrow> (conf, 1) | Some (s, n) \<Rightarrow> (s + conf, n + 1)))"

definition addConfidence :: "confidenceSums \<Rightarrow> Finding \<Rightarrow> confidenceSums" where
  "addConfidence s f =
     (let conf = effectiveConfidence f in
      s\<lparr>csTotal := csTotal s + conf, csRules := addRule (fdPolicyRuleID f) conf (csRules s),
        csLow := (if conf < 1 / 2 then csLow s + 1 else csLow s),
        csHigh := (if 9 / 10 < conf then csHigh s + 1 else csHigh s)\<rparr>)"

definition noSums :: confidenceSums where
  "noSums = \<lparr>csTotal = 0, csRules = Map.empty, csLow = 0, csHigh = 0\<rparr>"

definition AnalyzeFindingConfidence :: "Finding list \<Rightarrow> ConfidenceReport" where
  "AnalyzeFindingConfidence findings =
     (if findings = [] then \<lparr>cfAverage = 0, cfLow = 0, cfHigh = 0, cfBreakdown = Map.empty\<rparr>
      else let s = foldl addConfidence noSums findings in
        \<lparr>cfAverage = csTotal s / real (length findings), cfLow = csLow s, cfHigh = csHigh s,
         cfBreakdown = map_option (\<lambda>(sum, n). sum / real n) \<circ> csRules s\<rparr>)"

definition confidenceReport :: "(joined list \<Rightarrow> joined list) \<Rightarrow> goerror \<Rightarrow> string \<Rightarrow> caller \<Rightarrow> FleetDB \<Rightarrow> ConfidenceReport answer" where
  "confidenceReport order fault httpMethod who db =
     (if httpMethod \<noteq> ''GET'' then Inl (405, [])
      else case Findings_list order fault 5000 (TenantFromContext who) (adMain (flAgents db)) of
        Inl e \<Rightarrow> Inl internalError
      | Inr fs \<Rightarrow> Inr (AnalyzeFindingConfidence fs))"

text \<open>The operators' feedback: a map, listed in the order it is walked.\<close>

type_synonym outcomes = "(string \<times> bool) list"

definition TrackOutcome :: "string \<Rightarrow> bool \<Rightarrow> outcomes \<Rightarrow> outcomes" where
  "TrackOutcome findingID wasReal os = AList.update findingID wasReal os"

definition FalsePositiveRate :: "string \<Rightarrow> outcomes \<Rightarrow> real" where
  "FalsePositiveRate ruleID os =
     (if os = [] then 0 else real (length (filter (\<lambda>(i, real). \<not> real) os)) / real (length os))"

subsection \<open>The release check\<close>

text \<open>The loop of \<open>itoa\<close> puts each digit in front of the buffer.\<close>

fun itoaLoop :: "nat \<Rightarrow> string \<Rightarrow> string" where
  "itoaLoop n buf = (if n = 0 then buf else itoaLoop (n div 10) (digitChar (n mod 10) # buf))"

declare itoaLoop.simps [simp del]

definition itoa :: "int \<Rightarrow> string" where
  "itoa n = (if n = 0 then ''0'' else if n < 0 then ''-'' @ itoaLoop (nat (- n)) [] else itoaLoop (nat n) [])"

definition countPolicyProfiles :: "(string \<times> bool) list result \<Rightarrow> nat" where
  "countPolicyProfiles entries =
     (case entries of
        Inl e \<Rightarrow> 0
      | Inr es \<Rightarrow> length (filter (\<lambda>(name, isDir). \<not> isDir \<and> (hasSuffix name ''.yaml'' \<or> hasSuffix name ''.yml'')) es))"

record Check =
  ckName :: string
  ckStatus :: string
  ckDetail :: string

record ReleaseReport =
  rrReady :: bool
  rrChecks :: "Check list"
  rrTimestamp :: string

definition databaseCheck :: "goerror \<Rightarrow> Check" where
  "databaseCheck ping =
     (case ping of
        Some e \<Rightarrow> \<lparr>ckName = ''database'', ckStatus = ''fail'', ckDetail = ''database ping failed: '' @ e\<rparr>
      | None \<Rightarrow> \<lparr>ckName = ''database'', ckStatus = ''pass'', ckDetail = ''database is reachable''\<rparr>)"

definition signingKeyCheck :: "string \<Rightarrow> Check" where
  "signingKeyCheck key =
     (if key = [] then \<lparr>ckName = ''signing_key'', ckStatus = ''fail'', ckDetail = ''JANUS_COMMAND_SIGNING_KEY is not set''\<rparr>
      else \<lparr>ckName = ''signing_key'', ckStatus = ''pass'', ckDetail = ''command signing key is configured''\<rparr>)"

definition policyCheck :: "nat \<Rightarrow> Check" where
  "policyCheck n =
     (if n = 0 then \<lparr>ckName = ''policy_profiles'', ckStatus = ''warn'',
                     ckDetail = ''no policy profile YAML files found in policies/ directory''\<rparr>
      else \<lparr>ckName = ''policy_profiles'', ckStatus = ''pass'', ckDetail = itoa (int n) @ '' profiles found''\<rparr>)"

definition schemaCheck :: "nat \<Rightarrow> Check" where
  "schemaCheck n = \<lparr>ckName = ''schema_migrations'', ckStatus = ''pass'', ckDetail = itoa (int n) @ '' migrations applied''\<rparr>"

text \<open>The answer of the ping, the configured key, the directory \<^verbatim>\<open>policies\<close>, the number of migrations of the
  build and the printed time.\<close>

definition releaseCheck :: "string \<Rightarrow> goerror \<Rightarrow> string \<Rightarrow> (string \<times> bool) list result \<Rightarrow> nat \<Rightarrow> string \<Rightarrow> ReleaseReport answer" where
  "releaseCheck httpMethod ping key entries migrations timestamp =
     (if httpMethod \<noteq> ''GET'' then Inl (405, [])
      else Inr \<lparr>rrReady = (ping = None \<and> key \<noteq> []),
        rrChecks = [databaseCheck ping, signingKeyCheck key, policyCheck (countPolicyProfiles entries), schemaCheck migrations],
        rrTimestamp = timestamp\<rparr>)"

end
