(* ===== verification/LabProofs.thy ===== *)
theory LabProofs
  imports Lab
begin

text \<open>
  The simulator and the lab agree, the confidence report is the mean it says, and the release check is ready
  exactly when no check failed. Then what the comments get wrong.
\<close>

subsection \<open>Decimals\<close>

lemma itoaLoop_decNat: "itoaLoop n buf = (if n = 0 then buf else decNat n @ buf)"
proof (induction n buf rule: itoaLoop.induct)
  case (1 n buf)
  show ?case
  proof (cases "n < 10")
    case True
    then show ?thesis using 1 by (subst itoaLoop.simps) (simp add: itoaLoop.simps [of 0] decNat.simps [of n])
  next
    case False
    then have "n \<noteq> 0" "n div 10 \<noteq> 0" by auto
    moreover have "decNat n = decNat (n div 10) @ [digitChar (n mod 10)]" using False by (subst decNat.simps) simp
    ultimately show ?thesis using 1 by (subst itoaLoop.simps) simp
  qed
qed

lemma itoa_decInt: "itoa n = decInt n"
proof -
  have "digitChar 0 = CHR ''0''" by code_simp
  then show ?thesis by (simp add: itoa_def itoaLoop_decNat decInt_def decNat.simps [of 0])
qed

subsection \<open>Simulations\<close>

lemma lab_agrees_with_simulator:
  "labReplacement p a = (if isSignatureAlgorithm a then PreferredSignature p else PreferredKEM p)"
  by (auto simp: labReplacement_def isSignatureAlgorithm_def Let_def)

lemma impact_of_signatures: "estimateImpact a = (if isSignatureAlgorithm a then ''MEDIUM'' else ''LOW'')"
  by (simp add: estimateImpact_def isSignatureAlgorithm_def Let_def)

text \<open>A hybrid handshake is required exactly with TLS 1.3 and for a post-quantum target; only the AES step makes a rollback
  risky.\<close>

lemma mldsa_step:
  "caHybridRequired (mldsaStep s ca) \<longleftrightarrow> contains s ''ML-DSA'' \<or> caHybridRequired ca"
  "caMinTLSVersion (mldsaStep s ca) = (if contains s ''ML-DSA'' then ''TLSv1.3'' else caMinTLSVersion ca)"
  "caRollbackRisk ca = ''medium'' \<Longrightarrow> caRollbackRisk (mldsaStep s ca) \<in> {''low'', ''medium''}"
  by (simp_all add: mldsaStep_def)

lemma mlkem_step:
  "caHybridRequired (mlkemStep k ca) \<longleftrightarrow> contains k ''ML-KEM'' \<or> caHybridRequired ca"
  "caMinTLSVersion (mlkemStep k ca) = (if contains k ''ML-KEM'' then ''TLSv1.3'' else caMinTLSVersion ca)"
  "caRollbackRisk (mlkemStep k ca) = caRollbackRisk ca"
  by (simp_all add: mlkemStep_def)

lemma aes_step:
  "caHybridRequired (aesStep a s ca) = caHybridRequired ca" "caMinTLSVersion (aesStep a s ca) = caMinTLSVersion ca"
  "caRollbackRisk (aesStep a s ca) = (if contains a ''AES-128'' \<and> contains s ''AES-256'' then ''high'' else caRollbackRisk ca)"
  by (simp_all add: aesStep_def)

lemma hybrid_for_pqc:
  "caHybridRequired (buildCompatibilityAnalysis a k s) \<longleftrightarrow> contains (toUpper s) ''ML-DSA'' \<or> contains (toUpper k) ''ML-KEM''"
  by (auto simp: buildCompatibilityAnalysis_def mldsa_step(1) mlkem_step(1) aes_step(1))

lemma hybrid_needs_tls13:
  "caMinTLSVersion (buildCompatibilityAnalysis a k s) =
    (if caHybridRequired (buildCompatibilityAnalysis a k s) then ''TLSv1.3'' else [])"
  unfolding hybrid_for_pqc by (simp add: buildCompatibilityAnalysis_def mldsa_step(2) mlkem_step(2) aes_step(2))

lemma high_risk:
  "caRollbackRisk (buildCompatibilityAnalysis a k s) = ''high'' \<longleftrightarrow>
    contains (toUpper a) ''AES-128'' \<and> contains (toUpper s) ''AES-256''"
proof -
  have "caRollbackRisk (mldsaStep (toUpper s) ca) \<noteq> ''high''" if "caRollbackRisk ca = ''medium''" for ca
    using mldsa_step(3) [OF that, of "toUpper s"] by auto
  then show ?thesis by (simp add: buildCompatibilityAnalysis_def mlkem_step(3) aes_step(3))
qed

text \<open>The target that the AES step looks at is the recommended signature, so no profile that names a signature scheme takes it.\<close>

lemma aes_step_dead:
  "s \<in> {''ML-DSA-44'', ''ML-DSA-65'', ''ML-DSA-87'', ''SLH-DSA-SHA2-128s''} \<Longrightarrow>
    caRollbackRisk (buildCompatibilityAnalysis ''AES-128-CBC'' k s) \<noteq> ''high''"
  unfolding high_risk by (elim insertE emptyE; simp only:) code_simp+

lemma mldsa_taken_for_classical:
  "isSignatureAlgorithm ''ML-DSA-65'' \<and> estimateImpact ''ML-DSA-65'' = ''MEDIUM''"
  by code_simp

lemma simulation_needs_approval:
  assumes "sandboxSimulate i e m b = Inr r"
  shows "srHumanApprovalRequired r \<and> srRequiresApproval r \<and> srSimulationID r = i"
  using assms by (auto simp: sandboxSimulate_def SimulateMigration_def Let_def split: if_splits sum.splits)

text \<open>A tenant's lab run is written to the connections of every tenant.\<close>

lemma lab_reaches_every_tenant:
  assumes "marshal ''lab_simulation'' (labResult nanos (GetActiveProfile e) q) = Inr payload"
    and "i \<in> clients hub" and "conns hub i = Some c" and "\<not> wcFails c" and "wcOpen c"
  shows "conns (snd (pqcLabSimulate marshal nanos e ''POST'' (Inr q) hub)) i =
    Some (c\<lparr>wcWritten := wcWritten c @ writeFrame opText payload\<rparr>)"
  using assms by (simp add: pqcLabSimulate_def Let_def Broadcast_def writeTo_def connWrite_def)

subsection \<open>Confidence\<close>

definition ruleConfidences :: "string \<Rightarrow> Finding list \<Rightarrow> real list" where
  "ruleConfidences rule fs = map effectiveConfidence (filter (\<lambda>f. fdPolicyRuleID f = rule) fs)"

definition mean :: "real list \<Rightarrow> real" where
  "mean xs = sum_list xs / real (length xs)"

lemma fold_confidence:
  "foldl addConfidence noSums fs =
    \<lparr>csTotal = sum_list (map effectiveConfidence fs),
     csRules = (\<lambda>r. if ruleConfidences r fs = [] then None else Some (sum_list (ruleConfidences r fs), length (ruleConfidences r fs))),
     csLow = length (filter (\<lambda>f. effectiveConfidence f < 1 / 2) fs),
     csHigh = length (filter (\<lambda>f. 9 / 10 < effectiveConfidence f) fs)\<rparr>"
proof (induction fs rule: rev_induct)
  case Nil
  show ?case by (simp add: noSums_def ruleConfidences_def fun_eq_iff)
next
  case (snoc f fs)
  have "ruleConfidences r (fs @ [f]) = ruleConfidences r fs @ (if fdPolicyRuleID f = r then [effectiveConfidence f] else [])" for r
    by (simp add: ruleConfidences_def)
  with snoc show ?case by (auto simp: addConfidence_def addRule_def Let_def fun_eq_iff)
qed

text \<open>The confidence report is what its fields say: the mean confidence of all findings, the numbers of findings
  below 0.5 and above 0.9, and for each rule with findings, and for no other, the mean over that rule's
  findings.\<close>

theorem confidence_report_means:
  "AnalyzeFindingConfidence fs =
    \<lparr>cfAverage = mean (map effectiveConfidence fs),
     cfLow = length (filter (\<lambda>f. effectiveConfidence f < 1 / 2) fs),
     cfHigh = length (filter (\<lambda>f. 9 / 10 < effectiveConfidence f) fs),
     cfBreakdown = (\<lambda>r. if ruleConfidences r fs = [] then None else Some (mean (ruleConfidences r fs)))\<rparr>"
  by (simp add: AnalyzeFindingConfidence_def fold_confidence mean_def ruleConfidences_def fun_eq_iff)

text \<open>A finding stored with confidence zero counts as 0.82, never as low.\<close>

lemma zero_confidence_not_low: "fdConfidence f = 0 \<Longrightarrow> cfLow (AnalyzeFindingConfidence [f]) = 0"
  by (simp add: AnalyzeFindingConfidence_def addConfidence_def noSums_def Let_def effectiveConfidence_def)

lemma false_positives_of_any_rule: "FalsePositiveRate r os = FalsePositiveRate r' os"
  by (simp add: FalsePositiveRate_def)

lemma rate_bounds: "0 \<le> FalsePositiveRate r os \<and> FalsePositiveRate r os \<le> 1"
  by (simp add: FalsePositiveRate_def divide_le_eq_1)

subsection \<open>The release check\<close>

lemma release_ready_iff:
  assumes "releaseCheck ''GET'' ping key entries n t = Inr r"
  shows "rrReady r \<longleftrightarrow> (\<forall>c \<in> set (rrChecks r). ckStatus c \<noteq> ''fail'')"
proof -
  have "ckStatus (databaseCheck ping) = ''fail'' \<longleftrightarrow> ping \<noteq> None" by (cases ping) (simp_all add: databaseCheck_def)
  moreover have "ckStatus (signingKeyCheck key) = ''fail'' \<longleftrightarrow> key = []" by (simp add: signingKeyCheck_def)
  moreover have "ckStatus (policyCheck k) \<noteq> ''fail''" for k by (simp add: policyCheck_def)
  moreover have "ckStatus (schemaCheck n) \<noteq> ''fail''" by (simp add: schemaCheck_def)
  ultimately show ?thesis using assms by (auto simp: releaseCheck_def)
qed

text \<open>The schema check passes whatever the database holds, even one that cannot be reached.\<close>

lemma schema_check_always_passes:
  "\<exists>r. releaseCheck ''GET'' (Some e) key entries n t = Inr r \<and> schemaCheck n \<in> set (rrChecks r) \<and> ckStatus (schemaCheck n) = ''pass''"
  by (simp add: releaseCheck_def schemaCheck_def)

end
