(* ===== verification/Pki.thy ===== *)
theory Pki
  imports Certs AgentCli
begin

text \<open>
  Certificate requests and TLS certificates, \<^verbatim>\<open>certmanager/certmanager.go\<close> and \<^verbatim>\<open>pki.go\<close>, the handler \<open>createCSR\<close> of
  \<^verbatim>\<open>httpapi/server.go\<close> and the commands \<open>pki init\<close> and \<open>pki command-ca\<close> of \<^verbatim>\<open>cmd/janus-server/cli_pki.go\<close>, after
  their flags are parsed. The files are a map from paths to contents and modes; a run of \<^verbatim>\<open>openssl\<close> takes its
  arguments and the files and gives the error, its output and the files. Package crypto/x509 is a parameter: what
  it makes of a template, a key and a signer. A failed write is one that could not open its file.
\<close>

subsection \<open>What is called\<close>

type_synonym files = "string \<rightharpoonup> string \<times> nat"

record x509Request =
  xqCommonName :: string
  xqOrganization :: "string list"
  xqDNSNames :: "string list"

record x509Template =
  xtSerial :: nat
  xtSubject :: Name
  xtNotBefore :: int
  xtNotAfter :: int
  xtKeyUsage :: "string list"
  xtExtKeyUsage :: "string list"
  xtDNSNames :: "string list"
  xtIPAddresses :: "string list"
  xtBasicConstraintsValid :: bool
  xtIsCA :: bool
  xtMaxPathLenZero :: bool

datatype x509Parent = OfTemplate x509Template | OfCert string

text \<open>\<open>pvECKey\<close> and \<open>pvSerial\<close> are the draws, in the order they are made; \<open>pvParseCert\<close> is the error of parsing.\<close>

record PkiEnv =
  pvRun :: "string list \<Rightarrow> files \<Rightarrow> (goerror \<times> string) \<times> files"
  pvTempDir :: "string \<Rightarrow> string result"
  pvJoin :: "string \<Rightarrow> string \<Rightarrow> string"
  pvNoFile :: "string \<Rightarrow> string"
  pvWriteFault :: "string \<Rightarrow> goerror"
  pvMkdirFault :: goerror
  pvECKey :: "nat \<Rightarrow> (string \<times> string) result"
  pvSerial :: "nat \<Rightarrow> nat result"
  pvCreateRequest :: "x509Request \<Rightarrow> string \<Rightarrow> string result"
  pvCreateCert :: "x509Template \<Rightarrow> x509Parent \<Rightarrow> string \<Rightarrow> string \<Rightarrow> string result"
  pvParseCert :: "string \<Rightarrow> goerror"
  pvMarshalEC :: "string \<Rightarrow> string result"
  pvPEM :: "string \<Rightarrow> string \<Rightarrow> string"
  pvParseIP :: "string \<Rightarrow> string option"
  pvQuote :: "string \<Rightarrow> string"
  pvNow :: int
  pvAddDays :: "int \<Rightarrow> int \<Rightarrow> int"

definition readFile :: "PkiEnv \<Rightarrow> files \<Rightarrow> string \<Rightarrow> string result" where
  "readFile v fs p = (case fs p of None \<Rightarrow> Inl (pvNoFile v p) | Some (c, m) \<Rightarrow> Inr c)"

text \<open>\<open>os.WriteFile\<close>: a file that exists keeps its mode.\<close>

definition writeFile :: "PkiEnv \<Rightarrow> string \<Rightarrow> string \<Rightarrow> nat \<Rightarrow> files \<Rightarrow> goerror \<times> files" where
  "writeFile v p content mode fs =
     (case pvWriteFault v p of
        Some e \<Rightarrow> (Some e, fs)
      | None \<Rightarrow> (None, fs(p \<mapsto> (content, case fs p of None \<Rightarrow> mode | Some (c, m) \<Rightarrow> m))))"

definition removeDir :: "string \<Rightarrow> files \<Rightarrow> files" where
  "removeDir dir fs = (\<lambda>p. if p = dir \<or> hasPrefix p (dir @ ''/'') then None else fs p)"

subsection \<open>Requests\<close>

record CSRProfile =
  cpCommonName :: string
  cpDNSNames :: "string list"
  cpOrganization :: "string list"
  cpTargetSignature :: string
  cpHybridCompatibility :: bool

record CSRBundle =
  cbCSRPEM :: string
  cbPrivatePEM :: string
  cbProfile :: CSRProfile

definition normalizeOpenSSLAlgorithm :: "string \<Rightarrow> string" where
  "normalizeOpenSSLAlgorithm name =
     (let upper = toUpper (replaceByte (CHR ''_'') ''-'' name) in
      if upper = ''ML-DSA'' \<or> upper = ''ML-DSA-65'' then ''ML-DSA-65''
      else if upper = ''ML-DSA-44'' then ''ML-DSA-44''
      else if upper = ''ML-DSA-87'' then ''ML-DSA-87''
      else if upper = ''SLH-DSA'' \<or> upper = ''SLH-DSA-SHA2-128S'' then ''SLH-DSA-SHA2-128S''
      else name)"

definition escapeSubject :: "string \<Rightarrow> string" where
  "escapeSubject s = concat (map (\<lambda>c.
     if c = CHR 0x5C then [CHR 0x5C, CHR 0x5C] else if c = CHR ''/'' then [CHR 0x5C, CHR ''/'']
     else if c = CHR 0x0A \<or> c = CHR 0x0D then [] else [c]) s)"

definition subject :: "string \<Rightarrow> string list \<Rightarrow> string" where
  "subject cn orgs = ''/CN='' @ escapeSubject cn @ concat (map (\<lambda>org. ''/O='' @ escapeSubject org) orgs)"

definition trimmedNames :: "string \<Rightarrow> string list \<Rightarrow> string list" where
  "trimmedNames kind names = map (\<lambda>n. kind @ n) (filter (\<lambda>n. n \<noteq> []) (map trimSpace names))"

definition subjectAltName :: "string list \<Rightarrow> string" where
  "subjectAltName names = joinWith '','' (trimmedNames ''DNS:'' names)"

definition GenerateClassicalCSR :: "PkiEnv \<Rightarrow> CSRProfile \<Rightarrow> CSRBundle result" where
  "GenerateClassicalCSR v profile =
     (case pvECKey v 0 of Inl e \<Rightarrow> Inl e | Inr (pub, key) \<Rightarrow>
      case pvCreateRequest v \<lparr>xqCommonName = cpCommonName profile, xqOrganization = cpOrganization profile,
             xqDNSNames = cpDNSNames profile\<rparr> key of Inl e \<Rightarrow> Inl e | Inr csrDER \<Rightarrow>
      case pvMarshalEC v key of Inl e \<Rightarrow> Inl e | Inr keyDER \<Rightarrow>
        Inr \<lparr>cbCSRPEM = pvPEM v ''CERTIFICATE REQUEST'' csrDER, cbPrivatePEM = pvPEM v ''EC PRIVATE KEY'' keyDER,
             cbProfile = profile\<rparr>)"

text \<open>The commands of \<open>GenerateOpenSSLPQCSR\<close> in its directory; the deferred removal comes after every return.\<close>

definition openSSLRequest :: "PkiEnv \<Rightarrow> CSRProfile \<Rightarrow> string \<Rightarrow> files \<Rightarrow> CSRBundle result \<times> files" where
  "openSSLRequest v profile dir fs =
     (let keyPath = pvJoin v dir ''key.pem''; csrPath = pvJoin v dir ''request.pem'';
          algorithm = normalizeOpenSSLAlgorithm (cpTargetSignature profile)
      in case pvRun v [''genpkey'', ''-algorithm'', algorithm, ''-out'', keyPath] fs of
        ((Some e, out), fs1) \<Rightarrow> (Inl (''openssl genpkey '' @ algorithm @ '' failed: '' @ e @ '': '' @ out), fs1)
      | ((None, out), fs1) \<Rightarrow>
      (case pvRun v ([''req'', ''-new'', ''-key'', keyPath, ''-out'', csrPath, ''-subj'',
               subject (cpCommonName profile) (cpOrganization profile)] @
             (if cpDNSNames profile = [] then [] else [''-addext'', ''subjectAltName='' @ subjectAltName (cpDNSNames profile)])) fs1 of
        ((Some e, out'), fs2) \<Rightarrow> (Inl (''openssl req failed: '' @ e @ '': '' @ out'), fs2)
      | ((None, out'), fs2) \<Rightarrow>
      (case readFile v fs2 csrPath of Inl e \<Rightarrow> (Inl e, fs2) | Inr csrPEM \<Rightarrow>
      (case readFile v fs2 keyPath of Inl e \<Rightarrow> (Inl e, fs2) | Inr keyPEM \<Rightarrow>
        (Inr \<lparr>cbCSRPEM = csrPEM, cbPrivatePEM = keyPEM, cbProfile = profile\<rparr>, fs2)))))"

definition GenerateOpenSSLPQCSR :: "PkiEnv \<Rightarrow> CSRProfile \<Rightarrow> files \<Rightarrow> CSRBundle result \<times> files" where
  "GenerateOpenSSLPQCSR v profile fs =
     (case pvTempDir v ''janus-pqc-csr-*'' of
        Inl e \<Rightarrow> (Inl e, fs)
      | Inr dir \<Rightarrow> (let (r, fs1) = openSSLRequest v profile dir fs in (r, removeDir dir fs1)))"

definition GenerateCSR :: "PkiEnv \<Rightarrow> CSRProfile \<Rightarrow> files \<Rightarrow> CSRBundle result \<times> files" where
  "GenerateCSR v profile0 fs =
     (let profile = (if cpTargetSignature profile0 = [] then profile0\<lparr>cpTargetSignature := ''ECDSA-P384-transition''\<rparr> else profile0);
          target = toUpper (cpTargetSignature profile)
      in if hasPrefix target ''ML-DSA'' \<or> hasPrefix target ''SLH-DSA'' then GenerateOpenSSLPQCSR v profile fs
         else (GenerateClassicalCSR v profile, fs))"

definition SHA256Hex :: "(string \<Rightarrow> string) \<Rightarrow> string \<Rightarrow> string" where
  "SHA256Hex sha d = hexEncode (sha d)"

text \<open>The external issuer: \<open>run\<close> gives its error, standard output and standard error on the request.\<close>

definition IssueWithCSR :: "(string \<Rightarrow> string list \<Rightarrow> string \<Rightarrow> goerror \<times> string \<times> string) \<Rightarrow> string \<Rightarrow> string list \<Rightarrow> string
    \<Rightarrow> string result" where
  "IssueWithCSR run command args csrPEM =
     (if command = [] then Inl ''issuer command is required; configure step-cli, lego, EST, or CMP adapter''
      else case run command args csrPEM of
        (Some e, out, stderr) \<Rightarrow> Inl (''external issuer failed: '' @ e @ '': '' @ stderr)
      | (None, out, stderr) \<Rightarrow> Inr out)"

record csrAnswer =
  caCSRPEM :: string
  caPrivateKeySHA256 :: string
  caProfile :: string
  caCustody :: string

definition csrAudit :: "ApiEnv \<Rightarrow> caller \<Rightarrow> string \<Rightarrow> string \<Rightarrow> AuditDB \<Rightarrow> AuditDB" where
  "csrAudit env who cn target db =
     snd (InsertAuditLog (aiSha env) (aiLogID env) (aiNow env)
       \<lparr>LogID = [], alUsername = callerUser who, Action = ''CSR_GENERATE'',
        Details = ''common_name='' @ cn @ '' target_signature='' @ target, alCreatedAt = 0, PrevHash = [], EntryHash = []\<rparr> db)"

definition createCSR :: "PkiEnv \<Rightarrow> ApiEnv \<Rightarrow> string \<Rightarrow> caller \<Rightarrow> CSRProfile result \<Rightarrow> files \<Rightarrow> AuditDB
    \<Rightarrow> csrAnswer answer \<times> files \<times> AuditDB" where
  "createCSR v env httpMethod who body fs db =
     (if httpMethod \<noteq> ''POST'' then (Inl (405, []), fs, db)
      else case body of Inl e \<Rightarrow> (Inl internalError, fs, db) | Inr q \<Rightarrow>
      if cpCommonName q = [] then (Inl (400, ''common_name is required''), fs, db)
      else case GenerateCSR v q fs of
        (Inl e, fs1) \<Rightarrow> (Inl internalError, fs1, db)
      | (Inr b, fs1) \<Rightarrow>
          (Inr \<lparr>caCSRPEM = cbCSRPEM b, caPrivateKeySHA256 = SHA256Hex (aiSha env) (cbPrivatePEM b),
                caProfile = cpTargetSignature (cbProfile b),
                caCustody = ''private key generated in controller process; persist using enterprise secret storage before production use''\<rparr>,
           fs1, csrAudit env who (cpCommonName q) (cpTargetSignature (cbProfile b)) db))"

subsection \<open>TLS certificates\<close>

record PKIInitOptions =
  poCommonName :: string
  poDNSNames :: "string list"
  poIPAddresses :: "string list"
  poOrganization :: "string list"
  poAlgorithm :: string
  poServerDays :: int
  poCADays :: int

record PKIBundle =
  pbAlgorithm :: string
  pbRootCertPEM :: string
  pbRootKeyPEM :: string
  pbServerCertPEM :: string
  pbServerKeyPEM :: string

definition randSerial :: "PkiEnv \<Rightarrow> nat \<Rightarrow> nat result" where
  "randSerial v k = (case pvSerial v k of Inl e \<Rightarrow> Inl (''pki: serial: '' @ e) | Inr n \<Rightarrow> Inr (n + 1))"

definition parseIPs :: "PkiEnv \<Rightarrow> string list \<Rightarrow> string list" where
  "parseIPs v ips = List.map_filter (\<lambda>s. pvParseIP v (trimSpace s)) ips"

definition orgOrDefault :: "string list \<Rightarrow> string list" where
  "orgOrDefault org = (if org = [] then [''Janus CryptoBOM''] else org)"

definition opensslSAN :: "string list \<Rightarrow> string list \<Rightarrow> string" where
  "opensslSAN dns ips = joinWith '','' (trimmedNames ''DNS:'' dns @ trimmedNames ''IP:'' ips)"

definition caTemplate :: "PkiEnv \<Rightarrow> PKIInitOptions \<Rightarrow> nat \<Rightarrow> x509Template" where
  "caTemplate v opts serial =
     \<lparr>xtSerial = serial,
      xtSubject = \<lparr>nmCommonName = poCommonName opts @ '' Root CA'', nmOrganization = orgOrDefault (poOrganization opts)\<rparr>,
      xtNotBefore = pvNow v - 300 * 1000000000, xtNotAfter = pvAddDays v (pvNow v) (poCADays opts),
      xtKeyUsage = [''CertSign'', ''CRLSign''], xtExtKeyUsage = [], xtDNSNames = [], xtIPAddresses = [],
      xtBasicConstraintsValid = True, xtIsCA = True, xtMaxPathLenZero = True\<rparr>"

definition serverTemplate :: "PkiEnv \<Rightarrow> PKIInitOptions \<Rightarrow> nat \<Rightarrow> x509Template" where
  "serverTemplate v opts serial =
     \<lparr>xtSerial = serial, xtSubject = \<lparr>nmCommonName = poCommonName opts, nmOrganization = orgOrDefault (poOrganization opts)\<rparr>,
      xtNotBefore = pvNow v - 300 * 1000000000, xtNotAfter = pvAddDays v (pvNow v) (poServerDays opts),
      xtKeyUsage = [''DigitalSignature''], xtExtKeyUsage = [''ServerAuth''], xtDNSNames = poDNSNames opts,
      xtIPAddresses = parseIPs v (poIPAddresses opts), xtBasicConstraintsValid = True, xtIsCA = False, xtMaxPathLenZero = False\<rparr>"

text \<open>The authority: its key and certificate. Then the server's certificate and key, signed with the authority's key.\<close>

definition ecdsaCA :: "PkiEnv \<Rightarrow> PKIInitOptions \<Rightarrow> (string \<times> string) result" where
  "ecdsaCA v opts =
     (case pvECKey v 0 of Inl e \<Rightarrow> Inl (''pki: generate CA key: '' @ e) | Inr (caPub, caKey) \<Rightarrow>
     (case randSerial v 0 of Inl e \<Rightarrow> Inl e | Inr caSerial \<Rightarrow>
       (let t = caTemplate v opts caSerial in
        case pvCreateCert v t (OfTemplate t) caPub caKey of Inl e \<Rightarrow> Inl (''pki: create CA cert: '' @ e)
        | Inr caDER \<Rightarrow> (case pvParseCert v caDER of Some e \<Rightarrow> Inl e | None \<Rightarrow> Inr (caKey, caDER)))))"

definition ecdsaServer :: "PkiEnv \<Rightarrow> PKIInitOptions \<Rightarrow> string \<Rightarrow> string \<Rightarrow> (string \<times> string) result" where
  "ecdsaServer v opts caKey caDER =
     (case pvECKey v 1 of Inl e \<Rightarrow> Inl (''pki: generate server key: '' @ e) | Inr (srvPub, srvKey) \<Rightarrow>
     (case randSerial v 1 of Inl e \<Rightarrow> Inl e | Inr srvSerial \<Rightarrow>
     (case pvCreateCert v (serverTemplate v opts srvSerial) (OfCert caDER) srvPub caKey of
        Inl e \<Rightarrow> Inl (''pki: create server cert: '' @ e) | Inr srvDER \<Rightarrow> Inr (srvKey, srvDER))))"

definition initPKIECDSA :: "PkiEnv \<Rightarrow> PKIInitOptions \<Rightarrow> PKIBundle result" where
  "initPKIECDSA v opts =
     (case ecdsaCA v opts of Inl e \<Rightarrow> Inl e | Inr (caKey, caDER) \<Rightarrow>
     (case ecdsaServer v opts caKey caDER of Inl e \<Rightarrow> Inl e | Inr (srvKey, srvDER) \<Rightarrow>
     (case (pvMarshalEC v caKey, pvMarshalEC v srvKey) of
        (Inl e, _) \<Rightarrow> Inl e
      | (Inr caKeyDER, Inl e) \<Rightarrow> Inl e
      | (Inr caKeyDER, Inr srvKeyDER) \<Rightarrow>
          Inr \<lparr>pbAlgorithm = ''ECDSA-P384'', pbRootCertPEM = pvPEM v ''CERTIFICATE'' caDER,
               pbRootKeyPEM = pvPEM v ''EC PRIVATE KEY'' caKeyDER, pbServerCertPEM = pvPEM v ''CERTIFICATE'' srvDER,
               pbServerKeyPEM = pvPEM v ''EC PRIVATE KEY'' srvKeyDER\<rparr>)))"

text \<open>One run of \<^verbatim>\<open>openssl\<close>, with the text in front of its error and output.\<close>

definition openssl :: "PkiEnv \<Rightarrow> string list \<Rightarrow> string \<Rightarrow> files \<Rightarrow> goerror \<times> files" where
  "openssl v args failed fs =
     (case pvRun v args fs of
        ((Some e, out), fs1) \<Rightarrow> (Some (failed @ '': '' @ e @ '': '' @ trimSpace out), fs1)
      | ((None, out), fs1) \<Rightarrow> (None, fs1))"

definition extensionText :: "PKIInitOptions \<Rightarrow> string" where
  "extensionText opts =
     (let san = opensslSAN (poDNSNames opts) (poIPAddresses opts); nl = [CHR 0x0A] in
      ''basicConstraints=critical,CA:FALSE'' @ nl @ ''keyUsage=critical,digitalSignature'' @ nl @ ''extendedKeyUsage=serverAuth'' @ nl @
      (if san = [] then [] else ''subjectAltName='' @ san @ nl))"

fun steps :: "(files \<Rightarrow> goerror \<times> files) list \<Rightarrow> files \<Rightarrow> goerror \<times> files" where
  "steps [] fs = (None, fs)"
| "steps (s # ss) fs = (case s fs of (Some e, fs1) \<Rightarrow> (Some e, fs1) | (None, fs1) \<Rightarrow> steps ss fs1)"

definition opensslSteps :: "PkiEnv \<Rightarrow> PKIInitOptions \<Rightarrow> string \<Rightarrow> string \<Rightarrow> (files \<Rightarrow> goerror \<times> files) list" where
  "opensslSteps v opts algorithm dir =
     (let p = pvJoin v dir in
      [openssl v [''genpkey'', ''-algorithm'', algorithm, ''-out'', p ''ca.key'']
         (''pki: openssl genpkey '' @ algorithm @ '' failed (ML-DSA issuance requires OpenSSL 3.5+)''),
       openssl v [''req'', ''-x509'', ''-new'', ''-key'', p ''ca.key'', ''-out'', p ''ca.crt'', ''-days'', decInt (poCADays opts), ''-subj'',
           subject (poCommonName opts @ '' Root CA'') (poOrganization opts), ''-addext'', ''basicConstraints=critical,CA:TRUE'',
           ''-addext'', ''keyUsage=critical,keyCertSign,cRLSign''] ''pki: openssl req -x509 (CA) failed'',
       openssl v [''genpkey'', ''-algorithm'', algorithm, ''-out'', p ''server.key'']
         (''pki: openssl genpkey '' @ algorithm @ '' (server) failed''),
       openssl v [''req'', ''-new'', ''-key'', p ''server.key'', ''-out'', p ''server.csr'', ''-subj'',
           subject (poCommonName opts) (poOrganization opts)] ''pki: openssl req (server CSR) failed'',
       writeFile v (p ''server.ext'') (extensionText opts) 384,
       openssl v [''x509'', ''-req'', ''-in'', p ''server.csr'', ''-CA'', p ''ca.crt'', ''-CAkey'', p ''ca.key'', ''-CAcreateserial'',
           ''-out'', p ''server.crt'', ''-days'', decInt (poServerDays opts), ''-extfile'', p ''server.ext'']
         ''pki: openssl x509 -req (sign server) failed''])"

definition readBundle :: "PkiEnv \<Rightarrow> string \<Rightarrow> string \<Rightarrow> files \<Rightarrow> PKIBundle result" where
  "readBundle v algorithm dir fs =
     (case readFile v fs (pvJoin v dir ''ca.crt'') of Inl e \<Rightarrow> Inl e | Inr caCrtPEM \<Rightarrow>
      case readFile v fs (pvJoin v dir ''ca.key'') of Inl e \<Rightarrow> Inl e | Inr caKeyPEM \<Rightarrow>
      case readFile v fs (pvJoin v dir ''server.crt'') of Inl e \<Rightarrow> Inl e | Inr srvCrtPEM \<Rightarrow>
      case readFile v fs (pvJoin v dir ''server.key'') of Inl e \<Rightarrow> Inl e | Inr srvKeyPEM \<Rightarrow>
        Inr \<lparr>pbAlgorithm = algorithm, pbRootCertPEM = caCrtPEM, pbRootKeyPEM = caKeyPEM, pbServerCertPEM = srvCrtPEM,
             pbServerKeyPEM = srvKeyPEM\<rparr>)"

definition initPKIOpenSSL :: "PkiEnv \<Rightarrow> PKIInitOptions \<Rightarrow> string \<Rightarrow> files \<Rightarrow> PKIBundle result \<times> files" where
  "initPKIOpenSSL v opts algorithm fs =
     (case pvTempDir v ''janus-pki-*'' of
        Inl e \<Rightarrow> (Inl e, fs)
      | Inr dir \<Rightarrow>
          (case steps (opensslSteps v opts algorithm dir) fs of
             (Some e, fs1) \<Rightarrow> (Inl e, removeDir dir fs1)
           | (None, fs1) \<Rightarrow> (readBundle v algorithm dir fs1, removeDir dir fs1)))"

definition InitPKI :: "PkiEnv \<Rightarrow> PKIInitOptions \<Rightarrow> files \<Rightarrow> PKIBundle result \<times> files" where
  "InitPKI v opts0 fs =
     (if trimSpace (poCommonName opts0) = [] then (Inl ''pki: CommonName is required'', fs)
      else let opts = opts0\<lparr>poAlgorithm := if poAlgorithm opts0 = [] then ''ECDSA-P384'' else poAlgorithm opts0,
                 poServerDays := if poServerDays opts0 \<le> 0 then 365 else poServerDays opts0,
                 poCADays := if poCADays opts0 \<le> 0 then 3650 else poCADays opts0\<rparr>;
               alg = toUpper (replaceByte (CHR ''_'') ''-'' (poAlgorithm opts))
        in if alg = ''ECDSA-P384'' then (initPKIECDSA v opts, fs)
           else if hasPrefix alg ''ML-DSA'' then initPKIOpenSSL v opts (normalizeOpenSSLAlgorithm alg) fs
           else (Inl (''pki: unsupported algorithm '' @ pvQuote v (poAlgorithm opts) @ '' (use ECDSA-P384, ML-DSA-65, or ML-DSA-87)''), fs))"

subsection \<open>The command line\<close>

definition splitCSV :: "string \<Rightarrow> string list" where
  "splitCSV s = (if trimSpace s = [] then [] else filter (\<lambda>p. p \<noteq> []) (map trimSpace (splitOn (CHR '','') s)))"

text \<open>The loop over the files to write; the first problem ends the process.\<close>

fun writeOut :: "PkiEnv \<Rightarrow> string \<Rightarrow> string \<Rightarrow> bool \<Rightarrow> (string \<times> string \<times> nat) list \<Rightarrow> files \<Rightarrow> string option \<times> files" where
  "writeOut v cmd out force [] fs = (None, fs)"
| "writeOut v cmd out force ((name, content, mode) # rest) fs =
     (let path = pvJoin v out name in
      if \<not> force \<and> fs path \<noteq> None then (Some (cmd @ '': '' @ path @ '' exists (use --force to overwrite)''), fs)
      else case writeFile v path content mode fs of
        (Some e, fs1) \<Rightarrow> (Some (cmd @ '': write '' @ path @ '': '' @ e), fs1)
      | (None, fs1) \<Rightarrow> writeOut v cmd out force rest fs1)"

record pkiFlags =
  pfCN :: string
  pfDNS :: string
  pfIP :: string
  pfOrg :: string
  pfAlg :: string
  pfOut :: string
  pfServerDays :: int
  pfCADays :: int
  pfForce :: bool

definition pkiInit :: "PkiEnv \<Rightarrow> pkiFlags \<Rightarrow> files \<Rightarrow> cliResult \<times> files" where
  "pkiInit v f fs =
     (if trimSpace (pfCN f) = [] then (Exit 2 ''pki init: --cn is required'', fs)
      else case InitPKI v \<lparr>poCommonName = pfCN f, poDNSNames = splitCSV (pfDNS f), poIPAddresses = splitCSV (pfIP f),
          poOrganization = splitCSV (pfOrg f), poAlgorithm = pfAlg f, poServerDays = pfServerDays f, poCADays = pfCADays f\<rparr> fs of
        (Inl e, fs1) \<Rightarrow> (Exit 1 (''pki init: '' @ e), fs1)
      | (Inr b, fs1) \<Rightarrow>
          (case pvMkdirFault v of Some e \<Rightarrow> (Exit 1 (''pki init: create out dir: '' @ e), fs1) | None \<Rightarrow>
           (case writeOut v ''pki init'' (pfOut f) (pfForce f)
               [(''root-ca.crt'', pbRootCertPEM b, 420), (''root-ca.key'', pbRootKeyPEM b, 384),
                (''server.crt'', pbServerCertPEM b, 420), (''server.key'', pbServerKeyPEM b, 384)] fs1 of
              (Some e, fs2) \<Rightarrow> (Exit 1 e, fs2)
            | (None, fs2) \<Rightarrow> (Printed [''# PKI generated ('' @ pbAlgorithm b @ '') in '' @ pfOut f], fs2))))"

definition pkiCommandCA :: "PkiEnv \<Rightarrow> CertEnv \<Rightarrow> ChainDraw \<Rightarrow> pkiFlags \<Rightarrow> files \<Rightarrow> cliResult \<times> files" where
  "pkiCommandCA v cv d f fs =
     (case IssueMLDSAChain cv d (pfAlg f) ''Janus Command Root CA'' ''janus-command-signer'' (pfServerDays f) of
        Inl e \<Rightarrow> (Exit 1 (''pki command-ca: '' @ e), fs)
      | Inr c \<Rightarrow>
          (case pvMkdirFault v of Some e \<Rightarrow> (Exit 1 (''pki command-ca: create out dir: '' @ e), fs) | None \<Rightarrow>
           (case writeOut v ''pki command-ca'' (pfOut f) (pfForce f)
               [(''command-root-ca.crt'', mcRootCertPEM c, 420), (''command-root-ca.key'', mcRootKeyPEM c, 384),
                (''command.crt'', mcLeafCertPEM c, 420), (''command.key'', mcLeafKeyPEM c, 384)] fs of
              (Some e, fs1) \<Rightarrow> (Exit 1 e, fs1)
            | (None, fs1) \<Rightarrow> (Printed [''# ML-DSA command-signing PKI generated ('' @ mcScheme c @ '') in '' @ pfOut f], fs1))))"

end
