(* ===== verification/PkiProofs.thy ===== *)
theory PkiProofs
  imports Pki
begin

text \<open>
  Private keys that \<^verbatim>\<open>openssl\<close> makes do not stay on disk, whatever fails, and without \<open>--force\<close> the command
  line overwrites nothing. Then what requests and options turn into that they should not.
\<close>

subsection \<open>Files\<close>

definition under :: "string \<Rightarrow> string \<Rightarrow> bool" where
  "under dir p \<longleftrightarrow> p = dir \<or> hasPrefix p (dir @ ''/'')"

lemma removeDir_under: "removeDir dir fs p = (if under dir p then None else fs p)"
  by (simp add: removeDir_def under_def)

lemma GenerateCSR_files:
  "snd (GenerateCSR v profile fs) = fs \<or>
    (\<exists>dir fs1. pvTempDir v ''janus-pqc-csr-*'' = Inr dir \<and> snd (GenerateCSR v profile fs) = removeDir dir fs1)"
  by (auto simp: GenerateCSR_def GenerateOpenSSLPQCSR_def Let_def split_beta split: sum.split)

lemma InitPKI_files:
  "snd (InitPKI v opts fs) = fs \<or>
    (\<exists>dir o' alg. pvTempDir v ''janus-pki-*'' = Inr dir \<and>
      snd (InitPKI v opts fs) = removeDir dir (snd (steps (opensslSteps v o' alg dir) fs)))"
proof -
  have "snd (initPKIOpenSSL v o' alg fs) = fs \<or> (\<exists>dir. pvTempDir v ''janus-pki-*'' = Inr dir \<and>
      snd (initPKIOpenSSL v o' alg fs) = removeDir dir (snd (steps (opensslSteps v o' alg dir) fs)))" for o' alg
    by (auto simp: initPKIOpenSSL_def split: sum.split prod.split option.split)
  moreover have "snd (InitPKI v opts fs) = fs \<or> (\<exists>o' alg. snd (InitPKI v opts fs) = snd (initPKIOpenSSL v o' alg fs))"
    unfolding InitPKI_def Let_def by (simp split: if_split) blast
  ultimately show ?thesis by metis
qed

lemma createCSR_files:
  assumes "\<And>q. snd (GenerateCSR v q fs) p = None" and "fs p = None"
  shows "fst (snd (createCSR v env m who body fs db)) p = None"
proof (cases "m = ''POST'' \<and> (\<exists>q. body = Inr q \<and> cpCommonName q \<noteq> [])")
  case True
  then obtain q where q: "m = ''POST''" "body = Inr q" "cpCommonName q \<noteq> []" by blast
  obtain r fs1 where r: "GenerateCSR v q fs = (r, fs1)" by (cases "GenerateCSR v q fs")
  then have "fs1 p = None" using assms(1) [of q] by simp
  with q show ?thesis by (cases r) (simp_all add: createCSR_def r)
next
  case False
  with assms(2) show ?thesis by (cases body) (auto simp: createCSR_def)
qed

text \<open>Private keys that openssl writes do not stay on disk: after the request handler and after the issuing of
  TLS certificates, on success and on every error, no file is left in the temporary directory they
  used. Relied on: the directory that the system made was new.\<close>

theorem temporary_keys_removed:
  assumes "pvTempDir v ''janus-pqc-csr-*'' = Inr csrDir" and "pvTempDir v ''janus-pki-*'' = Inr tlsDir"
    and "\<And>p. under csrDir p \<or> under tlsDir p \<Longrightarrow> fs p = None"
    and "under csrDir csrFile" and "under tlsDir tlsFile"
  shows "fst (snd (createCSR v env m who body fs db)) csrFile = None \<and> snd (InitPKI v opts fs) tlsFile = None"
proof
  have "snd (GenerateCSR v q fs) csrFile = None" for q
    using GenerateCSR_files [of v q fs] assms by (auto simp: removeDir_under)
  then show "fst (snd (createCSR v env m who body fs db)) csrFile = None"
    using assms(3,4) by (intro createCSR_files) auto
  show "snd (InitPKI v opts fs) tlsFile = None"
    using InitPKI_files [of v opts fs] assms by (auto simp: removeDir_under)
qed

definition demo_pki :: PkiEnv where
  "demo_pki = \<lparr>pvRun = (\<lambda>args fs. ((None, []), if length args = 5 \<and> hasPrefix (args ! 4) ''/t/'' then fs(args ! 4 \<mapsto> (''key'', 384)) else fs)),
     pvTempDir = (\<lambda>pat. Inr ''/t''), pvJoin = (\<lambda>d n. d @ ''/'' @ n), pvNoFile = id, pvWriteFault = (\<lambda>p. None), pvMkdirFault = None,
     pvECKey = (\<lambda>k. Inr (''P'', ''K'')), pvSerial = (\<lambda>k. Inr k), pvCreateRequest = (\<lambda>t k. Inr ''csr''),
     pvCreateCert = (\<lambda>t p pub k. Inr ''crt''), pvParseCert = (\<lambda>d. None), pvMarshalEC = Inr, pvPEM = (@), pvParseIP = Some,
     pvQuote = id, pvNow = 0, pvAddDays = (+)\<rparr>"

theorem temporary_keys_removed_witness:
  "fst (snd (createCSR demo_pki (env :: ApiEnv) ''POST'' None
      (Inr \<lparr>cpCommonName = ''h'', cpDNSNames = [], cpOrganization = [], cpTargetSignature = ''ML-DSA-65'', cpHybridCompatibility = False\<rparr>)
      Map.empty db)) ''/t/key.pem'' = None"
  by (rule temporary_keys_removed [where csrDir = "''/t''" and tlsDir = "''/t''" and csrFile = "''/t/key.pem''" and tlsFile = "''/t''", THEN conjunct1])
    (simp_all add: demo_pki_def under_def hasPrefix_def)

subsection \<open>Overwriting\<close>

lemma writeFile_keeps: "p \<noteq> q \<Longrightarrow> snd (writeFile v q c m fs) p = fs p"
  by (simp add: writeFile_def split: option.split)

lemma writeOut_keeps: "fs p = Some x \<Longrightarrow> snd (writeOut v cmd out False files fs) p = Some x"
proof (induction v cmd out "False" files fs rule: writeOut.induct)
  case (2 v cmd out name content mode rest fs)
  show ?case
  proof (cases "fs (pvJoin v out name)")
    case None
    then have "snd (writeFile v (pvJoin v out name) content mode fs) p = Some x"
      using 2(2) by (subst writeFile_keeps) auto
    then show ?thesis using 2 None by (auto simp: Let_def split: prod.split option.split)
  qed (simp add: Let_def 2)
qed simp

definition confined :: "PkiEnv \<Rightarrow> string \<Rightarrow> bool" where
  "confined v dir \<longleftrightarrow> (\<forall>args fs p. \<not> under dir p \<longrightarrow> snd (pvRun v args fs) p = fs p) \<and> (\<forall>name. under dir (pvJoin v dir name))"

lemma steps_keep:
  "(\<And>s fs. s \<in> set ss \<Longrightarrow> snd (s fs) p = fs p) \<Longrightarrow> snd (steps ss fs) p = fs p"
proof (induction ss arbitrary: fs)
  case (Cons s ss)
  obtain e fs1 where s: "s fs = (e, fs1)" by (cases "s fs")
  then have "fs1 p = fs p" using Cons(2) [of s fs] by simp
  moreover have "snd (steps ss fs1) p = fs1 p" using Cons by simp
  ultimately show ?case by (cases e) (simp_all add: s)
qed simp

lemma openssl_keeps: "confined v dir \<Longrightarrow> \<not> under dir p \<Longrightarrow> snd (openssl v args failed fs) p = fs p"
proof -
  assume "confined v dir" "\<not> under dir p"
  then have "snd (pvRun v args fs) p = fs p" by (simp add: confined_def)
  moreover obtain e out fs1 where "pvRun v args fs = ((e, out), fs1)" by (cases "pvRun v args fs") auto
  ultimately show ?thesis by (cases e) (simp_all add: openssl_def)
qed

lemma InitPKI_keeps:
  assumes "\<And>d. pvTempDir v ''janus-pki-*'' = Inr d \<Longrightarrow> confined v d" and "\<And>d. pvTempDir v ''janus-pki-*'' = Inr d \<Longrightarrow> \<not> under d p"
  shows "snd (InitPKI v opts fs) p = fs p"
proof -
  have "snd (steps (opensslSteps v o' alg d) fs) p = fs p" if "pvTempDir v ''janus-pki-*'' = Inr d" for d o' alg
  proof (rule steps_keep)
    have c: "confined v d" "\<not> under d p" using assms that by auto
    then have "p \<noteq> pvJoin v d name" for name by (auto simp: confined_def)
    with c show "snd (s fs) p = fs p" if "s \<in> set (opensslSteps v o' alg d)" for s fs
      using that by (auto simp: opensslSteps_def Let_def openssl_keeps writeFile_keeps)
  qed
  with InitPKI_files [of v opts fs] assms(2) show ?thesis by (auto simp: removeDir_under)
qed

lemma pkiInit_keeps:
  assumes "\<not> pfForce f" and kept: "\<And>opts. snd (InitPKI v opts fs) p = Some x" and "fs p = Some x"
  shows "snd (pkiInit v f fs) p = Some x"
proof -
  define opts where "opts = \<lparr>poCommonName = pfCN f, poDNSNames = splitCSV (pfDNS f), poIPAddresses = splitCSV (pfIP f),
    poOrganization = splitCSV (pfOrg f), poAlgorithm = pfAlg f, poServerDays = pfServerDays f, poCADays = pfCADays f\<rparr>"
  obtain r fs1 where r: "InitPKI v opts fs = (r, fs1)" by (cases "InitPKI v opts fs")
  then have 1: "fs1 p = Some x" using kept [of opts] by simp
  show ?thesis
  proof (cases r)
    case (Inl e)
    then show ?thesis using 1 assms(3) by (simp add: pkiInit_def opts_def [symmetric] r)
  next
    case (Inr b)
    obtain w fs2 where w: "writeOut v ''pki init'' (pfOut f) False [(''root-ca.crt'', pbRootCertPEM b, 420),
        (''root-ca.key'', pbRootKeyPEM b, 384), (''server.crt'', pbServerCertPEM b, 420), (''server.key'', pbServerKeyPEM b, 384)] fs1 = (w, fs2)"
      by (rule prod.exhaust)
    have "fs2 p = Some x" using writeOut_keeps [of fs1 p x v "''pki init''" "pfOut f"] 1 w by (metis snd_conv)
    then show ?thesis using 1 assms(1,3) Inr
      by (simp add: pkiInit_def opts_def [symmetric] r w del: writeOut.simps split: option.split)
  qed
qed

lemma pkiCommandCA_keeps:
  assumes "\<not> pfForce f" and "fs p = Some x"
  shows "snd (pkiCommandCA v cv draw f fs) p = Some x"
proof (cases "IssueMLDSAChain cv draw (pfAlg f) ''Janus Command Root CA'' ''janus-command-signer'' (pfServerDays f)")
  case (Inr c)
  obtain w fs2 where w: "writeOut v ''pki command-ca'' (pfOut f) False [(''command-root-ca.crt'', mcRootCertPEM c, 420),
      (''command-root-ca.key'', mcRootKeyPEM c, 384), (''command.crt'', mcLeafCertPEM c, 420), (''command.key'', mcLeafKeyPEM c, 384)] fs = (w, fs2)"
    by (rule prod.exhaust)
  have "fs2 p = Some x" using writeOut_keeps [of fs p x v "''pki command-ca''" "pfOut f"] assms(2) w by (metis snd_conv)
  then show ?thesis using assms Inr by (simp add: pkiCommandCA_def w del: writeOut.simps split: option.split)
qed (simp add: pkiCommandCA_def assms(2))

text \<open>Without \<open>--force\<close> neither \<open>pki init\<close> nor \<open>pki command-ca\<close> changes a file that was there, whether it succeeds or
  stops halfway. Relied on: openssl writes only in the temporary directory, where the file is not.\<close>

theorem existing_files_kept:
  assumes "\<not> pfForce f" and "fs p = Some x"
    and "\<And>d. pvTempDir v ''janus-pki-*'' = Inr d \<Longrightarrow> confined v d \<and> \<not> under d p"
  shows "snd (pkiInit v f fs) p = Some x \<and> snd (pkiCommandCA v cv draw f fs) p = Some x"
proof
  have kept: "snd (InitPKI v opts fs) p = Some x" for opts using assms(2,3) by (subst InitPKI_keeps) auto
  show "snd (pkiInit v f fs) p = Some x" using assms(1) by (intro pkiInit_keeps kept assms(2))
  show "snd (pkiCommandCA v cv draw f fs) p = Some x" using assms(1,2) by (rule pkiCommandCA_keeps)
qed

theorem existing_files_kept_witness:
  "snd (pkiInit demo_pki \<lparr>pfCN = ''h'', pfDNS = [], pfIP = [], pfOrg = [], pfAlg = ''ML-DSA-65'', pfOut = ''/o'', pfServerDays = 1,
      pfCADays = 1, pfForce = False\<rparr> [''/o/server.key'' \<mapsto> (''old'', 384)]) ''/o/server.key'' = Some (''old'', 384)"
proof (rule existing_files_kept [THEN conjunct1])
  fix d assume "pvTempDir demo_pki ''janus-pki-*'' = Inr d"
  then have d: "d = ''/t''" by (simp add: demo_pki_def)
  have "confined demo_pki ''/t''" by (auto simp: confined_def under_def demo_pki_def hasPrefix_def)
  then show "confined demo_pki d \<and> \<not> under d ''/o/server.key''" by (simp add: d under_def hasPrefix_def)
qed simp_all

subsection \<open>What goes wrong\<close>

text \<open>The check for existing files comes between the writes: a directory with a server certificate and no
  root gets a new root and its key, and then the error.\<close>

lemma half_written:
  assumes "distinct [pvJoin v out a, pvJoin v out b, pvJoin v out c]" and "pvWriteFault v = (\<lambda>p. None)"
    and "fs (pvJoin v out a) = None" and "fs (pvJoin v out b) = None" and "fs (pvJoin v out c) = Some x"
  shows "\<exists>e. writeOut v cmd out False ((a, ca, ma) # (b, cb, mb) # (c, cc, mc) # rest) fs =
    (Some e, fs(pvJoin v out a \<mapsto> (ca, ma), pvJoin v out b \<mapsto> (cb, mb)))"
  using assms by (cases x) (auto simp: Let_def writeFile_def)

text \<open>With \<open>--force\<close> a key file that others may read stays so.\<close>

lemma forced_key_keeps_mode:
  "fs p = Some (old, m) \<Longrightarrow> pvWriteFault v p = None \<Longrightarrow> snd (writeFile v p key 384 fs) p = Some (key, m)"
  by (simp add: writeFile_def)

text \<open>A comma in one name makes two of it, of any kind.\<close>

lemma comma_adds_name: "subjectAltName [''a,DNS:b''] = subjectAltName [''a'', ''b'']"
  by code_simp

lemma comma_adds_address: "subjectAltName [''a,IP:10.0.0.1''] = opensslSAN [''a''] [''10.0.0.1'']"
  by code_simp

text \<open>The spelling with underscores, which the openssl path understands, gets an ECDSA request that is answered
  and logged as ML-DSA.\<close>

lemma underscores_get_ecdsa:
  assumes "cpTargetSignature q = ''ML_DSA_65''"
  shows "GenerateCSR v q fs = (GenerateClassicalCSR v q, fs)" and "normalizeOpenSSLAlgorithm (cpTargetSignature q) = ''ML-DSA-65''"
proof -
  have "\<not> hasPrefix (toUpper ''ML_DSA_65'') ''ML-DSA''" "\<not> hasPrefix (toUpper ''ML_DSA_65'') ''SLH-DSA''" by code_simp+
  with assms show "GenerateCSR v q fs = (GenerateClassicalCSR v q, fs)" by (simp add: GenerateCSR_def Let_def)
  have "normalizeOpenSSLAlgorithm ''ML_DSA_65'' = ''ML-DSA-65''" by code_simp
  with assms show "normalizeOpenSSLAlgorithm (cpTargetSignature q) = ''ML-DSA-65''" by simp
qed

lemma classical_bundle_keeps_target:
  "GenerateClassicalCSR v q = Inr b \<Longrightarrow> cbProfile b = q"
  by (auto simp: GenerateClassicalCSR_def split: sum.splits prod.splits)

text \<open>The organization that the usage promises as default is only in the ECDSA certificates.\<close>

lemma openssl_subject_without_organization: "subject cn [] = ''/CN='' @ escapeSubject cn"
  by (simp add: subject_def)

lemma plus_not_escaped: "escapeSubject ''a+O=b'' = ''a+O=b''"
  by code_simp

lemma serial_positive: "randSerial v k = Inr n \<Longrightarrow> 0 < n"
  by (auto simp: randSerial_def split: sum.splits)

end
