(* ===== verification/ReadApi.thy ===== *)
theory ReadApi
  imports Reports FindingApi ControlPack
begin

text \<open>
  The HTTP handlers that only read: lists and pages of \<^verbatim>\<open>httpapi/server.go\<close>, \<^verbatim>\<open>host_findings.go\<close>, \<^verbatim>\<open>lifecycle.go\<close>,
  \<^verbatim>\<open>report_routes.go\<close>, \<^verbatim>\<open>compliance_rules.go\<close>, the sub-routes of an agent in \<^verbatim>\<open>agent_routes.go\<close>, the advisory on
  agent versions and the certificate part of the SLA page in \<^verbatim>\<open>features.go\<close>. A query string is a map with the first
  value of each key. As elsewhere the orders in which rows are read and the error of each statement are arguments.
\<close>

subsection \<open>Parameters of a request\<close>

type_synonym urlQuery = "string \<rightharpoonup> string"

definition getQ :: "urlQuery \<Rightarrow> string \<Rightarrow> string" where
  "getQ q key = (case q key of None \<Rightarrow> [] | Some v \<Rightarrow> v)"

text \<open>\<open>fmt.Sscanf\<close> with \<open>%d\<close>: white space of one byte but no newline, a sign, digits, whatever follows; 0 when nothing fits a 64-bit integer.\<close>

definition scanD :: "string \<Rightarrow> int" where
  "scanD v =
     (let s = dropWhile (\<lambda>c. isSpace c \<and> c \<noteq> CHR 0x0A) v;
          neg = (s \<noteq> [] \<and> hd s = CHR ''-'');
          digits = takeWhile isDigit (if s \<noteq> [] \<and> (hd s = CHR ''-'' \<or> hd s = CHR ''+'') then tl s else s);
          n = (if neg then - int (readDec digits) else int (readDec digits))
      in if digits = [] \<or> n < - (2 ^ 63) \<or> 2 ^ 63 \<le> n then 0 else n)"

definition intParam :: "urlQuery \<Rightarrow> string \<Rightarrow> int \<Rightarrow> int" where
  "intParam q key dflt =
     (let v = getQ q key in if v = [] then dflt else let n = scanD v in if n \<le> 0 then dflt else n)"

definition pageParams :: "urlQuery \<Rightarrow> int \<Rightarrow> caller \<Rightarrow> QueryParams" where
  "pageParams q lmt who =
     \<lparr>qpLimit = lmt, qpOffset = intParam q ''offset'' 0, qpSort = [], qpOrder = [], qpSearch = [],
      qpHostUUID = [], qpScanID = [], qpAlgorithm = [], qpAssetRef = [], qpDateFrom = None, qpDateTo = None,
      qpTenantID = TenantFromContext who\<rparr>"

definition paginatedQuery :: "urlQuery \<Rightarrow> bool" where
  "paginatedQuery q \<longleftrightarrow> q ''limit'' \<noteq> None \<or> q ''offset'' \<noteq> None \<or> q ''search'' \<noteq> None"

text \<open>The parameters of the two lists: \<open>pageSize\<close> is the limit of a page, \<open>whole\<close> the one without paging.\<close>

definition listParams :: "urlQuery \<Rightarrow> int \<Rightarrow> int \<Rightarrow> caller \<Rightarrow> QueryParams" where
  "listParams q pageSize whole who =
     (pageParams q (if paginatedQuery q then intParam q ''limit'' pageSize else whole) who)
       \<lparr>qpSort := getQ q ''sort'', qpOrder := getQ q ''order'', qpSearch := getQ q ''search''\<rparr>"

text \<open>A list with the header \<open>X-Total-Count\<close>, if it is set.\<close>

type_synonym 'a page = "'a list \<times> nat option"

definition pageAnswer :: "bool \<Rightarrow> ('a list \<times> nat) result \<Rightarrow> 'a page answer" where
  "pageAnswer counted r = (case r of Inl e \<Rightarrow> Inl internalError | Inr (xs, n) \<Rightarrow> Inr (xs, if counted then Some n else None))"

definition plainAnswer :: "'a result \<Rightarrow> 'a answer" where
  "plainAnswer r = (case r of Inl e \<Rightarrow> Inl internalError | Inr x \<Rightarrow> Inr x)"

definition onlyGet :: "string \<Rightarrow> 'a answer \<Rightarrow> 'a answer" where
  "onlyGet httpMethod a = (if httpMethod \<noteq> ''GET'' then Inl (405, []) else a)"

subsection \<open>Lists\<close>

record ReadEnv =
  rvIlike :: "string \<Rightarrow> string \<Rightarrow> bool"
  rvScanOrder :: "ScanRun list \<Rightarrow> ScanRun list"
  rvGroupOrder :: "string list \<Rightarrow> string list"
  rvComponentOrder :: "ScanComponent list \<Rightarrow> ScanComponent list"
  rvJoinOrder :: "joined list \<Rightarrow> joined list"
  rvOccurrenceOrder :: "Occurrence list \<Rightarrow> Occurrence list"
  rvMigrationOrder :: "MigrationRow list \<Rightarrow> MigrationRow list"
  rvFaults :: "nat \<Rightarrow> goerror"
  rvNow :: int

abbreviation mainDB :: "FleetDB \<Rightarrow> IngestDB" where
  "mainDB db \<equiv> adMain (flAgents db)"

datatype healthState = Draining | Degraded string | Healthy

definition health :: "bool \<Rightarrow> goerror \<Rightarrow> int \<times> healthState" where
  "health draining ping =
     (if draining then (503, Draining) else case ping of Some e \<Rightarrow> (503, Degraded e) | None \<Rightarrow> (200, Healthy))"

definition overview :: "ReadEnv \<Rightarrow> caller \<Rightarrow> FleetDB \<Rightarrow> Overview answer" where
  "overview v who db = plainAnswer (Overview_read (rvScanOrder v) (rvGroupOrder v) (rvFaults v) (rvNow v) (TenantFromContext who) db)"

definition components :: "ReadEnv \<Rightarrow> urlQuery \<Rightarrow> caller \<Rightarrow> FleetDB \<Rightarrow> Component page answer" where
  "components v q who db = pageAnswer (paginatedQuery q)
     (ComponentsPaginated (rvIlike v) (rvScanOrder v) (rvComponentOrder v) (rvFaults v) (listParams q 100 500 who) db)"

definition findings :: "ReadEnv \<Rightarrow> urlQuery \<Rightarrow> caller \<Rightarrow> FleetDB \<Rightarrow> Finding page answer" where
  "findings v q who db = pageAnswer (paginatedQuery q)
     (FindingsPaginated (rvJoinOrder v) (rvIlike v) (rvFaults v 0, rvFaults v 1) (listParams q 50 200 who) (mainDB db))"

definition migrationsList :: "ReadEnv \<Rightarrow> caller \<Rightarrow> FleetDB \<Rightarrow> MigrationRow list answer" where
  "migrationsList v who db = plainAnswer (Migrations_list (rvMigrationOrder v) (rvFaults v 0) (TenantFromContext who) db)"

definition auditLogs :: "string \<Rightarrow> goerror \<Rightarrow> AuditDB \<Rightarrow> AuditLog list answer" where
  "auditLogs httpMethod fault db = onlyGet httpMethod (plainAnswer (GetAuditLogs fault db))"

definition auditVerify :: "(string \<Rightarrow> string) \<Rightarrow> string \<Rightarrow> AuditDB \<Rightarrow> AuditChainResult answer" where
  "auditVerify sha httpMethod db = onlyGet httpMethod (plainAnswer (VerifyAuditChain sha db))"

text \<open>\<open>SplitN(path, "/", 2)\<close> has two parts exactly when there is a slash.\<close>

definition hostFindings :: "ReadEnv \<Rightarrow> string \<Rightarrow> string \<Rightarrow> caller \<Rightarrow> FleetDB \<Rightarrow> Finding list answer" where
  "hostFindings v httpMethod path who db = onlyGet httpMethod
     (let p = trimPrefix path ''/api/hosts/''; host = uptoByte (CHR ''/'') p; tenant = TenantFromContext who in
      if CHR ''/'' \<notin> set p \<or> drop (length host + 1) p \<noteq> ''findings'' then Inl (404, ''404 page not found'')
      else if host = [] \<or> contains host ''..'' then Inl (404, ''404 page not found'')
      else if tenant \<noteq> [] \<and> (case AssetTenant (rvFaults v 0) host (flAgents db) of
             Inl e \<Rightarrow> False | Inr owner \<Rightarrow> owner \<noteq> [] \<and> owner \<noteq> tenant)
      then Inl (404, ''404 page not found'')
      else plainAnswer (FindingsByHost (rvOccurrenceOrder v) (rvFaults v 1) host (mainDB db)))"

definition trimSuffix :: "string \<Rightarrow> string \<Rightarrow> string" where
  "trimSuffix s x = (if hasSuffix s x then take (length s - length x) s else s)"

definition findingTimeline :: "string \<Rightarrow> string \<Rightarrow> goerror \<Rightarrow> IngestDB \<Rightarrow> LifecycleEvent list answer" where
  "findingTimeline httpMethod path fault db = onlyGet httpMethod
     (let trimmed = trimPrefix path ''/api/findings/''; findingID = trimSuffix trimmed ''/timeline'' in
      if \<not> hasSuffix trimmed ''/timeline'' then Inl (404, [])
      else if findingID = [] then Inl (400, [])
      else plainAnswer (ListLifecycleEvents fault findingID db))"

definition reportFindings :: "ReadEnv \<Rightarrow> string \<Rightarrow> string \<Rightarrow> urlQuery \<Rightarrow> caller \<Rightarrow> FleetDB \<Rightarrow> Finding page answer" where
  "reportFindings v httpMethod path q who db = onlyGet httpMethod
     (let parts = splitOn (CHR ''/'') (trimPrefix path ''/api/reports/'') in
      if length parts < 2 \<or> parts ! 0 = [] \<or> parts ! 1 \<noteq> ''findings''
      then Inl (400, ''expected /api/reports/{scan_id}/findings'')
      else pageAnswer True (ReportFindings (rvOccurrenceOrder v) (rvIlike v) (rvFaults v 0, rvFaults v 1) (parts ! 0)
             ((pageParams q (intParam q ''limit'' 200) who)\<lparr>qpSearch := getQ q ''search''\<rparr>) (mainDB db)))"

record Schema =
  smDefaults :: "nat \<times> nat \<times> nat"
  smIntervalRange :: "nat \<times> nat"
  smBytesRange :: "nat \<times> nat"

definition CurrentSchema :: Schema where
  "CurrentSchema = \<lparr>smDefaults = (15 * 60, 2 * 1024 * 1024, 16 * 1024 * 1024), smIntervalRange = (10, 7 * 24 * 60 * 60),
     smBytesRange = (1024, 10 * 1024 * 1024 * 1024)\<rparr>"

definition scanConfigSchema :: "string \<Rightarrow> Schema answer" where
  "scanConfigSchema httpMethod = onlyGet httpMethod (Inr CurrentSchema)"

definition complianceRules :: "(string \<Rightarrow> string \<Rightarrow> string) \<Rightarrow> (ControlPack \<Rightarrow> string) \<Rightarrow> string \<Rightarrow> string
    \<Rightarrow> (ControlPack \<times> string) answer" where
  "complianceRules hmac marshal key httpMethod = onlyGet httpMethod
     (Inr (BuiltinControlPack, Attestation hmac marshal key BuiltinControlPack))"

definition complianceRuleByID :: "string \<Rightarrow> string \<Rightarrow> ControlRule answer" where
  "complianceRuleByID httpMethod path = onlyGet httpMethod
     (let ruleID = trimPrefix path ''/api/policy/rules/'' in
      if ruleID = [] then Inl (404, [])
      else case GetRule ruleID of None \<Rightarrow> Inl (404, ''rule not found'') | Some r \<Rightarrow> Inr r)"

subsection \<open>One agent\<close>

datatype agentRead =
  AgentShown Asset
| ScansShown "(ScanRun \<times> string) page"
| ConnectionsShown "ConnSession page"
| CommandShown "AgentCommandRow \<times> string"
| OtherHandler string string

definition agentDetail :: "ReadEnv \<Rightarrow> string \<Rightarrow> string \<Rightarrow> FleetDB \<Rightarrow> Asset answer" where
  "agentDetail v httpMethod host db = onlyGet httpMethod
     (plainAnswer (AgentByID (rvScanOrder v) (rvNow v) (rvFaults v 1) host db))"

definition agentScans :: "ReadEnv \<Rightarrow> string \<Rightarrow> urlQuery \<Rightarrow> string \<Rightarrow> FleetDB \<Rightarrow> (ScanRun \<times> string) page answer" where
  "agentScans v httpMethod q host db = onlyGet httpMethod (pageAnswer True
     (ScanRuns (rvIlike v) (\<lambda>i. rvFaults v (i + 1)) \<lparr>sqQuery = pageParams q (intParam q ''limit'' 50) None, sqHostUUID = host, sqSeverity = 0,
        sqDateFrom = None, sqDateTo = None\<rparr> db))"

definition agentConnections :: "ReadEnv \<Rightarrow> string \<Rightarrow> urlQuery \<Rightarrow> string \<Rightarrow> FleetDB \<Rightarrow> ConnSession page answer" where
  "agentConnections v httpMethod q host db = onlyGet httpMethod (pageAnswer True
     (ConnectionHistory (rvIlike v) (\<lambda>i. rvFaults v (i + 1)) host (pageParams q (intParam q ''limit'' 50) None) db))"

definition agentCommandStatus :: "ReadEnv \<Rightarrow> ApiEnv \<Rightarrow> string \<Rightarrow> string \<Rightarrow> string \<Rightarrow> FleetDB \<Rightarrow> (AgentCommandRow \<times> string) answer" where
  "agentCommandStatus v env httpMethod host commandID db = onlyGet httpMethod
     (plainAnswer (AgentCommand env (rvFaults v 1) host commandID (flAgents db)))"

definition trimSlashes :: "string \<Rightarrow> string" where
  "trimSlashes s = rev (dropWhile (\<lambda>c. c = CHR ''/'') (rev (dropWhile (\<lambda>c. c = CHR ''/'') s)))"

text \<open>The routes below an agent; the two whose handlers write are only named.\<close>

definition agentSub :: "ReadEnv \<Rightarrow> ApiEnv \<Rightarrow> string \<Rightarrow> string \<Rightarrow> string \<Rightarrow> urlQuery \<Rightarrow> string \<Rightarrow> FleetDB \<Rightarrow> agentRead answer" where
  "agentSub v env httpMethod sub third q host db =
     (if sub = [] then map_sum id AgentShown (agentDetail v httpMethod host db)
      else if sub = ''scans'' then map_sum id ScansShown (agentScans v httpMethod q host db)
      else if sub = ''connections'' then map_sum id ConnectionsShown (agentConnections v httpMethod q host db)
      else if sub = ''config'' then Inr (OtherHandler ''agentConfig'' host)
      else if sub = ''commands''
      then (if third \<noteq> [] then map_sum id CommandShown (agentCommandStatus v env httpMethod host third db)
            else Inr (OtherHandler ''agentEnqueueCommand'' host))
      else Inl (404, ''404 page not found''))"

definition part :: "nat \<Rightarrow> string list \<Rightarrow> string" where
  "part i parts = (if i < length parts then parts ! i else [])"

definition agentRoutes :: "ReadEnv \<Rightarrow> ApiEnv \<Rightarrow> string \<Rightarrow> string \<Rightarrow> urlQuery \<Rightarrow> caller \<Rightarrow> FleetDB \<Rightarrow> agentRead answer" where
  "agentRoutes v env httpMethod path q who db =
     (let parts = splitOn (CHR ''/'') (trimSlashes (trimPrefix path ''/api/agents/'')); host = part 0 parts;
          tenant = TenantFromContext who in
      if host = [] then Inl (400, ''agent id required'')
      else if tenant \<noteq> [] \<and> (case AssetTenant (rvFaults v 0) host (flAgents db) of
             Inl e \<Rightarrow> False | Inr owner \<Rightarrow> owner \<noteq> [] \<and> owner \<noteq> tenant)
      then Inl (404, ''agent not found'')
      else agentSub v env httpMethod (part 1 parts) (part 2 parts) q host db)"

subsection \<open>Versions and certificates\<close>

text \<open>The versions of a plain build; a release build may set others when it links.\<close>

definition serverVersion :: string where "serverVersion = ''0.14.0''"
definition agentProtocolVersion :: string where "agentProtocolVersion = ''1''"

text \<open>\<open>json.Marshal\<close> of a map sorts its keys.\<close>

definition signedUpdateManifest :: "(string \<Rightarrow> string \<Rightarrow> string) \<Rightarrow> string \<Rightarrow> int \<Rightarrow> string \<times> string" where
  "signedUpdateManifest hmac key nowUnix =
     (let manifest = ''{\"agent_protocol_version\":\"'' @ agentProtocolVersion @ ''\",\"recommended_version\":\"'' @ serverVersion @
        ''\",\"server_version\":\"'' @ serverVersion @ ''\",\"signed_at_unix\":'' @ decInt nowUnix @ ''}''
      in (manifest, hexEncode (hmac key manifest)))"

record UpgradeInfo =
  uiManifest :: string
  uiSignature :: string
  uiAdvice :: "(bool \<times> string) option"

definition versionReason :: "string \<Rightarrow> string \<Rightarrow> string \<Rightarrow> string" where
  "versionReason reason ver server =
     (if reason = [] \<and> ver \<noteq> [] \<and> ver \<noteq> server then ''agent version '' @ ver @ '' differs from server '' @ server else reason)"

definition protocolAdvice :: "string \<Rightarrow> string \<Rightarrow> bool \<times> string" where
  "protocolAdvice proto server =
     (if proto = [] \<or> proto = server then (False, [])
      else case (parseInt64 proto, parseInt64 server) of
        (Some ai, Some si) \<Rightarrow>
          if ai < si then (True, ''agent protocol v'' @ proto @ '' is older than the server'' @ [CHR 0x27] @ ''s v'' @ server @ ''; upgrade the agent'')
          else if si < ai then (False, ''agent protocol v'' @ proto @ '' is newer than the server'' @ [CHR 0x27] @ ''s v'' @ server @ ''; upgrade the server'')
          else (False, [])
      | _ \<Rightarrow> (False, []))"

definition agentUpgradeInfo :: "(string \<Rightarrow> string \<Rightarrow> string) \<Rightarrow> string \<Rightarrow> int \<Rightarrow> string \<Rightarrow> urlQuery \<Rightarrow> UpgradeInfo answer" where
  "agentUpgradeInfo hmac key nowUnix httpMethod q = onlyGet httpMethod
     (let (manifest, sig) = signedUpdateManifest hmac key nowUnix;
          proto = trimSpace (getQ q ''agent_protocol''); ver = trimSpace (getQ q ''agent_version'');
          (outdated, reason) = protocolAdvice proto agentProtocolVersion
      in Inr \<lparr>uiManifest = manifest, uiSignature = sig,
           uiAdvice = (if proto = [] \<and> ver = [] then None else Some (outdated, versionReason reason ver serverVersion))\<rparr>)"

record CertHealth =
  chExpired :: nat
  chExpiring30 :: nat
  chExpiring90 :: nat
  chTotal :: nat

definition GetCertHealth :: "goerror \<Rightarrow> int \<Rightarrow> IngestDB \<Rightarrow> CertHealth result" where
  "GetCertHealth fault now db =
     (let expiring = (\<lambda>days. length (filter (\<lambda>c. now \<le> ctNotAfter c \<and> ctNotAfter c < now + days * 86400) (igCerts db))) in
      case fault of Some e \<Rightarrow> Inl e
      | None \<Rightarrow> Inr \<lparr>chExpired = length (filter (\<lambda>c. ctNotAfter c < now) (igCerts db)), chExpiring30 = expiring 30,
                    chExpiring90 = expiring 90, chTotal = length (igCerts db)\<rparr>)"

text \<open>What the SLA page shows of it: the numbers, or a note with a total of zero or with none.\<close>

datatype certPayload = CertNumbers CertHealth | CertNote "nat option"

definition certHealthPayload :: "CertHealth result \<Rightarrow> certPayload" where
  "certHealthPayload r =
     (case r of Inl e \<Rightarrow> CertNote None | Inr h \<Rightarrow> if 0 < chTotal h then CertNumbers h else CertNote (Some 0))"

end
