(* ===== verification/ReadApiProofs.thy ===== *)
theory ReadApiProofs
  imports ReadApi
begin

text \<open>
  What a caller sees through the reading handlers: only findings and agents of hosts that do not belong to another
  tenant, as long as the lookup of the owner works. Then the places that show more.
\<close>

subsection \<open>Parameters\<close>

lemma intParam_positive: "0 < dflt \<Longrightarrow> 0 < intParam q key dflt"
  by (simp add: intParam_def Let_def)

lemma intParam_nonneg: "0 \<le> intParam q key 0"
  by (simp add: intParam_def Let_def)

lemma scanD_decNat: "int n < 2 ^ 63 \<Longrightarrow> scanD (decNat n) = int n"
proof -
  assume n: "int n < 2 ^ 63"
  obtain c s where c: "decNat n = c # s" by (metis decNat_not_Nil list.exhaust)
  have all: "x \<in> set (c # s) \<Longrightarrow> isDigit x" for x using decNat_digits [of x n] by (simp add: c)
  then have t: "takeWhile isDigit (c # s) = c # s" by (intro takeWhile_eq_all_conv [THEN iffD2]) blast
  have "\<not> isDigit (CHR ''-'')" "\<not> isDigit (CHR ''+'')" by code_simp+
  then have "c \<noteq> CHR ''-''" "c \<noteq> CHR ''+''" using all [of c] by auto
  moreover have "\<not> isSpace c" using all [of c] by (auto simp: isSpace_def isDigit_def)
  ultimately have h: "\<not> isSpace c" "c \<noteq> CHR ''-''" "c \<noteq> CHR ''+''" by simp_all
  have "readDec (c # s) = n" using readDec_decNat [of n] by (simp add: c)
  with n t h show ?thesis by (simp add: scanD_def Let_def c)
qed

lemma intParam_number:
  "q key = Some (decNat n) \<Longrightarrow> 0 < n \<Longrightarrow> int n < 2 ^ 63 \<Longrightarrow> intParam q key dflt = int n"
  by (simp add: intParam_def getQ_def scanD_decNat)

subsection \<open>Tenants\<close>

definition visibleTo :: "string \<Rightarrow> FleetDB \<Rightarrow> string \<Rightarrow> bool" where
  "visibleTo tenant db host \<longleftrightarrow>
     (case tblFind asHostUUID host (fleetAssets db) of None \<Rightarrow> True | Some a \<Rightarrow> asTenantID a = [] \<or> asTenantID a = tenant)"

lemma owner_check:
  "(case AssetTenant None host (flAgents db) of Inl e \<Rightarrow> False | Inr owner \<Rightarrow> owner \<noteq> [] \<and> owner \<noteq> tenant) \<longleftrightarrow>
    \<not> visibleTo tenant db host"
  by (cases "tblFind asHostUUID host (fleetAssets db)") (simp_all add: AssetTenant_def visibleTo_def del: tblFind_None)

lemma hostFindings_visible:
  assumes "hostFindings v m path who db = Inr fs" and "TenantFromContext who \<noteq> []" and "rvFaults v 0 = None" and "f \<in> set fs"
  shows "visibleTo (TenantFromContext who) db (fdHostUUID f)"
proof -
  define host where "host = uptoByte (CHR ''/'') (trimPrefix path ''/api/hosts/'')"
  have "visibleTo (TenantFromContext who) db host"
    using assms(1-3) by (auto simp: hostFindings_def onlyGet_def Let_def host_def [symmetric] owner_check split: if_splits)
  moreover have "FindingsByHost (rvOccurrenceOrder v) (rvFaults v 1) host (mainDB db) = Inr fs"
    using assms(1) by (auto simp: hostFindings_def onlyGet_def Let_def host_def [symmetric] plainAnswer_def split: if_splits sum.splits)
  then have "fdHostUUID f = host"
    using assms(4) by (auto simp: FindingsByHost_def occurrenceFinding_def Let_def split: option.splits)
  ultimately show ?thesis by simp
qed

lemma map_sum_Inr: "map_sum f g x = Inr y \<longleftrightarrow> (\<exists>z. x = Inr z \<and> y = g z)"
  by (cases x) auto

lemma agentSub_shown: "agentSub v env m sub third q host db = Inr (AgentShown a) \<Longrightarrow> agentDetail v m host db = Inr a"
  by (auto simp: agentSub_def map_sum_Inr split: if_split_asm)

lemma AgentByID_host: "AgentByID readOrder now fault host db = Inr a \<Longrightarrow> aeHostUUID a = host"
proof -
  assume r: "AgentByID readOrder now fault host db = Inr a"
  obtain x where x: "tblFind asHostUUID host (filter asManaged (fleetAssets db)) = Some x"
    using r by (cases fault; cases "tblFind asHostUUID host (filter asManaged (fleetAssets db))") (simp_all add: AgentByID_def del: tblFind_None)
  then have "a = assetRow readOrder now db x" using r by (cases fault) (simp_all add: AgentByID_def)
  with tblFind_Some [OF x] show ?thesis by (simp add: assetRow_def Let_def)
qed

lemma agentRoutes_visible:
  assumes "agentRoutes v env m path q who db = Inr (AgentShown a)" and "TenantFromContext who \<noteq> []" and "rvFaults v 0 = None"
  shows "visibleTo (TenantFromContext who) db (aeHostUUID a)"
proof -
  define parts where "parts = splitOn (CHR ''/'') (trimSlashes (trimPrefix path ''/api/agents/''))"
  define host where "host = part 0 parts"
  note r = assms(1)[unfolded agentRoutes_def Let_def, folded parts_def, folded host_def, unfolded assms(3) owner_check]
  have "visibleTo (TenantFromContext who) db host" using r assms(2) by (cases "host = []") (simp_all split: if_split_asm)
  moreover have "agentSub v env m (part 1 parts) (part 2 parts) q host db = Inr (AgentShown a)"
    using r by (simp split: if_split_asm)
  then have "agentDetail v m host db = Inr a" by (rule agentSub_shown)
  then have "AgentByID (rvScanOrder v) (rvNow v) (rvFaults v 1) host db = Inr a"
    by (simp add: agentDetail_def onlyGet_def plainAnswer_def split: if_split_asm sum.split_asm)
  then have "aeHostUUID a = host" by (rule AgentByID_host)
  ultimately show ?thesis by simp
qed

lemma reportFindings_tenant:
  assumes "reportFindings v m path q who db = Inr (fs, n)" and "TenantFromContext who \<noteq> []" and "f \<in> set fs"
  shows "\<exists>a \<in> set (fleetAssets db). asHostUUID a = fdHostUUID f \<and> asTenantID a = TenantFromContext who"
proof -
  let ?scan = "splitOn (CHR ''/'') (trimPrefix path ''/api/reports/'') ! 0"
  let ?params = "(pageParams q (intParam q ''limit'' 200) who)\<lparr>qpSearch := getQ q ''search''\<rparr>"
  have "ReportFindings (rvOccurrenceOrder v) (rvIlike v) (rvFaults v 0, rvFaults v 1) ?scan ?params (mainDB db) = Inr (fs, the n)"
    using assms(1) by (auto simp: reportFindings_def onlyGet_def Let_def pageAnswer_def split: if_splits sum.splits)
  then obtain k j where "fs = map occurrenceFinding (take k (drop j (orderRows newestOccurrence
      (filter (selectedOccurrence (rvIlike v) ?scan ?params (mainDB db)) (rvOccurrenceOrder v (igOccurrences (mainDB db)))))))"
    unfolding ReportFindings_def Let_def by (cases "rvFaults v 0") auto
  with assms(3) obtain oc where "selectedOccurrence (rvIlike v) ?scan ?params (mainDB db) oc" "f = occurrenceFinding oc"
    by (auto dest!: in_set_takeD in_set_dropD)
  with assms(2) show ?thesis
    by (auto simp: selectedOccurrence_def pageParams_def Let_def occurrenceFinding_def)
qed

text \<open>When the owner of a host cannot be looked up, its findings are shown to every tenant.\<close>

lemma owner_lookup_fails_open:
  assumes "rvFaults v 0 = Some e" and "rvFaults v 1 = None" and "host \<noteq> []" and "CHR ''/'' \<notin> set host" and "\<not> contains host ''..''"
  shows "hostFindings v ''GET'' (''/api/hosts/'' @ host @ ''/findings'') who db =
    plainAnswer (FindingsByHost (rvOccurrenceOrder v) None host (mainDB db))"
proof -
  have p: "trimPrefix (''/api/hosts/'' @ host @ ''/findings'') ''/api/hosts/'' = host @ ''/findings''"
    by (simp add: trimPrefix_def hasPrefix_def)
  have h: "uptoByte (CHR ''/'') (host @ ''/findings'') = host"
    using assms(4) unfolding uptoByte_def by (induction host) auto
  show ?thesis
    unfolding hostFindings_def onlyGet_def Let_def p h AssetTenant_def using assms by simp
qed

text \<open>An agent that does not exist is an internal error, not a 404.\<close>

lemma unknown_agent_internal_error:
  "tblFind asHostUUID host (filter asManaged (fleetAssets db)) = None \<Longrightarrow> agentDetail v ''GET'' host db = Inl internalError"
proof -
  assume "tblFind asHostUUID host (filter asManaged (fleetAssets db)) = None"
  then show ?thesis
    by (cases "rvFaults v 1") (simp_all add: agentDetail_def onlyGet_def plainAnswer_def AgentByID_def del: tblFind_None)
qed

subsection \<open>Advice and certificates\<close>

lemma outdated_iff_older:
  "fst (protocolAdvice proto agentProtocolVersion) \<longleftrightarrow> (\<exists>n. parseInt64 proto = Some n \<and> n < 1)"
proof -
  have "parseInt64 ''1'' = Some 1" "parseInt64 [] = None" by code_simp+
  then show ?thesis by (auto simp: protocolAdvice_def agentProtocolVersion_def split: option.split)
qed

lemma cert_health_counts:
  assumes "GetCertHealth fault now db = Inr h"
  shows "chExpiring30 h \<le> chExpiring90 h" and "chExpired h + chExpiring90 h \<le> chTotal h"
proof -
  have h: "h = \<lparr>chExpired = length (filter (\<lambda>c. ctNotAfter c < now) (igCerts db)),
      chExpiring30 = length (filter (\<lambda>c. now \<le> ctNotAfter c \<and> ctNotAfter c < now + 30 * 86400) (igCerts db)),
      chExpiring90 = length (filter (\<lambda>c. now \<le> ctNotAfter c \<and> ctNotAfter c < now + 90 * 86400) (igCerts db)), chTotal = length (igCerts db)\<rparr>"
    using assms by (simp add: GetCertHealth_def split: option.splits)
  have "length (filter (\<lambda>c. now \<le> ctNotAfter c \<and> ctNotAfter c < now + 30 * 86400) cs) \<le>
      length (filter (\<lambda>c. now \<le> ctNotAfter c \<and> ctNotAfter c < now + 90 * 86400) cs)" for cs
    by (induction cs) auto
  then show "chExpiring30 h \<le> chExpiring90 h" by (simp add: h)
  have "length (filter (\<lambda>c. ctNotAfter c < now) cs) +
      length (filter (\<lambda>c. now \<le> ctNotAfter c \<and> ctNotAfter c < now + 90 * 86400) cs) \<le> length cs" for cs
    by (induction cs) auto
  then show "chExpired h + chExpiring90 h \<le> chTotal h" by (simp add: h)
qed

end
