(* ===== verification/Exports.thy ===== *)
theory Exports
  imports Reports Metrics
begin

text \<open>
  What \<^verbatim>\<open>httpapi/server.go\<close> hands to other programs: the CycloneDX, SARIF and SIEM exports, as the values that are
  printed as JSON, the text of the metrics page, and the calls to the LLM provider that answer at once
  (\<open>llmProxy\<close>, \<open>llmTestConnection\<close>). The provider is a function of the request; an identifier, the printed time and
  the orders of map walks are arguments.
\<close>

subsection \<open>CycloneDX\<close>

record AlgorithmProperties =
  apPrimitive :: string
  apParameterSet :: "string option"
  apMode :: "string option"
  apLevel :: "int option"

definition algProps :: "string \<Rightarrow> int \<Rightarrow> AlgorithmProperties" where
  "algProps primitive level = \<lparr>apPrimitive = primitive, apParameterSet = None, apMode = None, apLevel = Some level\<rparr>"

text \<open>The first of some texts that the name contains.\<close>

definition firstIn :: "string \<Rightarrow> string list \<Rightarrow> string option" where
  "firstIn upper xs = find (contains upper) xs"

definition kemProperties :: "string \<Rightarrow> AlgorithmProperties" where
  "kemProperties upper =
     (let set = (\<lambda>s l. \<lparr>apPrimitive = ''kem'', apParameterSet = s, apMode = None, apLevel = l\<rparr>) in
      if contains upper ''512'' then set (Some ''512'') (Some 1)
      else if contains upper ''768'' \<or> contains upper ''X25519MLKEM768'' then set (Some ''768'') (Some 3)
      else if contains upper ''1024'' then set (Some ''1024'') (Some 5)
      else set None None)"

definition dsaProperties :: "string \<Rightarrow> AlgorithmProperties" where
  "dsaProperties upper =
     (let set = (\<lambda>s l. \<lparr>apPrimitive = ''signature'', apParameterSet = s, apMode = None, apLevel = l\<rparr>) in
      if contains upper ''44'' then set (Some ''44'') (Some 2)
      else if contains upper ''65'' then set (Some ''65'') (Some 3)
      else if contains upper ''87'' then set (Some ''87'') (Some 5)
      else set None None)"

definition curveIn :: "string \<Rightarrow> string option" where
  "curveIn upper = find (\<lambda>c. contains upper (replaceByte (CHR ''-'') [] c) \<or> contains upper c) [''P-521'', ''P-384'', ''P-256'', ''SECP256K1'']"

definition startsWithAny :: "string \<Rightarrow> string list \<Rightarrow> bool" where
  "startsWithAny upper ps = list_ex (hasPrefix upper) ps"

definition algCryptoProperties :: "string \<Rightarrow> AlgorithmProperties option" where
  "algCryptoProperties name =
     (let upper = toUpper name in
      if startsWithAny upper [''ML-KEM'', ''MLKEM'', ''KYBER'', ''X25519MLKEM''] then Some (kemProperties upper)
      else if startsWithAny upper [''ML-DSA'', ''MLDSA'', ''DILITHIUM''] then Some (dsaProperties upper)
      else if startsWithAny upper [''SLH-DSA'', ''SLHDSA'', ''SPHINCS''] then Some (algProps ''signature'' 1)
      else if startsWithAny upper [''RSA'']
      then Some ((algProps ''pke'' 0)\<lparr>apParameterSet := firstIn upper [''4096'', ''3072'', ''2048'', ''1024'', ''512'']\<rparr>)
      else if startsWithAny upper [''ECDSA'', ''ECDH''] then Some ((algProps ''signature'' 0)\<lparr>apParameterSet := curveIn upper\<rparr>)
      else if startsWithAny upper [''AES'']
      then Some ((algProps ''ae'' 0)\<lparr>apParameterSet := firstIn upper [''256'', ''192'', ''128''],
             apMode := map_option toLower (firstIn upper [''GCM'', ''CBC'', ''CTR'', ''CCM'', ''CFB'', ''OFB''])\<rparr>)
      else if startsWithAny upper [''SHA'']
      then Some ((algProps ''hash'' 0)\<lparr>apParameterSet := firstIn upper [''3-512'', ''3-256'', ''512'', ''384'', ''256'', ''224'']\<rparr>)
      else if startsWithAny upper [''CHACHA'', ''XCHACHA''] then Some (algProps ''ae'' 0)
      else if startsWithAny upper [''ED25519'', ''ED448''] then Some (algProps ''signature'' 0)
      else None)"

record CdxComponent =
  cxBomRef :: string
  cxType :: string
  cxName :: string
  cxVersion :: string
  cxLocation :: "string option"
  cxCrypto :: "AlgorithmProperties option"

definition cdxComponent :: "Component \<Rightarrow> CdxComponent" where
  "cdxComponent c =
     \<lparr>cxBomRef = coBomRef c, cxType = coComponentType c, cxName = coName c, cxVersion = coVersion c,
      cxLocation = (if coFilePath c = [] then None else Some (coFilePath c)),
      cxCrypto = (case coAlgorithms c of [] \<Rightarrow> None | a # as \<Rightarrow> algCryptoProperties a)\<rparr>"

record Cbom =
  cbSerialNumber :: string
  cbTimestamp :: string
  cbToolVersion :: string
  cbComponents :: "CdxComponent list"

definition exportCycloneDX :: "ReportEnv \<Rightarrow> string \<Rightarrow> string \<Rightarrow> string \<Rightarrow> caller \<Rightarrow> FleetDB \<Rightarrow> Cbom answer" where
  "exportCycloneDX env uid toolVersion httpMethod who db =
     (if httpMethod \<noteq> ''GET'' then Inl (405, [])
      else case Components_list (rePayloadOrder env) (reFaults env 0 0) 2000 (TenantFromContext who) db of
        Inl e \<Rightarrow> Inl internalError
      | Inr cs \<Rightarrow> Inr \<lparr>cbSerialNumber = ''urn:uuid:'' @ uid, cbTimestamp = reRfc3339 env (reNow env), cbToolVersion = toolVersion,
                       cbComponents = map cdxComponent cs\<rparr>)"

subsection \<open>SARIF\<close>

record SarifResult =
  sfRuleID :: string
  sfLevel :: string
  sfMessage :: string
  sfLocation :: "string \<times> int option"
  sfProperties :: "(string \<times> real \<times> string) option"

definition sarifResult :: "Finding \<Rightarrow> SarifResult" where
  "sarifResult f =
     \<lparr>sfRuleID = fdPolicyRuleID f, sfLevel = sarifSeverity (fdSeverity f), sfMessage = fdTitle f @ '': '' @ fdDescription f,
      sfLocation = parseSARIFLocation (fdAssetRef f),
      sfProperties = (if fdAlgorithm f \<noteq> [] \<or> 0 < fdConfidence f then Some (fdAlgorithm f, fdConfidence f, fdStatus f) else None)\<rparr>"

text \<open>The identifiers of rules: a set, walked in the order of \<open>reGroupOrder\<close>.\<close>

definition sarifRules :: "(string list \<Rightarrow> string list) \<Rightarrow> Finding list \<Rightarrow> string list" where
  "sarifRules order fs = order (remdups (filter (\<lambda>r. r \<noteq> []) (map fdPolicyRuleID fs)))"

record Sarif =
  srToolVersion :: string
  srRules :: "string list"
  srResults :: "SarifResult list"

definition exportSARIF :: "ReportEnv \<Rightarrow> string \<Rightarrow> string \<Rightarrow> caller \<Rightarrow> FleetDB \<Rightarrow> Sarif answer" where
  "exportSARIF env toolVersion httpMethod who db =
     (if httpMethod \<noteq> ''GET'' then Inl (405, [])
      else case Findings_list (reJoinOrder env) (reFaults env 2 0) 5000 (TenantFromContext who) (adMain (flAgents db)) of
        Inl e \<Rightarrow> Inl internalError
      | Inr fs \<Rightarrow> Inr \<lparr>srToolVersion = toolVersion, srRules = sarifRules (reGroupOrder env) fs, srResults = map sarifResult fs\<rparr>)"

subsection \<open>SIEM\<close>

record SiemEvent =
  seTimestamp :: string
  seSeverity :: int
  seFindingID :: string
  seAssetRef :: string
  seRuleID :: string
  seAlgorithm :: string
  seStatus :: string
  seDescription :: string

text \<open>One document per finding; the clock is read for each, \<open>stamps i\<close> for the \<open>i\<close>-th.\<close>

definition siemEvent :: "string \<Rightarrow> Finding \<Rightarrow> SiemEvent" where
  "siemEvent t f = \<lparr>seTimestamp = t, seSeverity = fdSeverity f, seFindingID = fdFindingID f, seAssetRef = fdAssetRef f,
     seRuleID = fdPolicyRuleID f, seAlgorithm = fdAlgorithm f, seStatus = fdStatus f, seDescription = fdDescription f\<rparr>"

definition exportSIEM :: "ReportEnv \<Rightarrow> (nat \<Rightarrow> string) \<Rightarrow> string \<Rightarrow> caller \<Rightarrow> FleetDB \<Rightarrow> SiemEvent list answer" where
  "exportSIEM env stamps httpMethod who db =
     (if httpMethod \<noteq> ''GET'' then Inl (405, [])
      else case Findings_list (reJoinOrder env) (reFaults env 2 0) 1000 (TenantFromContext who) (adMain (flAgents db)) of
        Inl e \<Rightarrow> Inl internalError
      | Inr fs \<Rightarrow> Inr (map (\<lambda>(i, f). siemEvent (stamps i) f) (enumerate 0 fs)))"

subsection \<open>Metrics\<close>

definition eol :: string where "eol = [CHR 0x0A]"
definition quoted :: "string \<Rightarrow> string" where "quoted s = [CHR 0x22] @ s @ [CHR 0x22]"

definition gauge :: "string \<Rightarrow> string \<Rightarrow> int \<Rightarrow> string" where
  "gauge name help val = ''# HELP '' @ name @ '' '' @ help @ eol @ ''# TYPE '' @ name @ '' gauge'' @ eol @ name @ '' '' @ decInt val @ eol @ eol"

record PoolStats =
  psAcquired :: int
  psIdle :: int
  psTotal :: int
  psMax :: int

record ModelUsage =
  muModel :: string
  muCalls :: int
  muTokensIn :: int
  muTokensOut :: int
  muAvgLatencyMS :: int

text \<open>\<open>FindingSeverityStatusCounts\<close>: the groups in the order of severity and status, over all tenants.\<close>

definition FindingSeverityStatusCounts :: "goerror \<Rightarrow> IngestDB \<Rightarrow> (int \<times> string \<times> nat) list result" where
  "FindingSeverityStatusCounts fault db =
     (case fault of Some e \<Rightarrow> Inl e
      | None \<Rightarrow> (let groups = remdups (map (\<lambda>r. (frSeverity r, frStatus r)) (igFindings db));
                     before = (\<lambda>x y. fst x < fst y \<or> fst x = fst y \<and> snd x < snd y)
                 in Inr (map (\<lambda>(sev, st). (sev, st, length (filter (\<lambda>r. frSeverity r = sev \<and> frStatus r = st) (igFindings db))))
                           (orderRows before groups))))"

definition findingLines :: "(int \<times> string \<times> nat) list \<Rightarrow> string" where
  "findingLines counts =
     ''# HELP janus_findings_total Findings by severity and status.'' @ eol @ ''# TYPE janus_findings_total gauge'' @ eol @
     concat (map (\<lambda>(sev, st, n). ''janus_findings_total{severity='' @ quoted (decInt sev) @ '',status='' @ quoted st @ ''} '' @ decNat n @ eol) counts) @ eol"

definition poolLines :: "PoolStats \<Rightarrow> string" where
  "poolLines st =
     (let line = (\<lambda>state n. ''janus_db_pool_connections{state='' @ quoted state @ ''} '' @ decInt n @ eol) in
      ''# HELP janus_db_pool_connections DB connection pool by state.'' @ eol @ ''# TYPE janus_db_pool_connections gauge'' @ eol @
      line ''acquired'' (psAcquired st) @ line ''idle'' (psIdle st) @ line ''total'' (psTotal st) @ line ''max'' (psMax st) @ eol)"

definition usageLines :: "ModelUsage list \<Rightarrow> (string \<times> int) list \<Rightarrow> string" where
  "usageLines ms jobs =
     ''# HELP janus_llm_calls_total LLM analysis calls by model.'' @ eol @ ''# TYPE janus_llm_calls_total counter'' @ eol @
     concat (map (\<lambda>m. ''janus_llm_calls_total{model='' @ quoted (muModel m) @ ''} '' @ decInt (muCalls m) @ eol) ms) @
     eol @ ''# HELP janus_llm_tokens_total LLM tokens by model and direction.'' @ eol @ ''# TYPE janus_llm_tokens_total counter'' @ eol @
     concat (map (\<lambda>m. ''janus_llm_tokens_total{model='' @ quoted (muModel m) @ '',direction='' @ quoted ''input'' @ ''} '' @ decInt (muTokensIn m) @ eol @
       ''janus_llm_tokens_total{model='' @ quoted (muModel m) @ '',direction='' @ quoted ''output'' @ ''} '' @ decInt (muTokensOut m) @ eol) ms) @
     eol @ ''# HELP janus_llm_avg_latency_ms Average LLM call latency by model.'' @ eol @ ''# TYPE janus_llm_avg_latency_ms gauge'' @ eol @
     concat (map (\<lambda>m. ''janus_llm_avg_latency_ms{model='' @ quoted (muModel m) @ ''} '' @ decInt (muAvgLatencyMS m) @ eol) ms) @
     eol @ ''# HELP janus_llm_jobs_total LLM analysis jobs by status.'' @ eol @ ''# TYPE janus_llm_jobs_total gauge'' @ eol @
     concat (map (\<lambda>(s, n). ''janus_llm_jobs_total{status='' @ quoted s @ ''} '' @ decInt n @ eol) jobs) @ eol"

definition overviewLines :: "Overview \<Rightarrow> string" where
  "overviewLines ov =
     gauge ''janus_assets_total'' ''Total tracked assets'' (int (ovAssets ov)) @
     gauge ''janus_components_total'' ''Total cataloged CBOM components'' (int (ovComponents ov)) @
     gauge ''janus_critical_findings_total'' ''Total critical severity findings'' (int (ovCritical ov)) @
     gauge ''janus_high_findings_total'' ''Total high severity findings'' (int (ovHigh ov)) @
     gauge ''janus_open_migrations_total'' ''Total pending or active migrations'' (int (ovOpenMigrations ov)) @
     gauge ''janus_agents_connected'' ''Agents seen within the stall window'' (max 0 (int (ovAssets ov) - int (ovStalled ov)))"

text \<open>\<open>token\<close> is the configured one, \<open>header\<close> the Authorization header; \<open>usage\<close> is what the store answers on usage.\<close>

definition metrics :: "(real \<Rightarrow> string) \<Rightarrow> ReportEnv \<Rightarrow> string \<Rightarrow> string \<Rightarrow> caller \<Rightarrow> PoolStats \<Rightarrow> (ModelUsage list \<times> (string \<times> int) list) result
    \<Rightarrow> Registry \<Rightarrow> FleetDB \<Rightarrow> string answer" where
  "metrics fmtFloat env token header who pool usage reg db =
     (if token \<noteq> [] \<and> trimPrefix header ''Bearer '' \<noteq> token then Inl (401, ''unauthorized'')
      else case reportOverview env who db of
        Inl e \<Rightarrow> Inl internalError
      | Inr ov \<Rightarrow> Inr (overviewLines ov @
          (case FindingSeverityStatusCounts (reFaults env 1 0) (adMain (flAgents db)) of Inl e \<Rightarrow> [] | Inr cs \<Rightarrow> findingLines cs) @
          poolLines pool @
          (case usage of Inl e \<Rightarrow> [] | Inr (ms, jobs) \<Rightarrow> usageLines ms jobs) @
          WriteProcessMetrics fmtFloat reg))"

subsection \<open>The LLM provider\<close>

record ProviderConfig =
  pcBaseURL :: string
  pcAPIKey :: string
  pcTimeoutSeconds :: int
  pcModelAnalysis :: string
  pcModelRemediation :: string

record ProviderRequest =
  pqMethod :: string
  pqURL :: string
  pqAuthorization :: string
  pqBody :: string
  pqTimeoutSeconds :: int

text \<open>The answer of the provider: the error of the call, or the status with the body or the error of reading it.\<close>

type_synonym provider = "ProviderRequest \<Rightarrow> (int \<times> string result) result"

definition llmProxy :: "provider \<Rightarrow> ProviderConfig \<Rightarrow> string \<Rightarrow> string \<Rightarrow> (int \<times> string) answer" where
  "llmProxy call cfg httpMethod body =
     (if httpMethod \<noteq> ''POST'' then Inl (405, [])
      else if pcAPIKey cfg = [] then Inl (503, ''LLM provider not configured. Set JANUS_LLM_API_KEY_FILE or JANUS_LLM_API_KEY_ENV on the server.'')
      else case call \<lparr>pqMethod = ''POST'', pqURL = pcBaseURL cfg @ ''/chat/completions'', pqAuthorization = ''Bearer '' @ pcAPIKey cfg,
             pqBody = body, pqTimeoutSeconds = (if pcTimeoutSeconds cfg = 0 then 30 else pcTimeoutSeconds cfg)\<rparr> of
        Inl e \<Rightarrow> Inl internalError
      | Inr (status, Inl e) \<Rightarrow> Inl internalError
      | Inr (status, Inr out) \<Rightarrow> Inr (status, out))"

record ConnectionTest =
  trOK :: bool
  trBaseURL :: string
  trModelAnalysis :: string
  trModelRemediation :: string
  trAnalysisAvailable :: "bool option"
  trRemediationAvailable :: "bool option"
  trWarning :: string
  trError :: string

definition testError :: "string \<Rightarrow> ConnectionTest" where
  "testError e = \<lparr>trOK = False, trBaseURL = [], trModelAnalysis = [], trModelRemediation = [], trAnalysisAvailable = None,
     trRemediationAvailable = None, trWarning = [], trError = e\<rparr>"

definition testPassed :: "ProviderConfig \<Rightarrow> ConnectionTest" where
  "testPassed cfg = \<lparr>trOK = True, trBaseURL = pcBaseURL cfg, trModelAnalysis = pcModelAnalysis cfg,
     trModelRemediation = pcModelRemediation cfg, trAnalysisAvailable = None, trRemediationAvailable = None, trWarning = [], trError = []\<rparr>"

text \<open>The models the configuration names that a catalog misses.\<close>

definition missingModels :: "ProviderConfig \<Rightarrow> string list \<Rightarrow> string list" where
  "missingModels cfg catalog =
     (if pcModelAnalysis cfg \<in> set catalog then [] else [''analysis model '' @ pcModelAnalysis cfg]) @
     (if pcModelRemediation cfg \<in> set catalog \<or> pcModelRemediation cfg = [] then [] else [''remediation model '' @ pcModelRemediation cfg])"

definition withCatalog :: "ProviderConfig \<Rightarrow> string list \<Rightarrow> ConnectionTest" where
  "withCatalog cfg catalog =
     (let missing = missingModels cfg catalog in
      (testPassed cfg)\<lparr>trAnalysisAvailable := Some (pcModelAnalysis cfg \<in> set catalog),
        trRemediationAvailable := Some (pcModelRemediation cfg \<in> set catalog),
        trWarning := (if missing = [] then [] else ''provider catalog does not list: '' @ joinWith '', '' missing)\<rparr>)"

text \<open>\<open>decode\<close> reads the identifiers of a catalog, at most a megabyte of it; a body whose reading fails is read as far as it went,
  here not at all.\<close>

definition llmTestConnection :: "provider \<Rightarrow> (string \<Rightarrow> string list option) \<Rightarrow> ProviderConfig \<Rightarrow> string \<Rightarrow> ConnectionTest answer" where
  "llmTestConnection call decode cfg httpMethod =
     (if httpMethod \<noteq> ''POST'' then Inl (405, [])
      else if pcAPIKey cfg = [] then Inr (testError ''LLM API key not configured'')
      else case call \<lparr>pqMethod = ''GET'', pqURL = pcBaseURL cfg @ ''/models'', pqAuthorization = ''Bearer '' @ pcAPIKey cfg, pqBody = [],
             pqTimeoutSeconds = 10\<rparr> of
        Inl e \<Rightarrow> Inr (testError e)
      | Inr (status, read) \<Rightarrow>
          (let body = (case read of Inl e \<Rightarrow> [] | Inr b \<Rightarrow> b) in
           if 200 \<le> status \<and> status < 300
           then Inr (case decode (take (2 ^ 20) body) of
                  None \<Rightarrow> testPassed cfg | Some [] \<Rightarrow> testPassed cfg | Some (m # ms) \<Rightarrow> withCatalog cfg (m # ms))
           else Inr (testError (''provider returned HTTP '' @ decInt status @ '': '' @ trimSpace body))))"

end
