(* ===== verification/ExportsProofs.thy ===== *)
theory ExportsProofs
  imports Exports
begin

text \<open>
  The exports have one entry per component or finding, each rule once, and the counts of the metrics page add up. Then
  what the classification of algorithms says that is not so, and what the exports leave out.
\<close>

subsection \<open>Exports\<close>

definition exported :: "ReportEnv \<Rightarrow> caller \<Rightarrow> FleetDB \<Rightarrow> Finding list" where
  "exported env who db = map toFinding (take 200 (orderRows newestFirst
     (filter (\<lambda>(r, a, t). TenantFromContext who = [] \<or> asTenantID a = TenantFromContext who)
       (reJoinOrder env (joinedFindings (adMain (flAgents db)))))))"

lemma exported_list:
  assumes "Findings_list (reJoinOrder env) fault n (TenantFromContext who) (adMain (flAgents db)) = Inr fs" and "500 < n"
  shows "fs = exported env who db"
  using assms by (simp add: Findings_list_def exported_def clampLimit_def split: option.splits)

lemma sarif_entries:
  "exportSARIF env v m who db = Inr s \<Longrightarrow> srResults s = map sarifResult (exported env who db)"
  by (auto simp: exportSARIF_def dest!: exported_list split: if_splits sum.splits)

lemma siem_entries:
  assumes "exportSIEM env stamps m who db = Inr es"
  shows "length es = length (exported env who db)" and "map seFindingID es = map fdFindingID (exported env who db)"
proof -
  have "\<exists>fs. fs = exported env who db \<and> es = map (\<lambda>(i, f). siemEvent (stamps i) f) (enumerate 0 fs)"
    using assms by (auto simp: exportSIEM_def dest!: exported_list split: if_splits sum.splits)
  then have es: "es = map (\<lambda>(i, f). siemEvent (stamps i) f) (enumerate 0 (exported env who db))" by simp
  then show "length es = length (exported env who db)" by simp
  have "map (\<lambda>(i, f). fdFindingID f) (enumerate k fs) = map fdFindingID fs" for k fs
    by (induction fs arbitrary: k) simp_all
  moreover have "seFindingID \<circ> (\<lambda>(i, f). siemEvent (stamps i) f) = (\<lambda>(i, f). fdFindingID f)"
    by (auto simp: siemEvent_def)
  ultimately show "map seFindingID es = map fdFindingID (exported env who db)" by (simp add: es)
qed

text \<open>However many findings there are, an export has 200: the limits of 5000 and 1000 are replaced.\<close>

lemma exports_cut: "length (exported env who db) \<le> 200"
  by (simp add: exported_def)

lemma sarif_rules_once:
  assumes "\<And>xs. mset (order xs) = mset xs"
  shows "distinct (sarifRules order fs)" and "set (sarifRules order fs) = fdPolicyRuleID ` set fs - {[]}"
proof -
  have m: "mset (sarifRules order fs) = mset (remdups (filter (\<lambda>r. r \<noteq> []) (map fdPolicyRuleID fs)))"
    by (simp add: sarifRules_def assms)
  then show "distinct (sarifRules order fs)" using mset_eq_imp_distinct_iff by (metis distinct_remdups)
  have "set (sarifRules order fs) = set (remdups (filter (\<lambda>r. r \<noteq> []) (map fdPolicyRuleID fs)))"
    using m by (rule mset_eq_setD)
  then show "set (sarifRules order fs) = fdPolicyRuleID ` set fs - {[]}" by auto
qed

lemma further_algorithms_lost: "cdxComponent (c\<lparr>coAlgorithms := a # as\<rparr>) = cdxComponent (c\<lparr>coAlgorithms := [a]\<rparr>)"
  by (simp add: cdxComponent_def)

subsection \<open>Classification\<close>

text \<open>A curve named SECP256K1 is never reported: its name contains P256, which is looked for before.\<close>

lemma contains_part: "contains s p \<Longrightarrow> sublist q p \<Longrightarrow> contains s q"
  by (auto simp: contains_iff_sublist)

lemma secp256k1_never_reported: "curveIn upper \<noteq> Some ''SECP256K1''"
proof
  assume c: "curveIn upper = Some ''SECP256K1''"
  have r: "replaceByte (CHR ''-'') [] ''SECP256K1'' = ''SECP256K1''" "replaceByte (CHR ''-'') [] ''P-256'' = ''P256''" by code_simp+
  have "sublist ''P256'' ''SECP256K1''" by code_simp
  moreover have "contains upper ''SECP256K1''" and "\<not> contains upper ''P256''"
    using c by (simp_all add: curveIn_def r split: if_split_asm)
  ultimately show False using contains_part by blast
qed

lemma rsa_with_sha512: "algCryptoProperties ''RSA-SHA512'' = Some ((algProps ''pke'' 0)\<lparr>apParameterSet := Some ''512''\<rparr>)"
  by code_simp

lemma ecdh_is_no_signature: "map_option apPrimitive (algCryptoProperties ''ECDH-P384'') = Some ''signature''"
  by code_simp

lemma slhdsa_256_level: "map_option apLevel (algCryptoProperties ''SLH-DSA-SHA2-256s'') = Some (Some 1)"
  by code_simp

subsection \<open>Counts\<close>

lemma count_map: "count (mset (map f rs)) k = length (filter (\<lambda>r. f r = k) rs)"
  by (induction rs) simp_all

lemma group_counts: "sum_list (map (\<lambda>k. length (filter (\<lambda>r. f r = k) rs)) (remdups (map f rs))) = length rs"
proof -
  have "sum_list (map (\<lambda>k. length (filter (\<lambda>r. f r = k) rs)) (remdups (map f rs))) =
      (\<Sum>k \<in> set (map f rs). count (mset (map f rs)) k)"
    by (simp add: sum_list_distinct_conv_sum_set count_map del: mset_map)
  also have "\<dots> = size (mset (map f rs))" by (simp only: size_multiset_overloaded_eq set_mset_mset)
  finally show ?thesis by simp
qed

lemma sum_list_permuted:
  fixes n :: "'a \<Rightarrow> nat"
  assumes "mset xs = mset ys"
  shows "sum_list (map n xs) = sum_list (map n ys)"
proof -
  have "sum_mset (mset (map n xs)) = sum_mset (mset (map n ys))" unfolding mset_map assms ..
  then show ?thesis unfolding sum_mset_sum_list .
qed

lemma status_counts_add_up:
  assumes "FindingSeverityStatusCounts None db = Inr cs"
  shows "sum_list (map (\<lambda>(sev, st, n). n) cs) = length (igFindings db)"
proof -
  let ?f = "\<lambda>r. (frSeverity r, frStatus r)"
  let ?n = "\<lambda>k. length (filter (\<lambda>r. ?f r = k) (igFindings db))"
  define ks where "ks = orderRows (\<lambda>x y. fst x < fst y \<or> fst x = fst y \<and> snd x < snd y) (remdups (map ?f (igFindings db)))"
  have ks: "mset ks = mset (remdups (map ?f (igFindings db)))" by (simp add: ks_def mset_orderRows)
  have "cs = map (\<lambda>(sev, st). (sev, st, length (filter (\<lambda>r. frSeverity r = sev \<and> frStatus r = st) (igFindings db)))) ks"
    using assms by (simp add: FindingSeverityStatusCounts_def Let_def ks_def)
  then have cs: "map (\<lambda>(sev, st, n). n) cs = map ?n ks" by auto
  have "sum_list (map ?n ks) = sum_list (map ?n (remdups (map ?f (igFindings db))))"
    using ks by (rule sum_list_permuted)
  then show ?thesis using group_counts [of ?f "igFindings db"] by (simp add: cs)
qed

subsection \<open>The provider\<close>

lemma test_ok_iff:
  assumes "pcAPIKey cfg \<noteq> []" and "llmTestConnection call decode cfg ''POST'' = Inr t"
  shows "trOK t \<longleftrightarrow> (\<exists>status read. call \<lparr>pqMethod = ''GET'', pqURL = pcBaseURL cfg @ ''/models'',
      pqAuthorization = ''Bearer '' @ pcAPIKey cfg, pqBody = [], pqTimeoutSeconds = 10\<rparr> = Inr (status, read) \<and> 200 \<le> status \<and> status < 300)"
proof -
  let ?q = "\<lparr>pqMethod = ''GET'', pqURL = pcBaseURL cfg @ ''/models'', pqAuthorization = ''Bearer '' @ pcAPIKey cfg,
    pqBody = [], pqTimeoutSeconds = 10\<rparr>"
  have ok: "trOK (testPassed cfg)" "trOK (withCatalog cfg c)" "\<not> trOK (testError e)" for c e
    by (simp_all add: testPassed_def withCatalog_def testError_def Let_def)
  note t = assms(2)[unfolded llmTestConnection_def Let_def]
  show ?thesis
  proof (cases "call ?q")
    case (Inl e)
    then show ?thesis using t assms(1) ok by auto
  next
    case (Inr r)
    obtain status read where "r = (status, read)" by (cases r)
    then show ?thesis using t assms(1) ok Inr by (auto split: if_split_asm option.splits list.splits)
  qed
qed

lemma warning_iff_missing:
  "trWarning (withCatalog cfg catalog) = [] \<longleftrightarrow>
    pcModelAnalysis cfg \<in> set catalog \<and> (pcModelRemediation cfg = [] \<or> pcModelRemediation cfg \<in> set catalog)"
  by (auto simp: withCatalog_def missingModels_def Let_def testPassed_def)

end
