(* ===== verification/Schema.thy ===== *)
theory Schema
  imports GoLib
begin

text \<open>
  The schema migrations at start-up, \<^verbatim>\<open>EnsureSchema\<close> of \<^verbatim>\<open>store/ensure_schema.go\<close>: which run, in which transaction,
  and what is recorded. A migration is its version, its description and what its SQL makes of the data; the table
  \<^verbatim>\<open>schema_version\<close> is the list of its rows. Each statement may fail, and a commit that reports an error may have
  taken effect. Whatever fails at whatever start, the data are those of a prefix of the migrations, each applied once.
\<close>

record 'd Migration =
  mvVersion :: nat
  mvDescription :: string
  mvApply :: "'d \<Rightarrow> 'd result"

record 'd SchemaDB =
  sdData :: 'd
  sdVersions :: "(nat \<times> string) list"

text \<open>The faults of one start: of reading the version, and for each migration of its transaction.\<close>

record migrationFaults =
  mfBegin :: goerror
  mfApply :: goerror
  mfRecord :: goerror
  mfCommit :: "(string \<times> bool) option"

record schemaFaults =
  sfRead :: goerror
  sfOf :: "nat \<Rightarrow> migrationFaults"

definition currentVersion :: "goerror \<Rightarrow> 'd SchemaDB \<Rightarrow> nat" where
  "currentVersion fault db = (if fault \<noteq> None then 0 else fold max (map fst (sdVersions db)) 0)"

text \<open>One transaction; the text of the errors is kept as far as it tells the step.\<close>

definition runMigration :: "migrationFaults \<Rightarrow> 'd Migration \<Rightarrow> 'd SchemaDB \<Rightarrow> goerror \<times> 'd SchemaDB" where
  "runMigration f m db =
     (let v = ''migration v'' @ decNat (mvVersion m) in
      case mfBegin f of Some e \<Rightarrow> (Some (''begin '' @ v @ '': '' @ e), db) | None \<Rightarrow>
      (case (case mfApply f of Some e \<Rightarrow> Inl e | None \<Rightarrow> mvApply m (sdData db)) of
         Inl e \<Rightarrow> (Some (''apply '' @ v @ '' ('' @ mvDescription m @ ''): '' @ e), db)
       | Inr d \<Rightarrow>
      (case (case mfRecord f of Some e \<Rightarrow> Some e | None \<Rightarrow>
               if mvVersion m \<in> fst ` set (sdVersions db) then Some ''duplicate key value violates unique constraint'' else None) of
         Some e \<Rightarrow> (Some (''record '' @ v @ '': '' @ e), db)
       | None \<Rightarrow>
           (let db' = \<lparr>sdData = d, sdVersions = sdVersions db @ [(mvVersion m, mvDescription m)]\<rparr> in
            case mfCommit f of
              Some (e, took) \<Rightarrow> (Some (''commit '' @ v @ '': '' @ e), if took then db' else db)
            | None \<Rightarrow> (None, db')))))"

fun runPending :: "(nat \<Rightarrow> migrationFaults) \<Rightarrow> nat \<Rightarrow> 'd Migration list \<Rightarrow> 'd SchemaDB \<Rightarrow> goerror \<times> 'd SchemaDB" where
  "runPending f cur [] db = (None, db)"
| "runPending f cur (m # ms) db =
     (if mvVersion m \<le> cur then runPending f cur ms db
      else case runMigration (f (mvVersion m)) m db of
        (Some e, db') \<Rightarrow> (Some e, db')
      | (None, db') \<Rightarrow> runPending f cur ms db')"

definition EnsureSchema :: "'d Migration list \<Rightarrow> schemaFaults \<Rightarrow> 'd SchemaDB \<Rightarrow> goerror \<times> 'd SchemaDB" where
  "EnsureSchema ms f db = runPending (sfOf f) (currentVersion (sfRead f) db) ms db"

definition SchemaVersion :: "'d Migration list \<Rightarrow> nat" where
  "SchemaVersion ms = length ms"

subsection \<open>Prefixes\<close>

fun applyAll :: "'d Migration list \<Rightarrow> 'd \<Rightarrow> 'd result" where
  "applyAll [] d = Inr d"
| "applyAll (m # ms) d = (case mvApply m d of Inl e \<Rightarrow> Inl e | Inr d' \<Rightarrow> applyAll ms d')"

text \<open>The first \<open>k\<close> migrations are applied and recorded, and nothing else.\<close>

definition appliedUpTo :: "'d Migration list \<Rightarrow> 'd \<Rightarrow> nat \<Rightarrow> 'd SchemaDB \<Rightarrow> bool" where
  "appliedUpTo ms d0 k db \<longleftrightarrow> k \<le> length ms \<and> applyAll (take k ms) d0 = Inr (sdData db) \<and>
     sdVersions db = map (\<lambda>m. (mvVersion m, mvDescription m)) (take k ms)"

definition increasing :: "'d Migration list \<Rightarrow> bool" where
  "increasing ms \<longleftrightarrow> sorted_wrt (<) (0 # map mvVersion ms)"

lemma applyAll_append: "applyAll (xs @ ys) d = (case applyAll xs d of Inl e \<Rightarrow> Inl e | Inr d' \<Rightarrow> applyAll ys d')"
  by (induction xs arbitrary: d) (auto split: sum.split)

lemma fold_max: "fold max xs (a :: nat) = Max (insert a (set xs))"
proof (induction xs arbitrary: a)
  case (Cons x xs)
  have "insert (max x a) (set xs) = insert (max x a) (set xs)" ..
  then have "Max (insert (max x a) (set xs)) = Max (insert a (insert x (set xs)))"
    by (cases "set xs = {}") (simp_all add: max.left_commute max.commute)
  with Cons show ?case by (simp add: insert_commute)
qed simp

lemma runMigration_appliedUpTo:
  assumes "appliedUpTo ms d0 k db" and "k < length ms"
  shows "\<exists>e db'. runMigration f (ms ! k) db = (e, db') \<and> (appliedUpTo ms d0 (Suc k) db' \<or> e \<noteq> None \<and> db' = db)"
proof -
  have take: "take (Suc k) ms = take k ms @ [ms ! k]" using assms(2) by (rule take_Suc_conv_app_nth)
  have next_up: "appliedUpTo ms d0 (Suc k) \<lparr>sdData = d, sdVersions = sdVersions db @ [(mvVersion (ms ! k), mvDescription (ms ! k))]\<rparr>"
    if "mvApply (ms ! k) (sdData db) = Inr d" for d
    using assms that by (simp add: appliedUpTo_def take applyAll_append)
  show ?thesis
    using next_up by (auto simp: runMigration_def Let_def split: option.split sum.split)
qed

lemma runMigration_known:
  assumes "mvVersion m \<in> fst ` set (sdVersions db)"
  shows "\<exists>e. runMigration f m db = (Some e, db)"
  using assms by (auto simp: runMigration_def Let_def split: option.split sum.split)

lemma runPending_from:
  assumes "appliedUpTo ms d0 k db" and "\<forall>m \<in> set (drop k ms). cur < mvVersion m"
  shows "\<exists>e j db'. runPending f cur (drop k ms) db = (e, db') \<and> appliedUpTo ms d0 j db' \<and> k \<le> j \<and> (e = None \<longrightarrow> j = length ms)"
  using assms
proof (induction "length ms - k" arbitrary: k db)
  case 0
  then show ?case by (auto simp: appliedUpTo_def)
next
  case (Suc n)
  then have k: "k < length ms" by simp
  then have drop: "drop k ms = ms ! k # drop (Suc k) ms" by (simp add: Cons_nth_drop_Suc)
  obtain e db' where r: "runMigration (f (mvVersion (ms ! k))) (ms ! k) db = (e, db')"
    "appliedUpTo ms d0 (Suc k) db' \<or> e \<noteq> None \<and> db' = db"
    using runMigration_appliedUpTo [OF Suc(3) k] by blast
  have new: "cur < mvVersion (ms ! k)" using Suc(4) by (simp add: drop)
  show ?case
  proof (cases e)
    case None
    then have "appliedUpTo ms d0 (Suc k) db'" using r(2) by simp
    moreover have "n = length ms - Suc k" using Suc(2) by simp
    ultimately obtain e' j db'' where "runPending f cur (drop (Suc k) ms) db' = (e', db'')" "appliedUpTo ms d0 j db''" "Suc k \<le> j"
      "e' = None \<longrightarrow> j = length ms"
      using Suc(1) [of "Suc k" db'] Suc(4) unfolding drop by auto
    then show ?thesis using r None new by (auto simp: drop)
  next
    case (Some x)
    then have "runPending f cur (drop k ms) db = (Some x, db')" using r(1) new by (simp add: drop)
    then show ?thesis using r(2) Suc(3) by (metis Suc_leD le_refl option.distinct(1))
  qed
qed

lemma runPending_skips: "\<forall>m \<in> set ms. mvVersion m \<le> cur \<Longrightarrow> runPending f cur (ms @ ns) db = runPending f cur ns db"
  by (induction ms) simp_all

lemma version_of_appliedUpTo:
  assumes "increasing ms" and "appliedUpTo ms d0 k db"
  shows "\<forall>m \<in> set (take k ms). mvVersion m \<le> currentVersion None db" and "\<forall>m \<in> set (drop k ms). currentVersion None db < mvVersion m"
proof -
  have cur: "currentVersion None db = Max (insert 0 (mvVersion ` set (take k ms)))"
    using assms(2) by (simp add: currentVersion_def appliedUpTo_def fold_max comp_def)
  show "\<forall>m \<in> set (take k ms). mvVersion m \<le> currentVersion None db" by (simp add: cur)
  have s: "sorted_wrt (\<lambda>x y. mvVersion x < mvVersion y) (take k ms @ drop k ms)" and pos: "\<forall>m \<in> set ms. 0 < mvVersion m"
    using assms(1) by (simp_all add: increasing_def sorted_wrt_map)
  have "mvVersion a < mvVersion b" if "a \<in> set (take k ms)" "b \<in> set (drop k ms)" for a b
    using s that unfolding sorted_wrt_append by blast
  with pos show "\<forall>m \<in> set (drop k ms). currentVersion None db < mvVersion m"
    by (auto simp: cur dest: in_set_dropD)
qed

lemma ensure_step:
  assumes "increasing ms" and "appliedUpTo ms d0 k db"
  shows "\<exists>e j db'. EnsureSchema ms f db = (e, db') \<and> appliedUpTo ms d0 j db' \<and> k \<le> j \<and> (sfRead f = None \<and> e = None \<longrightarrow> j = length ms)"
proof (cases "sfRead f = None \<or> k = 0")
  case True
  have cur: "currentVersion (sfRead f) db = currentVersion None db"
    using True assms(2) by (auto simp: currentVersion_def appliedUpTo_def)
  have "runPending (sfOf f) (currentVersion None db) ms db = runPending (sfOf f) (currentVersion None db) (drop k ms) db"
    using runPending_skips [OF version_of_appliedUpTo(1) [OF assms], of "sfOf f" "drop k ms" db] by simp
  then show ?thesis
    using runPending_from [OF assms(2) version_of_appliedUpTo(2) [OF assms], of "sfOf f"] by (auto simp: EnsureSchema_def cur)
next
  case False
  then have "currentVersion (sfRead f) db = 0" by (simp add: currentVersion_def)
  moreover obtain m ns where m: "ms = m # ns" using assms(2) False by (cases ms) (auto simp: appliedUpTo_def)
  moreover have "0 < mvVersion m" using assms(1) by (simp add: increasing_def m)
  moreover have "mvVersion m \<in> fst ` set (sdVersions db)" using assms(2) False by (cases k) (auto simp: appliedUpTo_def m)
  then obtain e where "runMigration (sfOf f (mvVersion m)) m db = (Some e, db)" using runMigration_known by blast
  ultimately have "EnsureSchema ms f db = (Some e, db)" by (simp add: EnsureSchema_def)
  with assms(2) False show ?thesis by auto
qed

text \<open>When the version cannot be read the migrations begin again at the first, which is refused if it is recorded.\<close>

lemma unread_version_refused:
  assumes "increasing ms" and "appliedUpTo ms d0 k db" and "0 < k" and "sfRead f \<noteq> None"
  shows "fst (EnsureSchema ms f db) \<noteq> None \<and> snd (EnsureSchema ms f db) = db"
proof -
  obtain m ns where m: "ms = m # ns" using assms(2,3) by (cases ms) (auto simp: appliedUpTo_def)
  have "0 < mvVersion m" using assms(1) by (simp add: increasing_def m)
  moreover have "mvVersion m \<in> fst ` set (sdVersions db)" using assms(2,3) by (cases k) (auto simp: appliedUpTo_def m)
  then obtain e where "runMigration (sfOf f (mvVersion m)) m db = (Some e, db)" using runMigration_known by blast
  ultimately show ?thesis using assms(4) by (simp add: EnsureSchema_def currentVersion_def m)
qed

text \<open>Whatever statements fail at any number of starts, even a commit that reports an error and takes effect, the database
  holds the result of a prefix of the migrations, each applied and recorded once and in order; a start that succeeds has
  applied them all.\<close>

theorem schema_applies_prefix:
  assumes "increasing ms" and "appliedUpTo ms d0 k db"
  shows "\<exists>j. k \<le> j \<and> appliedUpTo ms d0 j (snd (fold (\<lambda>f (e, db). EnsureSchema ms f db) fs (None, db))) \<and>
    (fs \<noteq> [] \<and> sfRead (last fs) = None \<and> fst (fold (\<lambda>f (e, db). EnsureSchema ms f db) fs (None, db)) = None \<longrightarrow> j = length ms)"
  using assms(2)
proof (induction fs rule: rev_induct)
  case Nil
  then show ?case by auto
next
  case (snoc f fs)
  obtain e0 db0 where s: "fold (\<lambda>f (e, db). EnsureSchema ms f db) fs (None, db) = (e0, db0)" by (rule prod.exhaust)
  with snoc obtain i where i: "k \<le> i" "appliedUpTo ms d0 i db0" by auto
  obtain e j db' where "EnsureSchema ms f db0 = (e, db') \<and> appliedUpTo ms d0 j db' \<and> i \<le> j \<and> (sfRead f = None \<and> e = None \<longrightarrow> j = length ms)"
    using ensure_step [OF assms(1) i(2)] by blast
  then show ?case using s i(1) by (auto intro: exI [of _ j])
qed

end
