(* ===== verification/Spec2Isabelle.thy ===== *)
theory Spec2Isabelle
  imports WavePlanner PolicyProofs Orchestrator AgentAuth LLMProofs Sessions IngestProofs HubProofs Notify TelemetryProofs FindingsQuery AgilityProofs CommandApiProofs FindingApiProofs ReportProofs LLMApiProofs PolicyApiProofs AdminApiProofs RouterProofs WaveApiProofs HSMProofs StartUpProofs AgentCliProofs CertsProofs LabProofs PkiProofs ReadApiProofs ExportsProofs Schema
begin

text \<open>
  \<^bold>\<open>A verification development for the Janus CryptoBOM control plane.\<close> The program is a Go server
  (\<^verbatim>\<open>src/server\<close>), with a Rust agent and a web dashboard around it. Agents report the
  cryptography they find on their hosts; the policy engine turns a report into findings; the wave
  planner orders the findings into migration waves; an LLM service gives verdicts and remediation
  suggestions on findings, behind deterministic checks and a governor; the orchestrator signs
  migration commands, with keys of a key store and certificates of its own, and queues them for the
  agents. Requests are authenticated by dashboard sessions, agent tokens and WebSocket tickets, and
  actions are recorded in a hash-chained audit log. Paths below are under \<^verbatim>\<open>src/server/internal/\<close> unless
  they begin with \<^verbatim>\<open>cmd/\<close>, which is under \<^verbatim>\<open>src/server/\<close>. A theory whose name ends in \<open>Proofs\<close>
  holds the proofs about the model of the theory before it.

  \<^bold>\<open>The library.\<close>

  \<^item> \<^verbatim>\<open>GoLib\<close>: Go strings as byte lists with the functions of package strings, decimals,
    errors as sums. \<^verbatim>\<open>Tables\<close>: SQL statements on keyed tables; the locale \<open>keyed_update\<close> is the
    contract of an UPDATE. \<^verbatim>\<open>Codes\<close>: hexadecimal, base64 and JSON strings with their round trips
    and injectivity; the locale \<open>tag_scheme\<close> is the contract of a keyed tag. \<^verbatim>\<open>Der\<close>: the part of
    encoding/asn1 that the certificates use.

  \<^bold>\<open>From a report to findings.\<close>

  \<^item> \<^verbatim>\<open>PolicyTypes\<close>, \<^verbatim>\<open>OSV\<close>, \<^verbatim>\<open>PolicyEngine\<close>, \<^verbatim>\<open>PolicyProofs\<close>, \<^verbatim>\<open>ControlPack\<close>
    (\<^verbatim>\<open>pb/types.go\<close>, \<^verbatim>\<open>policy/\<close>): the telemetry, the OSV client with its cache, the whole assessment
    as passes over the payload (locale \<open>finding_pass\<close>: a pass only appends findings and does not
    read the ones before), profile loading, and the signed control pack.

  \<^item> \<^verbatim>\<open>Ingest\<close>, \<^verbatim>\<open>IngestProofs\<close>, \<^verbatim>\<open>FindingsQuery\<close> (\<^verbatim>\<open>store/store.go\<close>): telemetry into the store as one
    transaction, the lifecycle of findings and its log, and the queries on findings. \<^verbatim>\<open>AgentStore\<close>,
    \<^verbatim>\<open>TelemetryServer\<close>, \<^verbatim>\<open>TelemetryProofs\<close> (\<^verbatim>\<open>grpcserver/server.go\<close>): the tables of the agents and the
    gRPC server over them. \<^verbatim>\<open>FleetQuery\<close>, \<^verbatim>\<open>FleetProofs\<close>: overview, assets, scans, components,
    migrations, heartbeats.

  \<^item> \<^verbatim>\<open>WaveGraph\<close>, \<^verbatim>\<open>WavePlanner\<close>, \<^verbatim>\<open>WaveApi\<close> (\<^verbatim>\<open>waveplan/\<close>, \<^verbatim>\<open>httpapi/agility_waves.go\<close>): the
    dependency graph of the waves, its ordering with its cycle check, building and activating plans,
    the handlers and what the audit log says of them. \<^verbatim>\<open>Agility\<close> (\<^verbatim>\<open>agility/\<close>): scorecards and the exercise.

  \<^item> \<^verbatim>\<open>PatchGuard\<close>, \<^verbatim>\<open>Governor\<close>, \<^verbatim>\<open>LLMService\<close>, \<^verbatim>\<open>LLMProofs\<close>, \<^verbatim>\<open>LLMApi\<close> (\<^verbatim>\<open>llm/\<close>,
    \<^verbatim>\<open>httpapi/llm_analysis.go\<close>, \<^verbatim>\<open>llm_batch.go\<close>): the patch checks, the rate limiter and the governor, both
    pipelines with every early return, the invariant of every state a run can reach (locale
    \<open>llm_statement\<close>: a statement keeps the invariant and never removes provenance), the handlers and
    the batches as interleaved steps.

  \<^bold>\<open>Commands and keys.\<close>

  \<^item> \<^verbatim>\<open>Orchestrator\<close> (\<^verbatim>\<open>orchestrator/orchestrator.go\<close>): the text a command is signed over, HMAC and
    ML-DSA envelopes, the per-host queues (locale \<open>mailbox\<close>).

  \<^item> \<^verbatim>\<open>HSM\<close>, \<^verbatim>\<open>Pkcs11\<close>, \<^verbatim>\<open>HSMApi\<close>, \<^verbatim>\<open>HSMProofs\<close> (\<^verbatim>\<open>hsm/\<close>): the software store, the PKCS\#11 client over an
    abstract module, the choice between them and their handlers (locale \<open>pqc_generator\<close>: a generator
    refuses what is no post-quantum signature and then changes nothing). \<^verbatim>\<open>Certs\<close>, \<^verbatim>\<open>CertsProofs\<close>, \<^verbatim>\<open>Pki\<close>,
    \<^verbatim>\<open>PkiProofs\<close> (\<^verbatim>\<open>certmanager/\<close>, \<^verbatim>\<open>cmd/janus-server/cli_pki.go\<close>): certificates of the command keys, TLS
    certificates and requests.

  \<^item> \<^verbatim>\<open>Config\<close>, \<^verbatim>\<open>StartUp\<close>, \<^verbatim>\<open>StartUpProofs\<close> (\<^verbatim>\<open>config/\<close>, \<^verbatim>\<open>cmd/janus-server/main.go\<close>): the settings and
    what the server starts with; \<^verbatim>\<open>AgentCli\<close>, \<^verbatim>\<open>AgentCliProofs\<close> (\<^verbatim>\<open>cmd/janus-server/cli_agent.go\<close>):
    the enrollment of agents.

  \<^bold>\<open>The HTTP server.\<close>

  \<^item> \<^verbatim>\<open>Router\<close>, \<^verbatim>\<open>Metrics\<close>, \<^verbatim>\<open>RouterProofs\<close> (\<^verbatim>\<open>httpapi/server.go\<close>, \<^verbatim>\<open>metrics/\<close>): the route table, the middleware
    in its order, the rate limiter and the registry of metrics. \<^verbatim>\<open>Sessions\<close> (\<^verbatim>\<open>httpapi/auth.go\<close>,
    \<^verbatim>\<open>auth_password.go\<close>, \<^verbatim>\<open>ws_ticket.go\<close>): JWTs, login, password change with the revocation cache,
    tickets. \<^verbatim>\<open>AgentAuth\<close> (\<^verbatim>\<open>agentauth/\<close>, \<^verbatim>\<open>grpcserver/agent_auth.go\<close>): agent keys and tokens, whose
    freshness check works on 64-bit words. \<^verbatim>\<open>AuditChain\<close> (\<^verbatim>\<open>store/store.go\<close>): the audit log.

  \<^item> \<^verbatim>\<open>CommandApi\<close>, \<^verbatim>\<open>FindingApi\<close>, \<^verbatim>\<open>PolicyApi\<close>, \<^verbatim>\<open>AdminApi\<close> with their proofs: the handlers that change
    state. \<^verbatim>\<open>ReadApi\<close>, \<^verbatim>\<open>ReadApiProofs\<close>: those that read. \<^verbatim>\<open>Reports\<close>, \<^verbatim>\<open>ReportProofs\<close>: reports and CSV
    exports. \<^verbatim>\<open>Exports\<close>, \<^verbatim>\<open>ExportsProofs\<close>: the values of the CycloneDX, SARIF and SIEM exports, the text of
    the metrics page, the proxy and the connection test of the LLM provider. \<^verbatim>\<open>Schema\<close>
    (\<^verbatim>\<open>store/ensure_schema.go\<close>): the migrations at start-up; whatever fails, a prefix of them is applied.
    \<^verbatim>\<open>Lab\<close>, \<^verbatim>\<open>LabProofs\<close> (\<^verbatim>\<open>sandbox/\<close>, \<^verbatim>\<open>policy/confidence.go\<close>, \<^verbatim>\<open>httpapi/release_check.go\<close>): simulations,
    the confidence report, the release check.

  \<^item> \<^verbatim>\<open>Hub\<close>, \<^verbatim>\<open>HubProofs\<close> (\<^verbatim>\<open>ws/hub.go\<close>): the frame codec and the broadcasts. \<^verbatim>\<open>UrlGuard\<close> (locale \<open>url_guard\<close>),
    \<^verbatim>\<open>Webhooks\<close>, \<^verbatim>\<open>Notify\<close> (\<^verbatim>\<open>httpapi/webhook_validate.go\<close>, \<^verbatim>\<open>grpcserver/\<close>, \<^verbatim>\<open>notify/\<close>): checked addresses, the
    webhooks with their circuit breaker, operator alerts.

  \<^bold>\<open>Conventions.\<close> A Go struct is a record, with a prefix where two structs share a field name. A
  database table is the list of its rows in insertion order; a statement takes the table and the
  error it would meet, or draws it from a list of errors to come, so that every error path of the code
  is a branch of the model. The order in which the database reads rows and Go walks a map is a
  parameter. A string is its bytes; a floating-point number is a real number; a request body is an
  argument as the decoder returned it, a document the value that is printed. Code that is not in the
  repository is a parameter: SHA-256, HMAC, HKDF, bcrypt, ML-DSA, the PKCS\#11 module, crypto/x509 and
  openssl, the HTTP provider, the JSON decoders, UUIDs and random bytes. Clock readings are arguments,
  in the order the code reads the clock. Where a theorem needs a property of a parameter it is a
  premise (a decoder reads back what was encoded; a hash does not return the empty string) or an
  explicit alternative (or the MAC collides).

  \<^bold>\<open>What the lemmas show.\<close> The wave planner's order is a topological one and its failures are exactly
  the cyclic graphs; assessments only append and are repeatable; the log of findings and the log of
  waves replay to the tables; commands are delivered once and verify exactly when they were signed; a
  signature of the key store keeps verifying and a chain that was issued verifies; tokens, sessions and
  tickets are accepted exactly for whom and as long as they should be, and a request reaches a handler
  only with a role it allows; every stored verdict and every automatically applied suggestion has passed
  its checks; batches end and submit what they may; the hub and the pages of findings keep tenants
  apart; the audit log verifies and its last hash commits to its rows; keys that openssl makes do not
  stay on disk. Where the code does not do what its comments promise a lemma shows it.

  \<^bold>\<open>Bounds.\<close> Every recursion is structural or has a measure (the wave ordering counts the unplaced
  nodes). Only the readers of \<^verbatim>\<open>Der\<close> for the arcs of an identifier and for a list of elements count down:
  from the length of the content, which is enough because each arc and each element takes a byte. Lengths
  in certificates are below \<open>2 ^ 30\<close> where a theorem says so; Go's own reader takes lengths below \<open>2 ^ 31\<close>.

  \<^bold>\<open>Not modelled.\<close> The PKCS\#11 client for Windows, whose content is the memory layout of C structures;
  the gRPC transport and the protobuf method stubs; the text of the SQL migrations; the single-page
  application; the printing of JSON documents; start-up logging, sockets and goroutines; the \<^verbatim>\<open>hsm\<close> command line, which prints what the client returns; the packaging, the Rust agent
  and the dashboard.
\<close>

end
